(* ===== verification/Py_Prelude.thy ===== *)
theory Py_Prelude
  imports Complex_Main
begin

section \<open>Prelude: exceptions, results and Python values\<close>

text \<open>
  The vocabulary every component theory shares.

  \<^item> \<open>exn\<close> and \<open>'a res\<close>: a Python call either raises (\<open>Inl\<close>) or returns (\<open>Inr\<close>); \<open>bindE\<close> is
    sequencing, \<open>mapE\<close> a list comprehension whose body may raise.
  \<^item> \<open>pystr\<close>: a Python \<open>str\<close>, the list of its code points, so \<open>len\<close> counts code points and lone
    surrogates exist; \<open>str\<close> turns a literal into one.
  \<^item> \<open>pyval\<close>: the values that code typed \<open>Any\<close> handles. Dictionaries are association lists in
    insertion order; floats are exact rationals, infinities or NaN; any other object is \<open>POther\<close>.
  \<^item> \<open>py_eq\<close>: Python's \<open>==\<close> on them, where \<open>True == 1 == 1.0\<close> and dictionaries ignore order.
\<close>

named_theorems py_eval \<open>equations that evaluate the Python layer on literals\<close>
named_theorems res_elim \<open>inversions of computations that returned\<close>

subsection \<open>Exceptions and results\<close>

datatype exn =
    TypeError
  | KeyError
  | AttributeError
  | IndexError
  | RecursionError
  | UnicodeError
  | JSONDecodeError
  | ValueError string
  | OSError "int option"
  | TimeoutError
  | CanonicalizationError string
  | ContractError string
  | EvidenceError string
  | SecretStreamError string
  | HpkeError string
  | GuestAgentError string
  | AgentProbeRuntimeError string
  | AgentProbeError string
  | FirecrackerRuntimeError string
  | FirecrackerUnavailable
  | FileNotFoundError
  | BrowserContractError string
  | TelemetrySchemaError string
  | OutwardReportSchemaError string
  | HostNativeExecutionDisabled
  | FirecrackerTransportError string
  | FirecrackerTimeoutError string
  | FirecrackerProtocolError string
  | FirecrackerResponseTooLarge string
  | FirecrackerJsonError string
  | FirecrackerStatusError int
  | BrowserEgressConfigurationError string
  | BrowserEgressStartupError string
  | BrowserEgressClosed string
  | BrowserEgressWorkerError string
  | BrowserEgressWorkerProtocolError string
  | BrowserEgressWorkerTimeout string
  | ProxyRejection int string "nat list option" "nat list option" bool bool
  | AssertionError string
  | ProbeDiscoveryError string
  | OtherException string

type_synonym 'a res = "exn + 'a"

fun bindE :: "'a res \<Rightarrow> ('a \<Rightarrow> 'b res) \<Rightarrow> 'b res" where
  "bindE (Inl e) f = Inl e"
| "bindE (Inr x) f = f x"

fun mapE :: "('a \<Rightarrow> 'b res) \<Rightarrow> 'a list \<Rightarrow> 'b list res" where
  "mapE f [] = Inr []"
| "mapE f (x # xs) = bindE (f x) (\<lambda>y. bindE (mapE f xs) (\<lambda>ys. Inr (y # ys)))"

definition isInr :: "'a res \<Rightarrow> bool" where
  "isInr m = (case m of Inl e \<Rightarrow> False | Inr x \<Rightarrow> True)"

lemma bindE_eq_Inr [res_elim]: "bindE m f = Inr y \<longleftrightarrow> (\<exists>x. m = Inr x \<and> f x = Inr y)"
  by (cases m) auto

lemma bindE_eq_Inl: "bindE m f = Inl e \<longleftrightarrow> m = Inl e \<or> (\<exists>x. m = Inr x \<and> f x = Inl e)"
  by (cases m) auto

lemma bindE_split:
  "P (bindE m f) \<longleftrightarrow> (\<forall>e. m = Inl e \<longrightarrow> P (Inl e)) \<and> (\<forall>x. m = Inr x \<longrightarrow> P (f x))"
  by (cases m) auto

lemma bindE_assoc: "bindE (bindE m f) g = bindE m (\<lambda>x. bindE (f x) g)"
  by (cases m) auto

lemma bindE_cong [fundef_cong]:
  "m = n \<Longrightarrow> (\<And>x. n = Inr x \<Longrightarrow> f x = g x) \<Longrightarrow> bindE m f = bindE n g"
  by (cases n) auto

lemma isInr_simps [simp]: "isInr (Inr x)" "\<not> isInr (Inl e)"
  by (auto simp: isInr_def)

lemma isInr_iff: "isInr m \<longleftrightarrow> (\<exists>x. m = Inr x)"
  by (cases m) auto

lemma if_Inl_eq_Inr [simp]:
  "((if c then Inl e else m) = Inr y) \<longleftrightarrow> \<not> c \<and> m = Inr y"
  by auto

lemma mapE_Inr_iff: "mapE f xs = Inr ys \<longleftrightarrow> list_all2 (\<lambda>x y. f x = Inr y) xs ys"
proof (induction xs arbitrary: ys)
  case Nil
  then show ?case by auto
next
  case (Cons x xs)
  then show ?case by (cases ys) (auto simp: bindE_eq_Inr)
qed

lemma mapE_length: "mapE f xs = Inr ys \<Longrightarrow> length ys = length xs"
  by (auto simp: mapE_Inr_iff list_all2_lengthD)

lemma mapE_all_Inr: "(\<And>x. x \<in> set xs \<Longrightarrow> f x = Inr (g x)) \<Longrightarrow> mapE f xs = Inr (map g xs)"
  by (induction xs) auto

text \<open>The exceptions a computation can raise.\<close>

definition raises_only :: "(exn \<Rightarrow> bool) \<Rightarrow> 'a res \<Rightarrow> bool" where
  "raises_only P m = (case m of Inl e \<Rightarrow> P e | Inr x \<Rightarrow> True)"

lemma raises_only_simps [simp]:
  "raises_only P (Inl e) = P e" "raises_only P (Inr x)"
  "raises_only P (bindE m f) \<longleftrightarrow> raises_only P m \<and> (\<forall>x. m = Inr x \<longrightarrow> raises_only P (f x))"
  by (cases m; simp add: raises_only_def)+

lemma raises_onlyD: "raises_only P m \<Longrightarrow> m = Inl e \<Longrightarrow> P e"
  by (simp add: raises_only_def)

lemma raises_onlyI: "(\<And>e. m = Inl e \<Longrightarrow> P e) \<Longrightarrow> raises_only P m"
  by (simp add: raises_only_def split: sum.split)

lemma raises_only_mapE: "(\<And>x. x \<in> set xs \<Longrightarrow> raises_only P (f x)) \<Longrightarrow> raises_only P (mapE f xs)"
  by (induction xs) auto

definition is_ValueError :: "exn \<Rightarrow> bool" where
  "is_ValueError e = (\<exists>m. e = ValueError m)"

lemma is_ValueError_simps [simp]: "is_ValueError (ValueError m)"
  by (simp add: is_ValueError_def)

subsection \<open>Lists\<close>

lemma list_all_mp: "list_all P s \<Longrightarrow> (\<And>c. P c \<Longrightarrow> Q c) \<Longrightarrow> list_all Q s"
  by (induction s) auto

lemma list_all_notin: "list_all P s \<Longrightarrow> \<not> P c \<Longrightarrow> c \<notin> set s"
  by (induction s) auto

subsection \<open>Strings as code points\<close>

type_synonym pystr = "nat list"

definition str :: "string \<Rightarrow> pystr" where
  "str s = map of_char s"

lemma str_inj [simp]: "str s = str t \<longleftrightarrow> s = t"
  by (simp add: str_def inj_map_eq_map inj_on_def)

lemma length_str [simp]: "length (str s) = length s"
  by (simp add: str_def)

lemma str_Nil [simp]: "str [] = []" "str s = [] \<longleftrightarrow> s = []" "[] = str s \<longleftrightarrow> s = []"
  by (auto simp: str_def)

lemma str_append: "str (s @ t) = str s @ str t"
  by (simp add: str_def)

lemma str_Cons: "str (c # s) = of_char c # str s"
  by (simp add: str_def)

end
