(* ===== verification/Py_Values.thy ===== *)
theory Py_Values
  imports Py_Prelude
begin

section \<open>Python values and the operations the sources use on them\<close>

text \<open>
  The value type \<open>pyval\<close>, its equality \<open>py_eq\<close>, the \<open>isinstance\<close> tests, dictionary access
  (\<open>d[k]\<close>, \<open>d.get(k)\<close>, \<open>set(d)\<close>), membership of a value in a set of strings, truth value, and
  the string predicates behind the anchored regular expressions.
\<close>

subsection \<open>Values\<close>

datatype pyfloat = Fin rat | PosInf | NegInf | NaN

datatype pykey = KStr pystr | KOther nat

datatype pyval =
    PNone
  | PBool bool
  | PInt int
  | PFloat pyfloat
  | PStr pystr
  | PList "pyval list"
  | PDict "(pykey \<times> pyval) list"
  | POther nat

type_synonym pydict = "(pykey \<times> pyval) list"

abbreviation S :: "string \<Rightarrow> pyval" where
  "S s \<equiv> PStr (str s)"

definition obj :: "(string \<times> pyval) list \<Rightarrow> pyval" where
  "obj kvs = PDict (map (\<lambda>(k, v). (KStr (str k), v)) kvs)"

subsection \<open>Equality\<close>

fun num_val :: "pyval \<Rightarrow> pyfloat option" where
  "num_val (PBool b) = Some (Fin (if b then 1 else 0))"
| "num_val (PInt i) = Some (Fin (of_int i))"
| "num_val (PFloat f) = Some f"
| "num_val _ = None"

fun num_eq :: "pyfloat \<Rightarrow> pyfloat \<Rightarrow> bool" where
  "num_eq NaN _ = False"
| "num_eq _ NaN = False"
| "num_eq x y = (x = y)"

fun py_eq :: "pyval \<Rightarrow> pyval \<Rightarrow> bool"
  and py_eq_list :: "pyval list \<Rightarrow> pyval list \<Rightarrow> bool"
  and py_eq_sub :: "(pykey \<times> pyval) list \<Rightarrow> (pykey \<times> pyval) list \<Rightarrow> bool" where
  "py_eq PNone w = (w = PNone)"
| "py_eq (PStr s) w = (w = PStr s)"
| "py_eq (POther n) w = (w = POther n)"
| "py_eq (PList xs) w = (case w of PList ys \<Rightarrow> py_eq_list xs ys | _ \<Rightarrow> False)"
| "py_eq (PDict d) w =
     (case w of PDict e \<Rightarrow> length d = length e \<and> py_eq_sub d e | _ \<Rightarrow> False)"
| "py_eq (PBool b) w =
     (case num_val w of None \<Rightarrow> False | Some y \<Rightarrow> num_eq (Fin (if b then 1 else 0)) y)"
| "py_eq (PInt i) w =
     (case num_val w of None \<Rightarrow> False | Some y \<Rightarrow> num_eq (Fin (of_int i)) y)"
| "py_eq (PFloat f) w = (case num_val w of None \<Rightarrow> False | Some y \<Rightarrow> num_eq f y)"
| "py_eq_list [] ys = (ys = [])"
| "py_eq_list (x # xs) ys = (case ys of [] \<Rightarrow> False | y # zs \<Rightarrow> py_eq x y \<and> py_eq_list xs zs)"
| "py_eq_sub [] e = True"
| "py_eq_sub ((k, v) # d) e =
     ((case map_of e k of None \<Rightarrow> False | Some w \<Rightarrow> py_eq v w) \<and> py_eq_sub d e)"

subsection \<open>isinstance, truth, hashing\<close>

fun is_str :: "pyval \<Rightarrow> bool" where "is_str (PStr _) = True" | "is_str _ = False"
fun is_bool :: "pyval \<Rightarrow> bool" where "is_bool (PBool _) = True" | "is_bool _ = False"
fun is_dict :: "pyval \<Rightarrow> bool" where "is_dict (PDict _) = True" | "is_dict _ = False"
fun is_list :: "pyval \<Rightarrow> bool" where "is_list (PList _) = True" | "is_list _ = False"

text \<open>\<open>isinstance(v, int)\<close> holds of booleans too; \<open>plain_int\<close> is the idiom that excludes them.\<close>

fun is_int :: "pyval \<Rightarrow> bool" where
  "is_int (PInt _) = True" | "is_int (PBool _) = True" | "is_int _ = False"

fun plain_int :: "pyval \<Rightarrow> int option" where
  "plain_int (PInt i) = Some i" | "plain_int _ = None"

text \<open>The idiom \<open>if not isinstance(v, T): raise e\<close>, returning the content.\<close>

definition as_str :: "exn \<Rightarrow> pyval \<Rightarrow> pystr res" where
  "as_str e v = (case v of PStr s \<Rightarrow> Inr s | _ \<Rightarrow> Inl e)"

definition as_int :: "exn \<Rightarrow> pyval \<Rightarrow> int res" where
  "as_int e v = (case v of PInt i \<Rightarrow> Inr i | _ \<Rightarrow> Inl e)"

definition as_bool :: "exn \<Rightarrow> pyval \<Rightarrow> bool res" where
  "as_bool e v = (case v of PBool b \<Rightarrow> Inr b | _ \<Rightarrow> Inl e)"

definition as_list :: "exn \<Rightarrow> pyval \<Rightarrow> pyval list res" where
  "as_list e v = (case v of PList xs \<Rightarrow> Inr xs | _ \<Rightarrow> Inl e)"

definition as_dict :: "exn \<Rightarrow> pyval \<Rightarrow> (pykey \<times> pyval) list res" where
  "as_dict e v = (case v of PDict d \<Rightarrow> Inr d | _ \<Rightarrow> Inl e)"

fun truthy :: "pyval \<Rightarrow> bool" where
  "truthy PNone = False"
| "truthy (PBool b) = b"
| "truthy (PInt i) = (i \<noteq> 0)"
| "truthy (PFloat f) = (f \<noteq> Fin 0)"
| "truthy (PStr s) = (s \<noteq> [])"
| "truthy (PList xs) = (xs \<noteq> [])"
| "truthy (PDict d) = (d \<noteq> [])"
| "truthy (POther _) = True"

fun hashable :: "pyval \<Rightarrow> bool" where
  "hashable (PList _) = False" | "hashable (PDict _) = False" | "hashable _ = True"

text \<open>\<open>v in {"a", "b"}\<close> for a set of string literals: an unhashable value raises.\<close>

definition in_strs :: "pyval \<Rightarrow> string list \<Rightarrow> bool" where
  "in_strs v ss = (case v of PStr s \<Rightarrow> s \<in> set (map str ss) | _ \<Rightarrow> False)"

definition in_set :: "pyval \<Rightarrow> string list \<Rightarrow> bool res" where
  "in_set v ss = (if hashable v then Inr (in_strs v ss) else Inl TypeError)"

subsection \<open>Dictionaries\<close>

fun dict_of :: "pyval \<Rightarrow> pydict" where
  "dict_of (PDict d) = d" | "dict_of _ = []"

definition dget :: "pydict \<Rightarrow> string \<Rightarrow> pyval option" where
  "dget d k = map_of d (KStr (str k))"

text \<open>\<open>value.get(k)\<close> with the default \<open>None\<close>, \<open>value[k]\<close>, and \<open>set(value) == {...}\<close>.\<close>

definition get :: "pyval \<Rightarrow> string \<Rightarrow> pyval" where
  "get v k = (case dget (dict_of v) k of None \<Rightarrow> PNone | Some w \<Rightarrow> w)"

definition item :: "pyval \<Rightarrow> string \<Rightarrow> pyval res" where
  "item v k = (case v of
      PDict d \<Rightarrow> (case dget d k of None \<Rightarrow> Inl KeyError | Some w \<Rightarrow> Inr w)
    | _ \<Rightarrow> Inl TypeError)"

definition keys_are :: "pyval \<Rightarrow> string list \<Rightarrow> bool" where
  "keys_are v ks = (set (map fst (dict_of v)) = KStr ` str ` set ks)"

definition has_shape :: "pyval \<Rightarrow> string list \<Rightarrow> bool" where
  "has_shape v ks = (is_dict v \<and> keys_are v ks)"

fun dupd :: "pydict \<Rightarrow> pykey \<Rightarrow> pyval \<Rightarrow> pydict" where
  "dupd [] k v = [(k, v)]"
| "dupd ((k', v') # d) k v = (if k' = k then (k, v) # d else (k', v') # dupd d k v)"

text \<open>\<open>{**d, **e}\<close>: the second operand wins, new keys go to the end.\<close>

definition dmerge :: "pydict \<Rightarrow> pydict \<Rightarrow> pydict" where
  "dmerge d e = foldl (\<lambda>d (k, v). dupd d k v) d e"

text \<open>What every Python dictionary satisfies at every level: no key twice.\<close>

fun wf_val :: "pyval \<Rightarrow> bool"
  and wf_list :: "pyval list \<Rightarrow> bool"
  and wf_items :: "pydict \<Rightarrow> bool" where
  "wf_val (PList xs) = wf_list xs"
| "wf_val (PDict d) = (distinct (map fst d) \<and> wf_items d)"
| "wf_val _ = True"
| "wf_list [] = True"
| "wf_list (x # xs) = (wf_val x \<and> wf_list xs)"
| "wf_items [] = True"
| "wf_items ((k, v) # d) = (wf_val v \<and> wf_items d)"

subsection \<open>Dictionary literals\<close>

lemma map_of_obj: "map_of (map (\<lambda>(k, v). (KStr (str k), v)) kvs) (KStr (str k)) = map_of kvs k"
  by (induction kvs) auto

lemma dict_of_obj: "dict_of (obj kvs) = map (\<lambda>(k, v). (KStr (str k), v)) kvs"
  by (simp add: obj_def)

lemma get_obj [py_eval]: "get (obj kvs) k = (case map_of kvs k of None \<Rightarrow> PNone | Some w \<Rightarrow> w)"
  by (simp add: get_def dget_def dict_of_obj map_of_obj)

lemma dget_obj [py_eval]: "dget (dict_of (obj kvs)) k = map_of kvs k"
  by (simp add: dget_def dict_of_obj map_of_obj)

lemma item_obj [py_eval]: "item (obj kvs) k = (case map_of kvs k of None \<Rightarrow> Inl KeyError | Some w \<Rightarrow> Inr w)"
  by (simp add: item_def obj_def dget_def map_of_obj)

lemma is_dict_obj [simp]: "is_dict (obj kvs)"
  by (simp add: obj_def)

lemma keys_are_obj [py_eval]: "keys_are (obj kvs) ks \<longleftrightarrow> set (map fst kvs) = set ks"
proof -
  have "set (map fst (dict_of (obj kvs))) = KStr ` str ` set (map fst kvs)"
    by (force simp: dict_of_obj)
  moreover have "inj KStr" "inj str" by (simp_all add: inj_def)
  ultimately show ?thesis unfolding keys_are_def
    by (simp only: inj_image_eq_iff)
qed

lemma has_shape_obj [py_eval]: "has_shape (obj kvs) ks \<longleftrightarrow> set (map fst kvs) = set ks"
  by (simp add: has_shape_def keys_are_obj)

lemma wf_obj [py_eval]:
  "wf_val (obj kvs) \<longleftrightarrow> distinct (map fst kvs) \<and> list_all (\<lambda>(k, v). wf_val v) kvs"
proof -
  have "wf_items (map (\<lambda>(k, v). (KStr (str k), v)) kvs) = list_all (\<lambda>(k, v). wf_val v) kvs"
    by (induction kvs) auto
  moreover have "distinct (map fst (map (\<lambda>(k, v). (KStr (str k), v)) kvs)) = distinct (map fst kvs)"
    by (induction kvs) force+
  ultimately show ?thesis by (simp add: obj_def)
qed

lemma has_shape_is_dict: "has_shape v ks \<Longrightarrow> is_dict v"
  by (simp add: has_shape_def)

lemma has_shape_item:
  assumes "has_shape v ks" "k \<in> set ks"
  shows "item v k = Inr (get v k)"
proof -
  from assms obtain d where v: "v = PDict d" by (cases v) (auto simp: has_shape_def)
  from assms have "KStr (str k) \<in> fst ` set d" by (auto simp: v has_shape_def keys_are_def)
  then obtain w where "map_of d (KStr (str k)) = Some w"
    by (metis domD dom_map_of_conv_image_fst)
  then show ?thesis by (simp add: v item_def get_def dget_def)
qed

lemma py_eq_str [simp]: "py_eq v (PStr s) \<longleftrightarrow> v = PStr s"
  by (cases v) auto

lemma py_eq_None [simp]: "py_eq v PNone \<longleftrightarrow> v = PNone"
  by (cases v) auto

lemma in_strs_iff: "in_strs v ss \<longleftrightarrow> (\<exists>s\<in>set ss. v = S s)"
  by (auto simp: in_strs_def split: pyval.splits)

lemma in_strs_S [py_eval]: "in_strs (S s) ss \<longleftrightarrow> s \<in> set ss"
  by (auto simp: in_strs_def)

lemma as_Inr [simp]:
  "as_str e v = Inr s \<longleftrightarrow> v = PStr s"
  "as_int e v = Inr i \<longleftrightarrow> v = PInt i"
  "as_bool e v = Inr b \<longleftrightarrow> v = PBool b"
  "as_list e v = Inr xs \<longleftrightarrow> v = PList xs"
  "as_dict e v = Inr d \<longleftrightarrow> v = PDict d"
  by (cases v; simp add: as_str_def as_int_def as_bool_def as_list_def as_dict_def)+

lemma as_eval [simp]:
  "as_str e (PStr s) = Inr s" "as_int e (PInt i) = Inr i" "as_bool e (PBool b) = Inr b"
  "as_list e (PList xs) = Inr xs" "as_dict e (PDict d) = Inr d"
  by (simp_all add: as_str_def as_int_def as_bool_def as_list_def as_dict_def)

lemma as_exn [simp]:
  "P e \<Longrightarrow> raises_only P (as_str e v)" "P e \<Longrightarrow> raises_only P (as_int e v)"
  "P e \<Longrightarrow> raises_only P (as_bool e v)" "P e \<Longrightarrow> raises_only P (as_list e v)"
  "P e \<Longrightarrow> raises_only P (as_dict e v)"
  by (cases v; simp add: as_str_def as_int_def as_bool_def as_list_def as_dict_def)+

lemma is_str_iff: "is_str v \<longleftrightarrow> (\<exists>s. v = PStr s)"
  by (cases v) auto

lemma plain_int_iff: "plain_int v = Some i \<longleftrightarrow> v = PInt i"
  by (cases v) auto

end
