(* ===== verification/Py_Bytes.thy ===== *)
theory Py_Bytes
  imports Py_Values "HOL-Library.Word"
begin

section \<open>Bytes, text encodings, hexadecimal and base64\<close>

text \<open>
  The parts of Python's standard library that turn text into bytes and back: the UTF-8 codec
  (strict and with \<open>surrogatepass\<close>), \<open>bytes.hex\<close> and \<open>bytes.fromhex\<close>, \<open>base64.b64encode\<close> and
  \<open>base64.b64decode(..., validate=True)\<close>. Bytes are 8-bit words. The strict base64 decoder is the
  state machine of \<open>binascii.a2b_base64\<close> in Python 3.11; it does not look at the unused low bits
  of the last data character.
\<close>

unbundle bit_operations_syntax

type_synonym byte = "8 word"
type_synonym bytes = "byte list"

definition bytes_of :: "string \<Rightarrow> bytes" where
  "bytes_of s = map of_char s"

subsection \<open>UTF-8\<close>

definition byte_of :: "nat \<Rightarrow> byte" where
  "byte_of n = word_of_nat n"

definition utf8_char :: "nat \<Rightarrow> bytes option" where
  "utf8_char c =
     (if c < 0x80 then Some [byte_of c]
      else if c < 0x800 then Some [byte_of (0xC0 + c div 64), byte_of (0x80 + c mod 64)]
      else if 0xD800 \<le> c \<and> c < 0xE000 then None
      else if c < 0x10000 then
        Some [byte_of (0xE0 + c div 4096), byte_of (0x80 + c div 64 mod 64), byte_of (0x80 + c mod 64)]
      else if c < 0x110000 then
        Some [byte_of (0xF0 + c div 262144), byte_of (0x80 + c div 4096 mod 64),
              byte_of (0x80 + c div 64 mod 64), byte_of (0x80 + c mod 64)]
      else None)"

fun utf8_encode :: "pystr \<Rightarrow> bytes option" where
  "utf8_encode [] = Some []"
| "utf8_encode (c # s) =
     (case utf8_char c of None \<Rightarrow> None | Some b \<Rightarrow> map_option ((@) b) (utf8_encode s))"

definition is_cont :: "byte \<Rightarrow> bool" where
  "is_cont b = (0x80 \<le> unat b \<and> unat b < 0xC0)"

definition low6 :: "byte \<Rightarrow> nat" where
  "low6 b = unat b - 0x80"

text \<open>The flag says whether encoded surrogates pass (\<open>surrogatepass\<close>) or fail (\<open>strict\<close>).\<close>

fun utf8_decode :: "bool \<Rightarrow> bytes \<Rightarrow> pystr option" where
  "utf8_decode sp [] = Some []"
| "utf8_decode sp (b0 # bs) =
     (let n = unat b0 in
      if n < 0x80 then map_option ((#) n) (utf8_decode sp bs)
      else if n < 0xC2 then None
      else if n < 0xE0 then
        (case bs of
           b1 # r \<Rightarrow>
             if is_cont b1 then map_option ((#) ((n - 0xC0) * 64 + low6 b1)) (utf8_decode sp r)
             else None
         | _ \<Rightarrow> None)
      else if n < 0xF0 then
        (case bs of
           b1 # b2 # r \<Rightarrow>
             (let c = (n - 0xE0) * 4096 + low6 b1 * 64 + low6 b2 in
              if is_cont b1 \<and> is_cont b2 \<and> 0x800 \<le> c \<and> (sp \<or> \<not> (0xD800 \<le> c \<and> c < 0xE000))
              then map_option ((#) c) (utf8_decode sp r) else None)
         | _ \<Rightarrow> None)
      else if n < 0xF5 then
        (case bs of
           b1 # b2 # b3 # r \<Rightarrow>
             (let c = (n - 0xF0) * 262144 + low6 b1 * 4096 + low6 b2 * 64 + low6 b3 in
              if is_cont b1 \<and> is_cont b2 \<and> is_cont b3 \<and> 0x10000 \<le> c \<and> c < 0x110000
              then map_option ((#) c) (utf8_decode sp r) else None)
         | _ \<Rightarrow> None)
      else None)"

declare utf8_decode.simps(2) [simp del]

subsection \<open>Hexadecimal\<close>

definition hex_digit :: "nat \<Rightarrow> nat" where
  "hex_digit n = (if n < 10 then 48 + n else 87 + n)"

definition hex_byte :: "byte \<Rightarrow> pystr" where
  "hex_byte b = [hex_digit (unat b div 16), hex_digit (unat b mod 16)]"

definition hex_of :: "bytes \<Rightarrow> pystr" where
  "hex_of bs = concat (map hex_byte bs)"

definition hex_val :: "nat \<Rightarrow> nat option" where
  "hex_val c =
     (if 48 \<le> c \<and> c \<le> 57 then Some (c - 48)
      else if 97 \<le> c \<and> c \<le> 102 then Some (c - 87)
      else if 65 \<le> c \<and> c \<le> 70 then Some (c - 55)
      else None)"

definition ascii_space :: "nat \<Rightarrow> bool" where
  "ascii_space c = (c = 32 \<or> (9 \<le> c \<and> c \<le> 13))"

fun fromhex :: "pystr \<Rightarrow> bytes option" where
  "fromhex [] = Some []"
| "fromhex [c] = (if ascii_space c then Some [] else None)"
| "fromhex (c # d # s) =
     (if ascii_space c then fromhex (d # s)
      else (case (hex_val c, hex_val d) of
              (Some h, Some l) \<Rightarrow> map_option ((#) (byte_of (16 * h + l))) (fromhex s)
            | _ \<Rightarrow> None))"

definition is_hex_char :: "nat \<Rightarrow> bool" where
  "is_hex_char c = ((48 \<le> c \<and> c \<le> 57) \<or> (97 \<le> c \<and> c \<le> 102))"

text \<open>The regular expression \<open>[0-9a-f]{64}\<close> under \<open>fullmatch\<close>.\<close>

definition is_digest :: "pystr \<Rightarrow> bool" where
  "is_digest s = (length s = 64 \<and> list_all is_hex_char s)"

subsection \<open>Base64\<close>

definition b64_char :: "nat \<Rightarrow> nat" where
  "b64_char n =
     (if n < 26 then 65 + n else if n < 52 then 71 + n else if n < 62 then n - 4
      else if n = 62 then 43 else 47)"

fun b64encode :: "bytes \<Rightarrow> pystr" where
  "b64encode [] = []"
| "b64encode [x] =
     [b64_char (unat x div 4), b64_char (unat x mod 4 * 16), 61, 61]"
| "b64encode [x, y] =
     [b64_char (unat x div 4), b64_char (unat x mod 4 * 16 + unat y div 16),
      b64_char (unat y mod 16 * 4), 61]"
| "b64encode (x # y # z # bs) =
     [b64_char (unat x div 4), b64_char (unat x mod 4 * 16 + unat y div 16),
      b64_char (unat y mod 16 * 4 + unat z div 64), b64_char (unat z mod 64)] @ b64encode bs"

definition b64_val :: "nat \<Rightarrow> nat option" where
  "b64_val c =
     (if 65 \<le> c \<and> c \<le> 90 then Some (c - 65)
      else if 97 \<le> c \<and> c \<le> 122 then Some (c - 71)
      else if 48 \<le> c \<and> c \<le> 57 then Some (c + 4)
      else if c = 43 then Some 62 else if c = 47 then Some 63 else None)"

text \<open>
  \<open>a2b q left pads started s\<close>: quad position, pending bits, pads since the last data character and
  whether padding has started.
\<close>

fun a2b :: "nat \<Rightarrow> nat \<Rightarrow> nat \<Rightarrow> bool \<Rightarrow> pystr \<Rightarrow> bytes option" where
  "a2b q left pads started [] = (if q = 0 then Some [] else None)"
| "a2b q left pads started (c # s) =
     (if c = 61 then
        (if 2 \<le> q \<and> 4 \<le> q + Suc pads then (if s = [] then Some [] else None)
         else a2b q left (if 2 \<le> q then Suc pads else pads) True s)
      else case b64_val c of
          None \<Rightarrow> None
        | Some v \<Rightarrow>
            if started then None
            else if q = 0 then a2b 1 v 0 started s
            else if q = 1 then
              map_option ((#) (byte_of (left * 4 + v div 16))) (a2b 2 (v mod 16) 0 started s)
            else if q = 2 then
              map_option ((#) (byte_of (left * 16 + v div 4))) (a2b 3 (v mod 4) 0 started s)
            else map_option ((#) (byte_of (left * 64 + v))) (a2b 0 0 0 started s))"

definition b64decode :: "pystr \<Rightarrow> bytes option" where
  "b64decode s = (if s \<noteq> [] \<and> hd s = 61 then None else a2b 0 0 0 False s)"

subsection \<open>Round trips\<close>

lemma unat_byte_of [simp]: "n < 256 \<Longrightarrow> unat (byte_of n) = n"
  by (simp add: byte_of_def unat_of_nat)

lemma byte_of_unat [simp]: "byte_of (unat b) = b"
  by (simp add: byte_of_def)

lemma unat_byte_lt [simp]: "unat (b :: byte) < 256"
  using unsigned_less [of b, where 'a = nat] by simp

lemma cont_byte: "x < 64 \<Longrightarrow> is_cont (byte_of (128 + x)) \<and> low6 (byte_of (128 + x)) = x"
  by (simp add: is_cont_def low6_def)

lemma utf8_decode_2:
  assumes "2 \<le> a" "a < 32" "x < 64"
  shows "utf8_decode sp (byte_of (192 + a) # byte_of (128 + x) # r)
         = map_option ((#) (a * 64 + x)) (utf8_decode sp r)"
  using assms cont_byte [of x] by (simp add: utf8_decode.simps(2) Let_def)

lemma utf8_decode_3:
  assumes "a < 16" "x < 64" "y < 64" "2048 \<le> a * 4096 + x * 64 + y"
    and "\<not> (55296 \<le> a * 4096 + x * 64 + y \<and> a * 4096 + x * 64 + y < 57344)"
  shows "utf8_decode sp (byte_of (224 + a) # byte_of (128 + x) # byte_of (128 + y) # r)
         = map_option ((#) (a * 4096 + x * 64 + y)) (utf8_decode sp r)"
  using assms cont_byte [of x] cont_byte [of y] by (simp add: utf8_decode.simps(2) Let_def)

lemma utf8_decode_4:
  assumes "a < 5" "x < 64" "y < 64" "z < 64"
    and "65536 \<le> a * 262144 + x * 4096 + y * 64 + z" "a * 262144 + x * 4096 + y * 64 + z < 1114112"
  shows "utf8_decode sp (byte_of (240 + a) # byte_of (128 + x) # byte_of (128 + y) # byte_of (128 + z) # r)
         = map_option ((#) (a * 262144 + x * 4096 + y * 64 + z)) (utf8_decode sp r)"
  using assms cont_byte [of x] cont_byte [of y] cont_byte [of z]
  by (simp add: utf8_decode.simps(2) Let_def)

lemma split64_3: "(c::nat) div 4096 * 4096 + c div 64 mod 64 * 64 + c mod 64 = c"
proof -
  have "c div 4096 = c div 64 div 64" by (simp add: div_mult2_eq [symmetric])
  moreover have "c div 64 div 64 * 64 + c div 64 mod 64 = c div 64" "c div 64 * 64 + c mod 64 = c"
    by simp_all
  ultimately show ?thesis by linarith
qed

lemma split64_4:
  "(c::nat) div 262144 * 262144 + c div 4096 mod 64 * 4096 + c div 64 mod 64 * 64 + c mod 64 = c"
proof -
  have "c div 262144 = c div 4096 div 64" by (simp add: div_mult2_eq [symmetric])
  moreover have "c div 4096 div 64 * 64 + c div 4096 mod 64 = c div 4096" by simp
  ultimately show ?thesis using split64_3 [of c] by linarith
qed

lemma utf8_char_decode:
  assumes "utf8_char c = Some b"
  shows "utf8_decode sp (b @ r) = map_option ((#) c) (utf8_decode sp r)"
proof -
  consider "c < 128" | "128 \<le> c" "c < 2048"
    | "2048 \<le> c" "c < 65536" "\<not> (55296 \<le> c \<and> c < 57344)"
    | "65536 \<le> c" "c < 1114112"
    using assms unfolding utf8_char_def by (fastforce split: if_splits)
  then show ?thesis
  proof cases
    case 1
    with assms have "b = [byte_of c]" by (simp add: utf8_char_def)
    with 1 show ?thesis by (simp add: utf8_decode.simps(2))
  next
    case 2
    then have "c div 64 < 32" "2 \<le> c div 64" by (simp_all add: div_less_iff_less_mult less_eq_div_iff_mult_less_eq)
    moreover from 2 assms have "b = [byte_of (192 + c div 64), byte_of (128 + c mod 64)]"
      by (simp add: utf8_char_def)
    ultimately show ?thesis using utf8_decode_2 [of "c div 64" "c mod 64" sp r] by simp
  next
    case 3
    then have "c div 4096 < 16" by (simp add: div_less_iff_less_mult)
    moreover from 3 assms have
      "b = [byte_of (224 + c div 4096), byte_of (128 + c div 64 mod 64), byte_of (128 + c mod 64)]"
      by (simp add: utf8_char_def split: if_splits)
    ultimately show ?thesis
      using 3 utf8_decode_3 [of "c div 4096" "c div 64 mod 64" "c mod 64" sp r]
      by (simp add: split64_3)
  next
    case 4
    then have "c div 262144 < 5" by (simp add: div_less_iff_less_mult)
    moreover from 4 assms have
      "b = [byte_of (240 + c div 262144), byte_of (128 + c div 4096 mod 64),
            byte_of (128 + c div 64 mod 64), byte_of (128 + c mod 64)]"
      by (simp add: utf8_char_def)
    ultimately show ?thesis
      using 4 utf8_decode_4 [of "c div 262144" "c div 4096 mod 64" "c div 64 mod 64" "c mod 64" sp r]
      by (simp add: split64_4)
  qed
qed

lemma utf8_roundtrip: "utf8_encode s = Some b \<Longrightarrow> utf8_decode sp b = Some s"
  by (induction s arbitrary: b) (auto simp: utf8_char_decode split: option.splits)

lemma hex_val_digit: "n < 16 \<Longrightarrow> hex_val (hex_digit n) = Some n"
  by (auto simp: hex_val_def hex_digit_def)

lemma hex_digit_not_space: "\<not> ascii_space (hex_digit n)"
  by (auto simp: ascii_space_def hex_digit_def)

lemma hex_digit_is_hex: "n < 16 \<Longrightarrow> is_hex_char (hex_digit n)"
  by (auto simp: is_hex_char_def hex_digit_def)

lemma div16_lt: "unat (b :: byte) div 16 < 16"
  using unat_byte_lt [of b] by linarith

lemma fromhex_hex_of: "fromhex (hex_of bs) = Some bs"
proof (induction bs)
  case Nil
  then show ?case by (simp add: hex_of_def)
next
  case (Cons b bs)
  then show ?case
    by (simp add: hex_of_def hex_byte_def hex_val_digit hex_digit_not_space div16_lt)
qed

lemma hex_of_all_hex: "list_all is_hex_char (hex_of bs)"
  by (auto simp: hex_of_def hex_byte_def list_all_iff hex_digit_is_hex div16_lt)

lemma length_hex_of [simp]: "length (hex_of bs) = 2 * length bs"
  by (induction bs) (auto simp: hex_of_def hex_byte_def)

lemma hex_of_is_digest: "length bs = 32 \<Longrightarrow> is_digest (hex_of bs)"
  by (simp add: is_digest_def hex_of_all_hex)

lemma b64_val_char: "n < 64 \<Longrightarrow> b64_val (b64_char n) = Some n"
  by (auto simp: b64_val_def b64_char_def)

lemma b64_char_not_pad: "b64_char n \<noteq> 61"
  by (auto simp: b64_char_def)

lemma a2b_b64encode: "a2b 0 0 0 False (b64encode bs) = Some bs"
proof (induction bs rule: b64encode.induct)
  case (2 x)
  have "unat x div 4 < 64" using unat_byte_lt [of x] by linarith
  then show ?case by (simp add: b64_val_char b64_char_not_pad)
next
  case (3 x y)
  have "unat x div 4 < 64" "unat y div 16 < 16"
    using unat_byte_lt [of x] unat_byte_lt [of y] by linarith+
  moreover from this have "unat x mod 4 * 16 + unat y div 16 < 64" by linarith
  ultimately show ?case by (simp add: b64_val_char b64_char_not_pad)
next
  case (4 x y z bs)
  have "unat x div 4 < 64" "unat y div 16 < 16" "unat z div 64 < 4"
    using unat_byte_lt [of x] unat_byte_lt [of y] unat_byte_lt [of z] by linarith+
  moreover from this have "unat x mod 4 * 16 + unat y div 16 < 64"
    "unat y mod 16 * 4 + unat z div 64 < 64" by linarith+
  ultimately show ?case using "4.IH" by (simp add: b64_val_char b64_char_not_pad)
qed simp

lemma b64_roundtrip: "b64decode (b64encode bs) = Some bs"
proof -
  have "b64encode bs = [] \<or> hd (b64encode bs) \<noteq> 61"
    by (cases bs rule: b64encode.cases) (auto simp: b64_char_not_pad)
  then show ?thesis by (auto simp: b64decode_def a2b_b64encode)
qed

end
