(* ===== verification/Sha256.thy ===== *)
theory Sha256
  imports Py_Bytes
begin

section \<open>SHA-256 and HMAC-SHA256\<close>

text \<open>
  \<open>hashlib.sha256\<close> and \<open>hmac.new(key, msg, hashlib.sha256)\<close> as executable functions on bytes:
  padding to 64-byte blocks, the message schedule and the 64 rounds on 32-bit words, and the HMAC
  construction with its key block. The rest of the development uses three facts: a digest has 32
  bytes, its hexadecimal form matches \<open>[0-9a-f]{64}\<close>, and two inputs with one digest are either
  equal or a collision (\<open>sha256_collision\<close>). The locale \<open>digest_function\<close> states that interface
  and is interpreted on the functions themselves.
\<close>

type_synonym w32 = "32 word"

definition rotr :: "nat \<Rightarrow> w32 \<Rightarrow> w32" where
  "rotr n w = (drop_bit n w OR push_bit (32 - n) w)"

definition Ch :: "w32 \<Rightarrow> w32 \<Rightarrow> w32 \<Rightarrow> w32" where
  "Ch x y z = ((x AND y) XOR (NOT x AND z))"

definition Maj :: "w32 \<Rightarrow> w32 \<Rightarrow> w32 \<Rightarrow> w32" where
  "Maj x y z = ((x AND y) XOR (x AND z) XOR (y AND z))"

definition big_sigma0 :: "w32 \<Rightarrow> w32" where
  "big_sigma0 x = (rotr 2 x XOR rotr 13 x XOR rotr 22 x)"

definition big_sigma1 :: "w32 \<Rightarrow> w32" where
  "big_sigma1 x = (rotr 6 x XOR rotr 11 x XOR rotr 25 x)"

definition small_sigma0 :: "w32 \<Rightarrow> w32" where
  "small_sigma0 x = (rotr 7 x XOR rotr 18 x XOR drop_bit 3 x)"

definition small_sigma1 :: "w32 \<Rightarrow> w32" where
  "small_sigma1 x = (rotr 17 x XOR rotr 19 x XOR drop_bit 10 x)"

definition round_constants :: "w32 list" where
  "round_constants =
   [1116352408, 1899447441, 3049323471, 3921009573, 961987163, 1508970993, 2453635748, 2870763221,
    3624381080, 310598401, 607225278, 1426881987, 1925078388, 2162078206, 2614888103, 3248222580,
    3835390401, 4022224774, 264347078, 604807628, 770255983, 1249150122, 1555081692, 1996064986,
    2554220882, 2821834349, 2952996808, 3210313671, 3336571891, 3584528711, 113926993, 338241895,
    666307205, 773529912, 1294757372, 1396182291, 1695183700, 1986661051, 2177026350, 2456956037,
    2730485921, 2820302411, 3259730800, 3345764771, 3516065817, 3600352804, 4094571909, 275423344,
    430227734, 506948616, 659060556, 883997877, 958139571, 1322822218, 1537002063, 1747873779,
    1955562222, 2024104815, 2227730452, 2361852424, 2428436474, 2756734187, 3204031479, 3329325298]"

text \<open>The chaining value: the eight words a to h.\<close>

type_synonym sha_state = "w32 \<times> w32 \<times> w32 \<times> w32 \<times> w32 \<times> w32 \<times> w32 \<times> w32"

definition sha_init :: sha_state where
  "sha_init = (0x6a09e667, 0xbb67ae85, 0x3c6ef372, 0xa54ff53a,
               0x510e527f, 0x9b05688c, 0x1f83d9ab, 0x5be0cd19)"

fun word_be :: "bytes \<Rightarrow> w32" where
  "word_be bs = fold (\<lambda>b w. push_bit 8 w OR ucast b) bs 0"

fun words_be :: "nat \<Rightarrow> bytes \<Rightarrow> w32 list" where
  "words_be 0 bs = []"
| "words_be (Suc n) bs = word_be (take 4 bs) # words_be n (drop 4 bs)"

text \<open>The schedule keeps a window of the last sixteen words, oldest first.\<close>

fun schedule :: "nat \<Rightarrow> w32 list \<Rightarrow> w32 list" where
  "schedule 0 win = []"
| "schedule (Suc n) win =
     hd win # schedule n (tl win @
       [small_sigma1 (win ! 14) + win ! 9 + small_sigma0 (win ! 1) + win ! 0])"

fun sha_round :: "sha_state \<Rightarrow> w32 \<times> w32 \<Rightarrow> sha_state" where
  "sha_round (a, b, c, d, e, f, g, h) (k, w) =
     (let t1 = h + big_sigma1 e + Ch e f g + k + w;
          t2 = big_sigma0 a + Maj a b c
      in (t1 + t2, a, b, c, d + t1, e, f, g))"

fun sha_add :: "sha_state \<Rightarrow> sha_state \<Rightarrow> sha_state" where
  "sha_add (a, b, c, d, e, f, g, h) (a', b', c', d', e', f', g', h') =
     (a + a', b + b', c + c', d + d', e + e', f + f', g + g', h + h')"

definition sha_block :: "sha_state \<Rightarrow> bytes \<Rightarrow> sha_state" where
  "sha_block st blk =
     sha_add st (foldl sha_round st (zip round_constants (schedule 64 (words_be 16 blk))))"

fun be_bytes :: "nat \<Rightarrow> nat \<Rightarrow> bytes" where
  "be_bytes 0 n = []"
| "be_bytes (Suc k) n = be_bytes k (n div 256) @ [byte_of (n mod 256)]"

definition sha_pad :: "bytes \<Rightarrow> bytes" where
  "sha_pad m = m @ [0x80] @ replicate ((119 - length m mod 64) mod 64) 0
                 @ be_bytes 8 (8 * length m mod 2 ^ 64)"

fun sha_blocks :: "nat \<Rightarrow> sha_state \<Rightarrow> bytes \<Rightarrow> sha_state" where
  "sha_blocks 0 st m = st"
| "sha_blocks (Suc n) st m = sha_blocks n (sha_block st (take 64 m)) (drop 64 m)"

fun word_bytes :: "w32 \<Rightarrow> bytes" where
  "word_bytes w = [ucast (drop_bit 24 w), ucast (drop_bit 16 w), ucast (drop_bit 8 w), ucast w]"

fun state_bytes :: "sha_state \<Rightarrow> bytes" where
  "state_bytes (a, b, c, d, e, f, g, h) =
     concat (map word_bytes [a, b, c, d, e, f, g, h])"

definition sha256 :: "bytes \<Rightarrow> bytes" where
  "sha256 m = (let p = sha_pad m in state_bytes (sha_blocks (length p div 64) sha_init p))"

definition hmac_key :: "bytes \<Rightarrow> bytes" where
  "hmac_key k = (let k0 = (if 64 < length k then sha256 k else k)
                 in k0 @ replicate (64 - length k0) 0)"

definition hmac_sha256 :: "bytes \<Rightarrow> bytes \<Rightarrow> bytes" where
  "hmac_sha256 key m =
     (let k = hmac_key key in
      sha256 (map (\<lambda>b. b XOR 0x5c) k @ sha256 (map (\<lambda>b. b XOR 0x36) k @ m)))"

text \<open>\<open>.hexdigest()\<close> of both.\<close>

definition sha256_hexdigest :: "bytes \<Rightarrow> pystr" where
  "sha256_hexdigest m = hex_of (sha256 m)"

definition hmac_hexdigest :: "bytes \<Rightarrow> bytes \<Rightarrow> pystr" where
  "hmac_hexdigest key m = hex_of (hmac_sha256 key m)"

definition sha256_collision :: "bytes \<Rightarrow> bytes \<Rightarrow> bool" where
  "sha256_collision m n = (m \<noteq> n \<and> sha256 m = sha256 n)"

definition hmac_collision :: "bytes \<Rightarrow> bytes \<Rightarrow> bytes \<Rightarrow> bool" where
  "hmac_collision key m n = (m \<noteq> n \<and> hmac_sha256 key m = hmac_sha256 key n)"

subsection \<open>The digest interface\<close>

text \<open>
  What clients rely on: a fixed output length. From it follow the shape of the hexadecimal form and
  that equal hexadecimal digests come from equal inputs or from a collision.
\<close>

locale digest_function =
  fixes h :: "bytes \<Rightarrow> bytes"
  assumes digest_length: "length (h m) = 32"
begin

lemma hex_is_digest: "is_digest (hex_of (h m))"
  by (simp add: hex_of_is_digest digest_length)

lemma hex_eq_iff: "hex_of (h m) = hex_of (h n) \<longleftrightarrow> h m = h n"
  by (metis fromhex_hex_of option.inject)

lemma equal_hex_binds: "hex_of (h m) = hex_of (h n) \<Longrightarrow> m = n \<or> (m \<noteq> n \<and> h m = h n)"
  by (auto simp: hex_eq_iff)

lemma fromhex_digest: "fromhex (hex_of (h m)) = Some (h m)"
  by (rule fromhex_hex_of)

end

lemma length_state_bytes: "length (state_bytes st) = 32"
  by (cases st rule: state_bytes.cases) simp

lemma length_sha256 [simp]: "length (sha256 m) = 32"
  by (simp add: sha256_def Let_def length_state_bytes)

lemma length_hmac [simp]: "length (hmac_sha256 key m) = 32"
  by (simp add: hmac_sha256_def Let_def)

interpretation sha: digest_function sha256
  by unfold_locales simp

interpretation mac: digest_function "hmac_sha256 key" for key
  by unfold_locales simp

lemma sha256_hexdigest_is_digest [simp]: "is_digest (sha256_hexdigest m)"
  by (simp add: sha256_hexdigest_def sha.hex_is_digest)

lemma hmac_hexdigest_is_digest [simp]: "is_digest (hmac_hexdigest key m)"
  by (simp add: hmac_hexdigest_def mac.hex_is_digest)

lemma sha256_hexdigest_binds:
  "sha256_hexdigest m = sha256_hexdigest n \<Longrightarrow> m = n \<or> sha256_collision m n"
  by (auto simp: sha256_hexdigest_def sha256_collision_def dest: sha.equal_hex_binds)

lemma hmac_hexdigest_binds:
  "hmac_hexdigest key m = hmac_hexdigest key n \<Longrightarrow> m = n \<or> hmac_collision key m n"
  by (auto simp: hmac_hexdigest_def hmac_collision_def dest: mac.equal_hex_binds)

lemma fromhex_sha256_hexdigest [simp]: "fromhex (sha256_hexdigest m) = Some (sha256 m)"
  by (simp add: sha256_hexdigest_def fromhex_hex_of)

lemma length_sha256_hexdigest [simp]: "length (sha256_hexdigest m) = 64"
  by (simp add: sha256_hexdigest_def)

lemma length_hmac_hexdigest [simp]: "length (hmac_hexdigest key m) = 64"
  by (simp add: hmac_hexdigest_def)

lemma is_digest_nonempty: "is_digest s \<Longrightarrow> s \<noteq> []"
  by (auto simp: is_digest_def)

end
