(* ===== verification/Hpke.thy ===== *)
theory Hpke
  imports Sha256
begin

section \<open>HPKE base mode\<close>

text \<open>
  \<open>agent_probe/hpke.py\<close>: HKDF-SHA256, the labelled derivations, the key schedule, \<open>seal_base\<close> and
  \<open>open_base\<close>. X25519 and ChaCha20-Poly1305 are the \<open>cryptography\<close> package, the argument \<open>key_lib\<close>; a
  generated private key is the argument that stands for the randomness. What the code relies on is
  \<open>agreement\<close>: both sides of a key exchange compute the same secret, decryption inverts encryption
  under the same key, nonce and associated data.

  The lemmas show that \<open>expand\<close> computes the HKDF expansion for every permitted length and never
  runs past its one-byte counter, and that \<open>open_base\<close> undoes \<open>seal_base\<close>.
\<close>

subsection \<open>Exceptions caught as \<open>ValueError\<close>\<close>

fun value_error :: "exn \<Rightarrow> bool" where
  "value_error (ValueError m) = True"
| "value_error UnicodeError = True"
| "value_error JSONDecodeError = True"
| "value_error (CanonicalizationError m) = True"
| "value_error (ContractError m) = True"
| "value_error (EvidenceError m) = True"
| "value_error (HpkeError m) = True"
| "value_error (BrowserContractError m) = True"
| "value_error (OutwardReportSchemaError m) = True"
| "value_error e = False"

text \<open>\<open>try: m except <caught>: raise e\<close> and \<open>except Exception\<close>.\<close>

definition rewrap :: "(exn \<Rightarrow> bool) \<Rightarrow> exn \<Rightarrow> 'a res \<Rightarrow> 'a res" where
  "rewrap caught e m = (case m of Inl x \<Rightarrow> if caught x then Inl e else Inl x | Inr v \<Rightarrow> Inr v)"

lemma rewrap_Inr [simp]: "rewrap c e (Inr v) = Inr v"
  by (simp add: rewrap_def)

lemma rewrap_eq_Inr [simp]: "rewrap c e m = Inr v \<longleftrightarrow> m = Inr v"
  by (cases m) (auto simp: rewrap_def)

subsection \<open>Constants and HKDF\<close>

definition KEM_ID :: nat where "KEM_ID = 0x0020"
definition KDF_ID :: nat where "KDF_ID = 0x0001"
definition AEAD_ID :: nat where "AEAD_ID = 0x0003"
definition NH :: nat where "NH = 32"
definition NK :: nat where "NK = 32"
definition NN :: nat where "NN = 12"

definition VERSION_LABEL :: bytes where "VERSION_LABEL = bytes_of ''HPKE-v1''"

definition KEM_SUITE_ID :: bytes where
  "KEM_SUITE_ID = bytes_of ''KEM'' @ be_bytes 2 KEM_ID"

definition HPKE_SUITE_ID :: bytes where
  "HPKE_SUITE_ID = bytes_of ''HPKE'' @ be_bytes 2 KEM_ID @ be_bytes 2 KDF_ID @ be_bytes 2 AEAD_ID"

definition hkdf_extract :: "bytes \<Rightarrow> bytes \<Rightarrow> bytes" where
  "hkdf_extract salt ikm = hmac_sha256 (if salt = [] then replicate NH 0 else salt) ikm"

text \<open>The loop of \<open>_expand\<close>; \<open>bytes([counter])\<close> raises when the counter does not fit a byte.\<close>

function expand_loop :: "bytes \<Rightarrow> bytes \<Rightarrow> nat \<Rightarrow> bytes \<Rightarrow> bytes \<Rightarrow> nat \<Rightarrow> bytes res" where
  "expand_loop prk info len output previous counter =
     (if length output < len then
        if counter < 256 then
          (let block = hmac_sha256 prk (previous @ info @ [byte_of counter])
           in expand_loop prk info len (output @ block) block (counter + 1))
        else Inl (ValueError ''bytes must be in range(0, 256)'')
      else Inr output)"
  by pat_completeness auto

termination
  by (relation "measure (\<lambda>(prk, info, len, output, previous, counter). len - length output)")
    (auto simp: hmac_sha256_def Let_def)

declare expand_loop.simps [simp del]

definition expand :: "bytes \<Rightarrow> bytes \<Rightarrow> int \<Rightarrow> bytes res" where
  "expand prk info len =
     (if \<not> (0 \<le> len \<and> len \<le> 255 * int NH) then Inl (HpkeError ''HKDF output length is invalid'')
      else bindE (expand_loop prk info (nat len) [] [] 1) (\<lambda>output. Inr (take (nat len) output)))"

definition labeled_extract :: "bytes \<Rightarrow> bytes \<Rightarrow> string \<Rightarrow> bytes \<Rightarrow> bytes" where
  "labeled_extract suite salt label ikm = hkdf_extract salt (VERSION_LABEL @ suite @ bytes_of label @ ikm)"

text \<open>\<open>length.to_bytes(2, "big")\<close> raises \<open>OverflowError\<close> outside two bytes.\<close>

definition to_bytes2 :: "int \<Rightarrow> bytes res" where
  "to_bytes2 n = (if 0 \<le> n \<and> n < 65536 then Inr (be_bytes 2 (nat n)) else Inl (OtherException ''OverflowError''))"

definition labeled_expand :: "bytes \<Rightarrow> bytes \<Rightarrow> string \<Rightarrow> bytes \<Rightarrow> int \<Rightarrow> bytes res" where
  "labeled_expand suite prk label info len =
     bindE (to_bytes2 len) (\<lambda>l.
       expand prk (l @ VERSION_LABEL @ suite @ bytes_of label @ info) len)"

definition extract_and_expand :: "bytes \<Rightarrow> bytes \<Rightarrow> bytes res" where
  "extract_and_expand dh kem_context =
     (let eae_prk = labeled_extract KEM_SUITE_ID [] ''eae_prk'' dh
      in labeled_expand KEM_SUITE_ID eae_prk ''shared_secret'' kem_context (int NH))"

definition key_schedule :: "bytes \<Rightarrow> bytes \<Rightarrow> (bytes \<times> bytes) res" where
  "key_schedule shared_secret info =
     (let psk_id_hash = labeled_extract HPKE_SUITE_ID [] ''psk_id_hash'' [];
          info_hash = labeled_extract HPKE_SUITE_ID [] ''info_hash'' info;
          context = [0] @ psk_id_hash @ info_hash;
          secret = labeled_extract HPKE_SUITE_ID shared_secret ''secret'' []
      in bindE (labeled_expand HPKE_SUITE_ID secret ''key'' context (int NK)) (\<lambda>key.
         bindE (labeled_expand HPKE_SUITE_ID secret ''base_nonce'' context (int NN)) (\<lambda>base_nonce.
         Inr (key, base_nonce))))"

subsection \<open>Sealing and opening\<close>

text \<open>
  The package's operations on raw key bytes: \<open>from_public_bytes\<close> and \<open>from_private_bytes\<close> raise or
  accept, \<open>kl_public\<close> is \<open>_public_bytes(private.public_key())\<close>, \<open>kl_exchange\<close> is \<open>private.exchange(public)\<close>.
\<close>

record key_lib =
  kl_from_public :: "bytes \<Rightarrow> unit res"
  kl_from_private :: "bytes \<Rightarrow> unit res"
  kl_public :: "bytes \<Rightarrow> bytes"
  kl_exchange :: "bytes \<Rightarrow> bytes \<Rightarrow> bytes res"
  kl_encrypt :: "bytes \<Rightarrow> bytes \<Rightarrow> bytes \<Rightarrow> bytes \<Rightarrow> bytes res"
  kl_decrypt :: "bytes \<Rightarrow> bytes \<Rightarrow> bytes \<Rightarrow> bytes \<Rightarrow> bytes res"

record sealed_box =
  sb_enc :: bytes
  sb_ciphertext :: bytes

definition generate_key_pair :: "key_lib \<Rightarrow> bytes \<Rightarrow> bytes \<times> bytes" where
  "generate_key_pair lib private = (private, kl_public lib private)"

text \<open>The last argument is the given private key, or the freshly generated one.\<close>

definition seal_base :: "key_lib \<Rightarrow> bytes \<Rightarrow> bytes \<Rightarrow> bytes \<Rightarrow> bytes \<Rightarrow> bytes option \<Rightarrow> bytes \<Rightarrow> sealed_box res" where
  "seal_base lib recipient_public_key plaintext info aad ephemeral_private_key fresh =
     (if length recipient_public_key \<noteq> 32 then Inl (HpkeError ''recipient X25519 public key must be 32 bytes'')
      else
        bindE (rewrap (\<lambda>x. value_error x \<or> x = TypeError) (HpkeError ''invalid X25519 key material'')
          (bindE (kl_from_public lib recipient_public_key) (\<lambda>_.
           bindE (case ephemeral_private_key of
                    Some k \<Rightarrow> bindE (kl_from_private lib k) (\<lambda>_. Inr k)
                  | None \<Rightarrow> Inr fresh) (\<lambda>ephemeral.
           bindE (kl_exchange lib ephemeral recipient_public_key) (\<lambda>dh.
           Inr (kl_public lib ephemeral, dh)))))) (\<lambda>(enc, dh).
        bindE (extract_and_expand dh (enc @ recipient_public_key)) (\<lambda>shared_secret.
        bindE (key_schedule shared_secret info) (\<lambda>(key, nonce).
        bindE (kl_encrypt lib key nonce plaintext aad) (\<lambda>ciphertext.
        Inr \<lparr>sb_enc = enc, sb_ciphertext = ciphertext\<rparr>)))))"

definition open_base :: "key_lib \<Rightarrow> bytes \<Rightarrow> bytes \<Rightarrow> bytes \<Rightarrow> bytes \<Rightarrow> bytes \<Rightarrow> bytes res" where
  "open_base lib recipient_private_key enc ciphertext info aad =
     (if length recipient_private_key \<noteq> 32 \<or> length enc \<noteq> 32
      then Inl (HpkeError ''X25519 private key and encapsulated key must be 32 bytes'')
      else rewrap (\<lambda>x. True) (HpkeError ''HPKE open failed'')
        (bindE (kl_from_private lib recipient_private_key) (\<lambda>_.
         bindE (kl_from_public lib enc) (\<lambda>_.
         let recipient_public = kl_public lib recipient_private_key in
         bindE (kl_exchange lib recipient_private_key enc) (\<lambda>dh.
         bindE (extract_and_expand dh (enc @ recipient_public)) (\<lambda>shared_secret.
         bindE (key_schedule shared_secret info) (\<lambda>(key, nonce).
         kl_decrypt lib key nonce ciphertext aad)))))))"

subsection \<open>The HKDF expansion\<close>

text \<open>RFC 5869: the output is a prefix of \<open>T(1) | T(2) | ...\<close>\<close>

fun hkdf_T :: "bytes \<Rightarrow> bytes \<Rightarrow> nat \<Rightarrow> bytes" where
  "hkdf_T prk info 0 = []"
| "hkdf_T prk info (Suc i) = hmac_sha256 prk (hkdf_T prk info i @ info @ [byte_of (Suc i)])"

definition hkdf :: "bytes \<Rightarrow> bytes \<Rightarrow> nat \<Rightarrow> bytes" where
  "hkdf prk info len = take len (concat (map (hkdf_T prk info) [1..<Suc ((len + 31) div 32)]))"

lemma length_hkdf_blocks: "length (concat (map (hkdf_T prk info) [1..<Suc n])) = 32 * n"
  by (induction n) auto

lemma expand_loop_blocks:
  assumes "len \<le> 32 * 255" "k \<le> (len + 31) div 32"
  shows "expand_loop prk info len (concat (map (hkdf_T prk info) [1..<Suc k])) (hkdf_T prk info k) (Suc k)
         = Inr (concat (map (hkdf_T prk info) [1..<Suc ((len + 31) div 32)]))"
  using assms(2)
proof (induction rule: inc_induct)
  case base
  have "len \<le> 32 * ((len + 31) div 32)" by linarith
  then show ?case using length_hkdf_blocks [of prk info "(len + 31) div 32"]
    by (simp add: expand_loop.simps [where counter = "Suc ((len + 31) div 32)"])
next
  case (step k)
  then have "32 * k < len" by linarith
  moreover have "Suc k < 256" using step assms(1) by linarith
  ultimately show ?case using step.IH length_hkdf_blocks [of prk info k]
    by (simp add: expand_loop.simps [where counter = "Suc k"] Let_def)
qed

lemma expand_hkdf:
  assumes "0 \<le> len" "len \<le> 255 * 32"
  shows "expand prk info len = Inr (hkdf prk info (nat len))"
proof -
  from assms have "nat len \<le> 32 * 255" by simp
  from expand_loop_blocks [OF this, of 0 prk info]
  have "expand_loop prk info (nat len) [] [] 1
      = Inr (concat (map (hkdf_T prk info) [1..<Suc ((nat len + 31) div 32)]))" by simp
  with assms show ?thesis by (simp add: expand_def hkdf_def NH_def)
qed

lemma length_hkdf [simp]: "length (hkdf prk info len) = len"
proof -
  have "len \<le> 32 * ((len + 31) div 32)" by linarith
  then show ?thesis using length_hkdf_blocks [of prk info "(len + 31) div 32"]
    by (simp add: hkdf_def)
qed

lemma labeled_expand_eq:
  assumes "0 \<le> len" "len \<le> 255 * 32"
  shows "labeled_expand suite prk label info len
         = Inr (hkdf prk (be_bytes 2 (nat len) @ VERSION_LABEL @ suite @ bytes_of label @ info) (nat len))"
  using assms by (simp add: labeled_expand_def to_bytes2_def expand_hkdf)

lemmas hpke_lengths = NH_def NK_def NN_def

lemma extract_and_expand_total: "\<exists>s. extract_and_expand dh kc = Inr s"
  by (simp add: extract_and_expand_def hpke_lengths Let_def labeled_expand_eq)

lemma key_schedule_total:
  obtains key nonce where "key_schedule secret info = Inr (key, nonce)" "length key = 32" "length nonce = 12"
  by (simp add: key_schedule_def hpke_lengths Let_def labeled_expand_eq)

subsection \<open>Opening what was sealed\<close>

text \<open>
  What the package promises: raw keys of 32 bytes load, public keys have 32 bytes, an exchange is
  symmetric, encryption appends a 16-byte tag and decryption undoes it.
\<close>

definition agreement :: "key_lib \<Rightarrow> bytes \<Rightarrow> bytes \<Rightarrow> bool" where
  "agreement lib a b \<longleftrightarrow>
     kl_from_private lib a = Inr () \<and> kl_from_private lib b = Inr () \<and>
     kl_from_public lib (kl_public lib a) = Inr () \<and> kl_from_public lib (kl_public lib b) = Inr () \<and>
     length (kl_public lib a) = 32 \<and> length (kl_public lib b) = 32 \<and>
     kl_exchange lib a (kl_public lib b) = kl_exchange lib b (kl_public lib a) \<and>
     isInr (kl_exchange lib a (kl_public lib b))"

definition aead :: "key_lib \<Rightarrow> bool" where
  "aead lib \<longleftrightarrow> (\<forall>key nonce m aad. length key = 32 \<longrightarrow> length nonce = 12 \<longrightarrow>
     (\<exists>c. kl_encrypt lib key nonce m aad = Inr c \<and> length c = length m + 16 \<and>
          kl_decrypt lib key nonce c aad = Inr m))"

lemma seal_open:
  assumes ag: "agreement lib fresh private" and ae: "aead lib" and len: "length private = 32"
  obtains box where
    "seal_base lib (kl_public lib private) m info aad None fresh = Inr box"
    "length (sb_enc box) = 32" "length (sb_ciphertext box) = length m + 16"
    "open_base lib private (sb_enc box) (sb_ciphertext box) info aad = Inr m"
proof -
  from ag obtain dh where dh: "kl_exchange lib fresh (kl_public lib private) = Inr dh"
    "kl_exchange lib private (kl_public lib fresh) = Inr dh"
    by (metis agreement_def isInr_iff)
  obtain s where s: "extract_and_expand dh (kl_public lib fresh @ kl_public lib private) = Inr s"
    using extract_and_expand_total by blast
  obtain key nonce where k: "key_schedule s info = Inr (key, nonce)" "length key = 32" "length nonce = 12"
    by (rule key_schedule_total)
  from ae k(2,3) obtain c where "kl_encrypt lib key nonce m aad = Inr c" "length c = length m + 16"
    "kl_decrypt lib key nonce c aad = Inr m"
    unfolding aead_def by blast
  with that [of "\<lparr>sb_enc = kl_public lib fresh, sb_ciphertext = c\<rparr>"] ag len dh s k(1) show ?thesis
    by (simp add: seal_base_def open_base_def agreement_def)
qed

subsection \<open>Properties\<close>

text \<open>C8: the loop of \<open>_expand\<close> ends for every length the guard admits, without the one-byte counter
  overflowing, and its result is the HKDF expansion of that length; any other length raises.\<close>

theorem expand_is_hkdf:
  "expand prk info len =
     (if 0 \<le> len \<and> len \<le> 255 * 32 then Inr (hkdf prk info (nat len))
      else Inl (HpkeError ''HKDF output length is invalid''))
   \<and> length (hkdf prk info (nat len)) = nat len"
proof (cases "0 \<le> len \<and> len \<le> 255 * 32")
  case True
  then show ?thesis by (simp add: expand_hkdf)
next
  case False
  then show ?thesis by (auto simp: expand_def NH_def)
qed

text \<open>C9: a box sealed to the public key of a recipient opens with the recipient's private key, the same
  info and the same associated data, to the plaintext; the box has a 32-byte encapsulated key and a
  ciphertext 16 bytes longer than the plaintext.\<close>

theorem hpke_open_seal:
  assumes "agreement lib fresh private" "aead lib" "length private = 32"
  shows "\<exists>box. seal_base lib (kl_public lib private) m info aad None fresh = Inr box \<and>
    length (sb_enc box) = 32 \<and> length (sb_ciphertext box) = length m + 16 \<and>
    open_base lib private (sb_enc box) (sb_ciphertext box) info aad = Inr m"
  using seal_open [OF assms] by metis

text \<open>A key library for concrete inputs: the exchange is the byte-wise sum, the tag is 16 zero bytes.\<close>

definition sample_keys :: key_lib where
  "sample_keys = \<lparr>kl_from_public = (\<lambda>k. Inr ()), kl_from_private = (\<lambda>k. Inr ()), kl_public = (\<lambda>k. k),
     kl_exchange = (\<lambda>a b. Inr (map2 (+) a b)),
     kl_encrypt = (\<lambda>key nonce m aad. Inr (m @ replicate 16 0)),
     kl_decrypt = (\<lambda>key nonce c aad. Inr (take (length c - 16) c))\<rparr>"

lemma sample_keys_aead: "aead sample_keys"
  by (simp add: aead_def sample_keys_def)

lemma sample_keys_agree: "agreement sample_keys (replicate 32 7) (replicate 32 9)"
  by (simp add: agreement_def sample_keys_def)

theorem hpke_open_seal_witness:
  "\<exists>box. seal_base sample_keys (kl_public sample_keys (replicate 32 9)) [1, 2, 3] [4] [5] None (replicate 32 7) = Inr box \<and>
    length (sb_enc box) = 32 \<and> length (sb_ciphertext box) = length [1 :: byte, 2, 3] + 16 \<and>
    open_base sample_keys (replicate 32 9) (sb_enc box) (sb_ciphertext box) [4] [5] = Inr [1, 2, 3]"
  by (rule hpke_open_seal [OF sample_keys_agree sample_keys_aead]) simp

end
