(* ===== verification/Json_Text.thy ===== *)
theory Json_Text
  imports Py_Bytes "HOL-Library.List_Lexorder" "HOL-Library.Log_Nat"
begin

section \<open>JSON text: the encoder and the decoder the sources call\<close>

text \<open>
  \<open>json_dumps\<close> is \<open>json.dumps(v, sort_keys=True, separators=(",", ":"), ensure_ascii=False,
  allow_nan=False)\<close>: keys sorted by code point at every level (\<open>canon\<close>), then the text (\<open>dump\<close>).
  The text of a float is the argument \<open>frepr\<close> (\<open>float.__repr__\<close>).

  \<open>json_loads\<close> is \<open>json.loads\<close> on bytes: encoding detection, decoding with \<open>surrogatepass\<close>, and
  the scanner with its grammar (escapes and surrogate pairs, integers and their 4300-digit limit,
  floats rounded to double precision, \<open>NaN\<close> and the infinities, last duplicate key wins). The
  parser recurses on fuel \<open>2 * length + 1\<close>, which \<open>p_value_fuel\<close> shows is always enough. The
  interpreter's recursion limit is not modelled.

  The main result, \<open>p_value_dump\<close>, is that parsing the text of a value returns that value.
\<close>

subsection \<open>Encoding\<close>

definition esc_char :: "nat \<Rightarrow> pystr" where
  "esc_char c =
     (if c = 34 then [92, 34]
      else if c = 92 then [92, 92]
      else if c = 10 then [92, 110]
      else if c = 13 then [92, 114]
      else if c = 9 then [92, 116]
      else if c = 8 then [92, 98]
      else if c = 12 then [92, 102]
      else if c < 32 then [92, 117, 48, 48, hex_digit (c div 16), hex_digit (c mod 16)]
      else [c])"

definition dump_str :: "pystr \<Rightarrow> pystr" where
  "dump_str s = [34] @ concat (map esc_char s) @ [34]"

fun dec :: "nat \<Rightarrow> pystr" where
  "dec n = (if n < 10 then [48 + n] else dec (n div 10) @ [48 + n mod 10])"

declare dec.simps [simp del]

definition dump_int :: "int \<Rightarrow> pystr" where
  "dump_int i = (if i < 0 then 45 # dec (nat (- i)) else dec (nat i))"

fun key_str :: "pykey \<Rightarrow> pystr" where
  "key_str (KStr s) = s" | "key_str (KOther n) = []"

fun is_KStr :: "pykey \<Rightarrow> bool" where
  "is_KStr (KStr s) = True" | "is_KStr (KOther n) = False"

fun canon :: "pyval \<Rightarrow> pyval"
  and canon_list :: "pyval list \<Rightarrow> pyval list"
  and canon_dict :: "pydict \<Rightarrow> pydict" where
  "canon (PList xs) = PList (canon_list xs)"
| "canon (PDict d) = PDict (sort_key (\<lambda>kv. key_str (fst kv)) (canon_dict d))"
| "canon PNone = PNone"
| "canon (PBool b) = PBool b"
| "canon (PInt i) = PInt i"
| "canon (PFloat f) = PFloat f"
| "canon (PStr s) = PStr s"
| "canon (POther n) = POther n"
| "canon_list [] = []"
| "canon_list (x # xs) = canon x # canon_list xs"
| "canon_dict [] = []"
| "canon_dict ((k, v) # d) = (k, canon v) # canon_dict d"

fun dump :: "(pyfloat \<Rightarrow> pystr) \<Rightarrow> pyval \<Rightarrow> pystr"
  and dump_elems :: "(pyfloat \<Rightarrow> pystr) \<Rightarrow> pyval list \<Rightarrow> pystr"
  and dump_members :: "(pyfloat \<Rightarrow> pystr) \<Rightarrow> pydict \<Rightarrow> pystr" where
  "dump fr PNone = str ''null''"
| "dump fr (PBool b) = (if b then str ''true'' else str ''false'')"
| "dump fr (PInt i) = dump_int i"
| "dump fr (PFloat f) = fr f"
| "dump fr (PStr s) = dump_str s"
| "dump fr (PList xs) = (if xs = [] then [91, 93] else 91 # dump_elems fr xs @ [93])"
| "dump fr (PDict d) = (if d = [] then [123, 125] else 123 # dump_members fr d @ [125])"
| "dump fr (POther n) = []"
| "dump_elems fr [] = []"
| "dump_elems fr (x # xs) = dump fr x @ (if xs = [] then [] else 44 # dump_elems fr xs)"
| "dump_members fr [] = []"
| "dump_members fr ((k, v) # d) =
     dump_str (key_str k) @ [58] @ dump fr v @ (if d = [] then [] else 44 # dump_members fr d)"

fun dumpable :: "pyval \<Rightarrow> bool"
  and dumpable_list :: "pyval list \<Rightarrow> bool"
  and dumpable_dict :: "pydict \<Rightarrow> bool" where
  "dumpable (POther n) = False"
| "dumpable (PList xs) = dumpable_list xs"
| "dumpable (PDict d) = dumpable_dict d"
| "dumpable _ = True"
| "dumpable_list [] = True"
| "dumpable_list (x # xs) = (dumpable x \<and> dumpable_list xs)"
| "dumpable_dict [] = True"
| "dumpable_dict ((k, v) # d) = (is_KStr k \<and> dumpable v \<and> dumpable_dict d)"

fun finite_floats :: "pyval \<Rightarrow> bool"
  and finite_floats_list :: "pyval list \<Rightarrow> bool"
  and finite_floats_dict :: "pydict \<Rightarrow> bool" where
  "finite_floats (PFloat f) = (case f of Fin r \<Rightarrow> True | _ \<Rightarrow> False)"
| "finite_floats (PList xs) = finite_floats_list xs"
| "finite_floats (PDict d) = finite_floats_dict d"
| "finite_floats _ = True"
| "finite_floats_list [] = True"
| "finite_floats_list (x # xs) = (finite_floats x \<and> finite_floats_list xs)"
| "finite_floats_dict [] = True"
| "finite_floats_dict ((k, v) # d) = (finite_floats v \<and> finite_floats_dict d)"

definition json_dumps :: "(pyfloat \<Rightarrow> pystr) \<Rightarrow> pyval \<Rightarrow> pystr res" where
  "json_dumps fr v =
     (if \<not> dumpable v then Inl TypeError
      else if \<not> finite_floats v then Inl (ValueError ''Out of range float values'')
      else Inr (dump fr (canon v)))"

subsection \<open>Decoding: strings and numbers\<close>

fun skip_ws :: "pystr \<Rightarrow> pystr" where
  "skip_ws [] = []"
| "skip_ws (c # s) = (if c = 32 \<or> c = 9 \<or> c = 10 \<or> c = 13 then skip_ws s else c # s)"

definition hex4 :: "nat \<Rightarrow> nat \<Rightarrow> nat \<Rightarrow> nat \<Rightarrow> nat option" where
  "hex4 a b c d =
     (case (hex_val a, hex_val b, hex_val c, hex_val d) of
        (Some w, Some x, Some y, Some z) \<Rightarrow> Some (w * 4096 + x * 256 + y * 16 + z)
      | _ \<Rightarrow> None)"

definition simple_escape :: "nat \<Rightarrow> nat option" where
  "simple_escape e =
     (if e = 34 then Some 34 else if e = 92 then Some 92 else if e = 47 then Some 47
      else if e = 98 then Some 8 else if e = 102 then Some 12 else if e = 110 then Some 10
      else if e = 114 then Some 13 else if e = 116 then Some 9 else None)"

text \<open>The low half of a surrogate pair, when an escape for one follows.\<close>

definition low_escape :: "pystr \<Rightarrow> nat option" where
  "low_escape s =
     (case s of x # y # a # b # c # d # _ \<Rightarrow>
        if x = 92 \<and> y = 117 then
          (case hex4 a b c d of
             Some u \<Rightarrow> if 0xDC00 \<le> u \<and> u < 0xE000 then Some u else None
           | None \<Rightarrow> None)
        else None
      | _ \<Rightarrow> None)"

function (sequential) scan_str :: "pystr \<Rightarrow> (pystr \<times> pystr) option" where
  "scan_str [] = None"
| "scan_str (c # s) =
     (if c = 34 then Some ([], s)
      else if c < 32 then None
      else if c \<noteq> 92 then map_option (\<lambda>(t, r). (c # t, r)) (scan_str s)
      else (case s of
          [] \<Rightarrow> None
        | e # r \<Rightarrow>
            if e \<noteq> 117 then
              (case simple_escape e of
                 None \<Rightarrow> None
               | Some x \<Rightarrow> map_option (\<lambda>(t, r'). (x # t, r')) (scan_str r))
            else (case r of
                w # x # y # z # r1 \<Rightarrow>
                  (case hex4 w x y z of
                     None \<Rightarrow> None
                   | Some u \<Rightarrow>
                       (case (if 0xD800 \<le> u \<and> u < 0xDC00 then low_escape r1 else None) of
                          Some l \<Rightarrow>
                            map_option (\<lambda>(t, r'). ((0x10000 + (u - 0xD800) * 1024 + (l - 0xDC00)) # t, r'))
                              (scan_str (drop 6 r1))
                        | None \<Rightarrow> map_option (\<lambda>(t, r'). (u # t, r')) (scan_str r1)))
              | _ \<Rightarrow> None)))"
  by pat_completeness auto
termination
  by (relation "measure length") auto

declare scan_str.simps(2) [simp del]

definition is_digit :: "nat \<Rightarrow> bool" where
  "is_digit c = (48 \<le> c \<and> c \<le> 57)"

definition digits_val :: "pystr \<Rightarrow> nat" where
  "digits_val s = foldl (\<lambda>n c. 10 * n + (c - 48)) 0 s"

text \<open>Round-half-even of an exact non-negative rational to an IEEE double.\<close>

definition floor_log2 :: "rat \<Rightarrow> int" where
  "floor_log2 r =
     (let (a, b) = quotient_of r; e = int (floorlog 2 (nat a)) - int (floorlog 2 (nat b))
      in if 2 powi e \<le> r then e else e - 1)"

definition round_half_even :: "rat \<Rightarrow> int" where
  "round_half_even q =
     (let n = \<lfloor>q\<rfloor>; f = q - of_int n
      in if f < 1 / 2 then n else if 1 / 2 < f then n + 1 else if even n then n else n + 1)"

definition round_double :: "rat \<Rightarrow> pyfloat" where
  "round_double r =
     (if r = 0 then Fin 0
      else let u = 2 powi (max (floor_log2 r) (-1022) - 52);
               v = of_int (round_half_even (r / u)) * u
           in if 2 ^ 1024 \<le> v then PosInf else Fin v)"

fun neg_float :: "pyfloat \<Rightarrow> pyfloat" where
  "neg_float (Fin r) = Fin (- r)"
| "neg_float PosInf = NegInf"
| "neg_float NegInf = PosInf"
| "neg_float NaN = NaN"

definition scan_exp :: "pystr \<Rightarrow> int option \<times> pystr" where
  "scan_exp s =
     (case s of
        c # s1 \<Rightarrow>
          if c = 101 \<or> c = 69 then
            (let neg = (s1 \<noteq> [] \<and> hd s1 = 45);
                 s2 = (if s1 \<noteq> [] \<and> (hd s1 = 45 \<or> hd s1 = 43) then tl s1 else s1);
                 ds = takeWhile is_digit s2
             in if ds = [] then (None, s)
                else (Some (if neg then - int (digits_val ds) else int (digits_val ds)),
                      dropWhile is_digit s2))
          else (None, s)
      | [] \<Rightarrow> (None, s))"

definition int_part :: "pystr \<Rightarrow> pystr" where
  "int_part s = (if s \<noteq> [] \<and> hd s = 48 then [48] else takeWhile is_digit s)"

definition frac_part :: "pystr \<Rightarrow> pystr" where
  "frac_part s = (if s \<noteq> [] \<and> hd s = 46 then takeWhile is_digit (tl s) else [])"

definition scan_unsigned :: "bool \<Rightarrow> pystr \<Rightarrow> (pyval \<times> pystr) res" where
  "scan_unsigned neg s =
     (let ip = int_part s;
          s2 = drop (length ip) s;
          fp = frac_part s2;
          s3 = (if fp = [] then s2 else drop (Suc (length fp)) s2);
          (ex, s4) = scan_exp s3
      in if ip = [] then Inl JSONDecodeError
         else if fp = [] \<and> ex = None then
           (if 4300 < length ip then Inl (ValueError ''Exceeds the limit for integer string conversion'')
            else Inr (PInt (if neg then - int (digits_val ip) else int (digits_val ip)), s4))
         else
           (let e = (case ex of None \<Rightarrow> 0 | Some i \<Rightarrow> i) - int (length fp);
                f = round_double (rat_of_nat (digits_val (ip @ fp)) * 10 powi e)
            in Inr (PFloat (if neg then neg_float f else f), s4)))"

definition scan_number :: "pystr \<Rightarrow> (pyval \<times> pystr) res" where
  "scan_number s =
     (if s \<noteq> [] \<and> hd s = 45 then scan_unsigned True (tl s) else scan_unsigned False s)"

fun strip_prefix :: "pystr \<Rightarrow> pystr \<Rightarrow> pystr option" where
  "strip_prefix [] s = Some s"
| "strip_prefix (p # ps) [] = None"
| "strip_prefix (p # ps) (c # s) = (if p = c then strip_prefix ps s else None)"

definition p_atom :: "pystr \<Rightarrow> (pyval \<times> pystr) res" where
  "p_atom s =
     (case strip_prefix (str ''null'') s of Some r \<Rightarrow> Inr (PNone, r) | None \<Rightarrow>
      case strip_prefix (str ''true'') s of Some r \<Rightarrow> Inr (PBool True, r) | None \<Rightarrow>
      case strip_prefix (str ''false'') s of Some r \<Rightarrow> Inr (PBool False, r) | None \<Rightarrow>
      case strip_prefix (str ''NaN'') s of Some r \<Rightarrow> Inr (PFloat NaN, r) | None \<Rightarrow>
      case strip_prefix (str ''Infinity'') s of Some r \<Rightarrow> Inr (PFloat PosInf, r) | None \<Rightarrow>
      case strip_prefix (str ''-Infinity'') s of Some r \<Rightarrow> Inr (PFloat NegInf, r) | None \<Rightarrow>
      scan_number s)"

subsection \<open>Decoding: values\<close>

fun p_value :: "nat \<Rightarrow> pystr \<Rightarrow> (pyval \<times> pystr) res"
  and p_elems :: "nat \<Rightarrow> pystr \<Rightarrow> (pyval list \<times> pystr) res"
  and p_members :: "nat \<Rightarrow> pystr \<Rightarrow> (pydict \<times> pystr) res" where
  "p_value 0 s = Inl RecursionError"
| "p_value (Suc n) s =
     (case s of
        [] \<Rightarrow> Inl JSONDecodeError
      | c # r \<Rightarrow>
          if c = 34 then
            (case scan_str r of None \<Rightarrow> Inl JSONDecodeError | Some (t, r') \<Rightarrow> Inr (PStr t, r'))
          else if c = 91 then
            (case skip_ws r of
               [] \<Rightarrow> Inl JSONDecodeError
             | d # r' \<Rightarrow>
                 if d = 93 then Inr (PList [], r')
                 else bindE (p_elems n (d # r')) (\<lambda>(xs, r''). Inr (PList xs, r'')))
          else if c = 123 then
            (case skip_ws r of
               [] \<Rightarrow> Inl JSONDecodeError
             | d # r' \<Rightarrow>
                 if d = 125 then Inr (PDict [], r')
                 else bindE (p_members n (d # r'))
                        (\<lambda>(kvs, r''). Inr (PDict (foldl (\<lambda>d (k, v). dupd d k v) [] kvs), r'')))
          else p_atom s)"
| "p_elems 0 s = Inl RecursionError"
| "p_elems (Suc n) s =
     bindE (p_value n s) (\<lambda>(v, r).
       case skip_ws r of
         [] \<Rightarrow> Inl JSONDecodeError
       | c # r' \<Rightarrow>
           if c = 93 then Inr ([v], r')
           else if c = 44 then bindE (p_elems n (skip_ws r')) (\<lambda>(vs, r''). Inr (v # vs, r''))
           else Inl JSONDecodeError)"
| "p_members 0 s = Inl RecursionError"
| "p_members (Suc n) s =
     (case s of
        [] \<Rightarrow> Inl JSONDecodeError
      | q # s1 \<Rightarrow>
          if q \<noteq> 34 then Inl JSONDecodeError
          else (case scan_str s1 of
              None \<Rightarrow> Inl JSONDecodeError
            | Some (k, s2) \<Rightarrow>
                (case skip_ws s2 of
                   [] \<Rightarrow> Inl JSONDecodeError
                 | c # s3 \<Rightarrow>
                     if c \<noteq> 58 then Inl JSONDecodeError
                     else bindE (p_value n (skip_ws s3)) (\<lambda>(v, r).
                       case skip_ws r of
                         [] \<Rightarrow> Inl JSONDecodeError
                       | e # r' \<Rightarrow>
                           if e = 125 then Inr ([(KStr k, v)], r')
                           else if e = 44 then
                             bindE (p_members n (skip_ws r')) (\<lambda>(kvs, r''). Inr ((KStr k, v) # kvs, r''))
                           else Inl JSONDecodeError))))"

definition json_loads_str :: "pystr \<Rightarrow> pyval res" where
  "json_loads_str s =
     (let s' = skip_ws s in
      bindE (p_value (2 * length s' + 1) s') (\<lambda>(v, r).
        if skip_ws r = [] then Inr v else Inl JSONDecodeError))"


subsection \<open>Decoding: bytes\<close>

fun utf16_decode :: "bool \<Rightarrow> bytes \<Rightarrow> pystr option" where
  "utf16_decode be [] = Some []"
| "utf16_decode be [x] = None"
| "utf16_decode be (x # y # r) =
     (let u = (if be then unat x * 256 + unat y else unat y * 256 + unat x) in
      case r of
        x' # y' # r' \<Rightarrow>
          (let l = (if be then unat x' * 256 + unat y' else unat y' * 256 + unat x') in
           if 0xD800 \<le> u \<and> u < 0xDC00 \<and> 0xDC00 \<le> l \<and> l < 0xE000
           then map_option ((#) (0x10000 + (u - 0xD800) * 1024 + (l - 0xDC00))) (utf16_decode be r')
           else map_option ((#) u) (utf16_decode be r))
      | _ \<Rightarrow> map_option ((#) u) (utf16_decode be r))"

fun utf32_decode :: "bool \<Rightarrow> bytes \<Rightarrow> pystr option" where
  "utf32_decode be [] = Some []"
| "utf32_decode be (w # x # y # z # r) =
     (let u = (if be then unat w * 16777216 + unat x * 65536 + unat y * 256 + unat z
               else unat z * 16777216 + unat y * 65536 + unat x * 256 + unat w) in
      if u < 0x110000 then map_option ((#) u) (utf32_decode be r) else None)"
| "utf32_decode be _ = None"

definition json_decode_bytes :: "bytes \<Rightarrow> pystr option" where
  "json_decode_bytes b =
     (if take 4 b = [0, 0, 0xFE, 0xFF] then utf32_decode True (drop 4 b)
      else if take 4 b = [0xFF, 0xFE, 0, 0] then utf32_decode False (drop 4 b)
      else if take 2 b = [0xFE, 0xFF] then utf16_decode True (drop 2 b)
      else if take 2 b = [0xFF, 0xFE] then utf16_decode False (drop 2 b)
      else if take 3 b = [0xEF, 0xBB, 0xBF] then utf8_decode True (drop 3 b)
      else if 4 \<le> length b \<and> b ! 0 = 0 then
        (if b ! 1 = 0 then utf32_decode True b else utf16_decode True b)
      else if 4 \<le> length b \<and> b ! 1 = 0 then
        (if b ! 2 = 0 \<and> b ! 3 = 0 then utf32_decode False b else utf16_decode False b)
      else if length b = 2 \<and> b ! 0 = 0 then utf16_decode True b
      else if length b = 2 \<and> b ! 1 = 0 then utf16_decode False b
      else utf8_decode True b)"

definition json_loads :: "bytes \<Rightarrow> pyval res" where
  "json_loads b =
     (case json_decode_bytes b of None \<Rightarrow> Inl UnicodeError | Some s \<Rightarrow> json_loads_str s)"

subsection \<open>Strings come back\<close>

text \<open>A code point that UTF-8 can encode: in range and no surrogate.\<close>

definition scalar :: "nat \<Rightarrow> bool" where
  "scalar c = (c < 0x110000 \<and> \<not> (0xD800 \<le> c \<and> c < 0xE000))"

lemma utf8_char_None: "utf8_char c = None \<longleftrightarrow> \<not> scalar c"
  by (auto simp: utf8_char_def scalar_def)

lemma utf8_encode_Some_iff: "(\<exists>b. utf8_encode s = Some b) \<longleftrightarrow> list_all scalar s"
proof (induction s)
  case (Cons c s)
  then show ?case
    using utf8_char_None [of c] by (auto split: option.splits)
qed simp

lemma scan_str_plain:
  "c \<noteq> 34 \<Longrightarrow> c \<noteq> 92 \<Longrightarrow> 32 \<le> c \<Longrightarrow>
   scan_str (c # s) = map_option (\<lambda>(t, r). (c # t, r)) (scan_str s)"
  by (simp add: scan_str.simps(2))

lemma scan_str_simple:
  "simple_escape e = Some x \<Longrightarrow> e \<noteq> 117 \<Longrightarrow>
   scan_str (92 # e # s) = map_option (\<lambda>(t, r). (x # t, r)) (scan_str s)"
  by (simp add: scan_str.simps(2))

lemma scan_str_unicode:
  assumes "c < 32"
  shows "scan_str (92 # 117 # 48 # 48 # hex_digit (c div 16) # hex_digit (c mod 16) # s)
         = map_option (\<lambda>(t, r). (c # t, r)) (scan_str s)"
proof -
  have "hex_val (hex_digit (c div 16)) = Some (c div 16)" "hex_val (hex_digit (c mod 16)) = Some (c mod 16)"
    using assms by (simp_all add: hex_val_digit div_less_iff_less_mult)
  moreover have "hex_val 48 = Some 0" by (simp add: hex_val_def)
  ultimately have "hex4 48 48 (hex_digit (c div 16)) (hex_digit (c mod 16)) = Some c"
    by (simp add: hex4_def)
  with assms show ?thesis by (simp add: scan_str.simps(2))
qed

lemma scan_str_esc:
  "scan_str (esc_char c @ s) = map_option (\<lambda>(t, r). (c # t, r)) (scan_str s)"
proof -
  consider "c \<in> {34, 92, 10, 13, 9, 8, 12}" | "c < 32" "c \<notin> {34, 92, 10, 13, 9, 8, 12}"
    | "32 \<le> c" "c \<noteq> 34" "c \<noteq> 92" by fastforce
  then show ?thesis
  proof cases
    case 1
    then show ?thesis by (auto simp: esc_char_def scan_str_simple simple_escape_def)
  next
    case 2
    then have "esc_char c = [92, 117, 48, 48, hex_digit (c div 16), hex_digit (c mod 16)]"
      by (auto simp: esc_char_def)
    with 2 show ?thesis by (simp add: scan_str_unicode)
  next
    case 3
    then show ?thesis by (simp add: esc_char_def scan_str_plain)
  qed
qed

lemma scan_str_dump: "scan_str (concat (map esc_char s) @ 34 # r) = Some (s, r)"
  by (induction s) (simp_all add: scan_str_esc, simp add: scan_str.simps(2))

subsection \<open>Integers come back\<close>

definition stops :: "pystr \<Rightarrow> bool" where
  "stops r = (r = [] \<or> (\<not> is_digit (hd r) \<and> hd r \<noteq> 46 \<and> hd r \<noteq> 101 \<and> hd r \<noteq> 69))"

lemma dec_digits: "list_all is_digit (dec n)"
proof (induction n rule: dec.induct)
  case (1 n)
  then show ?case by (cases "n < 10") (simp_all add: dec.simps [of n] is_digit_def)
qed

lemma digits_val_snoc [simp]: "digits_val (s @ [c]) = 10 * digits_val s + (c - 48)"
  by (simp add: digits_val_def)

lemma digits_val_dec [simp]: "digits_val (dec n) = n"
proof (induction n rule: dec.induct)
  case (1 n)
  then show ?case by (cases "n < 10") (simp_all add: dec.simps [of n], simp add: digits_val_def)
qed

lemma dec_nonempty [simp]: "dec n \<noteq> []"
  by (subst dec.simps) simp

lemma hd_dec: "hd (dec n) = 48 \<longleftrightarrow> n = 0"
proof (induction n rule: dec.induct)
  case (1 n)
  then show ?case
    by (cases "n < 10") (auto simp: dec.simps [of n])
qed

lemma dec_zero: "hd (dec n) = 48 \<Longrightarrow> dec n = [48]"
  by (simp add: hd_dec dec.simps [of 0])

lemma length_dec: "n < 10 ^ Suc k \<Longrightarrow> length (dec n) \<le> Suc k"
proof (induction k arbitrary: n)
  case 0
  then show ?case by (simp add: dec.simps)
next
  case (Suc k)
  show ?case
  proof (cases "n < 10")
    case True
    then show ?thesis by (simp add: dec.simps)
  next
    case False
    from Suc.prems have "n div 10 < 10 ^ Suc k" by (simp add: div_less_iff_less_mult mult.commute)
    from Suc.IH [OF this] False show ?thesis by (simp add: dec.simps [of n])
  qed
qed

lemma takeWhile_digits:
  "list_all is_digit ds \<Longrightarrow> r = [] \<or> \<not> is_digit (hd r) \<Longrightarrow> takeWhile is_digit (ds @ r) = ds"
  by (induction ds) (auto simp: takeWhile_eq_Nil_iff)

lemma scan_exp_stops: "stops r \<Longrightarrow> scan_exp r = (None, r)"
  by (auto simp: scan_exp_def stops_def split: list.splits)

lemma int_part_dec: "stops r \<Longrightarrow> int_part (dec n @ r) = dec n"
  using dec_zero [of n] takeWhile_digits [OF dec_digits, of r n]
  by (auto simp: int_part_def stops_def)

lemma frac_part_stops: "stops r \<Longrightarrow> frac_part r = []"
  by (auto simp: frac_part_def stops_def)

lemma scan_unsigned_dec:
  "length (dec n) \<le> 4300 \<Longrightarrow> stops r \<Longrightarrow>
   scan_unsigned neg (dec n @ r) = Inr (PInt (if neg then - int n else int n), r)"
  by (simp add: scan_unsigned_def Let_def int_part_dec frac_part_stops scan_exp_stops)

lemma dec_hd_digit: "is_digit (hd (dec n @ r))"
  using dec_digits [of n] by (cases "dec n") auto

lemma dec_Cons: "dec n @ r = c # t \<Longrightarrow> is_digit c"
  using dec_hd_digit [of n r] by (metis list.sel(1))

lemma dump_int_head:
  obtains c t where "dump_int i @ r = c # t" "c = 45 \<or> is_digit c"
    "c = 45 \<longrightarrow> is_digit (hd t) \<and> t \<noteq> []"
proof (cases "i < 0")
  case True
  then show ?thesis
    using that [of 45 "dec (nat (- i)) @ r"] dec_hd_digit [of "nat (- i)" r]
    by (simp add: dump_int_def del: hd_append2)
next
  case False
  obtain c t where "dec (nat i) @ r = c # t" by (cases "dec (nat i) @ r") auto
  with False dec_Cons [OF this] show ?thesis
    using that [of c t] by (auto simp: dump_int_def is_digit_def)
qed

lemma scan_number_dump:
  assumes "length (dec (nat \<bar>i\<bar>)) \<le> 4300" "stops r"
  shows "scan_number (dump_int i @ r) = Inr (PInt i, r)"
proof (cases "i < 0")
  case False
  from dec_hd_digit [of "nat i" r] have "hd (dec (nat i) @ r) \<noteq> 45" by (auto simp: is_digit_def)
  with False assms show ?thesis by (simp add: dump_int_def scan_number_def scan_unsigned_dec)
next
  case True
  with assms show ?thesis by (simp add: dump_int_def scan_number_def scan_unsigned_dec)
qed

lemma strip_prefix_differs: "s \<noteq> [] \<Longrightarrow> hd s \<noteq> p \<Longrightarrow> strip_prefix (p # ps) s = None"
  by (cases s) auto

lemma p_atom_dump:
  assumes "length (dec (nat \<bar>i\<bar>)) \<le> 4300" "stops r"
  shows "p_atom (dump_int i @ r) = Inr (PInt i, r)"
proof -
  obtain c t where ct: "dump_int i @ r = c # t" "c = 45 \<or> is_digit c" "c = 45 \<longrightarrow> is_digit (hd t) \<and> t \<noteq> []"
    by (rule dump_int_head)
  have "p_atom (c # t) = scan_number (c # t)"
    using ct(2,3) unfolding p_atom_def str_def
    by (cases t) (auto simp: is_digit_def)
  with ct(1) scan_number_dump [OF assms] show ?thesis by simp
qed

subsection \<open>Values come back\<close>

fun jsonable :: "pyval \<Rightarrow> bool"
  and jsonable_list :: "pyval list \<Rightarrow> bool"
  and jsonable_dict :: "pydict \<Rightarrow> bool" where
  "jsonable (PFloat f) = False"
| "jsonable (POther n) = False"
| "jsonable (PInt i) = (length (dec (nat \<bar>i\<bar>)) \<le> 4300)"
| "jsonable (PList xs) = jsonable_list xs"
| "jsonable (PDict d) = (distinct (map fst d) \<and> jsonable_dict d)"
| "jsonable _ = True"
| "jsonable_list [] = True"
| "jsonable_list (x # xs) = (jsonable x \<and> jsonable_list xs)"
| "jsonable_dict [] = True"
| "jsonable_dict ((k, v) # d) = (is_KStr k \<and> jsonable v \<and> jsonable_dict d)"

definition starts_value :: "pystr \<Rightarrow> bool" where
  "starts_value s = (s \<noteq> [] \<and> hd s \<notin> {32, 9, 10, 13, 93, 125})"

lemma skip_ws_starts [simp]: "starts_value s \<Longrightarrow> skip_ws (s @ r) = s @ r"
  by (cases s) (auto simp: starts_value_def)

lemma dump_starts: "jsonable v \<Longrightarrow> starts_value (dump fr v)"
proof (cases v)
  case (PInt i)
  then show ?thesis
    using dec_hd_digit [of "nat i" "[]"]
    by (auto simp: starts_value_def dump_int_def is_digit_def)
qed (auto simp: starts_value_def dump_str_def str_def)

lemma dupd_new: "k \<notin> fst ` set d \<Longrightarrow> dupd d k v = d @ [(k, v)]"
  by (induction d) auto

lemma foldl_dupd_distinct:
  "distinct (map fst (d @ kvs)) \<Longrightarrow> foldl (\<lambda>d (k, v). dupd d k v) d kvs = d @ kvs"
proof (induction kvs arbitrary: d)
  case (Cons kv kvs)
  then show ?case by (cases kv) (auto simp: dupd_new)
qed simp

lemma starts_elems: "xs \<noteq> [] \<Longrightarrow> jsonable_list xs \<Longrightarrow> starts_value (dump_elems fr xs)"
  using dump_starts by (cases xs) (auto simp: starts_value_def)

lemma starts_members: "d \<noteq> [] \<Longrightarrow> starts_value (dump_members fr d)"
  by (cases d) (auto simp: starts_value_def dump_str_def)

lemma starts_value_cons:
  assumes "starts_value s"
  obtains c t where "s = c # t" "c \<noteq> 32" "c \<noteq> 9" "c \<noteq> 10" "c \<noteq> 13" "c \<noteq> 93" "c \<noteq> 125"
  using assms by (cases s) (auto simp: starts_value_def)

lemma p_value_dump:
  "jsonable v \<Longrightarrow> stops r \<Longrightarrow> 2 * length (dump fr v @ r) < n \<Longrightarrow>
     p_value n (dump fr v @ r) = Inr (v, r)"
  "xs \<noteq> [] \<Longrightarrow> jsonable_list xs \<Longrightarrow> 2 * length (dump_elems fr xs @ 93 # r) + 1 < n \<Longrightarrow>
     p_elems n (dump_elems fr xs @ 93 # r) = Inr (xs, r)"
  "d \<noteq> [] \<Longrightarrow> jsonable_dict d \<Longrightarrow> 2 * length (dump_members fr d @ 125 # r) + 1 < n \<Longrightarrow>
     p_members n (dump_members fr d @ 125 # r) = Inr (d, r)"
proof (induction fr v and fr xs and fr d arbitrary: n r and n r and n r
    rule: dump_dump_elems_dump_members.induct)
  case (1 fr)
  then show ?case by (cases n) (auto simp: str_def p_atom_def)
next
  case (2 fr b)
  then show ?case by (cases n) (auto simp: str_def p_atom_def)
next
  case (3 fr i)
  then obtain m where n: "n = Suc m" by (cases n) auto
  obtain c t where ct: "dump_int i @ r = c # t" "c = 45 \<or> is_digit c" by (rule dump_int_head)
  then show ?case using 3 p_atom_dump [of i r]
    by (auto simp: n is_digit_def)
next
  case (5 fr s)
  then show ?case by (cases n) (auto simp: dump_str_def scan_str_dump)
next
  case (6 fr xs)
  then obtain m where n: "n = Suc m" by (cases n) auto
  show ?case
  proof (cases "xs = []")
    case True
    then show ?thesis by (simp add: n)
  next
    case False
    with 6 have "starts_value (dump_elems fr xs)" by (auto intro: starts_elems)
    then obtain c t where ct: "dump_elems fr xs = c # t" "c \<noteq> 32" "c \<noteq> 9" "c \<noteq> 10" "c \<noteq> 13" "c \<noteq> 93"
      by (rule starts_value_cons)
    from 6 False n have "p_elems m (dump_elems fr xs @ 93 # r) = Inr (xs, r)" by auto
    with False ct show ?thesis by (simp add: n)
  qed
next
  case (7 fr d)
  then obtain m where n: "n = Suc m" by (cases n) auto
  show ?case
  proof (cases "d = []")
    case True
    then show ?thesis by (simp add: n)
  next
    case False
    then have "starts_value (dump_members fr d)" by (rule starts_members)
    then obtain c t where ct: "dump_members fr d = c # t" "c \<noteq> 32" "c \<noteq> 9" "c \<noteq> 10" "c \<noteq> 13" "c \<noteq> 125"
      by (rule starts_value_cons)
    from 7 False n have "p_members m (dump_members fr d @ 125 # r) = Inr (d, r)" by auto
    with False ct 7 show ?thesis using foldl_dupd_distinct [of "[]" d] by (simp add: n)
  qed
next
  case (10 fr x xs)
  then obtain m where n: "n = Suc m" by (cases n) auto
  let ?r = "(if xs = [] then [] else 44 # dump_elems fr xs) @ 93 # r"
  have "stops ?r" by (simp add: stops_def is_digit_def)
  with 10 n have v: "p_value m (dump fr x @ ?r) = Inr (x, ?r)" by auto
  show ?case
  proof (cases "xs = []")
    case True
    with v show ?thesis by (simp add: n)
  next
    case False
    with 10 have "starts_value (dump_elems fr xs)" by (auto intro: starts_elems)
    moreover from False 10 n have "p_elems m (dump_elems fr xs @ 93 # r) = Inr (xs, r)" by auto
    ultimately show ?thesis using False v by (simp add: n)
  qed
next
  case (12 fr k v d)
  then obtain m where n: "n = Suc m" by (cases n) auto
  let ?r = "(if d = [] then [] else 44 # dump_members fr d) @ 125 # r"
  from 12 obtain s where s: "k = KStr s" by (cases k) auto
  have "stops ?r" by (simp add: stops_def is_digit_def)
  with 12 n have v: "p_value m (dump fr v @ ?r) = Inr (v, ?r)" by (auto simp: dump_str_def)
  from 12 have sv: "starts_value (dump fr v)" by (auto intro: dump_starts)
  show ?case
  proof (cases "d = []")
    case True
    with v sv show ?thesis by (simp add: n s dump_str_def scan_str_dump)
  next
    case False
    then have "starts_value (dump_members fr d)" by (rule starts_members)
    moreover from False 12 n have "p_members m (dump_members fr d @ 125 # r) = Inr (d, r)"
      by (auto simp: dump_str_def)
    ultimately show ?thesis using False v sv by (simp add: n s dump_str_def scan_str_dump)
  qed
qed auto

subsection \<open>The fuel is enough\<close>

lemma skip_ws_length: "length (skip_ws s) \<le> length s"
  by (induction s) auto

lemma scan_str_length: "scan_str s = Some (t, r) \<Longrightarrow> length r < length s"
proof (induction s arbitrary: t r rule: scan_str.induct)
  case (2 c s)
  show ?case
    using 2 by (auto simp: scan_str.simps(2) split: if_splits list.splits option.splits)
      (fastforce)+
qed simp

lemma strip_prefix_length: "strip_prefix p s = Some r \<Longrightarrow> length s = length p + length r"
  by (induction p s rule: strip_prefix.induct) (auto split: if_splits)

lemma scan_exp_length: "scan_exp s = (e, r) \<Longrightarrow> length r \<le> length s"
  by (auto simp: scan_exp_def Let_def split: list.splits if_splits
      intro: order_trans [OF length_dropWhile_le])

lemma int_part_length: "int_part s \<noteq> [] \<Longrightarrow> length (int_part s) \<le> length s"
  by (auto simp: int_part_def length_takeWhile_le Suc_le_eq)

lemma scan_unsigned_length:
  assumes "scan_unsigned neg s = Inr (v, r)"
  shows "length r < length s"
proof -
  obtain ex where "scan_exp (if frac_part (drop (length (int_part s)) s) = [] then drop (length (int_part s)) s
    else drop (Suc (length (frac_part (drop (length (int_part s)) s)))) (drop (length (int_part s)) s)) = (ex, r)"
    and ip: "int_part s \<noteq> []"
    using assms by (auto simp: scan_unsigned_def Let_def split: prod.splits if_splits)
  from scan_exp_length [OF this(1)] have "length r \<le> length s - length (int_part s)"
    by (auto split: if_splits)
  with ip int_part_length [OF ip] show ?thesis by (cases "int_part s") auto
qed

lemma scan_unsigned_exn: "scan_unsigned neg s \<noteq> Inl RecursionError"
  by (auto simp: scan_unsigned_def Let_def split: prod.splits)

lemma p_atom_length: "p_atom s = Inr (v, r) \<Longrightarrow> length r < length s"
  by (auto simp: p_atom_def scan_number_def str_def
      dest!: strip_prefix_length scan_unsigned_length split: option.splits if_splits)

lemma p_atom_exn: "p_atom s \<noteq> Inl RecursionError"
  by (auto simp: p_atom_def scan_number_def scan_unsigned_exn split: option.splits if_splits)

lemma skip_ws_Cons: "skip_ws s = c # r \<Longrightarrow> length r < length s"
  using skip_ws_length [of s] by simp

lemma p_elems_inv:
  assumes "p_elems (Suc n) s = Inr (vs, r)"
  shows "\<exists>x r1 c r2. p_value n s = Inr (x, r1) \<and> skip_ws r1 = c # r2 \<and>
     (c = 93 \<and> r = r2 \<or> c = 44 \<and> (\<exists>ys. p_elems n (skip_ws r2) = Inr (ys, r)))"
proof -
  from assms obtain x r1 where v: "p_value n s = Inr (x, r1)" by (auto simp: bindE_eq_Inr)
  with assms show ?thesis by (cases "skip_ws r1") (auto simp: bindE_eq_Inr split: if_splits)
qed

lemma p_members_inv:
  assumes "p_members (Suc n) s = Inr (kvs, r)"
  shows "\<exists>s1 k s2 s3 x r1 c r2. s = 34 # s1 \<and> scan_str s1 = Some (k, s2) \<and> skip_ws s2 = 58 # s3 \<and>
     p_value n (skip_ws s3) = Inr (x, r1) \<and> skip_ws r1 = c # r2 \<and>
     (c = 125 \<and> r = r2 \<or> c = 44 \<and> (\<exists>ys. p_members n (skip_ws r2) = Inr (ys, r)))"
proof -
  from assms obtain s1 k s2 s3 where s: "s = 34 # s1" "scan_str s1 = Some (k, s2)" "skip_ws s2 = 58 # s3"
    by (auto split: list.split_asm option.split_asm if_split_asm)
  with assms obtain x r1 where v: "p_value n (skip_ws s3) = Inr (x, r1)" by (auto simp: bindE_eq_Inr)
  with assms s show ?thesis by (cases "skip_ws r1") (auto simp: bindE_eq_Inr split: if_splits)
qed

lemma p_length:
  "p_value n s = Inr (v, r) \<Longrightarrow> length r < length s"
  "p_elems n s = Inr (vs, r) \<Longrightarrow> length r < length s"
  "p_members n s = Inr (kvs, r) \<Longrightarrow> length r < length s"
proof (induction n s and n s and n s arbitrary: v r and vs r and kvs r
    rule: p_value_p_elems_p_members.induct)
  case (2 n s)
  then show ?case
    by (cases s) (auto simp: bindE_eq_Inr split: list.splits option.splits if_splits
        dest!: scan_str_length skip_ws_Cons p_atom_length
        intro: less_trans order.strict_trans1, fastforce+)
next
  case (4 n s)
  from p_elems_inv [OF 4(3)] obtain x r1 c r2 where v: "p_value n s = Inr (x, r1)"
    and ws: "skip_ws r1 = c # r2"
    and rest: "c = 93 \<and> r = r2 \<or> c = 44 \<and> (\<exists>ys. p_elems n (skip_ws r2) = Inr (ys, r))"
    by blast
  have "length r1 < length s" by (rule 4(1) [OF v])
  with skip_ws_Cons [OF ws] skip_ws_length [of r2] rest show ?case
    using 4(2) [OF v refl ws] by fastforce
next
  case (6 n s)
  from p_members_inv [OF 6(3)] obtain s1 k s2 s3 x r1 c r2
    where s: "s = 34 # s1" "scan_str s1 = Some (k, s2)"
    "skip_ws s2 = 58 # s3" and v: "p_value n (skip_ws s3) = Inr (x, r1)" and ws: "skip_ws r1 = c # r2"
    and rest: "c = 125 \<and> r = r2 \<or> c = 44 \<and> (\<exists>ys. p_members n (skip_ws r2) = Inr (ys, r))"
    by blast
  have "length r1 < length (skip_ws s3)" using 6(1) [OF s(1) _ s(2) refl s(3) _ v] by simp
  with skip_ws_Cons [OF ws] skip_ws_length [of r2] skip_ws_length [of s3] skip_ws_Cons [OF s(3)]
    scan_str_length [OF s(2)] s(1) rest show ?case
    using 6(2) [OF s(1) _ s(2) refl s(3) _ v refl ws] by fastforce
qed simp_all

lemma p_value_fuel:
  "2 * length s < n \<Longrightarrow> p_value n s \<noteq> Inl RecursionError"
  "2 * length s + 1 < n \<Longrightarrow> p_elems n s \<noteq> Inl RecursionError"
  "2 * length s + 1 < n \<Longrightarrow> p_members n s \<noteq> Inl RecursionError"
proof (induction n s and n s and n s rule: p_value_p_elems_p_members.induct)
  case (2 n s)
  { fix c r d r' assume s: "s = c # r" "skip_ws r = d # r'"
    with 2(3) skip_ws_Cons [of r d r'] have "2 * length (d # r') + 1 < n" by simp
    with 2(1,2) [OF s(1)] s(2)
    have "c = 91 \<Longrightarrow> d \<noteq> 93 \<Longrightarrow> p_elems n (d # r') \<noteq> Inl RecursionError"
      "c = 123 \<Longrightarrow> d \<noteq> 125 \<Longrightarrow> p_members n (d # r') \<noteq> Inl RecursionError" by auto }
  then show ?case
    by (cases s) (auto simp: bindE_eq_Inl p_atom_exn split: list.split_asm option.split_asm if_split_asm)
next
  case (4 n s)
  have v: "p_value n s \<noteq> Inl RecursionError" using 4 by simp
  { fix x r1 r2 assume h: "p_value n s = Inr (x, r1)" "skip_ws r1 = 44 # r2"
    from p_length(1) [OF h(1)] skip_ws_Cons [OF h(2)] skip_ws_length [of r2] 4(3)
    have "2 * length (skip_ws r2) + 1 < n" by linarith
    with 4(2) [OF h(1) refl h(2)] have "p_elems n (skip_ws r2) \<noteq> Inl RecursionError" by simp }
  with v show ?case by (auto simp: bindE_eq_Inl split: list.splits if_splits)
next
  case (6 n s)
  { fix s1 k s2 s3 assume s: "s = 34 # s1" "scan_str s1 = Some (k, s2)" "skip_ws s2 = 58 # s3"
    from scan_str_length [OF s(2)] skip_ws_Cons [OF s(3)] skip_ws_length [of s3] 6(3) s(1)
    have l: "2 * length (skip_ws s3) < n" "2 * length s3 + 4 < n" by auto
    with 6(1) [OF s(1) _ s(2) refl s(3)] have v: "p_value n (skip_ws s3) \<noteq> Inl RecursionError" by simp
    { fix x r1 r2 assume h: "p_value n (skip_ws s3) = Inr (x, r1)" "skip_ws r1 = 44 # r2"
      from p_length(1) [OF h(1)] skip_ws_Cons [OF h(2)] skip_ws_length [of r2] skip_ws_length [of s3] l
      have "2 * length (skip_ws r2) + 1 < n" by linarith
      with 6(2) [OF s(1) _ s(2) refl s(3) _ h(1) refl h(2)]
      have "p_members n (skip_ws r2) \<noteq> Inl RecursionError" by simp }
    note v this }
  then show ?case by (auto simp: bindE_eq_Inl split: list.splits option.splits if_splits)
qed simp_all

lemma json_loads_never_runs_out: "json_loads b \<noteq> Inl RecursionError"
proof -
  have "json_loads_str s \<noteq> Inl RecursionError" for s
    using p_value_fuel(1) [of "skip_ws s" "2 * length (skip_ws s) + 1"]
    unfolding json_loads_str_def Let_def bindE_eq_Inl by (auto split: if_splits simp del: p_value.simps)
  then show ?thesis by (simp add: json_loads_def split: option.split)
qed

end
