(* ===== verification/Canonical.thy ===== *)
theory Canonical
  imports Json_Text Sha256 "HOL-Library.Multiset"
begin

section \<open>Canonical JSON\<close>

text \<open>
  \<open>agent_probe/canonical.py\<close>: \<open>_validate\<close> accepts exactly the JSON values without floats, with
  integers in the exact range, with string keys and with strings UTF-8 can encode;
  \<open>canonical_bytes\<close> is the one byte string that represents such a value, and \<open>sha256_hex\<close> its digest.
  The lemmas show that parsing the bytes gives the value back with sorted keys, hence that two values
  with the same bytes are equal up to the order of dictionary entries, and that equal digests mean
  equal values or a SHA-256 collision. The path inside an error message is left out.
\<close>

definition MAX_SAFE_INTEGER :: int where
  "MAX_SAFE_INTEGER = 2 ^ 53 - 1"

fun validate_key :: "pykey \<Rightarrow> unit res" where
  "validate_key (KStr s) =
     (if utf8_encode s = None then Inl (CanonicalizationError ''invalid Unicode scalar value'')
      else Inr ())"
| "validate_key (KOther n) = Inl (CanonicalizationError ''object key is not a string'')"

fun validate :: "pyval \<Rightarrow> unit res"
  and validate_list :: "pyval list \<Rightarrow> unit res"
  and validate_items :: "pydict \<Rightarrow> unit res" where
  "validate PNone = Inr ()"
| "validate (PBool b) = Inr ()"
| "validate (PStr s) =
     (if utf8_encode s = None then Inl (CanonicalizationError ''invalid Unicode scalar value'')
      else Inr ())"
| "validate (PInt i) =
     (if \<not> (- MAX_SAFE_INTEGER \<le> i \<and> i \<le> MAX_SAFE_INTEGER)
      then Inl (CanonicalizationError ''integer outside exact JSON number range'') else Inr ())"
| "validate (PFloat f) = Inl (CanonicalizationError ''floating-point values are forbidden'')"
| "validate (PList xs) = validate_list xs"
| "validate (PDict d) = validate_items d"
| "validate (POther n) = Inl (CanonicalizationError ''unsupported JSON type'')"
| "validate_list [] = Inr ()"
| "validate_list (x # xs) = bindE (validate x) (\<lambda>_. validate_list xs)"
| "validate_items [] = Inr ()"
| "validate_items ((k, v) # d) =
     bindE (validate_key k) (\<lambda>_. bindE (validate v) (\<lambda>_. validate_items d))"

text \<open>No float reaches the encoder, so the text of floats it is given does not matter.\<close>

definition canonical_bytes :: "pyval \<Rightarrow> bytes res" where
  "canonical_bytes v =
     bindE (validate v) (\<lambda>_.
       case json_dumps (\<lambda>f. []) v of
         Inl e \<Rightarrow> Inl (CanonicalizationError ''value is not canonical JSON'')
       | Inr s \<Rightarrow>
           (case utf8_encode s of
              None \<Rightarrow> Inl (CanonicalizationError ''value is not canonical JSON'')
            | Some b \<Rightarrow> Inr b))"

definition sha256_hex :: "pyval \<Rightarrow> pystr res" where
  "sha256_hex v = bindE (canonical_bytes v) (\<lambda>b. Inr (sha256_hexdigest b))"

subsection \<open>Elementwise views of the recursive functions\<close>

lemma canon_list_map: "canon_list xs = map canon xs"
  by (induction xs) auto

lemma canon_dict_map: "canon_dict d = map (apsnd canon) d"
  by (induction d) auto

lemma jsonable_list_all: "jsonable_list xs \<longleftrightarrow> list_all jsonable xs"
  by (induction xs) auto

lemma jsonable_dict_all: "jsonable_dict d \<longleftrightarrow> list_all (\<lambda>(k, v). is_KStr k \<and> jsonable v) d"
  by (induction d) auto

lemma wf_list_all: "wf_list xs \<longleftrightarrow> list_all wf_val xs"
  by (induction xs) auto

lemma wf_items_all: "wf_items d \<longleftrightarrow> list_all (\<lambda>(k, v). wf_val v) d"
  by (induction d) auto

lemma validate_list_all: "validate_list xs = Inr () \<longleftrightarrow> list_all (\<lambda>x. validate x = Inr ()) xs"
  by (induction xs) (auto simp: bindE_eq_Inr)

lemma validate_items_all:
  "validate_items d = Inr () \<longleftrightarrow> list_all (\<lambda>(k, v). validate_key k = Inr () \<and> validate v = Inr ()) d"
  by (induction d) (auto simp: bindE_eq_Inr)

lemmas canon_all = canon_list_map canon_dict_map jsonable_list_all jsonable_dict_all wf_list_all
  wf_items_all validate_list_all validate_items_all

lemma map_fst_apsnd: "map fst (map (apsnd f) d) = map fst d"
  by (induction d) auto

lemma distinct_sort_fst:
  "distinct (map fst (sort_key f d)) \<longleftrightarrow> distinct (map fst d)"
  by (metis mset_eq_imp_distinct_iff mset_map mset_sort)

lemma distinct_canon_dict [simp]:
  "distinct (map fst (sort_key f (canon_dict d))) \<longleftrightarrow> distinct (map fst d)"
  by (simp only: distinct_sort_fst canon_dict_map map_fst_apsnd)

subsection \<open>Validated values\<close>

lemma safe_int_digits: "\<bar>i\<bar> \<le> MAX_SAFE_INTEGER \<Longrightarrow> length (dec (nat \<bar>i\<bar>)) \<le> 4300"
proof -
  assume "\<bar>i\<bar> \<le> MAX_SAFE_INTEGER"
  then have "nat \<bar>i\<bar> < 10 ^ Suc 15" by (simp add: MAX_SAFE_INTEGER_def nat_less_iff)
  from length_dec [OF this] show ?thesis by simp
qed

lemma validate_jsonable: "validate v = Inr () \<Longrightarrow> wf_val v \<Longrightarrow> jsonable (canon v)"
proof (induction v)
  case (PInt i)
  then show ?case using safe_int_digits [of i] by (auto split: if_splits)
next
  case (PList xs)
  then show ?case by (auto simp: canon_all list_all_iff)
next
  case (PDict d)
  have "is_KStr k" if "(k, v) \<in> set d" for k v
    using PDict.prems that by (cases k) (auto simp: canon_all list_all_iff)
  moreover have "jsonable (canon v)" if "(k, v) \<in> set d" for k v
    using PDict that by (fastforce simp: canon_all list_all_iff)
  ultimately show ?case using PDict.prems(2)
    by (auto simp: jsonable_dict_all list_all_iff canon_dict_map distinct_sort_fst map_fst_apsnd simp del: map_map)
qed auto

lemma validate_dumpable: "validate v = Inr () \<Longrightarrow> dumpable v \<and> finite_floats v"
proof (induction v)
  case (PList xs)
  then have "list_all dumpable xs \<and> list_all finite_floats xs" by (auto simp: canon_all list_all_iff)
  moreover have "dumpable_list xs = list_all dumpable xs" "finite_floats_list xs = list_all finite_floats xs"
    by (induction xs) auto
  ultimately show ?case by simp
next
  case (PDict d)
  have "is_KStr k" if "(k, v) \<in> set d" for k v
    using PDict.prems that by (cases k) (auto simp: canon_all list_all_iff)
  then have "list_all (\<lambda>(k, v). is_KStr k \<and> dumpable v) d \<and> list_all (\<lambda>(k, v). finite_floats v) d"
    using PDict by (fastforce simp: canon_all list_all_iff)
  moreover have "dumpable_dict d = list_all (\<lambda>(k, v). is_KStr k \<and> dumpable v) d"
    "finite_floats_dict d = list_all (\<lambda>(k, v). finite_floats v) d"
    by (induction d) auto
  ultimately show ?case by simp
qed (auto split: if_splits)

lemma validate_canon: "validate v = Inr () \<Longrightarrow> validate (canon v) = Inr ()"
proof (induction v)
  case (PDict d)
  then show ?case by (fastforce simp: canon_all list_all_iff)
qed (auto simp: canon_all list_all_iff)

subsection \<open>The text is printable and encodable\<close>

definition text_char :: "nat \<Rightarrow> bool" where
  "text_char c = (32 \<le> c \<and> scalar c)"

lemma text_char_small: "32 \<le> c \<Longrightarrow> c < 128 \<Longrightarrow> text_char c"
  by (simp add: text_char_def scalar_def)

lemma encodable_iff: "utf8_encode s = None \<longleftrightarrow> \<not> list_all scalar s"
  using utf8_encode_Some_iff [of s] by auto

lemma esc_char_text: "scalar c \<Longrightarrow> list_all text_char (esc_char c)"
  by (auto simp: esc_char_def text_char_def scalar_def hex_digit_def)

lemma dump_str_text: "list_all scalar s \<Longrightarrow> list_all text_char (dump_str s)"
  using esc_char_text by (auto simp: dump_str_def list_all_iff text_char_small)

lemma dump_int_text: "list_all text_char (dump_int i)"
proof -
  have "list_all text_char (dec n)" for n
    by (rule list.pred_mono_strong [OF dec_digits]) (simp add: is_digit_def text_char_small)
  then show ?thesis by (simp add: dump_int_def text_char_small)
qed

lemma str_text: "list_all (\<lambda>c. 32 \<le> (of_char c :: nat) \<and> (of_char c :: nat) < 128) s \<Longrightarrow> list_all text_char (str s)"
  by (auto simp: str_def list_all_iff text_char_small)

lemma dump_text:
  "validate v = Inr () \<Longrightarrow> list_all text_char (dump fr v)"
  "validate_list xs = Inr () \<Longrightarrow> list_all text_char (dump_elems fr xs)"
  "validate_items d = Inr () \<Longrightarrow> list_all text_char (dump_members fr d)"
proof (induction fr v and fr xs and fr d rule: dump_dump_elems_dump_members.induct)
  case (12 fr k v d)
  then obtain s where "k = KStr s" by (cases k) (auto simp: bindE_eq_Inr)
  with 12 show ?case
    by (auto simp: bindE_eq_Inr dump_str_text encodable_iff text_char_small split: if_splits)
qed (auto simp: bindE_eq_Inr dump_str_text dump_int_text encodable_iff text_char_small str_text split: if_splits)

lemma canonical_bytes_eq:
  assumes "validate v = Inr ()"
  obtains b where "canonical_bytes v = Inr b" "utf8_encode (dump (\<lambda>f. []) (canon v)) = Some b"
proof -
  have "list_all scalar (dump (\<lambda>f. []) (canon v))"
    using dump_text(1) [OF validate_canon [OF assms]] by (auto simp: list_all_iff text_char_def)
  then obtain b where "utf8_encode (dump (\<lambda>f. []) (canon v)) = Some b"
    using utf8_encode_Some_iff by blast
  with assms validate_dumpable [OF assms] that show ?thesis
    by (simp add: canonical_bytes_def json_dumps_def)
qed

lemma canonical_bytes_Inr:
  assumes "canonical_bytes v = Inr b"
  shows "validate v = Inr ()" "utf8_encode (dump (\<lambda>f. []) (canon v)) = Some b"
proof -
  show v: "validate v = Inr ()" using assms by (auto simp: canonical_bytes_def bindE_eq_Inr)
  from canonical_bytes_eq [OF v] show "utf8_encode (dump (\<lambda>f. []) (canon v)) = Some b"
    using assms by auto
qed

lemma canonical_bytes_total: "(\<exists>b. canonical_bytes v = Inr b) \<longleftrightarrow> validate v = Inr ()"
  by (metis canonical_bytes_eq canonical_bytes_Inr(1))


subsection \<open>Parsing the bytes\<close>

lemma byte_of_nonzero: "0 < n \<Longrightarrow> n < 256 \<Longrightarrow> byte_of n \<noteq> 0 \<and> 0 \<noteq> byte_of n"
  using unat_byte_of [of n] by (metis unat_0 less_numeral_extra(3))

lemma utf8_char_text:
  assumes "text_char c"
  shows "\<exists>b. utf8_char c = Some b \<and> 0 \<notin> set b \<and> (c < 128 \<longrightarrow> b = [byte_of c])"
proof -
  have "c div 262144 < 16" using assms by (simp add: text_char_def scalar_def div_less_iff_less_mult)
  moreover have "c < 65536 \<Longrightarrow> c div 4096 < 16" "c < 2048 \<Longrightarrow> c div 64 < 32"
    "c div 64 mod 64 < 64" "c div 4096 mod 64 < 64" "c mod 64 < 64"
    by (simp_all add: div_less_iff_less_mult)
  ultimately show ?thesis
    using assms byte_of_nonzero [of c]
    by (auto simp: utf8_char_def text_char_def scalar_def byte_of_nonzero)
qed

lemma utf8_encode_nonzero:
  "list_all text_char s \<Longrightarrow> utf8_encode s = Some b \<Longrightarrow> 0 \<notin> set b"
proof (induction s arbitrary: b)
  case (Cons c s)
  then show ?case using utf8_char_text [of c] by auto
qed simp

lemma json_decode_bytes_text:
  assumes "list_all text_char (c # s)" "c < 128" "utf8_encode (c # s) = Some b"
  shows "json_decode_bytes b = Some (c # s)"
proof -
  have "utf8_char c = Some [byte_of c]" using utf8_char_text [of c] assms(1,2) by auto
  with assms(3) obtain b' where b: "b = byte_of c # b'" by (auto split: option.splits)
  have nz: "0 \<notin> set b" using utf8_encode_nonzero [OF assms(1,3)] .
  have "unat (byte_of c) < 128" using assms(2) by simp
  then have "byte_of c \<noteq> 0xFE" "byte_of c \<noteq> 0xFF" "byte_of c \<noteq> 0xEF" by auto
  moreover have "b ! 1 \<noteq> 0" if "2 \<le> length b"
    using nz nth_mem [of 1 b] that by (auto simp del: nth_mem)
  ultimately show ?thesis
    using nz utf8_roundtrip [OF assms(3), of True] by (auto simp: json_decode_bytes_def b)
qed

lemma dump_first: "jsonable v \<Longrightarrow> \<exists>c t. dump fr v = c # t \<and> c < 128"
proof (cases v)
  case (PInt i)
  obtain c t where "dump_int i @ [] = c # t" "c = 45 \<or> is_digit c" by (rule dump_int_head)
  with PInt show ?thesis by (auto simp: is_digit_def)
qed (auto simp: dump_str_def str_def)

lemma json_loads_canonical:
  assumes "wf_val v" "canonical_bytes v = Inr b"
  shows "json_loads b = Inr (canon v)"
proof -
  let ?t = "dump (\<lambda>f. []) (canon v)"
  note v = canonical_bytes_Inr [OF assms(2)]
  have j: "jsonable (canon v)" using v(1) assms(1) by (rule validate_jsonable)
  obtain c t where ct: "?t = c # t" "c < 128" using dump_first [OF j] by blast
  have "list_all text_char ?t" by (rule dump_text(1) [OF validate_canon [OF v(1)]])
  then have d: "json_decode_bytes b = Some ?t" using json_decode_bytes_text [of c t] ct v(2) by simp
  have ws: "skip_ws ?t = ?t" using skip_ws_starts [OF dump_starts [OF j], where r = "[]"] by simp
  have "p_value (2 * length ?t + 1) ?t = Inr (canon v, [])"
    using p_value_dump(1) [OF j, where r = "[]" and n = "2 * length ?t + 1" and fr = "\<lambda>f. []"] by (simp add: stops_def del: p_value.simps)
  then show ?thesis using ws d unfolding json_loads_def json_loads_str_def Let_def
    by (simp del: p_value.simps)
qed

lemma canonical_bytes_inj:
  assumes "wf_val v" "wf_val w" "canonical_bytes v = Inr b" "canonical_bytes w = Inr b"
  shows "canon v = canon w"
  using json_loads_canonical [OF assms(1,3)] json_loads_canonical [OF assms(2,4)] by simp

lemma canonical_bytes_canon: "canonical_bytes v = Inr b \<Longrightarrow> canon v = canon w \<Longrightarrow> validate w = Inr () \<Longrightarrow> canonical_bytes w = Inr b"
  by (metis canonical_bytes_Inr(2) canonical_bytes_eq option.inject)

lemma sha256_hex_binds:
  assumes "wf_val v" "wf_val w" "sha256_hex v = Inr h" "sha256_hex w = Inr h"
  shows "canon v = canon w \<or>
    (\<exists>b c. canonical_bytes v = Inr b \<and> canonical_bytes w = Inr c \<and> sha256_collision b c)"
proof -
  from assms obtain b c where "canonical_bytes v = Inr b" "canonical_bytes w = Inr c"
    "sha256_hexdigest b = sha256_hexdigest c"
    by (auto simp: sha256_hex_def bindE_eq_Inr)
  with sha256_hexdigest_binds canonical_bytes_inj assms(1,2) show ?thesis by blast
qed

lemma sha256_hex_digest: "sha256_hex v = Inr h \<Longrightarrow> is_digest h"
  by (auto simp: sha256_hex_def bindE_eq_Inr)

lemma sha256_hex_total: "validate v = Inr () \<Longrightarrow> \<exists>h. sha256_hex v = Inr h"
  by (metis canonical_bytes_eq sha256_hex_def bindE.simps(2))

subsection \<open>Normal forms decide Python equality\<close>

lemma canon_eq_py_eq:
  "canon v = canon w \<Longrightarrow> validate v = Inr () \<Longrightarrow> wf_val v \<Longrightarrow> wf_val w \<Longrightarrow> py_eq v w"
proof (induction v arbitrary: w)
  case (PList xs)
  then obtain ys where w: "w = PList ys" by (cases w) auto
  from PList.prems(1) have "map canon xs = map canon ys" by (simp add: w canon_list_map)
  moreover have "list_all (\<lambda>x. \<forall>w. canon x = canon w \<longrightarrow> wf_val w \<longrightarrow> py_eq x w) xs"
    using PList.IH PList.prems(2,3) by (auto simp: list_all_iff canon_all)
  moreover have "list_all wf_val ys" using PList.prems(4) by (simp add: w wf_list_all)
  ultimately have "py_eq_list xs ys"
    by (induction xs arbitrary: ys) (auto simp: Cons_eq_map_conv)
  then show ?case by (simp add: w)
next
  case (PDict d)
  then obtain e where w: "w = PDict e" by (cases w) auto
  let ?f = "\<lambda>kv. key_str (fst kv)"
  from PDict.prems(1) have "mset (canon_dict d) = mset (canon_dict e)"
    by (simp add: w) (metis mset_sort)
  then have s: "set (map (apsnd canon) d) = set (map (apsnd canon) e)" and l: "length d = length e"
    by (metis canon_dict_map mset_eq_setD, metis canon_dict_map length_map mset_eq_length)
  have dist: "distinct (map fst e)" and we: "\<And>k x. (k, x) \<in> set e \<Longrightarrow> wf_val x"
    using PDict.prems(4) by (auto simp: w canon_all list_all_iff)
  have look: "\<exists>y. map_of e k = Some y \<and> py_eq x y" if "(k, x) \<in> set d" for k x
  proof -
    from that have "(k, canon x) \<in> set (map (apsnd canon) d)" by force
    then obtain y where y: "(k, y) \<in> set e" "canon x = canon y" unfolding s by auto
    have "validate x = Inr ()" "wf_val x" using PDict.prems(2,3) that by (auto simp: canon_all list_all_iff)
    then have "py_eq x y" using PDict.IH [OF that] y we by (auto simp: snds.simps)
    with y(1) dist show ?thesis by auto
  qed
  have "py_eq_sub d' e" if "set d' \<subseteq> set d" for d'
    using that by (induction d') (auto dest!: look)
  then show ?case by (simp add: w l)
next
  case PNone
  then show ?case by (cases w) auto
next
  case (PBool b)
  then show ?case by (cases w) auto
next
  case (PInt i)
  then show ?case by (cases w) auto
next
  case (PStr s)
  then show ?case by (cases w) auto
next
  case (PFloat f)
  from PFloat.prems(2) show ?case by simp
next
  case (POther n)
  from POther.prems(2) show ?case by simp
qed

subsection \<open>The order of keys\<close>

text \<open>
  RFC 8785 sorts the keys of an object by their UTF-16 code units; \<open>sort_keys\<close> sorts by code point.
  The two orders agree below U+D800 and differ between U+E000..U+FFFF and the supplementary planes.
\<close>

definition utf16_units :: "pystr \<Rightarrow> nat list" where
  "utf16_units s = concat (map (\<lambda>c. if c < 0x10000 then [c]
     else [0xD800 + (c - 0x10000) div 1024, 0xDC00 + (c - 0x10000) mod 1024]) s)"

fun rfc8785 :: "pyval \<Rightarrow> pyval"
  and rfc8785_list :: "pyval list \<Rightarrow> pyval list"
  and rfc8785_dict :: "pydict \<Rightarrow> pydict" where
  "rfc8785 (PList xs) = PList (rfc8785_list xs)"
| "rfc8785 (PDict d) = PDict (sort_key (\<lambda>kv. utf16_units (key_str (fst kv))) (rfc8785_dict d))"
| "rfc8785 v = v"
| "rfc8785_list [] = []"
| "rfc8785_list (x # xs) = rfc8785 x # rfc8785_list xs"
| "rfc8785_dict [] = []"
| "rfc8785_dict ((k, v) # d) = (k, rfc8785 v) # rfc8785_dict d"

fun low_keys :: "pyval \<Rightarrow> bool"
  and low_keys_list :: "pyval list \<Rightarrow> bool"
  and low_keys_dict :: "pydict \<Rightarrow> bool" where
  "low_keys (PList xs) = low_keys_list xs"
| "low_keys (PDict d) = low_keys_dict d"
| "low_keys v = True"
| "low_keys_list [] = True"
| "low_keys_list (x # xs) = (low_keys x \<and> low_keys_list xs)"
| "low_keys_dict [] = True"
| "low_keys_dict ((k, v) # d) = (list_all (\<lambda>c. c < 0xD800) (key_str k) \<and> low_keys v \<and> low_keys_dict d)"

lemma utf16_units_low: "list_all (\<lambda>c. c < 0xD800) s \<Longrightarrow> utf16_units s = s"
  by (induction s) (auto simp: utf16_units_def)

lemma sort_key_cong_on:
  assumes "\<And>x. x \<in> set xs \<Longrightarrow> f x = g x"
  shows "sort_key f xs = sort_key g xs"
proof -
  have ins: "insort_key f x ys = insort_key g x ys" if "f x = g x" "\<forall>y\<in>set ys. f y = g y" for x ys
    using that by (induction ys) auto
  show ?thesis using assms
  proof (induction xs)
    case (Cons x xs)
    then show ?case by (simp add: sort_key_simps ins)
  qed simp
qed

lemma rfc8785_canon:
  "low_keys v \<Longrightarrow> rfc8785 v = canon v"
  "low_keys_list xs \<Longrightarrow> rfc8785_list xs = canon_list xs"
  "low_keys_dict d \<Longrightarrow> rfc8785_dict d = canon_dict d \<and>
     (\<forall>kv\<in>set (canon_dict d). utf16_units (key_str (fst kv)) = key_str (fst kv))"
proof (induction v and xs and d rule: rfc8785_rfc8785_list_rfc8785_dict.induct)
  case (2 d)
  then show ?case by (auto intro: sort_key_cong_on)
qed (auto simp: utf16_units_low)

subsection \<open>The contract of canonical bytes\<close>

lemma validate_exn:
  "validate v = Inl e \<Longrightarrow> \<exists>m. e = CanonicalizationError m"
  "validate_list xs = Inl e \<Longrightarrow> \<exists>m. e = CanonicalizationError m"
  "validate_items d = Inl e \<Longrightarrow> \<exists>m. e = CanonicalizationError m"
proof (induction v and xs and d arbitrary: e and e and e rule: validate_validate_list_validate_items.induct)
  case (12 k v d)
  then show ?case by (cases k) (auto simp: bindE_eq_Inl bindE_eq_Inr split: if_splits)
qed (auto simp: bindE_eq_Inl split: if_splits)

lemma canonical_bytes_exn: "canonical_bytes v = Inl e \<Longrightarrow> \<exists>m. e = CanonicalizationError m"
  using validate_exn(1) by (auto simp: canonical_bytes_def bindE_eq_Inl split: sum.splits option.splits)

lemma sha256_hex_exn: "sha256_hex v = Inl e \<Longrightarrow> \<exists>m. e = CanonicalizationError m"
  using canonical_bytes_exn by (auto simp: sha256_hex_def bindE_eq_Inl)

text \<open>C38: \<open>canonical_bytes\<close> either raises \<open>CanonicalizationError\<close>, exactly for the values \<open>_validate\<close>
  rejects, or returns bytes from which \<open>json.loads\<close> rebuilds the value with sorted keys.\<close>

theorem canonical_roundtrip:
  assumes "wf_val v"
  shows "case canonical_bytes v of
           Inl e \<Rightarrow> validate v \<noteq> Inr () \<and> (\<exists>m. e = CanonicalizationError m)
         | Inr b \<Rightarrow> validate v = Inr () \<and> json_loads b = Inr (canon v)"
proof (cases "canonical_bytes v")
  case (Inl e)
  then have "validate v \<noteq> Inr ()" using canonical_bytes_total [of v] by auto
  with Inl canonical_bytes_exn [OF Inl] show ?thesis by simp
next
  case (Inr b)
  with assms canonical_bytes_Inr(1) json_loads_canonical show ?thesis by simp
qed

theorem canonical_roundtrip_witness:
  "case canonical_bytes (obj [(''b'', PInt 1), (''a'', PBool True)]) of
     Inl e \<Rightarrow> validate (obj [(''b'', PInt 1), (''a'', PBool True)]) \<noteq> Inr () \<and> (\<exists>m. e = CanonicalizationError m)
   | Inr b \<Rightarrow> validate (obj [(''b'', PInt 1), (''a'', PBool True)]) = Inr () \<and>
       json_loads b = Inr (canon (obj [(''b'', PInt 1), (''a'', PBool True)]))"
  by (rule canonical_roundtrip) (simp add: py_eval)

text \<open>two documents with the same \<open>sha256_hex\<close> are equal in the sense of \<open>==\<close> (and have the same
  canonical bytes), or their canonical bytes are a SHA-256 collision.\<close>

theorem digest_binds_document:
  assumes "wf_val v" "wf_val w" "sha256_hex v = Inr h" "sha256_hex w = Inr h"
  shows "(py_eq v w \<and> canonical_bytes v = canonical_bytes w) \<or>
    (\<exists>b c. canonical_bytes v = Inr b \<and> canonical_bytes w = Inr c \<and> sha256_collision b c)"
proof -
  from assms(3,4) obtain b c where b: "canonical_bytes v = Inr b" "canonical_bytes w = Inr c"
    by (auto simp: sha256_hex_def bindE_eq_Inr)
  note vw = canonical_bytes_Inr(1) [OF b(1)] canonical_bytes_Inr(1) [OF b(2)]
  from sha256_hex_binds [OF assms] show ?thesis
    using canon_eq_py_eq [OF _ vw(1) assms(1,2)] canonical_bytes_canon [OF b(1) _ vw(2)] b by auto
qed


lemma two_orders:
  "canonical_bytes (obj [(''a'', PInt 1), (''b'', PNone)]) = Inr (bytes_of ''{\"a\":1,\"b\":null}'')"
  "canonical_bytes (obj [(''b'', PNone), (''a'', PInt 1)]) = Inr (bytes_of ''{\"a\":1,\"b\":null}'')"
  by code_simp+

theorem digest_binds_document_witness:
  "\<exists>h. sha256_hex (obj [(''a'', PInt 1), (''b'', PNone)]) = Inr h \<and>
       ((py_eq (obj [(''a'', PInt 1), (''b'', PNone)]) (obj [(''b'', PNone), (''a'', PInt 1)]) \<and>
         canonical_bytes (obj [(''a'', PInt 1), (''b'', PNone)]) =
         canonical_bytes (obj [(''b'', PNone), (''a'', PInt 1)])) \<or>
        (\<exists>b c. canonical_bytes (obj [(''a'', PInt 1), (''b'', PNone)]) = Inr b \<and>
               canonical_bytes (obj [(''b'', PNone), (''a'', PInt 1)]) = Inr c \<and> sha256_collision b c))"
proof -
  have h: "sha256_hex (obj [(''a'', PInt 1), (''b'', PNone)]) = Inr (sha256_hexdigest (bytes_of ''{\"a\":1,\"b\":null}''))"
    "sha256_hex (obj [(''b'', PNone), (''a'', PInt 1)]) = Inr (sha256_hexdigest (bytes_of ''{\"a\":1,\"b\":null}''))"
    by (simp_all add: sha256_hex_def two_orders)
  show ?thesis using digest_binds_document [OF _ _ h] h(1) by (auto simp: py_eval)
qed

text \<open>on documents whose keys stay below U+D800, \<open>canonical_bytes\<close> returns exactly the
  RFC 8785 bytes of the value, whatever order the dictionaries were built in.\<close>

theorem canonical_bytes_rfc8785:
  assumes "low_keys v" "validate v = Inr ()"
  shows "\<exists>b. canonical_bytes v = Inr b \<and> utf8_encode (dump (\<lambda>f. []) (rfc8785 v)) = Some b"
  using canonical_bytes_eq [OF assms(2)] rfc8785_canon(1) [OF assms(1)] by metis

theorem canonical_bytes_rfc8785_witness:
  "\<exists>b. canonical_bytes (obj [(''b'', PInt 2), (''a'', PList [S ''x''])]) = Inr b \<and>
       utf8_encode (dump (\<lambda>f. []) (rfc8785 (obj [(''b'', PInt 2), (''a'', PList [S ''x''])]))) = Some b"
  by (rule canonical_bytes_rfc8785)
    (simp_all add: obj_def str_def utf8_char_def MAX_SAFE_INTEGER_def)


end
