(* ===== verification/Ip_Address.thy ===== *)
theory Ip_Address
  imports Protocol
begin

section \<open>IP address literals and URL splitting\<close>

text \<open>
  What the sources use of Python's \<open>ipaddress\<close> (literals, the special-purpose networks behind
  \<open>is_global\<close> and its siblings, the compressed text) and of \<open>urllib.parse\<close> (\<open>urlsplit\<close>,
  \<open>urlunsplit\<close>, \<open>quote\<close>). Functions that need the Unicode database (NFC, NFKC, full case mapping,
  IDNA of non-ASCII names) are fields of the record \<open>unicode_db\<close>; they are applied to non-ASCII text
  only, on ASCII text every function here is concrete.
\<close>

subsection \<open>Strings\<close>

definition is_ascii :: "pystr \<Rightarrow> bool" where
  "is_ascii s = list_all (\<lambda>c. c < 128) s"

definition ascii_lower :: "nat \<Rightarrow> nat" where
  "ascii_lower c = (if 65 \<le> c \<and> c \<le> 90 then c + 32 else c)"

definition is_alpha :: "nat \<Rightarrow> bool" where
  "is_alpha c = ((65 \<le> c \<and> c \<le> 90) \<or> (97 \<le> c \<and> c \<le> 122))"

text \<open>\<open>s.split(sep)\<close> for a one-character separator.\<close>

fun split_on :: "nat \<Rightarrow> pystr \<Rightarrow> pystr list" where
  "split_on c [] = [[]]"
| "split_on c (x # s) =
     (if x = c then [] # split_on c s
      else (case split_on c s of [] \<Rightarrow> [[x]] | p # ps \<Rightarrow> (x # p) # ps))"

text \<open>\<open>s.partition(sep)\<close>: the text before the first separator and the text after it.\<close>

definition before :: "nat \<Rightarrow> pystr \<Rightarrow> pystr" where
  "before c s = takeWhile (\<lambda>x. x \<noteq> c) s"

definition after :: "nat \<Rightarrow> pystr \<Rightarrow> pystr" where
  "after c s = drop 1 (dropWhile (\<lambda>x. x \<noteq> c) s)"

fun starts_with :: "pystr \<Rightarrow> pystr \<Rightarrow> bool" where
  "starts_with [] s = True"
| "starts_with (p # ps) [] = False"
| "starts_with (p # ps) (c # s) = (p = c \<and> starts_with ps s)"

definition ends_with :: "pystr \<Rightarrow> pystr \<Rightarrow> bool" where
  "ends_with p s = starts_with (rev p) (rev s)"

text \<open>The characters \<open>str.strip\<close> removes.\<close>

definition py_space :: "nat \<Rightarrow> bool" where
  "py_space c = ((9 \<le> c \<and> c \<le> 13) \<or> (28 \<le> c \<and> c \<le> 32) \<or> c = 0x85 \<or> c = 0xA0 \<or> c = 0x1680 \<or>
     (0x2000 \<le> c \<and> c \<le> 0x200A) \<or> c = 0x2028 \<or> c = 0x2029 \<or> c = 0x202F \<or> c = 0x205F \<or> c = 0x3000)"

definition strip :: "pystr \<Rightarrow> pystr" where
  "strip s = rev (dropWhile py_space (rev (dropWhile py_space s)))"

fun join :: "pystr \<Rightarrow> pystr list \<Rightarrow> pystr" where
  "join sep [] = []"
| "join sep [s] = s"
| "join sep (s # t # r) = s @ sep @ join sep (t # r)"

subsection \<open>The Unicode database\<close>

record unicode_db =
  db_nfc :: "pystr \<Rightarrow> pystr"
  db_nfkc :: "pystr \<Rightarrow> pystr"
  db_lower :: "pystr \<Rightarrow> pystr"
  db_idna :: "pystr \<Rightarrow> pystr option"
  db_isdigit :: "nat \<Rightarrow> bool"
  db_decimal :: "nat \<Rightarrow> nat option"

definition nfc :: "unicode_db \<Rightarrow> pystr \<Rightarrow> pystr" where
  "nfc db s = (if is_ascii s then s else db_nfc db s)"

definition lower :: "unicode_db \<Rightarrow> pystr \<Rightarrow> pystr" where
  "lower db s = (if is_ascii s then map ascii_lower s else db_lower db s)"

definition idna_ascii :: "pystr \<Rightarrow> pystr option" where
  "idna_ascii s =
     (let ls = split_on 46 s in
      if list_all (\<lambda>l. 0 < length l \<and> length l < 64) (butlast ls) \<and> length (last ls) < 64
      then Some s else None)"

definition idna_encode :: "unicode_db \<Rightarrow> pystr \<Rightarrow> pystr option" where
  "idna_encode db s = (if s = [] then Some [] else if is_ascii s then idna_ascii s else db_idna db s)"

text \<open>\<open>str.isdigit\<close>, and \<open>int(s)\<close> of a string of digits, which refuses digits that are not decimal.\<close>

definition py_isdigit :: "unicode_db \<Rightarrow> pystr \<Rightarrow> bool" where
  "py_isdigit db s = (s \<noteq> [] \<and> list_all (\<lambda>c. if c < 128 then is_digit c else db_isdigit db c) s)"

definition decimal_value :: "unicode_db \<Rightarrow> nat \<Rightarrow> nat option" where
  "decimal_value db c = (if c < 128 then (if is_digit c then Some (c - 48) else None) else db_decimal db c)"

definition py_int :: "unicode_db \<Rightarrow> pystr \<Rightarrow> nat option" where
  "py_int db s =
     (if 4300 < length s \<or> s = [] then None
      else foldl (\<lambda>acc c. case (acc, decimal_value db c) of (Some n, Some d) \<Rightarrow> Some (10 * n + d) | _ \<Rightarrow> None)
             (Some 0) s)"

subsection \<open>IP literals\<close>

definition parse_octet :: "pystr \<Rightarrow> nat option" where
  "parse_octet s =
     (if s = [] \<or> \<not> list_all is_digit s \<or> 3 < length s \<or> (s \<noteq> [48] \<and> hd s = 48) \<or> 255 < digits_val s
      then None else Some (digits_val s))"

definition ipv4_of :: "pystr \<Rightarrow> nat option" where
  "ipv4_of s =
     (case map parse_octet (split_on 46 s) of
        [Some a, Some b, Some c, Some d] \<Rightarrow> Some (((a * 256 + b) * 256 + c) * 256 + d)
      | _ \<Rightarrow> None)"

definition hex_num :: "pystr \<Rightarrow> nat" where
  "hex_num s = foldl (\<lambda>n c. 16 * n + (case hex_val c of None \<Rightarrow> 0 | Some d \<Rightarrow> d)) 0 s"

definition parse_hextet :: "pystr \<Rightarrow> nat option" where
  "parse_hextet s =
     (if s = [] \<or> 4 < length s \<or> \<not> list_all (\<lambda>c. hex_val c \<noteq> None) s then None else Some (hex_num s))"

definition hextets_val :: "pystr list \<Rightarrow> nat option" where
  "hextets_val ps =
     foldl (\<lambda>acc p. case (acc, parse_hextet p) of (Some n, Some h) \<Rightarrow> Some (n * 65536 + h) | _ \<Rightarrow> None)
       (Some 0) ps"

text \<open>Upper-case hexadecimal without leading zeros is never needed, \<open>%x\<close> is.\<close>

fun hex_text :: "nat \<Rightarrow> pystr" where
  "hex_text n = (if n < 16 then [hex_digit n] else hex_text (n div 16) @ [hex_digit (n mod 16)])"

declare hex_text.simps [simp del]

definition ipv6_parts :: "pystr \<Rightarrow> pystr list option" where
  "ipv6_parts s =
     (let ps = split_on 58 s in
      if s = [] \<or> length ps < 3 then None
      else if 46 \<in> set (last ps) then
        (case ipv4_of (last ps) of
           None \<Rightarrow> None
         | Some n \<Rightarrow> Some (butlast ps @ [hex_text (n div 65536), hex_text (n mod 65536)]))
      else Some ps)"

definition skip_indices :: "pystr list \<Rightarrow> nat list" where
  "skip_indices ps = filter (\<lambda>i. ps ! i = []) [1..<length ps - 1]"

definition ipv6_value :: "pystr list \<Rightarrow> nat option" where
  "ipv6_value ps =
     (if 9 < length ps then None
      else (case skip_indices ps of
          [] \<Rightarrow>
            if length ps \<noteq> 8 \<or> hd ps = [] \<or> last ps = [] then None else hextets_val ps
        | [i] \<Rightarrow>
            (let hi0 = i; lo0 = length ps - i - 1;
                 hi = (if hd ps = [] then hi0 - 1 else hi0);
                 lo = (if last ps = [] then lo0 - 1 else lo0)
             in if (hd ps = [] \<and> hi \<noteq> 0) \<or> (last ps = [] \<and> lo \<noteq> 0) \<or> 8 \<le> hi + lo then None
                else (case (hextets_val (take hi ps), hextets_val (drop (length ps - lo) ps)) of
                    (Some h, Some l) \<Rightarrow> Some (h * 65536 ^ (8 - hi) + l)
                  | _ \<Rightarrow> None))
        | _ \<Rightarrow> None))"

text \<open>A scope after \<open>%\<close> must be non-empty and hold no second \<open>%\<close>.\<close>

definition ipv6_of :: "pystr \<Rightarrow> nat option" where
  "ipv6_of s =
     (if 47 \<in> set s then None
      else if 37 \<in> set s \<and> (after 37 s = [] \<or> 37 \<in> set (after 37 s)) then None
      else (case ipv6_parts (before 37 s) of None \<Rightarrow> None | Some ps \<Rightarrow> ipv6_value ps))"

datatype ip = IPv4 nat | IPv6 nat

definition ip_address :: "pystr \<Rightarrow> ip option" where
  "ip_address s =
     (case ipv4_of s of Some n \<Rightarrow> Some (IPv4 n) | None \<Rightarrow> map_option IPv6 (ipv6_of s))"

subsection \<open>Special-purpose networks\<close>

definition in_net :: "nat \<Rightarrow> nat \<Rightarrow> nat \<times> nat \<Rightarrow> bool" where
  "in_net width n net = (n div 2 ^ (width - snd net) = fst net div 2 ^ (width - snd net))"

definition quad :: "nat \<Rightarrow> nat \<Rightarrow> nat \<Rightarrow> nat \<Rightarrow> nat" where
  "quad a b c d = ((a * 256 + b) * 256 + c) * 256 + d"

definition v4_private_networks :: "(nat \<times> nat) list" where
  "v4_private_networks =
    [(quad 0 0 0 0, 8), (quad 10 0 0 0, 8), (quad 127 0 0 0, 8), (quad 169 254 0 0, 16),
     (quad 172 16 0 0, 12), (quad 192 0 0 0, 24), (quad 192 0 0 170, 31), (quad 192 0 2 0, 24),
     (quad 192 168 0 0, 16), (quad 198 18 0 0, 15), (quad 198 51 100 0, 24), (quad 203 0 113 0, 24),
     (quad 240 0 0 0, 4), (quad 255 255 255 255, 32)]"

definition v4_private :: "nat \<Rightarrow> bool" where
  "v4_private n = (list_ex (in_net 32 n) v4_private_networks \<and>
     \<not> list_ex (in_net 32 n) [(quad 192 0 0 9, 32), (quad 192 0 0 10, 32)])"

definition v4_global :: "nat \<Rightarrow> bool" where
  "v4_global n = (\<not> in_net 32 n (quad 100 64 0 0, 10) \<and> \<not> v4_private n)"

definition v4_unsafe :: "nat \<Rightarrow> bool" where
  "v4_unsafe n = (\<not> v4_global n \<or> v4_private n \<or> in_net 32 n (quad 127 0 0 0, 8) \<or>
     in_net 32 n (quad 169 254 0 0, 16) \<or> in_net 32 n (quad 224 0 0 0, 4) \<or>
     in_net 32 n (quad 240 0 0 0, 4) \<or> n = 0)"

text \<open>The value of an address from its leading hextets, the rest being zero.\<close>

fun oct_at :: "nat \<Rightarrow> nat list \<Rightarrow> nat" where
  "oct_at k [] = 0"
| "oct_at k (h # hs) = h * 65536 ^ k + oct_at (k - 1) hs"

definition oct :: "nat list \<Rightarrow> nat" where
  "oct hs = oct_at 7 hs"

definition v6_private_networks :: "(nat \<times> nat) list" where
  "v6_private_networks =
    [(1, 128), (0, 128), (oct [0, 0, 0, 0, 0, 0xffff], 96), (oct [0x64, 0xff9b, 1], 48), (oct [0x100], 64),
     (oct [0x2001], 23), (oct [0x2001, 0xdb8], 32), (oct [0x2002], 16), (oct [0xfc00], 7),
     (oct [0xfe80], 10)]"

definition v6_private_exceptions :: "(nat \<times> nat) list" where
  "v6_private_exceptions =
    [(oct [0x2001, 1, 0, 0, 0, 0, 0, 1], 128), (oct [0x2001, 1, 0, 0, 0, 0, 0, 2], 128),
     (oct [0x2001, 3], 32), (oct [0x2001, 4, 0x112], 48), (oct [0x2001, 0x20], 28), (oct [0x2001, 0x30], 28)]"

definition v6_reserved_networks :: "(nat \<times> nat) list" where
  "v6_reserved_networks =
    [(0, 8), (oct [0x100], 8), (oct [0x200], 7), (oct [0x400], 6), (oct [0x800], 5), (oct [0x1000], 4),
     (oct [0x4000], 3), (oct [0x6000], 3), (oct [0x8000], 3), (oct [0xA000], 3), (oct [0xC000], 3),
     (oct [0xE000], 4), (oct [0xF000], 5), (oct [0xF800], 6), (oct [0xFE00], 9)]"

definition ipv4_mapped :: "nat \<Rightarrow> nat option" where
  "ipv4_mapped n = (if n div 2 ^ 32 \<noteq> 0xFFFF then None else Some (n mod 2 ^ 32))"

definition v6_private :: "nat \<Rightarrow> bool" where
  "v6_private n = (case ipv4_mapped n of
      Some m \<Rightarrow> v4_private m
    | None \<Rightarrow> list_ex (in_net 128 n) v6_private_networks \<and> \<not> list_ex (in_net 128 n) v6_private_exceptions)"

definition v6_unsafe :: "nat \<Rightarrow> bool" where
  "v6_unsafe n = (v6_private n \<or> n = 1 \<or> in_net 128 n (oct [0xfe80], 10) \<or>
     in_net 128 n (oct [0xff00], 8) \<or> list_ex (in_net 128 n) v6_reserved_networks \<or> n = 0)"

subsection \<open>Compressed text\<close>

definition ipv4_text :: "nat \<Rightarrow> pystr" where
  "ipv4_text n = join [46] (map dec [n div 2 ^ 24, n div 2 ^ 16 mod 256, n div 2 ^ 8 mod 256, n mod 256])"

definition hextets :: "nat \<Rightarrow> pystr list" where
  "hextets n = map (\<lambda>i. hex_text (n div 65536 ^ (7 - i) mod 65536)) [0..<8]"

text \<open>The first longest run of zero hextets, as start and length.\<close>

fun zero_run :: "pystr list \<Rightarrow> nat \<Rightarrow> nat \<Rightarrow> nat \<Rightarrow> nat \<times> nat \<Rightarrow> nat \<times> nat" where
  "zero_run [] i st len best = best"
| "zero_run (h # hs) i st len best =
     (if h = [48] then
        (let st' = (if len = 0 then i else st); len' = Suc len
         in zero_run hs (Suc i) st' len' (if snd best < len' then (st', len') else best))
      else zero_run hs (Suc i) 0 0 best)"

definition compress_hextets :: "pystr list \<Rightarrow> pystr list" where
  "compress_hextets hs =
     (let (st, len) = zero_run hs 0 0 0 (0, 0) in
      if len \<le> 1 then hs
      else (if st = 0 then [[]] else []) @ take st hs @ [[]] @ drop (st + len) hs @
           (if st + len = length hs then [[]] else []))"

definition ipv6_text :: "nat \<Rightarrow> pystr" where
  "ipv6_text n = join [58] (compress_hextets (hextets n))"

subsection \<open>urllib.parse\<close>

record split_result =
  sr_scheme :: pystr
  sr_netloc :: pystr
  sr_path :: pystr
  sr_query :: pystr
  sr_fragment :: pystr

definition scheme_char :: "nat \<Rightarrow> bool" where
  "scheme_char c = (is_alpha c \<or> is_digit c \<or> c = 43 \<or> c = 45 \<or> c = 46)"

definition bracketed_host_ok :: "pystr \<Rightarrow> bool" where
  "bracketed_host_ok h =
     (if h \<noteq> [] \<and> hd h = 118 then
        (let hex = takeWhile (\<lambda>c. hex_val c \<noteq> None) (tl h); r = drop (length hex) (tl h)
         in hex \<noteq> [] \<and> 2 \<le> length r \<and> hd r = 46 \<and> 10 \<notin> set (tl r))
      else (case ip_address h of Some (IPv6 n) \<Rightarrow> True | _ \<Rightarrow> False))"

definition netloc_ok :: "unicode_db \<Rightarrow> pystr \<Rightarrow> bool" where
  "netloc_ok db l =
     (is_ascii l \<or>
      (let n = filter (\<lambda>c. c \<notin> {64, 58, 35, 63}) l; n2 = (if is_ascii n then n else db_nfkc db n)
       in n = n2 \<or> list_all (\<lambda>c. c \<notin> {47, 63, 35, 64, 58}) n2))"

definition split_scheme :: "pystr \<Rightarrow> pystr \<times> pystr" where
  "split_scheme url =
     (if 58 \<in> set url \<and> before 58 url \<noteq> [] \<and> is_alpha (hd url) \<and> list_all scheme_char (before 58 url)
      then (map ascii_lower (before 58 url), after 58 url) else ([], url))"

definition urlsplit :: "unicode_db \<Rightarrow> pystr \<Rightarrow> split_result res" where
  "urlsplit db s =
     (let url0 = filter (\<lambda>c. c \<notin> {9, 10, 13}) (dropWhile (\<lambda>c. c \<le> 32) s);
          (scheme, url) = split_scheme url0;
          has_netloc = (take 2 url = [47, 47]);
          netloc = (if has_netloc then takeWhile (\<lambda>c. c \<notin> {47, 63, 35}) (drop 2 url) else []);
          rest = (if has_netloc then dropWhile (\<lambda>c. c \<notin> {47, 63, 35}) (drop 2 url) else url)
      in if (91 \<in> set netloc) \<noteq> (93 \<in> set netloc) then Inl (ValueError ''Invalid IPv6 URL'')
         else if 91 \<in> set netloc \<and> \<not> bracketed_host_ok (before 93 (after 91 netloc)) then
           Inl (ValueError ''not an IPv6 address'')
         else if \<not> netloc_ok db netloc then Inl (ValueError ''invalid characters under NFKC'')
         else
           (let fragment = (if 35 \<in> set rest then after 35 rest else []);
                rest' = before 35 rest;
                query = (if 63 \<in> set rest' then after 63 rest' else [])
            in Inr \<lparr>sr_scheme = scheme, sr_netloc = netloc, sr_path = before 63 rest', sr_query = query,
                    sr_fragment = fragment\<rparr>))"

text \<open>The text after the last \<open>@\<close>, then host and port; an empty port counts as none.\<close>

definition hostinfo :: "pystr \<Rightarrow> pystr \<times> pystr option" where
  "hostinfo netloc =
     (let info = rev (before 64 (rev netloc));
          (host, port) =
            (if 91 \<in> set info then (before 93 (after 91 info), after 58 (after 93 (after 91 info)))
             else (before 58 info, after 58 info))
      in (host, if port = [] then None else Some port))"

definition sr_hostname :: "unicode_db \<Rightarrow> split_result \<Rightarrow> pystr option" where
  "sr_hostname db r =
     (let h = fst (hostinfo (sr_netloc r)) in
      if h = [] then None
      else Some (lower db (before 37 h) @ (if 37 \<in> set h then 37 # after 37 h else [])))"

definition sr_port :: "split_result \<Rightarrow> nat option res" where
  "sr_port r =
     (case snd (hostinfo (sr_netloc r)) of
        None \<Rightarrow> Inr None
      | Some p \<Rightarrow>
          if \<not> list_all is_digit p then Inl (ValueError ''Port could not be cast to integer value'')
          else if 65535 < digits_val p then Inl (ValueError ''Port out of range 0-65535'')
          else Inr (Some (digits_val p)))"

definition urlunsplit :: "pystr \<Rightarrow> pystr \<Rightarrow> pystr \<Rightarrow> pystr \<Rightarrow> pystr" where
  "urlunsplit scheme netloc path query =
     (let p = (if path \<noteq> [] \<and> hd path \<noteq> 47 then 47 # path else path)
      in scheme @ [58, 47, 47] @ netloc @ p @ (if query = [] then [] else 63 # query))"

definition always_safe :: "nat \<Rightarrow> bool" where
  "always_safe c = (is_alpha c \<or> is_digit c \<or> c = 95 \<or> c = 46 \<or> c = 45 \<or> c = 126)"

definition upper_hex :: "nat \<Rightarrow> nat" where
  "upper_hex n = (if n < 10 then 48 + n else 55 + n)"

definition quote_byte :: "pystr \<Rightarrow> byte \<Rightarrow> pystr" where
  "quote_byte safe b =
     (let c = unat b in
      if always_safe c \<or> c \<in> set safe then [c] else [37, upper_hex (c div 16), upper_hex (c mod 16)])"

definition quote :: "pystr \<Rightarrow> pystr \<Rightarrow> pystr res" where
  "quote safe s =
     (case utf8_encode s of
        None \<Rightarrow> Inl UnicodeError
      | Some b \<Rightarrow> Inr (concat (map (quote_byte safe) b)))"

subsection \<open>Lemmas on splitting\<close>

lemma before_absent [simp]: "c \<notin> set s \<Longrightarrow> before c s = s"
  by (auto simp: before_def takeWhile_eq_all_conv)

lemma after_absent [simp]: "c \<notin> set s \<Longrightarrow> after c s = []"
proof -
  assume "c \<notin> set s"
  then have "dropWhile (\<lambda>x. x \<noteq> c) s = []" by (induction s) auto
  then show ?thesis by (simp only: after_def drop_Nil)
qed

lemma before_append [simp]: "c \<notin> set s \<Longrightarrow> before c (s @ c # t) = s"
  by (induction s) (auto simp: before_def)

lemma after_append [simp]: "c \<notin> set s \<Longrightarrow> after c (s @ c # t) = t"
  by (induction s) (auto simp: after_def)

end
