(* ===== verification/Browser_Contract.thy ===== *)
theory Browser_Contract
  imports Ip_Address
begin

section \<open>Browser contract: URLs, origins and probe requests\<close>

text \<open>
  The first half of \<open>mote/browser_contract.py\<close>: the one canonical spelling of a URL
  (\<open>normalize_url\<close>), exact origins, the check every resolved address has to pass, and the validated
  probe request. Unicode text beyond ASCII goes through the \<open>unicode_db\<close> argument.
\<close>

definition CONTRACT_VERSION :: string where "CONTRACT_VERSION = ''cindermote.browser-probe/v1''"
definition EVIDENCE_VERSION :: string where "EVIDENCE_VERSION = ''cindermote.browser-evidence/v1''"
definition MAX_URL_LENGTH :: nat where "MAX_URL_LENGTH = 4096"
definition MAX_AUTHORIZED_ORIGINS :: nat where "MAX_AUTHORIZED_ORIGINS = 16"
definition MAX_EVIDENCE_EVENTS :: nat where "MAX_EVIDENCE_EVENTS = 100000"

definition DEFAULT_BUDGETS :: "(string \<times> pyval) list" where
  "DEFAULT_BUDGETS =
    [(''wall_clock_sec'', PInt 20), (''cpu_vcpu'', PInt 1), (''ram_mib'', PInt 1024),
     (''max_network_bytes'', PInt (16 * 1024 * 1024)), (''max_events'', PInt 10000),
     (''max_redirects'', PInt 8)]"

definition PASSIVE_NAVIGATION :: "(string \<times> pyval) list" where
  "PASSIVE_NAVIGATION =
    [(''mode'', S ''passive''), (''allow_clicks'', PBool False), (''allow_typing'', PBool False),
     (''allow_uploads'', PBool False), (''allow_downloads'', PBool False),
     (''allow_permission_grants'', PBool False), (''allow_popups'', PBool False),
     (''max_tabs'', PInt 1)]"

definition REQUEST_KEYS :: "string list" where
  "REQUEST_KEYS = [''contract_version'', ''url'', ''authorized_origins'', ''navigation'', ''budgets'']"

definition BUDGET_KEYS :: "string list" where "BUDGET_KEYS = map fst DEFAULT_BUDGETS"
definition NAVIGATION_KEYS :: "string list" where "NAVIGATION_KEYS = map fst PASSIVE_NAVIGATION"

definition BUDGET_RANGES :: "(string \<times> int \<times> int) list" where
  "BUDGET_RANGES =
    [(''wall_clock_sec'', 1, 60), (''cpu_vcpu'', 1, 2), (''ram_mib'', 256, 4096),
     (''max_network_bytes'', 1, 64 * 1024 * 1024), (''max_events'', 1, int MAX_EVIDENCE_EVENTS),
     (''max_redirects'', 0, 20)]"

abbreviation bad :: "string \<Rightarrow> exn" where "bad m \<equiv> BrowserContractError m"

subsection \<open>Hostnames and URLs\<close>

fun invalid_percent :: "pystr \<Rightarrow> bool" where
  "invalid_percent [] = False"
| "invalid_percent (c # s) =
     ((c = 37 \<and> (case s of x # y # _ \<Rightarrow> hex_val x = None \<or> hex_val y = None | _ \<Rightarrow> True)) \<or>
      invalid_percent s)"

definition ascii_upper :: "nat \<Rightarrow> nat" where
  "ascii_upper c = (if 97 \<le> c \<and> c \<le> 122 then c - 32 else c)"

fun upper_escapes :: "pystr \<Rightarrow> pystr" where
  "upper_escapes (c # x # y # s) =
     (if c = 37 \<and> hex_val x \<noteq> None \<and> hex_val y \<noteq> None
      then c # ascii_upper x # ascii_upper y # upper_escapes s else c # upper_escapes (x # y # s))"
| "upper_escapes s = s"

definition canonicalize_escapes :: "pystr \<Rightarrow> pystr res" where
  "canonicalize_escapes s =
     (if invalid_percent s then Inl (bad ''URL contains an invalid percent escape'')
      else Inr (upper_escapes s))"

definition host_alnum :: "nat \<Rightarrow> bool" where
  "host_alnum c = ((97 \<le> c \<and> c \<le> 122) \<or> is_digit c)"

definition host_label :: "pystr \<Rightarrow> bool" where
  "host_label l =
     (l \<noteq> [] \<and> length l \<le> 63 \<and> host_alnum (hd l) \<and> host_alnum (last l) \<and>
      list_all (\<lambda>c. host_alnum c \<or> c = 45) l)"

definition numeric_host_label :: "pystr \<Rightarrow> bool" where
  "numeric_host_label l =
     ((l \<noteq> [] \<and> list_all is_digit l) \<or>
      (2 < length l \<and> l ! 0 = 48 \<and> (l ! 1 = 120 \<or> l ! 1 = 88) \<and>
       list_all (\<lambda>c. hex_val c \<noteq> None) (drop 2 l)))"

definition UNSAFE_HOST_SUFFIXES :: "string list" where
  "UNSAFE_HOST_SUFFIXES =
    [''localhost'', ''local'', ''localdomain'', ''internal'', ''intranet'', ''corp'', ''home'',
     ''lan'', ''home.arpa'', ''onion'', ''invalid'', ''test'', ''example'']"

definition unsafe_suffix :: "pystr \<Rightarrow> bool" where
  "unsafe_suffix h =
     list_ex (\<lambda>s. h = str s \<or> ends_with (46 # str s) h) UNSAFE_HOST_SUFFIXES"

definition normalize_hostname :: "unicode_db \<Rightarrow> pystr \<Rightarrow> pystr res" where
  "normalize_hostname db h =
     (if h = [] \<or> last h = 46 \<or> hd h = 46 then Inl (bad ''URL hostname is empty or ambiguous'')
      else if 37 \<in> set h \<or> 92 \<in> set h \<or> 58 \<in> set h then Inl (bad ''URL hostname is not a DNS name'')
      else if ip_address h \<noteq> None then Inl (bad ''IP literals are not permitted'')
      else (case idna_encode db h of
          None \<Rightarrow> Inl (bad ''URL hostname is not valid IDNA'')
        | Some a \<Rightarrow>
            (let ah = map ascii_lower a; labels = split_on 46 ah in
             if 253 < length ah then Inl (bad ''URL hostname is too long'')
             else if length labels < 2 \<or> \<not> list_all host_label labels then
               Inl (bad ''URL hostname must be a public-style DNS name'')
             else if list_all numeric_host_label labels then
               Inl (bad ''numeric host spellings are not permitted'')
             else if list_all is_digit (last labels) then
               Inl (bad ''numeric top-level domains are not permitted'')
             else if unsafe_suffix ah then
               Inl (bad ''private or special-use hostname is not permitted'')
             else Inr ah)))"

definition path_safe :: pystr where "path_safe = str ''/%:@!$&'' @ [39] @ str ''()*+,;=-._~''"
definition query_safe :: pystr where "query_safe = str ''/%?:@!$&'' @ [39] @ str ''()*+,;=-._~''"

definition screen_url :: "pyval \<Rightarrow> pystr res" where
  "screen_url v =
     bindE (as_str (bad ''URL must be a bounded non-empty string'') v) (\<lambda>s.
       if s = [] \<or> MAX_URL_LENGTH < length s then Inl (bad ''URL must be a bounded non-empty string'')
       else if s \<noteq> strip s \<or> list_ex (\<lambda>c. c \<le> 0x20 \<or> c = 0x7F) s then
         Inl (bad ''URL contains whitespace or a control character'')
       else if 92 \<in> set s then Inl (bad ''URL backslashes are not permitted'')
       else if 35 \<in> set s then Inl (bad ''URL fragments are not permitted'')
       else Inr s)"

text \<open>\<open>except ValueError: raise BrowserContractError(m)\<close> around a call that raises nothing else.\<close>

definition reraise :: "exn \<Rightarrow> 'a res \<Rightarrow> 'a res" where
  "reraise e m = (case m of Inl x \<Rightarrow> Inl e | Inr y \<Rightarrow> Inr y)"

definition url_authority :: "unicode_db \<Rightarrow> split_result \<Rightarrow> pystr res" where
  "url_authority db r =
     (if \<not> (sr_scheme r = str ''http'' \<or> sr_scheme r = str ''https'') \<or> sr_netloc r = [] then
        Inl (bad ''URL scheme must be http or https'')
      else if 64 \<in> set (sr_netloc r) then Inl (bad ''URL credentials are not permitted'')
      else (case sr_hostname db r of
          None \<Rightarrow> Inl (bad ''URL hostname is required'')
        | Some h0 \<Rightarrow>
            bindE (normalize_hostname db h0) (\<lambda>hostname.
            bindE (reraise (bad ''URL port is invalid'') (sr_port r)) (\<lambda>port.
              if port = Some 0 then Inl (bad ''URL port is invalid'')
              else if last (sr_netloc r) = 58 then Inl (bad ''URL port is empty'')
              else
                (let default_port = (if sr_scheme r = str ''http'' then 80 else 443)
                 in Inr (case port of
                           None \<Rightarrow> hostname
                         | Some p \<Rightarrow> if p = default_port then hostname else hostname @ [58] @ dec p))))))"

definition normalize_url :: "unicode_db \<Rightarrow> pyval \<Rightarrow> pystr res" where
  "normalize_url db v =
     bindE (screen_url v) (\<lambda>s.
     bindE (reraise (bad ''URL cannot be parsed'') (urlsplit db s)) (\<lambda>r.
     bindE (url_authority db r) (\<lambda>authority.
       let path0 = (if sr_path r = [] then [47] else sr_path r) in
       bindE (quote path_safe (nfc db path0)) (\<lambda>path1.
       bindE (quote query_safe (nfc db (sr_query r))) (\<lambda>query1.
       bindE (canonicalize_escapes path1) (\<lambda>path.
       bindE (canonicalize_escapes query1) (\<lambda>query.
         let normalized = urlunsplit (sr_scheme r) authority path query in
         if MAX_URL_LENGTH < length normalized then Inl (bad ''normalized URL is too long'')
         else Inr normalized)))))))"

definition url_origin :: "split_result \<Rightarrow> pystr" where
  "url_origin r = sr_scheme r @ str ''://'' @ sr_netloc r"

definition origin_for_url :: "unicode_db \<Rightarrow> pyval \<Rightarrow> pystr res" where
  "origin_for_url db v =
     bindE (normalize_url db v) (\<lambda>u. bindE (urlsplit db u) (\<lambda>r. Inr (url_origin r)))"

definition normalize_origin :: "unicode_db \<Rightarrow> pyval \<Rightarrow> pystr res" where
  "normalize_origin db v =
     bindE (as_str (bad ''authorized origin cannot contain query or fragment data'') v) (\<lambda>s.
       if 63 \<in> set s \<or> 35 \<in> set s then
         Inl (bad ''authorized origin cannot contain query or fragment data'')
       else
         bindE (normalize_url db v) (\<lambda>u.
         bindE (urlsplit db u) (\<lambda>r.
           if sr_path r \<noteq> [47] \<or> sr_query r \<noteq> [] then
             Inl (bad ''authorized origin cannot contain a path'')
           else Inr (url_origin r))))"

subsection \<open>Resolved addresses\<close>

definition validate_resolved_address :: "pyval \<Rightarrow> pystr res" where
  "validate_resolved_address v =
     bindE (as_str (bad ''resolved address must be a plain IP literal'') v) (\<lambda>s.
       if s = [] \<or> s \<noteq> strip s \<or> 37 \<in> set s then
         Inl (bad ''resolved address must be a plain IP literal'')
       else (case ip_address s of
           None \<Rightarrow> Inl (bad ''resolved address is not an IP literal'')
         | Some (IPv4 n) \<Rightarrow>
             if v4_unsafe n then Inl (bad ''resolved address is not public unicast'')
             else Inr (ipv4_text n)
         | Some (IPv6 n) \<Rightarrow>
             (case ipv4_mapped n of
                Some m \<Rightarrow>
                  if v4_unsafe m then Inl (bad ''resolved address is not public unicast'')
                  else Inr (ipv4_text m)
              | None \<Rightarrow>
                  if v6_unsafe n then Inl (bad ''resolved address is not public unicast'')
                  else Inr (ipv6_text n))))"

definition is_authorized_url :: "unicode_db \<Rightarrow> pyval \<Rightarrow> pyval list \<Rightarrow> bool res" where
  "is_authorized_url db v origins =
     bindE (origin_for_url db v) (\<lambda>candidate.
     bindE (mapE (normalize_origin db) origins) (\<lambda>allowed. Inr (candidate \<in> set allowed)))"

subsection \<open>Probe requests\<close>

definition passive_field :: "pyval \<Rightarrow> string \<times> pyval \<Rightarrow> unit res" where
  "passive_field v kv =
     (if get v (fst kv) = snd kv then Inr () else Inl (bad ''violates passive-only mode''))"

definition validate_navigation :: "pyval \<Rightarrow> pyval res" where
  "validate_navigation v =
     (if \<not> has_shape v NAVIGATION_KEYS then Inl (bad ''navigation has missing or extra fields'')
      else bindE (mapE (passive_field v) PASSIVE_NAVIGATION) (\<lambda>_. Inr (obj PASSIVE_NAVIGATION)))"

definition budget_field :: "pyval \<Rightarrow> string \<times> int \<times> int \<Rightarrow> (string \<times> pyval) res" where
  "budget_field v rng =
     (case rng of (k, lo, hi) \<Rightarrow>
        bindE (as_int (bad ''budget must be an integer in range'') (get v k)) (\<lambda>i.
          if lo \<le> i \<and> i \<le> hi then Inr (k, PInt i) else Inl (bad ''budget must be an integer in range'')))"

definition validate_budgets :: "pyval \<Rightarrow> pyval res" where
  "validate_budgets v =
     (if \<not> has_shape v BUDGET_KEYS then Inl (bad ''budgets has missing or extra fields'')
      else bindE (mapE (budget_field v) BUDGET_RANGES) (\<lambda>kvs. Inr (obj kvs)))"

definition validate_origins :: "unicode_db \<Rightarrow> pyval \<Rightarrow> pystr list res" where
  "validate_origins db v =
     bindE (as_list (bad ''authorized_origins must be a bounded non-empty list'') v) (\<lambda>os.
       if os = [] \<or> MAX_AUTHORIZED_ORIGINS < length os then
         Inl (bad ''authorized_origins must be a bounded non-empty list'')
       else bindE (mapE (normalize_origin db) os) (\<lambda>origins.
         if \<not> distinct origins then Inl (bad ''authorized_origins contains canonical duplicates'')
         else Inr (sort origins)))"

definition validate_probe_request :: "unicode_db \<Rightarrow> pyval \<Rightarrow> pyval res" where
  "validate_probe_request db v =
     (if \<not> has_shape v REQUEST_KEYS then Inl (bad ''browser request has missing or extra fields'')
      else if get v ''contract_version'' \<noteq> S CONTRACT_VERSION then
        Inl (bad ''unsupported browser contract version'')
      else
        bindE (normalize_url db (get v ''url'')) (\<lambda>url.
        bindE (validate_origins db (get v ''authorized_origins'')) (\<lambda>origins.
        bindE (origin_for_url db (PStr url)) (\<lambda>origin.
          if origin \<notin> set origins then Inl (bad ''initial URL origin is not explicitly authorized'')
          else
            bindE (validate_navigation (get v ''navigation'')) (\<lambda>navigation.
            bindE (validate_budgets (get v ''budgets'')) (\<lambda>budgets.
              Inr (obj [(''contract_version'', S CONTRACT_VERSION), (''url'', PStr url),
                        (''authorized_origins'', PList (map PStr origins)),
                        (''navigation'', navigation), (''budgets'', budgets)])))))))"

definition merge_budgets :: "(string \<times> pyval) list \<Rightarrow> string list \<Rightarrow> exn \<Rightarrow> pyval option \<Rightarrow> pyval res" where
  "merge_budgets defaults keys e budgets =
     (case budgets of
        None \<Rightarrow> Inr (obj defaults)
      | Some b \<Rightarrow>
          bindE (as_dict e b) (\<lambda>d.
            if \<not> set (map fst d) \<subseteq> KStr ` str ` set keys then Inl e
            else Inr (PDict (dmerge (dict_of (obj defaults)) d))))"

definition make_probe_request ::
  "unicode_db \<Rightarrow> pyval \<Rightarrow> pyval list option \<Rightarrow> pyval option \<Rightarrow> pyval res" where
  "make_probe_request db url authorized_origins budgets =
     bindE (normalize_url db url) (\<lambda>normalized_url.
     bindE (case authorized_origins of
              None \<Rightarrow> bindE (origin_for_url db (PStr normalized_url)) (\<lambda>x. Inr [PStr x])
            | Some os \<Rightarrow> Inr os) (\<lambda>origins.
     bindE (merge_budgets DEFAULT_BUDGETS BUDGET_KEYS (bad ''budget override contains an unknown field'') budgets)
       (\<lambda>merged.
       validate_probe_request db (obj
         [(''contract_version'', S CONTRACT_VERSION), (''url'', PStr normalized_url),
          (''authorized_origins'', PList origins), (''navigation'', obj PASSIVE_NAVIGATION),
          (''budgets'', merged)]))))"

end
