(* ===== verification/Url_Canonical.thy ===== *)
theory Url_Canonical
  imports Browser_Contract
begin

section \<open>Normalised URLs are canonical\<close>

text \<open>
  Every URL \<open>normalize_url\<close> returns has one fixed form (\<open>canonical_url\<close>): scheme, host, port unless
  it is the default, a path that starts with a slash, a query. Splitting such a URL returns these parts
  and normalising it again changes nothing, so an origin or CONNECT authority derived from it never
  raises. The one fact used of the Unicode database is that NFC does not make text empty.
\<close>

definition nfc_keeps :: "unicode_db \<Rightarrow> bool" where
  "nfc_keeps db = (\<forall>s. s \<noteq> [] \<longrightarrow> db_nfc db s \<noteq> [])"

definition authority :: "pystr \<Rightarrow> nat option \<Rightarrow> pystr" where
  "authority host port = (case port of None \<Rightarrow> host | Some p \<Rightarrow> host @ [58] @ dec p)"

definition host_ok :: "pystr \<Rightarrow> bool" where
  "host_ok h =
     (let labels = split_on 46 h in
      length h \<le> 253 \<and> 2 \<le> length labels \<and> list_all host_label labels \<and>
      \<not> list_all numeric_host_label labels \<and> \<not> list_all is_digit (last labels) \<and> \<not> unsafe_suffix h)"

definition port_ok :: "pystr \<Rightarrow> nat option \<Rightarrow> bool" where
  "port_ok scheme port =
     (case port of None \<Rightarrow> True
      | Some p \<Rightarrow> 1 \<le> p \<and> p \<le> 65535 \<and> p \<noteq> (if scheme = str ''http'' then 80 else 443))"

definition safe_in :: "pystr \<Rightarrow> nat \<Rightarrow> bool" where
  "safe_in safe c = (always_safe c \<or> c \<in> set safe)"

definition escaped :: "pystr \<Rightarrow> pystr \<Rightarrow> bool" where
  "escaped safe s = (list_all (safe_in safe) s \<and> \<not> invalid_percent s \<and> upper_escapes s = s)"

record url_parts =
  u_scheme :: pystr
  u_host :: pystr
  u_port :: "nat option"
  u_path :: pystr
  u_query :: pystr

definition parts_ok :: "url_parts \<Rightarrow> bool" where
  "parts_ok p =
     ((u_scheme p = str ''http'' \<or> u_scheme p = str ''https'') \<and> host_ok (u_host p) \<and>
      port_ok (u_scheme p) (u_port p) \<and> u_path p \<noteq> [] \<and> hd (u_path p) = 47 \<and>
      escaped path_safe (u_path p) \<and> escaped query_safe (u_query p))"

definition render :: "url_parts \<Rightarrow> pystr" where
  "render p = urlunsplit (u_scheme p) (authority (u_host p) (u_port p)) (u_path p) (u_query p)"

definition canonical_url :: "pystr \<Rightarrow> bool" where
  "canonical_url u = (\<exists>p. parts_ok p \<and> u = render p \<and> length u \<le> MAX_URL_LENGTH)"

subsection \<open>Percent escapes\<close>

lemma hex_val_upper: "hex_val c \<noteq> None \<Longrightarrow> hex_val (ascii_upper c) \<noteq> None"
  by (auto simp: hex_val_def ascii_upper_def split: if_splits)

lemma ascii_upper_idem [simp]: "ascii_upper (ascii_upper c) = ascii_upper c"
  by (auto simp: ascii_upper_def)

lemma upper_escapes_Cons: "c \<noteq> 37 \<Longrightarrow> upper_escapes (c # s) = c # upper_escapes s"
proof (cases s)
  case (Cons x r)
  assume "c \<noteq> 37"
  then show ?thesis using Cons by (cases r) auto
qed simp

lemma hex_not_percent: "hex_val c \<noteq> None \<Longrightarrow> c \<noteq> 37 \<and> ascii_upper c \<noteq> 37"
  by (auto simp: hex_val_def ascii_upper_def split: if_splits)

lemma upper_escapes_shape: "length (upper_escapes s) = length s"
  by (induction s rule: upper_escapes.induct) auto

lemma invalid_percent_Cons: "c \<noteq> 37 \<Longrightarrow> invalid_percent (c # s) = invalid_percent s"
  by simp

lemma valid_escape:
  "\<not> invalid_percent (37 # s) \<Longrightarrow> \<exists>x y r. s = x # y # r \<and> hex_val x \<noteq> None \<and> hex_val y \<noteq> None \<and> \<not> invalid_percent r"
  by (auto split: list.splits)

lemma upper_escapes_ok:
  "\<not> invalid_percent s \<Longrightarrow> \<not> invalid_percent (upper_escapes s) \<and> upper_escapes (upper_escapes s) = upper_escapes s"
proof (induction s rule: length_induct)
  case (1 s)
  show ?case
  proof (cases s)
    case (Cons c t)
    show ?thesis
    proof (cases "c = 37")
      case True
      with "1.prems" Cons obtain x y r where t: "t = x # y # r" "hex_val x \<noteq> None" "hex_val y \<noteq> None" "\<not> invalid_percent r"
        using valid_escape by blast
      with "1.IH" Cons have r: "\<not> invalid_percent (upper_escapes r)" "upper_escapes (upper_escapes r) = upper_escapes r"
        by auto
      have "upper_escapes s = 37 # ascii_upper x # ascii_upper y # upper_escapes r"
        using Cons True t by simp
      then show ?thesis using r t hex_val_upper hex_not_percent by auto
    next
      case False
      then show ?thesis using 1 Cons by (auto simp: upper_escapes_Cons)
    qed
  qed simp
qed

lemma upper_escapes_set: "c \<in> set (upper_escapes s) \<Longrightarrow> c \<in> set s \<or> (\<exists>x\<in>set s. hex_val x \<noteq> None \<and> c = ascii_upper x)"
  by (induction s rule: upper_escapes.induct) (auto split: if_splits)

lemma safe_upper: "hex_val x \<noteq> None \<Longrightarrow> safe_in safe (ascii_upper x)"
  by (auto simp: safe_in_def always_safe_def is_alpha_def is_digit_def hex_val_def ascii_upper_def split: if_splits)

lemma canonicalize_escaped:
  assumes "canonicalize_escapes s = Inr t" "list_all (safe_in safe) s"
  shows "escaped safe t"
  using assms upper_escapes_ok [of s] upper_escapes_set [of _ s] safe_upper
  by (auto simp: canonicalize_escapes_def escaped_def list_all_iff) blast

lemma canonicalize_id: "escaped safe s \<Longrightarrow> canonicalize_escapes s = Inr s"
  by (simp add: canonicalize_escapes_def escaped_def)

lemma escaped_slash: "escaped path_safe s \<Longrightarrow> escaped path_safe (47 # s)"
  by (auto simp: escaped_def upper_escapes_Cons safe_in_def path_safe_def str_def)

subsection \<open>Quoting\<close>

lemma upper_hex_safe: "n < 16 \<Longrightarrow> always_safe (upper_hex n)"
  by (auto simp: upper_hex_def always_safe_def is_alpha_def is_digit_def)

lemma quote_safe:
  assumes "quote safe s = Inr t" "37 \<in> set safe"
  shows "list_all (safe_in safe) t"
proof -
  have "list_all (safe_in safe) (quote_byte safe b)" for b
    using assms(2) unat_byte_lt [of b] div16_lt [of b]
    by (auto simp: quote_byte_def Let_def safe_in_def upper_hex_safe)
  with assms(1) show ?thesis by (auto simp: quote_def list_all_iff split: option.splits)
qed

lemma quote_nonempty:
  assumes "s \<noteq> []" "quote safe s = Inr t"
  shows "t \<noteq> []"
proof -
  from assms(2) obtain b where b: "utf8_encode s = Some b" "t = concat (map (quote_byte safe) b)"
    by (auto simp: quote_def split: option.splits)
  obtain c r where s: "s = c # r" using assms(1) by (cases s) auto
  from b(1) obtain x xs where x: "b = x # xs"
    by (auto simp: s utf8_char_def split: option.splits if_splits)
  have "quote_byte safe x \<noteq> []" by (simp add: quote_byte_def Let_def)
  then show ?thesis by (simp add: b(2) x)
qed

lemma utf8_encode_ascii: "list_all (\<lambda>c. c < 128) s \<Longrightarrow> utf8_encode s = Some (map byte_of s)"
  by (induction s) (auto simp: utf8_char_def)

lemma quote_id:
  assumes "list_all (safe_in safe) s" "list_all (\<lambda>c. c < 128) s"
  shows "quote safe s = Inr s"
proof -
  have "concat (map (\<lambda>c. quote_byte safe (byte_of c)) s) = s"
    using assms by (induction s) (auto simp: quote_byte_def safe_in_def)
  then show ?thesis by (simp add: quote_def utf8_encode_ascii [OF assms(2)] comp_def)
qed

text \<open>The characters of a normalised URL.\<close>

definition url_char :: "nat \<Rightarrow> bool" where
  "url_char c = (33 \<le> c \<and> c \<le> 126 \<and> c \<noteq> 92 \<and> c \<noteq> 35 \<and> c \<noteq> 91 \<and> c \<noteq> 93)"

lemma safe_url_char:
  "safe_in path_safe c \<Longrightarrow> url_char c \<and> c \<noteq> 63" "safe_in query_safe c \<Longrightarrow> url_char c"
proof -
  have "list_all (\<lambda>c. url_char c \<and> c \<noteq> 63) path_safe" "list_all url_char query_safe"
    by (simp_all add: path_safe_def query_safe_def str_def url_char_def)
  moreover have "always_safe c \<Longrightarrow> url_char c \<and> c \<noteq> 63"
    unfolding always_safe_def is_alpha_def is_digit_def url_char_def by presburger
  ultimately show "safe_in path_safe c \<Longrightarrow> url_char c \<and> c \<noteq> 63" "safe_in query_safe c \<Longrightarrow> url_char c"
    by (auto simp: safe_in_def list_all_iff)
qed

lemma url_char_ascii: "list_all url_char s \<Longrightarrow> is_ascii s"
  unfolding is_ascii_def by (erule list_all_mp) (simp add: url_char_def)

lemma escaped_safe: "escaped safe s \<Longrightarrow> c \<in> set s \<Longrightarrow> safe_in safe c"
  unfolding escaped_def list_all_iff by blast

lemma escaped_chars:
  "escaped path_safe s \<Longrightarrow> list_all url_char s" "escaped query_safe s \<Longrightarrow> list_all url_char s"
  "escaped path_safe s \<Longrightarrow> 63 \<notin> set s"
  unfolding list_all_iff using escaped_safe safe_url_char by blast+

lemma last_dec: "is_digit (last (dec n))"
  using dec_digits [of n] by (auto simp: list_all_iff)

lemma url_char_facts:
  "url_char c \<Longrightarrow> \<not> c \<le> 32 \<and> c \<notin> {9, 10, 13} \<and> c \<noteq> 127 \<and> c \<noteq> 92 \<and> c \<noteq> 35 \<and> \<not> py_space c"
proof -
  assume "url_char c"
  then have "33 \<le> c" "c \<le> 126" "c \<noteq> 92" "c \<noteq> 35" by (simp_all add: url_char_def)
  then show ?thesis by (auto simp: py_space_def)
qed

subsection \<open>Hosts\<close>

definition host_char :: "nat \<Rightarrow> bool" where
  "host_char c = (host_alnum c \<or> c = 45 \<or> c = 46)"

lemma split_on_nonempty [simp]: "split_on c s \<noteq> []"
  by (induction s) (auto split: list.splits)

lemma split_on_concat: "x \<in> set s \<Longrightarrow> x = c \<or> (\<exists>l\<in>set (split_on c s). x \<in> set l)"
proof (induction s)
  case (Cons y s)
  then show ?case by (cases "split_on c s") (auto)
qed simp

lemma split_on_hd: "s \<noteq> [] \<Longrightarrow> hd s = c \<Longrightarrow> hd (split_on c s) = []"
  by (cases s) auto

lemma split_on_last: "s \<noteq> [] \<Longrightarrow> last s = c \<Longrightarrow> last (split_on c s) = []"
proof (induction s)
  case (Cons x s)
  show ?case
  proof (cases "s = []")
    case False
    then have "last (split_on c s) = []" using Cons by auto
    moreover obtain p ps where ps: "split_on c s = p # ps" by (cases "split_on c s") auto
    moreover have "ps \<noteq> []" if "x \<noteq> c"
    proof
      assume "ps = []"
      then have "split_on c s = [[]]" using ps calculation(1) by simp
      then have "s = []" by (cases s) (auto split: if_splits list.splits)
      with False show False by simp
    qed
    ultimately show ?thesis by auto
  qed (use Cons in auto)
qed simp

lemma split_on_absent: "c \<notin> set s \<Longrightarrow> split_on c s = [s]"
  by (induction s) auto

lemma host_chars: "host_ok h \<Longrightarrow> list_all host_char h"
proof -
  assume "host_ok h"
  then have "list_all host_label (split_on 46 h)" by (simp add: host_ok_def Let_def)
  then show ?thesis using split_on_concat [of _ h 46]
    by (fastforce simp: list_all_iff host_label_def host_char_def)
qed

lemma host_nonempty: "host_ok h \<Longrightarrow> h \<noteq> []"
  by (auto simp: host_ok_def Let_def)

lemma host_ends: "host_ok h \<Longrightarrow> hd h \<noteq> 46 \<and> last h \<noteq> 46"
proof -
  assume h: "host_ok h"
  have "\<forall>l\<in>set (split_on 46 h). l \<noteq> []" using h by (auto simp: host_ok_def Let_def host_label_def list_all_iff)
  then have "hd (split_on 46 h) \<noteq> []" "last (split_on 46 h) \<noteq> []" by simp_all
  then show ?thesis using split_on_hd [of h 46] split_on_last [of h 46] host_nonempty [OF h] by blast
qed

lemma host_char_facts:
  "host_char c \<Longrightarrow> url_char c \<and> c \<noteq> 37 \<and> c \<noteq> 58 \<and> c \<noteq> 64 \<and> c \<noteq> 47 \<and> c \<noteq> 63 \<and> ascii_lower c = c"
  unfolding host_char_def host_alnum_def is_digit_def url_char_def ascii_lower_def by presburger

lemma host_not_ip: "host_ok h \<Longrightarrow> ip_address h = None"
proof -
  assume h: "host_ok h"
  have no: "58 \<notin> set h" "37 \<notin> set h" using host_chars [OF h] host_char_facts by (auto simp: list_all_iff)
  have "ipv6_parts (before 37 h) = None"
    using no by (simp add: ipv6_parts_def split_on_absent)
  then have "ipv6_of h = None" using no by (simp add: ipv6_of_def)
  moreover have "ipv4_of h = None"
  proof (rule ccontr)
    assume "ipv4_of h \<noteq> None"
    then obtain a b c d where "map parse_octet (split_on 46 h) = [Some a, Some b, Some c, Some d]"
      by (auto simp: ipv4_of_def split: list.splits option.splits)
    then have "parse_octet (last (split_on 46 h)) = Some d"
      by (metis last_map split_on_nonempty last.simps list.distinct(1))
    then have "list_all is_digit (last (split_on 46 h))" by (auto simp: parse_octet_def split: if_splits)
    with h show False by (simp add: host_ok_def Let_def)
  qed
  ultimately show ?thesis by (simp add: ip_address_def)
qed

lemma normalize_hostname_ok: "normalize_hostname db h0 = Inr h \<Longrightarrow> host_ok h"
  by (auto simp: normalize_hostname_def host_ok_def Let_def split: option.splits if_splits)

lemma normalize_hostname_id:
  assumes "host_ok h"
  shows "normalize_hostname db h = Inr h"
proof -
  have chars: "\<forall>c\<in>set h. host_char c" using host_chars [OF assms] by (simp add: list_all_iff)
  then have "map ascii_lower h = h" using host_char_facts by (simp add: map_idI)
  moreover have "is_ascii h" using chars host_char_facts by (intro url_char_ascii) (simp add: list_all_iff)
  moreover have lab: "l \<noteq> [] \<and> length l < 64" if "l \<in> set (split_on 46 h)" for l
    using assms that by (fastforce simp: host_ok_def Let_def list_all_iff host_label_def)
  then have "idna_ascii h = Some h"
    by (simp add: idna_ascii_def Let_def list_all_iff in_set_butlastD)
  moreover have "37 \<notin> set h" "92 \<notin> set h" "58 \<notin> set h"
    using chars host_char_facts by (auto simp: url_char_def)
  ultimately show ?thesis
    using assms host_nonempty [OF assms] host_ends [OF assms] host_not_ip [OF assms]
    by (auto simp: normalize_hostname_def idna_encode_def host_ok_def Let_def)
qed

subsection \<open>Authorities\<close>

lemma dec_small: "p \<le> 65535 \<Longrightarrow> dec p \<noteq> [] \<and> list_all is_digit (dec p) \<and> digits_val (dec p) = p"
  by (simp add: dec_digits)

lemma digit_char: "is_digit c \<Longrightarrow> url_char c \<and> c \<noteq> 37 \<and> c \<noteq> 58 \<and> c \<noteq> 64 \<and> c \<noteq> 47 \<and> c \<noteq> 63"
  unfolding is_digit_def url_char_def by presburger

definition netloc_char :: "nat \<Rightarrow> bool" where
  "netloc_char c = (url_char c \<and> c \<noteq> 64 \<and> c \<noteq> 47 \<and> c \<noteq> 63)"

lemma authority_chars:
  assumes "host_ok h" "port_ok s p"
  shows "list_all netloc_char (authority h p)"
proof -
  have "list_all netloc_char h"
    using host_chars [OF assms(1)] host_char_facts by (auto simp: list_all_iff netloc_char_def)
  moreover have "list_all netloc_char (dec n)" for n
    using dec_digits [of n] digit_char by (auto simp: list_all_iff netloc_char_def)
  ultimately show ?thesis by (simp add: authority_def netloc_char_def url_char_def split: option.split)
qed

lemma hostinfo_authority:
  assumes "host_ok h" "port_ok s p"
  shows "hostinfo (authority h p) = (h, map_option dec p)"
proof -
  have no: "58 \<notin> set h" using host_chars [OF assms(1)] host_char_facts by (auto simp: list_all_iff)
  have "64 \<notin> set (authority h p)" "91 \<notin> set (authority h p)"
    using authority_chars [OF assms] by (auto simp: list_all_iff netloc_char_def url_char_def)
  with no show ?thesis by (auto simp: hostinfo_def Let_def authority_def split: option.splits)
qed

lemma url_authority_ok:
  assumes "url_authority db r = Inr a"
  obtains h p where "a = authority h p" "host_ok h" "port_ok (sr_scheme r) p"
    "sr_scheme r = str ''http'' \<or> sr_scheme r = str ''https''"
proof -
  from assms obtain h0 h port where s: "sr_scheme r = str ''http'' \<or> sr_scheme r = str ''https''"
    and h: "normalize_hostname db h0 = Inr h" and port: "sr_port r = Inr port" "port \<noteq> Some 0"
    and a: "a = (case port of None \<Rightarrow> h
      | Some p \<Rightarrow> if p = (if sr_scheme r = str ''http'' then 80 else 443) then h else h @ [58] @ dec p)"
    by (auto simp: url_authority_def bindE_eq_Inr reraise_def Let_def split: option.splits if_splits sum.splits)
  from port have le: "\<And>p. port = Some p \<Longrightarrow> p \<le> 65535"
    by (auto simp: sr_port_def split: option.splits if_splits)
  let ?d = "if sr_scheme r = str ''http'' then 80 else (443 :: nat)"
  define p where "p = (if port = Some ?d then None else port)"
  have "a = authority h p" unfolding a p_def authority_def by (auto split: option.splits)
  moreover have "port_ok (sr_scheme r) p"
    using le port(2) by (auto simp: p_def port_ok_def Suc_le_eq split: option.splits)
  ultimately show ?thesis using that normalize_hostname_ok [OF h] s by blast
qed

lemma sr_hostname_authority:
  assumes "host_ok h" "port_ok s p" "sr_netloc r = authority h p"
  shows "sr_hostname db r = Some h"
proof -
  have chars: "\<forall>c\<in>set h. host_char c" using host_chars [OF assms(1)] by (simp add: list_all_iff)
  then have "is_ascii h" "map ascii_lower h = h" "37 \<notin> set h" using host_char_facts
    by (auto intro!: url_char_ascii map_idI simp: list_all_iff)
  then have "lower db h = h" "37 \<notin> set h" by (simp_all add: lower_def)
  then show ?thesis using host_nonempty [OF assms(1)] hostinfo_authority [OF assms(1,2)]
    by (simp add: sr_hostname_def assms(3))
qed

lemma sr_port_authority:
  assumes "host_ok h" "port_ok s p" "sr_netloc r = authority h p"
  shows "sr_port r = Inr p"
  using assms(2) hostinfo_authority [OF assms(1,2)] dec_small
  by (auto simp: sr_port_def assms(3) port_ok_def split: option.splits)

lemma url_authority_id:
  assumes "sr_scheme r = str ''http'' \<or> sr_scheme r = str ''https''" "host_ok h" "port_ok (sr_scheme r) p"
    "sr_netloc r = authority h p"
  shows "url_authority db r = Inr (authority h p)"
proof -
  have no: "64 \<notin> set (authority h p)" using authority_chars [OF assms(2,3)] by (auto simp: list_all_iff netloc_char_def)
  have "last h \<noteq> 58" using host_nonempty [OF assms(2)] host_chars [OF assms(2)] host_char_facts
    by (auto simp: list_all_iff)
  then have "last (authority h p) \<noteq> 58"
    using digit_char [OF last_dec] by (auto simp: authority_def split: option.splits)
  moreover have "authority h p \<noteq> []" using host_nonempty [OF assms(2)] by (simp add: authority_def split: option.split)
  ultimately show ?thesis
    using assms(1,3) no sr_hostname_authority [OF assms(2,3,4), of db] sr_port_authority [OF assms(2,3,4)]
      normalize_hostname_id [OF assms(2), of db]
    by (auto simp: url_authority_def assms(4) reraise_def Let_def port_ok_def authority_def split: option.splits)
qed

subsection \<open>Splitting and normalising a canonical URL\<close>

lemma render_chars:
  assumes "parts_ok p"
  shows "list_all url_char (render p)"
proof -
  have "list_all url_char (authority (u_host p) (u_port p))"
    using authority_chars [of "u_host p" "u_scheme p" "u_port p"] assms
    by (auto simp: parts_ok_def list_all_iff netloc_char_def)
  moreover have "list_all url_char (u_path p)" "list_all url_char (u_query p)"
    using assms escaped_chars by (simp_all add: parts_ok_def)
  moreover have "list_all url_char (u_scheme p)" using assms by (auto simp: parts_ok_def str_def url_char_def)
  ultimately show ?thesis by (simp add: render_def urlunsplit_def Let_def url_char_def)
qed

lemma split_scheme_render:
  assumes "s = str ''http'' \<or> s = str ''https''"
  shows "split_scheme (s @ 58 # r) = (s, r)"
  using assms by (auto simp: split_scheme_def before_def after_def str_def is_alpha_def scheme_char_def ascii_lower_def)

lemma takeWhile_stop: "list_all P s \<Longrightarrow> \<not> P c \<Longrightarrow> takeWhile P (s @ c # t) = s"
  by (induction s) auto

lemma takeWhile_all: "list_all P s \<Longrightarrow> takeWhile P s = s"
  by (induction s) auto

lemma dropWhile_all: "list_all P s \<Longrightarrow> dropWhile P s = []"
  by (induction s) auto

lemma dropWhile_stop: "list_all P s \<Longrightarrow> \<not> P c \<Longrightarrow> dropWhile P (s @ c # t) = c # t"
  by (induction s) auto

lemma urlsplit_text:
  assumes s: "s = str ''http'' \<or> s = str ''https''" and ac: "list_all netloc_char a"
    and pa: "list_all url_char path" "63 \<notin> set path" "path = [] \<or> (\<exists>t. path = 47 # t)"
    and qc: "list_all url_char query"
  shows "urlsplit db (s @ 58 # 47 # 47 # a @ path @ (if query = [] then [] else 63 # query)) =
    Inr \<lparr>sr_scheme = s, sr_netloc = a, sr_path = path, sr_query = query, sr_fragment = []\<rparr>"
proof -
  let ?q = "if query = [] then [] else 63 # query"
  let ?u = "s @ 58 # 47 # 47 # a @ path @ ?q"
  have au: "list_all url_char a" using ac by (rule list_all_mp) (simp add: netloc_char_def)
  have chars: "list_all url_char ?u" using s au pa(1) qc by (auto simp: str_def url_char_def)
  have keep: "dropWhile (\<lambda>c. c \<le> 32) ?u = ?u" using s by (auto simp: str_def)
  have filt: "filter (\<lambda>c. c \<notin> {9, 10, 13}) ?u = ?u"
  proof (rule filter_True, rule ballI)
    fix c assume "c \<in> set ?u"
    then have "url_char c" using chars by (simp only: list_all_iff)
    then show "c \<notin> {9, 10, 13}" using url_char_facts [of c] by simp
  qed
  have aa: "list_all (\<lambda>c. c \<notin> {47, 63, 35}) a"
    using ac by (rule list_all_mp) (simp add: netloc_char_def url_char_def)
  have br: "91 \<notin> set a" "93 \<notin> set a" "is_ascii a"
    using list_all_notin [OF ac] url_char_ascii [OF au] by (simp_all add: netloc_char_def url_char_def)
  have net: "takeWhile (\<lambda>c. c \<notin> {47, 63, 35}) (a @ path @ ?q) = a"
    "dropWhile (\<lambda>c. c \<notin> {47, 63, 35}) (a @ path @ ?q) = path @ ?q"
  proof -
    consider "path = []" "query = []" | "path = []" "query \<noteq> []" | t where "path = 47 # t" using pa(3) by blast
    then have "takeWhile (\<lambda>c. c \<notin> {47, 63, 35}) (a @ path @ ?q) = a \<and>
        dropWhile (\<lambda>c. c \<notin> {47, 63, 35}) (a @ path @ ?q) = path @ ?q"
    proof cases
      case 1
      then show ?thesis by (simp only: append_Nil2 if_True refl takeWhile_all [OF aa] dropWhile_all [OF aa])
    next
      case 2
      then show ?thesis
        using takeWhile_stop [OF aa, of 63 query] dropWhile_stop [OF aa, of 63 query] by simp
    next
      case (3 t)
      then show ?thesis
        using takeWhile_stop [OF aa, of 47 "t @ ?q"] dropWhile_stop [OF aa, of 47 "t @ ?q"] by simp
    qed
    then show "takeWhile (\<lambda>c. c \<notin> {47, 63, 35}) (a @ path @ ?q) = a"
      "dropWhile (\<lambda>c. c \<notin> {47, 63, 35}) (a @ path @ ?q) = path @ ?q" by blast+
  qed
  have nf: "35 \<notin> set (path @ ?q)" using list_all_notin [OF chars, of 35] by (simp add: url_char_def)
  have q: "before 63 (path @ ?q) = path" "(if 63 \<in> set (path @ ?q) then after 63 (path @ ?q) else []) = query"
    using pa(2) by auto
  have "split_scheme ?u = (s, 47 # 47 # a @ path @ ?q)" by (rule split_scheme_render [OF s])
  then show ?thesis unfolding urlsplit_def keep filt Let_def
    using br net nf q pa(2) by (simp add: netloc_ok_def)
qed

lemma parts_okD:
  assumes "parts_ok p"
  shows "u_scheme p = str ''http'' \<or> u_scheme p = str ''https''" "host_ok (u_host p)"
    "port_ok (u_scheme p) (u_port p)" "list_all netloc_char (authority (u_host p) (u_port p))"
    "list_all url_char (u_path p)" "63 \<notin> set (u_path p)" "\<exists>t. u_path p = 47 # t" "list_all url_char (u_query p)"
    "escaped path_safe (u_path p)" "escaped query_safe (u_query p)"
proof -
  show s: "u_scheme p = str ''http'' \<or> u_scheme p = str ''https''" "host_ok (u_host p)"
    "port_ok (u_scheme p) (u_port p)" and e: "escaped path_safe (u_path p)" "escaped query_safe (u_query p)"
    using assms unfolding parts_ok_def by blast+
  show "list_all netloc_char (authority (u_host p) (u_port p))" using s(2,3) by (rule authority_chars)
  show "list_all url_char (u_path p)" "63 \<notin> set (u_path p)" "list_all url_char (u_query p)"
    by (rule escaped_chars(1) [OF e(1)], rule escaped_chars(3) [OF e(1)], rule escaped_chars(2) [OF e(2)])
  show "\<exists>t. u_path p = 47 # t" using assms unfolding parts_ok_def by (metis list.collapse)
qed

lemma urlsplit_render:
  assumes "parts_ok p"
  shows "urlsplit db (render p) = Inr \<lparr>sr_scheme = u_scheme p, sr_netloc = authority (u_host p) (u_port p),
    sr_path = u_path p, sr_query = u_query p, sr_fragment = []\<rparr>"
proof -
  note p = parts_okD [OF assms]
  from p(7) obtain t where path: "u_path p = 47 # t" ..
  have "render p = u_scheme p @ 58 # 47 # 47 # authority (u_host p) (u_port p) @ u_path p @
      (if u_query p = [] then [] else 63 # u_query p)"
    by (simp add: render_def urlunsplit_def Let_def path)
  then show ?thesis using urlsplit_text [OF p(1,4,5,6) _ p(8)] p(7) by simp
qed

lemma strip_id: "list_all url_char s \<Longrightarrow> strip s = s"
proof -
  assume c: "list_all url_char s"
  have "dropWhile py_space t = t" if "list_all url_char t" for t
    using that url_char_facts by (cases t) auto
  with c show ?thesis by (simp add: strip_def)
qed

lemma normalize_url_id:
  assumes "canonical_url u"
  shows "normalize_url db (PStr u) = Inr u"
proof -
  from assms obtain p where p: "parts_ok p" "u = render p" "length u \<le> MAX_URL_LENGTH"
    by (auto simp: canonical_url_def)
  have c: "list_all url_char u" using render_chars [OF p(1)] p(2) by simp
  then have c_facts: "\<not> (\<exists>x\<in>set u. x \<le> 32 \<or> x = 127)" "92 \<notin> set u" "35 \<notin> set u"
    using url_char_facts unfolding list_all_iff by blast+
  have "u \<noteq> []" by (simp add: p(2) render_def urlunsplit_def)
  then have screen: "screen_url (PStr u) = Inr u"
    using p(3) c_facts by (simp add: screen_url_def strip_id [OF c] list_ex_iff)
  have sch: "u_scheme p = str ''http'' \<or> u_scheme p = str ''https''" "host_ok (u_host p)"
    "port_ok (u_scheme p) (u_port p)" "escaped path_safe (u_path p)" "escaped query_safe (u_query p)"
    "u_path p \<noteq> []"
    using p(1) by (auto simp: parts_ok_def)
  have asc: "is_ascii (u_path p)" "is_ascii (u_query p)"
    using escaped_chars sch(4,5) by (blast intro: url_char_ascii)+
  then have quo: "quote path_safe (u_path p) = Inr (u_path p)" "quote query_safe (u_query p) = Inr (u_query p)"
    using sch(4,5) by (auto simp: escaped_def is_ascii_def intro!: quote_id)
  have auth: "url_authority db \<lparr>sr_scheme = u_scheme p, sr_netloc = authority (u_host p) (u_port p),
    sr_path = u_path p, sr_query = u_query p, sr_fragment = []\<rparr> = Inr (authority (u_host p) (u_port p))"
    using sch(1-3) by (intro url_authority_id) auto
  show ?thesis
    using screen auth quo asc sch(6) p(3) canonicalize_id [OF sch(4)] canonicalize_id [OF sch(5)]
    by (simp add: normalize_url_def urlsplit_render [OF p(1)] p(2) reraise_def nfc_def render_def [symmetric])
qed

text \<open>What every result is made of, before anything is known about NFC: the path may be empty.\<close>

lemma normalize_url_parts:
  assumes "normalize_url db v = Inr u"
  obtains s h p path query path1 and r :: split_result where "u = urlunsplit s (authority h p) path query" "length u \<le> MAX_URL_LENGTH"
    "s = str ''http'' \<or> s = str ''https''" "host_ok h" "port_ok s p" "escaped path_safe path" "escaped query_safe query"
    "quote path_safe (nfc db (if sr_path r = [] then [47] else sr_path r)) = Inr path1"
    "canonicalize_escapes path1 = Inr path"
proof -
  from assms obtain r a path1 query1 path query where
    r: "url_authority db r = Inr a" and
    q: "quote path_safe (nfc db (if sr_path r = [] then [47] else sr_path r)) = Inr path1"
      "quote query_safe (nfc db (sr_query r)) = Inr query1"
      "canonicalize_escapes path1 = Inr path" "canonicalize_escapes query1 = Inr query" and
    u: "u = urlunsplit (sr_scheme r) a path query" "length u \<le> MAX_URL_LENGTH"
    by (auto simp: normalize_url_def bindE_eq_Inr Let_def)
  obtain h p where hp: "a = authority h p" "host_ok h" "port_ok (sr_scheme r) p"
    "sr_scheme r = str ''http'' \<or> sr_scheme r = str ''https''"
    using url_authority_ok [OF r] .
  have "list_all (safe_in path_safe) path1" "list_all (safe_in query_safe) query1"
    using quote_safe [OF q(1)] quote_safe [OF q(2)] by (auto simp: path_safe_def query_safe_def str_def)
  then have e: "escaped path_safe path" "escaped query_safe query"
    using canonicalize_escaped q(3,4) by blast+
  have "u = urlunsplit (sr_scheme r) (authority h p) path query" using u(1) hp(1) by simp
  from that [OF this u(2) hp(4,2,3) e q(1,3)] show ?thesis .
qed

lemma parts_from_path:
  assumes "u = urlunsplit s (authority h p) path query" "s = str ''http'' \<or> s = str ''https''" "host_ok h"
    "port_ok s p" "escaped path_safe path" "escaped query_safe query" "path \<noteq> []"
  shows "\<exists>q. parts_ok q \<and> u = render q"
proof -
  define path' where "path' = (if hd path \<noteq> 47 then 47 # path else path)"
  let ?q = "\<lparr>u_scheme = s, u_host = h, u_port = p, u_path = path', u_query = query\<rparr>"
  have "parts_ok ?q" using assms(2-7) escaped_slash [OF assms(5)] by (auto simp: parts_ok_def path'_def)
  moreover have "u = render ?q" using assms(1,7) by (auto simp: render_def urlunsplit_def Let_def path'_def)
  ultimately show ?thesis by blast
qed

lemma normalize_url_canonical:
  assumes "nfc_keeps db" "normalize_url db v = Inr u"
  shows "canonical_url u"
proof -
  obtain s h p path query path1 and r :: split_result where p: "u = urlunsplit s (authority h p) path query" "length u \<le> MAX_URL_LENGTH"
    "s = str ''http'' \<or> s = str ''https''" "host_ok h" "port_ok s p" "escaped path_safe path" "escaped query_safe query"
    "quote path_safe (nfc db (if sr_path r = [] then [47] else sr_path r)) = Inr path1"
    "canonicalize_escapes path1 = Inr path"
    using normalize_url_parts [OF assms(2)] .
  have "nfc db (if sr_path r = [] then [47] else sr_path r) \<noteq> []"
    using assms(1) by (auto simp: nfc_def nfc_keeps_def)
  then have "path1 \<noteq> []" using p(8) by (rule quote_nonempty)
  then have "path \<noteq> []" using p(9) upper_escapes_shape [of path1]
    by (auto simp: canonicalize_escapes_def split: if_splits)
  from parts_from_path [OF p(1,3-7) this] p(2) show ?thesis by (auto simp: canonical_url_def)
qed

subsection \<open>Origins\<close>

definition origin_text :: "url_parts \<Rightarrow> pystr" where
  "origin_text p = u_scheme p @ str ''://'' @ authority (u_host p) (u_port p)"

definition canonical_origin :: "pystr \<Rightarrow> bool" where
  "canonical_origin x = (\<exists>p. parts_ok p \<and> u_path p = [47] \<and> u_query p = [] \<and> x = origin_text p \<and>
     length x < MAX_URL_LENGTH)"

lemma origin_for_url_canonical:
  assumes "parts_ok p" "u = render p" "length u \<le> MAX_URL_LENGTH"
  shows "origin_for_url db (PStr u) = Inr (origin_text p)"
proof -
  have "canonical_url u" using assms unfolding canonical_url_def by blast
  then show ?thesis using normalize_url_id [of u db] urlsplit_render [OF assms(1), of db]
    by (simp add: origin_for_url_def assms(2) url_origin_def origin_text_def)
qed

lemma render_length: "parts_ok p \<Longrightarrow> length (origin_text p) < length (render p)"
  by (auto simp: origin_text_def render_def urlunsplit_def Let_def str_def parts_ok_def)

lemma root_parts:
  assumes "parts_ok p"
  shows "parts_ok (p\<lparr>u_path := [47], u_query := []\<rparr>)"
    "origin_text (p\<lparr>u_path := [47], u_query := []\<rparr>) = origin_text p"
  using assms by (auto simp: parts_ok_def origin_text_def escaped_def path_safe_def str_def safe_in_def)

lemma origin_canonical:
  assumes "parts_ok p" "length (render p) \<le> MAX_URL_LENGTH"
  shows "canonical_origin (origin_text p)"
  unfolding canonical_origin_def
  using root_parts [OF assms(1)] render_length [OF assms(1)] assms(2)
  by (intro exI [of _ "p\<lparr>u_path := [47], u_query := []\<rparr>"]) simp

lemma origin_for_url_ok:
  assumes "nfc_keeps db" "origin_for_url db v = Inr x"
  shows "canonical_origin x"
proof -
  from assms(2) obtain u r where u: "normalize_url db v = Inr u" "urlsplit db u = Inr r" "x = url_origin r"
    by (auto simp: origin_for_url_def bindE_eq_Inr)
  from normalize_url_canonical [OF assms(1) u(1)] obtain p where
    p: "parts_ok p" "u = render p" "length u \<le> MAX_URL_LENGTH" by (auto simp: canonical_url_def)
  have "x = origin_text p" using u(2,3) urlsplit_render [OF p(1), of db] p(2)
    by (auto simp: url_origin_def origin_text_def)
  with origin_canonical [OF p(1)] p(2,3) show ?thesis by simp
qed

lemma normalize_origin_ok:
  assumes "normalize_origin db v = Inr x"
  shows "canonical_origin x"
proof -
  from assms obtain u r0 where u: "normalize_url db v = Inr u" "urlsplit db u = Inr r0" "x = url_origin r0"
    "sr_path r0 = [47]"
    by (auto simp: normalize_origin_def bindE_eq_Inr)
  obtain s h p path query path1 and r :: split_result where p: "u = urlunsplit s (authority h p) path query" "length u \<le> MAX_URL_LENGTH"
    "s = str ''http'' \<or> s = str ''https''" "host_ok h" "port_ok s p" "escaped path_safe path" "escaped query_safe query"
    using normalize_url_parts [OF u(1)] .
  have "path \<noteq> []"
  proof
    assume e: "path = []"
    have "u = s @ 58 # 47 # 47 # authority h p @ path @ (if query = [] then [] else 63 # query)"
      by (simp add: p(1) e urlunsplit_def)
    moreover have "urlsplit db (s @ 58 # 47 # 47 # authority h p @ path @ (if query = [] then [] else 63 # query)) =
        Inr \<lparr>sr_scheme = s, sr_netloc = authority h p, sr_path = path, sr_query = query, sr_fragment = []\<rparr>"
      by (rule urlsplit_text [OF p(3) authority_chars [OF p(4,5)] _ _ _ escaped_chars(2) [OF p(7)]])
        (simp_all add: e)
    ultimately have "sr_path r0 = []" using u(2) e by auto
    with u(4) show False by simp
  qed
  from parts_from_path [OF p(1,3-7) this] obtain q where q: "parts_ok q" "u = render q" by blast
  have "x = origin_text q" using u(2,3) urlsplit_render [OF q(1), of db] q(2)
    by (auto simp: url_origin_def origin_text_def)
  with origin_canonical [OF q(1)] q(2) p(2) show ?thesis by simp
qed

text \<open>An origin has no path; splitting and normalising it adds the slash.\<close>

lemma urlsplit_origin:
  assumes "parts_ok p"
  shows "urlsplit db (origin_text p) = Inr \<lparr>sr_scheme = u_scheme p,
    sr_netloc = authority (u_host p) (u_port p), sr_path = [], sr_query = [], sr_fragment = []\<rparr>"
proof -
  have "origin_text p = u_scheme p @ 58 # 47 # 47 # authority (u_host p) (u_port p) @ [] @ (if [] = [] then [] else 63 # [])"
    by (simp add: origin_text_def str_def)
  then show ?thesis using urlsplit_text [OF parts_okD(1,4) [OF assms], of "[]" "[]" db] by simp
qed

lemma normalize_url_origin:
  assumes "parts_ok p" "u_path p = [47]" "u_query p = []" "length (origin_text p) < MAX_URL_LENGTH"
  shows "normalize_url db (PStr (origin_text p)) = Inr (render p)"
proof -
  let ?u = "origin_text p"
  note p = parts_okD [OF assms(1)]
  have ren: "render p = ?u @ [47]" by (simp add: render_def origin_text_def urlunsplit_def assms(2,3) str_def)
  have c: "list_all url_char ?u" using render_chars [OF assms(1)] by (simp add: ren)
  have c_facts: "\<not> (\<exists>x\<in>set ?u. x \<le> 32 \<or> x = 127)" "92 \<notin> set ?u" "35 \<notin> set ?u"
    using c url_char_facts unfolding list_all_iff by blast+
  have "?u \<noteq> []" by (simp add: origin_text_def)
  then have screen: "screen_url (PStr ?u) = Inr ?u"
    using assms(4) c_facts by (simp add: screen_url_def strip_id [OF c] list_ex_iff)
  have auth: "url_authority db \<lparr>sr_scheme = u_scheme p, sr_netloc = authority (u_host p) (u_port p),
    sr_path = [], sr_query = [], sr_fragment = []\<rparr> = Inr (authority (u_host p) (u_port p))"
    using p(1-3) by (intro url_authority_id) auto
  have "quote path_safe [47] = Inr [47]" "quote query_safe [] = Inr []"
    by (rule quote_id; simp add: safe_in_def path_safe_def str_def)+
  moreover have "length (render p) \<le> MAX_URL_LENGTH" using assms(4) by (simp add: ren)
  ultimately show ?thesis
    using screen auth canonicalize_id [OF p(9)] canonicalize_id [OF p(10)] assms(2,3)
    by (simp add: normalize_url_def urlsplit_origin [OF assms(1)] reraise_def nfc_def is_ascii_def render_def)
qed

lemma normalize_origin_id:
  assumes "canonical_origin x"
  shows "normalize_origin db (PStr x) = Inr x"
proof -
  from assms obtain p where p: "parts_ok p" "u_path p = [47]" "u_query p = []" "x = origin_text p"
    "length x < MAX_URL_LENGTH" by (auto simp: canonical_origin_def)
  have "list_all url_char x" using render_chars [OF p(1)] p(2,3,4)
    by (simp add: render_def origin_text_def urlunsplit_def str_def url_char_def)
  then have "35 \<notin> set x" using list_all_notin [of url_char x 35] by (simp add: url_char_def)
  moreover have "63 \<notin> set x"
    using list_all_notin [OF parts_okD(4) [OF p(1)], of 63] parts_okD(1) [OF p(1)]
    by (auto simp: p(4) origin_text_def netloc_char_def str_def)
  ultimately show ?thesis
    using normalize_url_origin [OF p(1-3), of db] urlsplit_render [OF p(1), of db] p(4,5)
    by (simp add: normalize_origin_def p(2,3) url_origin_def origin_text_def)
qed

subsection \<open>Properties\<close>

text \<open>A database for ASCII text, on which witnesses evaluate.\<close>

definition ascii_db :: unicode_db where
  "ascii_db = \<lparr>db_nfc = (\<lambda>s. s), db_nfkc = (\<lambda>s. s), db_lower = (\<lambda>s. s), db_idna = (\<lambda>s. None),
     db_isdigit = (\<lambda>c. False), db_decimal = (\<lambda>c. None)\<rparr>"

lemma ascii_db_keeps: "nfc_keeps ascii_db"
  by (simp add: nfc_keeps_def ascii_db_def)

lemmas url_eval = normalize_url_def screen_url_def urlsplit_def split_scheme_def url_authority_def
  normalize_hostname_def sr_hostname_def sr_port_def hostinfo_def reraise_def before_def after_def
  lower_def is_ascii_def nfc_def netloc_ok_def idna_encode_def idna_ascii_def ip_address_def ipv4_of_def
  ipv6_of_def ipv6_parts_def parse_octet_def host_label_def host_alnum_def numeric_host_label_def
  unsafe_suffix_def UNSAFE_HOST_SUFFIXES_def ends_with_def quote_def quote_byte_def utf8_char_def
  canonicalize_escapes_def urlunsplit_def strip_def py_space_def is_alpha_def is_digit_def scheme_char_def
  ascii_lower_def always_safe_def path_safe_def query_safe_def MAX_URL_LENGTH_def bracketed_host_ok_def
  Let_def str_def hex_val_def byte_of_def digits_val_def

lemma sample_url: "normalize_url ascii_db (S ''HTTP://A.com:80'') = Inr (str ''http://a.com/'')"
  by (simp add: url_eval)

text \<open>C28: \<open>normalize_url\<close> returns canonical spellings. A URL it accepts comes back as scheme, lower-case
  public host, non-default port, slash-led path and query with upper-case escapes; splitting the result
  returns exactly those parts, and normalising it again changes nothing.\<close>

theorem normalize_url_idempotent:
  assumes "nfc_keeps db" "normalize_url db v = Inr u"
  shows "normalize_url db (PStr u) = Inr u \<and>
    (\<exists>p. parts_ok p \<and> u = render p \<and> length u \<le> MAX_URL_LENGTH \<and>
       urlsplit db u = Inr \<lparr>sr_scheme = u_scheme p, sr_netloc = authority (u_host p) (u_port p),
         sr_path = u_path p, sr_query = u_query p, sr_fragment = []\<rparr>)"
proof -
  have c: "canonical_url u" by (rule normalize_url_canonical [OF assms])
  then obtain p where "parts_ok p" "u = render p" "length u \<le> MAX_URL_LENGTH" by (auto simp: canonical_url_def)
  with normalize_url_id [OF c] urlsplit_render show ?thesis by metis
qed

theorem normalize_url_idempotent_witness:
  "normalize_url ascii_db (S ''http://a.com/'') = Inr (str ''http://a.com/'')"
  using normalize_url_idempotent [OF ascii_db_keeps sample_url] by simp

text \<open>authorised origins are exact. For a URL that \<open>normalize_url\<close> accepts, \<open>origin_for_url\<close> returns
  an origin, \<open>normalize_origin\<close> accepts that origin unchanged, and a URL is authorised by a list of
  canonical origins exactly when its origin is one of them.\<close>

theorem authorized_url_iff:
  assumes "nfc_keeps db" "normalize_url db v = Inr u" "list_all canonical_origin os"
  shows "\<exists>x. origin_for_url db v = Inr x \<and> normalize_origin db (PStr x) = Inr x \<and>
    is_authorized_url db v (map PStr os) = Inr (x \<in> set os)"
proof -
  from normalize_url_canonical [OF assms(1,2)] obtain p where
    p: "parts_ok p" "u = render p" "length u \<le> MAX_URL_LENGTH" by (auto simp: canonical_url_def)
  have x: "origin_for_url db v = Inr (origin_text p)"
    using assms(2) urlsplit_render [OF p(1), of db] p(2)
    by (simp add: origin_for_url_def url_origin_def origin_text_def)
  have "mapE (normalize_origin db) (map PStr os) = Inr os"
    using assms(3) by (induction os) (auto simp: normalize_origin_id)
  with x normalize_origin_id [OF origin_for_url_ok [OF assms(1) x]] show ?thesis
    by (simp add: is_authorized_url_def)
qed

lemma sample_origin: "canonical_origin (str ''http://a.com'')"
proof -
  have "origin_for_url ascii_db (S ''http://a.com/'') = Inr (str ''http://a.com'')"
    by (simp add: origin_for_url_def url_origin_def url_eval)
  then show ?thesis by (rule origin_for_url_ok [OF ascii_db_keeps])
qed

theorem authorized_url_iff_witness:
  "\<exists>x. origin_for_url ascii_db (S ''HTTP://A.com:80'') = Inr x \<and> normalize_origin ascii_db (PStr x) = Inr x \<and>
    is_authorized_url ascii_db (S ''HTTP://A.com:80'') (map PStr [str ''http://a.com'']) =
      Inr (x \<in> set [str ''http://a.com''])"
  by (rule authorized_url_iff [OF ascii_db_keeps sample_url]) (simp add: sample_origin)

text \<open>The address a connection would reach: an IPv4-mapped IPv6 address counts as its IPv4 address.\<close>

definition effective_ip :: "pystr \<Rightarrow> ip option" where
  "effective_ip s =
     (case ip_address s of
        Some (IPv6 n) \<Rightarrow> Some (case ipv4_mapped n of Some m \<Rightarrow> IPv4 m | None \<Rightarrow> IPv6 n)
      | x \<Rightarrow> x)"

definition between :: "nat \<Rightarrow> nat \<Rightarrow> nat \<Rightarrow> bool" where
  "between lo hi n = (lo \<le> n \<and> n \<le> hi)"

lemma between_net:
  assumes "between (a * k) (a * k + (k - 1)) n" "0 < k"
  shows "n div k = (a :: nat)"
  using assms by (intro div_nat_eqI) (auto simp: between_def algebra_simps)

lemma v4_private_net:
  "net \<in> set v4_private_networks \<Longrightarrow> in_net 32 n net \<Longrightarrow> n \<noteq> quad 192 0 0 9 \<Longrightarrow> n \<noteq> quad 192 0 0 10 \<Longrightarrow> v4_unsafe n"
  by (auto simp: v4_unsafe_def v4_private_def list_ex_iff in_net_def)

lemma v4_unsafe_blocks:
  "between (quad 0 0 0 0) (quad 0 255 255 255) n \<Longrightarrow> v4_unsafe n"
  "between (quad 10 0 0 0) (quad 10 255 255 255) n \<Longrightarrow> v4_unsafe n"
  "between (quad 100 64 0 0) (quad 100 127 255 255) n \<Longrightarrow> v4_unsafe n"
  "between (quad 127 0 0 0) (quad 127 255 255 255) n \<Longrightarrow> v4_unsafe n"
  "between (quad 169 254 0 0) (quad 169 254 255 255) n \<Longrightarrow> v4_unsafe n"
  "between (quad 172 16 0 0) (quad 172 31 255 255) n \<Longrightarrow> v4_unsafe n"
  "between (quad 192 168 0 0) (quad 192 168 255 255) n \<Longrightarrow> v4_unsafe n"
  "between (quad 224 0 0 0) (quad 239 255 255 255) n \<Longrightarrow> v4_unsafe n"
  "between (quad 240 0 0 0) (quad 255 255 255 255) n \<Longrightarrow> v4_unsafe n"
proof -
  have net: "v4_unsafe n" if "between (a * 2 ^ (32 - w)) (a * 2 ^ (32 - w) + (2 ^ (32 - w) - 1)) n"
    "(a * 2 ^ (32 - w), w) \<in> set v4_private_networks" "n \<noteq> quad 192 0 0 9" "n \<noteq> quad 192 0 0 10" for a w
    using between_net [OF that(1)] that(2-4) by (intro v4_private_net) (auto simp: in_net_def)
  show "between (quad 0 0 0 0) (quad 0 255 255 255) n \<Longrightarrow> v4_unsafe n"
    by (rule net [of 0 8]) (simp_all add: v4_private_networks_def quad_def between_def)
  show "between (quad 10 0 0 0) (quad 10 255 255 255) n \<Longrightarrow> v4_unsafe n"
    by (rule net [of 10 8]) (simp_all add: v4_private_networks_def quad_def between_def)
  show "between (quad 127 0 0 0) (quad 127 255 255 255) n \<Longrightarrow> v4_unsafe n"
    by (rule net [of 127 8]) (simp_all add: v4_private_networks_def quad_def between_def)
  show "between (quad 169 254 0 0) (quad 169 254 255 255) n \<Longrightarrow> v4_unsafe n"
    by (rule net [of 43518 16]) (simp_all add: v4_private_networks_def quad_def between_def)
  show "between (quad 172 16 0 0) (quad 172 31 255 255) n \<Longrightarrow> v4_unsafe n"
    by (rule net [of 2753 12]) (simp_all add: v4_private_networks_def quad_def between_def)
  show "between (quad 192 168 0 0) (quad 192 168 255 255) n \<Longrightarrow> v4_unsafe n"
    by (rule net [of 49320 16]) (simp_all add: v4_private_networks_def quad_def between_def)
  show "between (quad 240 0 0 0) (quad 255 255 255 255) n \<Longrightarrow> v4_unsafe n"
    by (rule net [of 15 4]) (simp_all add: v4_private_networks_def quad_def between_def)
  show "v4_unsafe n" if "between (quad 100 64 0 0) (quad 100 127 255 255) n"
    using between_net [of 401 "2 ^ 22" n] that by (simp add: v4_unsafe_def v4_global_def in_net_def quad_def)
  show "v4_unsafe n" if "between (quad 224 0 0 0) (quad 239 255 255 255) n"
    using between_net [of 14 "2 ^ 28" n] that by (simp add: v4_unsafe_def in_net_def quad_def)
qed

lemma between_glue: "between (quad 224 0 0 0) (quad 255 255 255 255) n \<Longrightarrow> v4_unsafe n"
  using v4_unsafe_blocks(8,9) [of n] by (simp add: between_def quad_def) linarith

lemma in_net_top:
  assumes "in_net 128 n (a, w)" "k \<le> w" "w \<le> 128"
  shows "n div 2 ^ (128 - k) = a div 2 ^ (128 - k)"
proof -
  have e: "(2::nat) ^ (128 - k) = 2 ^ (128 - w) * 2 ^ (w - k)" using assms(2,3) by (simp flip: power_add)
  show ?thesis using assms(1) unfolding e by (simp add: in_net_def div_mult2_eq)
qed

lemma v6_exception_top: "net \<in> set v6_private_exceptions \<Longrightarrow> in_net 128 n net \<Longrightarrow> n div 2 ^ 112 = 0x2001"
  using in_net_top [of n "fst net" "snd net" 16]
  by (auto simp: v6_private_exceptions_def oct_def)

lemma v6_unsafe_blocks:
  "n div 2 ^ 120 = 0 \<Longrightarrow> v6_unsafe n" "n div 2 ^ 120 = 0xff \<Longrightarrow> v6_unsafe n"
  "n div 2 ^ 118 = 0x3fa \<Longrightarrow> v6_unsafe n"
  by (simp_all add: v6_unsafe_def v6_reserved_networks_def in_net_def oct_def)

lemma v6_ula:
  assumes "n div 2 ^ 121 = 0x7e"
  shows "v6_unsafe n"
proof -
  have "n div 2 ^ 121 = n div 2 ^ 112 div 512" by (simp flip: div_mult2_eq)
  with assms have "n div 2 ^ 112 \<noteq> 0x2001" by auto
  then have "\<not> list_ex (in_net 128 n) v6_private_exceptions"
    using v6_exception_top by (auto simp: list_ex_iff)
  moreover have "ipv4_mapped n = None"
  proof -
    have "n div 2 ^ 121 = n div 2 ^ 32 div 2 ^ 89" by (simp flip: div_mult2_eq)
    with assms show ?thesis by (auto simp: ipv4_mapped_def)
  qed
  moreover have "list_ex (in_net 128 n) v6_private_networks"
    using assms by (simp add: v6_private_networks_def in_net_def oct_def)
  ultimately show ?thesis by (simp add: v6_unsafe_def v6_private_def)
qed

text \<open>an address that \<open>validate_resolved_address\<close> accepts is returned in canonical text and lies
  outside the loopback, private, shared, link-local, multicast, reserved and unspecified blocks, also
  when it was spelled as an IPv4-mapped IPv6 address.\<close>

theorem resolved_address_public:
  assumes "validate_resolved_address (PStr s) = Inr r"
  shows "case effective_ip s of
      Some (IPv4 n) \<Rightarrow> r = ipv4_text n \<and>
        \<not> between (quad 0 0 0 0) (quad 0 255 255 255) n \<and> \<not> between (quad 10 0 0 0) (quad 10 255 255 255) n \<and>
        \<not> between (quad 100 64 0 0) (quad 100 127 255 255) n \<and> \<not> between (quad 127 0 0 0) (quad 127 255 255 255) n \<and>
        \<not> between (quad 169 254 0 0) (quad 169 254 255 255) n \<and> \<not> between (quad 172 16 0 0) (quad 172 31 255 255) n \<and>
        \<not> between (quad 192 168 0 0) (quad 192 168 255 255) n \<and> \<not> between (quad 224 0 0 0) (quad 255 255 255 255) n
    | Some (IPv6 n) \<Rightarrow> r = ipv6_text n \<and> n div 2 ^ 120 \<noteq> 0 \<and> n div 2 ^ 121 \<noteq> 0x7e \<and>
        n div 2 ^ 118 \<noteq> 0x3fa \<and> n div 2 ^ 120 \<noteq> 0xff
    | None \<Rightarrow> False"
proof -
  have v4: "\<not> v4_unsafe n \<Longrightarrow> \<not> between (quad 0 0 0 0) (quad 0 255 255 255) n \<and>
      \<not> between (quad 10 0 0 0) (quad 10 255 255 255) n \<and> \<not> between (quad 100 64 0 0) (quad 100 127 255 255) n \<and>
      \<not> between (quad 127 0 0 0) (quad 127 255 255 255) n \<and> \<not> between (quad 169 254 0 0) (quad 169 254 255 255) n \<and>
      \<not> between (quad 172 16 0 0) (quad 172 31 255 255) n \<and> \<not> between (quad 192 168 0 0) (quad 192 168 255 255) n \<and>
      \<not> between (quad 224 0 0 0) (quad 255 255 255 255) n" for n
    using v4_unsafe_blocks between_glue by blast
  have v6: "\<not> v6_unsafe n \<Longrightarrow> n div 2 ^ 120 \<noteq> 0 \<and> n div 2 ^ 121 \<noteq> 0x7e \<and>
        n div 2 ^ 118 \<noteq> 0x3fa \<and> n div 2 ^ 120 \<noteq> 0xff" for n
    using v6_unsafe_blocks v6_ula by blast
  from assms consider (a) n where "ip_address s = Some (IPv4 n)" "\<not> v4_unsafe n" "r = ipv4_text n"
    | (b) n m where "ip_address s = Some (IPv6 n)" "ipv4_mapped n = Some m" "\<not> v4_unsafe m" "r = ipv4_text m"
    | (c) n where "ip_address s = Some (IPv6 n)" "ipv4_mapped n = None" "\<not> v6_unsafe n" "r = ipv6_text n"
    by (auto simp: validate_resolved_address_def bindE_eq_Inr split: option.splits ip.splits if_splits)
  then show ?thesis
  proof cases
    case a
    then show ?thesis using v4 by (simp add: effective_ip_def)
  next
    case b
    then show ?thesis using v4 by (simp add: effective_ip_def)
  next
    case c
    then show ?thesis using v6 by (simp add: effective_ip_def)
  qed
qed

lemma sample_address: "validate_resolved_address (S ''8.8.4.4'') = Inr (str ''8.8.4.4'')"
  by (simp add: validate_resolved_address_def ip_address_def ipv4_of_def parse_octet_def strip_def py_space_def
      str_def is_digit_def digits_val_def v4_unsafe_def v4_global_def v4_private_def v4_private_networks_def
      in_net_def quad_def ipv4_text_def dec.simps)

theorem resolved_address_public_witness:
  "case effective_ip (str ''8.8.4.4'') of Some (IPv4 n) \<Rightarrow> \<not> between (quad 10 0 0 0) (quad 10 255 255 255) n | _ \<Rightarrow> False"
proof -
  have "effective_ip (str ''8.8.4.4'') = Some (IPv4 (quad 8 8 4 4))"
    by (simp add: effective_ip_def ip_address_def ipv4_of_def parse_octet_def str_def is_digit_def digits_val_def quad_def)
  then show ?thesis using resolved_address_public [OF sample_address] by simp
qed


end
