(* ===== verification/Monitor.thy ===== *)
theory Monitor
  imports Protocol
begin

section \<open>Monitor contracts: trip latches and hash chains\<close>

text \<open>
  Two interfaces shared by the components that decide a sequence of requests. \<open>trip_latch\<close> is a
  monitor that closes for good on its first trip and revokes exactly then. \<open>hash_chain\<close> is a log
  whose entries carry the digest of the entry before them; its lemma is that the last digest binds
  the whole log. \<open>run_steps\<close> feeds a list of requests to a step function.
\<close>

fun run_steps :: "('s \<Rightarrow> 'i \<Rightarrow> 's \<times> 'o) \<Rightarrow> 's \<Rightarrow> 'i list \<Rightarrow> 's \<times> 'o list" where
  "run_steps f s [] = (s, [])"
| "run_steps f s (i # is) =
     (let (s', x) = f s i; (s'', xs) = run_steps f s' is in (s'', x # xs))"

lemma run_steps_Cons:
  "run_steps f s (i # is) = (fst (run_steps f (fst (f s i)) is), snd (f s i) # snd (run_steps f (fst (f s i)) is))"
  by (simp add: Let_def split: prod.splits)

lemma run_steps_invariant:
  assumes "\<And>s i. I s \<Longrightarrow> I (fst (f s i))" "I s"
  shows "I (fst (run_steps f s is))"
  using assms(2) by (induction "is" arbitrary: s) (auto simp: run_steps_Cons assms(1) simp del: run_steps.simps(2))

lemma length_run_steps: "length (snd (run_steps f s is)) = length is"
  by (induction "is" arbitrary: s) (auto simp: run_steps_Cons simp del: run_steps.simps(2))

locale trip_latch =
  fixes step :: "'s \<Rightarrow> 'i \<Rightarrow> 's \<times> 'o"
    and tripped :: "'s \<Rightarrow> bool"
    and permits :: "'o \<Rightarrow> bool"
    and revocations :: "'s \<Rightarrow> nat"
  assumes latched: "tripped s \<Longrightarrow> tripped (fst (step s i))"
    and closed: "tripped s \<Longrightarrow> \<not> permits (snd (step s i))"
    and permits_open: "permits (snd (step s i)) \<Longrightarrow> \<not> tripped (fst (step s i))"
    and revokes: "revocations (fst (step s i)) =
                  revocations s + (if tripped (fst (step s i)) \<and> \<not> tripped s then 1 else 0)"
begin

lemma latched_run: "tripped s \<Longrightarrow> tripped (fst (run_steps step s is))"
  by (rule run_steps_invariant [of tripped]) (rule latched)

lemma closed_run: "tripped s \<Longrightarrow> list_all (\<lambda>x. \<not> permits x) (snd (run_steps step s is))"
proof (induction "is" arbitrary: s)
  case (Cons i "is")
  then show ?case using latched [of s i] closed [of s i]
    by (simp add: run_steps_Cons del: run_steps.simps(2))
qed simp

lemma revocations_run:
  "revocations (fst (run_steps step s is)) =
   revocations s + (if tripped (fst (run_steps step s is)) \<and> \<not> tripped s then 1 else 0)"
proof (induction "is" arbitrary: s)
  case (Cons i "is")
  let ?s = "fst (step s i)"
  have run: "fst (run_steps step s (i # is)) = fst (run_steps step ?s is)"
    by (simp only: run_steps_Cons fst_conv)
  show ?case unfolding run Cons [of ?s] revokes [of s i]
    using latched [of s i] latched_run [of ?s "is"] by (cases "tripped s"; cases "tripped ?s") simp_all
qed simp

lemma run_app:
  "fst (run_steps step s (is @ js)) = fst (run_steps step (fst (run_steps step s is)) js)"
  "snd (run_steps step s (is @ js)) =
   snd (run_steps step s is) @ snd (run_steps step (fst (run_steps step s is)) js)"
  by (induction "is" arbitrary: s) (auto simp: run_steps_Cons simp del: run_steps.simps(2))

text \<open>A permitted request means that the monitor was open before it and stays open after it.\<close>

lemma permitted_prefix:
  assumes "j < length is" "permits (snd (run_steps step s is) ! j)" "i \<le> Suc j"
  shows "\<not> tripped (fst (run_steps step s (take i is)))"
proof
  assume t: "tripped (fst (run_steps step s (take i is)))"
  let ?p = "fst (run_steps step s (take i is))"
  have split: "snd (run_steps step s is) = snd (run_steps step s (take i is)) @ snd (run_steps step ?p (drop i is))"
    using run_app(2) [of s "take i is" "drop i is"] by simp
  show False
  proof (cases "i \<le> j")
    case True
    then have "snd (run_steps step s is) ! j = snd (run_steps step ?p (drop i is)) ! (j - i)"
      using assms(1) by (simp add: split nth_append length_run_steps)
    moreover have "j - i < length (snd (run_steps step ?p (drop i is)))"
      using assms(1) True by (simp add: length_run_steps)
    ultimately show False using closed_run [OF t, of "drop i is"] assms(2) by (auto simp: list_all_length)
  next
    case False
    with assms have i: "i = Suc j" by simp
    let ?q = "fst (run_steps step s (take j is))"
    have tk: "take i is = take j is @ [is ! j]" using assms(1) i by (simp add: take_Suc_conv_app_nth)
    have "snd (run_steps step s is) ! j = snd (step ?q (is ! j))"
      using assms(1) run_app(2) [of s "take j is" "[is ! j]"]
      by (simp add: split tk nth_append length_run_steps run_steps_Cons del: run_steps.simps(2))
    moreover have "?p = fst (step ?q (is ! j))"
      using run_app(1) [of s "take j is" "[is ! j]"]
      by (simp add: tk run_steps_Cons del: run_steps.simps(2))
    ultimately show False using permits_open assms(2) t by metis
  qed
qed

end

subsection \<open>Looking into canonical documents\<close>

lemma map_of_apsnd: "map_of (map (apsnd f) d) k = map_option f (map_of d k)"
  by (induction d) auto

lemma dget_canon: "wf_val (PDict d) \<Longrightarrow> dget (dict_of (canon (PDict d))) k = map_option canon (dget d k)"
proof -
  assume wf: "wf_val (PDict d)"
  let ?s = "sort_key (\<lambda>kv. key_str (fst kv)) (canon_dict d)"
  have "distinct (map fst (canon_dict d))"
    using wf map_fst_apsnd [of canon d] by (simp add: canon_dict_map)
  moreover have "distinct (map fst ?s)" using wf by simp
  ultimately have "map_of ?s = map_of (canon_dict d)" by (auto simp: map_of_inject_set)
  then show ?thesis by (simp add: dget_def canon_dict_map map_of_apsnd)
qed

lemma get_canon: "wf_val v \<Longrightarrow> get (canon v) k = canon (get v k)"
proof (cases v)
  case (PDict d)
  assume "wf_val v"
  then show ?thesis using dget_canon [of d k]
    by (simp add: PDict get_def split: option.split)
qed (simp_all add: get_def dget_def)

lemma canon_PStr: "canon v = PStr s \<longleftrightarrow> v = PStr s"
  by (cases v) auto

subsection \<open>Hash chains\<close>

fun chain_ok :: "('e \<Rightarrow> pyval) \<Rightarrow> ('e \<Rightarrow> pyval) \<Rightarrow> ('e \<Rightarrow> pyval) \<Rightarrow> pystr \<Rightarrow> 'e list \<Rightarrow> pystr \<Rightarrow> bool" where
  "chain_ok body prev link p [] l = (p = l)"
| "chain_ok body prev link p (e # es) l =
     (prev e = PStr p \<and>
      (case link e of
         PStr h \<Rightarrow> sha256_hex (body e) = Inr h \<and> chain_ok body prev link h es l
       | _ \<Rightarrow> False))"

lemma chain_ok_snoc:
  "chain_ok body prev link p (es @ [e]) l \<longleftrightarrow>
     (\<exists>q. chain_ok body prev link p es q \<and> prev e = PStr q \<and> link e = PStr l \<and>
          sha256_hex (body e) = Inr l)"
  by (induction es arbitrary: p) (auto split: pyval.splits)

locale hash_chain =
  fixes body :: "'e \<Rightarrow> pyval" and prev :: "'e \<Rightarrow> pyval" and link :: "'e \<Rightarrow> pyval" and ok :: "'e \<Rightarrow> bool"
  assumes body_wf: "ok e \<Longrightarrow> wf_val (body e)"
    and prev_in_body: "ok e \<Longrightarrow> ok e' \<Longrightarrow> canon (body e) = canon (body e') \<Longrightarrow>
                       prev e = PStr q \<Longrightarrow> prev e' = PStr q' \<Longrightarrow> q = q'"
begin

lemma last_hash_binds:
  assumes "length es = length es'" "list_all ok es" "list_all ok es'"
    "chain_ok body prev link p es l" "chain_ok body prev link p' es' l"
  shows "map (\<lambda>e. canon (body e)) es = map (\<lambda>e. canon (body e)) es' \<or>
    (\<exists>e\<in>set es. \<exists>e'\<in>set es'. \<exists>b c. canonical_bytes (body e) = Inr b \<and>
       canonical_bytes (body e') = Inr c \<and> sha256_collision b c)"
  using assms
proof (induction es arbitrary: es' l rule: rev_induct)
  case (snoc e es)
  then obtain es0 e' where es': "es' = es0 @ [e']" by (cases es' rule: rev_cases) auto
  from snoc.prems(4,5) obtain q q' where
    c: "chain_ok body prev link p es q" "prev e = PStr q" "sha256_hex (body e) = Inr l" and
    c': "chain_ok body prev link p' es0 q'" "prev e' = PStr q'" "sha256_hex (body e') = Inr l"
    by (auto simp: es' chain_ok_snoc)
  have ok: "ok e" "ok e'" using snoc.prems(2,3) by (auto simp: es')
  from sha256_hex_binds [OF body_wf [OF ok(1)] body_wf [OF ok(2)] c(3) c'(3)] show ?case
  proof
    assume eq: "canon (body e) = canon (body e')"
    from prev_in_body [OF ok eq c(2) c'(2)] have "q = q'" .
    then show ?thesis using snoc.IH [of es0 q] snoc.prems(1,2,3) c(1) c'(1) eq
      by (auto simp: es')
  qed (auto simp: es')
qed simp

end

end
