(* ===== verification/Contract_Facts.thy ===== *)
theory Contract_Facts
  imports Agent_Contract Monitor
begin

section \<open>What the contracts and envelopes of the agent probe guarantee\<close>

text \<open>
  Lemmas and properties of \<open>Agent_Contract\<close>: when an envelope can be signed, that the verifier accepts it,
  what an accepted signature binds, the ranges of a budget table, and when a job manifest can be built.
\<close>

subsection \<open>Signing and verifying\<close>

definition usable_key :: "bytes \<Rightarrow> bool" where
  "usable_key key = (32 \<le> length key \<and> key \<notin> set PROHIBITED_STATIC_KEYS)"

definition envelope :: "pyval \<Rightarrow> string \<Rightarrow> bytes \<Rightarrow> bytes \<Rightarrow> pyval" where
  "envelope payload payload_type key b = obj
     [(''envelope_version'', S ''cindermote.signed-envelope/v1''), (''payload_type'', S payload_type),
      (''payload_sha256'', PStr (sha256_hexdigest b)), (''payload'', payload),
      (''signature'', obj [(''algorithm'', S ''HMAC-SHA256''), (''key_id'', PStr (key_fingerprint key)),
         (''signature_hex'', PStr (hmac_hexdigest key (sha256 b)))])]"

lemma digest_mac_digest [simp]: "digest_mac key (sha256_hexdigest b) = Inr (hmac_hexdigest key (sha256 b))"
  by (simp add: digest_mac_def)

lemma hex_ascii: "list_all is_hex_char s \<Longrightarrow> is_ascii s"
  unfolding is_ascii_def by (erule list_all_mp) (auto simp: is_hex_char_def)

lemma digest_ascii [simp]: "is_digest s \<Longrightarrow> is_ascii s"
  by (simp add: is_digest_def hex_ascii)

lemma fingerprint_ascii [simp]: "is_ascii (key_fingerprint key)"
proof -
  have "list_all is_hex_char (sha256_hexdigest key)"
    using sha256_hexdigest_is_digest by (simp add: is_digest_def)
  then have "list_all is_hex_char (key_fingerprint key)"
    by (auto simp: key_fingerprint_def list_all_iff dest: in_set_takeD)
  then show ?thesis by (rule hex_ascii)
qed

lemma constant_time_equal_left [simp]:
  "is_ascii s \<Longrightarrow> constant_time_equal (PStr s) v \<longleftrightarrow> v = PStr s"
  by (cases v) (auto simp: constant_time_equal_def)

lemma constant_time_equal_right [simp]:
  "is_ascii s \<Longrightarrow> constant_time_equal v (PStr s) \<longleftrightarrow> v = PStr s"
  by (cases v) (auto simp: constant_time_equal_def)

lemma sign_envelope_eq:
  "sign_envelope payload t key =
     (if usable_key key then bindE (canonical_bytes payload) (\<lambda>b. Inr (envelope payload t key b))
      else Inl (ContractError (if length key < 32 then ''observer key must be at least 32 bytes''
                               else ''observer key is a prohibited static default'')))"
  by (simp add: sign_envelope_def usable_key_def sha256_hex_def bindE_assoc envelope_def)

lemma verify_envelope_iff:
  "verify_envelope env key ty \<longleftrightarrow>
     has_shape env [''envelope_version'', ''payload_type'', ''payload_sha256'', ''payload'', ''signature''] \<and>
     get env ''envelope_version'' = S ''cindermote.signed-envelope/v1'' \<and>
     (\<forall>t. ty = Some t \<longrightarrow> get env ''payload_type'' = S t) \<and> usable_key key \<and>
     (\<exists>b. canonical_bytes (get env ''payload'') = Inr b \<and>
        get env ''payload_sha256'' = PStr (sha256_hexdigest b) \<and>
        has_shape (get env ''signature'') [''algorithm'', ''key_id'', ''signature_hex''] \<and>
        get (get env ''signature'') ''algorithm'' = S ''HMAC-SHA256'' \<and>
        get (get env ''signature'') ''key_id'' = PStr (key_fingerprint key) \<and>
        get (get env ''signature'') ''signature_hex'' = PStr (hmac_hexdigest key (sha256 b)))"
  (is "?l \<longleftrightarrow> ?r")
proof (cases "canonical_bytes (get env ''payload'')")
  case (Inl e)
  then show ?thesis by (auto simp: verify_envelope_def sha256_hex_def split: if_splits)
next
  case (Inr b)
  then show ?thesis
    by (auto simp: verify_envelope_def sha256_hex_def usable_key_def is_digest_val_def Let_def
        split: option.splits if_splits)
qed

lemma envelope_fields [simp]:
  "get (envelope p t key b) ''payload'' = p" "get (envelope p t key b) ''payload_type'' = S t"
  "get (get (envelope p t key b) ''signature'') ''signature_hex'' = PStr (hmac_hexdigest key (sha256 b))"
  by (simp_all add: envelope_def py_eval)

lemma verify_signed:
  "usable_key key \<Longrightarrow> canonical_bytes p = Inr b \<Longrightarrow>
   verify_envelope (envelope p t key b) key ty \<longleftrightarrow> (ty = None \<or> ty = Some t)"
  by (cases ty) (auto simp: verify_envelope_iff envelope_def py_eval insert_commute)

text \<open>C36: signing and verifying are a round trip. \<open>sign_envelope\<close> fails with a contract error exactly when the
  key is short or a published default, and with a canonicalisation error exactly when the payload is not a
  canonical document; otherwise the envelope carries the payload unchanged and verifies under the same key,
  for its own payload type only.\<close>

theorem envelope_roundtrip:
  "case sign_envelope payload t key of
     Inl e \<Rightarrow> (\<not> usable_key key \<and> (\<exists>m. e = ContractError m)) \<or>
              (usable_key key \<and> validate payload \<noteq> Inr () \<and> (\<exists>m. e = CanonicalizationError m))
   | Inr env \<Rightarrow> usable_key key \<and> validate payload = Inr () \<and> get env ''payload'' = payload \<and>
              verify_envelope env key None \<and> (\<forall>t'. verify_envelope env key (Some t') = (t' = t))"
proof (cases "usable_key key")
  case True
  show ?thesis
  proof (cases "canonical_bytes payload")
    case (Inl e)
    then show ?thesis using canonical_bytes_total [of payload] canonical_bytes_exn [OF Inl]
      by (auto simp: sign_envelope_eq True)
  next
    case (Inr b)
    then show ?thesis using canonical_bytes_total [of payload] verify_signed [OF True Inr]
      by (auto simp: sign_envelope_eq True)
  qed
qed (simp add: sign_envelope_eq)

text \<open>C37: an accepted signature binds the payload. Two envelopes that verify under one key with the same
  signature carry equal documents, or exhibit a collision of SHA-256 or of HMAC under that key.\<close>

theorem envelope_binds:
  assumes "verify_envelope env key ty" "verify_envelope env' key ty'"
    and "wf_val (get env ''payload'')" "wf_val (get env' ''payload'')"
    and "get (get env ''signature'') ''signature_hex'' = get (get env' ''signature'') ''signature_hex''"
  shows "canon (get env ''payload'') = canon (get env' ''payload'') \<or>
    (\<exists>b c. canonical_bytes (get env ''payload'') = Inr b \<and> canonical_bytes (get env' ''payload'') = Inr c \<and>
       (sha256_collision b c \<or> hmac_collision key (sha256 b) (sha256 c)))"
proof -
  from assms(1,2,5) obtain b c where
    b: "canonical_bytes (get env ''payload'') = Inr b" and c: "canonical_bytes (get env' ''payload'') = Inr c" and
    eq: "hmac_hexdigest key (sha256 b) = hmac_hexdigest key (sha256 c)"
    unfolding verify_envelope_iff by auto
  from hmac_hexdigest_binds [OF eq] consider "sha256 b = sha256 c" | "hmac_collision key (sha256 b) (sha256 c)" by blast
  then show ?thesis
  proof cases
    case 1
    then have "b = c \<or> sha256_collision b c" by (auto simp: sha256_collision_def)
    with b c canonical_bytes_inj [OF assms(3,4)] show ?thesis by blast
  qed (use b c in blast)
qed

lemma retype_envelope:
  "PDict (dupd (dict_of (envelope p t key b)) (KStr (str ''payload_type'')) (S t')) = envelope p t' key b"
  by (simp add: envelope_def obj_def)

text \<open>the signature does not cover the payload type. Whoever holds a signed envelope can replace its
  \<open>payload_type\<close> by any other text, and the result verifies as that type without the key.\<close>

theorem payload_type_unsigned:
  "case sign_envelope payload t key of
     Inl e \<Rightarrow> True
   | Inr env \<Rightarrow> \<forall>t'. verify_envelope (PDict (dupd (dict_of env) (KStr (str ''payload_type'')) (S t'))) key (Some t')"
proof (cases "sign_envelope payload t key")
  case (Inr env)
  then obtain b where "usable_key key" "canonical_bytes payload = Inr b" "env = envelope payload t key b"
    by (auto simp: sign_envelope_eq bindE_eq_Inr split: if_splits)
  with Inr show ?thesis by (simp add: retype_envelope verify_signed)
qed simp

lemma sample_key: "usable_key (replicate 33 (1 :: byte))"
proof -
  have "list_all (\<lambda>k. length k \<le> 32) PROHIBITED_STATIC_KEYS"
    by (simp add: PROHIBITED_STATIC_KEYS_def bytes_of_def)
  then have "replicate 33 (1 :: byte) \<notin> set PROHIBITED_STATIC_KEYS" by (rule list_all_notin) simp
  then show ?thesis by (simp add: usable_key_def)
qed

lemma sample_payload: "validate (obj []) = Inr ()" "wf_val (obj [])"
  by (simp_all add: obj_def)

theorem envelope_binds_witness:
  "\<exists>env. sign_envelope (obj []) ''t'' (replicate 33 1) = Inr env \<and>
     verify_envelope env (replicate 33 1) (Some ''t'') \<and>
     (canon (get env ''payload'') = canon (get env ''payload'') \<or>
      (\<exists>b c. canonical_bytes (get env ''payload'') = Inr b \<and> canonical_bytes (get env ''payload'') = Inr c \<and>
       (sha256_collision b c \<or> hmac_collision (replicate 33 1) (sha256 b) (sha256 c))))"
proof -
  obtain b where b: "canonical_bytes (obj []) = Inr b" using canonical_bytes_total sample_payload(1) by blast
  let ?env = "envelope (obj []) ''t'' (replicate 33 1) b"
  have v: "verify_envelope ?env (replicate 33 1) (Some ''t'')" using verify_signed [OF sample_key b] by simp
  show ?thesis using envelope_binds [OF v v] v b sample_payload(2)
    by (intro exI [of _ ?env]) (simp add: sign_envelope_eq sample_key)
qed

subsection \<open>Merged dictionaries\<close>

lemma dupd_keys: "k \<in> fst ` set d \<Longrightarrow> map fst (dupd d k v) = map fst d"
  by (induction d) force+

lemma map_of_dupd: "map_of (dupd d k v) = (map_of d)(k \<mapsto> v)"
  by (induction d) (auto simp: fun_eq_iff)

lemma dmerge_Cons [simp]: "dmerge d ((k, v) # e) = dmerge (dupd d k v) e" "dmerge d [] = d"
  by (simp_all add: dmerge_def)

lemma dmerge_keys: "fst ` set e \<subseteq> fst ` set d \<Longrightarrow> map fst (dmerge d e) = map fst d"
proof (induction e arbitrary: d)
  case (Cons kv e)
  obtain k v where kv: "kv = (k, v)" by force
  with Cons.prems have keys: "map fst (dupd d k v) = map fst d" by (intro dupd_keys) auto
  then have "fst ` set (dupd d k v) = fst ` set d" by (metis list.set_map)
  with Cons keys kv show ?case by simp
qed simp

lemma map_of_dmerge: "distinct (map fst e) \<Longrightarrow> map_of (dmerge d e) = map_of d ++ map_of e"
proof (induction e arbitrary: d)
  case (Cons kv e)
  obtain k v where kv: "kv = (k, v)" by force
  with Cons.prems have "map_of e k = None" by (simp add: map_of_eq_None_iff)
  with Cons kv show ?case
    by (simp add: map_of_dupd) (auto simp: map_add_def fun_eq_iff split: option.split)
qed simp

subsection \<open>Budgets\<close>

definition budget_in_range :: "pyval \<Rightarrow> string \<times> int \<times> int \<Rightarrow> bool" where
  "budget_in_range v = (\<lambda>(k, lo, hi). \<exists>i. item v k = Inr (PInt i) \<and> lo \<le> i \<and> i \<le> hi)"

lemma in_range_iff: "in_range v rng = Inr () \<longleftrightarrow> budget_in_range v rng"
  by (cases rng) (auto simp: in_range_def budget_in_range_def bindE_eq_Inr)

lemma ranges_checked: "mapE (in_range v) rs = Inr us \<Longrightarrow> list_all (budget_in_range v) rs"
  by (induction rs arbitrary: us) (auto simp: bindE_eq_Inr in_range_iff)

lemma ranges_pass: "list_all (budget_in_range v) rs \<Longrightarrow> \<exists>us. mapE (in_range v) rs = Inr us"
  by (induction rs) (auto simp: in_range_iff [symmetric])

definition budgets_ok :: "pyval \<Rightarrow> bool" where
  "budgets_ok b = (is_dict b \<and> map fst (dict_of b) = map (\<lambda>(k, v). KStr (str k)) AP_DEFAULT_BUDGETS \<and>
     list_all (budget_in_range b) AP_BUDGET_RANGES)"

lemma default_keys: "map fst (dict_of (obj AP_DEFAULT_BUDGETS)) = map (\<lambda>(k, v). KStr (str k)) AP_DEFAULT_BUDGETS"
  by (simp add: dict_of_obj case_prod_unfold comp_def)

lemma validated_budgets_ok:
  assumes "validated_budgets v = Inr b"
  shows "budgets_ok b"
proof -
  from assms obtain us where b: "mapE (in_range b) AP_BUDGET_RANGES = Inr us"
    and m: "merge_budgets AP_DEFAULT_BUDGETS (map fst AP_DEFAULT_BUDGETS)
       (ContractError ''budget overrides contain unknown fields'') (if v = PNone then None else Some v) = Inr b"
    unfolding validated_budgets_def bindE_eq_Inr by blast
  have "is_dict b \<and> map fst (dict_of b) = map (\<lambda>(k, v). KStr (str k)) AP_DEFAULT_BUDGETS"
  proof (cases "v = PNone")
    case True
    with m show ?thesis using default_keys by (auto simp: merge_budgets_def)
  next
    case False
    with m obtain d where d: "v = PDict d" "set (map fst d) \<subseteq> KStr ` str ` set (map fst AP_DEFAULT_BUDGETS)"
      "b = PDict (dmerge (dict_of (obj AP_DEFAULT_BUDGETS)) d)"
      by (auto simp: merge_budgets_def bindE_eq_Inr)
    have "fst ` set d \<subseteq> fst ` set (dict_of (obj AP_DEFAULT_BUDGETS))"
      using d(2) arg_cong [OF default_keys, of set] by force
    from dmerge_keys [OF this] show ?thesis using default_keys by (simp add: d(3))
  qed
  with ranges_checked [OF b] show ?thesis by (simp add: budgets_ok_def)
qed

lemma default_keys_distinct: "distinct (map (\<lambda>(k, v). KStr (str k)) AP_DEFAULT_BUDGETS)"
  by (simp add: AP_DEFAULT_BUDGETS_def)

lemma budgets_ok_validated:
  assumes "budgets_ok b"
  shows "\<exists>b'. validated_budgets b = Inr b'"
proof -
  from assms obtain d where b: "b = PDict d" by (cases b) (auto simp: budgets_ok_def)
  let ?D = "dict_of (obj AP_DEFAULT_BUDGETS)"
  have keys: "map fst d = map fst ?D"
    using assms by (simp add: budgets_ok_def b default_keys)
  have dist: "distinct (map fst d)" unfolding keys default_keys by (rule default_keys_distinct)
  have "map_of (dmerge ?D d) k = map_of d k" for k
  proof (cases "map_of d k")
    case None
    then have "map_of ?D k = None" using keys by (metis list.set_map map_of_eq_None_iff)
    with None show ?thesis by (simp add: map_of_dmerge [OF dist] map_add_def)
  qed (simp add: map_of_dmerge [OF dist] map_add_def)
  then have "budget_in_range (PDict (dmerge ?D d)) = budget_in_range b"
    by (simp add: budget_in_range_def b item_def dget_def fun_eq_iff)
  with assms ranges_pass [of "PDict (dmerge ?D d)" AP_BUDGET_RANGES] obtain us where
    "mapE (in_range (PDict (dmerge ?D d))) AP_BUDGET_RANGES = Inr us" by (auto simp: budgets_ok_def)
  moreover have "set (map fst d) \<subseteq> KStr ` str ` set (map fst AP_DEFAULT_BUDGETS)"
    unfolding keys default_keys by force
  ultimately show ?thesis by (simp add: validated_budgets_def merge_budgets_def b)
qed

lemma budget_names: "map fst AP_BUDGET_RANGES = map fst AP_DEFAULT_BUDGETS"
  by (simp add: AP_BUDGET_RANGES_def AP_DEFAULT_BUDGETS_def)

lemma budgets_ok_entry:
  assumes "budgets_ok (PDict d)" "(k, v) \<in> set d"
  obtains name lo hi i where "(name, lo, hi) \<in> set AP_BUDGET_RANGES" "k = KStr (str name)" "v = PInt i" "lo \<le> i" "i \<le> hi"
proof -
  have keys: "map fst d = map (\<lambda>(k, v). KStr (str k)) AP_DEFAULT_BUDGETS" using assms(1) by (simp add: budgets_ok_def)
  have "k \<in> set (map fst d)" using assms(2) by force
  then obtain name where n: "k = KStr (str name)" "name \<in> set (map fst AP_BUDGET_RANGES)"
    unfolding keys budget_names by force
  then obtain lo hi where r: "(name, lo, hi) \<in> set AP_BUDGET_RANGES" by auto
  have "distinct (map fst d)" unfolding keys by (rule default_keys_distinct)
  with assms(2) have "map_of d k = Some v" by simp
  moreover have "budget_in_range (PDict d) (name, lo, hi)" using assms(1) r by (auto simp: budgets_ok_def list_all_iff)
  ultimately obtain i where "v = PInt i" "lo \<le> i" "i \<le> hi"
    by (auto simp: budget_in_range_def item_def dget_def n(1))
  with that r n(1) show ?thesis by blast
qed

lemma budget_limits:
  "list_all (\<lambda>(name, lo, hi). utf8_encode (str name) \<noteq> None \<and> 0 < lo \<and> hi \<le> 67108864) AP_BUDGET_RANGES"
  by (simp add: AP_BUDGET_RANGES_def)

lemma budgets_ok_validate: "budgets_ok b \<Longrightarrow> validate b = Inr ()"
proof -
  assume ok: "budgets_ok b"
  then obtain d where b: "b = PDict d" by (cases b) (auto simp: budgets_ok_def)
  have "validate_key k = Inr () \<and> validate v = Inr ()" if "(k, v) \<in> set d" for k v
    using ok [unfolded b] that
  proof (rule budgets_ok_entry)
    fix name lo hi i
    assume r: "(name, lo, hi) \<in> set AP_BUDGET_RANGES" "k = KStr (str name)" "v = PInt i" "lo \<le> i" "i \<le> hi"
    with budget_limits have "utf8_encode (str name) \<noteq> None \<and> 0 < lo \<and> hi \<le> 67108864" by (auto simp: list_all_iff)
    with r show ?thesis by (simp add: MAX_SAFE_INTEGER_def)
  qed
  then show ?thesis by (auto simp: b validate_items_all list_all_iff)
qed

text \<open>an accepted budget table, whatever the overrides, has exactly the eight fields in the declared order,
  each a plain integer inside its range, and passes the check again inside a manifest.\<close>

theorem budgets_in_range:
  assumes "validated_budgets overrides = Inr b"
  shows "is_dict b \<and> map fst (dict_of b) = map (\<lambda>(k, v). KStr (str k)) AP_DEFAULT_BUDGETS \<and>
    list_all (\<lambda>(k, lo, hi). \<exists>i. item b k = Inr (PInt i) \<and> lo \<le> i \<and> i \<le> hi) AP_BUDGET_RANGES \<and>
    isInr (validated_budgets b)"
  using validated_budgets_ok [OF assms] budgets_ok_validated [of b]
  by (auto simp: budgets_ok_def budget_in_range_def)

theorem budgets_in_range_witness:
  "validated_budgets (obj [(''ram_mib'', PInt 4096)]) = Inr (obj (AP_DEFAULT_BUDGETS[2 := (''ram_mib'', PInt 4096)])) \<and>
   isInr (validated_budgets (obj (AP_DEFAULT_BUDGETS[2 := (''ram_mib'', PInt 4096)])))"
proof -
  have e: "validated_budgets (obj [(''ram_mib'', PInt 4096)]) = Inr (obj (AP_DEFAULT_BUDGETS[2 := (''ram_mib'', PInt 4096)]))"
    by (simp add: validated_budgets_def merge_budgets_def obj_def AP_DEFAULT_BUDGETS_def AP_BUDGET_RANGES_def in_range_def
        item_def dget_def)
  from e budgets_in_range [OF e] show ?thesis by blast
qed

subsection \<open>Building a manifest\<close>

lemma validatedD:
  assumes "nfc_keeps db" "validated db m = Inr m'"
  obtains i u where "m' = \<lparr>mc_provider = S ''openai-compatible'', mc_model_id = PStr i, mc_pinned_endpoint = PStr u\<rparr>"
    "mc_model_id m = PStr i" "validated db m' = Inr m'" "canonical_url u"
proof -
  from assms(2) obtain i u where m: "mc_provider m = S ''openai-compatible''" "mc_model_id m = PStr i"
    "i \<noteq> []" "length i \<le> 128" "normalize_url db (mc_pinned_endpoint m) = Inr u" "starts_with (str ''https://'') u"
    "m' = \<lparr>mc_provider = S ''openai-compatible'', mc_model_id = PStr i, mc_pinned_endpoint = PStr u\<rparr>"
    by (auto simp: validated_def bindE_eq_Inr split: if_splits)
  have c: "canonical_url u" by (rule normalize_url_canonical [OF assms(1) m(5)])
  have "validated db m' = Inr m'" using m normalize_url_id [OF c, of db] by (simp add: validated_def)
  with that m c show ?thesis by blast
qed

lemma url_ascii_encodable: "list_all url_char u \<Longrightarrow> utf8_encode u \<noteq> None"
proof -
  assume "list_all url_char u"
  then have "list_all scalar u" by (rule list_all_mp) (auto simp: url_char_def scalar_def)
  then show ?thesis by (simp add: encodable_iff)
qed

lemma canonical_url_origin:
  assumes "canonical_url u"
  obtains x where "origin_for_url db (PStr u) = Inr x" "utf8_encode u \<noteq> None" "utf8_encode x \<noteq> None"
proof -
  from assms obtain p where p: "parts_ok p" "u = render p" "length u \<le> MAX_URL_LENGTH" by (auto simp: canonical_url_def)
  have c: "list_all url_char u" unfolding p(2) by (rule render_chars [OF p(1)])
  have "list_all url_char (origin_text p)"
    using c unfolding p(2) render_def origin_text_def urlunsplit_def by (simp add: str_def url_char_def)
  with that [OF origin_for_url_canonical [OF p(1,2,3)]] url_ascii_encodable c show ?thesis by blast
qed

lemma hash_prefix_hex: "is_hex 16 (take 16 (sha256_hexdigest b))"
  using sha256_hexdigest_is_digest [of b] by (auto simp: is_hex_def is_digest_def list_all_iff dest: in_set_takeD)

lemma is_hex_encodable: "is_hex n s \<Longrightarrow> utf8_encode s \<noteq> None"
  by (simp add: is_hex_def hex_encodable)

lemma encodable_append: "utf8_encode (s @ t) \<noteq> None \<longleftrightarrow> utf8_encode s \<noteq> None \<and> utf8_encode t \<noteq> None"
  by (simp add: encodable_iff)

lemma make_job_id_eq:
  "make_job_id entropy (sha256_hexdigest b) = Inr (str ''job-'' @ take 16 (sha256_hexdigest (sha256 b @ entropy)))"
  by (simp add: make_job_id_def require_digest_def)

lemma job_id_ok: "is_hex 16 s \<Longrightarrow> job_id_re (str ''job-'' @ s)"
  by (simp add: job_id_re_def)

lemma target_id_ok: "is_hex 16 s \<Longrightarrow> target_id_re (str ''target-'' @ s @ str ''.skill'')"
  by (simp add: target_id_re_def is_hex_def)

lemma payloads_valid: "validate (obj task_payload) = Inr ()" "validate (obj bolo_payload) = Inr ()"
  by (simp_all add: task_payload_def bolo_payload_def validate_obj BOLO_CATEGORIES_def validate_list_all)

lemma sort_tools_valid: "list_all (\<lambda>x. validate (S x) = Inr ()) (sort PRIMARY_TOOLS)"
  "list_all (\<lambda>x. validate (S x) = Inr ()) (sort BOLO_TOOLS)" "list_all (\<lambda>x. validate (S x) = Inr ()) (sort PROHIBITED_TOOLS)"
  unfolding list_all_iff set_sort unfolding list_all_iff [symmetric] by (simp_all add: tool_sets)

lemma manifest_doc_fields:
  "get (manifest_doc j th m x tk bl b kid pk) ''manifest_version'' = S ''cindermote.agent-probe-job/v1''"
  "get (manifest_doc j th m x tk bl b kid pk) ''job_id'' = PStr j"
  "get (manifest_doc j th m x tk bl b kid pk) ''budgets'' = b"
  "is_dict (manifest_doc j th m x tk bl b kid pk)" "keys_are (manifest_doc j th m x tk bl b kid pk) MANIFEST_KEYS"
  by (simp_all add: manifest_doc_def Let_def py_eval MANIFEST_KEYS_def insert_commute)

lemma manifest_target_ok:
  "is_digest th \<Longrightarrow> validate_target (get (manifest_doc j th m x tk bl b kid pk) ''target'') = Inr ()"
proof -
  assume th: "is_digest th"
  then have "is_hex 16 (take 16 th)"
    by (auto simp: is_hex_def is_digest_def list_all_iff dest: in_set_takeD)
  from target_id_ok [OF this] th show ?thesis
    by (simp add: validate_target_def manifest_doc_def Let_def py_eval require_digest_def insert_commute)
qed

lemma manifest_model_ok:
  assumes "validated db m = Inr m" "origin_for_url db (mc_pinned_endpoint m) = Inr x"
  shows "validate_model db (get (manifest_doc j th m x tk bl b kid pk) ''model'') = Inr ()"
proof -
  have "validated db \<lparr>mc_provider = mc_provider m, mc_model_id = mc_model_id m,
      mc_pinned_endpoint = mc_pinned_endpoint m\<rparr> = Inr m"
    using assms(1) by (cases m) simp
  with assms(2) show ?thesis by (simp add: validate_model_def manifest_doc_def Let_def py_eval insert_commute)
qed

lemma manifest_quarantine_ok:
  "length pk = 32 \<Longrightarrow> validate_quarantine (get (manifest_doc j th m x tk bl b kid pk) ''quarantine'') = Inr ()"
  by (simp add: validate_quarantine_def manifest_doc_def Let_def py_eval fromhex_hex_of insert_commute)

lemma manifest_doc_canonical:
  assumes "utf8_encode j \<noteq> None" "is_digest th" "is_digest tk" "is_digest bl" "validate b = Inr ()"
    "list_all is_hex_char kid" "mc_provider m = S ''openai-compatible''" "mc_pinned_endpoint m = PStr u"
    "utf8_encode u \<noteq> None" "utf8_encode x \<noteq> None" "mc_model_id m = PStr i"
  shows "validate (manifest_doc j th m x tk bl b kid pk) = Inr () \<longleftrightarrow> utf8_encode i \<noteq> None"
proof -
  let ?tid = "str ''target-'' @ take 16 th @ str ''.skill''"
  have hex: "list_all is_hex_char (take 16 th)" using assms(2)
    by (auto simp: is_digest_def list_all_iff dest: in_set_takeD)
  have tid: "utf8_encode ?tid \<noteq> None" using hex_encodable [OF hex] unfolding encodable_append by simp
  then have path: "utf8_encode (str ''/job/target/'' @ ?tid) \<noteq> None" unfolding encodable_append by simp
  have enc: "utf8_encode kid \<noteq> None" "utf8_encode (hex_of pk) \<noteq> None"
    using hex_encodable assms(6) hex_of_all_hex by blast+
  show ?thesis
    using assms(1,5,7-11) tid path enc payloads_valid sort_tools_valid
      validate_digest [OF assms(2)] validate_digest [OF assms(3)] validate_digest [OF assms(4)]
    by (simp add: manifest_doc_def Let_def validate_obj validate_list_all list.pred_map comp_def SUITE_ID_def
        del: append.simps)
qed

definition key_id_ok :: "pystr \<Rightarrow> bool" where
  "key_id_ok s = (16 \<le> length s \<and> length s \<le> 64 \<and> list_all is_hex_char s)"

lemma validate_manifest_doc:
  assumes "is_hex 16 j" "is_digest th" "budgets_ok b" "length pk = 32" "validated db m = Inr m"
    "origin_for_url db (mc_pinned_endpoint m) = Inr x"
  shows "validate_job_manifest db (manifest_doc (str ''job-'' @ j) th m x tk bl b kid pk) =
    bindE (canonical_bytes (manifest_doc (str ''job-'' @ j) th m x tk bl b kid pk))
      (\<lambda>_. Inr (manifest_doc (str ''job-'' @ j) th m x tk bl b kid pk))"
proof -
  from budgets_ok_validated [OF assms(3)] obtain b' where b': "validated_budgets b = Inr b'" by blast
  show ?thesis
    using job_id_ok [OF assms(1)] manifest_target_ok [OF assms(2)] manifest_model_ok [OF assms(5,6)]
      manifest_quarantine_ok [OF assms(4)]
    by (simp add: validate_job_manifest_def manifest_doc_fields b')
qed

lemma build_job_manifest_eq:
  assumes "nfc_keeps db"
  obtains (rejected) "\<not> isInr (build_job_manifest db entropy tb m pk kid bs)"
     "\<not> (isInr (validated db m) \<and> length pk = 32 \<and> key_id_ok kid \<and> isInr (validated_budgets bs))"
  | (built) m' i u x tk bl b where
     "validated db m = Inr m'" "m' = \<lparr>mc_provider = S ''openai-compatible'', mc_model_id = PStr i, mc_pinned_endpoint = PStr u\<rparr>"
     "mc_model_id m = PStr i" "length pk = 32" "key_id_ok kid" "validated_budgets bs = Inr b"
     "sha256_hex (obj task_payload) = Inr tk" "sha256_hex (obj bolo_payload) = Inr bl" "origin_for_url db (PStr u) = Inr x"
     "utf8_encode u \<noteq> None" "utf8_encode x \<noteq> None"
     "build_job_manifest db entropy tb m pk kid bs =
        (let v = manifest_doc (str ''job-'' @ take 16 (sha256_hexdigest (sha256 tb @ entropy)))
           (sha256_hexdigest tb) m' x tk bl b kid pk in bindE (canonical_bytes v) (\<lambda>_. Inr v))"
proof (cases "isInr (validated db m) \<and> length pk = 32 \<and> key_id_ok kid \<and> isInr (validated_budgets bs)")
  case False
  then have "\<not> isInr (build_job_manifest db entropy tb m pk kid bs)"
    by (auto simp: build_job_manifest_def key_id_ok_def isInr_iff bindE_eq_Inr Let_def)
  with False rejected show ?thesis by blast
next
  case True
  then obtain m' b where m': "validated db m = Inr m'" and b: "validated_budgets bs = Inr b" by (auto simp: isInr_iff)
  obtain i u where m: "m' = \<lparr>mc_provider = S ''openai-compatible'', mc_model_id = PStr i, mc_pinned_endpoint = PStr u\<rparr>"
    "mc_model_id m = PStr i" "validated db m' = Inr m'" "canonical_url u" using validatedD [OF assms m'] by blast
  obtain x where x: "origin_for_url db (PStr u) = Inr x" "utf8_encode u \<noteq> None" "utf8_encode x \<noteq> None"
    using canonical_url_origin [OF m(4)] by blast
  obtain tk bl where h: "sha256_hex (obj task_payload) = Inr tk" "sha256_hex (obj bolo_payload) = Inr bl"
    using sha256_hex_total payloads_valid by metis
  have "build_job_manifest db entropy tb m pk kid bs =
        (let v = manifest_doc (str ''job-'' @ take 16 (sha256_hexdigest (sha256 tb @ entropy)))
           (sha256_hexdigest tb) m' x tk bl b kid pk in bindE (canonical_bytes v) (\<lambda>_. Inr v))"
    using True validate_manifest_doc [OF hash_prefix_hex sha256_hexdigest_is_digest validated_budgets_ok [OF b] _ m(3)]
    by (simp add: build_job_manifest_def m' key_id_ok_def make_job_id_eq m(1) x(1) h b Let_def)
  with built m' m x h b True show ?thesis by blast
qed

lemma doc_canonical_iff:
  assumes "validated_budgets bs = Inr b" "sha256_hex (obj task_payload) = Inr tk" "sha256_hex (obj bolo_payload) = Inr bl"
    "utf8_encode u \<noteq> None" "utf8_encode x \<noteq> None" "key_id_ok kid"
    "m = \<lparr>mc_provider = S ''openai-compatible'', mc_model_id = PStr i, mc_pinned_endpoint = PStr u\<rparr>"
  shows "validate (manifest_doc (str ''job-'' @ take 16 (sha256_hexdigest c)) (sha256_hexdigest tb) m x tk bl b kid pk) = Inr () \<longleftrightarrow>
    utf8_encode i \<noteq> None"
proof (rule manifest_doc_canonical)
  show "utf8_encode (str ''job-'' @ take 16 (sha256_hexdigest c)) \<noteq> None"
    using is_hex_encodable [OF hash_prefix_hex] unfolding encodable_append by simp
  show "validate b = Inr ()" by (rule budgets_ok_validate [OF validated_budgets_ok [OF assms(1)]])
qed (use assms in \<open>simp_all add: key_id_ok_def sha256_hex_digest\<close>)

lemma validate_get: "validate v = Inr () \<Longrightarrow> validate (get v k) = Inr ()"
proof (cases v)
  case (PDict d)
  assume "validate v = Inr ()"
  then show ?thesis
    by (auto simp: PDict get_def dget_def validate_items_all list_all_iff dest!: map_of_SomeD split: option.split)
qed (simp_all add: get_def dget_def)

lemma build_job_manifest_iff:
  assumes "nfc_keeps db"
  shows "isInr (build_job_manifest db entropy tb m pk kid bs) \<longleftrightarrow>
    isInr (validated db m) \<and> (\<exists>i. mc_model_id m = PStr i \<and> utf8_encode i \<noteq> None) \<and>
    length pk = 32 \<and> key_id_ok kid \<and> isInr (validated_budgets bs)"
  using assms
proof (rule build_job_manifest_eq [where entropy = entropy and tb = tb and m = m and pk = pk and kid = kid and bs = bs])
  fix m' i u x tk bl b
  assume a: "validated db m = Inr m'" "m' = \<lparr>mc_provider = S ''openai-compatible'', mc_model_id = PStr i, mc_pinned_endpoint = PStr u\<rparr>"
    "mc_model_id m = PStr i" "length pk = 32" "key_id_ok kid" "validated_budgets bs = Inr b"
    "sha256_hex (obj task_payload) = Inr tk" "sha256_hex (obj bolo_payload) = Inr bl" "origin_for_url db (PStr u) = Inr x"
    "utf8_encode u \<noteq> None" "utf8_encode x \<noteq> None"
    and eq: "build_job_manifest db entropy tb m pk kid bs =
        (let v = manifest_doc (str ''job-'' @ take 16 (sha256_hexdigest (sha256 tb @ entropy)))
           (sha256_hexdigest tb) m' x tk bl b kid pk in bindE (canonical_bytes v) (\<lambda>_. Inr v))"
  let ?v = "manifest_doc (str ''job-'' @ take 16 (sha256_hexdigest (sha256 tb @ entropy)))
           (sha256_hexdigest tb) m' x tk bl b kid pk"
  have "isInr (build_job_manifest db entropy tb m pk kid bs) \<longleftrightarrow> (\<exists>w. canonical_bytes ?v = Inr w)"
    by (simp add: eq Let_def isInr_iff bindE_eq_Inr)
  also have "\<dots> \<longleftrightarrow> validate ?v = Inr ()" by (rule canonical_bytes_total)
  also have "\<dots> \<longleftrightarrow> utf8_encode i \<noteq> None" by (rule doc_canonical_iff [OF a(6-8,10,11,5,2)])
  finally have "isInr (build_job_manifest db entropy tb m pk kid bs) \<longleftrightarrow> utf8_encode i \<noteq> None" .
  with a show ?thesis by (simp add: isInr_iff)
qed blast

text \<open>when a job manifest can be built. The builder returns exactly when the model configuration validates,
  the quarantine key has 32 bytes, its identifier is 16 to 64 hexadecimal digits, the budgets are accepted and
  the model name is encodable text; nothing else of the generated document can make its own validation fail.\<close>

theorem job_manifest_builds:
  assumes "nfc_keeps db"
  shows "isInr (build_job_manifest db entropy tb m pk kid bs) \<longleftrightarrow>
    isInr (validated db m) \<and> (\<exists>i. mc_model_id m = PStr i \<and> utf8_encode i \<noteq> None) \<and>
    length pk = 32 \<and> key_id_ok kid \<and> isInr (validated_budgets bs)"
  using assms by (rule build_job_manifest_iff)

lemma built_manifest:
  assumes "nfc_keeps db" "build_job_manifest db entropy tb m pk kid bs = Inr v"
  obtains j m' x tk bl b where "v = manifest_doc j (sha256_hexdigest tb) m' x tk bl b kid pk"
    "validate_job_manifest db v = Inr v" "validate v = Inr ()" "budgets_ok b"
  using assms(1)
proof (rule build_job_manifest_eq [where entropy = entropy and tb = tb and m = m and pk = pk and kid = kid and bs = bs])
  assume "\<not> isInr (build_job_manifest db entropy tb m pk kid bs)"
  with assms(2) show ?thesis by simp
next
  fix m' i u x tk bl b
  assume a: "validated db m = Inr m'" "m' = \<lparr>mc_provider = S ''openai-compatible'', mc_model_id = PStr i, mc_pinned_endpoint = PStr u\<rparr>"
    "length pk = 32" "validated_budgets bs = Inr b" "origin_for_url db (PStr u) = Inr x"
    and eq: "build_job_manifest db entropy tb m pk kid bs =
        (let v = manifest_doc (str ''job-'' @ take 16 (sha256_hexdigest (sha256 tb @ entropy)))
           (sha256_hexdigest tb) m' x tk bl b kid pk in bindE (canonical_bytes v) (\<lambda>_. Inr v))"
  let ?v = "manifest_doc (str ''job-'' @ take 16 (sha256_hexdigest (sha256 tb @ entropy)))
           (sha256_hexdigest tb) m' x tk bl b kid pk"
  from assms(2) have "bindE (canonical_bytes ?v) (\<lambda>_. Inr ?v) = Inr v" unfolding eq Let_def .
  then obtain w where w: "canonical_bytes ?v = Inr w" and v: "v = ?v" unfolding bindE_eq_Inr by blast
  have m': "validated db m' = Inr m'" using validatedD [OF assms(1) a(1)] by metis
  have o: "origin_for_url db (mc_pinned_endpoint m') = Inr x" using a(2,5) by simp
  have b: "budgets_ok b" by (rule validated_budgets_ok [OF a(4)])
  have "validate_job_manifest db v = Inr v"
    unfolding v validate_manifest_doc [OF hash_prefix_hex sha256_hexdigest_is_digest b a(3) m' o] w by simp
  moreover have "validate v = Inr ()" using w v canonical_bytes_total by blast
  ultimately show ?thesis using that v b by blast
qed

lemma manifest_items:
  "item (manifest_doc j th m x tk bl b kid pk) ''job_id'' = Inr (PStr j)"
  "item2 (manifest_doc j th m x tk bl b kid pk) ''target'' ''target_hash'' = Inr (PStr th)"
  "item (manifest_doc j th m x tk bl b kid pk) ''model'' = Inr (get (manifest_doc j th m x tk bl b kid pk) ''model'')"
  "item2 (manifest_doc j th m x tk bl b kid pk) ''task'' ''task_hash'' = Inr (PStr tk)"
  "item2 (manifest_doc j th m x tk bl b kid pk) ''bolo'' ''bolo_hash'' = Inr (PStr bl)"
  "item (manifest_doc j th m x tk bl b kid pk) ''tools'' = Inr (get (manifest_doc j th m x tk bl b kid pk) ''tools'')"
  "item (manifest_doc j th m x tk bl b kid pk) ''budgets'' = Inr b"
  "item2 (manifest_doc j th m x tk bl b kid pk) ''quarantine'' ''key_id'' = Inr (PStr kid)"
  "item2 (manifest_doc j th m x tk bl b kid pk) ''quarantine'' ''suite_id'' = Inr (S SUITE_ID)"
  by (simp_all add: manifest_doc_def Let_def py_eval item2_def task_payload_def bolo_payload_def)

lemma manifest_gets:
  "get (get (manifest_doc j th m x tk bl b kid pk) ''target'') ''target_hash'' = PStr th"
  "get (get (manifest_doc j th m x tk bl b kid pk) ''task'') ''task_hash'' = PStr tk"
  "get (get (manifest_doc j th m x tk bl b kid pk) ''bolo'') ''bolo_hash'' = PStr bl"
  "get (get (manifest_doc j th m x tk bl b kid pk) ''quarantine'') ''key_id'' = PStr kid"
  by (simp_all add: manifest_doc_def Let_def py_eval task_payload_def bolo_payload_def)

lemma frozen_parts_valid: "validate frozen_runtime = Inr ()" "validate trip_policy = Inr ()" "validate (S SUITE_ID) = Inr ()"
  by (simp_all add: frozen_runtime_def trip_policy_def SUITE_ID_def validate_obj)

lemma road_of_doc:
  assumes "v = manifest_doc j th m x tk bl b kid pk" "validate_job_manifest db v = Inr v" "validate v = Inr ()"
  shows "\<exists>road. build_road_frozen db v = Inr road \<and> validate road = Inr () \<and> get road ''target_hash'' = PStr th \<and>
    list_all (\<lambda>k. get road k = get v k) [''job_id'', ''model'', ''tools'', ''budgets'']"
proof -
  define road where "road = obj
         [(''contract_version'', S ''cindermote.road-frozen/v1''), (''job_id'', PStr j), (''target_hash'', PStr th),
          (''model'', get v ''model''), (''task_hash'', PStr tk), (''bolo_hash'', PStr bl), (''tools'', get v ''tools''),
          (''budgets'', b), (''quarantine'', obj [(''key_id'', PStr kid), (''suite_id'', S SUITE_ID)]),
          (''runtime'', frozen_runtime), (''trip_policy'', trip_policy)]"
  note val = validate_get [OF assms(3)]
  have "validate (PStr j) = Inr ()" "validate (PStr th) = Inr ()" "validate b = Inr ()" "validate (PStr tk) = Inr ()"
    "validate (PStr bl) = Inr ()" "validate (PStr kid) = Inr ()"
    using val [of "''job_id''"] validate_get [OF val, of "''target''" "''target_hash''"] val [of "''budgets''"]
      validate_get [OF val, of "''task''" "''task_hash''"] validate_get [OF val, of "''bolo''" "''bolo_hash''"]
      validate_get [OF val, of "''quarantine''" "''key_id''"]
    unfolding assms(1) manifest_gets manifest_doc_fields by blast+
  then have ok: "validate road = Inr ()"
    unfolding road_def validate_obj using val [of "''model''"] val [of "''tools''"] frozen_parts_valid validate_S [of "''cindermote.road-frozen/v1''"]
    by (simp add: validate_obj del: validate.simps)
  then obtain w where "canonical_bytes road = Inr w" using canonical_bytes_total by blast
  then have "build_road_frozen db v = Inr road"
    using assms(2) by (simp add: build_road_frozen_def assms(1) manifest_items Let_def road_def)
  with ok show ?thesis
    by (intro exI [of _ road]) (simp add: road_def py_eval assms(1) manifest_doc_fields)
qed

text \<open>a built manifest is the contract. It validates unchanged, names the SHA-256 of the target bytes, and
  \<open>build_road_frozen\<close> freezes it: the road carries the same job, target, model, tools and budgets, and is
  itself a canonical document.\<close>

theorem road_frozen_from_manifest:
  assumes "nfc_keeps db" "build_job_manifest db entropy tb m pk kid bs = Inr v"
  shows "validate_job_manifest db v = Inr v \<and> get (get v ''target'') ''target_hash'' = PStr (sha256_hexdigest tb) \<and>
    (\<exists>road. build_road_frozen db v = Inr road \<and> validate road = Inr () \<and>
       get road ''target_hash'' = PStr (sha256_hexdigest tb) \<and>
       list_all (\<lambda>k. get road k = get v k) [''job_id'', ''model'', ''tools'', ''budgets''] \<and>
       budgets_ok (get road ''budgets''))"
  using assms
proof (rule built_manifest)
  fix j m' x tk bl b
  assume v: "v = manifest_doc j (sha256_hexdigest tb) m' x tk bl b kid pk" "validate_job_manifest db v = Inr v"
    "validate v = Inr ()" and b: "budgets_ok b"
  have "get v ''budgets'' = b" by (simp add: v(1) manifest_doc_fields)
  with road_of_doc [OF v] v b show ?thesis by (auto simp: manifest_gets)
qed

text \<open>A concrete job on which both theorems apply.\<close>

definition sample_model :: model_config where
  "sample_model = \<lparr>mc_provider = S ''openai-compatible'', mc_model_id = S ''m'', mc_pinned_endpoint = S ''https://a.com/''\<rparr>"

lemma sample_model_valid: "validated ascii_db sample_model = Inr sample_model"
  by (simp add: validated_def sample_model_def url_eval str_def)

lemma sample_budgets: "validated_budgets PNone = Inr (obj AP_DEFAULT_BUDGETS)"
  by (simp add: validated_budgets_def merge_budgets_def py_eval AP_DEFAULT_BUDGETS_def AP_BUDGET_RANGES_def in_range_def)

lemma sample_inputs:
  "isInr (validated ascii_db sample_model) \<and> (\<exists>i. mc_model_id sample_model = PStr i \<and> utf8_encode i \<noteq> None) \<and>
   length (replicate 32 (0 :: byte)) = 32 \<and> key_id_ok (replicate 16 48) \<and> isInr (validated_budgets PNone)"
  unfolding sample_model_valid sample_budgets
  by (simp add: key_id_ok_def is_hex_char_def list_all_iff) (simp add: sample_model_def)

theorem job_manifest_builds_witness:
  "isInr (build_job_manifest ascii_db [] [1] sample_model (replicate 32 0) (replicate 16 48) PNone)"
  using job_manifest_builds [OF ascii_db_keeps] sample_inputs by blast

lemma sample_manifest: "\<exists>v. build_job_manifest ascii_db [] [1] sample_model (replicate 32 0) (replicate 16 48) PNone = Inr v"
  unfolding isInr_iff [symmetric] build_job_manifest_iff [OF ascii_db_keeps] by (rule sample_inputs)

theorem road_frozen_from_manifest_witness:
  "\<exists>v road. build_job_manifest ascii_db [] [1] sample_model (replicate 32 0) (replicate 16 48) PNone = Inr v \<and>
     build_road_frozen ascii_db v = Inr road \<and> get road ''target_hash'' = PStr (sha256_hexdigest [1])"
proof -
  obtain v where v: "build_job_manifest ascii_db [] [1] sample_model (replicate 32 0) (replicate 16 48) PNone = Inr v"
    using sample_manifest by blast
  from road_frozen_from_manifest [OF ascii_db_keeps v] v show ?thesis by blast
qed

end
