(* ===== verification/Evidence.thy ===== *)
theory Evidence
  imports Secretstream Contract_Facts
begin

section \<open>Sealed guest evidence\<close>

text \<open>
  \<open>agent_probe/evidence.py\<close>: the guest's \<open>GuestEvidenceSealer\<close> (record \<open>sealer\<close>, operations \<open>sealer_init\<close>,
  \<open>seal_append\<close>, \<open>seal_finalize\<close>), the host's \<open>validate_bundle\<close> and the forensic \<open>decrypt_bundle\<close>. The random
  content key, the ephemeral key and libsodium's header are arguments, as in \<open>Hpke\<close> and \<open>Secretstream\<close>.

  An appended record whose budget check fails has already advanced the cipher stream, so the state
  after an error is part of the result of \<open>seal_append\<close>.
\<close>

definition zero_hash :: pystr where
  "zero_hash = replicate 64 48"

definition RECORD_TYPES :: "string list" where
  "RECORD_TYPES = [''initial_prompt'', ''model_response'', ''tool_proposal'', ''broker_denial'', ''tool_result'',
     ''guest_status'', ''guest_halt'']"

definition b64 :: "bytes \<Rightarrow> pyval" where
  "b64 b = PStr (b64encode b)"

definition unb64 :: "string \<Rightarrow> nat \<Rightarrow> pyval \<Rightarrow> bytes res" where
  "unb64 name maximum v = (case v of
       PStr s \<Rightarrow>
         if maximum * 2 < length s then Inl (EvidenceError (name @ '' is invalid''))
         else (case b64decode s of
             None \<Rightarrow> Inl (EvidenceError (name @ '' is not canonical base64''))
           | Some decoded \<Rightarrow>
               if maximum < length decoded then Inl (EvidenceError (name @ '' exceeds its byte limit''))
               else Inr decoded)
     | _ \<Rightarrow> Inl (EvidenceError (name @ '' is invalid'')))"

subsection \<open>The sealer\<close>

record 'st sealer =
  sl_job_id :: pyval
  sl_target_hash :: pyval
  sl_road_frozen_hash :: pyval
  sl_key_id :: pyval
  sl_max_evidence_bytes :: int
  sl_cek :: bytes
  sl_hpke_info :: bytes
  sl_hpke_aad :: bytes
  sl_enc :: bytes
  sl_wrapped_cek :: bytes
  sl_stream :: "'st push_stream"
  sl_chunks :: "chunk list"
  sl_previous :: pystr
  sl_plaintext_bytes :: nat
  sl_ciphertext_bytes :: nat
  sl_finalized :: bool

definition wrap_info :: "pyval \<Rightarrow> pyval \<Rightarrow> pyval \<Rightarrow> pyval" where
  "wrap_info job_id target_hash road_frozen_hash = obj
     [(''profile'', S ''agent-probe/v0''), (''job_id'', job_id), (''target_hash'', target_hash),
      (''road_frozen_hash'', road_frozen_hash), (''purpose'', S ''guest-evidence-key-wrap'')]"

definition wrap_aad :: "pyval \<Rightarrow> pyval" where
  "wrap_aad key_id = obj [(''key_id'', key_id), (''suite_id'', S SUITE_ID)]"

definition sealer_init ::
  "key_lib \<Rightarrow> 'st sodium \<Rightarrow> bytes \<Rightarrow> bytes \<Rightarrow> pyval \<Rightarrow> pyval \<Rightarrow> pyval \<Rightarrow> bytes \<Rightarrow> pyval \<Rightarrow> int \<Rightarrow> 'st sealer res" where
  "sealer_init keys lib cek fresh job_id target_hash road_frozen_hash public_key key_id max_bytes =
     bindE (canonical_bytes (wrap_info job_id target_hash road_frozen_hash)) (\<lambda>info.
     bindE (canonical_bytes (wrap_aad key_id)) (\<lambda>aad.
     bindE (seal_base keys public_key cek info aad None fresh) (\<lambda>box.
     bindE (push_stream_init lib cek) (\<lambda>stream.
     Inr \<lparr>sl_job_id = job_id, sl_target_hash = target_hash, sl_road_frozen_hash = road_frozen_hash,
          sl_key_id = key_id, sl_max_evidence_bytes = max_bytes, sl_cek = cek, sl_hpke_info = info,
          sl_hpke_aad = aad, sl_enc = sb_enc box, sl_wrapped_cek = sb_ciphertext box, sl_stream = stream,
          sl_chunks = [], sl_previous = zero_hash, sl_plaintext_bytes = 0, sl_ciphertext_bytes = 0,
          sl_finalized = False\<rparr>))))"

definition chunk_aad :: "pyval \<Rightarrow> pyval \<Rightarrow> pyval \<Rightarrow> nat \<Rightarrow> pystr \<Rightarrow> pystr \<Rightarrow> bool \<Rightarrow> pyval" where
  "chunk_aad job_id target_hash road_frozen_hash sequence previous record_type final = obj
     [(''profile'', S ''agent-probe/v0''), (''job_id'', job_id), (''target_hash'', target_hash),
      (''road_frozen_hash'', road_frozen_hash), (''stream_id'', S ''guest-transcript''),
      (''sequence'', PInt (int sequence)), (''previous_ciphertext_hash'', PStr previous),
      (''record_type'', PStr record_type), (''final'', PBool final)]"

definition seal_append :: "'st sodium \<Rightarrow> 'st sealer \<Rightarrow> pystr \<Rightarrow> bytes \<Rightarrow> bool \<Rightarrow> 'st sealer \<times> unit res" where
  "seal_append lib s record_type payload final =
     (if sl_finalized s then (s, Inl (EvidenceError ''evidence stream is finalized''))
      else if \<not> (1 \<le> length record_type \<and> length record_type \<le> 64)
      then (s, Inl (EvidenceError ''record type is invalid''))
      else (case canonical_bytes (chunk_aad (sl_job_id s) (sl_target_hash s) (sl_road_frozen_hash s)
                 (length (sl_chunks s)) (sl_previous s) record_type final) of
          Inl e \<Rightarrow> (s, Inl e)
        | Inr aad \<Rightarrow> (case push lib (sl_stream s) payload aad final of
              (stream, Inl e) \<Rightarrow> (s\<lparr>sl_stream := stream\<rparr>, Inl e)
            | (stream, Inr c) \<Rightarrow>
                (let projected = sl_ciphertext_bytes s + length (ck_ciphertext c) in
                 if sl_max_evidence_bytes s < int projected
                 then (s\<lparr>sl_stream := stream\<rparr>, Inl (EvidenceError ''encrypted evidence budget exceeded''))
                 else
                   (s\<lparr>sl_stream := stream, sl_chunks := sl_chunks s @ [c],
                      sl_plaintext_bytes := sl_plaintext_bytes s + length payload,
                      sl_ciphertext_bytes := projected,
                      sl_previous := sha256_hexdigest (ck_ciphertext c),
                      sl_finalized := final,
                      sl_cek := (if final then memzero (sl_cek s) else sl_cek s)\<rparr>, Inr ())))))"

definition chunk_record :: "chunk \<Rightarrow> pyval" where
  "chunk_record c = obj
     [(''sequence'', ck_sequence c), (''aad_b64'', b64 (ck_aad c)), (''ciphertext_b64'', b64 (ck_ciphertext c)),
      (''ciphertext_sha256'', PStr (sha256_hexdigest (ck_ciphertext c))), (''final'', ck_final c)]"

definition root_payload :: "bytes \<Rightarrow> pyval list \<Rightarrow> pyval" where
  "root_payload header hashes = obj
     [(''stream_header_sha256'', PStr (sha256_hexdigest header)), (''chunks'', PList hashes)]"

definition evidence_manifest :: "'st sealer \<Rightarrow> pyval list \<Rightarrow> pystr \<Rightarrow> pyval" where
  "evidence_manifest s records root_hash = obj
     [(''manifest_version'', S ''cindermote.guest-evidence/v1''), (''job_id'', sl_job_id s),
      (''target_hash'', sl_target_hash s), (''road_frozen_hash'', sl_road_frozen_hash s),
      (''suite_id'', S SUITE_ID), (''quarantine_key_id'', sl_key_id s),
      (''guest_evidence_root'', PStr root_hash),
      (''complete'', PBool (records \<noteq> [] \<and> truthy (get (last records) ''final''))),
      (''sequence_gaps'', PInt 0),
      (''total_plaintext_bytes'', PInt (int (sl_plaintext_bytes s))),
      (''total_ciphertext_bytes'', PInt (int (sl_ciphertext_bytes s))),
      (''chunk_count'', PInt (int (length records)))]"

definition evidence_bundle :: "'st sealer \<Rightarrow> pyval list \<Rightarrow> pystr \<Rightarrow> pyval" where
  "evidence_bundle s records root_hash = obj
     [(''bundle_version'', S ''cindermote.guest-evidence-bundle/v1''),
      (''manifest'', evidence_manifest s records root_hash),
      (''hpke'', obj
         [(''enc_b64'', b64 (sl_enc s)), (''wrapped_cek_b64'', b64 (sl_wrapped_cek s)),
          (''info_b64'', b64 (sl_hpke_info s)), (''aad_b64'', b64 (sl_hpke_aad s))]),
      (''secretstream_header_b64'', b64 (ps_header (sl_stream s))),
      (''chunks'', PList records)]"

definition seal_finalize :: "'st sodium \<Rightarrow> 'st sealer \<Rightarrow> 'st sealer \<times> pyval res" where
  "seal_finalize lib s0 =
     (case (if sl_finalized s0 then (s0, Inr ()) else seal_append lib s0 (str ''guest_halt'') [] True) of
        (s, Inl e) \<Rightarrow> (s, Inl e)
      | (s, Inr u) \<Rightarrow>
          (let records = map chunk_record (sl_chunks s) in
           (s, bindE (sha256_hex (root_payload (ps_header (sl_stream s))
                  (map (\<lambda>r. get r ''ciphertext_sha256'') records)))
               (\<lambda>root_hash. Inr (evidence_bundle s records root_hash)))))"

subsection \<open>Validation\<close>

definition raise_evidence :: "string \<Rightarrow> 'a res" where
  "raise_evidence m = Inl (EvidenceError m)"

definition digest_value :: "pyval \<Rightarrow> bool" where
  "digest_value v = (case v of PStr s \<Rightarrow> is_digest s | _ \<Rightarrow> False)"

definition count_value :: "pyval \<Rightarrow> bool" where
  "count_value v = (case plain_int v of Some i \<Rightarrow> 0 \<le> i | None \<Rightarrow> False)"

text \<open>A \<open>for\<close> loop that raises at the first name whose value fails a test.\<close>

fun check_names :: "(string \<Rightarrow> bool) \<Rightarrow> (string \<Rightarrow> string) \<Rightarrow> string list \<Rightarrow> unit res" where
  "check_names ok msg [] = Inr ()"
| "check_names ok msg (n # ns) = (if \<not> ok n then Inl (EvidenceError (msg n)) else check_names ok msg ns)"

definition BUNDLE_MANIFEST_KEYS :: "string list" where
  "BUNDLE_MANIFEST_KEYS = [''manifest_version'', ''job_id'', ''target_hash'', ''road_frozen_hash'', ''suite_id'',
     ''quarantine_key_id'', ''guest_evidence_root'', ''complete'', ''sequence_gaps'',
     ''total_plaintext_bytes'', ''total_ciphertext_bytes'', ''chunk_count'']"

definition check_manifest :: "int \<Rightarrow> pyval \<Rightarrow> unit res" where
  "check_manifest max_bytes m =
     (if \<not> has_shape m BUNDLE_MANIFEST_KEYS then raise_evidence ''evidence manifest shape changed''
      else if \<not> py_eq (get m ''manifest_version'') (S ''cindermote.guest-evidence/v1'')
              \<or> \<not> py_eq (get m ''suite_id'') (S SUITE_ID)
      then raise_evidence ''evidence manifest suite mismatch''
      else
        bindE (check_names (\<lambda>n. digest_value (get m n)) (\<lambda>n. ''manifest '' @ n @ '' is invalid'')
                 [''target_hash'', ''road_frozen_hash'', ''guest_evidence_root'']) (\<lambda>_.
        if \<not> (case get m ''job_id'' of PStr s \<Rightarrow> take 4 s = str ''job-'' | _ \<Rightarrow> False)
        then raise_evidence ''manifest job id is invalid''
        else if \<not> (case get m ''quarantine_key_id'' of PStr s \<Rightarrow> 16 \<le> length s \<and> length s \<le> 64 | _ \<Rightarrow> False)
        then raise_evidence ''manifest key id is invalid''
        else if get m ''complete'' \<noteq> PBool True \<or> \<not> py_eq (get m ''sequence_gaps'') (PInt 0)
        then raise_evidence ''evidence manifest is incomplete''
        else
          bindE (check_names (\<lambda>n. count_value (get m n)) (\<lambda>n. ''manifest '' @ n @ '' is invalid'')
                   [''total_plaintext_bytes'', ''total_ciphertext_bytes'', ''chunk_count'']) (\<lambda>_.
          if (case get m ''total_plaintext_bytes'' of PInt n \<Rightarrow> max_bytes < n | _ \<Rightarrow> False)
          then raise_evidence ''plaintext evidence accounting exceeds budget''
          else Inr ())))"

text \<open>\<open>json.loads\<close> under \<open>except (UnicodeDecodeError, ValueError)\<close>.\<close>

definition loads_or :: "string \<Rightarrow> bytes \<Rightarrow> pyval res" where
  "loads_or m b = rewrap value_error (EvidenceError m) (json_loads b)"

text \<open>\<open>value != expected or canonical_bytes(value) != raw\<close>.\<close>

definition check_binding :: "string \<Rightarrow> pyval \<Rightarrow> pyval \<Rightarrow> bytes \<Rightarrow> unit res" where
  "check_binding m v expected raw =
     (if \<not> py_eq v expected then raise_evidence m
      else bindE (canonical_bytes v) (\<lambda>b. if b \<noteq> raw then raise_evidence m else Inr ()))"

definition HPKE_KEYS :: "string list" where
  "HPKE_KEYS = [''enc_b64'', ''wrapped_cek_b64'', ''info_b64'', ''aad_b64'']"

definition check_hpke :: "pyval \<Rightarrow> pyval \<Rightarrow> unit res" where
  "check_hpke m h =
     (if \<not> has_shape h HPKE_KEYS then raise_evidence ''HPKE envelope shape changed''
      else
        bindE (unb64 ''enc'' 64 (get h ''enc_b64'')) (\<lambda>enc.
        bindE (unb64 ''wrapped CEK'' 256 (get h ''wrapped_cek_b64'')) (\<lambda>wrapped.
        bindE (unb64 ''HPKE info'' (16 * 1024) (get h ''info_b64'')) (\<lambda>info.
        bindE (unb64 ''HPKE aad'' (16 * 1024) (get h ''aad_b64'')) (\<lambda>hpke_aad.
        if length enc \<noteq> 32 \<or> length wrapped \<noteq> 48 then raise_evidence ''HPKE key-wrap lengths are invalid''
        else
          bindE (loads_or ''HPKE metadata is malformed'' info) (\<lambda>info_value.
          bindE (loads_or ''HPKE metadata is malformed'' hpke_aad) (\<lambda>aad_value.
          bindE (check_binding ''HPKE info binding is invalid'' info_value
                   (wrap_info (get m ''job_id'') (get m ''target_hash'') (get m ''road_frozen_hash'')) info) (\<lambda>_.
          check_binding ''HPKE AAD binding is invalid'' aad_value (wrap_aad (get m ''quarantine_key_id'')) hpke_aad))))))))"

definition CHUNK_KEYS :: "string list" where
  "CHUNK_KEYS = [''sequence'', ''aad_b64'', ''ciphertext_b64'', ''ciphertext_sha256'', ''final'']"

definition AAD_KEYS :: "string list" where
  "AAD_KEYS = [''profile'', ''job_id'', ''target_hash'', ''road_frozen_hash'', ''stream_id'', ''sequence'',
     ''previous_ciphertext_hash'', ''record_type'', ''final'']"

definition expected_binding :: "pyval \<Rightarrow> nat \<Rightarrow> pystr \<Rightarrow> pyval \<Rightarrow> (string \<times> pyval) list" where
  "expected_binding m index previous final =
     [(''profile'', S ''agent-probe/v0''), (''job_id'', get m ''job_id''), (''target_hash'', get m ''target_hash''),
      (''road_frozen_hash'', get m ''road_frozen_hash''), (''stream_id'', S ''guest-transcript''),
      (''sequence'', PInt (int index)), (''previous_ciphertext_hash'', PStr previous), (''final'', final)]"

text \<open>One round of the loop over the chunks: the ciphertext of an accepted record.\<close>

definition check_chunk :: "'st sodium \<Rightarrow> pyval \<Rightarrow> nat \<Rightarrow> nat \<Rightarrow> pystr \<Rightarrow> pyval \<Rightarrow> bytes res" where
  "check_chunk lib m n_chunks index previous r =
     (if \<not> has_shape r CHUNK_KEYS then raise_evidence ''evidence chunk shape changed''
      else if \<not> py_eq (get r ''sequence'') (PInt (int index)) \<or> get r ''final'' \<noteq> PBool (Suc index = n_chunks)
      then raise_evidence ''evidence sequence or final tag is invalid''
      else
        bindE (unb64 ''ciphertext'' (8 * 1024 * 1024) (get r ''ciphertext_b64'')) (\<lambda>ciphertext.
        bindE (unb64 ''aad'' (64 * 1024) (get r ''aad_b64'')) (\<lambda>aad.
        if length ciphertext < ABYTES lib then raise_evidence ''ciphertext chunk is too short''
        else
          bindE (loads_or ''chunk AAD is malformed'' aad) (\<lambda>aad_value.
          if \<not> has_shape aad_value AAD_KEYS then raise_evidence ''chunk AAD shape changed''
          else
            bindE (check_names
                (\<lambda>n. py_eq (get aad_value n) (the (map_of (expected_binding m index previous (get r ''final'')) n)))
                (\<lambda>n. ''chunk AAD binding differs: '' @ n)
                (map fst (expected_binding m index previous (get r ''final'')))) (\<lambda>_.
            bindE (in_set (get aad_value ''record_type'') RECORD_TYPES) (\<lambda>known.
            if \<not> known then raise_evidence ''chunk AAD record type or canonical form is invalid''
            else
              bindE (canonical_bytes aad_value) (\<lambda>b.
              if b \<noteq> aad then raise_evidence ''chunk AAD record type or canonical form is invalid''
              else if \<not> py_eq (PStr (sha256_hexdigest ciphertext)) (get r ''ciphertext_sha256'')
              then raise_evidence ''ciphertext digest mismatch''
              else Inr ciphertext)))))))"

fun check_chunks ::
  "'st sodium \<Rightarrow> pyval \<Rightarrow> int \<Rightarrow> nat \<Rightarrow> nat \<Rightarrow> pystr \<Rightarrow> nat \<Rightarrow> pyval list \<Rightarrow> (pystr list \<times> nat) res" where
  "check_chunks lib m max_bytes n_chunks index previous sum0 [] = Inr ([], sum0)"
| "check_chunks lib m max_bytes n_chunks index previous sum0 (r # rs) =
     bindE (check_chunk lib m n_chunks index previous r) (\<lambda>ciphertext.
       let digest = sha256_hexdigest ciphertext; sum' = sum0 + length ciphertext in
       if max_bytes < int sum' then raise_evidence ''evidence bundle exceeds budget''
       else bindE (check_chunks lib m max_bytes n_chunks (Suc index) digest sum' rs) (\<lambda>(hashes, t).
         Inr (digest # hashes, t)))"

definition BUNDLE_KEYS :: "string list" where
  "BUNDLE_KEYS = [''bundle_version'', ''manifest'', ''hpke'', ''secretstream_header_b64'', ''chunks'']"

definition validate_bundle :: "'st sodium \<Rightarrow> int \<Rightarrow> pyval \<Rightarrow> pyval res" where
  "validate_bundle lib max_bytes bundle =
     (if \<not> has_shape bundle BUNDLE_KEYS then raise_evidence ''evidence bundle shape changed''
      else if \<not> py_eq (get bundle ''bundle_version'') (S ''cindermote.guest-evidence-bundle/v1'')
      then raise_evidence ''unsupported evidence bundle''
      else
        (let m = get bundle ''manifest'' in
         bindE (check_manifest max_bytes m) (\<lambda>_.
         bindE (check_hpke m (get bundle ''hpke'')) (\<lambda>_.
         bindE (as_list (EvidenceError ''evidence chunk list is invalid'') (get bundle ''chunks'')) (\<lambda>chunks.
         if chunks = [] \<or> 1024 < length chunks then raise_evidence ''evidence chunk list is invalid''
         else
           bindE (check_chunks lib m max_bytes (length chunks) 0 zero_hash 0 chunks) (\<lambda>(hashes, sum0).
           bindE (unb64 ''secretstream header'' 128 (get bundle ''secretstream_header_b64'')) (\<lambda>header.
           if length header \<noteq> HEADER_BYTES lib then raise_evidence ''SecretStream header length is invalid''
           else
             bindE (sha256_hex (root_payload header (map PStr hashes))) (\<lambda>expected_root.
             if \<not> py_eq (get m ''guest_evidence_root'') (PStr expected_root)
             then raise_evidence ''guest evidence root mismatch''
             else if \<not> py_eq (get m ''chunk_count'') (PInt (int (length chunks)))
                     \<or> \<not> py_eq (get m ''total_ciphertext_bytes'') (PInt (int sum0))
             then raise_evidence ''evidence manifest accounting mismatch''
             else Inr bundle))))))))"

definition decrypt_chunk :: "pyval \<Rightarrow> chunk res" where
  "decrypt_chunk r =
     bindE (item r ''sequence'') (\<lambda>sequence.
     bindE (bindE (item r ''aad_b64'') (unb64 ''aad'' (64 * 1024))) (\<lambda>aad.
     bindE (bindE (item r ''ciphertext_b64'') (unb64 ''ciphertext'' (8 * 1024 * 1024))) (\<lambda>ciphertext.
     bindE (item r ''final'') (\<lambda>final.
     Inr \<lparr>ck_sequence = sequence, ck_aad = aad, ck_ciphertext = ciphertext, ck_final = final\<rparr>))))"

definition decrypt_bundle :: "key_lib \<Rightarrow> 'st sodium \<Rightarrow> pyval \<Rightarrow> bytes \<Rightarrow> bytes list res" where
  "decrypt_bundle keys lib bundle private_key =
     bindE (validate_bundle lib (4 * 1024 * 1024) bundle) (\<lambda>_.
     let h = get bundle ''hpke'' in
     if \<not> has_shape h HPKE_KEYS then raise_evidence ''HPKE envelope shape changed''
     else
       bindE (unb64 ''enc'' 64 (get h ''enc_b64'')) (\<lambda>enc.
       bindE (unb64 ''wrapped CEK'' 256 (get h ''wrapped_cek_b64'')) (\<lambda>wrapped.
       bindE (unb64 ''HPKE info'' (16 * 1024) (get h ''info_b64'')) (\<lambda>info.
       bindE (unb64 ''HPKE aad'' (16 * 1024) (get h ''aad_b64'')) (\<lambda>aad.
       bindE (open_base keys private_key enc wrapped info aad) (\<lambda>cek.
       bindE (as_list TypeError (get bundle ''chunks'')) (\<lambda>records.
       bindE (mapE decrypt_chunk records) (\<lambda>chunks.
       bindE (unb64 ''header'' 128 (get bundle ''secretstream_header_b64'')) (\<lambda>header.
       pull_all lib cek header chunks)))))))))"

end
