(* ===== verification/Agent_Receipt.thy ===== *)
theory Agent_Receipt
  imports Contract_Facts
begin

section \<open>Receipts of the agent probe and their exit codes\<close>

text \<open>
  \<open>agent_probe/receipt.py\<close>. \<open>build_receipt_envelope\<close> signs the outcome of a job; \<open>derive_exit_code\<close> maps a
  receipt back to the exit code of the command line.
\<close>

definition EXIT_ALLOW :: int where "EXIT_ALLOW = 0"
definition EXIT_DENY :: int where "EXIT_DENY = 2"
definition EXIT_RUNTIME_FAILURE :: int where "EXIT_RUNTIME_FAILURE = 3"
definition EXIT_EVIDENCE_FAILURE :: int where "EXIT_EVIDENCE_FAILURE = 4"
definition EXIT_INVALID_RECEIPT :: int where "EXIT_INVALID_RECEIPT = 5"
definition EXIT_CLEANUP_FAILURE :: int where "EXIT_CLEANUP_FAILURE = 6"

lemmas exit_codes = EXIT_ALLOW_def EXIT_DENY_def EXIT_RUNTIME_FAILURE_def EXIT_EVIDENCE_FAILURE_def
  EXIT_INVALID_RECEIPT_def EXIT_CLEANUP_FAILURE_def

definition WITNESS_KEYS :: "string list" where
  "WITNESS_KEYS = [''guest_complete'', ''egress_complete'', ''cleanup_complete'']"

definition EXECUTION :: "string list" where
  "EXECUTION = [''COMPLETE'', ''INFRASTRUCTURE_FAILED'']"

definition GATES :: "string list" where
  "GATES = [''ALLOW'', ''DENY'', ''RESCOPE_REQUIRED'', ''EVALUATION_INCOMPLETE'']"

definition CLEANUP :: "string list" where
  "CLEANUP = [''VERIFIED'', ''UNVERIFIED'']"

lemmas receipt_enums = WITNESS_KEYS_def EXECUTION_def GATES_def CLEANUP_def

definition RECEIPT_TYPE :: string where
  "RECEIPT_TYPE = ''cindermote.agent-probe-receipt/v1''"

definition build_receipt_envelope ::
  "pyval \<Rightarrow> pyval \<Rightarrow> pyval \<Rightarrow> pyval \<Rightarrow> pyval \<Rightarrow> pyval \<Rightarrow> pyval \<Rightarrow> pyval \<Rightarrow> pyval \<Rightarrow> bytes \<Rightarrow> pyval res" where
  "build_receipt_envelope job_manifest road_frozen road_walked road_diff evidence lifecycle
     execution_status gate_decision cleanup_status observer_key =
     bindE (in_set execution_status EXECUTION) (\<lambda>ok.
     bindE (if ok then in_set gate_decision GATES else Inr False) (\<lambda>ok.
     bindE (if ok then in_set cleanup_status CLEANUP else Inr False) (\<lambda>ok.
      if \<not> ok then Inl (ValueError ''receipt status enum is invalid'')
      else if gate_decision = S ''ALLOW'' \<and> (execution_status \<noteq> S ''COMPLETE'' \<or> cleanup_status \<noteq> S ''VERIFIED'') then
        Inl (ValueError ''ALLOW requires complete execution and verified cleanup'')
      else
        bindE (item job_manifest ''job_id'') (\<lambda>job_id.
        bindE (item2 job_manifest ''target'' ''target_hash'') (\<lambda>target_hash.
        bindE (sha256_hex road_frozen) (\<lambda>frozen_hash.
        bindE (sha256_hex road_walked) (\<lambda>walked_hash.
        bindE (sha256_hex road_diff) (\<lambda>diff_hash.
        bindE (item evidence ''guest_evidence_root'') (\<lambda>evidence_root.
        bindE (item lifecycle ''host_lifecycle_root'') (\<lambda>lifecycle_root.
        let guest = get evidence ''complete''; egress = get lifecycle ''egress_witness_complete'';
            cleanup = get lifecycle ''cleanup_verified'';
            payload = obj
          [(''receipt_version'', S RECEIPT_TYPE), (''profile'', S ''agent-probe/v0''), (''job_id'', job_id),
           (''target_hash'', target_hash), (''road_frozen_hash'', PStr frozen_hash),
           (''road_walked_hash'', PStr walked_hash), (''road_diff_hash'', PStr diff_hash),
           (''guest_evidence_root'', evidence_root), (''host_lifecycle_root'', lifecycle_root),
           (''execution_status'', execution_status), (''gate_decision'', gate_decision),
           (''cleanup_status'', cleanup_status),
           (''artifact_disposition'', S (if in_strs gate_decision [''ALLOW'', ''RESCOPE_REQUIRED''] then ''HOLD'' else ''REJECT'')),
           (''witnesses'', obj [(''guest_complete'', PBool (truthy guest)), (''egress_complete'', PBool (truthy egress)),
              (''cleanup_complete'', PBool (truthy cleanup))])]
        in if gate_decision = S ''ALLOW'' \<and> \<not> (truthy guest \<and> truthy egress \<and> truthy cleanup) then
             Inl (ValueError ''ALLOW requires complete witnesses'')
           else sign_envelope payload RECEIPT_TYPE observer_key))))))))))"

definition witnesses_complete :: "pyval \<Rightarrow> bool" where
  "witnesses_complete w = (has_shape w WITNESS_KEYS \<and> list_all (\<lambda>(k, v). v = PBool True) (dict_of w))"

definition derive_exit_code :: "pyval \<Rightarrow> bytes \<Rightarrow> int res" where
  "derive_exit_code env observer_key =
     (if \<not> verify_envelope env observer_key (Some RECEIPT_TYPE) then Inr EXIT_INVALID_RECEIPT
      else
        bindE (item env ''payload'') (\<lambda>receipt.
        if \<not> is_dict receipt \<or> get receipt ''receipt_version'' \<noteq> S RECEIPT_TYPE then Inr EXIT_INVALID_RECEIPT
        else if get receipt ''cleanup_status'' \<noteq> S ''VERIFIED'' then Inr EXIT_CLEANUP_FAILURE
        else if get receipt ''execution_status'' \<noteq> S ''COMPLETE'' then Inr EXIT_RUNTIME_FAILURE
        else if get receipt ''gate_decision'' = S ''ALLOW'' then
          Inr (if witnesses_complete (get receipt ''witnesses'') then EXIT_ALLOW else EXIT_EVIDENCE_FAILURE)
        else
          bindE (in_set (get receipt ''gate_decision'') [''DENY'', ''RESCOPE_REQUIRED'']) (\<lambda>denied.
          if denied then Inr EXIT_DENY
          else if get receipt ''gate_decision'' = S ''EVALUATION_INCOMPLETE'' then Inr EXIT_EVIDENCE_FAILURE
          else Inr EXIT_INVALID_RECEIPT)))"

subsection \<open>Properties\<close>

lemma in_set_True: "in_set v ss = Inr True \<longleftrightarrow> in_strs v ss"
  by (auto simp: in_set_def in_strs_def split: pyval.splits)

lemma verified_payload: "verify_envelope env key ty \<Longrightarrow> item env ''payload'' = Inr (get env ''payload'')"
  unfolding verify_envelope_iff by (rule has_shape_item) auto

text \<open>exit code 0 is earned. The command reports success exactly for a receipt that verifies under the
  observer key and says: cleanup verified, execution complete, gate ALLOW, and the three witnesses present and
  true, with no further witness.\<close>

theorem exit_allow_iff:
  "derive_exit_code env key = Inr EXIT_ALLOW \<longleftrightarrow>
     verify_envelope env key (Some RECEIPT_TYPE) \<and>
     (let r = get env ''payload'' in
        is_dict r \<and> get r ''receipt_version'' = S RECEIPT_TYPE \<and> get r ''cleanup_status'' = S ''VERIFIED'' \<and>
        get r ''execution_status'' = S ''COMPLETE'' \<and> get r ''gate_decision'' = S ''ALLOW'' \<and>
        witnesses_complete (get r ''witnesses''))"
proof (cases "verify_envelope env key (Some RECEIPT_TYPE)")
  case True
  then show ?thesis
    by (auto simp: derive_exit_code_def verified_payload exit_codes Let_def bindE_eq_Inr split: if_splits)
qed (simp add: derive_exit_code_def exit_codes)

definition exit_code_for :: "pyval \<Rightarrow> pyval \<Rightarrow> pyval \<Rightarrow> int" where
  "exit_code_for execution_status gate_decision cleanup_status =
     (if cleanup_status \<noteq> S ''VERIFIED'' then EXIT_CLEANUP_FAILURE
      else if execution_status \<noteq> S ''COMPLETE'' then EXIT_RUNTIME_FAILURE
      else if gate_decision = S ''ALLOW'' then EXIT_ALLOW
      else if gate_decision = S ''EVALUATION_INCOMPLETE'' then EXIT_EVIDENCE_FAILURE
      else EXIT_DENY)"

lemma receipt_code:
  assumes "build_receipt_envelope job frozen walked diff evidence lifecycle ex gate cleanup key = Inr env"
  shows "derive_exit_code env key = Inr (exit_code_for ex gate cleanup) \<and>
    (derive_exit_code env key = Inr EXIT_ALLOW) = (gate = S ''ALLOW'')"
proof -
  let ?g = "get evidence ''complete''" and ?e = "get lifecycle ''egress_witness_complete''"
    and ?c = "get lifecycle ''cleanup_verified''"
  from assms have enums: "in_strs ex EXECUTION" "in_strs gate GATES" "in_strs cleanup CLEANUP"
    "gate = S ''ALLOW'' \<longrightarrow> ex = S ''COMPLETE'' \<and> cleanup = S ''VERIFIED''"
    and wit: "gate = S ''ALLOW'' \<longrightarrow> truthy ?g \<and> truthy ?e \<and> truthy ?c"
    by (auto simp: build_receipt_envelope_def bindE_eq_Inr Let_def in_set_True split: if_splits)
  from assms obtain payload where
    p: "sign_envelope payload RECEIPT_TYPE key = Inr env" "is_dict payload"
      "get payload ''receipt_version'' = S RECEIPT_TYPE" "get payload ''cleanup_status'' = cleanup"
      "get payload ''execution_status'' = ex" "get payload ''gate_decision'' = gate"
      "get payload ''witnesses'' = obj [(''guest_complete'', PBool (truthy ?g)), (''egress_complete'', PBool (truthy ?e)),
              (''cleanup_complete'', PBool (truthy ?c))]"
    unfolding build_receipt_envelope_def Let_def bindE_eq_Inr if_Inl_eq_Inr
    by (elim conjE exE) (auto simp: py_eval intro: that)
  from p(1) obtain b where b: "usable_key key" "canonical_bytes payload = Inr b" "env = envelope payload RECEIPT_TYPE key b"
    by (auto simp: sign_envelope_eq bindE_eq_Inr split: if_splits)
  have v: "verify_envelope env key (Some RECEIPT_TYPE)" using verify_signed [OF b(1,2)] b(3) by simp
  have w: "gate = S ''ALLOW'' \<Longrightarrow> witnesses_complete (get payload ''witnesses'')"
    using wit by (simp add: p(7) witnesses_complete_def py_eval WITNESS_KEYS_def dict_of_obj insert_commute)
  have "derive_exit_code env key = Inr (exit_code_for ex gate cleanup)"
    using v w p(2-6) verified_payload [OF v] enums(2) [unfolded in_strs_iff GATES_def]
    by (auto simp: derive_exit_code_def b(3) exit_code_for_def in_set_def in_strs_S)
  moreover have "exit_code_for ex gate cleanup = EXIT_ALLOW \<longleftrightarrow> gate = S ''ALLOW''"
    using enums by (auto simp: exit_code_for_def exit_codes)
  ultimately show ?thesis by simp
qed

text \<open>receipts and exit codes agree. Whatever \<open>build_receipt_envelope\<close> signs is read back by
  \<open>derive_exit_code\<close> under the same key as the code of its three status fields; a signed ALLOW is exit code 0 and
  no other receipt is.\<close>

theorem receipt_exit_code:
  assumes "build_receipt_envelope job frozen walked diff evidence lifecycle ex gate cleanup key = Inr env"
  shows "derive_exit_code env key = Inr (exit_code_for ex gate cleanup) \<and>
    (derive_exit_code env key = Inr EXIT_ALLOW) = (gate = S ''ALLOW'')"
  using assms by (rule receipt_code)

definition sample_job :: pyval where
  "sample_job = obj [(''job_id'', S ''j''), (''target'', obj [(''target_hash'', S ''h'')])]"

definition sample_evidence :: pyval where
  "sample_evidence = obj [(''guest_evidence_root'', S ''e''), (''complete'', PBool True)]"

definition sample_lifecycle :: pyval where
  "sample_lifecycle = obj [(''host_lifecycle_root'', S ''l''), (''egress_witness_complete'', PBool True), (''cleanup_verified'', PBool True)]"

lemma sample_receipt:
  "\<exists>env. build_receipt_envelope sample_job (obj []) (obj []) (obj []) sample_evidence sample_lifecycle
     (S ''COMPLETE'') (S ''ALLOW'') (S ''VERIFIED'') (replicate 33 1) = Inr env"
proof -
  obtain h where h: "sha256_hex (obj []) = Inr h" using sha256_hex_total sample_payload(1) by blast
  then have "validate (PStr h) = Inr ()" using sha256_hex_digest validate_digest by blast
  then show ?thesis
    by (simp add: build_receipt_envelope_def receipt_enums item2_def sample_job_def sample_evidence_def sample_lifecycle_def
        py_eval h Let_def in_set_def sign_envelope_eq sample_key bindE_eq_Inr canonical_bytes_total validate_obj RECEIPT_TYPE_def)
qed

theorem receipt_exit_code_witness:
  "\<exists>env. build_receipt_envelope sample_job (obj []) (obj []) (obj []) sample_evidence sample_lifecycle
     (S ''COMPLETE'') (S ''ALLOW'') (S ''VERIFIED'') (replicate 33 1) = Inr env \<and>
     derive_exit_code env (replicate 33 1) = Inr EXIT_ALLOW"
  using sample_receipt receipt_exit_code by blast

end
