(* ===== verification/Runner.thy ===== *)
theory Runner
  imports Ksl
begin

section \<open>The orchestration of one agent probe\<close>

text \<open>
  \<open>agent_probe/runner.py\<close>. The masks 63 and 18 of \<open>read_exact_key\<close> are the octal modes 077 and 022. Files, the random job entropy and the microVM runtime are arguments:
  \<open>probe_env\<close> holds what the runner reads from the file system and how its writes end, and the runtime is a
  function that returns a result or raises. The outcome records the credential buffer, the files written and
  the value returned or raised.
\<close>

subsection \<open>Keys from files\<close>

record file_view =
  fv_regular :: bool
  fv_mode :: nat
  fv_bytes :: bytes

definition MAX_KEY_FILE_BYTES :: nat where "MAX_KEY_FILE_BYTES = 1024"

definition byte_space :: "byte \<Rightarrow> bool" where
  "byte_space b = (b = 32 \<or> (9 \<le> b \<and> b \<le> 13))"

definition byte_strip :: "bytes \<Rightarrow> bytes" where
  "byte_strip b = rev (dropWhile byte_space (rev (dropWhile byte_space b)))"

definition decode_ascii :: "bytes \<Rightarrow> pystr option" where
  "decode_ascii b = (if list_all (\<lambda>x. x < 128) b then Some (map unat b) else None)"

definition read_exact_key :: "file_view res \<Rightarrow> nat list \<Rightarrow> bool \<Rightarrow> bytes res" where
  "read_exact_key file lengths private =
     (case file of
        Inl e \<Rightarrow> Inl (AgentProbeError ''key is unavailable'')
      | Inr f \<Rightarrow>
          if \<not> fv_regular f \<or> fv_mode f AND (if private then 63 else 18) \<noteq> 0 then
            Inl (AgentProbeError ''key must be a regular file with safe permissions'')
          else
            (let raw = take (MAX_KEY_FILE_BYTES + 1) (fv_bytes f); candidate = byte_strip raw in
             if MAX_KEY_FILE_BYTES < length raw then Inl (AgentProbeError ''key has an invalid length'')
             else if length raw \<in> set lengths then Inr raw
             else if length candidate \<in> set lengths then Inr candidate
             else
               (let decoded = (case decode_ascii candidate of None \<Rightarrow> []
                     | Some t \<Rightarrow> (case fromhex t of None \<Rightarrow> [] | Some d \<Rightarrow> d))
                in if length decoded \<in> set lengths then Inr decoded
                   else Inl (AgentProbeError ''key has an invalid length''))))"

subsection \<open>Writing artefacts\<close>

record probe_run =
  pr_envelope :: pyval
  pr_exit_code :: int
  pr_job_id :: pyval
  pr_receipt_path :: pystr
  pr_road_frozen_path :: pystr
  pr_road_walked_path :: pystr
  pr_road_diff_path :: pystr
  pr_evidence_path :: "pystr option"

record probe_env =
  pe_target :: "bytes option"
  pe_entropy :: bytes
  pe_observer_file :: "file_view res"
  pe_quarantine_file :: "file_view res"
  pe_receipt_dir :: pystr
  pe_receipt_dir_symlink :: bool
  pe_write_error :: "pystr \<Rightarrow> exn option"

type_synonym files = "(pystr \<times> bytes) list"

text \<open>The temporary file replaces its target only when every byte is on disk, so a failed write leaves no artefact.\<close>

definition write_private_json :: "probe_env \<Rightarrow> files \<Rightarrow> pystr \<Rightarrow> pyval \<Rightarrow> files \<times> unit res" where
  "write_private_json env written path value =
     (if pe_receipt_dir_symlink env then (written, Inl (AgentProbeError ''receipt directory is unsafe''))
      else (case canonical_bytes value of
          Inl e \<Rightarrow> (written, Inl e)
        | Inr payload \<Rightarrow> (case pe_write_error env path of
              Some e \<Rightarrow> (written, Inl e)
            | None \<Rightarrow> (written @ [(path, payload @ [10])], Inr ()))))"

fun write_all :: "probe_env \<Rightarrow> files \<Rightarrow> (pystr \<times> pyval) list \<Rightarrow> files \<times> unit res" where
  "write_all env written [] = (written, Inr ())"
| "write_all env written ((path, value) # rest) =
     (case write_private_json env written path value of
        (written', Inl e) \<Rightarrow> (written', Inl e)
      | (written', Inr u) \<Rightarrow> write_all env written' rest)"

subsection \<open>Exceptions of the runtime\<close>

text \<open>\<open>type(exc).__name__\<close>; an operating-system error with a number is \<open>OSError (Some n)\<close>.\<close>

fun exn_name :: "exn \<Rightarrow> string" where
  "exn_name TypeError = ''TypeError''"
| "exn_name KeyError = ''KeyError''"
| "exn_name AttributeError = ''AttributeError''"
| "exn_name IndexError = ''IndexError''"
| "exn_name RecursionError = ''RecursionError''"
| "exn_name UnicodeError = ''UnicodeError''"
| "exn_name JSONDecodeError = ''JSONDecodeError''"
| "exn_name (ValueError m) = ''ValueError''"
| "exn_name (OSError n) = ''OSError''"
| "exn_name TimeoutError = ''TimeoutError''"
| "exn_name (CanonicalizationError m) = ''CanonicalizationError''"
| "exn_name (ContractError m) = ''ContractError''"
| "exn_name (EvidenceError m) = ''EvidenceError''"
| "exn_name (SecretStreamError m) = ''SecretStreamError''"
| "exn_name (HpkeError m) = ''HpkeError''"
| "exn_name (GuestAgentError m) = ''GuestAgentError''"
| "exn_name (AgentProbeRuntimeError m) = ''AgentProbeRuntimeError''"
| "exn_name (AgentProbeError m) = ''AgentProbeError''"
| "exn_name (FirecrackerRuntimeError m) = ''FirecrackerRuntimeError''"
| "exn_name FirecrackerUnavailable = ''FirecrackerUnavailable''"
| "exn_name FileNotFoundError = ''FileNotFoundError''"
| "exn_name (BrowserContractError m) = ''BrowserContractError''"
| "exn_name (TelemetrySchemaError m) = ''TelemetrySchemaError''"
| "exn_name (OutwardReportSchemaError m) = ''OutwardReportSchemaError''"
| "exn_name HostNativeExecutionDisabled = ''HostNativeExecutionDisabled''"
| "exn_name (OtherException m) = m"

fun is_OSError :: "exn \<Rightarrow> bool" where
  "is_OSError (OSError n) = True"
| "is_OSError TimeoutError = True"
| "is_OSError FileNotFoundError = True"
| "is_OSError e = False"

fun exn_errno :: "exn \<Rightarrow> int option" where
  "exn_errno (OSError n) = n"
| "exn_errno e = None"

definition failure_of :: "exn \<Rightarrow> runtime_failure" where
  "failure_of e =
     (if is_OSError e then
        \<lparr>rf_code = str ''RUNTIME_OSERROR'', rf_exception = str (exn_name e),
         rf_errno = (case exn_errno e of None \<Rightarrow> PNone | Some n \<Rightarrow> PInt n)\<rparr>
      else \<lparr>rf_code = str ''RUNTIME_UNEXPECTED_ERROR'', rf_exception = str (exn_name e), rf_errno = PNone\<rparr>)"

text \<open>What the three \<open>except\<close> clauses keep: the result, the admission flag and the failure record.\<close>

definition catch_runtime :: "runtime_result res \<Rightarrow> runtime_result option \<times> bool \<times> runtime_failure option" where
  "catch_runtime outcome =
     (case outcome of
        Inr r \<Rightarrow> (Some r, False, None)
      | Inl e \<Rightarrow> if e = FirecrackerUnavailable then (None, True, None) else (None, False, Some (failure_of e)))"

subsection \<open>After the runtime\<close>

definition no_guest_evidence :: pyval where
  "no_guest_evidence = obj [(''guest_evidence_root'', PStr ZERO_HASH), (''complete'', PBool False)]"

definition guest_evidence_manifest :: "runtime_result option \<Rightarrow> pyval res" where
  "guest_evidence_manifest result =
     (case result of
        None \<Rightarrow> Inr no_guest_evidence
      | Some r \<Rightarrow> (case rr_guest_result r of
            None \<Rightarrow> Inr no_guest_evidence
          | Some g \<Rightarrow> bindE (get_attr g ''evidence_bundle'') (\<lambda>bundle.
              if is_dict bundle then item bundle ''manifest'' else Inr no_guest_evidence)))"

definition runtime_failed :: "runtime_result option \<Rightarrow> bool \<Rightarrow> bool" where
  "runtime_failed result admission =
     (admission \<or> (case result of None \<Rightarrow> True
        | Some r \<Rightarrow> rr_failure_code r \<noteq> str ''NONE'' \<or> rr_guest_result r = None))"

record artefacts =
  ar_walked :: pyval
  ar_diff :: pyval
  ar_envelope :: pyval
  ar_exit_code :: int

definition judge_run ::
  "unicode_db \<Rightarrow> pyval \<Rightarrow> pyval \<Rightarrow> pystr \<Rightarrow> bytes \<Rightarrow> runtime_result option \<Rightarrow> bool \<Rightarrow> runtime_failure option \<Rightarrow> artefacts res" where
  "judge_run db manifest road_frozen frozen_hash key result admission failure =
     bindE (item manifest ''job_id'') (\<lambda>job_id.
     bindE (build_host_lifecycle job_id frozen_hash result admission failure) (\<lambda>lifecycle.
     bindE (build_road_walked db manifest frozen_hash result failure) (\<lambda>walked.
     bindE (build_road_diff manifest road_frozen walked lifecycle) (\<lambda>diff.
     bindE (guest_evidence_manifest result) (\<lambda>evidence.
     bindE (item lifecycle ''cleanup_verified'') (\<lambda>clean.
     let cleanup_status = S (if truthy clean then ''VERIFIED'' else ''UNVERIFIED'');
         failed = runtime_failed result admission;
         execution_status = S (if failed then ''INFRASTRUCTURE_FAILED'' else ''COMPLETE'') in
     bindE (item diff ''gate_decision'') (\<lambda>decision.
     let gate = (if failed then S ''EVALUATION_INCOMPLETE'' else decision) in
     bindE (build_receipt_envelope manifest road_frozen walked diff evidence lifecycle execution_status gate cleanup_status key) (\<lambda>env.
     bindE (derive_exit_code env key) (\<lambda>code.
       Inr \<lparr>ar_walked = walked, ar_diff = diff, ar_envelope = env, ar_exit_code = code\<rparr>)))))))))"

subsection \<open>The whole run\<close>

record probe_request =
  pq_model :: model_config
  pq_api_key :: bytes
  pq_observer_key :: "bytes option"
  pq_quarantine_key :: "bytes option"
  pq_quarantine_key_id :: "pystr option"
  pq_budgets :: pyval

record probe_outcome =
  po_api_key :: bytes
  po_files :: files
  po_result :: "probe_run res"

type_synonym runtime = "pyval \<Rightarrow> pystr \<Rightarrow> bytes \<Rightarrow> bytes \<Rightarrow> runtime_result res"

text \<open>\<open>given or default\<close>: an absent or empty argument selects the default.\<close>

definition or_else :: "'a list option \<Rightarrow> 'a list res \<Rightarrow> 'a list res" where
  "or_else given dflt = (case given of Some k \<Rightarrow> if k = [] then dflt else Inr k | None \<Rightarrow> dflt)"

record admitted =
  ad_manifest :: pyval
  ad_road_frozen :: pyval
  ad_frozen_hash :: pystr
  ad_frozen_envelope :: pyval
  ad_signing_key :: bytes
  ad_target :: bytes

text \<open>Everything before the runtime is called.\<close>

definition admit :: "unicode_db \<Rightarrow> probe_env \<Rightarrow> probe_request \<Rightarrow> admitted res" where
  "admit db env q =
     (case pe_target env of
        None \<Rightarrow> Inl FileNotFoundError
      | Some target_bytes \<Rightarrow>
          if 1024 * 1024 < length target_bytes then Inl (AgentProbeError ''target exceeds the v0 one-MiB limit'')
          else if \<not> (1 \<le> length (pq_api_key q) \<and> length (pq_api_key q) \<le> 4096) then
            Inl (AgentProbeError ''fresh API credential is required as a mutable bytearray'')
          else
            bindE (or_else (pq_observer_key q) (read_exact_key (pe_observer_file env) [32, 48, 64] True)) (\<lambda>signing_key.
            bindE (or_else (pq_quarantine_key q) (read_exact_key (pe_quarantine_file env) [32] False)) (\<lambda>quarantine_key.
            bindE (or_else (pq_quarantine_key_id q)
                     (bindE (sha256_hex (obj [(''x25519_public_key_hex'', PStr (hex_of quarantine_key))])) (\<lambda>h. Inr (take 32 h)))) (\<lambda>key_id.
            bindE (build_job_manifest db (pe_entropy env) target_bytes (pq_model q) quarantine_key key_id (pq_budgets q)) (\<lambda>manifest.
            bindE (build_road_frozen db manifest) (\<lambda>road_frozen.
            bindE (sha256_hex road_frozen) (\<lambda>frozen_hash.
            bindE (sign_envelope road_frozen ''cindermote.road-frozen/v1'' signing_key) (\<lambda>envelope.
              Inr \<lparr>ad_manifest = manifest, ad_road_frozen = road_frozen, ad_frozen_hash = frozen_hash,
                   ad_frozen_envelope = envelope, ad_signing_key = signing_key, ad_target = target_bytes\<rparr>))))))))"

definition artefact_path :: "probe_env \<Rightarrow> pyval \<Rightarrow> string \<Rightarrow> pystr" where
  "artefact_path env job_id suffix =
     pe_receipt_dir env @ [47] @ (case job_id of PStr s \<Rightarrow> s | _ \<Rightarrow> []) @ str suffix"

text \<open>The receipts directory and the four artefacts, in the order they are written.\<close>

definition artefact_files :: "probe_env \<Rightarrow> admitted \<Rightarrow> artefacts \<Rightarrow> (pystr \<times> pyval) list" where
  "artefact_files env a r =
     (let path = artefact_path env (get (ad_manifest a) ''job_id'') in
      [(path ''.road-frozen.json'', ad_frozen_envelope a), (path ''.road-walked.json'', ar_walked r),
       (path ''.road-diff.json'', ar_diff r), (path ''.receipt.json'', ar_envelope r)])"

definition run_agent_probe :: "unicode_db \<Rightarrow> runtime \<Rightarrow> probe_env \<Rightarrow> probe_request \<Rightarrow> probe_outcome" where
  "run_agent_probe db runtime env q =
     (case admit db env q of
        Inl e \<Rightarrow> \<lparr>po_api_key = pq_api_key q, po_files = [], po_result = Inl e\<rparr>
      | Inr a \<Rightarrow>
          (let outcome = runtime (ad_manifest a) (ad_frozen_hash a) (ad_target a) (pq_api_key q);
               (result, admission, failure) = catch_runtime outcome;
               zeroed = replicate (length (pq_api_key q)) 0
           in case judge_run db (ad_manifest a) (ad_road_frozen a) (ad_frozen_hash a) (ad_signing_key a) result admission failure of
                Inl e \<Rightarrow> \<lparr>po_api_key = zeroed, po_files = [], po_result = Inl e\<rparr>
              | Inr r \<Rightarrow>
                  (case write_all env [] (artefact_files env a r) of
                     (written, Inl e) \<Rightarrow> \<lparr>po_api_key = zeroed, po_files = written, po_result = Inl e\<rparr>
                   | (written, Inr u) \<Rightarrow>
                       (let path = artefact_path env (get (ad_manifest a) ''job_id'') in
                        \<lparr>po_api_key = zeroed, po_files = written, po_result = Inr
                          \<lparr>pr_envelope = ar_envelope r, pr_exit_code = ar_exit_code r,
                           pr_job_id = get (ad_manifest a) ''job_id'', pr_receipt_path = path ''.receipt.json'',
                           pr_road_frozen_path = path ''.road-frozen.json'', pr_road_walked_path = path ''.road-walked.json'',
                           pr_road_diff_path = path ''.road-diff.json'',
                           pr_evidence_path = (case result of None \<Rightarrow> None | Some r \<Rightarrow> rr_evidence_path r)\<rparr>\<rparr>))))"

subsection \<open>Exit code 0\<close>

text \<open>What a run must have been for the command to succeed.\<close>

definition clean_run :: "runtime_result \<Rightarrow> bool" where
  "clean_run r = (\<exists>g. rr_guest_result r = Some g \<and> rr_failure_code r = str ''NONE'' \<and>
     get g ''status_code'' = S ''COMPLETE'' \<and> get g ''task_complete'' = PBool True \<and>
     gt_zero (get g ''soft_findings'') = Inr False \<and>
     get (get g ''model_metrics'') ''token_reporting_complete'' = PBool True \<and> evidence_sealed g \<and>
     is_dict (rr_egress_telemetry r) \<and> get (rr_egress_telemetry r) ''complete'' = PBool True \<and>
     truthy (get (rr_purge r) ''verified_externally'') \<and> \<not> list_ex stopped (rr_broker_events r))"

lemma sign_verifies: "sign_envelope payload t key = Inr env \<Longrightarrow> verify_envelope env key (Some t)"
  using verify_signed [of key payload _ t "Some t"] by (auto simp: sign_envelope_eq bindE_eq_Inr split: if_splits)

lemma judge_run_allow:
  assumes "judge_run db manifest frozen h key result admission failure = Inr a"
  shows "ar_exit_code a = EXIT_ALLOW \<longleftrightarrow> \<not> admission \<and> (\<exists>r. result = Some r \<and> clean_run r)"
    "verify_envelope (ar_envelope a) key (Some RECEIPT_TYPE)"
proof -
  from assms obtain job lifecycle walked diff evidence clean ex where
    l: "build_host_lifecycle job h result admission failure = Inr lifecycle" and
    w: "build_road_walked db manifest h result failure = Inr walked" and
    d: "build_road_diff manifest frozen walked lifecycle = Inr diff" and
    r: "build_receipt_envelope manifest frozen walked diff evidence lifecycle ex
         (if runtime_failed result admission then S ''EVALUATION_INCOMPLETE'' else get diff ''gate_decision'') clean key = Inr (ar_envelope a)" and
    x: "derive_exit_code (ar_envelope a) key = Inr (ar_exit_code a)"
    by (auto simp: judge_run_def bindE_eq_Inr Let_def dest: item_get)
  have "ar_exit_code a = EXIT_ALLOW \<longleftrightarrow> \<not> runtime_failed result admission \<and> get diff ''gate_decision'' = S ''ALLOW''"
    using receipt_code [OF r] x by (auto split: if_splits)
  then show "ar_exit_code a = EXIT_ALLOW \<longleftrightarrow> \<not> admission \<and> (\<exists>r. result = Some r \<and> clean_run r)"
    unfolding road_diff_allow [OF w l d] by (auto simp: runtime_failed_def clean_run_def)
  from r obtain payload where "sign_envelope payload RECEIPT_TYPE key = Inr (ar_envelope a)"
    by (auto simp: build_receipt_envelope_def bindE_eq_Inr Let_def)
  then show "verify_envelope (ar_envelope a) key (Some RECEIPT_TYPE)"
    by (rule sign_verifies)
qed

lemma write_all_files:
  "write_all env written fs = (written', Inr u) \<Longrightarrow>
   \<exists>bs. map canonical_bytes (map snd fs) = map Inr bs \<and> written' = written @ zip (map fst fs) (map (\<lambda>b. b @ [10]) bs)"
proof (induction env written fs rule: write_all.induct)
  case (2 env written path v rest)
  from "2.prems" obtain w1 u1 where s: "write_private_json env written path v = (w1, Inr u1)"
    "write_all env w1 rest = (written', Inr u)" by (auto split: prod.splits sum.splits)
  from s(1) obtain b where b: "canonical_bytes v = Inr b" "w1 = written @ [(path, b @ [10])]"
    by (auto simp: write_private_json_def split: if_splits sum.splits option.splits)
  from "2.IH" [of w1 "Inr u1"] s obtain bs where
    "map canonical_bytes (map snd rest) = map Inr bs" "written' = w1 @ zip (map fst rest) (map (\<lambda>b. b @ [10]) bs)"
    by (metis surj_pair)
  with b show ?case by (intro exI [of _ "b # bs"]) simp
qed simp

lemma run_agent_probe_Inr:
  assumes "po_result (run_agent_probe db runtime env q) = Inr run"
  obtains a r result admission failure where "admit db env q = Inr a"
    "catch_runtime (runtime (ad_manifest a) (ad_frozen_hash a) (ad_target a) (pq_api_key q)) = (result, admission, failure)"
    "judge_run db (ad_manifest a) (ad_road_frozen a) (ad_frozen_hash a) (ad_signing_key a) result admission failure = Inr r"
    "write_all env [] (artefact_files env a r) = (po_files (run_agent_probe db runtime env q), Inr ())"
    "pr_envelope run = ar_envelope r" "pr_exit_code run = ar_exit_code r"
    "po_api_key (run_agent_probe db runtime env q) = replicate (length (pq_api_key q)) 0"
  using assms
  by (auto simp: run_agent_probe_def Let_def split: sum.splits prod.splits)

lemma catch_runtime_Some: "catch_runtime m = (Some r, admission, failure) \<longleftrightarrow> m = Inr r \<and> \<not> admission \<and> failure = None"
  by (auto simp: catch_runtime_def split: sum.splits if_splits)


subsection \<open>A runtime that raises\<close>

lemma str_encodable: "utf8_encode (str s) \<noteq> None"
proof -
  have "(of_char c :: nat) < 256" for c by (cases c) (simp add: of_char_def)
  then have "scalar (of_char c)" for c using less_trans [of "of_char c" 256] by (fastforce simp: scalar_def)
  then have "list_all scalar (str s)" by (simp add: list_all_iff str_def)
  then show ?thesis by (simp add: encodable_iff)
qed

lemma validate_str [simp]: "validate (S s) = Inr ()"
  using str_encodable by simp

definition errno_small :: "exn \<Rightarrow> bool" where
  "errno_small e = (\<forall>n. exn_errno e = Some n \<longrightarrow> - MAX_SAFE_INTEGER \<le> n \<and> n \<le> MAX_SAFE_INTEGER)"

lemma failure_valid:
  assumes "errno_small e"
  shows "validate (failure_doc (failure_of e)) = Inr ()"
proof -
  have t: "take 64 (str s) = str (take 64 s)" for s by (simp add: str_def take_map)
  have "validate (S (take 64 (exn_name e))) = Inr ()" by (rule validate_str)
  moreover have "validate (case plain_int (rf_errno (failure_of e)) of None \<Rightarrow> PNone | Some i \<Rightarrow> PInt i) = Inr ()"
    using assms by (auto simp: failure_of_def errno_small_def split: option.splits)
  moreover have "rf_exception (failure_of e) = str (exn_name e)" by (simp add: failure_of_def)
  ultimately show ?thesis unfolding failure_doc_def validate_obj by (simp add: t del: validate.simps)
qed

lemma failure_code: "rf_code (failure_of e) \<in> str ` {''RUNTIME_OSERROR'', ''RUNTIME_UNEXPECTED_ERROR''}"
  by (simp add: failure_of_def)

text \<open>The two ways a raising runtime is remembered.\<close>

definition raised_as :: "exn \<Rightarrow> bool \<Rightarrow> runtime_failure option \<Rightarrow> bool" where
  "raised_as e admission failure =
     (if e = FirecrackerUnavailable then admission \<and> failure = None else \<not> admission \<and> failure = Some (failure_of e))"

lemma raised_failure_valid:
  assumes "raised_as e admission failure" "errno_small e"
  shows "case failure of None \<Rightarrow> True | Some f \<Rightarrow> validate (failure_doc f) = Inr () \<and> validate (PStr (rf_code f)) = Inr () \<and>
    rf_code f \<noteq> str ''NONE''"
  using assms failure_valid [OF assms(2)] failure_code [of e] validate_str
  by (auto simp: raised_as_def split: if_splits option.splits)

lemma raised_lifecycle:
  assumes "raised_as e admission failure" "errno_small e" "validate job = Inr ()" "validate (PStr h) = Inr ()"
  obtains rt lifecycle where "build_host_lifecycle job h None admission failure = Inr lifecycle"
    "item lifecycle ''host_lifecycle_root'' = Inr (PStr rt)" "validate (PStr rt) = Inr ()"
    "item lifecycle ''cleanup_verified'' = Inr (PBool admission)"
proof -
  let ?body = "lifecycle_without_result job h admission failure"
  have "validate (obj ?body) = Inr ()"
    using raised_failure_valid [OF assms(1,2)] assms(3,4) validate_str
    by (cases failure) (simp_all add: lifecycle_without_result_def Let_def validate_obj del: validate.simps(3))
  then obtain rt where "sha256_hex (obj ?body) = Inr rt" using sha256_hex_total by blast
  moreover from this have "validate (PStr rt) = Inr ()" using sha256_hex_digest validate_digest by blast
  ultimately show ?thesis
    by (intro that [of "obj (?body @ [(''host_lifecycle_root'', PStr rt)])" rt])
      (auto simp: build_host_lifecycle_def lifecycle_without_result_def Let_def py_eval split: option.split)
qed

lemma zero_hash_valid: "validate (PStr ZERO_HASH) = Inr ()"
  by (rule validate_digest) (simp add: ZERO_HASH_def is_digest_def is_hex_char_def list_all_iff)

definition failure_text :: "runtime_failure option \<Rightarrow> pystr" where
  "failure_text failure = (case failure of Some f \<Rightarrow> rf_code f | None \<Rightarrow> str ''PREFLIGHT_FAILED'')"

definition raised_walked :: "pyval \<Rightarrow> pystr \<Rightarrow> pyval \<Rightarrow> runtime_failure option \<Rightarrow> pyval" where
  "raised_walked job h th failure = obj
     ([(''trace_version'', S ''cindermote.road-walked/v1''), (''job_id'', job), (''road_frozen_hash'', PStr h),
       (''target_hash'', th), (''guest_evidence_root'', PStr ZERO_HASH), (''guest_status'', S ''EVALUATION_INCOMPLETE''),
       (''task_complete'', PBool False), (''soft_findings'', PInt 0), (''model_metrics'', EMPTY_METRICS),
       (''broker_proposals'', PList []),
       (''broker_summary'', obj [(''total'', PInt 0), (''allowed'', PInt 0), (''blocked'', PInt 0)]),
       (''egress_metrics'', obj [(''complete'', PBool False), (''network_bytes'', PInt 0), (''connection_attempts'', PInt 0),
          (''event_count'', PInt 0)]),
       (''evidence_complete'', PBool False), (''runtime_failure_code'', PStr (failure_text failure))] @
      (case failure of Some f \<Rightarrow> [(''runtime_failure'', failure_doc f)] | None \<Rightarrow> []))"

lemma raised_walk:
  assumes "item manifest ''job_id'' = Inr job" "item2 manifest ''target'' ''target_hash'' = Inr th"
  shows "build_road_walked db manifest h None failure = Inr (raised_walked job h th failure)"
  using assms
  by (simp add: build_road_walked_def walk_inputs_def walk_without_guest_def egress_count_def get_default_def py_eval
      raised_walked_def failure_text_def split: option.split)

lemma empty_metrics_valid: "validate EMPTY_METRICS = Inr ()"
  by (simp add: EMPTY_METRICS_def validate_obj MAX_SAFE_INTEGER_def)

lemma raised_walk_valid:
  assumes "raised_as e admission failure" "errno_small e" "validate job = Inr ()" "validate (PStr h) = Inr ()" "validate th = Inr ()"
  shows "validate (raised_walked job h th failure) = Inr ()"
  using raised_failure_valid [OF assms(1,2)] assms(3-5) validate_str zero_hash_valid empty_metrics_valid
  by (cases failure) (simp_all add: raised_walked_def failure_text_def validate_obj MAX_SAFE_INTEGER_def del: validate.simps(3))

lemma raised_diff:
  assumes "raised_as e admission failure" "errno_small e" "validate job = Inr ()" "validate (PStr h) = Inr ()" "validate th = Inr ()"
    and items: "item manifest ''job_id'' = Inr job" "item2 manifest ''target'' ''target_hash'' = Inr th"
    and "validate frozen = Inr ()" "item lifecycle ''host_lifecycle_root'' = Inr (PStr rt)" "validate (PStr rt) = Inr ()"
  obtains diff where "build_road_diff manifest frozen (raised_walked job h th failure) lifecycle = Inr diff"
    "validate diff = Inr ()" "item diff ''gate_decision'' = Inr (S ''EVALUATION_INCOMPLETE'')"
proof -
  let ?w = "raised_walked job h th failure"
  obtain fh wh where hash: "sha256_hex frozen = Inr fh" "sha256_hex ?w = Inr wh"
    using sha256_hex_total assms(8) raised_walk_valid [OF assms(1-5)] by blast
  then have "validate (PStr fh) = Inr ()" "validate (PStr wh) = Inr ()" using sha256_hex_digest validate_digest by blast+
  moreover have code: "failure_text failure \<noteq> str ''NONE''"
    using raised_failure_valid [OF assms(1,2)] by (cases failure) (simp_all add: failure_text_def)
  have "diff_outcome ?w lifecycle [] = Inr (''EVALUATION_INCOMPLETE'', ''EVALUATION_INCOMPLETE'', ''INCOMPLETE_WITNESS_OR_TASK'')"
    using code by (simp add: diff_outcome_def incomplete_witness_def raised_walked_def py_eval)
  moreover have "item ?w ''broker_proposals'' = Inr (PList [])" "item ?w ''guest_evidence_root'' = Inr (PStr ZERO_HASH)"
    by (simp_all add: raised_walked_def py_eval)
  ultimately have "\<exists>diff. build_road_diff manifest frozen ?w lifecycle = Inr diff \<and> validate diff = Inr () \<and>
      item diff ''gate_decision'' = Inr (S ''EVALUATION_INCOMPLETE'')"
    using items hash assms(3,5,9,10) zero_hash_valid validate_str
    by (simp add: build_road_diff_def py_eval validate_obj del: validate.simps(3))
  with that show ?thesis by blast
qed

lemma raised_receipt:
  assumes "validate job = Inr ()" "validate th = Inr ()" "validate frozen = Inr ()" "validate walked = Inr ()" "validate diff = Inr ()"
    and items: "item manifest ''job_id'' = Inr job" "item2 manifest ''target'' ''target_hash'' = Inr th"
    and "item lifecycle ''host_lifecycle_root'' = Inr (PStr rt)" "validate (PStr rt) = Inr ()"
    and "usable_key key" "cleanup \<in> {''VERIFIED'', ''UNVERIFIED''}"
  shows "\<exists>env. build_receipt_envelope manifest frozen walked diff no_guest_evidence lifecycle (S ''INFRASTRUCTURE_FAILED'')
    (S ''EVALUATION_INCOMPLETE'') (S cleanup) key = Inr env"
proof -
  obtain fh wh dh where hash: "sha256_hex frozen = Inr fh" "sha256_hex walked = Inr wh" "sha256_hex diff = Inr dh"
    using sha256_hex_total assms(3-5) by blast
  then have "validate (PStr fh) = Inr ()" "validate (PStr wh) = Inr ()" "validate (PStr dh) = Inr ()"
    using sha256_hex_digest validate_digest by blast+
  moreover have "item no_guest_evidence ''guest_evidence_root'' = Inr (PStr ZERO_HASH)" by (simp add: no_guest_evidence_def py_eval)
  moreover have "in_set (S cleanup) CLEANUP = Inr True" using assms(11) by (auto simp: in_set_True in_strs_S CLEANUP_def)
  ultimately show ?thesis
    using items hash assms(1,2,8-10) zero_hash_valid validate_str
    by (simp add: build_receipt_envelope_def in_set_def EXECUTION_def GATES_def in_strs_S Let_def sign_envelope_eq
        bindE_eq_Inr canonical_bytes_total validate_obj del: validate.simps(3))
qed

lemma judge_raised:
  assumes "raised_as e admission failure" "errno_small e" "validate job = Inr ()" "validate (PStr h) = Inr ()" "validate th = Inr ()"
    and items: "item manifest ''job_id'' = Inr job" "item2 manifest ''target'' ''target_hash'' = Inr th"
    and "validate frozen = Inr ()" "usable_key key"
  shows "\<exists>r. judge_run db manifest frozen h key None admission failure = Inr r \<and>
    ar_exit_code r = (if admission then EXIT_RUNTIME_FAILURE else EXIT_CLEANUP_FAILURE) \<and> validate (ar_walked r) = Inr () \<and>
    validate (ar_diff r) = Inr () \<and> (\<exists>p. sign_envelope p RECEIPT_TYPE key = Inr (ar_envelope r))"
proof -
  obtain rt lifecycle where l: "build_host_lifecycle job h None admission failure = Inr lifecycle"
    "item lifecycle ''host_lifecycle_root'' = Inr (PStr rt)" "validate (PStr rt) = Inr ()"
    "item lifecycle ''cleanup_verified'' = Inr (PBool admission)" by (rule raised_lifecycle [OF assms(1-4)])
  let ?w = "raised_walked job h th failure"
  have wv: "validate ?w = Inr ()" by (rule raised_walk_valid [OF assms(1-5)])
  obtain diff where d: "build_road_diff manifest frozen ?w lifecycle = Inr diff" "validate diff = Inr ()"
    "item diff ''gate_decision'' = Inr (S ''EVALUATION_INCOMPLETE'')" by (rule raised_diff [OF assms(1-8) l(2,3)])
  let ?c = "if admission then ''VERIFIED'' else ''UNVERIFIED''"
  have c: "?c \<in> {''VERIFIED'', ''UNVERIFIED''}" by simp
  obtain env where env: "build_receipt_envelope manifest frozen ?w diff no_guest_evidence lifecycle (S ''INFRASTRUCTURE_FAILED'')
    (S ''EVALUATION_INCOMPLETE'') (S ?c) key = Inr env"
    using raised_receipt [OF assms(3,5,8) wv d(2) items l(2,3) assms(9) c] by blast
  then obtain p where "sign_envelope p RECEIPT_TYPE key = Inr env"
    by (auto simp: build_receipt_envelope_def bindE_eq_Inr Let_def)
  moreover have "derive_exit_code env key = Inr (if admission then EXIT_RUNTIME_FAILURE else EXIT_CLEANUP_FAILURE)"
    using receipt_code [OF env] by (simp add: exit_code_for_def)
  ultimately show ?thesis
    using l(1,4) raised_walk [OF items] d wv env items(1)
    by (simp add: judge_run_def guest_evidence_manifest_def runtime_failed_def Let_def) blast
qed

lemma envelope_valid:
  assumes "sign_envelope p t key = Inr env"
  shows "validate env = Inr ()"
proof -
  from assms obtain b where b: "canonical_bytes p = Inr b" "env = envelope p t key b"
    by (auto simp: sign_envelope_eq bindE_eq_Inr split: if_splits)
  have "validate p = Inr ()" using b(1) canonical_bytes_total by blast
  moreover have "list_all is_hex_char (key_fingerprint key)"
    using sha256_hexdigest_is_digest [of key] by (auto simp: key_fingerprint_def is_digest_def list_all_iff dest: in_set_takeD)
  then have "validate (PStr (key_fingerprint key)) = Inr ()" using hex_encodable by simp
  ultimately show ?thesis using validate_str validate_digest
    by (simp add: b(2) envelope_def validate_obj del: validate.simps(3))
qed

definition can_write :: "probe_env \<Rightarrow> bool" where
  "can_write env = (\<not> pe_receipt_dir_symlink env \<and> (\<forall>path. pe_write_error env path = None))"

lemma write_all_ok:
  assumes "can_write env" "list_all (\<lambda>(path, v). validate v = Inr ()) fs"
  shows "\<exists>written'. write_all env written fs = (written', Inr ())"
  using assms(2)
proof (induction fs arbitrary: written)
  case (Cons pv fs)
  obtain path v where pv: "pv = (path, v)" by force
  with Cons.prems obtain b where "canonical_bytes v = Inr b" using canonical_bytes_total [of v] by auto
  with assms(1) Cons pv show ?case by (simp add: write_private_json_def can_write_def)
qed simp

lemma admitD:
  assumes "nfc_keeps db" "admit db env q = Inr a"
  obtains j th where "item (ad_manifest a) ''job_id'' = Inr (PStr j)" "validate (PStr j) = Inr ()"
    "item2 (ad_manifest a) ''target'' ''target_hash'' = Inr (PStr th)" "validate (PStr th) = Inr ()"
    "validate (ad_road_frozen a) = Inr ()" "validate (PStr (ad_frozen_hash a)) = Inr ()" "usable_key (ad_signing_key a)"
    "validate (ad_frozen_envelope a) = Inr ()"
proof -
  from assms(2) obtain tb qk kid where
    m: "build_job_manifest db (pe_entropy env) tb (pq_model q) qk kid (pq_budgets q) = Inr (ad_manifest a)" and
    h: "sha256_hex (ad_road_frozen a) = Inr (ad_frozen_hash a)" and
    s: "sign_envelope (ad_road_frozen a) ''cindermote.road-frozen/v1'' (ad_signing_key a) = Inr (ad_frozen_envelope a)"
    unfolding admit_def bindE_eq_Inr if_Inl_eq_Inr
    by (cases "pe_target env") (auto simp: bindE_eq_Inr simp del: sum.inject(1))
  obtain j m' x tk bl b where v: "ad_manifest a = manifest_doc j (sha256_hexdigest tb) m' x tk bl b kid qk"
    "validate_job_manifest db (ad_manifest a) = Inr (ad_manifest a)" "validate (ad_manifest a) = Inr ()" "budgets_ok b"
    by (rule built_manifest [OF assms(1) m])
  have "validate (PStr j) = Inr ()" using validate_get [OF v(3), of "''job_id''"] by (simp add: v(1) manifest_doc_fields)
  moreover have "validate (ad_road_frozen a) = Inr ()" using h canonical_bytes_total by (auto simp: sha256_hex_def bindE_eq_Inr)
  moreover have "validate (PStr (ad_frozen_hash a)) = Inr ()" using sha256_hex_digest [OF h] validate_digest by blast
  moreover have "usable_key (ad_signing_key a)" using s by (auto simp: sign_envelope_eq split: if_splits)
  ultimately show ?thesis using envelope_valid [OF s] validate_digest [OF sha256_hexdigest_is_digest]
    by (intro that [of j "sha256_hexdigest tb"]) (simp_all add: v(1) manifest_items del: validate.simps(3))
qed

lemma runtime_failure_run:
  assumes "nfc_keeps db" "admit db env q = Inr a" "can_write env"
    and e: "runtime (ad_manifest a) (ad_frozen_hash a) (ad_target a) (pq_api_key q) = Inl e" "errno_small e"
  shows "\<exists>run. po_result (run_agent_probe db runtime env q) = Inr run \<and>
    pr_exit_code run = (if e = FirecrackerUnavailable then EXIT_RUNTIME_FAILURE else EXIT_CLEANUP_FAILURE) \<and>
    verify_envelope (pr_envelope run) (ad_signing_key a) (Some RECEIPT_TYPE) \<and>
    length (po_files (run_agent_probe db runtime env q)) = 4 \<and>
    po_api_key (run_agent_probe db runtime env q) = replicate (length (pq_api_key q)) 0"
proof -
  obtain j th where m: "item (ad_manifest a) ''job_id'' = Inr (PStr j)" "validate (PStr j) = Inr ()"
    "item2 (ad_manifest a) ''target'' ''target_hash'' = Inr (PStr th)" "validate (PStr th) = Inr ()"
    "validate (ad_road_frozen a) = Inr ()" "validate (PStr (ad_frozen_hash a)) = Inr ()" "usable_key (ad_signing_key a)"
    "validate (ad_frozen_envelope a) = Inr ()" by (rule admitD [OF assms(1,2)])
  have "\<exists>admission failure. catch_runtime (Inl e) = (None, admission, failure) \<and> raised_as e admission failure \<and>
      admission = (e = FirecrackerUnavailable)"
    by (cases "e = FirecrackerUnavailable") (auto simp: catch_runtime_def raised_as_def)
  then obtain admission failure where c: "catch_runtime (Inl e) = (None, admission, failure)" "raised_as e admission failure"
    "admission = (e = FirecrackerUnavailable)" by blast
  from judge_raised [OF c(2) e(2) m(2,6,4,1,3,5,7)] obtain r p where
    r: "judge_run db (ad_manifest a) (ad_road_frozen a) (ad_frozen_hash a) (ad_signing_key a) None admission failure = Inr r"
    "ar_exit_code r = (if admission then EXIT_RUNTIME_FAILURE else EXIT_CLEANUP_FAILURE)"
    "validate (ar_walked r) = Inr ()" "validate (ar_diff r) = Inr ()" "sign_envelope p RECEIPT_TYPE (ad_signing_key a) = Inr (ar_envelope r)"
    by blast
  have "list_all (\<lambda>(path, v). validate v = Inr ()) (artefact_files env a r)"
    using r(3,4) m(8) envelope_valid [OF r(5)] by (simp add: artefact_files_def Let_def)
  from write_all_ok [OF assms(3) this] obtain written where w: "write_all env [] (artefact_files env a r) = (written, Inr ())" by blast
  have "length written = 4" using write_all_files [OF w] by (auto simp: artefact_files_def Let_def map_eq_Cons_conv)
  then show ?thesis using w r c(1,3) sign_verifies [OF r(5)] by (simp add: run_agent_probe_def assms(2) e(1) Let_def)
qed

text \<open>C2: a failing runtime never goes unreported. Once a job is admitted and its artefacts can be written, whatever
  exception the microVM runtime raises (with an exactly representable error number), \<open>run_agent_probe\<close> returns: the
  credential buffer is zeroed, all four artefacts are written, the receipt verifies, and the exit code says the
  failure: 3 when admission was refused before launch, 6 when the state of the cleanup is unknown.\<close>

theorem runtime_failure_reported:
  assumes "nfc_keeps db" "admit db env q = Inr a" "can_write env"
    and e: "runtime (ad_manifest a) (ad_frozen_hash a) (ad_target a) (pq_api_key q) = Inl e" "errno_small e"
  shows "\<exists>run. po_result (run_agent_probe db runtime env q) = Inr run \<and>
    pr_exit_code run = (if e = FirecrackerUnavailable then EXIT_RUNTIME_FAILURE else EXIT_CLEANUP_FAILURE) \<and>
    verify_envelope (pr_envelope run) (ad_signing_key a) (Some RECEIPT_TYPE) \<and>
    length (po_files (run_agent_probe db runtime env q)) = 4 \<and>
    po_api_key (run_agent_probe db runtime env q) = replicate (length (pq_api_key q)) 0"
  using assms by (rule runtime_failure_run)

subsection \<open>A sample job\<close>

definition sample_env :: probe_env where
  "sample_env = \<lparr>pe_target = Some [1], pe_entropy = [], pe_observer_file = Inl (OSError None), pe_quarantine_file = Inl (OSError None),
     pe_receipt_dir = str ''/r'', pe_receipt_dir_symlink = False, pe_write_error = (\<lambda>path. None)\<rparr>"

definition sample_request :: probe_request where
  "sample_request = \<lparr>pq_model = sample_model, pq_api_key = [1], pq_observer_key = Some (replicate 33 1),
     pq_quarantine_key = Some (replicate 32 0), pq_quarantine_key_id = Some (replicate 16 48), pq_budgets = PNone\<rparr>"

lemma sample_admitted: "\<exists>a. admit ascii_db sample_env sample_request = Inr a"
proof -
  obtain v where m: "build_job_manifest ascii_db [] [1] sample_model (replicate 32 0) (replicate 16 48) PNone = Inr v"
    using sample_manifest by blast
  obtain j m' x tk bl b where v: "v = manifest_doc j (sha256_hexdigest [1]) m' x tk bl b (replicate 16 48) (replicate 32 0)"
    "validate_job_manifest ascii_db v = Inr v" "validate v = Inr ()" "budgets_ok b"
    by (rule built_manifest [OF ascii_db_keeps m])
  obtain road where road: "build_road_frozen ascii_db v = Inr road" "validate road = Inr ()"
    using road_of_doc [OF v(1-3)] by blast
  obtain h where "sha256_hex road = Inr h" using sha256_hex_total [OF road(2)] by blast
  moreover obtain w where "canonical_bytes road = Inr w" using road(2) canonical_bytes_total by blast
  ultimately show ?thesis
    using m road(1) by (simp add: admit_def sample_env_def sample_request_def or_else_def sign_envelope_eq sample_key)
qed

lemma sample_writes: "can_write sample_env"
  by (simp add: can_write_def sample_env_def)

theorem runtime_failure_reported_witness:
  "\<exists>run. po_result (run_agent_probe ascii_db (\<lambda>m h t k. Inl TimeoutError) sample_env sample_request) = Inr run \<and>
     pr_exit_code run = EXIT_CLEANUP_FAILURE"
proof -
  obtain a where a: "admit ascii_db sample_env sample_request = Inr a" using sample_admitted by blast
  show ?thesis
    using runtime_failure_reported [OF ascii_db_keeps a sample_writes, of "\<lambda>m h t k. Inl TimeoutError" TimeoutError]
    by (auto simp: errno_small_def)
qed


end
