(* ===== verification/Probe_Control.thy ===== *)
theory Probe_Control
  imports Evidence Agent_Broker Runner
begin

section \<open>The host side of the control channel\<close>

text \<open>
  \<open>agent_probe/firecracker_runtime.py\<close>: the control loop that delivers the credential, answers the guest's
  proposals through the broker and accepts its result; and \<open>_read_line\<close> of
  \<open>mote/firecracker_runtime.py\<close>, which both runtimes read the channel with.

  The record \<open>channel\<close> is the socket with its read buffer: the segments successive \<open>recv\<close> calls find, the
  readings of the monotonic clock, the lines sent and which sends fail. When no segment is left, \<open>recv\<close>
  times out. The job manifest has passed \<open>validate_job_manifest\<close>, so its budgets are integers.
\<close>

subsection \<open>Reading lines\<close>

record channel =
  ch_buffered :: bytes
  ch_incoming :: "bytes res list"
  ch_clock :: "nat \<Rightarrow> rat"
  ch_tick :: nat
  ch_sent :: "bytes list"
  ch_send_error :: "nat \<Rightarrow> exn option"

definition monotonic :: "channel \<Rightarrow> channel \<times> rat" where
  "monotonic c = (c\<lparr>ch_tick := Suc (ch_tick c)\<rparr>, ch_clock c (ch_tick c))"

definition recv :: "nat \<Rightarrow> channel \<Rightarrow> channel \<times> bytes res" where
  "recv n c = (case ch_incoming c of
       [] \<Rightarrow> (c, Inl TimeoutError)
     | Inl e # rest \<Rightarrow> (c\<lparr>ch_incoming := rest\<rparr>, Inl e)
     | Inr seg # rest \<Rightarrow>
         if length seg \<le> n then (c\<lparr>ch_incoming := rest\<rparr>, Inr seg)
         else (c\<lparr>ch_incoming := Inr (drop n seg) # rest\<rparr>, Inr (take n seg)))"

definition sendall :: "channel \<Rightarrow> bytes \<Rightarrow> channel \<times> unit res" where
  "sendall c b = (case ch_send_error c (length (ch_sent c)) of
       Some e \<Rightarrow> (c, Inl e)
     | None \<Rightarrow> (c\<lparr>ch_sent := ch_sent c @ [b]\<rparr>, Inr ()))"

text \<open>What is still to be read: the segments to come, and with them the buffer.\<close>

definition incoming_size :: "channel \<Rightarrow> nat" where
  "incoming_size c = sum_list (map (\<lambda>m. case m of Inl e \<Rightarrow> 1 | Inr seg \<Rightarrow> Suc (length seg)) (ch_incoming c))"

definition pending :: "channel \<Rightarrow> nat" where
  "pending c = length (ch_buffered c) + incoming_size c"

lemma incoming_size_buffer [simp]: "incoming_size (c\<lparr>ch_buffered := b\<rparr>) = incoming_size c"
  by (simp add: incoming_size_def)

lemma recv_size:
  assumes "recv n c = (c', Inr chunk)" "0 < n"
  shows "incoming_size c' + length chunk \<le> incoming_size c" "incoming_size c' < incoming_size c"
    "ch_buffered c' = ch_buffered c" "length chunk \<le> n" "ch_sent c' = ch_sent c"
  using assms by (auto simp: recv_def incoming_size_def split: list.splits sum.splits if_splits)

lemma monotonic_simps [simp]:
  "incoming_size (fst (monotonic c)) = incoming_size c" "ch_buffered (fst (monotonic c)) = ch_buffered c"
  "pending (fst (monotonic c)) = pending c" "ch_sent (fst (monotonic c)) = ch_sent c"
  by (simp_all add: monotonic_def incoming_size_def pending_def)

lemma read_step_size:
  "(c1, now) = monotonic c \<Longrightarrow> (c2, Inr chunk) = recv n c1 \<Longrightarrow> 0 < n \<Longrightarrow>
   incoming_size c2 < incoming_size c"
  using recv_size(2) [of n c1 c2 chunk] monotonic_simps(1) [of c] by (metis fst_conv)

function read_line :: "nat \<Rightarrow> rat \<Rightarrow> channel \<Rightarrow> channel \<times> bytes res" where
  "read_line maximum deadline c =
     (if 10 \<in> set (ch_buffered c) then
        (let line = takeWhile (\<lambda>b. b \<noteq> 10) (ch_buffered c)
         in (c\<lparr>ch_buffered := drop (Suc (length line)) (ch_buffered c)\<rparr>, Inr (line @ [10])))
      else if maximum \<le> length (ch_buffered c)
      then (c, Inl (FirecrackerRuntimeError ''vsock control line exceeds limit''))
      else (case monotonic c of (c1, now) \<Rightarrow>
        if deadline - now \<le> 0 then (c1, Inl TimeoutError)
        else (case recv (min 65536 (maximum - length (ch_buffered c))) c1 of
            (c2, Inl e) \<Rightarrow> (c2, Inl e)
          | (c2, Inr chunk) \<Rightarrow>
              if chunk = [] then (c2, Inl (FirecrackerRuntimeError ''vsock closed before a complete message''))
              else read_line maximum deadline (c2\<lparr>ch_buffered := ch_buffered c2 @ chunk\<rparr>))))"
  by pat_completeness auto

termination read_line
  by (relation "measure (\<lambda>(maximum, deadline, c). incoming_size c)")
    (auto simp: read_step_size)

declare read_line.simps [simp del]

lemma read_line_pending:
  "read_line maximum deadline c = (c', Inr line) \<Longrightarrow> pending c' < pending c \<and> ch_sent c' = ch_sent c"
proof (induction maximum deadline c rule: read_line.induct)
  case (1 maximum deadline c)
  show ?case
  proof (cases "10 \<in> set (ch_buffered c)")
    case True
    then have "ch_buffered c \<noteq> []" by auto
    with True "1.prems" show ?thesis
      by (auto simp: read_line.simps [of _ _ c] Let_def pending_def)
  next
    case False
    obtain c1 now where m: "monotonic c = (c1, now)" by (cases "monotonic c")
    obtain c2 z where r: "recv (min 65536 (maximum - length (ch_buffered c))) c1 = (c2, z)"
      by (cases "recv (min 65536 (maximum - length (ch_buffered c))) c1")
    from False "1.prems" m r obtain chunk where z: "\<not> maximum \<le> length (ch_buffered c)" "\<not> deadline - now \<le> 0"
      "z = Inr chunk" "chunk \<noteq> []"
      "read_line maximum deadline (c2\<lparr>ch_buffered := ch_buffered c2 @ chunk\<rparr>) = (c', Inr line)"
      by (auto simp: read_line.simps [of _ _ c] split: if_splits sum.splits)
    from z(1) have n: "0 < min 65536 (maximum - length (ch_buffered c))" by simp
    have c1: "pending c1 = pending c" "ch_buffered c1 = ch_buffered c" "ch_sent c1 = ch_sent c"
      using m monotonic_simps by (metis fst_conv)+
    note rs = recv_size [OF r [unfolded z(3)] n]
    have "pending (c2\<lparr>ch_buffered := ch_buffered c2 @ chunk\<rparr>) \<le> pending c1"
      using rs(1,3) by (simp add: pending_def)
    with "1.IH" [OF False z(1) m [symmetric] z(2) r [symmetric] z(3) z(4) z(5)] c1 rs(5) show ?thesis by simp
  qed
qed

subsection \<open>The guest's result\<close>

definition RESULT_KEYS :: "string list" where
  "RESULT_KEYS = [''type'', ''protocol_version'', ''nonce'', ''agent_version'', ''job_id'', ''road_frozen_hash'',
     ''status_code'', ''task_complete'', ''soft_findings'', ''proposal_count'', ''model_metrics'', ''evidence_bundle'']"

definition STATUS_CODES :: "string list" where
  "STATUS_CODES = [''COMPLETE'', ''HARD_TRIP'', ''DENIED'', ''PROVIDER_FAILURE'', ''MALFORMED_RESPONSE'',
     ''INCOMPLETE_TASK'', ''BUDGET_EXHAUSTION'', ''EVALUATION_INCOMPLETE'', ''GUEST_FAILURE'']"

definition METRIC_KEYS :: "string list" where
  "METRIC_KEYS = [''requests'', ''prompt_tokens'', ''completion_tokens'', ''latency_ms'', ''network_bytes'', ''retries'',
     ''token_reporting_complete'']"

definition raise_runtime :: "string \<Rightarrow> 'a res" where
  "raise_runtime m = Inl (AgentProbeRuntimeError m)"

text \<open>\<open>isinstance(v, int) and not isinstance(v, bool) and 0 <= v <= maximum\<close>.\<close>

definition bounded_int :: "int \<Rightarrow> pyval \<Rightarrow> bool" where
  "bounded_int maximum v = (case plain_int v of Some i \<Rightarrow> 0 \<le> i \<and> i \<le> maximum | None \<Rightarrow> False)"

fun check_bounds :: "string \<Rightarrow> pyval \<Rightarrow> (string \<times> int) list \<Rightarrow> unit res" where
  "check_bounds what v [] = Inr ()"
| "check_bounds what v ((name, maximum) # rest) =
     (if \<not> bounded_int maximum (get v name) then raise_runtime (what @ name @ '' is invalid'')
      else check_bounds what v rest)"

definition budget :: "pyval \<Rightarrow> string \<Rightarrow> int res" where
  "budget manifest name = bindE (item2 manifest ''budgets'' name) (as_int TypeError)"

definition metric_bounds :: "pyval \<Rightarrow> (string \<times> int) list res" where
  "metric_bounds manifest =
     bindE (budget manifest ''max_model_requests'') (\<lambda>requests.
     bindE (budget manifest ''max_tokens_total'') (\<lambda>tokens.
     bindE (budget manifest ''wall_clock_sec'') (\<lambda>wall.
     bindE (budget manifest ''max_network_bytes'') (\<lambda>network.
     Inr [(''requests'', requests), (''prompt_tokens'', tokens), (''completion_tokens'', tokens),
          (''latency_ms'', wall * 1000 + 10000), (''network_bytes'', network), (''retries'', requests * 2)]))))"

definition check_result_evidence :: "'st sodium \<Rightarrow> pyval \<Rightarrow> pyval \<Rightarrow> pystr \<Rightarrow> unit res" where
  "check_result_evidence lib v manifest road =
     (let bundle = get v ''evidence_bundle'' in
      if bundle = PNone then
        bindE (in_set (get v ''status_code'') [''GUEST_FAILURE'', ''EVALUATION_INCOMPLETE'']) (\<lambda>known.
        if \<not> known then raise_runtime ''guest omitted evidence for a completed result'' else Inr ())
      else
        bindE (budget manifest ''max_evidence_bytes'') (\<lambda>max_bytes.
        bindE (validate_bundle lib max_bytes bundle) (\<lambda>_.
        bindE (item bundle ''manifest'') (\<lambda>em.
        bindE (item manifest ''job_id'') (\<lambda>job_id.
        if \<not> py_eq (get em ''job_id'') job_id then raise_runtime ''guest evidence binding failed''
        else bindE (item2 manifest ''target'' ''target_hash'') (\<lambda>target_hash.
        if \<not> py_eq (get em ''target_hash'') target_hash \<or> \<not> py_eq (get em ''road_frozen_hash'') (PStr road)
        then raise_runtime ''guest evidence binding failed'' else Inr ()))))))"

definition bounded_guest_result :: "'st sodium \<Rightarrow> pyval \<Rightarrow> pyval \<Rightarrow> pystr \<Rightarrow> pystr \<Rightarrow> pyval res" where
  "bounded_guest_result lib v manifest road nonce =
     (if \<not> has_shape v RESULT_KEYS then raise_runtime ''guest result shape changed''
      else
        if \<not> py_eq (get v ''type'') (S ''result'') \<or> \<not> py_eq (get v ''protocol_version'') (S CONTROL_VERSION)
           \<or> \<not> py_eq (get v ''nonce'') (PStr nonce) \<or> \<not> py_eq (get v ''agent_version'') (S AGENT_VERSION)
        then raise_runtime ''guest result binding failed''
        else bindE (item manifest ''job_id'') (\<lambda>job_id.
        if \<not> py_eq (get v ''job_id'') job_id \<or> \<not> py_eq (get v ''road_frozen_hash'') (PStr road)
        then raise_runtime ''guest result binding failed''
        else
          bindE (in_set (get v ''status_code'') STATUS_CODES) (\<lambda>known.
          if \<not> known then raise_runtime ''guest status code is unknown''
          else if \<not> is_bool (get v ''task_complete'') then raise_runtime ''guest task status is invalid''
          else
            bindE (check_bounds ''guest '' v [(''soft_findings'', 1024), (''proposal_count'', 64)]) (\<lambda>_.
            let metrics = get v ''model_metrics'' in
            if \<not> has_shape metrics METRIC_KEYS then raise_runtime ''guest model metrics shape changed''
            else if \<not> is_bool (get metrics ''token_reporting_complete'')
            then raise_runtime ''guest token reporting status is invalid''
            else
              bindE (metric_bounds manifest) (\<lambda>bounds.
              bindE (check_bounds ''guest metric '' metrics bounds) (\<lambda>_.
              bindE (check_result_evidence lib v manifest road) (\<lambda>_. Inr v)))))))"

subsection \<open>The control loop\<close>

definition MAX_API_KEY_BYTES :: nat where "MAX_API_KEY_BYTES = 4096"

definition PROPOSAL_FRAME_KEYS :: "string list" where
  "PROPOSAL_FRAME_KEYS =
     [''type'', ''protocol_version'', ''nonce'', ''sequence'', ''action_code'', ''arg_class'', ''arg_hash'']"

definition frame_proposal :: "pyval \<Rightarrow> pyval" where
  "frame_proposal frame = obj
     [(''sequence'', get frame ''sequence''), (''action_code'', get frame ''action_code''),
      (''arg_class'', get frame ''arg_class''), (''arg_hash'', get frame ''arg_hash'')]"

definition decision_frame :: "pystr \<Rightarrow> decision \<Rightarrow> pyval" where
  "decision_frame nonce d = PDict (dmerge
     (dict_of (obj [(''type'', S ''decision''), (''protocol_version'', S CONTROL_VERSION), (''nonce'', PStr nonce)]))
     (dict_of (to_dict d)))"

definition run_frame :: "pystr \<Rightarrow> pyval \<Rightarrow> pystr \<Rightarrow> pystr \<Rightarrow> pyval" where
  "run_frame nonce job_id road key = obj
     [(''type'', S ''run''), (''protocol_version'', S CONTROL_VERSION), (''nonce'', PStr nonce), (''job_id'', job_id),
      (''road_frozen_hash'', PStr road), (''api_key'', PStr key)]"

text \<open>Delivery of the credential; \<open>bytes(api_key).decode("utf-8", "strict")\<close> may raise.\<close>

definition deliver_credential :: "channel \<Rightarrow> pyval \<Rightarrow> pystr \<Rightarrow> pystr \<Rightarrow> bytes \<Rightarrow> channel \<times> unit res" where
  "deliver_credential c manifest road nonce api_key =
     (case item manifest ''job_id'' of
        Inl e \<Rightarrow> (c, Inl e)
      | Inr job_id \<Rightarrow> (case utf8_decode False api_key of
            None \<Rightarrow> (c, raise_runtime ''credential delivery failed'')
          | Some key \<Rightarrow> (case canonical_bytes (run_frame nonce job_id road key) of
                Inl e \<Rightarrow> (c, Inl e)
              | Inr b \<Rightarrow> (case sendall c (b @ [10]) of
                    (c', Inl e) \<Rightarrow>
                      (c', if is_OSError e then raise_runtime ''credential delivery failed'' else Inl e)
                  | (c', Inr u) \<Rightarrow> (c', Inr ())))))"

text \<open>The answer to one frame that passed the binding check: a decision to send, the result, or an error.\<close>

definition answer_proposal :: "channel \<Rightarrow> broker \<Rightarrow> pystr \<Rightarrow> pyval \<Rightarrow> channel \<times> broker \<times> unit res" where
  "answer_proposal c b nonce frame =
     (if \<not> keys_are frame PROPOSAL_FRAME_KEYS then (c, b, raise_runtime ''proposal frame shape changed'')
      else (case evaluate b (frame_proposal frame) of
          (b', Inl e) \<Rightarrow> (c, b', Inl e)
        | (b', Inr d) \<Rightarrow> (case canonical_bytes (decision_frame nonce d) of
              Inl e \<Rightarrow> (c, b', Inl e)
            | Inr r \<Rightarrow> (case sendall c (r @ [10]) of (c', u) \<Rightarrow> (c', b', u)))))"

definition bound_frame :: "pystr \<Rightarrow> bytes \<Rightarrow> pyval res" where
  "bound_frame nonce raw =
     bindE (rewrap (\<lambda>x. x = UnicodeError \<or> x = JSONDecodeError)
              (AgentProbeRuntimeError ''guest control frame is malformed'') (json_loads raw)) (\<lambda>frame.
     if \<not> is_dict frame \<or> \<not> py_eq (get frame ''protocol_version'') (S CONTROL_VERSION)
        \<or> \<not> py_eq (get frame ''nonce'') (PStr nonce)
     then raise_runtime ''guest control frame binding failed'' else Inr frame)"

lemma sendall_pending [simp]: "pending (fst (sendall c b)) = pending c"
  by (simp add: sendall_def pending_def incoming_size_def split: option.split)

lemma answer_proposal_pending: "answer_proposal c b nonce frame = (c', r) \<Longrightarrow> pending c' = pending c"
  using sendall_pending by (auto simp: answer_proposal_def split: if_splits sum.splits prod.splits) (metis fst_conv sendall_pending)

function control_loop ::
  "'st sodium \<Rightarrow> pyval \<Rightarrow> pystr \<Rightarrow> pystr \<Rightarrow> rat \<Rightarrow> channel \<Rightarrow> broker \<Rightarrow> channel \<times> broker \<times> pyval res" where
  "control_loop lib manifest road nonce deadline c b =
     (case monotonic c of (c0, now) \<Rightarrow>
        if \<not> now < deadline then (c0, b, raise_runtime ''agent-probe wall-clock deadline expired'')
        else (case read_line MAX_CONTROL_LINE deadline c0 of
            (c1, Inl e) \<Rightarrow> (c1, b, Inl e)
          | (c1, Inr raw) \<Rightarrow> (case bound_frame nonce raw of
                Inl e \<Rightarrow> (c1, b, Inl e)
              | Inr frame \<Rightarrow>
                  if py_eq (get frame ''type'') (S ''proposal'') then
                    (case answer_proposal c1 b nonce frame of
                       (c2, b', Inl e) \<Rightarrow> (c2, b', Inl e)
                     | (c2, b', Inr u) \<Rightarrow> control_loop lib manifest road nonce deadline c2 b')
                  else if py_eq (get frame ''type'') (S ''result'')
                  then (c1, b, bounded_guest_result lib frame manifest road nonce)
                  else (c1, b, raise_runtime ''unexpected guest control frame''))))"
  by pat_completeness auto

lemma loop_step_pending:
  assumes "(c0, now) = monotonic c" "(c1, Inr raw) = read_line m d c0" "(c2, r) = answer_proposal c1 b nonce frame"
  shows "pending c2 < pending c"
  using assms read_line_pending [of m d c0 c1 raw] answer_proposal_pending [of c1 b nonce frame c2 r] monotonic_simps(3) [of c]
  by (metis fst_conv)

termination control_loop
  by (relation "measure (\<lambda>(lib, manifest, road, nonce, deadline, c, b). pending c)")
    (auto intro: loop_step_pending)

declare control_loop.simps [simp del]

text \<open>The whole of \<open>_run_control_loop\<close>; the first component is the caller's key buffer afterwards.\<close>

definition run_control_loop ::
  "'st sodium \<Rightarrow> channel \<Rightarrow> pyval \<Rightarrow> pystr \<Rightarrow> pystr \<Rightarrow> bytes \<Rightarrow> broker \<Rightarrow> rat
   \<Rightarrow> bytes \<times> channel \<times> broker \<times> pyval res" where
  "run_control_loop lib c manifest road nonce api_key b deadline =
     (if \<not> (1 \<le> length api_key \<and> length api_key \<le> MAX_API_KEY_BYTES)
      then (api_key, c, b, raise_runtime ''API credential length is invalid'')
      else
        (let zeroed = replicate (length api_key) 0 in
         case deliver_credential c manifest road nonce api_key of
           (c', Inl e) \<Rightarrow> (zeroed, c', b, Inl e)
         | (c', Inr u) \<Rightarrow> (zeroed, control_loop lib manifest road nonce deadline c' b)))"

end
