(* ===== verification/Evidence_Facts.thy ===== *)
theory Evidence_Facts
  imports Evidence
begin

section \<open>What the evidence bundle guarantees\<close>

text \<open>
  Lemmas and properties of \<open>Evidence\<close>: bounds on the length of canonical documents, that the records the
  sealer produces pass the host's checks one by one, and the round trip from the sealer through
  validation to the decrypted transcript.
\<close>

subsection \<open>Flat documents\<close>

definition flat :: "pyval \<Rightarrow> bool" where
  "flat v = (\<not> is_list v \<and> \<not> is_dict v)"

lemma flat_simps [simp]: "flat (PStr s)" "flat (PInt i)" "flat (PBool b)" "flat PNone"
  by (simp_all add: flat_def)

lemma canon_flat [simp]: "flat v \<Longrightarrow> canon v = v"
  by (cases v) (simp_all add: flat_def)

definition flat_items :: "pydict \<Rightarrow> bool" where
  "flat_items d = list_all (\<lambda>(k, v). flat v) d"

lemma canon_flat_items: "flat_items d \<Longrightarrow> canon_dict d = d"
  by (induction d) (auto simp: flat_items_def)

lemma canon_flat_dict: "flat_items d \<Longrightarrow> canon (PDict d) = PDict (sort_key (\<lambda>kv. key_str (fst kv)) d)"
  by (simp add: canon_flat_items)

lemma flat_items_sort: "flat_items (sort_key f d) = flat_items d"
  by (simp add: flat_items_def list_all_iff)

lemma canon_canon_flat: "flat_items d \<Longrightarrow> canon (canon (PDict d)) = canon (PDict d)"
  using canon_flat_items [of "sort_key (\<lambda>kv. key_str (fst kv)) d"]
  by (simp add: canon_flat_items flat_items_sort sort_key_id_if_sorted)

lemma flat_obj: "flat_items (dict_of (obj kvs)) = list_all (\<lambda>(k, v). flat v) kvs"
  by (induction kvs) (auto simp: flat_items_def dict_of_obj)

text \<open>A document read back from its canonical bytes: same fields, same shape, same bytes.\<close>

lemma reread:
  assumes "list_all (\<lambda>(k, v). flat v) kvs" "distinct (map fst kvs)" "canonical_bytes (obj kvs) = Inr b"
  shows "json_loads b = Inr (canon (obj kvs))" "canonical_bytes (canon (obj kvs)) = Inr b"
    "py_eq (canon (obj kvs)) (obj kvs)" "has_shape (canon (obj kvs)) ks \<longleftrightarrow> set (map fst kvs) = set ks"
    "get (canon (obj kvs)) k = get (obj kvs) k"
proof -
  have wf: "wf_val (obj kvs)" using assms(1,2)
    by (simp add: wf_obj) (erule list_all_mp, auto simp: flat_def elim!: is_list.elims is_dict.elims)
  show "json_loads b = Inr (canon (obj kvs))" using wf assms(3) by (rule json_loads_canonical)
  let ?d = "map (\<lambda>(k, v). (KStr (str k), v)) kvs"
  have fd: "flat_items ?d" using assms(1) flat_obj [of kvs] by (simp add: obj_def)
  have idem: "canon (canon (obj kvs)) = canon (obj kvs)" using canon_canon_flat [OF fd] by (simp add: obj_def)
  have v: "validate (obj kvs) = Inr ()" using canonical_bytes_Inr(1) [OF assms(3)] .
  show "canonical_bytes (canon (obj kvs)) = Inr b"
    using canonical_bytes_canon [OF assms(3) idem [symmetric] validate_canon [OF v]] .
  have "wf_items d" if "flat_items d" for d
    using that by (induction d) (auto simp: flat_items_def flat_def elim!: is_list.elims is_dict.elims)
  then have "wf_val (canon (obj kvs))" using fd wf
    by (simp add: obj_def canon_flat_items flat_items_sort distinct_sort_fst)
  with idem wf show "py_eq (canon (obj kvs)) (obj kvs)" by (intro canon_eq_py_eq validate_canon v)
  show "has_shape (canon (obj kvs)) ks \<longleftrightarrow> set (map fst kvs) = set ks"
  proof -
    have "has_shape (canon (PDict ?d)) ks \<longleftrightarrow> has_shape (PDict ?d) ks"
      unfolding canon_flat_dict [OF fd] by (simp add: has_shape_def keys_are_def image_image)
    then show ?thesis using has_shape_obj [of kvs ks] by (simp add: obj_def)
  qed
  show "get (canon (obj kvs)) k = get (obj kvs) k" 
  proof -
    have "flat (get (obj kvs) k)" using assms(1)
      by (auto simp: get_obj list_all_iff split: option.split dest: map_of_SomeD)
    then show ?thesis by (simp add: get_canon [OF wf])
  qed
qed

subsection \<open>Lengths\<close>

lemma length_utf8_char: "utf8_char c = Some b \<Longrightarrow> length b \<le> 4"
  by (auto simp: utf8_char_def split: if_splits)

lemma length_utf8: "utf8_encode s = Some b \<Longrightarrow> length b \<le> 4 * length s"
proof (induction s arbitrary: b)
  case (Cons c s)
  then obtain x y where "utf8_char c = Some x" "utf8_encode s = Some y" "b = x @ y"
    by (auto split: option.splits)
  with Cons.IH [of y] length_utf8_char [of c x] show ?case by simp
qed simp

lemma length_dump_str: "length (dump_str s) \<le> 6 * length s + 2"
proof -
  have "length (concat (map esc_char s)) \<le> 6 * length s"
    by (induction s) (auto simp: esc_char_def)
  then show ?thesis by (simp add: dump_str_def)
qed

text \<open>An upper bound of the text of a flat value, and of a dictionary of flat values.\<close>

fun flat_size :: "pyval \<Rightarrow> nat" where
  "flat_size (PStr s) = 6 * length s + 2"
| "flat_size v = length (dump (\<lambda>f. []) v)"

definition items_size :: "pydict \<Rightarrow> nat" where
  "items_size d = sum_list (map (\<lambda>(k, v). 6 * length (key_str k) + 4 + flat_size v) d)"

lemma length_dump_flat: "flat v \<Longrightarrow> length (dump (\<lambda>f. []) v) \<le> flat_size v"
  using length_dump_str by (cases v) (simp_all add: flat_def)

lemma length_dump_members: "flat_items d \<Longrightarrow> length (dump_members (\<lambda>f. []) d) \<le> items_size d"
proof (induction d)
  case (Cons kv d)
  obtain k v where kv: "kv = (k, v)" by (cases kv)
  show ?case using Cons length_dump_flat [of v] length_dump_str [of "key_str k"]
    by (auto simp: kv flat_items_def items_size_def)
qed (simp add: items_size_def)

lemma items_size_sort: "items_size (sort_key f d) = items_size d"
  unfolding items_size_def by (simp flip: sum_mset_sum_list)

lemma length_canonical_flat:
  assumes "list_all (\<lambda>(k, v). flat v) kvs" "canonical_bytes (obj kvs) = Inr b"
  shows "length b \<le> 4 * (2 + sum_list (map (\<lambda>(k, v). 6 * length k + 4 + flat_size v) kvs))"
proof -
  let ?d = "map (\<lambda>(k, v). (KStr (str k), v)) kvs"
  have fd: "flat_items ?d" using assms(1) flat_obj [of kvs] by (simp add: obj_def)
  have "length b \<le> 4 * length (dump (\<lambda>f. []) (canon (obj kvs)))"
    using canonical_bytes_Inr(2) [OF assms(2)] by (rule length_utf8)
  also have "length (dump (\<lambda>f. []) (canon (obj kvs))) \<le> 2 + items_size ?d"
    using length_dump_members [of "sort_key (\<lambda>kv. key_str (fst kv)) ?d"] fd
    by (simp add: obj_def canon_flat_items flat_items_sort items_size_sort)
  also have "items_size ?d = sum_list (map (\<lambda>(k, v). 6 * length k + 4 + flat_size v) kvs)"
    by (simp add: items_size_def comp_def case_prod_unfold)
  finally show ?thesis by simp
qed

lemma length_b64encode: "length (b64encode b) \<le> 2 * length b + 2"
  by (induction b rule: b64encode.induct) simp_all

lemma unb64_b64 [simp]:
  assumes "length b < maximum"
  shows "unb64 name maximum (b64 b) = Inr b"
  using assms length_b64encode [of b] by (simp add: unb64_def b64_def b64_roundtrip)

subsection \<open>Documents the sealer binds\<close>

text \<open>The identifiers of a validated job: its id, the target and road digests, the quarantine key id.\<close>

definition evidence_ids :: "pystr \<Rightarrow> pystr \<Rightarrow> pystr \<Rightarrow> pystr \<Rightarrow> bool" where
  "evidence_ids j th rf kid \<longleftrightarrow> job_id_re j \<and> is_digest th \<and> is_digest rf \<and> key_id_ok kid"

lemma zero_hash_digest [simp]: "is_digest zero_hash"
  by (simp add: zero_hash_def is_digest_def is_hex_char_def list_all_iff)

lemma job_id_re_ok:
  assumes "job_id_re j"
  shows "utf8_encode j \<noteq> None" "length j = 20" "take 4 j = str ''job-''"
proof -
  have d: "take 4 j = str ''job-''" "length (drop 4 j) = 16" "list_all is_hex_char (drop 4 j)"
    using assms by (auto simp: job_id_re_def is_hex_def)
  have "utf8_encode (take 4 j) \<noteq> None" by (simp add: d(1))
  moreover have "utf8_encode (drop 4 j) \<noteq> None" by (rule hex_encodable [OF d(3)])
  ultimately have "utf8_encode (take 4 j @ drop 4 j) \<noteq> None" unfolding encodable_append by simp
  then show "utf8_encode j \<noteq> None" unfolding append_take_drop_id .
  show "length j = 20" using d(1,2) arg_cong [OF d(1), of length] by simp
  show "take 4 j = str ''job-''" by (rule d(1))
qed

lemma key_id_encodable: "key_id_ok k \<Longrightarrow> utf8_encode k \<noteq> None"
  by (simp add: key_id_ok_def hex_encodable)

lemma length_small_int: "n < 10000 \<Longrightarrow> length (dump_int (int n)) \<le> 4"
  using length_dec [of n 3] by (simp add: dump_int_def)

lemma record_type_ok:
  assumes "rt \<in> set RECORD_TYPES"
  shows "length rt \<le> 14" "1 \<le> length rt" "utf8_encode (str rt) \<noteq> None"
  using assms by (auto simp: RECORD_TYPES_def)

lemma chunk_aad_canonical:
  assumes "evidence_ids j th rf kid" "is_digest prev" "rt \<in> set RECORD_TYPES" "n < 1024"
  obtains b where "canonical_bytes (chunk_aad (PStr j) (PStr th) (PStr rf) n prev (str rt) final) = Inr b"
    "length b < 64 * 1024"
proof -
  note ids = assms(1) [unfolded evidence_ids_def]
  have "validate (chunk_aad (PStr j) (PStr th) (PStr rf) n prev (str rt) final) = Inr ()"
    using ids assms(2,4) record_type_ok(3) [OF assms(3)] job_id_re_ok(1) [of j]
    by (simp add: chunk_aad_def validate_obj MAX_SAFE_INTEGER_def)
  then obtain b where b: "canonical_bytes (chunk_aad (PStr j) (PStr th) (PStr rf) n prev (str rt) final) = Inr b"
    by (rule canonical_bytes_eq)
  have "length b < 64 * 1024"
    using length_canonical_flat [OF _ b [unfolded chunk_aad_def]] ids assms(2,4) record_type_ok(1) [OF assms(3)]
      length_small_int [of n] job_id_re_ok(2) [of j]
    by (simp add: is_digest_def split: if_splits)
  with b that show ?thesis by blast
qed

lemma wrap_info_canonical:
  assumes "evidence_ids j th rf kid"
  obtains b where "canonical_bytes (wrap_info (PStr j) (PStr th) (PStr rf)) = Inr b" "length b < 16 * 1024"
proof -
  note ids = assms [unfolded evidence_ids_def]
  have "validate (wrap_info (PStr j) (PStr th) (PStr rf)) = Inr ()"
    using ids job_id_re_ok(1) [of j] by (simp add: wrap_info_def validate_obj)
  then obtain b where b: "canonical_bytes (wrap_info (PStr j) (PStr th) (PStr rf)) = Inr b"
    by (rule canonical_bytes_eq)
  have "length b < 16 * 1024"
    using length_canonical_flat [OF _ b [unfolded wrap_info_def]] ids job_id_re_ok(2) [of j]
    by (simp add: is_digest_def)
  with b that show ?thesis by blast
qed

lemma wrap_aad_canonical:
  assumes "evidence_ids j th rf kid"
  obtains b where "canonical_bytes (wrap_aad (PStr kid)) = Inr b" "length b < 16 * 1024"
proof -
  note ids = assms [unfolded evidence_ids_def]
  have "validate (wrap_aad (PStr kid)) = Inr ()"
    using ids key_id_encodable [of kid] by (simp add: wrap_aad_def validate_obj SUITE_ID_def)
  then obtain b where b: "canonical_bytes (wrap_aad (PStr kid)) = Inr b" by (rule canonical_bytes_eq)
  have "length b < 16 * 1024"
    using length_canonical_flat [OF _ b [unfolded wrap_aad_def]] ids
    by (simp add: key_id_ok_def SUITE_ID_def)
  with b that show ?thesis by blast
qed

subsection \<open>Chunks the host accepts\<close>

text \<open>
  \<open>linked lib j th rf n prev final c\<close>: chunk number \<open>n\<close> carries, authenticated, the job's identifiers, its
  number, the digest of the ciphertext before it and whether it is the last.
\<close>

definition linked :: "'st sodium \<Rightarrow> pystr \<Rightarrow> pystr \<Rightarrow> pystr \<Rightarrow> nat \<Rightarrow> pystr \<Rightarrow> bool \<Rightarrow> chunk \<Rightarrow> bool" where
  "linked lib j th rf n prev final c \<longleftrightarrow>
     ck_sequence c = PInt (int n) \<and> ck_final c = PBool final \<and>
     ABYTES lib \<le> length (ck_ciphertext c) \<and> length (ck_ciphertext c) \<le> 64 * 1024 + ABYTES lib \<and>
     (\<exists>rt\<in>set RECORD_TYPES.
        canonical_bytes (chunk_aad (PStr j) (PStr th) (PStr rf) n prev (str rt) final) = Inr (ck_aad c))"

lemma check_names_ok: "list_all ok ns \<Longrightarrow> check_names ok msg ns = Inr ()"
  by (induction ns) auto

lemma chunk_record_fields [simp]:
  "get (chunk_record c) ''sequence'' = ck_sequence c" "get (chunk_record c) ''final'' = ck_final c"
  "get (chunk_record c) ''aad_b64'' = b64 (ck_aad c)"
  "get (chunk_record c) ''ciphertext_b64'' = b64 (ck_ciphertext c)"
  "get (chunk_record c) ''ciphertext_sha256'' = PStr (sha256_hexdigest (ck_ciphertext c))"
  "has_shape (chunk_record c) CHUNK_KEYS"
  by (simp_all add: chunk_record_def CHUNK_KEYS_def py_eval)

lemma chunk_aad_reread:
  assumes "canonical_bytes (chunk_aad (PStr j) (PStr th) (PStr rf) n prev rt final) = Inr b"
  shows "json_loads b = Inr (canon (chunk_aad (PStr j) (PStr th) (PStr rf) n prev rt final))"
    "canonical_bytes (canon (chunk_aad (PStr j) (PStr th) (PStr rf) n prev rt final)) = Inr b"
    "has_shape (canon (chunk_aad (PStr j) (PStr th) (PStr rf) n prev rt final)) AAD_KEYS"
    "get (canon (chunk_aad (PStr j) (PStr th) (PStr rf) n prev rt final)) k
       = get (chunk_aad (PStr j) (PStr th) (PStr rf) n prev rt final) k"
proof -
  note r = reread [OF _ _ assms [unfolded chunk_aad_def], folded chunk_aad_def, simplified]
  show "json_loads b = Inr (canon (chunk_aad (PStr j) (PStr th) (PStr rf) n prev rt final))" by (rule r(1))
  show "canonical_bytes (canon (chunk_aad (PStr j) (PStr th) (PStr rf) n prev rt final)) = Inr b" by (rule r(2))
  show "has_shape (canon (chunk_aad (PStr j) (PStr th) (PStr rf) n prev rt final)) AAD_KEYS"
    using r(4) by (simp add: AAD_KEYS_def)
  show "get (canon (chunk_aad (PStr j) (PStr th) (PStr rf) n prev rt final)) k
       = get (chunk_aad (PStr j) (PStr th) (PStr rf) n prev rt final) k" by (rule r(5))
qed

lemma py_eq_flat: "flat v \<Longrightarrow> validate v = Inr () \<Longrightarrow> py_eq v v"
  by (cases v) (simp_all add: flat_def)

lemma check_chunk_linked:
  assumes "linked lib j th rf n prev (Suc n = N) c" "ABYTES lib \<le> 1024"
    and m: "get m ''job_id'' = PStr j" "get m ''target_hash'' = PStr th" "get m ''road_frozen_hash'' = PStr rf"
    and ids: "evidence_ids j th rf kid" "is_digest prev" "n < 1024"
  shows "check_chunk lib m N n prev (chunk_record c) = Inr (ck_ciphertext c)"
proof -
  from assms(1) obtain rt where c: "ck_sequence c = PInt (int n)" "ck_final c = PBool (Suc n = N)"
      "ABYTES lib \<le> length (ck_ciphertext c)" "length (ck_ciphertext c) \<le> 64 * 1024 + ABYTES lib"
      "rt \<in> set RECORD_TYPES"
      "canonical_bytes (chunk_aad (PStr j) (PStr th) (PStr rf) n prev (str rt) (Suc n = N)) = Inr (ck_aad c)"
    by (auto simp: linked_def)
  note r = chunk_aad_reread [OF c(6)]
  have "length (ck_aad c) < 64 * 1024"
    using chunk_aad_canonical [OF ids(1,2) c(5) ids(3), of "Suc n = N"] c(6) by (metis Inr_inject)
  moreover have names: "check_names (\<lambda>k. py_eq (get (canon (chunk_aad (PStr j) (PStr th) (PStr rf) n prev (str rt) (Suc n = N))) k)
        (the (map_of (expected_binding m n prev (PBool (Suc n = N))) k))) msg
      (map fst (expected_binding m n prev (PBool (Suc n = N)))) = Inr ()" for msg
    by (rule check_names_ok) (simp add: r(4) expected_binding_def m, simp add: chunk_aad_def get_obj)
  moreover have "in_set (get (canon (chunk_aad (PStr j) (PStr th) (PStr rf) n prev (str rt) (Suc n = N))) ''record_type'')
      RECORD_TYPES = Inr True"
    using c(5) by (simp add: r(4), simp add: chunk_aad_def get_obj in_set_def in_strs_S)
  ultimately show ?thesis using c(1-4) assms(2) r(1-3)
    by (simp add: check_chunk_def loads_or_def)
qed

text \<open>A run of linked chunks; \<open>N\<close> is the length of the whole stream, whose last chunk is final.\<close>

fun linked_from :: "'st sodium \<Rightarrow> pystr \<Rightarrow> pystr \<Rightarrow> pystr \<Rightarrow> nat \<Rightarrow> nat \<Rightarrow> pystr \<Rightarrow> chunk list \<Rightarrow> bool" where
  "linked_from lib j th rf N n prev [] = True"
| "linked_from lib j th rf N n prev (c # cs) =
     (linked lib j th rf n prev (Suc n = N) c \<and>
      linked_from lib j th rf N (Suc n) (sha256_hexdigest (ck_ciphertext c)) cs)"

fun tip :: "pystr \<Rightarrow> chunk list \<Rightarrow> pystr" where
  "tip prev [] = prev"
| "tip prev (c # cs) = tip (sha256_hexdigest (ck_ciphertext c)) cs"

lemma tip_snoc [simp]: "tip prev (cs @ [c]) = sha256_hexdigest (ck_ciphertext c)"
  by (induction cs arbitrary: prev) auto

lemma tip_digest: "is_digest prev \<Longrightarrow> is_digest (tip prev cs)"
  by (induction cs arbitrary: prev) auto

lemma linked_from_snoc:
  "linked_from lib j th rf N n prev (cs @ [c]) \<longleftrightarrow>
     linked_from lib j th rf N n prev cs \<and>
     linked lib j th rf (n + length cs) (tip prev cs) (Suc (n + length cs) = N) c"
  by (induction cs arbitrary: n prev) auto

lemma linked_from_open:
  "linked_from lib j th rf 0 n prev cs \<Longrightarrow> n + length cs < N \<Longrightarrow> linked_from lib j th rf N n prev cs"
  by (induction cs arbitrary: n prev) auto

definition cipher_bytes :: "chunk list \<Rightarrow> nat" where
  "cipher_bytes cs = sum_list (map (\<lambda>c. length (ck_ciphertext c)) cs)"

lemma check_chunks_linked:
  assumes "linked_from lib j th rf N n prev cs" "n + length cs = N" "N \<le> 1024"
    and "int (t + cipher_bytes cs) \<le> max_bytes" "is_digest prev"
    and "ABYTES lib \<le> 1024" "get m ''job_id'' = PStr j" "get m ''target_hash'' = PStr th"
      "get m ''road_frozen_hash'' = PStr rf" "evidence_ids j th rf kid"
  shows "check_chunks lib m max_bytes N n prev t (map chunk_record cs)
    = Inr (map (\<lambda>c. sha256_hexdigest (ck_ciphertext c)) cs, t + cipher_bytes cs)"
  using assms(1-5)
proof (induction cs arbitrary: n prev t)
  case Nil
  then show ?case by (simp add: cipher_bytes_def)
next
  case (Cons c cs)
  then have "check_chunk lib m N n prev (chunk_record c) = Inr (ck_ciphertext c)"
    using assms(6-10) by (intro check_chunk_linked) auto
  moreover have "check_chunks lib m max_bytes N (Suc n) (sha256_hexdigest (ck_ciphertext c))
      (t + length (ck_ciphertext c)) (map chunk_record cs)
    = Inr (map (\<lambda>c. sha256_hexdigest (ck_ciphertext c)) cs, t + length (ck_ciphertext c) + cipher_bytes cs)"
    using Cons.prems by (intro Cons.IH) (auto simp: cipher_bytes_def)
  ultimately show ?case using Cons.prems(4) by (simp add: Let_def cipher_bytes_def)
qed

end
