(* ===== verification/Evidence_Session.thy ===== *)
theory Evidence_Session
  imports Evidence_Facts
begin

section \<open>Sealing sessions\<close>

text \<open>
  A session creates a sealer, appends records, appends a final one and finalises. \<open>sealing\<close> is the
  invariant between appends; it relates the push state to the state a reader of the bundle will have
  reached. From it follow that the bundle of a session passes \<open>validate_bundle\<close> and that
  \<open>decrypt_bundle\<close> returns the payloads.
\<close>

fun append_all :: "'st sodium \<Rightarrow> 'st sealer \<Rightarrow> (string \<times> bytes) list \<Rightarrow> 'st sealer \<times> unit res" where
  "append_all lib s [] = (s, Inr ())"
| "append_all lib s ((rt, payload) # rest) =
     (case seal_append lib s (str rt) payload False of
        (s', Inl e) \<Rightarrow> (s', Inl e)
      | (s', Inr u) \<Rightarrow> append_all lib s' rest)"

text \<open>What appending never changes.\<close>

definition same_session :: "'st sealer \<Rightarrow> 'st sealer \<Rightarrow> bool" where
  "same_session s s' \<longleftrightarrow>
     sl_job_id s' = sl_job_id s \<and> sl_target_hash s' = sl_target_hash s \<and>
     sl_road_frozen_hash s' = sl_road_frozen_hash s \<and> sl_key_id s' = sl_key_id s \<and>
     sl_max_evidence_bytes s' = sl_max_evidence_bytes s \<and> sl_hpke_info s' = sl_hpke_info s \<and>
     sl_hpke_aad s' = sl_hpke_aad s \<and> sl_enc s' = sl_enc s \<and> sl_wrapped_cek s' = sl_wrapped_cek s \<and>
     ps_header (sl_stream s') = ps_header (sl_stream s)"

lemma same_session_trans: "same_session s t \<Longrightarrow> same_session t u \<Longrightarrow> same_session s u"
  by (simp add: same_session_def)

definition sealing ::
  "'st sodium \<Rightarrow> ('st \<Rightarrow> 'st \<Rightarrow> bool) \<Rightarrow> 'st \<Rightarrow> pystr \<Rightarrow> pystr \<Rightarrow> pystr \<Rightarrow> 'st sealer \<Rightarrow> bytes list \<Rightarrow> bool" where
  "sealing lib sync t0 j th rf s ms \<longleftrightarrow>
     sl_job_id s = PStr j \<and> sl_target_hash s = PStr th \<and> sl_road_frozen_hash s = PStr rf \<and>
     \<not> sl_finalized s \<and> \<not> ps_finalized (sl_stream s) \<and>
     ps_sequence (sl_stream s) = length (sl_chunks s) \<and>
     linked_from lib j th rf 0 0 zero_hash (sl_chunks s) \<and> sl_previous s = tip zero_hash (sl_chunks s) \<and>
     sl_ciphertext_bytes s = cipher_bytes (sl_chunks s) \<and> sl_plaintext_bytes s \<le> sl_ciphertext_bytes s \<and>
     int (sl_ciphertext_bytes s) \<le> sl_max_evidence_bytes s \<and>
     (\<exists>t. pulled lib t0 (sl_chunks s) ms t \<and> sync (ps_state (sl_stream s)) t)"

text \<open>One successful append, on either value of the final flag.\<close>

lemma seal_append_step:
  assumes inv: "sealing lib sync t0 j th rf s ms" and con: "stream_contract lib sync"
    and ids: "evidence_ids j th rf kid" and rt: "rt \<in> set RECORD_TYPES" and n: "length (sl_chunks s) < 1024"
    and ok: "seal_append lib s (str rt) p final = (s', Inr ())"
  obtains t c t' where
    "pulled lib t0 (sl_chunks s) ms t"
    "sodium_pull lib t (ck_ciphertext c) (ck_aad c) = (0, t', p, if final then TAG_FINAL else TAG_MESSAGE)"
    "linked lib j th rf (length (sl_chunks s)) (tip zero_hash (sl_chunks s)) final c"
    "sl_chunks s' = sl_chunks s @ [c]" "same_session s s'"
    "sl_previous s' = sha256_hexdigest (ck_ciphertext c)" "sl_finalized s' = final"
    "sl_ciphertext_bytes s' = cipher_bytes (sl_chunks s @ [c])" "sl_plaintext_bytes s' \<le> sl_ciphertext_bytes s'"
    "int (sl_ciphertext_bytes s') \<le> sl_max_evidence_bytes s'"
    "ps_finalized (sl_stream s') = final" "ps_sequence (sl_stream s') = Suc (length (sl_chunks s))"
    "final \<or> sync (ps_state (sl_stream s')) t'"
proof -
  let ?tag = "if final then TAG_FINAL else TAG_MESSAGE"
  from inv obtain t where t: "pulled lib t0 (sl_chunks s) ms t" "sync (ps_state (sl_stream s)) t"
    by (auto simp: sealing_def)
  have dg: "is_digest (tip zero_hash (sl_chunks s))" by (simp add: tip_digest)
  obtain aad where aad: "canonical_bytes (chunk_aad (PStr j) (PStr th) (PStr rf) (length (sl_chunks s))
      (tip zero_hash (sl_chunks s)) (str rt) final) = Inr aad"
    by (rule chunk_aad_canonical [OF ids dg rt n])
  obtain st' c t' where f: "sodium_push lib (ps_state (sl_stream s)) p aad ?tag = (0, st', c)"
    "length c = length p + ABYTES lib" "sodium_pull lib t c aad = (0, t', p, ?tag)" "sync st' t'"
    by (rule follows_ok [OF con t(2) tag_byte])
  have small: "length p \<le> MAX_CHUNK_BYTES" "int (sl_ciphertext_bytes s + length c) \<le> sl_max_evidence_bytes s"
    and s': "s' = s\<lparr>sl_stream := (sl_stream s)\<lparr>ps_state := if final then zero_state lib else st',
        ps_sequence := Suc (length (sl_chunks s)), ps_finalized := final\<rparr>,
      sl_chunks := sl_chunks s @ [\<lparr>ck_sequence = PInt (int (length (sl_chunks s))), ck_aad = aad,
        ck_ciphertext = c, ck_final = PBool final\<rparr>],
      sl_plaintext_bytes := sl_plaintext_bytes s + length p,
      sl_ciphertext_bytes := sl_ciphertext_bytes s + length c,
      sl_previous := sha256_hexdigest c, sl_finalized := final,
      sl_cek := if final then memzero (sl_cek s) else sl_cek s\<rparr>"
    using ok inv aad f(1) record_type_ok [OF rt]
    by (auto simp: seal_append_def sealing_def push_def Let_def split: if_splits)
  let ?c = "\<lparr>ck_sequence = PInt (int (length (sl_chunks s))), ck_aad = aad, ck_ciphertext = c, ck_final = PBool final\<rparr>"
  have "linked lib j th rf (length (sl_chunks s)) (tip zero_hash (sl_chunks s)) final ?c"
    using f(2) small(1) rt aad by (auto simp: linked_def MAX_CHUNK_BYTES_def)
  with that [of t ?c t'] t f small inv show ?thesis
    by (simp add: s' same_session_def sealing_def cipher_bytes_def)
qed

lemma seal_append_keeps:
  assumes "sealing lib sync t0 j th rf s ms" "stream_contract lib sync"
    "evidence_ids j th rf kid" "rt \<in> set RECORD_TYPES" "length (sl_chunks s) < 1024"
    "seal_append lib s (str rt) p False = (s', Inr ())"
  shows "sealing lib sync t0 j th rf s' (ms @ [p]) \<and> same_session s s' \<and>
    length (sl_chunks s') = Suc (length (sl_chunks s))"
proof -
  obtain t c t' where c: "pulled lib t0 (sl_chunks s) ms t"
    "sodium_pull lib t (ck_ciphertext c) (ck_aad c) = (0, t', p, if False then TAG_FINAL else TAG_MESSAGE)"
    "linked lib j th rf (length (sl_chunks s)) (tip zero_hash (sl_chunks s)) False c"
    "sl_chunks s' = sl_chunks s @ [c]" "same_session s s'"
    "sl_previous s' = sha256_hexdigest (ck_ciphertext c)" "sl_finalized s' = False"
    "sl_ciphertext_bytes s' = cipher_bytes (sl_chunks s @ [c])" "sl_plaintext_bytes s' \<le> sl_ciphertext_bytes s'"
    "int (sl_ciphertext_bytes s') \<le> sl_max_evidence_bytes s'"
    "ps_finalized (sl_stream s') = False" "ps_sequence (sl_stream s') = Suc (length (sl_chunks s))"
    "False \<or> sync (ps_state (sl_stream s')) t'"
    by (rule seal_append_step [OF assms])
  have "pulled lib t [c] [p] t'" using c(2,3) by (simp add: linked_def)
  with pulled_append [OF c(1)] have "pulled lib t0 (sl_chunks s @ [c]) (ms @ [p]) t'" by blast
  with c assms(1) show ?thesis
    by (auto simp: sealing_def linked_from_snoc same_session_def)
qed

lemma append_all_keeps:
  assumes "sealing lib sync t0 j th rf s ms" "stream_contract lib sync" "evidence_ids j th rf kid"
    "list_all (\<lambda>(rt, p). rt \<in> set RECORD_TYPES) recs" "length (sl_chunks s) + length recs \<le> 1024"
    "append_all lib s recs = (s', Inr ())"
  shows "sealing lib sync t0 j th rf s' (ms @ map snd recs) \<and> same_session s s' \<and>
    length (sl_chunks s') = length (sl_chunks s) + length recs"
  using assms(1,4-6)
proof (induction recs arbitrary: s ms)
  case Nil
  then show ?case by (simp add: same_session_def)
next
  case (Cons r recs)
  obtain rt p where r: "r = (rt, p)" by (cases r)
  from Cons.prems(4) obtain s1 where s1: "seal_append lib s (str rt) p False = (s1, Inr ())"
    "append_all lib s1 recs = (s', Inr ())" by (auto simp: r split: prod.splits sum.splits)
  have k: "sealing lib sync t0 j th rf s1 (ms @ [p])" "same_session s s1"
    "length (sl_chunks s1) = Suc (length (sl_chunks s))"
    using seal_append_keeps [OF Cons.prems(1) assms(2,3) _ _ s1(1)] Cons.prems(2,3) by (simp_all add: r)
  show ?case using Cons.IH [OF k(1) _ _ s1(2)] Cons.prems(2,3) k(2,3) same_session_trans [OF k(2)]
    by (auto simp: r)
qed

subsection \<open>The finished bundle\<close>

definition sealed :: "'st sodium \<Rightarrow> pystr \<Rightarrow> pystr \<Rightarrow> pystr \<Rightarrow> pystr \<Rightarrow> 'st sealer \<Rightarrow> bool" where
  "sealed lib j th rf kid s \<longleftrightarrow>
     evidence_ids j th rf kid \<and> sl_job_id s = PStr j \<and> sl_target_hash s = PStr th \<and>
     sl_road_frozen_hash s = PStr rf \<and> sl_key_id s = PStr kid \<and> sl_finalized s \<and>
     canonical_bytes (wrap_info (PStr j) (PStr th) (PStr rf)) = Inr (sl_hpke_info s) \<and>
     canonical_bytes (wrap_aad (PStr kid)) = Inr (sl_hpke_aad s) \<and>
     length (sl_enc s) = 32 \<and> length (sl_wrapped_cek s) = 48 \<and>
     length (ps_header (sl_stream s)) = HEADER_BYTES lib \<and>
     sl_chunks s \<noteq> [] \<and> length (sl_chunks s) \<le> 1024 \<and>
     linked_from lib j th rf (length (sl_chunks s)) 0 zero_hash (sl_chunks s) \<and>
     sl_ciphertext_bytes s = cipher_bytes (sl_chunks s) \<and> sl_plaintext_bytes s \<le> sl_ciphertext_bytes s"

lemma last_linked:
  assumes "linked_from lib j th rf (length cs) 0 zero_hash cs" "cs \<noteq> []"
  shows "ck_final (last cs) = PBool True"
proof -
  from assms(2) obtain ds c where "cs = ds @ [c]" by (cases cs rule: rev_cases) auto
  with assms(1) show ?thesis by (simp add: linked_from_snoc linked_def)
qed

lemma evidence_manifest_fields [simp]:
  "get (evidence_manifest s rs h) ''job_id'' = sl_job_id s"
  "get (evidence_manifest s rs h) ''target_hash'' = sl_target_hash s"
  "get (evidence_manifest s rs h) ''road_frozen_hash'' = sl_road_frozen_hash s"
  "get (evidence_manifest s rs h) ''quarantine_key_id'' = sl_key_id s"
  "get (evidence_manifest s rs h) ''guest_evidence_root'' = PStr h"
  "get (evidence_manifest s rs h) ''chunk_count'' = PInt (int (length rs))"
  "get (evidence_manifest s rs h) ''total_ciphertext_bytes'' = PInt (int (sl_ciphertext_bytes s))"
  "get (evidence_manifest s rs h) ''total_plaintext_bytes'' = PInt (int (sl_plaintext_bytes s))"
  "get (evidence_manifest s rs h) ''manifest_version'' = S ''cindermote.guest-evidence/v1''"
  "get (evidence_manifest s rs h) ''suite_id'' = S SUITE_ID"
  "get (evidence_manifest s rs h) ''sequence_gaps'' = PInt 0"
  "get (evidence_manifest s rs h) ''complete'' = PBool (rs \<noteq> [] \<and> truthy (get (last rs) ''final''))"
  "has_shape (evidence_manifest s rs h) BUNDLE_MANIFEST_KEYS"
  by (simp_all add: evidence_manifest_def BUNDLE_MANIFEST_KEYS_def py_eval)

lemma evidence_bundle_fields [simp]:
  "has_shape (evidence_bundle s rs h) BUNDLE_KEYS"
  "get (evidence_bundle s rs h) ''bundle_version'' = S ''cindermote.guest-evidence-bundle/v1''"
  "get (evidence_bundle s rs h) ''manifest'' = evidence_manifest s rs h"
  "get (evidence_bundle s rs h) ''secretstream_header_b64'' = b64 (ps_header (sl_stream s))"
  "get (evidence_bundle s rs h) ''chunks'' = PList rs"
  "get (evidence_bundle s rs h) ''hpke'' = obj
     [(''enc_b64'', b64 (sl_enc s)), (''wrapped_cek_b64'', b64 (sl_wrapped_cek s)),
      (''info_b64'', b64 (sl_hpke_info s)), (''aad_b64'', b64 (sl_hpke_aad s))]"
  by (simp_all add: evidence_bundle_def BUNDLE_KEYS_def py_eval)

lemma check_manifest_sealed:
  assumes "sealed lib j th rf kid s" "int (sl_ciphertext_bytes s) \<le> max_bytes" "is_digest h"
  shows "check_manifest max_bytes (evidence_manifest s (map chunk_record (sl_chunks s)) h) = Inr ()"
proof -
  have "ck_final (last (sl_chunks s)) = PBool True" "sl_chunks s \<noteq> []"
    using assms(1) last_linked unfolding sealed_def by blast+
  then show ?thesis
    using assms job_id_re_ok(3) [of j]
    by (auto simp: check_manifest_def sealed_def evidence_ids_def digest_value_def count_value_def key_id_ok_def
        last_map)
qed

lemma check_hpke_sealed:
  assumes "sealed lib j th rf kid s"
  shows "check_hpke (evidence_manifest s rs h) (obj
     [(''enc_b64'', b64 (sl_enc s)), (''wrapped_cek_b64'', b64 (sl_wrapped_cek s)),
      (''info_b64'', b64 (sl_hpke_info s)), (''aad_b64'', b64 (sl_hpke_aad s))]) = Inr ()"
proof -
  have c: "canonical_bytes (wrap_info (PStr j) (PStr th) (PStr rf)) = Inr (sl_hpke_info s)"
    "canonical_bytes (wrap_aad (PStr kid)) = Inr (sl_hpke_aad s)" "evidence_ids j th rf kid"
    using assms by (simp_all add: sealed_def)
  have l: "length (sl_hpke_info s) < 16 * 1024" "length (sl_hpke_aad s) < 16 * 1024"
    using wrap_info_canonical [OF c(3)] wrap_aad_canonical [OF c(3)] c(1,2) by (metis Inr_inject)+
  note i = reread(1,2,3) [OF _ _ c(1) [unfolded wrap_info_def], folded wrap_info_def, simplified]
  note a = reread(1,2,3) [OF _ _ c(2) [unfolded wrap_aad_def], folded wrap_aad_def, simplified]
  show ?thesis using assms l i a
    by (simp add: check_hpke_def HPKE_KEYS_def py_eval sealed_def loads_or_def check_binding_def)
qed

lemma sealed_validates:
  assumes s: "sealed lib j th rf kid s" and b: "int (sl_ciphertext_bytes s) \<le> max_bytes"
    and l: "ABYTES lib \<le> 1024" "HEADER_BYTES lib < 128"
  obtains h where "seal_finalize lib s = (s, Inr (evidence_bundle s (map chunk_record (sl_chunks s)) h))"
    "validate_bundle lib max_bytes (evidence_bundle s (map chunk_record (sl_chunks s)) h)
      = Inr (evidence_bundle s (map chunk_record (sl_chunks s)) h)"
proof -
  let ?hs = "map (\<lambda>c. PStr (sha256_hexdigest (ck_ciphertext c))) (sl_chunks s)"
  let ?root = "root_payload (ps_header (sl_stream s)) ?hs"
  have "validate ?root = Inr ()"
    by (simp add: root_payload_def validate_obj validate_list_all list_all_iff)
  then obtain h where h: "sha256_hex ?root = Inr h" using sha256_hex_total by blast
  have dg: "is_digest h" by (rule sha256_hex_digest [OF h])
  let ?b = "evidence_bundle s (map chunk_record (sl_chunks s)) h"
  have "seal_finalize lib s = (s, Inr ?b)" using s h
    by (simp add: seal_finalize_def sealed_def Let_def comp_def)
  moreover have "check_chunks lib (evidence_manifest s (map chunk_record (sl_chunks s)) h) max_bytes
      (length (sl_chunks s)) 0 zero_hash 0 (map chunk_record (sl_chunks s))
    = Inr (map (\<lambda>c. sha256_hexdigest (ck_ciphertext c)) (sl_chunks s), cipher_bytes (sl_chunks s))"
    using s b l check_chunks_linked [of lib j th rf "length (sl_chunks s)" 0 zero_hash "sl_chunks s" 0 max_bytes]
    by (auto simp: sealed_def)
  ultimately show ?thesis using that [of h] s h l check_manifest_sealed [OF s b dg]
      check_hpke_sealed [OF s, of "map chunk_record (sl_chunks s)" h]
    by (simp add: validate_bundle_def sealed_def comp_def)
qed

subsection \<open>Reading the bundle back\<close>

lemma linked_numbered: "linked_from lib j th rf N n prev cs \<Longrightarrow> numbered n cs"
  by (induction cs arbitrary: n prev) (auto simp: numbered_Cons linked_def, simp add: numbered_def)

lemma decrypt_chunk_record:
  assumes "linked lib j th rf n prev final c" "evidence_ids j th rf kid" "is_digest prev" "n < 1024" "ABYTES lib \<le> 1024"
  shows "decrypt_chunk (chunk_record c) = Inr c"
proof -
  from assms(1) obtain rt where c: "length (ck_ciphertext c) \<le> 64 * 1024 + ABYTES lib" "rt \<in> set RECORD_TYPES"
      "canonical_bytes (chunk_aad (PStr j) (PStr th) (PStr rf) n prev (str rt) final) = Inr (ck_aad c)"
    by (auto simp: linked_def)
  have "length (ck_aad c) < 64 * 1024"
    using chunk_aad_canonical [OF assms(2,3) c(2) assms(4), of final] c(3) by (metis Inr_inject)
  with c(1) assms(5) show ?thesis by (simp add: decrypt_chunk_def chunk_record_def py_eval)
qed

lemma decrypt_chunk_records:
  assumes "linked_from lib j th rf N n prev cs" "evidence_ids j th rf kid" "is_digest prev"
    "n + length cs \<le> 1024" "ABYTES lib \<le> 1024"
  shows "mapE decrypt_chunk (map chunk_record cs) = Inr cs"
  using assms(1,3,4)
proof (induction cs arbitrary: n prev)
  case (Cons c cs)
  then show ?case
    using decrypt_chunk_record [of lib j th rf n prev "Suc n = N" c kid] Cons.IH [of "Suc n"] assms(2,5)
    by (auto simp: sha256_hexdigest_is_digest)
qed simp

text \<open>The whole session, from a fresh sealer to the finished stream.\<close>

definition session ::
  "key_lib \<Rightarrow> 'st sodium \<Rightarrow> bytes \<Rightarrow> bytes \<Rightarrow> pystr \<Rightarrow> pystr \<Rightarrow> pystr \<Rightarrow> bytes \<Rightarrow> pystr \<Rightarrow> int \<Rightarrow>
   (string \<times> bytes) list \<Rightarrow> string \<times> bytes \<Rightarrow> 'st sealer res" where
  "session keys lib cek fresh j th rf public kid max_bytes recs r =
     bindE (sealer_init keys lib cek fresh (PStr j) (PStr th) (PStr rf) public (PStr kid) max_bytes) (\<lambda>s0.
     case append_all lib s0 recs of
       (s1, Inl e) \<Rightarrow> Inl e
     | (s1, Inr u) \<Rightarrow> (case seal_append lib s1 (str (fst r)) (snd r) True of
           (s2, Inl e) \<Rightarrow> Inl e
         | (s2, Inr u) \<Rightarrow> Inr s2))"

text \<open>The documented sizes and laws of the two libraries, for the keys of one session.\<close>

definition crypto_ok :: "key_lib \<Rightarrow> 'st sodium \<Rightarrow> ('st \<Rightarrow> 'st \<Rightarrow> bool) \<Rightarrow> bytes \<Rightarrow> bytes \<Rightarrow> bool" where
  "crypto_ok keys lib sync fresh private \<longleftrightarrow>
     stream_contract lib sync \<and> KEY_BYTES lib = 32 \<and> HEADER_BYTES lib = 24 \<and> ABYTES lib = 17 \<and>
     aead keys \<and> agreement keys fresh private \<and> length private = 32"

lemma sealer_init_sealing:
  assumes c: "crypto_ok keys lib sync fresh private" and ids: "evidence_ids j th rf kid"
    and cek: "length cek = 32" and m: "0 \<le> max_bytes"
  obtains s t0 where
    "sealer_init keys lib cek fresh (PStr j) (PStr th) (PStr rf) (kl_public keys private) (PStr kid) max_bytes = Inr s"
    "sealing lib sync t0 j th rf s []" "sl_chunks s = []" "sl_key_id s = PStr kid" "sl_max_evidence_bytes s = max_bytes"
    "canonical_bytes (wrap_info (PStr j) (PStr th) (PStr rf)) = Inr (sl_hpke_info s)"
    "canonical_bytes (wrap_aad (PStr kid)) = Inr (sl_hpke_aad s)"
    "length (sl_enc s) = 32" "length (sl_wrapped_cek s) = 48" "length (ps_header (sl_stream s)) = HEADER_BYTES lib"
    "open_base keys private (sl_enc s) (sl_wrapped_cek s) (sl_hpke_info s) (sl_hpke_aad s) = Inr cek"
    "init_pull lib (ps_header (sl_stream s)) cek = (0, t0)"
proof -
  note k = c [unfolded crypto_ok_def]
  obtain info where info: "canonical_bytes (wrap_info (PStr j) (PStr th) (PStr rf)) = Inr info"
    by (rule wrap_info_canonical [OF ids])
  obtain aad where aad: "canonical_bytes (wrap_aad (PStr kid)) = Inr aad"
    by (rule wrap_aad_canonical [OF ids])
  obtain box where box: "seal_base keys (kl_public keys private) cek info aad None fresh = Inr box"
    "length (sb_enc box) = 32" "length (sb_ciphertext box) = length cek + 16"
    "open_base keys private (sb_enc box) (sb_ciphertext box) info aad = Inr cek"
    using k by (elim conjE) (rule seal_open)
  obtain st t0 where st: "push_stream_init lib cek = Inr st" "init_pull lib (ps_header st) cek = (0, t0)"
    "sync (ps_state st) t0" "length (ps_header st) = HEADER_BYTES lib" "ps_sequence st = 0" "\<not> ps_finalized st"
    by (rule push_init_ok [of lib sync cek]) (use k cek in auto)
  let ?s = "\<lparr>sl_job_id = PStr j, sl_target_hash = PStr th, sl_road_frozen_hash = PStr rf, sl_key_id = PStr kid,
      sl_max_evidence_bytes = max_bytes, sl_cek = cek, sl_hpke_info = info, sl_hpke_aad = aad, sl_enc = sb_enc box,
      sl_wrapped_cek = sb_ciphertext box, sl_stream = st, sl_chunks = [], sl_previous = zero_hash,
      sl_plaintext_bytes = 0, sl_ciphertext_bytes = 0, sl_finalized = False\<rparr>"
  have "sealing lib sync t0 j th rf ?s []" using st m by (simp add: sealing_def cipher_bytes_def)
  with that [of ?s t0] info aad box st cek show ?thesis by (simp add: sealer_init_def)
qed

lemma session_sealed:
  assumes c: "crypto_ok keys lib sync fresh private" and ids: "evidence_ids j th rf kid"
    and cek: "length cek = 32" and m: "0 \<le> max_bytes"
    and recs: "list_all (\<lambda>(rt, p). rt \<in> set RECORD_TYPES) (recs @ [r])" "length recs < 1024"
    and run: "session keys lib cek fresh j th rf (kl_public keys private) kid max_bytes recs r = Inr s"
  obtains t0 t u where "sealed lib j th rf kid s" "int (sl_ciphertext_bytes s) \<le> max_bytes"
    "open_base keys private (sl_enc s) (sl_wrapped_cek s) (sl_hpke_info s) (sl_hpke_aad s) = Inr cek"
    "init_pull lib (ps_header (sl_stream s)) cek = (0, t0)"
    "pulled lib t0 (butlast (sl_chunks s)) (map snd recs) t"
    "sodium_pull lib t (ck_ciphertext (last (sl_chunks s))) (ck_aad (last (sl_chunks s))) = (0, u, snd r, TAG_FINAL)"
proof -
  have con: "stream_contract lib sync" using c by (simp add: crypto_ok_def)
  obtain s0 t0 where i:
    "sealer_init keys lib cek fresh (PStr j) (PStr th) (PStr rf) (kl_public keys private) (PStr kid) max_bytes = Inr s0"
    "sealing lib sync t0 j th rf s0 []" "sl_chunks s0 = []" "sl_key_id s0 = PStr kid" "sl_max_evidence_bytes s0 = max_bytes"
    "canonical_bytes (wrap_info (PStr j) (PStr th) (PStr rf)) = Inr (sl_hpke_info s0)"
    "canonical_bytes (wrap_aad (PStr kid)) = Inr (sl_hpke_aad s0)"
    "length (sl_enc s0) = 32" "length (sl_wrapped_cek s0) = 48" "length (ps_header (sl_stream s0)) = HEADER_BYTES lib"
    "open_base keys private (sl_enc s0) (sl_wrapped_cek s0) (sl_hpke_info s0) (sl_hpke_aad s0) = Inr cek"
    "init_pull lib (ps_header (sl_stream s0)) cek = (0, t0)"
    by (rule sealer_init_sealing [OF c ids cek m])
  from run i(1) obtain s1 where s1: "append_all lib s0 recs = (s1, Inr ())"
    "seal_append lib s1 (str (fst r)) (snd r) True = (s, Inr ())"
    by (auto simp: session_def split: prod.splits sum.splits)
  have a: "sealing lib sync t0 j th rf s1 (map snd recs)" "same_session s0 s1" "length (sl_chunks s1) = length recs"
    using append_all_keeps [OF i(2) con ids _ _ s1(1)] recs i(3) by simp_all
  obtain t ch u where f: "pulled lib t0 (sl_chunks s1) (map snd recs) t"
    "sodium_pull lib t (ck_ciphertext ch) (ck_aad ch) = (0, u, snd r, if True then TAG_FINAL else TAG_MESSAGE)"
    "linked lib j th rf (length (sl_chunks s1)) (tip zero_hash (sl_chunks s1)) True ch"
    "sl_chunks s = sl_chunks s1 @ [ch]" "same_session s1 s"
    "sl_previous s = sha256_hexdigest (ck_ciphertext ch)" "sl_finalized s = True"
    "sl_ciphertext_bytes s = cipher_bytes (sl_chunks s1 @ [ch])" "sl_plaintext_bytes s \<le> sl_ciphertext_bytes s"
    "int (sl_ciphertext_bytes s) \<le> sl_max_evidence_bytes s"
    "ps_finalized (sl_stream s) = True" "ps_sequence (sl_stream s) = Suc (length (sl_chunks s1))"
    "True \<or> sync (ps_state (sl_stream s)) u"
    by (rule seal_append_step [OF a(1) con ids _ _ s1(2)]) (use recs a(3) in auto)
  have same: "same_session s0 s" by (rule same_session_trans [OF a(2) f(5)])
  have "linked_from lib j th rf 0 0 zero_hash (sl_chunks s1)" using a(1) by (simp add: sealing_def)
  then have "linked_from lib j th rf (Suc (length recs)) 0 zero_hash (sl_chunks s)"
    using f(3,4) a(3) by (simp add: linked_from_snoc linked_from_open)
  with f i(4-12) same ids recs(2) a(3) i(2) have "sealed lib j th rf kid s"
    by (simp add: sealed_def same_session_def sealing_def)
  with that f i same show ?thesis by (simp add: same_session_def)
qed

lemma session_roundtrip:
  assumes c: "crypto_ok keys lib sync fresh private" and ids: "evidence_ids j th rf kid"
    and cek: "length cek = 32" and m: "0 \<le> max_bytes" "max_bytes \<le> 4 * 1024 * 1024"
    and recs: "list_all (\<lambda>(rt, p). rt \<in> set RECORD_TYPES) (recs @ [r])" "length recs < 1024"
    and run: "session keys lib cek fresh j th rf (kl_public keys private) kid max_bytes recs r = Inr s"
  shows "\<exists>bundle. seal_finalize lib s = (s, Inr bundle) \<and> validate_bundle lib max_bytes bundle = Inr bundle \<and>
    decrypt_bundle keys lib bundle private = Inr (map snd recs @ [snd r])"
proof -
  obtain t0 t u where f: "sealed lib j th rf kid s" "int (sl_ciphertext_bytes s) \<le> max_bytes"
    "open_base keys private (sl_enc s) (sl_wrapped_cek s) (sl_hpke_info s) (sl_hpke_aad s) = Inr cek"
    "init_pull lib (ps_header (sl_stream s)) cek = (0, t0)"
    "pulled lib t0 (butlast (sl_chunks s)) (map snd recs) t"
    "sodium_pull lib t (ck_ciphertext (last (sl_chunks s))) (ck_aad (last (sl_chunks s))) = (0, u, snd r, TAG_FINAL)"
    by (rule session_sealed [OF c ids cek m(1) recs run])
  have sizes: "KEY_BYTES lib = 32" "HEADER_BYTES lib = 24" "ABYTES lib = 17" using c by (simp_all add: crypto_ok_def)
  obtain h where h: "seal_finalize lib s = (s, Inr (evidence_bundle s (map chunk_record (sl_chunks s)) h))"
    "validate_bundle lib max_bytes (evidence_bundle s (map chunk_record (sl_chunks s)) h)
      = Inr (evidence_bundle s (map chunk_record (sl_chunks s)) h)"
    by (rule sealed_validates [OF f(1,2)]) (use sizes in simp_all)
  obtain h' where h': "seal_finalize lib s = (s, Inr (evidence_bundle s (map chunk_record (sl_chunks s)) h'))"
    "validate_bundle lib (4 * 1024 * 1024) (evidence_bundle s (map chunk_record (sl_chunks s)) h')
      = Inr (evidence_bundle s (map chunk_record (sl_chunks s)) h')"
    by (rule sealed_validates [OF f(1), of "4 * 1024 * 1024"]) (use sizes f(2) m(2) in simp_all)
  let ?b = "evidence_bundle s (map chunk_record (sl_chunks s)) h"
  have v: "validate_bundle lib (4 * 1024 * 1024) ?b = Inr ?b" using h(1) h' by simp
  note sl = f(1) [unfolded sealed_def]
  obtain cs ch where cs: "sl_chunks s = cs @ [ch]" using sl by (cases "sl_chunks s" rule: rev_cases) auto
  have "linked_from lib j th rf (length (sl_chunks s)) 0 zero_hash (sl_chunks s)" using sl by simp
  then have n: "numbered 0 cs" "ck_sequence ch = PInt (int (length cs))" "ck_final ch = PBool True"
    and d: "mapE decrypt_chunk (map chunk_record (sl_chunks s)) = Inr (sl_chunks s)"
    using linked_numbered decrypt_chunk_records [OF _ ids, of lib _ 0 zero_hash "sl_chunks s"] sl sizes
    by (auto simp: cs linked_from_snoc linked_def)
  have "pull_chunks lib 0 t0 False (cs @ [ch]) = Inr (map snd recs @ [snd r])"
    using pull_chunks_pulled [OF _ n(1), of lib t0 "map snd recs" t "[ch]"] f(5,6) n(2,3) by (simp add: cs)
  then have p: "pull_all lib cek (ps_header (sl_stream s)) (sl_chunks s) = Inr (map snd recs @ [snd r])"
    using cek sizes sl f(4) by (simp add: pull_all_def cs)
  have l: "length (sl_hpke_info s) < 16 * 1024" "length (sl_hpke_aad s) < 16 * 1024"
    using wrap_info_canonical [OF ids] wrap_aad_canonical [OF ids] sl by (metis Inr_inject)+
  have "decrypt_bundle keys lib ?b private = Inr (map snd recs @ [snd r])"
    using v f(3) d p l sl sizes by (simp add: decrypt_bundle_def Let_def HPKE_KEYS_def py_eval)
  with h show ?thesis by blast
qed

subsection \<open>Sealing within the budget succeeds\<close>

definition sealed_size :: "'st sodium \<Rightarrow> (string \<times> bytes) list \<Rightarrow> nat" where
  "sealed_size lib recs = sum_list (map (\<lambda>(rt, p). length p + ABYTES lib) recs)"

definition record_fits :: "string \<times> bytes \<Rightarrow> bool" where
  "record_fits = (\<lambda>(rt, p). rt \<in> set RECORD_TYPES \<and> length p \<le> MAX_CHUNK_BYTES)"

lemma seal_append_succeeds:
  assumes inv: "sealing lib sync t0 j th rf s ms" and con: "stream_contract lib sync"
    and ids: "evidence_ids j th rf kid" and r: "record_fits (rt, p)" and n: "length (sl_chunks s) < 1024"
    and fits: "int (sl_ciphertext_bytes s + length p + ABYTES lib) \<le> sl_max_evidence_bytes s"
  obtains s' where "seal_append lib s (str rt) p final = (s', Inr ())"
    "sl_ciphertext_bytes s' = sl_ciphertext_bytes s + length p + ABYTES lib"
proof -
  from inv obtain t where t: "sync (ps_state (sl_stream s)) t" by (auto simp: sealing_def)
  have rt: "rt \<in> set RECORD_TYPES" "length p \<le> MAX_CHUNK_BYTES" using r by (simp_all add: record_fits_def)
  obtain aad where aad: "canonical_bytes (chunk_aad (PStr j) (PStr th) (PStr rf) (length (sl_chunks s))
      (tip zero_hash (sl_chunks s)) (str rt) final) = Inr aad"
    by (rule chunk_aad_canonical [OF ids tip_digest [OF zero_hash_digest] rt(1) n])
  obtain st' c where f: "sodium_push lib (ps_state (sl_stream s)) p aad (if final then TAG_FINAL else TAG_MESSAGE) = (0, st', c)"
    "length c = length p + ABYTES lib"
    by (rule follows_ok [OF con t tag_byte])
  have g: "1 \<le> length rt" "length rt \<le> 64" using record_type_ok [OF rt(1)] by simp_all
  show ?thesis
    using inv aad f rt(2) fits g that
    by (simp add: seal_append_def sealing_def push_def Let_def add.assoc)
qed

lemma append_all_succeeds:
  assumes "sealing lib sync t0 j th rf s ms" "stream_contract lib sync" "evidence_ids j th rf kid"
    "list_all record_fits recs" "length (sl_chunks s) + length recs \<le> 1024"
    "int (sl_ciphertext_bytes s + sealed_size lib recs) \<le> sl_max_evidence_bytes s"
  shows "\<exists>s'. append_all lib s recs = (s', Inr ()) \<and>
    sl_ciphertext_bytes s' = sl_ciphertext_bytes s + sealed_size lib recs"
  using assms(1,4-6)
proof (induction recs arbitrary: s ms)
  case Nil
  then show ?case by (simp add: sealed_size_def)
next
  case (Cons r recs)
  obtain rt p where r: "r = (rt, p)" by (cases r)
  obtain s1 where s1: "seal_append lib s (str rt) p False = (s1, Inr ())"
    "sl_ciphertext_bytes s1 = sl_ciphertext_bytes s + length p + ABYTES lib"
    by (rule seal_append_succeeds [OF Cons.prems(1) assms(2,3), of rt p False])
      (use Cons.prems in \<open>auto simp: r sealed_size_def\<close>)
  have k: "sealing lib sync t0 j th rf s1 (ms @ [p])" "same_session s s1"
    "length (sl_chunks s1) = Suc (length (sl_chunks s))"
    using seal_append_keeps [OF Cons.prems(1) assms(2,3) _ _ s1(1)] Cons.prems(2,3)
    by (simp_all add: r record_fits_def)
  show ?case using Cons.IH [OF k(1)] Cons.prems(2-4) k(2,3) s1
    by (auto simp: r sealed_size_def same_session_def)
qed

lemma session_succeeds:
  assumes c: "crypto_ok keys lib sync fresh private" and ids: "evidence_ids j th rf kid"
    and cek: "length cek = 32" and recs: "list_all record_fits (recs @ [r])" "length recs < 1024"
    and fits: "int (sealed_size lib (recs @ [r])) \<le> max_bytes"
  shows "\<exists>s. session keys lib cek fresh j th rf (kl_public keys private) kid max_bytes recs r = Inr s"
proof -
  have con: "stream_contract lib sync" using c by (simp add: crypto_ok_def)
  have m: "0 \<le> max_bytes" using fits by linarith
  have rt: "list_all (\<lambda>(rt, p). rt \<in> set RECORD_TYPES) recs" "record_fits (fst r, snd r)"
    using recs by (auto simp: record_fits_def list_all_iff)
  obtain s0 t0 where i:
    "sealer_init keys lib cek fresh (PStr j) (PStr th) (PStr rf) (kl_public keys private) (PStr kid) max_bytes = Inr s0"
    "sealing lib sync t0 j th rf s0 []" "sl_chunks s0 = []" "sl_max_evidence_bytes s0 = max_bytes"
    by (rule sealer_init_sealing [OF c ids cek m])
  have z: "sl_ciphertext_bytes s0 = 0" using i(2,3) by (simp add: sealing_def cipher_bytes_def)
  from append_all_succeeds [OF i(2) con ids, of recs] recs fits i(3,4) z obtain s1 where
    s1: "append_all lib s0 recs = (s1, Inr ())" "sl_ciphertext_bytes s1 = sealed_size lib recs"
    by (auto simp: sealed_size_def)
  have a: "sealing lib sync t0 j th rf s1 (map snd recs)" "same_session s0 s1" "length (sl_chunks s1) = length recs"
    using append_all_keeps [OF i(2) con ids rt(1) _ s1(1)] recs(2) i(3) by simp_all
  obtain s2 where "seal_append lib s1 (str (fst r)) (snd r) True = (s2, Inr ())"
    by (rule seal_append_succeeds [OF a(1) con ids rt(2), of True])
      (use a(2,3) recs(2) fits i(4) s1(2) in \<open>auto simp: sealed_size_def same_session_def case_prod_unfold\<close>)
  with i(1) s1(1) show ?thesis by (simp add: session_def)
qed

subsection \<open>Properties\<close>

text \<open>C3: a guest that seals at most 1,024 records of known types, each of at most 64 KiB, within the evidence
  budget, ends with a bundle that the host's \<open>validate_bundle\<close> accepts under that budget and that
  \<open>decrypt_bundle\<close>, given the quarantine private key, opens to exactly the payloads in order.\<close>

theorem evidence_roundtrip:
  assumes "crypto_ok keys lib sync fresh private" "evidence_ids j th rf kid" "length cek = 32"
    "list_all record_fits (recs @ [r])" "length recs < 1024"
    "int (sealed_size lib (recs @ [r])) \<le> max_bytes" "max_bytes \<le> 4 * 1024 * 1024"
  shows "\<exists>s bundle. session keys lib cek fresh j th rf (kl_public keys private) kid max_bytes recs r = Inr s \<and>
    seal_finalize lib s = (s, Inr bundle) \<and> validate_bundle lib max_bytes bundle = Inr bundle \<and>
    decrypt_bundle keys lib bundle private = Inr (map snd recs @ [snd r])"
proof -
  obtain s where s: "session keys lib cek fresh j th rf (kl_public keys private) kid max_bytes recs r = Inr s"
    using session_succeeds [OF assms(1-6)] by blast
  have "0 \<le> max_bytes" using assms(6) by linarith
  moreover have "list_all (\<lambda>(rt, p). rt \<in> set RECORD_TYPES) (recs @ [r])"
    using assms(4) by (auto simp: record_fits_def list_all_iff)
  ultimately show ?thesis using session_roundtrip [OF assms(1-3) _ assms(7) _ assms(5) s] s by blast
qed

text \<open>A stream library for concrete inputs: the state counts messages, the ciphertext is the message behind
  one tag byte and 16 bytes that stand for the authenticator.\<close>

definition sample_sodium :: "nat sodium" where
  "sample_sodium = \<lparr>KEY_BYTES = 32, HEADER_BYTES = 24, ABYTES = 17,
     init_push = (\<lambda>key. (0, 0, replicate 24 1)),
     sodium_push = (\<lambda>s m aad tag. (0, Suc s, byte_of tag # replicate 16 0 @ m)),
     init_pull = (\<lambda>h key. (0, 0)),
     sodium_pull = (\<lambda>t c aad. (0, Suc t, drop 17 c, unat (hd c))),
     zero_state = 0\<rparr>"

lemma sample_crypto_ok: "crypto_ok sample_keys sample_sodium (=) (replicate 32 7) (replicate 32 9)"
  using sample_keys_aead sample_keys_agree
  by (simp add: crypto_ok_def stream_contract_def follows_def sample_sodium_def)

lemma sample_ids_ok: "evidence_ids (str ''job-'' @ replicate 16 48) zero_hash zero_hash (replicate 16 48)"
  by (simp add: evidence_ids_def job_id_re_def is_hex_def key_id_ok_def is_hex_char_def list_all_iff)

theorem evidence_roundtrip_witness:
  "\<exists>s bundle. session sample_keys sample_sodium (replicate 32 5) (replicate 32 7) (str ''job-'' @ replicate 16 48)
      zero_hash zero_hash (kl_public sample_keys (replicate 32 9)) (replicate 16 48) 4096
      [(''initial_prompt'', [1, 2, 3])] (''guest_status'', [4]) = Inr s \<and>
    seal_finalize sample_sodium s = (s, Inr bundle) \<and> validate_bundle sample_sodium 4096 bundle = Inr bundle \<and>
    decrypt_bundle sample_keys sample_sodium bundle (replicate 32 9)
      = Inr (map snd [(''initial_prompt'', [1, 2, 3])] @ [snd (''guest_status'', [4])])"
  by (rule evidence_roundtrip [OF sample_crypto_ok sample_ids_ok])
    (simp_all add: record_fits_def RECORD_TYPES_def MAX_CHUNK_BYTES_def sealed_size_def sample_sodium_def)

end
