(* ===== verification/Evidence_Checks.thy ===== *)
theory Evidence_Checks
  imports Evidence_Session
begin

section \<open>What an accepted bundle proves\<close>

text \<open>
  \<open>validate_bundle\<close> read backwards: a bundle that passes holds a gap-free sequence of chunks in which
  each authenticated header names the job, its position and the digest of the ciphertext before it,
  and whose totals and root digest are those of the manifest.
\<close>

text \<open>The record at position \<open>i\<close> of an accepted bundle with ciphertexts \<open>cs\<close>.\<close>

definition chained :: "pyval \<Rightarrow> pyval list \<Rightarrow> bytes list \<Rightarrow> nat \<Rightarrow> bool" where
  "chained m records cs i \<longleftrightarrow>
     py_eq (get (records ! i) ''sequence'') (PInt (int i)) \<and>
     get (records ! i) ''final'' = PBool (Suc i = length records) \<and>
     unb64 ''ciphertext'' (8 * 1024 * 1024) (get (records ! i) ''ciphertext_b64'') = Inr (cs ! i) \<and>
     get (records ! i) ''ciphertext_sha256'' = PStr (sha256_hexdigest (cs ! i)) \<and>
     (\<exists>aad v. unb64 ''aad'' (64 * 1024) (get (records ! i) ''aad_b64'') = Inr aad \<and> json_loads aad = Inr v \<and>
        canonical_bytes v = Inr aad \<and> get v ''job_id'' = get m ''job_id'' \<and>
        get v ''target_hash'' = get m ''target_hash'' \<and> get v ''road_frozen_hash'' = get m ''road_frozen_hash'' \<and>
        py_eq (get v ''sequence'') (PInt (int i)) \<and> in_strs (get v ''record_type'') RECORD_TYPES \<and>
        get v ''previous_ciphertext_hash'' = PStr (if i = 0 then zero_hash else sha256_hexdigest (cs ! (i - 1))))"

lemma check_names_Inr: "check_names ok msg ns = Inr u \<longleftrightarrow> list_all ok ns"
  by (induction ns) auto

lemma check_chunk_Inr:
  assumes "check_chunk lib m N i prev r = Inr c"
    and m: "get m ''job_id'' = PStr j" "get m ''target_hash'' = PStr th" "get m ''road_frozen_hash'' = PStr rf"
  shows "py_eq (get r ''sequence'') (PInt (int i)) \<and> get r ''final'' = PBool (Suc i = N) \<and>
     unb64 ''ciphertext'' (8 * 1024 * 1024) (get r ''ciphertext_b64'') = Inr c \<and>
     get r ''ciphertext_sha256'' = PStr (sha256_hexdigest c) \<and>
     (\<exists>aad v. unb64 ''aad'' (64 * 1024) (get r ''aad_b64'') = Inr aad \<and> json_loads aad = Inr v \<and>
        canonical_bytes v = Inr aad \<and> get v ''job_id'' = get m ''job_id'' \<and>
        get v ''target_hash'' = get m ''target_hash'' \<and> get v ''road_frozen_hash'' = get m ''road_frozen_hash'' \<and>
        py_eq (get v ''sequence'') (PInt (int i)) \<and> in_strs (get v ''record_type'') RECORD_TYPES \<and>
        get v ''previous_ciphertext_hash'' = PStr prev)"
  using assms
  by (auto simp: check_chunk_def raise_evidence_def bindE_eq_Inr check_names_Inr expected_binding_def
      loads_or_def in_set_def split: if_splits)

lemma check_chunks_Inr:
  assumes "check_chunks lib m max_bytes N n prev t rs = Inr (hs, t')"
    and m: "get m ''job_id'' = PStr j" "get m ''target_hash'' = PStr th" "get m ''road_frozen_hash'' = PStr rf"
  shows "\<exists>cs. length cs = length rs \<and> hs = map sha256_hexdigest cs \<and> t' = t + sum_list (map length cs) \<and>
    (rs \<noteq> [] \<longrightarrow> int t' \<le> max_bytes) \<and>
    (\<forall>i<length rs. check_chunk lib m N (n + i)
       (if i = 0 then prev else sha256_hexdigest (cs ! (i - 1))) (rs ! i) = Inr (cs ! i))"
  using assms(1)
proof (induction rs arbitrary: n prev t hs)
  case Nil
  then show ?case by simp
next
  case (Cons r rs)
  from Cons.prems obtain c hs' where c: "check_chunk lib m N n prev r = Inr c"
    "int (t + length c) \<le> max_bytes" "hs = sha256_hexdigest c # hs'"
    "check_chunks lib m max_bytes N (Suc n) (sha256_hexdigest c) (t + length c) rs = Inr (hs', t')"
    by (auto simp: bindE_eq_Inr Let_def raise_evidence_def split: if_splits)
  from Cons.IH [OF c(4)] obtain cs where cs: "length cs = length rs" "hs' = map sha256_hexdigest cs"
    "t' = t + length c + sum_list (map length cs)" "rs \<noteq> [] \<longrightarrow> int t' \<le> max_bytes"
    "\<forall>i<length rs. check_chunk lib m N (Suc n + i)
       (if i = 0 then sha256_hexdigest c else sha256_hexdigest (cs ! (i - 1))) (rs ! i) = Inr (cs ! i)"
    by blast
  have "check_chunk lib m N (n + i) (if i = 0 then prev else sha256_hexdigest ((c # cs) ! (i - 1))) ((r # rs) ! i)
      = Inr ((c # cs) ! i)" if "i < length (r # rs)" for i
    using that c(1) cs(5) by (cases i) (auto simp: nth_Cons split: nat.splits)
  then show ?case using c cs by (intro exI [of _ "c # cs"]) auto
qed

lemma check_manifest_ids:
  assumes "check_manifest max_bytes m = Inr u"
  obtains j th rf where "get m ''job_id'' = PStr j" "get m ''target_hash'' = PStr th" "get m ''road_frozen_hash'' = PStr rf"
  using assms
  by (auto simp: check_manifest_def raise_evidence_def bindE_eq_Inr check_names_Inr digest_value_def
      split: if_splits pyval.splits)

text \<open>C6: a bundle \<open>validate_bundle\<close> accepts has between 1 and 1,024 chunks whose ciphertexts together stay within
  the evidence budget; chunk \<open>i\<close> is numbered \<open>i\<close>, only the last is final, its canonical header names
  the manifest's job, target and road and the digest of the ciphertext before it; and the manifest's count, size
  and root digest are those of the chunks.\<close>

theorem accepted_bundle_is_chained:
  assumes "validate_bundle lib max_bytes b = Inr x"
  shows "x = b \<and> (\<exists>records cs header. get b ''chunks'' = PList records \<and> length cs = length records \<and>
    1 \<le> length cs \<and> length cs \<le> 1024 \<and> int (sum_list (map length cs)) \<le> max_bytes \<and>
    list_all (chained (get b ''manifest'') records cs) [0..<length cs] \<and>
    unb64 ''secretstream header'' 128 (get b ''secretstream_header_b64'') = Inr header \<and>
    Inr (get (get b ''manifest'') ''guest_evidence_root'')
      = bindE (sha256_hex (root_payload header (map (\<lambda>c. PStr (sha256_hexdigest c)) cs))) (\<lambda>h. Inr (PStr h)) \<and>
    py_eq (get (get b ''manifest'') ''chunk_count'') (PInt (int (length cs))) \<and>
    py_eq (get (get b ''manifest'') ''total_ciphertext_bytes'') (PInt (int (sum_list (map length cs)))))"
proof -
  let ?m = "get b ''manifest''"
  from assms obtain u records hs t header h where v: "x = b" "check_manifest max_bytes ?m = Inr u"
    "get b ''chunks'' = PList records" "records \<noteq> []" "length records \<le> 1024"
    "check_chunks lib ?m max_bytes (length records) 0 zero_hash 0 records = Inr (hs, t)"
    "unb64 ''secretstream header'' 128 (get b ''secretstream_header_b64'') = Inr header"
    "sha256_hex (root_payload header (map PStr hs)) = Inr h" "get ?m ''guest_evidence_root'' = PStr h"
    "py_eq (get ?m ''chunk_count'') (PInt (int (length records)))"
    "py_eq (get ?m ''total_ciphertext_bytes'') (PInt (int t))"
    by (auto simp: validate_bundle_def raise_evidence_def bindE_eq_Inr Let_def split: if_splits)
  obtain j th rf where ids: "get ?m ''job_id'' = PStr j" "get ?m ''target_hash'' = PStr th"
    "get ?m ''road_frozen_hash'' = PStr rf"
    by (rule check_manifest_ids [OF v(2)])
  from check_chunks_Inr [OF v(6) ids] v(4) obtain cs where cs: "length cs = length records"
    "hs = map sha256_hexdigest cs" "t = sum_list (map length cs)" "int t \<le> max_bytes"
    "\<forall>i<length records. check_chunk lib ?m (length records) i
       (if i = 0 then zero_hash else sha256_hexdigest (cs ! (i - 1))) (records ! i) = Inr (cs ! i)"
    by auto
  have "chained ?m records cs i" if "i < length cs" for i
  proof -
    have k: "check_chunk lib ?m (length records) i
       (if i = 0 then zero_hash else sha256_hexdigest (cs ! (i - 1))) (records ! i) = Inr (cs ! i)"
      using cs(1,5) that by simp
    show ?thesis using check_chunk_Inr [OF k ids] unfolding chained_def .
  qed
  with v cs show ?thesis
    by (intro conjI exI [of _ records] exI [of _ cs] exI [of _ header]) (auto simp: comp_def Suc_le_eq list_all_iff)
qed

lemma sample_bundle:
  obtains b where "validate_bundle sample_sodium 4096 b = Inr b"
proof -
  obtain s where s: "session sample_keys sample_sodium (replicate 32 5) (replicate 32 7) (str ''job-'' @ replicate 16 48)
      zero_hash zero_hash (kl_public sample_keys (replicate 32 9)) (replicate 16 48) 4096
      [(''initial_prompt'', [1, 2, 3])] (''guest_status'', [4]) = Inr s"
    using session_succeeds [OF sample_crypto_ok sample_ids_ok, of "replicate 32 5"
        "[(''initial_prompt'', [1, 2, 3])]" "(''guest_status'', [4])" 4096]
    by (auto simp: record_fits_def RECORD_TYPES_def MAX_CHUNK_BYTES_def sealed_size_def sample_sodium_def)
  show ?thesis
    using session_roundtrip [OF sample_crypto_ok sample_ids_ok _ _ _ _ _ s] that
    by (auto simp: RECORD_TYPES_def)
qed

theorem accepted_bundle_is_chained_witness:
  "\<exists>b. validate_bundle sample_sodium 4096 b = Inr b \<and>
    (b = b \<and> (\<exists>records cs header. get b ''chunks'' = PList records \<and> length cs = length records \<and>
    1 \<le> length cs \<and> length cs \<le> 1024 \<and> int (sum_list (map length cs)) \<le> 4096 \<and>
    list_all (chained (get b ''manifest'') records cs) [0..<length cs] \<and>
    unb64 ''secretstream header'' 128 (get b ''secretstream_header_b64'') = Inr header \<and>
    Inr (get (get b ''manifest'') ''guest_evidence_root'')
      = bindE (sha256_hex (root_payload header (map (\<lambda>c. PStr (sha256_hexdigest c)) cs))) (\<lambda>h. Inr (PStr h)) \<and>
    py_eq (get (get b ''manifest'') ''chunk_count'') (PInt (int (length cs))) \<and>
    py_eq (get (get b ''manifest'') ''total_ciphertext_bytes'') (PInt (int (sum_list (map length cs))))))"
proof -
  obtain b where "validate_bundle sample_sodium 4096 b = Inr b" by (rule sample_bundle)
  with accepted_bundle_is_chained [OF this] show ?thesis by blast
qed

end
