(* ===== verification/Control_Facts.thy ===== *)
theory Control_Facts
  imports Probe_Control Evidence_Checks
begin

section \<open>What the control loop guarantees\<close>

text \<open>
  The loop of \<open>Probe_Control\<close> refines the broker: whatever arrives on the channel, the lines sent are the
  broker's decisions on a sequence of proposals, in order. With the laws of a trip latch this
  confines permissions to a prefix. A result that the loop returns has the bounded shape.
\<close>

subsection \<open>Effects on the channel\<close>

lemma recv_sent: "ch_sent (fst (recv n c)) = ch_sent c"
  by (auto simp: recv_def split: list.splits sum.splits)

lemma read_line_sent: "ch_sent (fst (read_line maximum deadline c)) = ch_sent c"
proof (induction maximum deadline c rule: read_line.induct)
  case (1 maximum deadline c)
  obtain c1 now where m: "monotonic c = (c1, now)" by (cases "monotonic c")
  have s1: "ch_sent c1 = ch_sent c" using monotonic_simps(4) [of c] m by simp
  obtain c2 z where r: "recv (min 65536 (maximum - length (ch_buffered c))) c1 = (c2, z)"
    by (cases "recv (min 65536 (maximum - length (ch_buffered c))) c1")
  have s2: "ch_sent c2 = ch_sent c" using recv_sent [of "min 65536 (maximum - length (ch_buffered c))" c1] r s1 by simp
  show ?case using "1.IH" [OF _ _ m [symmetric] _ r [symmetric]] s1 s2 m r
    by (subst read_line.simps) (auto simp: Let_def split: sum.splits)
qed

definition wire :: "pystr \<Rightarrow> decision \<Rightarrow> bytes" where
  "wire nonce d = (case canonical_bytes (decision_frame nonce d) of Inr b \<Rightarrow> b @ [10] | Inl e \<Rightarrow> [])"

lemma sendall_sent:
  "sendall c b = (c', Inr u) \<Longrightarrow> ch_sent c' = ch_sent c @ [b]" "sendall c b = (c', Inl e) \<Longrightarrow> ch_sent c' = ch_sent c"
  by (auto simp: sendall_def split: option.splits)

lemma answer_proposal_Inr:
  assumes "answer_proposal c b nonce frame = (c', b', Inr u)"
  obtains d where "evaluate b (frame_proposal frame) = (b', Inr d)" "ch_sent c' = ch_sent c @ [wire nonce d]"
  using assms by (auto simp: answer_proposal_def raise_runtime_def wire_def split: if_splits prod.splits sum.splits
      dest: sendall_sent)

lemma answer_proposal_Inl:
  assumes "answer_proposal c b nonce frame = (c', b', Inl e)"
  shows "ch_sent c' = ch_sent c \<and> (b' = b \<or> b' = fst (evaluate b (frame_proposal frame)))"
  using assms by (auto simp: answer_proposal_def raise_runtime_def split: if_splits prod.splits sum.splits
      dest: sendall_sent)

subsection \<open>The loop as a run of the broker\<close>

text \<open>
  \<open>answered b ps ds b'\<close>: the proposals \<open>ps\<close> took the broker from \<open>b\<close> to \<open>b'\<close> and \<open>ds\<close> are its decisions, in order;
  at most one more proposal was evaluated, whose decision could not be delivered.
\<close>

definition answered :: "broker \<Rightarrow> pyval list \<Rightarrow> decision list \<Rightarrow> broker \<Rightarrow> bool" where
  "answered b ps ds b' \<longleftrightarrow> b' = fst (run_steps evaluate b ps) \<and>
     take (length ds) (snd (run_steps evaluate b ps)) = map Inr ds \<and> length ps \<le> Suc (length ds)"

lemma answered_Nil: "answered b [] [] b"
  by (simp add: answered_def)

lemma answered_last: "b' = b \<or> b' = fst (evaluate b p) \<Longrightarrow> \<exists>ps. answered b ps [] b'"
proof (elim disjE)
  assume "b' = fst (evaluate b p)"
  then have "answered b [p] [] b'" by (simp add: answered_def split: prod.split)
  then show ?thesis ..
qed (use answered_Nil in blast)

lemma answered_Cons:
  "evaluate b p = (b1, Inr d) \<Longrightarrow> answered b1 ps ds b' \<Longrightarrow> answered b (p # ps) (d # ds) b'"
  by (simp add: answered_def run_steps_Cons del: run_steps.simps(2))

lemma control_loop_answers:
  "control_loop lib manifest road nonce deadline c b = (c', b', r) \<Longrightarrow>
   \<exists>ps ds. answered b ps ds b' \<and> ch_sent c' = ch_sent c @ map (wire nonce) ds \<and>
     (\<forall>v. r = Inr v \<longrightarrow> length ps = length ds \<and> (\<exists>frame. bounded_guest_result lib frame manifest road nonce = Inr v))"
proof (induction lib manifest road nonce deadline c b arbitrary: c' b' r rule: control_loop.induct)
  case (1 lib manifest road nonce deadline c b)
  obtain c0 now where m: "monotonic c = (c0, now)" by (cases "monotonic c")
  have s0: "ch_sent c0 = ch_sent c" using monotonic_simps(4) [of c] m by simp
  obtain c1 line where l: "read_line MAX_CONTROL_LINE deadline c0 = (c1, line)"
    by (cases "read_line MAX_CONTROL_LINE deadline c0")
  have s1: "ch_sent c1 = ch_sent c" using read_line_sent [of MAX_CONTROL_LINE deadline c0] l s0 by simp
  note eq = "1.prems" [unfolded control_loop.simps [of lib manifest road nonce deadline c b], simplified m l prod.case]
  have quiet: ?case if "b' = b" "ch_sent c' = ch_sent c"
    "\<And>v. r = Inr v \<Longrightarrow> \<exists>frame. bounded_guest_result lib frame manifest road nonce = Inr v"
    using that answered_Nil [of b] by (intro exI [of _ "[] :: pyval list"] exI [of _ "[] :: decision list"]) auto
  show ?case
  proof (cases "\<not> now < deadline \<or> (\<exists>e. line = Inl e)")
    case True
    with eq s0 s1 have "b' = b \<and> ch_sent c' = ch_sent c \<and> (\<exists>e. r = Inl e)"
      by (auto simp: raise_runtime_def split: if_splits)
    then show ?thesis using quiet by blast
  next
    case False
    then obtain raw where raw: "line = Inr raw" "now < deadline" by (cases line) auto
    show ?thesis
    proof (cases "bound_frame nonce raw")
      case (Inl e)
      with eq raw s1 have "b' = b \<and> ch_sent c' = ch_sent c \<and> r = Inl e" by auto
      then show ?thesis using quiet by blast
    next
      case (Inr frame)
      show ?thesis
      proof (cases "py_eq (get frame ''type'') (S ''proposal'')")
        case False
        with eq raw s1 Inr have "b' = b \<and> ch_sent c' = ch_sent c \<and>
            ((\<exists>e. r = Inl e) \<or> r = bounded_guest_result lib frame manifest road nonce)"
          by (auto simp: raise_runtime_def split: if_splits)
        then show ?thesis by (elim conjE) (rule quiet, auto)
      next
        case True
        obtain c2 b2 u where a: "answer_proposal c1 b nonce frame = (c2, b2, u)"
          by (cases "answer_proposal c1 b nonce frame") auto
        show ?thesis
        proof (cases u)
          case (Inl e)
          with eq raw \<open>bound_frame nonce raw = Inr frame\<close> True a have r: "c' = c2" "b' = b2" "r = Inl e" by auto
          from answer_proposal_Inl [OF a [unfolded Inl]] answered_last s1 r show ?thesis
            by (metis append_Nil2 list.simps(8) sum.distinct(1))
        next
          case (Inr w)
          with a obtain d where d: "evaluate b (frame_proposal frame) = (b2, Inr d)" "ch_sent c2 = ch_sent c1 @ [wire nonce d]"
            using answer_proposal_Inr by metis
          from eq raw \<open>bound_frame nonce raw = Inr frame\<close> True a Inr
          have more: "control_loop lib manifest road nonce deadline c2 b2 = (c', b', r)" by simp
          have "\<not> \<not> now < deadline" using raw(2) by simp
          from "1.IH" [OF m [symmetric] this l [symmetric] raw(1) \<open>bound_frame nonce raw = Inr frame\<close> True
              a [symmetric] refl Inr more]
          obtain ps ds where "answered b2 ps ds b'" "ch_sent c' = ch_sent c2 @ map (wire nonce) ds"
            "\<forall>v. r = Inr v \<longrightarrow> length ps = length ds \<and> (\<exists>frame. bounded_guest_result lib frame manifest road nonce = Inr v)"
            by blast
          with answered_Cons [OF d(1)] d(2) s1 show ?thesis
            by (intro exI [of _ "frame_proposal frame # ps"] exI [of _ "d # ds"]) auto
        qed
      qed
    qed
  qed
qed

subsection \<open>Permissions form a prefix\<close>

definition allowed :: "decision \<Rightarrow> bool" where
  "allowed d = (d_disposition d = ''allowed'')"

lemma not_allowed_trips: "evaluate b p = (b', Inr d) \<Longrightarrow> \<not> allowed d \<Longrightarrow> bk_tripped b'"
proof (cases rule: evaluate_cases [of b p])
  case (decides n a c h)
  assume e: "evaluate b p = (b', Inr d)" "\<not> allowed d"
  have "bk_tripped (fst (evaluate_locked b n a c h))"
    if "snd (evaluate_locked b n a c h) = Inr d"
    using that e(2) decide_disposition [of b n a]
    by (auto simp: evaluate_locked_def Let_def broker_event_state trip_def allowed_def split: if_splits
        dest!: broker_event_result)
  with e(1) decides show ?thesis by simp
qed simp

lemma answered_prefix:
  "answered b ps ds b' \<Longrightarrow> list_all (\<lambda>d. \<not> allowed d) (dropWhile allowed ds)"
proof (induction ds arbitrary: b ps)
  case (Cons d ds)
  from Cons.prems obtain p qs where ps: "ps = p # qs" by (cases ps) (auto simp: answered_def)
  obtain b1 z where e: "evaluate b p = (b1, z)" by (cases "evaluate b p")
  have z: "z = Inr d" and rest: "answered b1 qs ds b'"
    using Cons.prems by (simp_all add: answered_def ps run_steps_Cons e del: run_steps.simps(2))
  show ?case
  proof (cases "allowed d")
    case True
    then show ?thesis using Cons.IH [OF rest] by simp
  next
    case False
    have "list_all (\<lambda>x. \<not> permits x) (snd (run_steps evaluate b1 qs))"
      using agent_broker.closed_run not_allowed_trips [OF e [unfolded z] False] by blast
    then have "list_all (\<lambda>x. \<not> permits x) (map Inr ds)"
      using rest unfolding answered_def by (metis list_all_append append_take_drop_id)
    with False show ?thesis by (simp add: list.pred_map comp_def allowed_def)
  qed
qed simp

lemma deliver_sent:
  "deliver_credential c manifest road nonce key = (c', Inr u) \<Longrightarrow> \<exists>line. ch_sent c' = ch_sent c @ [line]"
  "deliver_credential c manifest road nonce key = (c', Inl e) \<Longrightarrow> ch_sent c' = ch_sent c"
  by (auto simp: deliver_credential_def raise_runtime_def split: sum.splits option.splits prod.splits if_splits
      dest: sendall_sent)

subsection \<open>Properties\<close>

text \<open>C5: whatever bytes arrive from the guest, the control loop ends; after the credential line it has sent
  exactly the broker's decisions on some sequence of proposals, in order, and the broker is in the state those
  proposals led to (at most one further proposal was evaluated without its answer being delivered). Once a decision
  is not \<open>allowed\<close>, no later one is. A credential of acceptable length is zeroed in every outcome; one of
  unacceptable length is never sent.\<close>

theorem control_loop_refines_broker:
  "case run_control_loop lib c manifest road nonce api_key b deadline of (key', c', b', r) \<Rightarrow>
     \<exists>ps ds credential. answered b ps ds b' \<and> ch_sent c' = ch_sent c @ credential @ map (wire nonce) ds \<and>
       length credential \<le> 1 \<and> list_all (\<lambda>d. \<not> allowed d) (dropWhile allowed ds) \<and>
       (if 1 \<le> length api_key \<and> length api_key \<le> MAX_API_KEY_BYTES
        then key' = replicate (length api_key) 0 else credential = [] \<and> ds = [] \<and> \<not> isInr r)"
proof -
  obtain c1 u where d: "deliver_credential c manifest road nonce api_key = (c1, u)"
    by (cases "deliver_credential c manifest road nonce api_key")
  consider (bad) "\<not> (1 \<le> length api_key \<and> length api_key \<le> MAX_API_KEY_BYTES)"
    | (undelivered) e where "1 \<le> length api_key \<and> length api_key \<le> MAX_API_KEY_BYTES" "u = Inl e"
    | (delivered) "1 \<le> length api_key \<and> length api_key \<le> MAX_API_KEY_BYTES" "u = Inr ()"
    by (cases u) auto
  then show ?thesis
  proof cases
    case bad
    then show ?thesis using answered_Nil [of b]
      by (auto simp: run_control_loop_def raise_runtime_def intro!: exI [of _ "[] :: pyval list"])
  next
    case undelivered
    then show ?thesis using answered_Nil [of b] d deliver_sent(2) [of c manifest road nonce api_key c1 e]
      by (auto simp: run_control_loop_def Let_def intro!: exI [of _ "[] :: pyval list"] exI [of _ "[] :: decision list"])
  next
    case delivered
    obtain c' b' r where l: "control_loop lib manifest road nonce deadline c1 b = (c', b', r)"
      by (cases "control_loop lib manifest road nonce deadline c1 b") auto
    from control_loop_answers [OF l] obtain ps ds where "answered b ps ds b'"
      "ch_sent c' = ch_sent c1 @ map (wire nonce) ds" by blast
    moreover obtain line where "ch_sent c1 = ch_sent c @ [line]"
      using deliver_sent(1) d delivered(2) by metis
    ultimately show ?thesis using delivered d l answered_prefix
      by (auto simp: run_control_loop_def Let_def intro!: exI [of _ ps] exI [of _ ds] exI [of _ "[line]"])
  qed
qed

end
