(* ===== verification/Host_Io.thy ===== *)
theory Host_Io
  imports Json_Text
begin

section \<open>ASCII JSON text and complete writes\<close>

text \<open>
  Two idioms several components share: \<open>json.dumps\<close> with its default \<open>ensure_ascii\<close>, and the loop that writes a
  buffer to a descriptor.
\<close>

subsection \<open>JSON in ASCII\<close>

text \<open>
  \<open>json.dumps(v, sort_keys=True, separators=(",", ":"))\<close> escapes everything outside printable ASCII, and with the
  default \<open>allow_nan\<close> writes infinities and NaN, whose spelling is part of \<open>fr\<close>.
\<close>

definition unicode_escape :: "nat \<Rightarrow> pystr" where
  "unicode_escape u =
     [92, 117, hex_digit (u div 4096), hex_digit (u div 256 mod 16), hex_digit (u div 16 mod 16), hex_digit (u mod 16)]"

definition ascii_char :: "nat \<Rightarrow> pystr" where
  "ascii_char c =
     (if c \<le> 126 then [c]
      else if c < 0x10000 then unicode_escape c
      else unicode_escape (0xD800 + (c - 0x10000) div 1024) @ unicode_escape (0xDC00 + (c - 0x10000) mod 1024))"

definition json_dumps_ascii :: "(pyfloat \<Rightarrow> pystr) \<Rightarrow> pyval \<Rightarrow> pystr res" where
  "json_dumps_ascii fr v =
     (if \<not> dumpable v then Inl TypeError else Inr (concat (map ascii_char (dump fr (canon v)))))"

text \<open>\<open>json.dumps(v, indent=2, sort_keys=True)\<close>: one member per line, two blanks per level; \<open>k\<close> is the level.\<close>

definition newline :: "nat \<Rightarrow> pystr" where
  "newline k = 10 # replicate (2 * k) 32"

fun indented :: "(pyfloat \<Rightarrow> pystr) \<Rightarrow> nat \<Rightarrow> pyval \<Rightarrow> pystr"
  and indented_elems :: "(pyfloat \<Rightarrow> pystr) \<Rightarrow> nat \<Rightarrow> pyval list \<Rightarrow> pystr"
  and indented_members :: "(pyfloat \<Rightarrow> pystr) \<Rightarrow> nat \<Rightarrow> pydict \<Rightarrow> pystr" where
  "indented fr k (PList xs) = (if xs = [] then [91, 93] else [91] @ newline (Suc k) @ indented_elems fr (Suc k) xs @ newline k @ [93])"
| "indented fr k (PDict d) = (if d = [] then [123, 125] else [123] @ newline (Suc k) @ indented_members fr (Suc k) d @ newline k @ [125])"
| "indented fr k v = dump fr v"
| "indented_elems fr k [] = []"
| "indented_elems fr k (x # xs) = indented fr k x @ (if xs = [] then [] else [44] @ newline k @ indented_elems fr k xs)"
| "indented_members fr k [] = []"
| "indented_members fr k ((n, v) # d) =
     dump_str (key_str n) @ [58, 32] @ indented fr k v @ (if d = [] then [] else [44] @ newline k @ indented_members fr k d)"

definition json_dumps_indent :: "(pyfloat \<Rightarrow> pystr) \<Rightarrow> pyval \<Rightarrow> pystr res" where
  "json_dumps_indent fr v = (if \<not> dumpable v then Inl TypeError else Inr (indented fr 0 (canon v)))"

subsection \<open>Writing a buffer\<close>

text \<open>The loop \<open>while view: ...\<close>; the first result is the content of the file, \<open>w i\<close> what the \<open>i\<close>-th \<open>os.write\<close> returns.\<close>

function write_view :: "(nat \<Rightarrow> int res) \<Rightarrow> nat \<Rightarrow> bytes \<Rightarrow> bytes \<Rightarrow> bytes \<times> unit res" where
  "write_view w i file view =
     (if view = [] then (file, Inr ())
      else (case w i of
          Inl e \<Rightarrow> (file, Inl e)
        | Inr n \<Rightarrow>
            if n \<le> 0 then (file, Inl (OSError None))
            else write_view w (Suc i) (file @ take (nat n) view) (drop (nat n) view)))"
  by pat_completeness auto

termination
  by (relation "measure (\<lambda>(w, i, file, view). length view)") auto

declare write_view.simps [simp del]

lemma write_view_Inr: "write_view w i out data = (f, Inr u) \<Longrightarrow> f = out @ data"
proof (induction w i out data rule: write_view.induct)
  case (1 w i out data)
  show ?case
  proof (cases "data = []")
    case True
    then show ?thesis using "1.prems" by (simp add: write_view.simps)
  next
    case False
    with "1.prems" obtain n where n: "w i = Inr n" "\<not> n \<le> 0"
      "write_view w (Suc i) (out @ take (nat n) data) (drop (nat n) data) = (f, Inr u)"
      by (subst (asm) write_view.simps) (auto split: sum.splits if_splits)
    from "1.IH" [OF False n] show ?thesis by simp
  qed
qed

end
