(* ===== verification/Probe_Runtime.thy ===== *)
theory Probe_Runtime
  imports Control_Facts Host_Io
begin

section \<open>One run in a microVM\<close>

text \<open>
  \<open>agent_probe/firecracker_runtime.py\<close> around the control loop: connecting to the guest, persisting the
  ciphertext bundle, the bounded description of a failure, and \<open>run_agent_probe_microvm\<close> from the
  moment the guest has been started. What happens before that (staging images, network,
  jailer, Firecracker's API, the egress proxy) enters as the stage and exception of the first step that
  failed, if any; what the operating system reports while tearing down enters as flags.
\<close>

subsection \<open>Describing a failure\<close>

definition ident_char :: "nat \<Rightarrow> bool" where
  "ident_char c = (c = 95 \<or> (48 \<le> c \<and> c \<le> 57) \<or> (65 \<le> c \<and> c \<le> 90) \<or> (97 \<le> c \<and> c \<le> 122))"

text \<open>\<open>s.isascii() and s.isidentifier()\<close>.\<close>

definition ascii_identifier :: "pystr \<Rightarrow> bool" where
  "ascii_identifier s = (s \<noteq> [] \<and> list_all ident_char s \<and> \<not> (48 \<le> hd s \<and> hd s \<le> 57))"

definition failure_context :: "string \<Rightarrow> exn \<Rightarrow> pyval" where
  "failure_context stage e =
     (let name = (if ascii_identifier (str (exn_name e)) then str (exn_name e) else str ''OtherError'')
      in obj [(''stage'', S stage), (''exception'', PStr (take 64 name)),
              (''errno'', case exn_errno e of Some n \<Rightarrow> PInt n | None \<Rightarrow> PNone)])"

definition failure_code_of :: "exn \<Rightarrow> string" where
  "failure_code_of e =
     (if exn_name e \<in> {''AgentProbeRuntimeError'', ''FirecrackerRuntimeError'', ''TimeoutError'', ''OSError'', ''ValueError''}
      then exn_name e else ''UNEXPECTED_RUNTIME_FAILURE'')"

subsection \<open>Persisting the bundle\<close>

text \<open>The outcomes of the system calls; \<open>qe_write i\<close> is what the \<open>i\<close>-th \<open>os.write\<close> returns.\<close>

record quarantine_env =
  qe_dir :: pystr
  qe_mkdir :: "unit res"
  qe_symlink :: bool
  qe_open :: "unit res"
  qe_write :: "nat \<Rightarrow> int res"
  qe_fsync :: "unit res"
  qe_replace :: "unit res"
  qe_dirsync :: "unit res"

definition bundle_path :: "quarantine_env \<Rightarrow> pystr \<Rightarrow> pystr" where
  "bundle_path env job_id = qe_dir env @ str ''/'' @ job_id @ str ''.guest-evidence.json.enc''"

text \<open>The first result is the file the call left under its final name, if any.\<close>

definition persist_ciphertext_bundle ::
  "quarantine_env \<Rightarrow> pystr \<Rightarrow> pyval \<Rightarrow> (pystr \<times> bytes) option \<times> (pystr \<times> pystr) res" where
  "persist_ciphertext_bundle env job_id bundle =
     (case qe_mkdir env of
        Inl e \<Rightarrow> (None, Inl e)
      | Inr u \<Rightarrow>
          if qe_symlink env then (None, raise_runtime ''quarantine directory is unsafe'')
          else (case canonical_bytes bundle of
              Inl e \<Rightarrow> (None, Inl e)
            | Inr b \<Rightarrow>
                (let encoded = b @ [10] in
                 case qe_open env of
                   Inl e \<Rightarrow> (None, Inl e)
                 | Inr u \<Rightarrow> (case write_view (qe_write env) 0 [] encoded of
                       (file, Inl e) \<Rightarrow> (None, Inl e)
                     | (file, Inr u) \<Rightarrow> (case bindE (qe_fsync env) (\<lambda>_. qe_replace env) of
                           Inl e \<Rightarrow> (None, Inl e)
                         | Inr u \<Rightarrow>
                             (Some (bundle_path env job_id, file),
                              bindE (qe_dirsync env) (\<lambda>_.
                                Inr (bundle_path env job_id, sha256_hexdigest encoded))))))))"

subsection \<open>Connecting to the guest\<close>

definition hello_frame :: "pystr \<Rightarrow> pyval" where
  "hello_frame nonce = obj
     [(''type'', S ''hello''), (''protocol_version'', S CONTROL_VERSION), (''nonce'', PStr nonce),
      (''agent_version'', S AGENT_VERSION)]"

definition connect_line :: bytes where
  "connect_line = bytes_of ''CONNECT '' @ map byte_of (dump_int VSOCK_PORT) @ [10]"

text \<open>One attempt on a connected socket.\<close>

definition handshake :: "pystr \<Rightarrow> rat \<Rightarrow> channel \<Rightarrow> channel \<times> unit res" where
  "handshake nonce deadline c =
     (case sendall c connect_line of
        (c1, Inl e) \<Rightarrow> (c1, Inl e)
      | (c1, Inr u) \<Rightarrow> (case read_line 64 deadline c1 of
            (c2, Inl e) \<Rightarrow> (c2, Inl e)
          | (c2, Inr ack) \<Rightarrow>
              if take 3 ack \<noteq> bytes_of ''OK '' \<or> last ack \<noteq> 10
              then (c2, raise_runtime ''invalid Firecracker vsock acknowledgement'')
              else (case read_line 4096 deadline c2 of
                  (c3, Inl e) \<Rightarrow> (c3, Inl e)
                | (c3, Inr line) \<Rightarrow> (case json_loads line of
                      Inl e \<Rightarrow> (c3, Inl e)
                    | Inr hello \<Rightarrow>
                        if \<not> py_eq hello (hello_frame nonce)
                        then (c3, raise_runtime ''agent-probe guest handshake mismatch'')
                        else (c3, Inr ())))))"

fun is_runtime_error :: "exn \<Rightarrow> bool" where
  "is_runtime_error (AgentProbeRuntimeError m) = True"
| "is_runtime_error (FirecrackerRuntimeError m) = True"
| "is_runtime_error e = False"

definition retried :: "exn \<Rightarrow> bool" where
  "retried e = (is_OSError e \<or> value_error e \<or> is_runtime_error e)"

text \<open>
  The retry loop over what each round finds: the clock, and the socket if its path exists
  (\<open>Inl\<close> when \<open>connect\<close> raises). \<open>None\<close> means that the rounds given did not decide.
\<close>

fun connect_agent_guest ::
  "pystr \<Rightarrow> rat \<Rightarrow> (rat \<times> channel res option) list \<Rightarrow> channel res option" where
  "connect_agent_guest nonce deadline [] = None"
| "connect_agent_guest nonce deadline ((now, socket) # rounds) =
     (if \<not> now < deadline then Some (raise_runtime ''agent-probe guest vsock handshake timed out'')
      else (case socket of
          None \<Rightarrow> connect_agent_guest nonce deadline rounds
        | Some (Inl e) \<Rightarrow> if retried e then connect_agent_guest nonce deadline rounds else Some (Inl e)
        | Some (Inr c) \<Rightarrow> (case handshake nonce deadline c of
              (c', Inl e) \<Rightarrow> if retried e then connect_agent_guest nonce deadline rounds else Some (Inl e)
            | (c', Inr u) \<Rightarrow> Some (Inr c'))))"

subsection \<open>The run\<close>

record microvm_env =
  me_unavailable :: bool
  me_runtime_job_id :: pystr
  me_nonce :: pystr
  me_deadline :: rat
  me_setup_failure :: "(string \<times> exn) option"
  me_rounds :: "(rat \<times> channel res option) list"
  me_quarantine :: quarantine_env
  me_identity :: pydict
  me_admitted :: pydict
  me_proxy :: bool
  me_proxy_purged :: bool
  me_snapshot :: "pyval res"
  me_telemetry :: "pyval res"
  me_process_clean :: bool
  me_cgroup_removed :: bool
  me_network_removed :: bool
  me_jail_removed :: bool
  me_teardown_identity :: pydict

record guest_phase =
  gp_broker :: "broker option"
  gp_guest_result :: "pyval option"
  gp_evidence :: "(pystr \<times> pystr) option"
  gp_failure :: "(string \<times> exn) option"

text \<open>\<open>purge\<close> of \<open>mote/firecracker_runtime.py\<close>.\<close>

definition purge_summary :: "bool \<Rightarrow> bool \<Rightarrow> bool \<Rightarrow> bool \<Rightarrow> bool \<Rightarrow> (string \<times> pyval) list" where
  "purge_summary processes cgroup network jail egress =
     [(''verified_externally'', PBool (processes \<and> cgroup \<and> network \<and> jail \<and> egress)),
      (''processes_reaped'', PBool processes), (''cgroup_removed'', PBool cgroup),
      (''network_namespace_removed'', PBool network), (''ram_jail_removed'', PBool jail),
      (''egress_worker_reaped'', PBool egress)]"

text \<open>The \<open>try\<close> block from the stage \<open>guest_connect\<close> on.\<close>

definition run_guest ::
  "'st sodium \<Rightarrow> microvm_env \<Rightarrow> pyval \<Rightarrow> pystr \<Rightarrow> pystr \<Rightarrow> int \<Rightarrow> bytes \<Rightarrow> guest_phase option" where
  "run_guest lib env manifest road job_id max_calls api_key =
     (let b = broker_init job_id max_calls;
          phase = \<lparr>gp_broker = Some b, gp_guest_result = None, gp_evidence = None, gp_failure = None\<rparr> in
      case connect_agent_guest (me_nonce env) (me_deadline env) (me_rounds env) of
        None \<Rightarrow> None
      | Some (Inl e) \<Rightarrow> Some (phase\<lparr>gp_failure := Some (''guest_connect'', e)\<rparr>)
      | Some (Inr c) \<Rightarrow>
          (case run_control_loop lib c manifest road (me_nonce env) api_key b (me_deadline env) of
             (key', c', b', Inl e) \<Rightarrow> Some (phase\<lparr>gp_broker := Some b', gp_failure := Some (''guest_control'', e)\<rparr>)
           | (key', c', b', Inr result) \<Rightarrow>
               (let phase' = phase\<lparr>gp_broker := Some b', gp_guest_result := Some result\<rparr> in
                if get result ''evidence_bundle'' = PNone
                then Some (phase'\<lparr>gp_failure :=
                       Some (''guest_evidence'', AgentProbeRuntimeError ''guest failed before sealing evidence'')\<rparr>)
                else (case snd (persist_ciphertext_bundle (me_quarantine env) job_id (get result ''evidence_bundle'')) of
                    Inl e \<Rightarrow> Some (phase'\<lparr>gp_failure := Some (''evidence_persist'', e)\<rparr>)
                  | Inr ev \<Rightarrow> Some (phase'\<lparr>gp_evidence := Some ev\<rparr>)))))"

text \<open>The egress record collected from the proxy, emptied when reading it raises.\<close>

definition egress_record :: "microvm_env \<Rightarrow> pyval list \<times> pyval" where
  "egress_record env =
     (if \<not> me_proxy env then ([], PDict [])
      else (case (me_snapshot env, me_telemetry env) of
          (Inr snapshot, Inr telemetry) \<Rightarrow>
            (case snapshot of PList xs \<Rightarrow> xs | _ \<Rightarrow> [], if is_dict telemetry then telemetry else PDict [])
        | _ \<Rightarrow> ([], PDict [])))"

definition finish_run :: "microvm_env \<Rightarrow> guest_phase \<Rightarrow> runtime_result" where
  "finish_run env p =
     (let egress = egress_record env;
          purge = purge_summary (me_process_clean env) (me_cgroup_removed env) (me_network_removed env)
            (me_jail_removed env) (me_proxy env \<and> me_proxy_purged env);
          revoked = (case gp_broker p of Some b \<Rightarrow> 0 < bk_revokes b | None \<Rightarrow> False);
          code = (case gp_failure p of Some (stage, e) \<Rightarrow> failure_code_of e | None \<Rightarrow> ''NONE'');
          verified = (map_of purge ''verified_externally'' = Some (PBool True)) in
      \<lparr>rr_runtime_job_id = me_runtime_job_id env, rr_guest_result = gp_guest_result p,
       rr_broker_events = (case gp_broker p of Some b \<Rightarrow> bk_events b | None \<Rightarrow> []),
       rr_egress_events = fst egress, rr_egress_telemetry = snd egress,
       rr_runtime = PDict (dmerge (if gp_failure p = None then dmerge (me_identity env) (me_admitted env)
                                   else me_identity env) (me_teardown_identity env)),
       rr_purge = obj (purge @ [(''credential_revoked'', PBool (revoked \<or> gp_guest_result p \<noteq> None)),
                                (''ciphertext_persisted'', PBool (gp_evidence p \<noteq> None))]),
       rr_evidence_path = map_option fst (gp_evidence p), rr_evidence_sha256 = map_option snd (gp_evidence p),
       rr_failure_code = str (if \<not> verified \<and> code = ''NONE'' then ''CLEANUP_UNVERIFIED'' else code),
       rr_failure_context = map_option (\<lambda>(stage, e). failure_context stage e) (gp_failure p)\<rparr>)"

definition failed_setup :: "string \<times> exn \<Rightarrow> guest_phase" where
  "failed_setup f = \<lparr>gp_broker = None, gp_guest_result = None, gp_evidence = None, gp_failure = Some f\<rparr>"

text \<open>\<open>None\<close> only when the rounds of the environment end before the handshake is decided.\<close>

definition run_agent_probe_microvm ::
  "'st sodium \<Rightarrow> microvm_env \<Rightarrow> pyval \<Rightarrow> pystr \<Rightarrow> bytes \<Rightarrow> runtime_result res option" where
  "run_agent_probe_microvm lib env manifest road api_key =
     (if me_unavailable env then Some (Inl FirecrackerUnavailable)
      else (case bindE (item manifest ''job_id'') (as_str TypeError) of
          Inl e \<Rightarrow> Some (Inl e)
        | Inr job_id \<Rightarrow> (case me_setup_failure env of
              Some f \<Rightarrow> Some (Inr (finish_run env (failed_setup f)))
            | None \<Rightarrow> (case budget manifest ''max_broker_calls'' of
                  Inl e \<Rightarrow> Some (Inr (finish_run env (failed_setup (''proxy_setup'', e))))
                | Inr max_calls \<Rightarrow>
                    map_option (\<lambda>p. Inr (finish_run env p)) (run_guest lib env manifest road job_id max_calls api_key)))))"

subsection \<open>Lemmas\<close>

lemma persist_Inr:
  assumes "snd (persist_ciphertext_bundle env job_id bundle) = Inr (path, h)"
  shows "\<exists>b. canonical_bytes bundle = Inr b \<and> path = bundle_path env job_id \<and> h = sha256_hexdigest (b @ [10]) \<and>
    fst (persist_ciphertext_bundle env job_id bundle) = Some (path, b @ [10])"
  using assms
  by (auto simp: persist_ciphertext_bundle_def raise_runtime_def Let_def bindE_eq_Inr split: sum.splits if_splits prod.splits
      dest!: write_view_Inr)

lemma failure_code_not_NONE: "failure_code_of e \<noteq> ''NONE''"
  by (auto simp: failure_code_of_def)

lemma check_bounds_Inr: "check_bounds what v bs = Inr u \<longleftrightarrow> list_all (\<lambda>(n, m). bounded_int m (get v n)) bs"
  by (induction bs) (auto simp: raise_runtime_def split: if_splits)

lemma bounded_same: "bounded_guest_result lib v manifest road nonce = Inr w \<Longrightarrow> w = v"
  by (auto simp: bounded_guest_result_def raise_runtime_def bindE_eq_Inr Let_def split: if_splits)

lemma control_result_bounded:
  assumes "run_control_loop lib c manifest road nonce key b deadline = (key', c', b', Inr v)"
  shows "bounded_guest_result lib v manifest road nonce = Inr v"
proof -
  from assms obtain c1 where "control_loop lib manifest road nonce deadline c1 b = (c', b', Inr v)"
    by (auto simp: run_control_loop_def raise_runtime_def Let_def split: if_splits prod.splits sum.splits)
  from control_loop_answers [OF this] obtain frame where "bounded_guest_result lib frame manifest road nonce = Inr v"
    by blast
  with bounded_same [OF this] show ?thesis by simp
qed

lemma run_guest_cases:
  assumes "run_guest lib env manifest road job_id max_calls key = Some p"
  obtains (failed) f where "gp_failure p = Some f" "gp_evidence p = None"
  | (sealed) v path h where "gp_failure p = None" "gp_guest_result p = Some v" "gp_evidence p = Some (path, h)"
      "bounded_guest_result lib v manifest road (me_nonce env) = Inr v" "get v ''evidence_bundle'' \<noteq> PNone"
      "snd (persist_ciphertext_bundle (me_quarantine env) job_id (get v ''evidence_bundle'')) = Inr (path, h)"
  using assms
  by (auto simp: run_guest_def Let_def split: option.splits sum.splits prod.splits if_splits
      dest: control_result_bounded)

definition cleaned_up :: "microvm_env \<Rightarrow> bool" where
  "cleaned_up env \<longleftrightarrow> me_process_clean env \<and> me_cgroup_removed env \<and> me_network_removed env \<and>
     me_jail_removed env \<and> me_proxy env \<and> me_proxy_purged env"

lemma finish_code:
  "rr_failure_code (finish_run env p) = str ''NONE'' \<longleftrightarrow> gp_failure p = None \<and> cleaned_up env"
  using failure_code_not_NONE
  by (auto simp: finish_run_def Let_def purge_summary_def cleaned_up_def split: option.splits)

lemma finish_fields [simp]:
  "rr_guest_result (finish_run env p) = gp_guest_result p"
  "rr_evidence_path (finish_run env p) = map_option fst (gp_evidence p)"
  "rr_evidence_sha256 (finish_run env p) = map_option snd (gp_evidence p)"
  by (simp_all add: finish_run_def Let_def)

text \<open>What the result of a run with code \<open>NONE\<close> shows: a bounded guest result and its bundle on disk.\<close>

definition sealed_result :: "'st sodium \<Rightarrow> microvm_env \<Rightarrow> pyval \<Rightarrow> pystr \<Rightarrow> runtime_result \<Rightarrow> bool" where
  "sealed_result lib env manifest road r \<longleftrightarrow>
     (\<exists>v job_id b. rr_guest_result r = Some v \<and> bounded_guest_result lib v manifest road (me_nonce env) = Inr v \<and>
        get v ''evidence_bundle'' \<noteq> PNone \<and> item manifest ''job_id'' = Inr (PStr job_id) \<and>
        canonical_bytes (get v ''evidence_bundle'') = Inr b \<and>
        rr_evidence_path r = Some (bundle_path (me_quarantine env) job_id) \<and>
        rr_evidence_sha256 r = Some (sha256_hexdigest (b @ [10])) \<and>
        fst (persist_ciphertext_bundle (me_quarantine env) job_id (get v ''evidence_bundle''))
          = Some (bundle_path (me_quarantine env) job_id, b @ [10]))"

subsection \<open>Properties\<close>

text \<open>C4: a run in the microVM reports the failure code \<open>NONE\<close> exactly when the guest returned a result that
  passed every bound and binding check, its evidence bundle is on disk byte for byte with the reported digest, and
  every part of the teardown was verified from outside.\<close>

theorem microvm_clean_iff_sealed:
  "case run_agent_probe_microvm lib env manifest road api_key of
     Some (Inr r) \<Rightarrow>
       (rr_failure_code r = str ''NONE'') = (sealed_result lib env manifest road r \<and> cleaned_up env)
   | _ \<Rightarrow> True"
proof -
  have "(rr_failure_code r = str ''NONE'') = (sealed_result lib env manifest road r \<and> cleaned_up env)"
    if run: "run_agent_probe_microvm lib env manifest road api_key = Some (Inr r)" for r
  proof -
    have early: ?thesis if "r = finish_run env (failed_setup f)" for f
      using that by (simp add: finish_code failed_setup_def sealed_result_def)
    from run obtain job_id where j: "item manifest ''job_id'' = Inr (PStr job_id)"
      by (auto simp: run_agent_probe_microvm_def bindE_eq_Inr split: if_splits sum.splits)
    from run j consider (early) f where "r = finish_run env (failed_setup f)"
      | (guest) m p where "run_guest lib env manifest road job_id m api_key = Some p" "r = finish_run env p"
      by (auto simp: run_agent_probe_microvm_def split: if_splits sum.splits option.splits)
    then show ?thesis
    proof cases
      case guest
      from guest(1) show ?thesis
      proof (cases rule: run_guest_cases)
        case (failed f)
        then show ?thesis by (simp add: guest(2) finish_code sealed_result_def)
      next
        case (sealed v path h)
        with persist_Inr [OF sealed(6)] j show ?thesis by (auto simp: guest(2) finish_code sealed_result_def)
      qed
    qed (rule early)
  qed
  then show ?thesis by (auto split: option.splits sum.splits)
qed


text \<open>The result the guest sends when its run raised.\<close>

definition sample_failure :: pyval where
  "sample_failure = obj
     [(''type'', S ''result''), (''protocol_version'', S CONTROL_VERSION), (''nonce'', S ''n''),
      (''agent_version'', S AGENT_VERSION), (''job_id'', S ''job-0000000000000000''), (''road_frozen_hash'', S ''r''),
      (''status_code'', S ''GUEST_FAILURE''), (''task_complete'', PBool False), (''soft_findings'', PInt 0),
      (''proposal_count'', PInt 0),
      (''model_metrics'', obj [(''requests'', PInt 0), (''prompt_tokens'', PInt 0), (''completion_tokens'', PInt 0),
         (''latency_ms'', PInt 0), (''network_bytes'', PInt 0), (''retries'', PInt 0),
         (''token_reporting_complete'', PBool False)]),
      (''evidence_bundle'', PNone)]"

definition sample_limits :: pyval where
  "sample_limits = obj
     [(''job_id'', S ''job-0000000000000000''),
      (''budgets'', obj [(''max_model_requests'', PInt 4), (''max_tokens_total'', PInt 1000), (''wall_clock_sec'', PInt 60),
         (''max_network_bytes'', PInt 4096), (''max_evidence_bytes'', PInt 4096)])]"

lemma sample_failure_ok: "bounded_guest_result sample_sodium sample_failure sample_limits (str ''r'') (str ''n'') = Inr sample_failure"
  by (simp add: bounded_guest_result_def sample_failure_def sample_limits_def RESULT_KEYS_def METRIC_KEYS_def STATUS_CODES_def
      py_eval in_set_def check_result_evidence_def metric_bounds_def budget_def item2_def bounded_int_def Let_def)


end
