(* ===== verification/Py_Act.thy ===== *)
theory Py_Act
  imports Py_Prelude
begin

section \<open>Computations with state and exceptions\<close>

text \<open>
  \<open>('s, 'a) act\<close> is code that reads and writes a state \<open>'s\<close> and raises or returns: what was written
  before an exception stays written. \<open>tryA\<close> is \<open>try ... except\<close>: the handler gets the exception
  and decides whether to raise it again; \<open>finallyA\<close> runs its second part in either case.

  \<open>hoare P m Q E\<close> is partial correctness with an exceptional postcondition: from a state in \<open>P\<close>,
  \<open>m\<close> returns a value and a state in \<open>Q\<close> or raises an exception in a state in \<open>E\<close>. \<open>triple\<close> is the case
  where neither depends on the value. All computations are total, so no separate notion is needed.
\<close>

type_synonym ('s, 'a) act = "'s \<Rightarrow> 's \<times> 'a res"

definition bindA :: "('s, 'a) act \<Rightarrow> ('a \<Rightarrow> ('s, 'b) act) \<Rightarrow> ('s, 'b) act" where
  "bindA m f = (\<lambda>s. case m s of (s', Inl e) \<Rightarrow> (s', Inl e) | (s', Inr x) \<Rightarrow> f x s')"

definition liftA :: "'a res \<Rightarrow> ('s, 'a) act" where
  "liftA r = (\<lambda>s. (s, r))"

definition modA :: "('s \<Rightarrow> 's) \<Rightarrow> ('s, unit) act" where
  "modA f = (\<lambda>s. (f s, Inr ()))"

definition getA :: "('s \<Rightarrow> 'a) \<Rightarrow> ('s, 'a) act" where
  "getA f = (\<lambda>s. (s, Inr (f s)))"

definition tryA :: "('s, 'a) act \<Rightarrow> (exn \<Rightarrow> ('s, 'a) act) \<Rightarrow> ('s, 'a) act" where
  "tryA m h = (\<lambda>s. case m s of (s', Inl e) \<Rightarrow> h e s' | (s', Inr x) \<Rightarrow> (s', Inr x))"

text \<open>The second part of \<open>finallyA\<close> is code that does not raise.\<close>

definition finallyA :: "('s, 'a) act \<Rightarrow> ('s \<Rightarrow> 's) \<Rightarrow> ('s, 'a) act" where
  "finallyA m f = (\<lambda>s. case m s of (s', r) \<Rightarrow> (f s', r))"

abbreviation returnA :: "'a \<Rightarrow> ('s, 'a) act" where
  "returnA x \<equiv> liftA (Inr x)"

abbreviation raiseA :: "exn \<Rightarrow> ('s, 'a) act" where
  "raiseA e \<equiv> liftA (Inl e)"

subsection \<open>Exceptional Hoare triples\<close>

definition hoare ::
  "('s \<Rightarrow> bool) \<Rightarrow> ('s, 'a) act \<Rightarrow> ('a \<Rightarrow> 's \<Rightarrow> bool) \<Rightarrow> (exn \<Rightarrow> 's \<Rightarrow> bool) \<Rightarrow> bool" where
  "hoare P m Q E \<longleftrightarrow>
     (\<forall>s. P s \<longrightarrow> (case m s of (s', Inr x) \<Rightarrow> Q x s' | (s', Inl e) \<Rightarrow> E e s'))"

lemma hoareI: "(\<And>s. P s \<Longrightarrow> case m s of (s', Inr x) \<Rightarrow> Q x s' | (s', Inl e) \<Rightarrow> E e s') \<Longrightarrow> hoare P m Q E"
  by (simp add: hoare_def)

lemma hoare_Inr: "hoare P m Q E \<Longrightarrow> P s \<Longrightarrow> m s = (s', Inr x) \<Longrightarrow> Q x s'"
  by (auto simp: hoare_def)

lemma hoare_Inl: "hoare P m Q E \<Longrightarrow> P s \<Longrightarrow> m s = (s', Inl e) \<Longrightarrow> E e s'"
  by (auto simp: hoare_def)

lemma hoare_bind:
  assumes "hoare P m R E" "\<And>x. hoare (R x) (f x) Q E"
  shows "hoare P (bindA m f) Q E"
proof (rule hoareI)
  fix s
  assume "P s"
  obtain s' z where z: "m s = (s', z)" by (cases "m s")
  show "case bindA m f s of (s', Inr x) \<Rightarrow> Q x s' | (s', Inl e) \<Rightarrow> E e s'"
  proof (cases z)
    case (Inl e)
    then show ?thesis using hoare_Inl [OF assms(1) \<open>P s\<close>] z by (simp add: bindA_def)
  next
    case (Inr x)
    then have "R x s'" using hoare_Inr [OF assms(1) \<open>P s\<close>] z by simp
    then show ?thesis using assms(2) [of x] z Inr by (simp add: bindA_def hoare_def)
  qed
qed

lemma hoare_try:
  assumes "hoare P m Q F" "\<And>e. hoare (F e) (h e) Q E"
  shows "hoare P (tryA m h) Q E"
proof (rule hoareI)
  fix s
  assume "P s"
  obtain s' z where z: "m s = (s', z)" by (cases "m s")
  show "case tryA m h s of (s', Inr x) \<Rightarrow> Q x s' | (s', Inl e) \<Rightarrow> E e s'"
  proof (cases z)
    case (Inl e)
    then have "F e s'" using hoare_Inl [OF assms(1) \<open>P s\<close>] z by simp
    then show ?thesis using assms(2) [of e] z Inl by (simp add: tryA_def hoare_def)
  next
    case (Inr x)
    then show ?thesis using hoare_Inr [OF assms(1) \<open>P s\<close>] z by (simp add: tryA_def)
  qed
qed

lemma hoare_finally:
  assumes "hoare P m (\<lambda>x s. Q x (f s)) (\<lambda>e s. E e (f s))"
  shows "hoare P (finallyA m f) Q E"
  using assms by (auto simp: hoare_def finallyA_def split: prod.splits sum.splits)

lemma hoare_lift [simp]:
  "hoare P (liftA r) Q E \<longleftrightarrow> (\<forall>s. P s \<longrightarrow> (case r of Inr x \<Rightarrow> Q x s | Inl e \<Rightarrow> E e s))"
  by (cases r) (simp_all add: hoare_def liftA_def)

lemma hoare_mod [simp]: "hoare P (modA f) Q E \<longleftrightarrow> (\<forall>s. P s \<longrightarrow> Q () (f s))"
  by (simp add: hoare_def modA_def)

lemma hoare_get [simp]: "hoare P (getA f) Q E \<longleftrightarrow> (\<forall>s. P s \<longrightarrow> Q (f s) s)"
  by (simp add: hoare_def getA_def)

lemma hoare_if: "(c \<Longrightarrow> hoare P m Q E) \<Longrightarrow> (\<not> c \<Longrightarrow> hoare P n Q E) \<Longrightarrow> hoare P (if c then m else n) Q E"
  by simp

lemma hoare_cons:
  "hoare P m Q E \<Longrightarrow> (\<And>s. P' s \<Longrightarrow> P s) \<Longrightarrow> (\<And>x s. Q x s \<Longrightarrow> Q' x s) \<Longrightarrow> (\<And>e s. E e s \<Longrightarrow> E' e s) \<Longrightarrow>
   hoare P' m Q' E'"
  by (auto simp: hoare_def split: prod.splits sum.splits) fastforce+

subsection \<open>Triples\<close>

definition post :: "('s \<Rightarrow> bool) \<Rightarrow> ('s \<Rightarrow> bool) \<Rightarrow> 's \<times> 'a res \<Rightarrow> bool" where
  "post J K p = (case snd p of Inr x \<Rightarrow> J (fst p) | Inl e \<Rightarrow> K (fst p))"

definition triple :: "('s \<Rightarrow> bool) \<Rightarrow> ('s \<Rightarrow> bool) \<Rightarrow> ('s \<Rightarrow> bool) \<Rightarrow> ('s, 'a) act \<Rightarrow> bool" where
  "triple P J K m \<longleftrightarrow> (\<forall>g. P g \<longrightarrow> post J K (m g))"

lemma post_simps [simp]: "post J K (g, Inr x) = J g" "post J K (g, Inl e) = K g"
  by (simp_all add: post_def)

lemma triple_hoare: "triple P J K m \<longleftrightarrow> hoare P m (\<lambda>_. J) (\<lambda>_. K)"
  by (simp add: triple_def hoare_def post_def case_prod_beta split: sum.split)

lemma triple_Inr: "triple P J K m \<Longrightarrow> P g \<Longrightarrow> m g = (g', Inr x) \<Longrightarrow> J g'"
  unfolding triple_hoare by (rule hoare_Inr)

lemma triple_Inl: "triple P J K m \<Longrightarrow> P g \<Longrightarrow> m g = (g', Inl e) \<Longrightarrow> K g'"
  unfolding triple_hoare by (rule hoare_Inl)

lemma triple_bind: "triple P J K m \<Longrightarrow> (\<And>x. triple J J' K (f x)) \<Longrightarrow> triple P J' K (bindA m f)"
  unfolding triple_hoare by (rule hoare_bind)

lemma triple_get: "(\<And>x. triple (\<lambda>g. P g \<and> f g = x) J K (k x)) \<Longrightarrow> triple P J K (bindA (getA f) k)"
  by (simp add: triple_def bindA_def getA_def)

lemma triple_lift:
  "(\<And>g. P g \<Longrightarrow> K g) \<Longrightarrow> (\<And>x. r = Inr x \<Longrightarrow> triple P J K (k x)) \<Longrightarrow> triple P J K (bindA (liftA r) k)"
  by (cases r) (simp_all add: triple_def bindA_def liftA_def)

lemma triple_pre: "triple P J K m \<Longrightarrow> (\<And>g. Q g \<Longrightarrow> P g) \<Longrightarrow> triple Q J K m"
  by (simp add: triple_def)

end
