(* ===== verification/Guest_Facts.thy ===== *)
theory Guest_Facts
  imports Guest_Agent
begin

section \<open>What the guest agent guarantees\<close>

text \<open>
  \<open>triple J K m\<close> says that \<open>m\<close> keeps \<open>J\<close> when it returns and establishes \<open>K\<close> when it raises. The
  locale \<open>guest_invariant\<close> collects what an invariant of the two loops must satisfy, and shows that
  a whole reply of the model then keeps it; it is instantiated twice, for the numbering of the proposals
  and for the metrics.
\<close>

subsection \<open>Invariants of the loops\<close>

text \<open>The part of the state an invariant may read.\<close>

definition same_trace :: "'st guest \<Rightarrow> 'st guest \<Rightarrow> bool" where
  "same_trace g g' \<longleftrightarrow> gs_written g' = gs_written g \<and> gs_proposals g' = gs_proposals g \<and> gs_metrics g' = gs_metrics g"

definition quiet :: "('st guest, 'a) act \<Rightarrow> bool" where
  "quiet m \<longleftrightarrow> (\<forall>g. same_trace g (fst (m g)))"

lemma quiet_simps:
  "quiet (liftA r)" "quiet (seal env rt v final)" "quiet (set_status code)" "quiet (leave_with code)"
  "quiet (execute_tool env a args ds)" "quiet (getA f)" "quiet read_json_line" "quiet (finalize_evidence env)"
  "quiet (modA (\<lambda>g. g\<lparr>gs_messages := gs_messages g @ [v]\<rparr>))" "quiet after_tools"
  by (auto simp: quiet_def same_trace_def liftA_def seal_def set_status_def leave_with_def bindA_def modA_def
      execute_tool_def getA_def read_json_line_def finalize_evidence_def after_tools_def Let_def
      split: sum.splits prod.splits option.splits list.splits)

definition proposable :: "pystr \<Rightarrow> bool" where
  "proposable action \<longleftrightarrow> mem action ALL_DECLARED_TOOLS \<or> action = str ''unknown_tool''"

lemma call_action_proposable: "proposable (call_action f)"
  by (auto simp: proposable_def call_action_def split: pyval.splits)

locale guest_invariant =
  fixes env :: "'st guest_env" and nonce :: pystr and calls :: int
    and J :: "'st guest \<Rightarrow> bool" and K :: "'st guest \<Rightarrow> bool"
  assumes weaken: "J g \<Longrightarrow> K g"
    and frame: "same_trace g g' \<Longrightarrow> J g \<Longrightarrow> J g'"
    and proposes: "proposable action \<Longrightarrow>
      triple (\<lambda>g. J g \<and> int (gs_proposals g) < calls) J K (propose env nonce action raw args)"
begin

lemma quiet_triple: "quiet m \<Longrightarrow> triple J J K m"
  using frame weaken by (force simp: triple_def quiet_def post_def split: sum.split)

lemmas quiet_triples = quiet_simps [THEN quiet_triple]

lemma triple_seq: "triple J J K m \<Longrightarrow> (\<And>x. triple J J K (f x)) \<Longrightarrow> triple J J K (bindA m f)"
  by (rule triple_bind)

lemma perform_triple: "triple J J K (perform env ds tc a args)"
  unfolding perform_def by (intro triple_seq quiet_triples)

lemma do_tool_call_triple: "triple J J K (do_tool_call env nonce calls ds tc)"
  unfolding do_tool_call_def Let_def
proof (rule triple_get)
  fix n
  let ?P = "\<lambda>g. J g \<and> gs_proposals g = n"
  let ?f = "get tc ''function''"
  have leave: "triple ?P J K (leave_with code)" for code
    by (rule triple_pre [OF quiet_triples(4)]) simp
  have go: "triple ?P J K (bindA (propose env nonce (call_action ?f) (get ?f ''name'') args) (\<lambda>d.
      if \<not> py_eq (get d ''disposition'') (S ''allowed'') then
        bindA (seal env ''broker_denial'' d False) (\<lambda>_.
        leave_with (if py_eq (get d ''disposition'') (S ''tripped'') then ''HARD_TRIP'' else ''DENIED''))
      else perform env ds tc (call_action ?f) args))" if "\<not> calls \<le> int n" for args
  proof (rule triple_bind)
    show "triple ?P J K (propose env nonce (call_action ?f) (get ?f ''name'') args)"
      by (rule triple_pre [OF proposes [OF call_action_proposable]]) (use that in simp)
  qed (auto intro!: triple_seq quiet_triples perform_triple)
  show "triple ?P J K (if calls \<le> int n then leave_with ''BUDGET_EXHAUSTION''
     else if \<not> is_dict tc \<or> \<not> is_dict ?f then leave_with ''MALFORMED_RESPONSE''
     else bindA (liftA (call_args ?f)) (\<lambda>parsed.
        case parsed of
          None \<Rightarrow> leave_with ''BUDGET_EXHAUSTION''
        | Some args \<Rightarrow>
            bindA (propose env nonce (call_action ?f) (get ?f ''name'') args) (\<lambda>d.
            if \<not> py_eq (get d ''disposition'') (S ''allowed'') then
              bindA (seal env ''broker_denial'' d False) (\<lambda>_.
              leave_with (if py_eq (get d ''disposition'') (S ''tripped'') then ''HARD_TRIP'' else ''DENIED''))
            else perform env ds tc (call_action ?f) args)))"
    using leave go weaken by (auto intro!: triple_lift split: option.split)
qed

lemma tool_loop_triple: "triple J J K (tool_loop env nonce calls ds cs)"
proof (induction cs)
  case (Cons c cs)
  then show ?case by (auto intro!: triple_seq [OF do_tool_call_triple] quiet_triples)
qed (simp add: quiet_triples)

lemma handle_message_triple: "triple J J K (handle_message env nonce calls ds v)"
proof -
  have final: "triple J J K (\<lambda>g. leave_with (if gs_task_complete g then ''COMPLETE'' else ''INCOMPLETE_TASK'') g)"
    using quiet_triples(4) by (simp add: triple_def)
  show ?thesis unfolding handle_message_def
    by (rule triple_bind [OF quiet_triples(9)])
      (auto intro!: triple_seq [OF tool_loop_triple] quiet_triples final simp del: tool_loop.simps
        split: pyval.split list.split)
qed

lemma handle_reply_triple: "triple J J K (handle_reply env nonce calls ds r)"
  unfolding handle_reply_def
  using weaken by (auto intro!: quiet_triples triple_lift handle_message_triple split: option.split)

end

subsection \<open>First instance: the proposals are numbered and bounded\<close>

text \<open>The \<open>i\<close>-th line is the proposal frame number \<open>i\<close> of this session, for a tool the host can name.\<close>

definition proposal_line :: "pystr \<Rightarrow> nat \<Rightarrow> bytes \<Rightarrow> bool" where
  "proposal_line nonce i l \<longleftrightarrow> (\<exists>action args b x. proposable action \<and>
     canonical_bytes (proposal_frame nonce i action args b) = Inr x \<and> l = x @ [10])"

definition numbered_lines :: "pystr \<Rightarrow> bytes list \<Rightarrow> bool" where
  "numbered_lines nonce ls \<longleftrightarrow> (\<forall>i < length ls. proposal_line nonce i (ls ! i))"

lemma numbered_lines_Nil [simp]: "numbered_lines nonce []"
  by (simp add: numbered_lines_def)

lemma numbered_lines_snoc: "numbered_lines nonce ls \<Longrightarrow> proposal_line nonce (length ls) l \<Longrightarrow> numbered_lines nonce (ls @ [l])"
  by (simp add: numbered_lines_def nth_append less_Suc_eq)

text \<open>
  While the loops run, the lines after \<open>w\<close> are the answered proposals; after an exception there may be one more,
  the proposal that was not answered.
\<close>

definition answered :: "pystr \<Rightarrow> int \<Rightarrow> bytes list \<Rightarrow> 'st guest \<Rightarrow> bool" where
  "answered nonce calls w g \<longleftrightarrow> (\<exists>ls. gs_written g = w @ ls \<and> numbered_lines nonce ls \<and>
     length ls = gs_proposals g \<and> int (length ls) \<le> max 0 calls)"

definition unanswered :: "pystr \<Rightarrow> int \<Rightarrow> bytes list \<Rightarrow> 'st guest \<Rightarrow> bool" where
  "unanswered nonce calls w g \<longleftrightarrow> (\<exists>ls. gs_written g = w @ ls \<and> numbered_lines nonce ls \<and>
     length ls \<in> {gs_proposals g, Suc (gs_proposals g)} \<and> int (length ls) \<le> max 0 calls)"

lemma write_json_line_cases:
  "write_json_line env v g = (g', r) \<Longrightarrow>
     (\<exists>e. r = Inl e \<and> g' = g) \<or> (\<exists>x. r = Inr () \<and> canonical_bytes v = Inr x \<and> g' = g\<lparr>gs_written := gs_written g @ [x @ [10]]\<rparr>)"
  by (auto simp: write_json_line_def emit_def raise_guest_def split: sum.splits if_splits option.splits)

lemma propose_answered:
  assumes "proposable action"
  shows "triple (\<lambda>g. answered nonce calls w g \<and> int (gs_proposals g) < calls) (answered nonce calls w) (unanswered nonce calls w)
    (propose env nonce action raw args)"
proof -
  let ?A = "\<lambda>g. answered nonce calls w g \<and> int (gs_proposals g) < calls"
  let ?U = "\<lambda>n g. (\<exists>ls. gs_written g = w @ ls \<and> numbered_lines nonce ls \<and> length ls = Suc n) \<and> gs_proposals g = n \<and> int n < calls"
  have weak: "answered nonce calls w g \<Longrightarrow> unanswered nonce calls w g" for g :: "'a guest"
    by (auto simp: answered_def unanswered_def)
  have seals: "triple (\<lambda>g. ?A g \<and> gs_proposals g = n) (\<lambda>g. ?A g \<and> gs_proposals g = n) (unanswered nonce calls w) (seal env t v f)"
    for n :: nat and t v f
    using weak by (auto simp: triple_def post_def seal_def answered_def unanswered_def split: sum.splits prod.splits)
  have writes: "triple (\<lambda>g. ?A g \<and> gs_proposals g = n) (?U n) (unanswered nonce calls w)
      (write_json_line env (proposal_frame nonce n action args b))" for n b
    unfolding triple_def
  proof (intro allI impI)
    fix g :: "'a guest" assume g: "?A g \<and> gs_proposals g = n"
    then obtain ls where ls: "gs_written g = w @ ls" "numbered_lines nonce ls" "length ls = n" "int n < calls"
      by (auto simp: answered_def)
    obtain g' r where w: "write_json_line env (proposal_frame nonce n action args b) g = (g', r)" by fastforce
    from write_json_line_cases [OF this] show "post (?U n) (unanswered nonce calls w) (write_json_line env (proposal_frame nonce n action args b) g)"
    proof (elim disjE exE conjE)
      fix x assume x: "r = Inr ()" "canonical_bytes (proposal_frame nonce n action args b) = Inr x"
        "g' = g\<lparr>gs_written := gs_written g @ [x @ [10]]\<rparr>"
      then have "proposal_line nonce (length ls) (x @ [10])" using assms ls by (auto simp: proposal_line_def)
      with numbered_lines_snoc ls x g w show ?thesis by (auto intro!: exI [of _ "ls @ [x @ [10]]"])
    qed (use weak g w in auto)
  qed
  have reads: "triple (?U n) (?U n) (unanswered nonce calls w) read_json_line" for n :: nat
    by (force simp: triple_def post_def read_json_line_def unanswered_def split: sum.splits prod.splits list.splits)
  have ends: "triple (?U n) (answered nonce calls w) (unanswered nonce calls w)
      (if \<not> decision_ok nonce n d then liftA (raise_guest ''broker decision binding failed'')
       else bindA (modA (\<lambda>g. g\<lparr>gs_proposals := Suc (gs_proposals g)\<rparr>)) (\<lambda>_. liftA (Inr d)))" for n d
    by (force simp: triple_def answered_def unanswered_def liftA_def bindA_def modA_def raise_guest_def)
  show ?thesis unfolding propose_def
    by (rule triple_lift) (auto intro: weak intro!: triple_get triple_bind [OF seals] triple_bind [OF writes] triple_bind [OF reads] ends)
qed

interpretation proposals: guest_invariant env nonce calls "answered nonce calls w" "unanswered nonce calls w"
  for env :: "'st guest_env" and nonce calls w
proof
  show "proposable action \<Longrightarrow> triple (\<lambda>g. answered nonce calls w g \<and> int (gs_proposals g) < calls)
      (answered nonce calls w) (unanswered nonce calls w) (propose env nonce action raw args)" for action raw args
    by (rule propose_answered)
qed (auto simp: answered_def unanswered_def same_trace_def)

subsection \<open>Second instance: a reply leaves the metrics alone\<close>

lemma propose_metrics: "triple (\<lambda>g. gs_metrics g = m) (\<lambda>g. gs_metrics g = m) (\<lambda>g. gs_metrics g = m) (propose env nonce action raw args)"
proof -
  let ?M = "\<lambda>g. gs_metrics g = m"
  have "triple ?M ?M ?M (seal env t v f)" for t v f
    by (auto simp: triple_def post_def seal_def split: sum.splits prod.splits)
  moreover have "triple ?M ?M ?M (write_json_line env v)" for v
    by (auto simp: triple_def post_def write_json_line_def split: sum.splits prod.splits)
  moreover have "triple ?M ?M ?M read_json_line"
    by (auto simp: triple_def post_def read_json_line_def split: sum.splits list.splits)
  moreover have "triple ?M ?M ?M (modA (\<lambda>g. g\<lparr>gs_proposals := Suc (gs_proposals g)\<rparr>))"
    "triple ?M ?M ?M (liftA r)" "triple ?M ?M ?M (getA gs_proposals)" for r :: "'b res"
    by (auto simp: triple_def post_def modA_def liftA_def getA_def split: sum.splits)
  ultimately show ?thesis unfolding propose_def
    by (intro triple_bind [where J = ?M]) (auto simp: triple_def post_def bindA_def modA_def liftA_def raise_guest_def)
qed

interpretation counters: guest_invariant env nonce calls "\<lambda>g. gs_metrics g = m" "\<lambda>g. gs_metrics g = m"
  for env :: "'st guest_env" and nonce calls m
proof
  show "triple (\<lambda>g. gs_metrics g = m \<and> int (gs_proposals g) < calls) (\<lambda>g. gs_metrics g = m) (\<lambda>g. gs_metrics g = m)
      (propose env nonce action raw args)" for action raw args
    by (rule triple_pre [OF propose_metrics]) simp
qed (auto simp: same_trace_def)

subsection \<open>The outer loop\<close>

lemma quiet_reader: "quiet (\<lambda>g. (g, f g))" "quiet (\<lambda>g. seal env t (h g) b g)"
  by (auto simp: quiet_def same_trace_def seal_def split: sum.splits prod.splits)

lemma request_round_answered:
  "triple (answered nonce (lm_calls lmt) w) (answered nonce (lm_calls lmt) w) (unanswered nonce (lm_calls lmt) w)
    (request_round env nonce lmt key ds)"
proof -
  let ?J = "answered nonce (lm_calls lmt) w"
  have "triple ?J ?J (unanswered nonce (lm_calls lmt) w) (modA (count_reply r))" for r
    by (simp add: triple_def modA_def count_reply_def answered_def Let_def)
  then show ?thesis unfolding request_round_def
    by (intro proposals.triple_seq) (auto intro!: proposals.triple_seq proposals.quiet_triples
        proposals.quiet_triple [OF quiet_reader(1)] proposals.handle_reply_triple)
qed

lemma request_loop_answered:
  "triple (answered nonce (lm_calls lmt) w) (answered nonce (lm_calls lmt) w) (unanswered nonce (lm_calls lmt) w)
    (request_loop env nonce lmt key ds n)"
proof (induction n)
  case (Suc n)
  then show ?case by (auto intro!: proposals.triple_seq [OF request_round_answered] proposals.quiet_triples)
qed (simp add: proposals.quiet_triples)

text \<open>The number of requests is below a bound that grows by one in every round.\<close>

definition requests_upto :: "nat \<Rightarrow> 'st guest \<Rightarrow> bool" where
  "requests_upto n g \<longleftrightarrow> mt_requests (gs_metrics g) \<le> n"

lemma requests_upto_triple:
  "(\<And>m. triple (\<lambda>g. gs_metrics g = m) (\<lambda>g. gs_metrics g = m) (\<lambda>g. gs_metrics g = m) c) \<Longrightarrow>
     triple (requests_upto n) (requests_upto n) (requests_upto n) c"
  by (fastforce simp: triple_def post_def requests_upto_def split: sum.splits)

lemmas requests_quiet = requests_upto_triple [OF counters.quiet_triple]

lemma request_round_counts:
  "triple (requests_upto n) (requests_upto (Suc n)) (requests_upto (Suc n)) (request_round env nonce lmt key ds)"
proof -
  let ?J = "requests_upto n" and ?K = "requests_upto (Suc n)"
  have pre: "triple ?J ?J ?K c" if "quiet c" for c :: "('a guest, 'b) act"
    using requests_quiet [OF that, of n] by (force simp: triple_def post_def requests_upto_def split: sum.splits)
  have post: "triple ?J ?K ?K c" if "quiet c" for c :: "('a guest, 'b) act"
    using requests_quiet [OF that, of n] by (force simp: triple_def post_def requests_upto_def split: sum.splits)
  have cnt: "triple ?J ?K ?K (modA (count_reply r))" for r
    by (simp add: triple_def modA_def count_reply_def requests_upto_def Let_def)
  have reply: "triple ?K ?K ?K (handle_reply env nonce (lm_calls lmt) ds r)" for r
    by (rule requests_upto_triple [OF counters.handle_reply_triple])
  show ?thesis unfolding request_round_def
    by (rule triple_bind [OF pre [OF quiet_simps(6)]])
      (auto intro!: post [OF quiet_simps(4)] triple_bind [OF pre [OF quiet_reader(1)]] triple_bind [OF cnt]
        triple_bind [OF requests_quiet [OF quiet_simps(2)]] reply)
qed

lemma request_loop_counts:
  "triple (requests_upto k) (requests_upto (k + n)) (requests_upto (k + n)) (request_loop env nonce lmt key ds n)"
proof (induction n arbitrary: k)
  case 0
  show ?case using requests_quiet [OF quiet_simps(1)] by simp
next
  case (Suc n)
  have "triple (requests_upto (Suc k)) (requests_upto (k + Suc n)) (requests_upto (k + Suc n))
      (if leave then liftA (Inr ()) else request_loop env nonce lmt key ds n)" for leave
    using Suc [of "Suc k"] by (auto simp: triple_def post_def liftA_def requests_upto_def)
  moreover have "triple (requests_upto k) (requests_upto (Suc k)) (requests_upto (k + Suc n)) (request_round env nonce lmt key ds)"
    using request_round_counts [of k env nonce lmt key ds]
    by (force simp: triple_def post_def requests_upto_def split: sum.splits)
  ultimately show ?case by (auto intro: triple_bind)
qed

subsection \<open>The session\<close>

lemma triple_conj: "triple P J K m \<Longrightarrow> triple P' J' K' m \<Longrightarrow>
    triple (\<lambda>g. P g \<and> P' g) (\<lambda>g. J g \<and> J' g) (\<lambda>g. K g \<and> K' g) m"
  by (auto simp: triple_def post_def split: sum.splits)

definition in_budget :: "pystr \<Rightarrow> limits \<Rightarrow> bytes list \<Rightarrow> 'st guest \<Rightarrow> bool" where
  "in_budget nonce lmt w g \<longleftrightarrow> answered nonce (lm_calls lmt) w g \<and> requests_upto (nat (lm_requests lmt)) g"

definition in_budget_unanswered :: "pystr \<Rightarrow> limits \<Rightarrow> bytes list \<Rightarrow> 'st guest \<Rightarrow> bool" where
  "in_budget_unanswered nonce lmt w g \<longleftrightarrow> unanswered nonce (lm_calls lmt) w g \<and> requests_upto (nat (lm_requests lmt)) g"

lemma quiet_in_budget: "quiet c \<Longrightarrow> triple (in_budget nonce lmt w) (in_budget nonce lmt w) (in_budget_unanswered nonce lmt w) c"
  unfolding in_budget_def in_budget_unanswered_def
  by (rule triple_conj [OF proposals.quiet_triple requests_quiet])

lemma request_loop_in_budget:
  "triple (\<lambda>g. answered nonce (lm_calls lmt) w g \<and> requests_upto 0 g) (in_budget nonce lmt w) (in_budget_unanswered nonce lmt w)
    (request_loop env nonce lmt key ds (nat (lm_requests lmt)))"
  unfolding in_budget_def in_budget_unanswered_def
  using triple_conj [OF request_loop_answered request_loop_counts [of 0]] by simp

lemma run_session_in_budget:
  "triple (\<lambda>g. answered nonce (lm_calls lmt) w g \<and> requests_upto 0 g) (in_budget nonce lmt w) (in_budget_unanswered nonce lmt w)
    (run_session env job nonce road lmt key ds)"
proof -
  let ?P = "\<lambda>g. answered nonce (lm_calls lmt) w g \<and> requests_upto 0 g"
  have first: "triple ?P ?P (in_budget_unanswered nonce lmt w) c" if "quiet c" for c :: "('a guest, 'b) act"
    using triple_conj [OF proposals.quiet_triple [OF that] requests_quiet [OF that]]
    by (force simp: triple_def post_def in_budget_unanswered_def requests_upto_def split: sum.splits)
  have status: "quiet (final_status lmt)"
    by (simp add: quiet_def same_trace_def final_status_def modA_def Let_def)
  show ?thesis unfolding run_session_def
    by (intro triple_bind [OF first [OF quiet_reader(2)]] triple_bind [OF request_loop_in_budget]
        triple_bind [OF quiet_in_budget [OF status]] triple_bind [OF quiet_in_budget [OF quiet_reader(2)]]
        triple_bind [OF quiet_in_budget [OF quiet_simps(8)]] quiet_in_budget [OF quiet_simps(6)])
qed

text \<open>The result document reports the state it was made from.\<close>

lemma run_session_result:
  "run_session env job nonce road lmt key ds g = (g', Inr d) \<Longrightarrow> \<exists>bundle. d = result_doc (PStr nonce) job road g' bundle"
  by (auto simp: run_session_def bindA_def getA_def split: prod.splits sum.splits)

text \<open>What the request grants, and nothing when its limits cannot be read.\<close>

definition granted :: "(limits \<Rightarrow> int) \<Rightarrow> pyval \<Rightarrow> int" where
  "granted f request = (case bindE (item request ''manifest'') read_limits of Inr l \<Rightarrow> max 0 (f l) | Inl e \<Rightarrow> 0)"

lemma granted_simp:
  "item request ''manifest'' = Inr manifest \<Longrightarrow> read_limits manifest = Inr lmt \<Longrightarrow> granted f request = max 0 (f lmt)"
  by (simp add: granted_def)

lemma fresh_guest_in_budget: "answered nonce calls w (fresh_guest s unread w messages) \<and> requests_upto 0 (fresh_guest s unread w messages)"
  by (simp add: answered_def requests_upto_def fresh_guest_def new_metrics_def)

lemma result_doc_fields:
  "get (result_doc nonce job road g bundle) ''nonce'' = nonce"
  "get (result_doc nonce job road g bundle) ''proposal_count'' = PInt (int (gs_proposals g))"
  "get (get (result_doc nonce job road g bundle) ''model_metrics'') ''requests'' = PInt (int (mt_requests (gs_metrics g)))"
  by (simp_all add: result_doc_def metrics_doc_def py_eval)

lemma granted_prepared: "prepare_run env request nonce run_message = Inr i \<Longrightarrow> granted f request = max 0 (f (ri_limits i))"
  by (auto simp: prepare_run_def bindE_eq_Inr intro: granted_simp)

text \<open>C11. Whatever the model answers and whatever the host sends, a run of the guest writes only proposal frames of
  this session, numbered from zero without a gap, for declared tools or \<open>unknown_tool\<close>, and never more
  than the manifest's \<open>max_broker_calls\<close>. A result document reports exactly that number and at most
  \<open>max_model_requests\<close> requests.\<close>

theorem guest_run_bounded:
  "case guest_run env request nonce run_message unread w of (unread', w', r) \<Rightarrow>
     \<exists>ls. w' = w @ ls \<and> numbered_lines nonce ls \<and> int (length ls) \<le> granted lm_calls request \<and>
       (case r of
          Inl e \<Rightarrow> True
        | Inr d \<Rightarrow> \<exists>k. get d ''nonce'' = PStr nonce \<and> get d ''proposal_count'' = PInt (int (length ls)) \<and>
            get (get d ''model_metrics'') ''requests'' = PInt (int k) \<and> int k \<le> granted lm_requests request)"
proof -
  have session: "\<exists>ls. gs_written g = w @ ls \<and> numbered_lines nonce ls \<and> int (length ls) \<le> max 0 (lm_calls lmt) \<and>
       (case r of
          Inl e \<Rightarrow> True
        | Inr d \<Rightarrow> \<exists>k. get d ''nonce'' = PStr nonce \<and> get d ''proposal_count'' = PInt (int (length ls)) \<and>
            get (get d ''model_metrics'') ''requests'' = PInt (int k) \<and> int k \<le> max 0 (lm_requests lmt))"
    if run: "run_session env job nonce road lmt key ds (fresh_guest s unread w messages) = (g, r)"
    for job road lmt key ds s messages g r
  proof (cases r)
    case (Inl e)
    from triple_Inl [OF run_session_in_budget fresh_guest_in_budget run [unfolded Inl]] Inl show ?thesis
      by (auto simp: in_budget_unanswered_def unanswered_def)
  next
    case (Inr d)
    from triple_Inr [OF run_session_in_budget fresh_guest_in_budget run [unfolded Inr]]
    obtain ls where "gs_written g = w @ ls" "numbered_lines nonce ls" "length ls = gs_proposals g" "int (length ls) \<le> max 0 (lm_calls lmt)"
      "int (mt_requests (gs_metrics g)) \<le> max 0 (lm_requests lmt)"
      by (auto simp: in_budget_def answered_def requests_upto_def)
    with run_session_result [OF run [unfolded Inr]] Inr show ?thesis by (auto simp: result_doc_fields)
  qed
  show ?thesis
  proof (cases "prepare_run env request nonce run_message")
    case (Inl e)
    then show ?thesis by (simp add: guest_run_def granted_def split: sum.split)
  next
    case (Inr i)
    obtain g r where run: "run_session env (ri_job_id i) nonce (ri_road i) (ri_limits i) (ri_api_key i) (ri_documents i)
        (fresh_guest (ri_sealer i) unread w (initial_messages (ri_target_text i))) = (g, r)"
      by fastforce
    from session [OF this] show ?thesis
      unfolding granted_prepared [OF Inr] by (simp add: guest_run_def Inr run)
  qed
qed

end
