(* ===== verification/Detectors.thy ===== *)
theory Detectors
  imports Ip_Address Monitor
begin

section \<open>Telemetry detectors\<close>

text \<open>
  \<open>observer/detectors.py\<close>: the rule table, the telemetry schema, the path and pattern rules, and the
  \<open>DetectorEngine\<close> that reduces events to findings. The engine is the record \<open>engine\<close>; counters are association
  lists in insertion order; the monotonic clock is an argument.
\<close>

subsection \<open>Constants\<close>

definition TELEMETRY_KEYS :: "string list" where
  "TELEMETRY_KEYS = [''ts_mono_ns'', ''tap'', ''rule_id'', ''subject'', ''action'', ''verdict_hint'']"

definition TAPS :: "string list" where
  "TAPS = [''fs'', ''proc'', ''dns'', ''net'', ''cred'', ''syscall'']"

definition ACTIONS :: "string list" where
  "ACTIONS = [''read'', ''write'', ''exec'', ''connect'', ''resolve'', ''fork'', ''exit'']"

definition VERDICT_HINTS :: "string list" where
  "VERDICT_HINTS = [''known_bad'', ''anomalous'', ''baseline'']"

definition RULES :: "(string \<times> string \<times> string \<times> string) list" where
  "RULES =
    [(''cred_harvest_pattern'', ''cred_access'', ''CRITICAL'', ''known_bad''),
     (''sandbox_probing'', ''syscall_class'', ''HIGH'', ''anomalous''),
     (''network_exfil_attempt'', ''network_flows'', ''CRITICAL'', ''known_bad''),
     (''exec_spawn_chain'', ''process_tree'', ''HIGH'', ''anomalous''),
     (''fs_suspicious_write'', ''filesystem'', ''WATCH'', ''anomalous''),
     (''timing_evasion'', ''syscall_class'', ''WATCH'', ''anomalous''),
     (''dns_tunnel_probe'', ''dns'', ''HIGH'', ''anomalous''),
     (''codex_manipulation'', ''syscall_class'', ''CRITICAL'', ''known_bad''),
     (''tool_poisoning'', ''syscall_class'', ''HIGH'', ''anomalous''),
     (''namespace_escape_attempt'', ''syscall_class'', ''CRITICAL'', ''known_bad''),
     (''malformed_report'', ''syscall_class'', ''HIGH'', ''known_bad''),
     (''telemetry_loss'', ''syscall_class'', ''CRITICAL'', ''known_bad''),
     (''budget_exhausted'', ''resource_use'', ''HIGH'', ''anomalous''),
     (''broker_failure'', ''syscall_class'', ''CRITICAL'', ''known_bad''),
     (''firecracker_runtime_failure'', ''syscall_class'', ''CRITICAL'', ''known_bad''),
     (''isolation_admission_failure'', ''syscall_class'', ''CRITICAL'', ''known_bad''),
     (''payload_observation_incomplete'', ''syscall_class'', ''CRITICAL'', ''anomalous''),
     (''purge_failure'', ''syscall_class'', ''CRITICAL'', ''known_bad''),
     (''web_active_interaction_attempt'', ''syscall_class'', ''CRITICAL'', ''known_bad''),
     (''web_blocked_egress_attempt'', ''network_flows'', ''HIGH'', ''anomalous''),
     (''web_browser_execution_failed'', ''syscall_class'', ''CRITICAL'', ''known_bad''),
     (''web_browser_lifecycle_incomplete'', ''syscall_class'', ''CRITICAL'', ''known_bad''),
     (''web_browser_sandbox_inactive'', ''syscall_class'', ''CRITICAL'', ''known_bad''),
     (''web_browser_sandbox_unknown'', ''syscall_class'', ''CRITICAL'', ''known_bad''),
     (''web_browser_telemetry_loss'', ''syscall_class'', ''CRITICAL'', ''known_bad''),
     (''web_cdp_telemetry_loss'', ''syscall_class'', ''CRITICAL'', ''known_bad''),
     (''web_download_attempt'', ''filesystem'', ''HIGH'', ''anomalous''),
     (''web_egress_telemetry_loss'', ''network_flows'', ''CRITICAL'', ''known_bad''),
     (''web_event_budget_exceeded'', ''resource_use'', ''CRITICAL'', ''known_bad''),
     (''web_evidence_count_mismatch'', ''syscall_class'', ''CRITICAL'', ''known_bad''),
     (''web_evidence_schema_invalid'', ''syscall_class'', ''CRITICAL'', ''known_bad''),
     (''web_evidence_sequence_gap'', ''syscall_class'', ''CRITICAL'', ''known_bad''),
     (''web_file_upload_attempt'', ''filesystem'', ''CRITICAL'', ''known_bad''),
     (''web_host_guest_network_mismatch'', ''network_flows'', ''CRITICAL'', ''known_bad''),
     (''web_host_guest_network_unknown'', ''network_flows'', ''CRITICAL'', ''known_bad''),
     (''web_mixed_content_observed'', ''network_flows'', ''HIGH'', ''anomalous''),
     (''web_navigation_failed'', ''network_flows'', ''HIGH'', ''anomalous''),
     (''web_navigation_missing'', ''network_flows'', ''CRITICAL'', ''known_bad''),
     (''web_popup_attempt'', ''process_tree'', ''HIGH'', ''anomalous''),
     (''web_prompt_marker_hidden'', ''syscall_class'', ''HIGH'', ''anomalous''),
     (''web_prompt_marker_visible'', ''syscall_class'', ''HIGH'', ''anomalous''),
     (''web_redirect_budget_exceeded'', ''resource_use'', ''CRITICAL'', ''known_bad''),
     (''web_unauthorized_origin_attempt'', ''network_flows'', ''CRITICAL'', ''known_bad''),
     (''web_vm_execution_failed'', ''syscall_class'', ''CRITICAL'', ''known_bad''),
     (''web_vm_lifecycle_incomplete'', ''syscall_class'', ''CRITICAL'', ''known_bad''),
     (''web_vm_telemetry_loss'', ''syscall_class'', ''CRITICAL'', ''known_bad'')]"

definition KNOWN_BAD_RULES :: "string list" where
  "KNOWN_BAD_RULES = map fst (filter (\<lambda>(r, c, s, hint). hint = ''known_bad'') RULES)"

definition INSTRUCTION_PATTERNS :: "string list" where
  "INSTRUCTION_PATTERNS = [''authorized'', ''enable network'', ''release file'', ''override policy'',
     ''human gate says allow'', ''system: you may'', ''system: you are now'', ''ignore previous'', ''disregard'', ''__exec__'']"

definition CANARY_PATHS :: "(string \<times> string) list" where
  "CANARY_PATHS = [(''/home/mote/.aws/credentials'', ''canary_cred_aws''), (''/home/mote/.ssh/id_rsa'', ''canary_cred_ssh''),
     (''/home/mote/canary_file.txt'', ''canary_file'')]"

definition SANDBOX_PROBE_PREFIXES :: "string list" where
  "SANDBOX_PROBE_PREFIXES = [''/proc/1/ns/'', ''/sys/class/dmi/id'', ''/proc/sys/kernel'', ''/proc/1/environ'']"

subsection \<open>Events\<close>

abbreviation bad_event :: "string \<Rightarrow> 'a res" where
  "bad_event m \<equiv> Inl (TelemetrySchemaError m)"

definition require_member :: "pyval \<Rightarrow> string list \<Rightarrow> exn \<Rightarrow> unit res" where
  "require_member v ss e = bindE (in_set v ss) (\<lambda>b. if b then Inr () else Inl e)"

definition uint :: "pyval \<Rightarrow> bool" where
  "uint v = (case v of PInt i \<Rightarrow> 0 \<le> i | PBool b \<Rightarrow> True | _ \<Rightarrow> False)"

definition validate_telemetry_event :: "pyval \<Rightarrow> unit res" where
  "validate_telemetry_event event =
     (if \<not> has_shape event TELEMETRY_KEYS then bad_event ''telemetry_event has missing or extra fields''
      else if \<not> uint (get event ''ts_mono_ns'') then bad_event ''ts_mono_ns must be uint64''
      else
        bindE (require_member (get event ''tap'') TAPS (TelemetrySchemaError ''invalid telemetry tap'')) (\<lambda>_.
        bindE (as_str (TelemetrySchemaError ''invalid rule_id'') (get event ''rule_id'')) (\<lambda>r.
        if r = [] \<or> 128 < length r then bad_event ''invalid rule_id'' else
        bindE (as_str (TelemetrySchemaError ''invalid subject'') (get event ''subject'')) (\<lambda>s.
        if 512 < length s then bad_event ''invalid subject'' else
        bindE (require_member (get event ''action'') ACTIONS (TelemetrySchemaError ''invalid action'')) (\<lambda>_.
        require_member (get event ''verdict_hint'') VERDICT_HINTS (TelemetrySchemaError ''invalid verdict_hint''))))))"

definition make_event :: "int \<Rightarrow> string \<Rightarrow> string \<Rightarrow> pystr \<Rightarrow> string \<Rightarrow> string \<Rightarrow> pyval res" where
  "make_event now tap rule_id subject action verdict_hint =
     (let event = obj [(''ts_mono_ns'', PInt now), (''tap'', S tap), (''rule_id'', S rule_id),
            (''subject'', PStr (take 512 subject)), (''action'', S action), (''verdict_hint'', S verdict_hint)]
      in bindE (validate_telemetry_event event) (\<lambda>_. Inr event))"

text \<open>\<open>encode('utf-8', 'surrogateescape')\<close> maps the low surrogates of undecodable bytes back to the bytes.\<close>

fun utf8_surrogateescape :: "pystr \<Rightarrow> bytes option" where
  "utf8_surrogateescape [] = Some []"
| "utf8_surrogateescape (c # s) =
     (case (if 0xDC80 \<le> c \<and> c \<le> 0xDCFF then Some [byte_of (c - 0xDC00)] else utf8_char c) of
        None \<Rightarrow> None
      | Some b \<Rightarrow> map_option (\<lambda>r. b @ r) (utf8_surrogateescape s))"

definition bounded_subject :: "pystr \<Rightarrow> string list \<Rightarrow> pystr res" where
  "bounded_subject v known =
     (if mem v known then Inr v
      else (case utf8_surrogateescape v of
          None \<Rightarrow> Inl UnicodeError
        | Some b \<Rightarrow> Inr (str ''sha256:'' @ sha256_hexdigest b)))"

subsection \<open>Paths\<close>

text \<open>\<open>PurePosixPath\<close>: empty and single-dot components vanish; exactly two leading slashes are kept.\<close>

definition path_parts :: "pystr \<Rightarrow> pystr list" where
  "path_parts p = filter (\<lambda>x. x \<noteq> [] \<and> x \<noteq> [46]) (split_on 47 p)"

definition path_root :: "pystr \<Rightarrow> pystr" where
  "path_root p =
     (if \<not> starts_with [47] p then []
      else if starts_with [47, 47] p \<and> \<not> starts_with [47, 47, 47] p then [47, 47] else [47])"

definition pure_path :: "pystr \<Rightarrow> pystr" where
  "pure_path p =
     (let s = path_root p @ join [47] (path_parts p) in if s = [] then [46] else s)"

definition path_name :: "pystr \<Rightarrow> pystr" where
  "path_name p = (case path_parts p of [] \<Rightarrow> [] | ps \<Rightarrow> last ps)"

definition contains :: "'a list \<Rightarrow> 'a list \<Rightarrow> bool" where
  "contains needle s = list_ex (\<lambda>i. take (length needle) (drop i s) = needle) [0..<Suc (length s)]"

definition canary_label :: "pystr \<Rightarrow> pystr option" where
  "canary_label path =
     (case map_of (map (\<lambda>(p, l). (str p, l)) CANARY_PATHS) path of
        Some l \<Rightarrow> Some (str l)
      | None \<Rightarrow>
          if contains (str ''canary_cred_'') path \<or> starts_with (str ''/tmp/canary_'') path
          then Some (str ''canary_dynamic'') else None)"

definition classify_path :: "int \<Rightarrow> pystr \<Rightarrow> nat \<Rightarrow> (pyval list \<times> pystr option) res" where
  "classify_path now path flags =
     (let normalized = (if starts_with [47] path then pure_path path else path);
          canary = canary_label normalized;
          name = path_name normalized in
      bindE (case canary of None \<Rightarrow> Inr []
             | Some l \<Rightarrow> bindE (make_event now ''cred'' ''cred_harvest_pattern'' l ''read'' ''known_bad'') (\<lambda>e. Inr [e])) (\<lambda>cred.
      bindE (if list_ex (\<lambda>p. starts_with (str p) normalized) SANDBOX_PROBE_PREFIXES then
               bindE (bounded_subject normalized SANDBOX_PROBE_PREFIXES) (\<lambda>s.
               bindE (make_event now ''syscall'' ''sandbox_probing'' s ''read'' ''anomalous'') (\<lambda>e. Inr [e]))
             else Inr []) (\<lambda>probe.
      bindE (if flags AND 64 \<noteq> 0 \<and>
                (starts_with (str ''/tmp/.cache'') normalized \<or> starts_with (str ''/dev/shm'') normalized \<or> starts_with [46] name) then
               bindE (bounded_subject normalized []) (\<lambda>s.
               bindE (make_event now ''fs'' ''fs_suspicious_write'' s ''write'' ''anomalous'') (\<lambda>e. Inr [e]))
             else Inr []) (\<lambda>write.
        Inr (cred @ probe @ write, canary)))))"

definition byte_lower :: "byte \<Rightarrow> byte" where
  "byte_lower b = (if 65 \<le> b \<and> b \<le> 90 then b + 32 else b)"

definition scan_instruction_patterns :: "bytes \<Rightarrow> bool" where
  "scan_instruction_patterns raw =
     list_ex (\<lambda>p. contains (bytes_of p) (map byte_lower raw)) INSTRUCTION_PATTERNS"

text \<open>\<open>encode('utf-8', 'replace')\<close> writes a question mark for each lone surrogate.\<close>

definition scan_tool_description :: "pystr \<Rightarrow> bool" where
  "scan_tool_description description =
     scan_instruction_patterns (concat (map (\<lambda>c. case utf8_char c of None \<Rightarrow> [63] | Some b \<Rightarrow> b) description))"

subsection \<open>The engine\<close>

type_synonym counter = "(pystr \<times> nat) list"

fun bump :: "pystr \<Rightarrow> counter \<Rightarrow> counter" where
  "bump k [] = [(k, 1)]"
| "bump k ((k', n) # c) = (if k' = k then (k, Suc n) # c else (k', n) # bump k c)"

definition count_of :: "counter \<Rightarrow> pystr \<Rightarrow> nat" where
  "count_of c k = (case map_of c k of None \<Rightarrow> 0 | Some n \<Rightarrow> n)"

record engine =
  en_max_events :: int
  en_events :: "pyval list"
  en_finding_counts :: counter
  en_tap_counts :: counter
  en_canaries :: "(pystr \<times> pyfloat) list"
  en_destinations :: "(pystr \<times> pystr) list"
  en_telemetry_incomplete :: bool
  en_start_ns :: int

definition new_engine :: "int \<Rightarrow> int \<Rightarrow> engine" where
  "new_engine max_events start =
     \<lparr>en_max_events = max_events, en_events = [], en_finding_counts = [], en_tap_counts = [], en_canaries = [],
      en_destinations = [], en_telemetry_incomplete = False, en_start_ns = start\<rparr>"

fun text_of :: "pyval \<Rightarrow> pystr" where
  "text_of (PStr s) = s"
| "text_of _ = []"

definition record_valid :: "engine \<Rightarrow> pyval \<Rightarrow> engine" where
  "record_valid eng event =
     (let rule = text_of (get event ''rule_id'');
          eng1 = eng\<lparr>en_tap_counts := bump (text_of (get event ''tap'')) (en_tap_counts eng)\<rparr>;
          eng2 = (if int (length (en_events eng)) < en_max_events eng
                  then eng1\<lparr>en_events := en_events eng @ [event]\<rparr>
                  else eng1\<lparr>en_telemetry_incomplete := True\<rparr>)
      in if mem rule (map fst RULES) \<and> get event ''verdict_hint'' \<noteq> S ''baseline''
         then eng2\<lparr>en_finding_counts := bump rule (en_finding_counts eng)\<rparr> else eng2)"

fun is_schema_error :: "exn \<Rightarrow> bool" where
  "is_schema_error (TelemetrySchemaError m) = True"
| "is_schema_error e = False"

definition record_event :: "engine \<Rightarrow> int \<Rightarrow> pyval \<Rightarrow> engine \<times> unit res" where
  "record_event eng now event =
     (case validate_telemetry_event event of
        Inr u \<Rightarrow> (record_valid eng event, Inr ())
      | Inl e \<Rightarrow>
          if is_schema_error e then
            (let eng1 = eng\<lparr>en_telemetry_incomplete := True\<rparr> in
             case make_event now ''syscall'' ''malformed_report'' (str ''invalid_telemetry_event'') ''write'' ''known_bad'' of
               Inl e \<Rightarrow> (eng1, Inl e)
             | Inr replacement \<Rightarrow> (record_valid eng1 replacement, Inr ()))
          else (eng, Inl e))"

text \<open>\<open>ns / 1e9\<close>: both the conversion and the division round to a double.\<close>

definition seconds :: "int \<Rightarrow> pyfloat" where
  "seconds ns = (case round_double (of_int ns) of Fin r \<Rightarrow> round_double (r / 1000000000) | f \<Rightarrow> f)"

definition trip_canary :: "engine \<Rightarrow> int \<Rightarrow> pystr \<Rightarrow> engine" where
  "trip_canary eng now name =
     (if map_of (en_canaries eng) name = None
      then eng\<lparr>en_canaries := en_canaries eng @ [(name, seconds (now - en_start_ns eng))]\<rparr> else eng)"

fun put :: "(pystr \<times> pystr) list \<Rightarrow> pystr \<Rightarrow> pystr \<Rightarrow> (pystr \<times> pystr) list" where
  "put [] k v = [(k, v)]"
| "put ((k', v') # d) k v = (if k' = k then (k, v) # d else (k', v') # put d k v)"

definition add_destination :: "engine \<Rightarrow> pystr \<Rightarrow> pystr \<Rightarrow> engine \<times> unit res" where
  "add_destination eng destination disposition =
     (if \<not> mem disposition [''sinkholed'', ''blocked-by-seccomp'', ''recorded+denied''] then
        (eng, Inl (ValueError ''invalid destination disposition''))
      else (case (if length destination \<le> 128 then Inr destination else bounded_subject destination []) of
          Inl e \<Rightarrow> (eng, Inl e)
        | Inr safe \<Rightarrow> (eng\<lparr>en_destinations := put (en_destinations eng) safe disposition\<rparr>, Inr ())))"

definition mark_telemetry_loss :: "engine \<Rightarrow> int \<Rightarrow> engine \<times> unit res" where
  "mark_telemetry_loss eng now =
     (let eng1 = eng\<lparr>en_telemetry_incomplete := True\<rparr> in
      case make_event now ''syscall'' ''telemetry_loss'' (str ''host_tap_incomplete'') ''exit'' ''known_bad'' of
        Inl e \<Rightarrow> (eng1, Inl e)
      | Inr event \<Rightarrow> record_event eng1 now event)"

definition rule_entry :: "pystr \<Rightarrow> (string \<times> string \<times> string) res" where
  "rule_entry r = (case map_of (map (\<lambda>(k, v). (str k, v)) RULES) r of None \<Rightarrow> Inl KeyError | Some e \<Rightarrow> Inr e)"

definition evidence :: "engine \<Rightarrow> pyval list res" where
  "evidence eng =
     mapE (\<lambda>r. bindE (rule_entry r) (\<lambda>(category, severity, hint).
             Inr (obj [(''tap_category'', S category), (''rule_id'', PStr r),
                       (''count'', PInt (int (count_of (en_finding_counts eng) r)))])))
       (sort (map fst (en_finding_counts eng)))"

definition findings :: "engine \<Rightarrow> pyval list res" where
  "findings eng =
     mapE (\<lambda>r. bindE (rule_entry r) (\<lambda>(category, severity, hint).
             Inr (obj [(''rule_id'', PStr r), (''count'', PInt (int (count_of (en_finding_counts eng) r))),
                       (''severity'', S severity)])))
       (sort (map fst (en_finding_counts eng)))"

subsection \<open>Counters\<close>

lemma count_bump: "count_of (bump k c) j = count_of c j + (if j = k then 1 else 0)"
  by (induction c) (auto simp: count_of_def)

lemma keys_bump: "fst ` set (bump k c) = insert k (fst ` set c)"
proof (induction c)
  case (Cons kn c)
  then show ?case by (cases kn) (simp add: insert_commute)
qed simp

lemma distinct_bump: "distinct (map fst c) \<Longrightarrow> distinct (map fst (bump k c))"
proof (induction c)
  case (Cons kn c)
  then show ?case using keys_bump [of k c] by (cases kn) auto
qed simp

lemma positive_bump: "list_all (\<lambda>(k, n). 0 < n) c \<Longrightarrow> list_all (\<lambda>(k, n). 0 < n) (bump k c)"
  by (induction c) auto

lemma total_bump: "sum_list (map snd (bump k c)) = Suc (sum_list (map snd c))"
  by (induction c) auto

subsection \<open>What one event does\<close>

text \<open>The abstract view of an engine is how often each rule fired. \<open>fires\<close> is the rule an event fires.\<close>

definition fires :: "pyval \<Rightarrow> pystr option" where
  "fires event =
     (case validate_telemetry_event event of
        Inr u \<Rightarrow> (let r = text_of (get event ''rule_id'') in
          if mem r (map fst RULES) \<and> get event ''verdict_hint'' \<noteq> S ''baseline'' then Some r else None)
      | Inl e \<Rightarrow> if is_schema_error e then Some (str ''malformed_report'') else None)"

definition fired :: "engine \<Rightarrow> pystr \<Rightarrow> nat" where
  "fired eng = count_of (en_finding_counts eng)"

lemma make_event_ok:
  assumes "0 \<le> now" "tap \<in> set TAPS" "0 < length rule" "length rule \<le> 128" "action \<in> set ACTIONS" "hint \<in> set VERDICT_HINTS"
  shows "make_event now tap rule subject action hint =
    Inr (obj [(''ts_mono_ns'', PInt now), (''tap'', S tap), (''rule_id'', S rule), (''subject'', PStr (take 512 subject)),
              (''action'', S action), (''verdict_hint'', S hint)])"
  using assms
  by (simp add: make_event_def validate_telemetry_event_def py_eval TELEMETRY_KEYS_def uint_def require_member_def in_set_def
      insert_commute)

definition malformed_event :: "int \<Rightarrow> pyval" where
  "malformed_event now = obj [(''ts_mono_ns'', PInt now), (''tap'', S ''syscall''), (''rule_id'', S ''malformed_report''),
     (''subject'', S ''invalid_telemetry_event''), (''action'', S ''write''), (''verdict_hint'', S ''known_bad'')]"

lemma record_event_eq:
  assumes "0 \<le> now"
  shows "record_event eng now event =
     (case validate_telemetry_event event of
        Inr u \<Rightarrow> (record_valid eng event, Inr ())
      | Inl e \<Rightarrow> if is_schema_error e
          then (record_valid (eng\<lparr>en_telemetry_incomplete := True\<rparr>) (malformed_event now), Inr ()) else (eng, Inl e))"
proof -
  have "make_event now ''syscall'' ''malformed_report'' (str ''invalid_telemetry_event'') ''write'' ''known_bad'' = Inr (malformed_event now)"
    using make_event_ok [OF assms, of "''syscall''" "''malformed_report''" "''write''" "''known_bad''"]
    by (simp add: TAPS_def ACTIONS_def VERDICT_HINTS_def malformed_event_def)
  then show ?thesis by (cases "validate_telemetry_event event") (simp_all add: record_event_def Let_def)
qed

lemma malformed_rule: "mem (str ''malformed_report'') (map fst RULES)"
  by (simp add: RULES_def)

lemma record_valid_fired:
  "fired (record_valid eng e) r = fired eng r +
     (if mem (text_of (get e ''rule_id'')) (map fst RULES) \<and> get e ''verdict_hint'' \<noteq> S ''baseline'' \<and>
         r = text_of (get e ''rule_id'') then 1 else 0)"
  by (simp add: record_valid_def Let_def fired_def count_bump)

lemma record_event_fired:
  assumes "0 \<le> now"
  shows "fired (fst (record_event eng now event)) r = fired eng r + (if fires event = Some r then 1 else 0)"
proof (cases "validate_telemetry_event event")
  case (Inr u)
  then show ?thesis by (auto simp: record_event_eq [OF assms] record_valid_fired fires_def Let_def)
next
  case (Inl e)
  have "fired (record_valid (eng\<lparr>en_telemetry_incomplete := True\<rparr>) (malformed_event now)) r =
      fired eng r + (if r = str ''malformed_report'' then 1 else 0)"
    unfolding record_valid_fired using malformed_rule by (simp add: malformed_event_def py_eval) (simp add: fired_def)
  with Inl show ?thesis
    by (simp add: record_event_eq [OF assms] fires_def)
qed

subsection \<open>Reachable engines\<close>

inductive engine_reachable :: "int \<Rightarrow> int \<Rightarrow> engine \<Rightarrow> bool" for max_events start where
  start: "engine_reachable max_events start (new_engine max_events start)"
| record_event: "engine_reachable max_events start eng \<Longrightarrow> 0 \<le> now \<Longrightarrow>
    engine_reachable max_events start (fst (record_event eng now event))"
| canary: "engine_reachable max_events start eng \<Longrightarrow> engine_reachable max_events start (trip_canary eng now name)"
| destination: "engine_reachable max_events start eng \<Longrightarrow>
    engine_reachable max_events start (fst (add_destination eng dest disposition))"
| loss: "engine_reachable max_events start eng \<Longrightarrow> 0 \<le> now \<Longrightarrow>
    engine_reachable max_events start (fst (mark_telemetry_loss eng now))"

definition engine_inv :: "int \<Rightarrow> engine \<Rightarrow> bool" where
  "engine_inv max_events eng =
     (en_max_events eng = max_events \<and> distinct (map fst (en_finding_counts eng)) \<and>
      list_all (\<lambda>(r, n). 0 < n) (en_finding_counts eng) \<and>
      fst ` set (en_finding_counts eng) \<subseteq> {r. mem r (map fst RULES)} \<and>
      int (length (en_events eng)) \<le> max 0 max_events \<and>
      length (en_events eng) \<le> sum_list (map snd (en_tap_counts eng)) \<and>
      (\<not> en_telemetry_incomplete eng \<longrightarrow> sum_list (map snd (en_tap_counts eng)) = length (en_events eng)))"

lemma record_valid_inv: "engine_inv m eng \<Longrightarrow> engine_inv m (record_valid eng e)"
  by (auto simp: engine_inv_def record_valid_def Let_def distinct_bump positive_bump keys_bump total_bump)

lemma incomplete_inv: "engine_inv m eng \<Longrightarrow> engine_inv m (eng\<lparr>en_telemetry_incomplete := True\<rparr>)"
  by (simp add: engine_inv_def)

lemma record_event_inv: "engine_inv m eng \<Longrightarrow> 0 \<le> now \<Longrightarrow> engine_inv m (fst (record_event eng now e))"
  by (cases "validate_telemetry_event e") (auto simp: record_event_eq intro: record_valid_inv incomplete_inv)

lemma loss_event: "0 \<le> now \<Longrightarrow> \<exists>e. make_event now ''syscall'' ''telemetry_loss'' (str ''host_tap_incomplete'') ''exit'' ''known_bad'' = Inr e"
  using make_event_ok [of now "''syscall''" "''telemetry_loss''" "''exit''" "''known_bad''" "str ''host_tap_incomplete''"]
  by (simp add: TAPS_def ACTIONS_def VERDICT_HINTS_def)

lemma loss_inv: "engine_inv m eng \<Longrightarrow> 0 \<le> now \<Longrightarrow> engine_inv m (fst (mark_telemetry_loss eng now))"
  using loss_event [of now] record_event_inv [OF incomplete_inv]
  by (auto simp: mark_telemetry_loss_def Let_def)

lemma engine_reachable_inv: "engine_reachable m start eng \<Longrightarrow> engine_inv m eng"
proof (induction rule: engine_reachable.induct)
  case start
  show ?case by (simp add: engine_inv_def new_engine_def)
next
  case (destination eng dest disposition)
  then show ?case by (auto simp: engine_inv_def add_destination_def split: sum.split)
next
  case (canary eng now name)
  then show ?case by (simp add: engine_inv_def trip_canary_def)
qed (rule record_event_inv loss_inv, assumption+)+

text \<open>C34: the engine never forgets that it lost telemetry. In every state reachable by recording events (well formed or
  not), tripping canaries, adding destinations and marking losses, the stored events stay within the limit, every
  counted finding is a known rule with a positive count, and as long as the engine does not report incomplete
  telemetry, every event the taps counted is stored.\<close>

theorem engine_invariant:
  assumes "engine_reachable max_events start eng"
  shows "int (length (en_events eng)) \<le> max 0 max_events \<and>
    (\<forall>r. 0 < fired eng r \<longrightarrow> mem r (map fst RULES)) \<and>
    (\<not> en_telemetry_incomplete eng \<longrightarrow> sum_list (map snd (en_tap_counts eng)) = length (en_events eng))"
proof -
  have inv: "engine_inv max_events eng" by (rule engine_reachable_inv [OF assms])
  have "mem r (map fst RULES)" if "0 < fired eng r" for r
  proof -
    from that obtain n where "map_of (en_finding_counts eng) r = Some n"
      by (auto simp: fired_def count_of_def split: option.splits)
    then have "r \<in> fst ` set (en_finding_counts eng)" by (force dest: map_of_SomeD)
    with inv show ?thesis unfolding engine_inv_def by blast
  qed
  with inv show ?thesis by (simp add: engine_inv_def)
qed

theorem engine_invariant_witness:
  "engine_reachable 1 0 (fst (record_event (new_engine 1 0) 5 PNone)) \<and>
   int (length (en_events (fst (record_event (new_engine 1 0) 5 PNone)))) \<le> 1"
proof -
  have r: "engine_reachable 1 0 (fst (record_event (new_engine 1 0) 5 PNone))"
    by (rule engine_reachable.record_event [OF engine_reachable.start]) simp
  from engine_invariant [OF r] r show ?thesis by simp
qed

subsection \<open>Evidence refines the events\<close>

definition record_all :: "engine \<Rightarrow> (int \<times> pyval) list \<Rightarrow> engine" where
  "record_all eng es = foldl (\<lambda>g (now, e). fst (record_event g now e)) eng es"

lemma record_all_fired:
  "list_all (\<lambda>(now, e). 0 \<le> now) es \<Longrightarrow>
   fired (record_all eng es) r = fired eng r + length (filter (\<lambda>(now, e). fires e = Some r) es)"
proof (induction es arbitrary: eng)
  case (Cons te es)
  obtain now e where te: "te = (now, e)" by force
  with Cons show ?case by (simp add: record_all_def record_event_fired)
qed (simp add: record_all_def)

lemma record_all_reachable:
  "list_all (\<lambda>(now, e). 0 \<le> now) es \<Longrightarrow> engine_reachable m start eng \<Longrightarrow> engine_reachable m start (record_all eng es)"
proof (induction es arbitrary: eng)
  case (Cons te es)
  obtain now e where te: "te = (now, e)" by force
  with Cons show ?case by (simp add: record_all_def engine_reachable.record_event)
qed (simp add: record_all_def)

lemma counted_fired:
  assumes "engine_inv m eng"
  shows "fst ` set (en_finding_counts eng) = {r. 0 < fired eng r}"
proof -
  have "0 < fired eng r \<longleftrightarrow> r \<in> fst ` set (en_finding_counts eng)" for r
  proof (cases "map_of (en_finding_counts eng) r")
    case None
    then show ?thesis using map_of_eq_None_iff [of "en_finding_counts eng" r] by (simp add: fired_def count_of_def)
  next
    case (Some n)
    then have "(r, n) \<in> set (en_finding_counts eng)" by (rule map_of_SomeD)
    moreover from this have "0 < n" using assms by (auto simp: engine_inv_def list_all_iff)
    ultimately show ?thesis using Some by (force simp: fired_def count_of_def)
  qed
  then show ?thesis by blast
qed

lemma rule_entry_known: "mem r (map fst RULES) \<Longrightarrow> \<exists>e. rule_entry r = Inr e"
proof -
  assume "mem r (map fst RULES)"
  then have "r \<in> fst ` set (map (\<lambda>(k, v). (str k, v)) RULES)" by (force simp: mem_def)
  then obtain e where "map_of (map (\<lambda>(k, v). (str k, v)) RULES) r = Some e"
    by (metis domD dom_map_of_conv_image_fst)
  then show ?thesis by (cases e) (simp add: rule_entry_def)
qed

text \<open>One evidence item per fired rule, in code point order, with its exact count.\<close>

definition evidence_item :: "engine \<Rightarrow> pystr \<Rightarrow> pyval" where
  "evidence_item eng r = obj [(''tap_category'', S (fst (projr (rule_entry r)))), (''rule_id'', PStr r),
     (''count'', PInt (int (fired eng r)))]"

lemma evidence_total:
  assumes "engine_inv m eng"
  shows "evidence eng = Inr (map (evidence_item eng) (sorted_list_of_set {r. 0 < fired eng r}))"
proof -
  have dist: "distinct (map fst (en_finding_counts eng))" using assms by (simp add: engine_inv_def)
  have keys: "sort (map fst (en_finding_counts eng)) = sorted_list_of_set {r. 0 < fired eng r}"
    using counted_fired [OF assms] sorted_list_of_set_sort_remdups [of "map fst (en_finding_counts eng)"]
    by (simp add: distinct_remdups_id [OF dist])
  have "bindE (rule_entry r) (\<lambda>(category, severity, hint). Inr (obj [(''tap_category'', S category), (''rule_id'', PStr r),
      (''count'', PInt (int (count_of (en_finding_counts eng) r)))])) = Inr (evidence_item eng r)"
    if "r \<in> set (sort (map fst (en_finding_counts eng)))" for r
  proof -
    from that have "mem r (map fst RULES)" using assms by (auto simp: engine_inv_def)
    then obtain e where "rule_entry r = Inr e" using rule_entry_known by blast
    then show ?thesis by (cases e) (simp add: evidence_item_def fired_def)
  qed
  then show ?thesis unfolding evidence_def keys [symmetric] by (rule mapE_all_Inr)
qed

text \<open>C33: the engine refines a multiset of findings. After any sequence of \<open>record\<close> calls on a fresh engine, \<open>evidence()\<close>
  returns, in code point order, exactly one item for each rule that some event fired (a malformed event fires
  \<open>malformed_report\<close>), and its count is the number of events that fired it, whatever the event limit.\<close>

theorem evidence_refines_events:
  assumes "list_all (\<lambda>(now, e). 0 \<le> now) es"
  shows "\<exists>items. evidence (record_all (new_engine max_events start) es) = Inr items \<and>
    map (\<lambda>i. get i ''rule_id'') items = map PStr (sorted_list_of_set {r. \<exists>now e. (now, e) \<in> set es \<and> fires e = Some r}) \<and>
    list_all (\<lambda>i. get i ''count'' =
      PInt (int (length (filter (\<lambda>(now, e). fires e = Some (text_of (get i ''rule_id''))) es)))) items"
proof -
  let ?g = "record_all (new_engine max_events start) es"
  have inv: "engine_inv max_events ?g"
    by (rule engine_reachable_inv [OF record_all_reachable [OF assms engine_reachable.start]])
  have f: "fired ?g r = length (filter (\<lambda>(now, e). fires e = Some r) es)" for r
    using record_all_fired [OF assms, of "new_engine max_events start" r]
    by (simp add: new_engine_def fired_def count_of_def)
  have "{r. 0 < fired ?g r} = {r. \<exists>now e. (now, e) \<in> set es \<and> fires e = Some r}"
    unfolding f length_greater_0_conv filter_empty_conv by auto
  then show ?thesis
    by (intro exI [of _ "map (evidence_item ?g) (sorted_list_of_set {r. 0 < fired ?g r})"])
      (simp add: evidence_total [OF inv] evidence_item_def py_eval f comp_def list.pred_map list_all_iff)
qed

theorem evidence_refines_events_witness:
  "\<exists>items. evidence (record_all (new_engine 0 0) [(1, PNone)]) = Inr items \<and>
    map (\<lambda>i. get i ''rule_id'') items = map PStr (sorted_list_of_set {r. \<exists>now e. (now, e) \<in> set [(1 :: int, PNone)] \<and> fires e = Some r})"
  using evidence_refines_events [of "[(1, PNone)]" 0 0] by auto

end
