(* ===== verification/Outward_Broker.thy ===== *)
theory Outward_Broker
  imports Detectors Ksl
begin

section \<open>The outward report and its gate\<close>

text \<open>
  \<open>broker/broker.py\<close>: the schema of the outward report and the capability broker that builds it from the detector
  engine. The broker grants nothing: whatever is requested is denied and listed.
\<close>

definition REPORT_KEYS :: "string list" where
  "REPORT_KEYS = [''risk_level'', ''evidence'', ''capabilities_requested'', ''destinations'', ''canaries_tripped'', ''uncertainty'']"

definition OUT_EVIDENCE_KEYS :: "string list" where
  "OUT_EVIDENCE_KEYS = [''tap_category'', ''rule_id'', ''count'']"

definition RISK_LEVELS :: "string list" where
  "RISK_LEVELS = [''benign'', ''suspicious'', ''hostile'']"

definition TAP_CATEGORIES :: "string list" where
  "TAP_CATEGORIES = [''filesystem'', ''process_tree'', ''dns'', ''network_flows'', ''cred_access'', ''syscall_class'',
     ''resource_use'', ''canary_trips'']"

abbreviation bad_report :: "string \<Rightarrow> 'a res" where
  "bad_report m \<equiv> Inl (OutwardReportSchemaError m)"

definition bounded_string_list :: "pyval \<Rightarrow> string \<Rightarrow> pyval list res" where
  "bounded_string_list v name =
     bindE (as_list (OutwardReportSchemaError (name @ '' must be a bounded list'')) v) (\<lambda>xs.
     if 256 < length xs then bad_report (name @ '' must be a bounded list'')
     else if list_ex (\<lambda>x. case x of PStr s \<Rightarrow> 512 < length s | _ \<Rightarrow> True) xs then bad_report (name @ '' contains an invalid string'')
     else Inr xs)"

definition validate_evidence_item :: "pyval \<Rightarrow> unit res" where
  "validate_evidence_item i =
     (if \<not> has_shape i OUT_EVIDENCE_KEYS then bad_report ''malformed evidence item''
      else
        bindE (require_member (get i ''tap_category'') TAP_CATEGORIES (OutwardReportSchemaError ''invalid tap_category'')) (\<lambda>_.
        bindE (as_str (OutwardReportSchemaError ''invalid evidence rule_id'') (get i ''rule_id'')) (\<lambda>r.
        if r = [] \<or> 128 < length r then bad_report ''invalid evidence rule_id''
        else if \<not> uint (get i ''count'') then bad_report ''evidence count must be uint''
        else Inr ())))"

text \<open>\<open>float(v)\<close> of a number: integers round to a double.\<close>

fun float_of :: "pyval \<Rightarrow> pyfloat res" where
  "float_of (PFloat f) = Inr f"
| "float_of (PInt i) = (case round_double (of_int i) of Fin r \<Rightarrow> Inr (Fin r) | f \<Rightarrow> Inl (OtherException ''OverflowError''))"
| "float_of (PBool b) = Inr (Fin (if b then 1 else 0))"
| "float_of v = Inl TypeError"

definition in_unit :: "pyfloat \<Rightarrow> bool" where
  "in_unit f = (case f of Fin r \<Rightarrow> 0 \<le> r \<and> r \<le> 1 | _ \<Rightarrow> False)"

definition validate_uncertainty :: "pyval \<Rightarrow> unit res" where
  "validate_uncertainty u =
     (case u of
        PInt i \<Rightarrow> bindE (float_of u) (\<lambda>f. if in_unit f then Inr () else bad_report ''uncertainty is outside 0.0-1.0'')
      | PFloat f \<Rightarrow> if in_unit f then Inr () else bad_report ''uncertainty is outside 0.0-1.0''
      | _ \<Rightarrow> bad_report ''uncertainty must be numeric'')"

definition validate_outward_report :: "pyval \<Rightarrow> unit res" where
  "validate_outward_report report =
     (if \<not> has_shape report REPORT_KEYS then bad_report ''outward_report has missing or extra fields''
      else
        bindE (require_member (get report ''risk_level'') RISK_LEVELS (OutwardReportSchemaError ''invalid risk_level'')) (\<lambda>_.
        bindE (as_list (OutwardReportSchemaError ''evidence must be a bounded list'') (get report ''evidence'')) (\<lambda>items.
        if 512 < length items then bad_report ''evidence must be a bounded list'' else
        bindE (mapE validate_evidence_item items) (\<lambda>_.
        bindE (bounded_string_list (get report ''capabilities_requested'') ''capabilities_requested'') (\<lambda>_.
        bindE (bounded_string_list (get report ''destinations'') ''destinations'') (\<lambda>_.
        bindE (bounded_string_list (get report ''canaries_tripped'') ''canaries_tripped'') (\<lambda>_.
        validate_uncertainty (get report ''uncertainty''))))))))"

record capability_broker =
  cb_detector :: engine
  cb_requested :: "pystr list"
  cb_granted :: "pystr list"
  cb_denied :: "pystr list"

definition new_capability_broker :: "engine \<Rightarrow> capability_broker" where
  "new_capability_broker eng = \<lparr>cb_detector = eng, cb_requested = [], cb_granted = [], cb_denied = []\<rparr>"

fun normalize_capabilities :: "pystr list \<Rightarrow> pyval list \<Rightarrow> pystr list res" where
  "normalize_capabilities acc [] = Inr acc"
| "normalize_capabilities acc (c # cs) =
     bindE (as_str (ValueError ''capability names must be bounded strings'') c) (\<lambda>s.
     if s = [] \<or> 128 < length s then Inl (ValueError ''capability names must be bounded strings'')
     else normalize_capabilities (if s \<in> set acc then acc else acc @ [s]) cs)"

definition request_capabilities :: "capability_broker \<Rightarrow> pyval list \<Rightarrow> capability_broker \<times> unit res" where
  "request_capabilities b capabilities =
     (case normalize_capabilities [] capabilities of
        Inl e \<Rightarrow> (b, Inl e)
      | Inr normalized \<Rightarrow> (b\<lparr>cb_requested := normalized, cb_granted := [], cb_denied := normalized\<rparr>, Inr ()))"

text \<open>\<open>max(0.0, min(1.0, x))\<close>: Python keeps the first operand when the comparison is false, so NaN clamps to 1.\<close>

definition clamp_unit :: "pyfloat \<Rightarrow> pyfloat" where
  "clamp_unit f =
     (case f of NaN \<Rightarrow> Fin 1 | PosInf \<Rightarrow> Fin 1 | NegInf \<Rightarrow> Fin 0
      | Fin r \<Rightarrow> if r < 0 then Fin 0 else if 1 < r then Fin 1 else Fin r)"

definition risk_level :: "capability_broker \<Rightarrow> pyval list \<Rightarrow> string" where
  "risk_level b items =
     (if list_ex (\<lambda>i. in_strs (get i ''rule_id'') KNOWN_BAD_RULES) items then ''hostile''
      else if items \<noteq> [] \<or> cb_denied b \<noteq> [] then ''suspicious'' else ''benign'')"

definition build_report :: "capability_broker \<Rightarrow> pyfloat \<Rightarrow> pyval res" where
  "build_report b uncertainty =
     bindE (evidence (cb_detector b)) (\<lambda>items.
       let report = obj
         [(''risk_level'', S (risk_level b items)), (''evidence'', PList items),
          (''capabilities_requested'', PList (map PStr (cb_requested b))),
          (''destinations'', PList (map PStr (sort (map fst (en_destinations (cb_detector b)))))),
          (''canaries_tripped'', PList (map PStr (sort (map fst (en_canaries (cb_detector b)))))),
          (''uncertainty'', PFloat (clamp_unit uncertainty))]
       in bindE (validate_outward_report report) (\<lambda>_. Inr report))"

subsection \<open>Lemmas\<close>

lemma fired_rules_finite: "finite {r. 0 < fired eng r}"
proof -
  have "{r. 0 < fired eng r} \<subseteq> fst ` set (en_finding_counts eng)"
    by (auto simp: fired_def count_of_def dest: map_of_SomeD split: option.splits intro!: rev_image_eqI)
  then show ?thesis by (rule finite_subset) simp
qed

lemma evidence_rules:
  assumes "engine_inv m eng" "evidence eng = Inr items"
  shows "list_ex (\<lambda>i. P (get i ''rule_id'')) items \<longleftrightarrow> (\<exists>r. 0 < fired eng r \<and> P (PStr r))"
    "items = [] \<longleftrightarrow> (\<forall>r. fired eng r = 0)"
proof -
  have items: "items = map (evidence_item eng) (sorted_list_of_set {r. 0 < fired eng r})"
    using evidence_total [OF assms(1)] assms(2) by simp
  show "list_ex (\<lambda>i. P (get i ''rule_id'')) items \<longleftrightarrow> (\<exists>r. 0 < fired eng r \<and> P (PStr r))"
    by (simp add: items list_ex_iff evidence_item_def py_eval fired_rules_finite)
  have "{r. 0 < fired eng r} = {} \<longleftrightarrow> (\<forall>r. fired eng r = 0)" by auto
  then show "items = [] \<longleftrightarrow> (\<forall>r. fired eng r = 0)"
    by (simp add: items sorted_list_of_set_eq_Nil_iff fired_rules_finite)
qed

lemma build_report_fields:
  assumes "build_report b u = Inr report"
  obtains items where "evidence (cb_detector b) = Inr items" "get report ''risk_level'' = S (risk_level b items)"
    "get report ''evidence'' = PList items" "get report ''capabilities_requested'' = PList (map PStr (cb_requested b))"
    "get report ''canaries_tripped'' = PList (map PStr (sort (map fst (en_canaries (cb_detector b)))))"
    "validate_outward_report report = Inr ()"
  using assms by (auto simp: build_report_def bindE_eq_Inr Let_def py_eval)

text \<open>the outward report says what the engine saw. For every reachable engine, a built report passes the outward
  schema; its risk level is hostile exactly when a known-bad rule fired, and benign exactly when no rule fired and
  no capability was requested; nothing is ever granted by a capability request.\<close>

theorem outward_report_risk:
  assumes "engine_reachable m start (cb_detector b)" "build_report b u = Inr report"
  shows "validate_outward_report report = Inr () \<and>
    (get report ''risk_level'' = S ''hostile'') = (\<exists>r\<in>set KNOWN_BAD_RULES. 0 < fired (cb_detector b) (str r)) \<and>
    (get report ''risk_level'' = S ''benign'') = ((\<forall>r. fired (cb_detector b) r = 0) \<and> cb_denied b = []) \<and>
    (\<forall>cs. snd (request_capabilities b cs) = Inr () \<longrightarrow> cb_granted (fst (request_capabilities b cs)) = [])"
proof -
  obtain items where i: "evidence (cb_detector b) = Inr items" "get report ''risk_level'' = S (risk_level b items)"
    "get report ''evidence'' = PList items" "get report ''capabilities_requested'' = PList (map PStr (cb_requested b))"
    "get report ''canaries_tripped'' = PList (map PStr (sort (map fst (en_canaries (cb_detector b)))))"
    "validate_outward_report report = Inr ()" by (rule build_report_fields [OF assms(2)])
  note ev = evidence_rules [OF engine_reachable_inv [OF assms(1)] i(1)]
  have bad: "list_ex (\<lambda>i. in_strs (get i ''rule_id'') KNOWN_BAD_RULES) items \<longleftrightarrow>
      (\<exists>r\<in>set KNOWN_BAD_RULES. 0 < fired (cb_detector b) (str r))"
    using ev(1) [of "\<lambda>v. in_strs v KNOWN_BAD_RULES"] by (auto simp: in_strs_iff)
  have "\<not> list_ex (\<lambda>i. in_strs (get i ''rule_id'') KNOWN_BAD_RULES) items" if "items = []" using that by simp
  then show ?thesis using i(2,6) bad ev(2)
    by (auto simp: risk_level_def request_capabilities_def split: sum.split)
qed

definition tripped_engine :: engine where
  "tripped_engine = record_all (new_engine 10 0) [(1, PNone)]"

lemma tripped_reachable: "engine_reachable 10 0 tripped_engine"
  unfolding tripped_engine_def by (rule record_all_reachable [OF _ engine_reachable.start]) simp

lemma tripped_evidence:
  "evidence tripped_engine = Inr [obj [(''tap_category'', S ''syscall_class''), (''rule_id'', S ''malformed_report''), (''count'', PInt 1)]]"
  by (simp add: tripped_engine_def record_all_def record_event_eq validate_telemetry_event_def has_shape_def
      record_valid_def Let_def malformed_event_def py_eval new_engine_def evidence_def rule_entry_def RULES_def count_of_def sort_key_simps)

lemma tripped_tables: "en_canaries tripped_engine = []" "en_destinations tripped_engine = []"
  by (simp_all add: tripped_engine_def record_all_def record_event_eq validate_telemetry_event_def has_shape_def
      record_valid_def Let_def new_engine_def)

lemma tripped_fired: "0 < fired tripped_engine (str ''malformed_report'')"
  using record_all_fired [of "[(1, PNone)]" "new_engine 10 0" "str ''malformed_report''"]
  by (simp add: tripped_engine_def fires_def validate_telemetry_event_def has_shape_def)

lemma tripped_report:
  "\<exists>report. build_report (new_capability_broker tripped_engine) (Fin 0) = Inr report"
  by (simp add: build_report_def new_capability_broker_def tripped_evidence Let_def validate_outward_report_def py_eval REPORT_KEYS_def
      insert_commute require_member_def in_set_def risk_level_def RISK_LEVELS_def validate_evidence_item_def OUT_EVIDENCE_KEYS_def
      TAP_CATEGORIES_def uint_def bounded_string_list_def validate_uncertainty_def clamp_unit_def in_unit_def tripped_tables)

theorem outward_report_risk_witness:
  "\<exists>report. build_report (new_capability_broker tripped_engine) (Fin 0) = Inr report \<and> get report ''risk_level'' = S ''hostile''"
proof -
  obtain report where r: "build_report (new_capability_broker tripped_engine) (Fin 0) = Inr report" using tripped_report by blast
  have "engine_reachable 10 0 (cb_detector (new_capability_broker tripped_engine))"
    by (simp add: new_capability_broker_def tripped_reachable)
  from outward_report_risk [OF this r] have "get report ''risk_level'' = S ''hostile''"
    using tripped_fired by (auto simp: new_capability_broker_def KNOWN_BAD_RULES_def RULES_def)
  with r show ?thesis by blast
qed

end
