(* ===== verification/Browser_Reducer.thy ===== *)
theory Browser_Reducer
  imports Url_Canonical "HOL-Library.Char_ord"
begin

section \<open>Browser evidence: validation and reduction, versions 1 and 2\<close>

text \<open>
  The second half of \<open>mote/browser_contract.py\<close> (the guest's evidence, v1) and
  \<open>mote/browser_evidence.py\<close> (the host's evidence, v2). A validated event is the record \<open>bevent\<close>; a
  \<open>Counter\<close> of findings is the list of its increments. The reducers return a result because a
  missing severity or an origin that does not map to a CONNECT authority would raise; the lemmas show
  that neither happens.
\<close>

subsection \<open>Tables\<close>

definition REQUIRED_STREAMS :: "string list" where
  "REQUIRED_STREAMS = [''browser'', ''cdp'', ''egress'', ''vm'']"

definition EVIDENCE_KEYS :: "string list" where
  "EVIDENCE_KEYS = [''evidence_version'', ''events'', ''streams'']"

definition STREAM_STATUS_KEYS :: "string list" where
  "STREAM_STATUS_KEYS = [''complete'', ''event_count'']"

definition EVENT_KEYS :: "string list" where
  "EVENT_KEYS = [''sequence'', ''source'', ''kind'', ''origin'', ''disposition'']"

definition KIND_DISPOSITIONS :: "(string \<times> string list) list" where
  "KIND_DISPOSITIONS =
    [(''lifecycle'', [''started'', ''stopped'', ''failed'']),
     (''navigation'', [''committed'', ''blocked'', ''failed'']),
     (''redirect'', [''followed'', ''blocked'']),
     (''network_request'', [''allowed'', ''blocked'']),
     (''download_attempt'', [''attempted'', ''blocked'']),
     (''file_upload_attempt'', [''attempted'', ''blocked'']),
     (''popup_attempt'', [''attempted'', ''blocked'']),
     (''active_interaction'', [''attempted'', ''blocked'']),
     (''prompt_marker'', [''visible'', ''hidden'']),
     (''mixed_content'', [''observed'', ''blocked'']),
     (''browser_sandbox'', [''active'', ''inactive'']),
     (''network_consistency'', [''matched'', ''mismatched'']),
     (''telemetry_loss'', [''observed''])]"

definition KIND_SOURCES :: "(string \<times> string list) list" where
  "KIND_SOURCES =
    [(''lifecycle'', [''browser'', ''vm'']), (''navigation'', [''cdp'']), (''redirect'', [''cdp'']),
     (''network_request'', [''cdp'', ''egress'']), (''download_attempt'', [''cdp'']),
     (''file_upload_attempt'', [''browser'', ''cdp'']), (''popup_attempt'', [''cdp'']),
     (''active_interaction'', [''browser'', ''cdp'']), (''prompt_marker'', [''browser'', ''cdp'']),
     (''mixed_content'', [''cdp'']), (''browser_sandbox'', [''browser'', ''cdp'']),
     (''network_consistency'', [''egress'', ''vm'']), (''telemetry_loss'', REQUIRED_STREAMS)]"

definition ORIGIN_REQUIRED_KINDS :: "string list" where
  "ORIGIN_REQUIRED_KINDS = [''navigation'', ''redirect'', ''network_request'']"

definition FINDING_SEVERITIES :: "(string \<times> string) list" where
  "FINDING_SEVERITIES =
    [(''web_active_interaction_attempt'', ''CRITICAL''), (''web_blocked_egress_attempt'', ''HIGH''),
     (''web_browser_execution_failed'', ''CRITICAL''), (''web_browser_lifecycle_incomplete'', ''CRITICAL''),
     (''web_browser_sandbox_inactive'', ''CRITICAL''), (''web_browser_sandbox_unknown'', ''CRITICAL''),
     (''web_browser_telemetry_loss'', ''CRITICAL''), (''web_cdp_telemetry_loss'', ''CRITICAL''),
     (''web_download_attempt'', ''HIGH''), (''web_egress_telemetry_loss'', ''CRITICAL''),
     (''web_event_budget_exceeded'', ''CRITICAL''), (''web_evidence_count_mismatch'', ''CRITICAL''),
     (''web_evidence_schema_invalid'', ''CRITICAL''), (''web_evidence_sequence_gap'', ''CRITICAL''),
     (''web_file_upload_attempt'', ''CRITICAL''), (''web_host_guest_network_mismatch'', ''CRITICAL''),
     (''web_host_guest_network_unknown'', ''CRITICAL''), (''web_mixed_content_observed'', ''HIGH''),
     (''web_navigation_failed'', ''HIGH''), (''web_navigation_missing'', ''CRITICAL''),
     (''web_popup_attempt'', ''HIGH''), (''web_prompt_marker_hidden'', ''HIGH''),
     (''web_prompt_marker_visible'', ''HIGH''), (''web_redirect_budget_exceeded'', ''CRITICAL''),
     (''web_unauthorized_origin_attempt'', ''CRITICAL''), (''web_vm_execution_failed'', ''CRITICAL''),
     (''web_vm_lifecycle_incomplete'', ''CRITICAL''), (''web_vm_telemetry_loss'', ''CRITICAL'')]"

definition TELEMETRY_INCOMPLETE_FINDINGS :: "string list" where
  "TELEMETRY_INCOMPLETE_FINDINGS =
    [''web_browser_execution_failed'', ''web_browser_lifecycle_incomplete'',
     ''web_browser_sandbox_unknown'', ''web_browser_telemetry_loss'', ''web_cdp_telemetry_loss'',
     ''web_egress_telemetry_loss'', ''web_event_budget_exceeded'', ''web_evidence_count_mismatch'',
     ''web_evidence_schema_invalid'', ''web_evidence_sequence_gap'',
     ''web_host_guest_network_unknown'', ''web_navigation_failed'', ''web_navigation_missing'',
     ''web_redirect_budget_exceeded'', ''web_vm_execution_failed'', ''web_vm_lifecycle_incomplete'',
     ''web_vm_telemetry_loss'']"

definition stream_loss_finding :: "string \<Rightarrow> string" where
  "stream_loss_finding source =
     (if source = ''browser'' then ''web_browser_telemetry_loss''
      else if source = ''cdp'' then ''web_cdp_telemetry_loss''
      else if source = ''egress'' then ''web_egress_telemetry_loss''
      else ''web_vm_telemetry_loss'')"

definition table :: "(string \<times> string list) list \<Rightarrow> string \<Rightarrow> string list" where
  "table t k = (case map_of t k of None \<Rightarrow> [] | Some vs \<Rightarrow> vs)"

subsection \<open>Validated events and streams\<close>

record bevent =
  e_sequence :: int
  e_source :: string
  e_kind :: string
  e_origin :: "pystr option"
  e_authority :: "pystr option"
  e_disposition :: string

record bstream =
  s_complete :: bool
  s_count :: int

text \<open>
  \<open>v in (...)\<close> for a tuple compares; \<open>v in {...}\<close> hashes first, and a list or dictionary raises
  \<open>TypeError\<close>.
\<close>

definition one_of :: "exn \<Rightarrow> string list \<Rightarrow> pyval \<Rightarrow> string res" where
  "one_of e ss v = (case find (\<lambda>s. v = S s) ss of None \<Rightarrow> Inl e | Some s \<Rightarrow> Inr s)"

definition one_of_set :: "exn \<Rightarrow> string list \<Rightarrow> pyval \<Rightarrow> string res" where
  "one_of_set e ss v = (if hashable v then one_of e ss v else Inl TypeError)"

definition event_sequence :: "pyval \<Rightarrow> int res" where
  "event_sequence v =
     bindE (as_int (bad ''browser event sequence is invalid'') (get v ''sequence'')) (\<lambda>i.
       if 0 \<le> i \<and> i < int MAX_EVIDENCE_EVENTS then Inr i
       else Inl (bad ''browser event sequence is invalid''))"

definition optional_text :: "exn \<Rightarrow> (pyval \<Rightarrow> pystr res) \<Rightarrow> pyval \<Rightarrow> pystr option res" where
  "optional_text e f v =
     (if v = PNone then Inr None
      else bindE (as_str e v) (\<lambda>s. bindE (f (PStr s)) (\<lambda>x. Inr (Some x))))"

definition validate_event_v1 :: "unicode_db \<Rightarrow> pyval \<Rightarrow> bevent res" where
  "validate_event_v1 db v =
     (if \<not> has_shape v EVENT_KEYS then Inl (bad ''browser event has missing or extra fields'')
      else
        bindE (event_sequence v) (\<lambda>n.
        bindE (one_of (bad ''browser event source is invalid'') REQUIRED_STREAMS (get v ''source'')) (\<lambda>source.
        bindE (one_of_set (bad ''browser event kind is invalid'') (map fst KIND_DISPOSITIONS) (get v ''kind''))
          (\<lambda>kind.
        if source \<notin> set (table KIND_SOURCES kind) then
          Inl (bad ''browser event source cannot emit this kind'')
        else
        bindE (one_of_set (bad ''browser event disposition is invalid'') (table KIND_DISPOSITIONS kind)
          (get v ''disposition'')) (\<lambda>disposition.
        bindE (optional_text (bad ''browser event origin must be an origin or null'')
          (normalize_origin db) (get v ''origin'')) (\<lambda>origin.
          if kind \<in> set ORIGIN_REQUIRED_KINDS \<and> origin = None then
            Inl (bad ''browser event kind requires an origin'')
          else Inr \<lparr>e_sequence = n, e_source = source, e_kind = kind, e_origin = origin,
                    e_authority = None, e_disposition = disposition\<rparr>))))))"

definition stream_status :: "pyval \<Rightarrow> string \<Rightarrow> bstream res" where
  "stream_status v source =
     (let status = get v source in
      if \<not> has_shape status STREAM_STATUS_KEYS then
        Inl (bad ''browser evidence stream status is malformed'')
      else
        bindE (as_bool (bad ''browser evidence stream complete must be bool'') (get status ''complete'')) (\<lambda>c.
        bindE (as_int (bad ''browser evidence stream event_count is invalid'') (get status ''event_count'')) (\<lambda>n.
          if 0 \<le> n \<and> n \<le> int MAX_EVIDENCE_EVENTS then Inr \<lparr>s_complete = c, s_count = n\<rparr>
          else Inl (bad ''browser evidence stream event_count is invalid''))))"

definition validate_evidence ::
  "string \<Rightarrow> (pyval \<Rightarrow> bevent res) \<Rightarrow> pyval \<Rightarrow> (bevent list \<times> bstream list) res" where
  "validate_evidence version event v =
     (if \<not> has_shape v EVIDENCE_KEYS then Inl (bad ''browser evidence has missing or extra fields'')
      else if get v ''evidence_version'' \<noteq> S version then
        Inl (bad ''unsupported browser evidence version'')
      else
        bindE (as_list (bad ''browser evidence events must be a bounded list'') (get v ''events'')) (\<lambda>raw.
        if MAX_EVIDENCE_EVENTS < length raw then Inl (bad ''browser evidence events must be a bounded list'')
        else
        bindE (mapE event raw) (\<lambda>events.
        if \<not> has_shape (get v ''streams'') REQUIRED_STREAMS then
          Inl (bad ''browser evidence stream set is incomplete'')
        else
        bindE (mapE (stream_status (get v ''streams'')) REQUIRED_STREAMS) (\<lambda>streams.
          Inr (events, streams)))))"

definition validate_evidence_v1 :: "unicode_db \<Rightarrow> pyval \<Rightarrow> (bevent list \<times> bstream list) res" where
  "validate_evidence_v1 db = validate_evidence EVIDENCE_VERSION (validate_event_v1 db)"

subsection \<open>Findings\<close>

definition finding_item :: "string list \<Rightarrow> string \<Rightarrow> pyval res" where
  "finding_item ids f =
     (case map_of FINDING_SEVERITIES f of
        None \<Rightarrow> Inl KeyError
      | Some sev \<Rightarrow> Inr (obj [(''finding_id'', S f), (''count'', PInt (int (count_list ids f))),
                              (''severity'', S sev)]))"

definition finding_items :: "string list \<Rightarrow> pyval list res" where
  "finding_items ids = mapE (finding_item ids) (sort (remdups ids))"

definition reduction ::
  "string \<Rightarrow> bool \<Rightarrow> string list \<Rightarrow> nat \<Rightarrow> (string \<times> pyval) list \<Rightarrow> pyval res" where
  "reduction version incomplete ids observed streams =
     bindE (finding_items ids) (\<lambda>items.
       Inr (obj [(''evidence_version'', S version), (''complete'', PBool (\<not> incomplete)),
                 (''telemetry_incomplete'', PBool incomplete), (''fail_closed'', PBool incomplete),
                 (''decision'', S (if incomplete \<or> items \<noteq> [] then ''DENY'' else ''ALLOW'')),
                 (''events_observed'', PInt (int observed)), (''streams'', obj streams),
                 (''findings'', PList items)]))"

definition stream_item :: "int \<Rightarrow> nat \<Rightarrow> bool \<Rightarrow> pyval" where
  "stream_item declared observed ok = obj
     [(''declared_event_count'', PInt declared), (''observed_event_count'', PInt (int observed)),
      (''complete'', PBool ok)]"

definition closed_reduction :: "string \<Rightarrow> string \<Rightarrow> pyval res" where
  "closed_reduction version f =
     reduction version True [f] 0 (map (\<lambda>s. (s, stream_item 0 0 False)) REQUIRED_STREAMS)"

text \<open>One event: the findings it adds, and whether it makes the evidence incomplete.\<close>

definition origin_findings_v1 :: "pystr list \<Rightarrow> bevent \<Rightarrow> string list" where
  "origin_findings_v1 allowed e =
     (if e_kind e \<in> set ORIGIN_REQUIRED_KINDS \<and> \<not> (\<exists>x\<in>set allowed. e_origin e = Some x)
      then [''web_unauthorized_origin_attempt''] else [])"

definition event_findings :: "bevent \<Rightarrow> string list" where
  "event_findings e =
     (let k = e_kind e; d = e_disposition e in
      if k = ''network_request'' \<and> d = ''blocked'' then [''web_blocked_egress_attempt'']
      else if k = ''download_attempt'' then [''web_download_attempt'']
      else if k = ''file_upload_attempt'' then [''web_file_upload_attempt'']
      else if k = ''popup_attempt'' then [''web_popup_attempt'']
      else if k = ''active_interaction'' then [''web_active_interaction_attempt'']
      else if k = ''prompt_marker'' then [''web_prompt_marker_'' @ d]
      else if k = ''mixed_content'' then [''web_mixed_content_observed'']
      else if k = ''browser_sandbox'' \<and> d = ''inactive'' then [''web_browser_sandbox_inactive'']
      else if k = ''network_consistency'' \<and> d = ''mismatched'' then [''web_host_guest_network_mismatch'']
      else if k = ''telemetry_loss'' then [stream_loss_finding (e_source e)]
      else if k = ''lifecycle'' \<and> d = ''failed'' then
        [if e_source e = ''browser'' then ''web_browser_execution_failed'' else ''web_vm_execution_failed'']
      else if k = ''navigation'' \<and> (d = ''blocked'' \<or> d = ''failed'') then [''web_navigation_failed'']
      else [])"

definition event_incomplete :: "bevent \<Rightarrow> bool" where
  "event_incomplete e =
     (e_kind e = ''telemetry_loss'' \<or> (e_kind e = ''lifecycle'' \<and> e_disposition e = ''failed'') \<or>
      (e_kind e = ''navigation'' \<and> (e_disposition e = ''blocked'' \<or> e_disposition e = ''failed'')))"

definition of_source :: "string \<Rightarrow> bevent list \<Rightarrow> bevent list" where
  "of_source source es = filter (\<lambda>e. e_source e = source) es"

definition contiguous :: "bevent list \<Rightarrow> bool" where
  "contiguous es = (sort (map e_sequence es) = map int [0..<length es])"

definition stream_findings :: "bevent list \<Rightarrow> string \<times> bstream \<Rightarrow> string list" where
  "stream_findings es ss =
     (let observed = of_source (fst ss) es in
      (if int (length observed) \<noteq> s_count (snd ss) then [''web_evidence_count_mismatch''] else []) @
      (if \<not> contiguous observed then [''web_evidence_sequence_gap''] else []) @
      (if \<not> s_complete (snd ss) then [stream_loss_finding (fst ss)] else []))"

definition count_kind :: "string \<Rightarrow> bevent list \<Rightarrow> nat" where
  "count_kind k es = length (filter (\<lambda>e. e_kind e = k) es)"

definition over_budget :: "pyval \<Rightarrow> string \<Rightarrow> nat \<Rightarrow> bool" where
  "over_budget budgets k n = (case plain_int (get budgets k) of Some m \<Rightarrow> m < int n | None \<Rightarrow> False)"

definition budget_findings :: "pyval \<Rightarrow> bevent list \<Rightarrow> string list" where
  "budget_findings budgets es =
     (if over_budget budgets ''max_events'' (length es) then [''web_event_budget_exceeded''] else []) @
     (if over_budget budgets ''max_redirects'' (count_kind ''redirect'' es)
      then [''web_redirect_budget_exceeded''] else [])"

definition missing_findings :: "(string \<times> string) list \<Rightarrow> bevent list \<Rightarrow> string list" where
  "missing_findings kinds es =
     concat (map (\<lambda>(k, f). if count_kind k es = 0 then [f] else []) kinds)"

definition lifecycle_closed :: "string \<Rightarrow> bevent list \<Rightarrow> bool" where
  "lifecycle_closed source es =
     (let ds = map e_disposition (filter (\<lambda>e. e_kind e = ''lifecycle'') (of_source source es))
      in ''started'' \<in> set ds \<and> ''stopped'' \<in> set ds)"

definition lifecycle_findings :: "bevent list \<Rightarrow> string list" where
  "lifecycle_findings es =
     (if \<not> lifecycle_closed ''browser'' es then [''web_browser_lifecycle_incomplete''] else []) @
     (if \<not> lifecycle_closed ''vm'' es then [''web_vm_lifecycle_incomplete''] else [])"

definition stream_summary :: "bevent list \<Rightarrow> bstream list \<Rightarrow> (string \<times> pyval) list" where
  "stream_summary es streams =
     map (\<lambda>(s, st). (s, stream_item (s_count st) (length (of_source s es)) (s_complete st)))
       (zip REQUIRED_STREAMS streams)"

text \<open>The findings after the event loop; each of them makes the evidence incomplete.\<close>

definition completeness_findings ::
  "(string \<times> string) list \<Rightarrow> pyval \<Rightarrow> bevent list \<Rightarrow> bstream list \<Rightarrow> string list" where
  "completeness_findings kinds budgets es streams =
     concat (map (stream_findings es) (zip REQUIRED_STREAMS streams)) @
     budget_findings budgets es @ missing_findings kinds es @ lifecycle_findings es"

definition required_kinds_v1 :: "(string \<times> string) list" where
  "required_kinds_v1 =
    [(''browser_sandbox'', ''web_browser_sandbox_unknown''),
     (''network_consistency'', ''web_host_guest_network_unknown''),
     (''navigation'', ''web_navigation_missing'')]"

definition allowed_origins :: "pyval \<Rightarrow> pystr list" where
  "allowed_origins request =
     (case get request ''authorized_origins'' of
        PList os \<Rightarrow> map (\<lambda>v. case v of PStr s \<Rightarrow> s | _ \<Rightarrow> []) os
      | _ \<Rightarrow> [])"

definition reduce_v1 :: "unicode_db \<Rightarrow> pyval \<Rightarrow> pyval \<Rightarrow> pyval res" where
  "reduce_v1 db evidence request =
     (case bindE (validate_probe_request db request) (\<lambda>req.
             bindE (validate_evidence_v1 db evidence) (\<lambda>ev. Inr (req, ev))) of
        Inl e \<Rightarrow> closed_reduction EVIDENCE_VERSION ''web_evidence_schema_invalid''
      | Inr (req, es, streams) \<Rightarrow>
          (let findings = concat (map (\<lambda>e. origin_findings_v1 (allowed_origins req) e @ event_findings e) es);
               late = completeness_findings required_kinds_v1 (get req ''budgets'') es streams
           in reduction EVIDENCE_VERSION (list_ex event_incomplete es \<or> late \<noteq> []) (findings @ late)
                (length es) (stream_summary es streams)))"

subsection \<open>Version 2: independent network witnesses\<close>

definition EVIDENCE_VERSION_v2 :: string where
  "EVIDENCE_VERSION_v2 = ''cindermote.browser-evidence/v2''"

definition EVENT_KEYS_v2 :: "string list" where
  "EVENT_KEYS_v2 = [''sequence'', ''source'', ''kind'', ''web_origin'', ''connect_authority'', ''disposition'']"

definition KIND_DISPOSITIONS_v2 :: "(string \<times> string list) list" where
  "KIND_DISPOSITIONS_v2 =
    [(''lifecycle'', [''started'', ''stopped'', ''failed'']),
     (''navigation'', [''committed'', ''blocked'', ''failed'']),
     (''redirect'', [''followed'', ''blocked'']),
     (''network_request'', [''allowed'', ''blocked'']),
     (''download_attempt'', [''attempted'', ''blocked'']),
     (''file_upload_attempt'', [''attempted'', ''blocked'']),
     (''popup_attempt'', [''attempted'', ''blocked'']),
     (''active_interaction'', [''attempted'', ''blocked'']),
     (''prompt_marker'', [''visible'', ''hidden'']),
     (''mixed_content'', [''observed'', ''blocked'']),
     (''browser_sandbox'', [''active'', ''inactive'']),
     (''telemetry_loss'', [''observed''])]"

definition KIND_SOURCES_v2 :: "(string \<times> string list) list" where
  "KIND_SOURCES_v2 =
    [(''lifecycle'', [''browser'', ''vm'']), (''navigation'', [''cdp'']), (''redirect'', [''cdp'']),
     (''network_request'', [''cdp'', ''egress'']), (''download_attempt'', [''cdp'']),
     (''file_upload_attempt'', [''browser'', ''cdp'']), (''popup_attempt'', [''cdp'']),
     (''active_interaction'', [''browser'', ''cdp'']), (''prompt_marker'', [''browser'', ''cdp'']),
     (''mixed_content'', [''cdp'']), (''browser_sandbox'', [''browser'', ''cdp'']),
     (''telemetry_loss'', REQUIRED_STREAMS)]"

definition WEB_ORIGIN_REQUIRED_KINDS :: "string list" where
  "WEB_ORIGIN_REQUIRED_KINDS = [''navigation'', ''redirect'']"

definition TELEMETRY_INCOMPLETE_FINDINGS_v2 :: "string list" where
  "TELEMETRY_INCOMPLETE_FINDINGS_v2 =
     filter (\<lambda>f. f \<notin> {''web_host_guest_network_mismatch'', ''web_host_guest_network_unknown''})
       TELEMETRY_INCOMPLETE_FINDINGS"

definition normalize_connect_authority :: "unicode_db \<Rightarrow> pyval \<Rightarrow> pystr res" where
  "normalize_connect_authority db v =
     bindE (as_str (bad ''CONNECT authority must be canonical host:port'') v) (\<lambda>s.
       if s = [] \<or> s \<noteq> strip s \<or> count_list s 58 \<noteq> 1 \<or>
          list_ex (\<lambda>c. c \<in> {47, 63, 35, 64, 92}) s then
         Inl (bad ''CONNECT authority must be canonical host:port'')
       else
         (let raw_host = before 58 s; raw_port = after 58 s in
          if raw_host = [] \<or> \<not> py_isdigit db raw_port then
            Inl (bad ''CONNECT authority must include an explicit port'')
          else (case py_int db raw_port of
              None \<Rightarrow> Inl (ValueError ''invalid literal for int'')
            | Some port \<Rightarrow>
                if \<not> (1 \<le> port \<and> port \<le> 65535) then Inl (bad ''CONNECT authority port is invalid'')
                else
                  bindE (normalize_origin db (PStr (str ''https://'' @ raw_host @ [58] @ dec port))) (\<lambda>origin.
                  bindE (urlsplit db origin) (\<lambda>r.
                  case sr_hostname db r of
                    None \<Rightarrow> Inl (bad ''CONNECT authority hostname is invalid'')
                  | Some hostname \<Rightarrow> Inr (hostname @ [58] @ dec port))))))"

definition connect_authority_for_origin :: "unicode_db \<Rightarrow> pyval \<Rightarrow> pystr res" where
  "connect_authority_for_origin db v =
     bindE (normalize_origin db v) (\<lambda>origin.
     bindE (urlsplit db origin) (\<lambda>r.
       case sr_hostname db r of
         None \<Rightarrow> Inl (bad ''CONNECT authority requires an HTTPS origin'')
       | Some hostname \<Rightarrow>
           if sr_scheme r \<noteq> str ''https'' then Inl (bad ''CONNECT authority requires an HTTPS origin'')
           else bindE (sr_port r) (\<lambda>port.
             Inr (hostname @ [58] @ dec (case port of None \<Rightarrow> 443 | Some p \<Rightarrow> if p = 0 then 443 else p)))))"

definition witness_rules :: "unicode_db \<Rightarrow> string \<Rightarrow> string \<Rightarrow> pystr option \<Rightarrow> pystr option \<Rightarrow> unit res" where
  "witness_rules db kind source web_origin connect_authority =
     (if web_origin \<noteq> None \<and> connect_authority \<noteq> None then
        Inl (bad ''browser event interchanges independent witnesses'')
      else if kind \<in> set WEB_ORIGIN_REQUIRED_KINDS then
        (if web_origin = None \<or> connect_authority \<noteq> None then
           Inl (bad ''CDP event requires a web origin'') else Inr ())
      else if kind = ''network_request'' then
        (if source = ''cdp'' then
           (if web_origin = None \<or> connect_authority \<noteq> None then
              Inl (bad ''CDP network evidence requires a web origin'') else Inr ())
         else if source = ''egress'' then
           (if (web_origin = None) = (connect_authority = None) then
              Inl (bad ''proxy network evidence requires exactly one witness type'')
            else (case web_origin of
                None \<Rightarrow> Inr ()
              | Some w \<Rightarrow> bindE (urlsplit db w) (\<lambda>r.
                  if sr_scheme r \<noteq> str ''http'' then
                    Inl (bad ''proxy web-origin evidence is limited to plain HTTP'') else Inr ())))
         else Inr ())
      else if web_origin \<noteq> None \<or> connect_authority \<noteq> None then
        Inl (bad ''browser event kind cannot carry a destination'')
      else Inr ())"

definition validate_event_v2 :: "unicode_db \<Rightarrow> pyval \<Rightarrow> bevent res" where
  "validate_event_v2 db v =
     (if \<not> has_shape v EVENT_KEYS_v2 then Inl (bad ''browser event has missing or extra fields'')
      else
        bindE (event_sequence v) (\<lambda>n.
        bindE (one_of (bad ''browser event source is invalid'') REQUIRED_STREAMS (get v ''source'')) (\<lambda>source.
        bindE (one_of_set (bad ''browser event source cannot emit this kind'') (map fst KIND_DISPOSITIONS_v2)
          (get v ''kind'')) (\<lambda>kind.
        if source \<notin> set (table KIND_SOURCES_v2 kind) then
          Inl (bad ''browser event source cannot emit this kind'')
        else
        bindE (one_of_set (bad ''browser event disposition is invalid'') (table KIND_DISPOSITIONS_v2 kind)
          (get v ''disposition'')) (\<lambda>disposition.
        bindE (optional_text (bad ''browser event web_origin is invalid'') (normalize_origin db)
          (get v ''web_origin'')) (\<lambda>web_origin.
        bindE (optional_text (bad ''browser event connect_authority is invalid'')
          (normalize_connect_authority db) (get v ''connect_authority'')) (\<lambda>connect_authority.
        bindE (witness_rules db kind source web_origin connect_authority) (\<lambda>_.
          Inr \<lparr>e_sequence = n, e_source = source, e_kind = kind, e_origin = web_origin,
               e_authority = connect_authority, e_disposition = disposition\<rparr>))))))))"

definition validate_evidence_v2 :: "unicode_db \<Rightarrow> pyval \<Rightarrow> (bevent list \<times> bstream list) res" where
  "validate_evidence_v2 db = validate_evidence EVIDENCE_VERSION_v2 (validate_event_v2 db)"

definition outside :: "pystr list \<Rightarrow> pystr option \<Rightarrow> bool" where
  "outside allowed x = (case x of None \<Rightarrow> False | Some y \<Rightarrow> y \<notin> set allowed)"

definition origin_findings_v2 :: "pystr list \<Rightarrow> pystr list \<Rightarrow> bevent \<Rightarrow> string list" where
  "origin_findings_v2 allowed authorities e =
     (if e_kind e \<in> set WEB_ORIGIN_REQUIRED_KINDS \<and> (e_origin e = None \<or> outside allowed (e_origin e))
      then [''web_unauthorized_origin_attempt''] else []) @
     (if e_kind e = ''network_request'' then
        (if outside allowed (e_origin e) then [''web_unauthorized_origin_attempt''] else []) @
        (if outside authorities (e_authority e) then [''web_unauthorized_origin_attempt''] else [])
      else [])"

definition allowed_authorities :: "unicode_db \<Rightarrow> pystr list \<Rightarrow> pystr list res" where
  "allowed_authorities db origins =
     bindE (mapE (\<lambda>s. bindE (urlsplit db s) (\<lambda>r.
              if sr_scheme r = str ''https'' then
                bindE (connect_authority_for_origin db (PStr s)) (\<lambda>a. Inr [a])
              else Inr [])) origins) (\<lambda>xss. Inr (concat xss))"

definition required_kinds_v2 :: "(string \<times> string) list" where
  "required_kinds_v2 =
    [(''browser_sandbox'', ''web_browser_sandbox_unknown''),
     (''navigation'', ''web_navigation_missing'')]"

definition reduce_v2 :: "unicode_db \<Rightarrow> pyval \<Rightarrow> pyval \<Rightarrow> pyval res" where
  "reduce_v2 db evidence request =
     (case bindE (validate_probe_request db request) (\<lambda>req.
             bindE (validate_evidence_v2 db evidence) (\<lambda>ev. Inr (req, ev))) of
        Inl e \<Rightarrow> closed_reduction EVIDENCE_VERSION_v2 ''web_evidence_schema_invalid''
      | Inr (req, es, streams) \<Rightarrow>
          bindE (allowed_authorities db (allowed_origins req)) (\<lambda>authorities.
            let findings = concat (map (\<lambda>e. origin_findings_v2 (allowed_origins req) authorities e @
                                              event_findings e) es);
                late = completeness_findings required_kinds_v2 (get req ''budgets'') es streams
            in reduction EVIDENCE_VERSION_v2 (list_ex event_incomplete es \<or> late \<noteq> []) (findings @ late)
                 (length es) (stream_summary es streams)))"

subsection \<open>What validation leaves\<close>

definition valid_event :: "bevent \<Rightarrow> bool" where
  "valid_event e = (e_kind e \<in> set (map fst KIND_DISPOSITIONS) \<and> e_source e \<in> set REQUIRED_STREAMS \<and>
     e_disposition e \<in> set (table KIND_DISPOSITIONS (e_kind e)))"

lemma one_of_Inr [simp]: "one_of e ss v = Inr s \<longleftrightarrow> s \<in> set ss \<and> v = S s"
proof -
  have "find (\<lambda>s. v = S s) ss = Some s \<longleftrightarrow> s \<in> set ss \<and> v = S s"
    by (induction ss) auto
  then show ?thesis by (auto simp: one_of_def split: option.splits)
qed

lemma one_of_set_Inr [simp]: "one_of_set e ss v = Inr s \<longleftrightarrow> s \<in> set ss \<and> v = S s"
  by (auto simp: one_of_set_def)

lemma validate_event_v1_valid: "validate_event_v1 db v = Inr e \<Longrightarrow> valid_event e"
  by (auto simp: validate_event_v1_def bindE_eq_Inr valid_event_def simp del: set_map)

lemma kinds_v2: "k \<in> set (map fst KIND_DISPOSITIONS_v2) \<Longrightarrow>
  k \<in> set (map fst KIND_DISPOSITIONS) \<and> table KIND_DISPOSITIONS_v2 k = table KIND_DISPOSITIONS k"
  by (auto simp: KIND_DISPOSITIONS_v2_def KIND_DISPOSITIONS_def table_def)

lemma validate_event_v2_valid: "validate_event_v2 db v = Inr e \<Longrightarrow> valid_event e"
  using kinds_v2 by (auto simp: validate_event_v2_def bindE_eq_Inr valid_event_def simp del: set_map)

lemma validate_evidence_Inr:
  assumes "validate_evidence version f v = Inr (es, streams)"
  shows "\<exists>raw. mapE f raw = Inr es" "length streams = length REQUIRED_STREAMS"
  using assms by (auto simp: validate_evidence_def bindE_eq_Inr dest: mapE_length)

lemma validate_evidence_valid:
  assumes "\<And>v e. f v = Inr e \<Longrightarrow> valid_event e" "validate_evidence version f v = Inr (es, streams)"
  shows "list_all valid_event es"
proof -
  obtain raw where "mapE f raw = Inr es" using validate_evidence_Inr(1) [OF assms(2)] ..
  then have "list_all2 (\<lambda>x y. f x = Inr y) raw es" by (simp add: mapE_Inr_iff)
  then show ?thesis using assms(1) by (induction rule: list_all2_induct) auto
qed

subsection \<open>Every finding has a severity\<close>

definition known :: "string list \<Rightarrow> bool" where
  "known ids = (set ids \<subseteq> set (map fst FINDING_SEVERITIES))"

lemma known_append [simp]: "known (xs @ ys) \<longleftrightarrow> known xs \<and> known ys"
  by (auto simp: known_def)

lemma known_concat: "(\<And>x. x \<in> set xs \<Longrightarrow> known (f x)) \<Longrightarrow> known (concat (map f xs))"
  by (auto simp: known_def)

lemma known_Nil [simp]: "known []"
  by (simp add: known_def)

lemma known_if: "known (if c then xs else []) \<longleftrightarrow> (c \<longrightarrow> known xs)"
  by simp

lemma known_loss: "known [stream_loss_finding s]"
  by (simp add: known_def stream_loss_finding_def FINDING_SEVERITIES_def)

lemma known_event: "valid_event e \<Longrightarrow> known (event_findings e)"
proof (cases "e_kind e = ''prompt_marker''")
  case True
  moreover assume "valid_event e"
  ultimately have "e_disposition e = ''visible'' \<or> e_disposition e = ''hidden''"
    by (simp add: valid_event_def table_def KIND_DISPOSITIONS_def)
  with True show ?thesis by (auto simp: event_findings_def known_def FINDING_SEVERITIES_def)
next
  case False
  then show ?thesis
    by (simp add: event_findings_def Let_def known_loss) (simp add: known_def FINDING_SEVERITIES_def)
qed

lemma known_late: "known (map snd kinds) \<Longrightarrow> known (completeness_findings kinds budgets es streams)"
proof -
  assume k: "known (map snd kinds)"
  have "known (stream_findings es ss)" for ss
    using known_loss by (simp add: stream_findings_def Let_def) (simp add: known_def FINDING_SEVERITIES_def)
  moreover have "known (missing_findings kinds es)" using k by (force simp: missing_findings_def known_def)
  moreover have "known (budget_findings budgets es)" "known (lifecycle_findings es)"
    by (simp_all only: budget_findings_def lifecycle_findings_def known_append known_if)
      (simp_all add: known_def FINDING_SEVERITIES_def)
  ultimately show ?thesis
    by (auto simp: completeness_findings_def intro!: known_concat)
qed

lemma known_origin: "known (origin_findings_v1 allowed e)" "known (origin_findings_v2 allowed auths e)"
  by (auto simp: origin_findings_v1_def origin_findings_v2_def known_def FINDING_SEVERITIES_def split: if_splits)

text \<open>The identifiers in a reduction.\<close>

definition finding_ids :: "pyval \<Rightarrow> pyval list" where
  "finding_ids r = (case get r ''findings'' of PList xs \<Rightarrow> map (\<lambda>x. get x ''finding_id'') xs | _ \<Rightarrow> [])"

lemma finding_items_known:
  assumes "known ids"
  obtains items where "finding_items ids = Inr items" "map (\<lambda>x. get x ''finding_id'') items = map S (sort (remdups ids))"
proof -
  have "\<exists>items. mapE (finding_item ids) fs = Inr items \<and> map (\<lambda>x. get x ''finding_id'') items = map S fs"
    if "set fs \<subseteq> set ids" for fs
    using that
  proof (induction fs)
    case (Cons f fs)
    then obtain items where "mapE (finding_item ids) fs = Inr items" "map (\<lambda>x. get x ''finding_id'') items = map S fs"
      by auto
    moreover obtain sev where "map_of FINDING_SEVERITIES f = Some sev"
      using Cons.prems assms by (auto simp: known_def) (metis (no_types, lifting) imageE image_eqI map_of_eq_None_iff not_None_eq subsetD)
    then have "finding_item ids f = Inr (obj [(''finding_id'', S f),
        (''count'', PInt (int (count_list ids f))), (''severity'', S sev)])" by (simp add: finding_item_def)
    ultimately show ?case by (simp add: py_eval)
  qed simp
  from this [of "sort (remdups ids)"] that show ?thesis by (auto simp: finding_items_def)
qed

lemma reduction_shape:
  assumes "known ids"
  obtains r where "reduction version inc ids n st = Inr r" "finding_ids r = map S (sort (remdups ids))"
    "get r ''complete'' = PBool (\<not> inc)" "get r ''telemetry_incomplete'' = PBool inc"
    "get r ''fail_closed'' = PBool inc"
    "get r ''decision'' = S (if inc \<or> ids \<noteq> [] then ''DENY'' else ''ALLOW'')"
    "get r ''evidence_version'' = S version"
proof -
  obtain items where i: "finding_items ids = Inr items"
    "map (\<lambda>x. get x ''finding_id'') items = map S (sort (remdups ids))"
    using finding_items_known [OF assms] .
  have "length items = length (remdups ids)" using arg_cong [OF i(2), of length] by simp
  then have e: "items = [] \<longleftrightarrow> ids = []" by auto
  define r where "r = obj [(''evidence_version'', S version), (''complete'', PBool (\<not> inc)),
    (''telemetry_incomplete'', PBool inc), (''fail_closed'', PBool inc),
    (''decision'', S (if inc \<or> items \<noteq> [] then ''DENY'' else ''ALLOW'')),
    (''events_observed'', PInt (int n)), (''streams'', obj st), (''findings'', PList items)]"
  have "reduction version inc ids n st = Inr r" by (simp add: reduction_def i(1) r_def)
  moreover have "finding_ids r = map S (sort (remdups ids))" by (simp add: finding_ids_def r_def get_obj i(2))
  moreover have "get r ''decision'' = S (if inc \<or> ids \<noteq> [] then ''DENY'' else ''ALLOW'')"
    by (simp add: r_def get_obj e)
  ultimately show ?thesis using that [of r] by (simp add: r_def get_obj)
qed

subsection \<open>Incomplete evidence and its findings\<close>

abbreviation incomplete_id :: "string \<Rightarrow> bool" where
  "incomplete_id f \<equiv> f \<in> set TELEMETRY_INCOMPLETE_FINDINGS_v2 \<or> f = ''web_host_guest_network_unknown''"

lemma incomplete_ids: "set TELEMETRY_INCOMPLETE_FINDINGS =
    insert ''web_host_guest_network_unknown'' (set TELEMETRY_INCOMPLETE_FINDINGS_v2)"
  by (auto simp: TELEMETRY_INCOMPLETE_FINDINGS_v2_def TELEMETRY_INCOMPLETE_FINDINGS_def)

lemma loss_incomplete: "stream_loss_finding s \<in> set TELEMETRY_INCOMPLETE_FINDINGS_v2"
  by (simp add: stream_loss_finding_def TELEMETRY_INCOMPLETE_FINDINGS_v2_def TELEMETRY_INCOMPLETE_FINDINGS_def)

lemma v2_members:
  "list_all (\<lambda>f. f \<notin> set TELEMETRY_INCOMPLETE_FINDINGS_v2)
     [''web_blocked_egress_attempt'', ''web_download_attempt'', ''web_file_upload_attempt'', ''web_popup_attempt'',
      ''web_active_interaction_attempt'', ''web_prompt_marker_visible'', ''web_prompt_marker_hidden'',
      ''web_mixed_content_observed'', ''web_browser_sandbox_inactive'', ''web_host_guest_network_mismatch'',
      ''web_unauthorized_origin_attempt'']"
  "list_all (\<lambda>f. f \<in> set TELEMETRY_INCOMPLETE_FINDINGS_v2)
     [''web_browser_execution_failed'', ''web_vm_execution_failed'', ''web_navigation_failed'',
      ''web_evidence_count_mismatch'', ''web_evidence_sequence_gap'', ''web_event_budget_exceeded'',
      ''web_redirect_budget_exceeded'', ''web_browser_lifecycle_incomplete'', ''web_vm_lifecycle_incomplete'',
      ''web_browser_sandbox_unknown'', ''web_navigation_missing'', ''web_evidence_schema_invalid'']"
  by (simp_all add: TELEMETRY_INCOMPLETE_FINDINGS_v2_def TELEMETRY_INCOMPLETE_FINDINGS_def)

lemmas v2_member = v2_members [unfolded list.pred_inject simp_thms]

lemma valid_event_cases:
  "valid_event e \<Longrightarrow> \<exists>ds. (e_kind e, ds) \<in> set KIND_DISPOSITIONS \<and> e_disposition e \<in> set ds"
  by (auto simp: valid_event_def table_def dest: map_of_SomeD [OF sym] split: option.splits)

lemma event_incomplete_iff:
  assumes "valid_event e"
  shows "event_incomplete e \<longleftrightarrow> (\<exists>f\<in>set (event_findings e). f \<in> set TELEMETRY_INCOMPLETE_FINDINGS_v2)"
    "''web_host_guest_network_unknown'' \<notin> set (event_findings e)"
proof -
  have loss: "stream_loss_finding (e_source e) \<noteq> ''web_host_guest_network_unknown''"
    by (simp add: stream_loss_finding_def)
  from valid_event_cases [OF assms] obtain ds where
    d: "(e_kind e, ds) \<in> set KIND_DISPOSITIONS" "e_disposition e \<in> set ds" by blast
  show "event_incomplete e \<longleftrightarrow> (\<exists>f\<in>set (event_findings e). f \<in> set TELEMETRY_INCOMPLETE_FINDINGS_v2)"
    using d loss_incomplete [of "e_source e"] unfolding KIND_DISPOSITIONS_def
    by (simp only: set_simps insert_iff empty_iff prod.inject simp_thms)
      (elim disjE conjE; simp add: event_incomplete_def event_findings_def; (elim disjE)?; simp add: v2_member)
  show "''web_host_guest_network_unknown'' \<notin> set (event_findings e)"
    using d loss unfolding KIND_DISPOSITIONS_def
    by (simp only: set_simps insert_iff empty_iff prod.inject simp_thms)
      (elim disjE conjE; simp add: event_findings_def; (elim disjE)?; simp)
qed

lemma event_incomplete_v1:
  "valid_event e \<Longrightarrow> event_incomplete e \<longleftrightarrow> (\<exists>f\<in>set (event_findings e). f \<in> set TELEMETRY_INCOMPLETE_FINDINGS)"
  using event_incomplete_iff [of e] by (auto simp: incomplete_ids)

lemma origin_findings_id:
  "f \<in> set (origin_findings_v1 allowed e) \<Longrightarrow> f = ''web_unauthorized_origin_attempt''"
  "f \<in> set (origin_findings_v2 allowed auths e) \<Longrightarrow> f = ''web_unauthorized_origin_attempt''"
  by (auto simp: origin_findings_v1_def origin_findings_v2_def split: if_splits)

lemma late_incomplete:
  assumes "set (map snd kinds) \<subseteq> set ids" "set TELEMETRY_INCOMPLETE_FINDINGS_v2 \<subseteq> set ids"
  shows "set (completeness_findings kinds budgets es streams) \<subseteq> set ids"
proof -
  have "set (stream_findings es ss) \<subseteq> set TELEMETRY_INCOMPLETE_FINDINGS_v2" for ss
    using loss_incomplete
    by (auto simp: stream_findings_def Let_def v2_member split: if_splits)
  moreover have "set (budget_findings budgets es @ lifecycle_findings es) \<subseteq> set TELEMETRY_INCOMPLETE_FINDINGS_v2"
    by (auto simp: budget_findings_def lifecycle_findings_def v2_member split: if_splits)
  moreover have "set (missing_findings kinds es) \<subseteq> set (map snd kinds)"
    by (force simp: missing_findings_def)
  ultimately show ?thesis using assms unfolding completeness_findings_def set_append set_concat set_map by blast
qed

lemma incomplete_exists:
  assumes "list_all valid_event es" "set late \<subseteq> set ids"
    "ids = TELEMETRY_INCOMPLETE_FINDINGS_v2 \<or> ids = TELEMETRY_INCOMPLETE_FINDINGS"
    "\<And>e f. f \<in> set (orig e) \<Longrightarrow> f = ''web_unauthorized_origin_attempt''"
  shows "(list_ex event_incomplete es \<or> late \<noteq> []) \<longleftrightarrow>
    (\<exists>f\<in>set ids. f \<in> set (concat (map (\<lambda>e. orig e @ event_findings e) es) @ late))"
proof -
  have u: "''web_unauthorized_origin_attempt'' \<notin> set ids"
    using assms(3) by (auto simp: incomplete_ids v2_member)
  have ev: "event_incomplete e \<longleftrightarrow> (\<exists>f\<in>set (orig e @ event_findings e). f \<in> set ids)" if "e \<in> set es" for e
  proof -
    have "valid_event e" using assms(1) that by (simp add: list_all_iff)
    then have "event_incomplete e \<longleftrightarrow> (\<exists>f\<in>set (event_findings e). f \<in> set ids)"
      using event_incomplete_iff(1) event_incomplete_v1 assms(3) by metis
    then show ?thesis using assms(4) u by auto
  qed
  have "late \<noteq> [] \<longleftrightarrow> (\<exists>f\<in>set ids. f \<in> set late)" using assms(2) by (cases late) auto
  with ev show ?thesis by (auto simp: list_ex_iff)
qed

subsection \<open>Validated requests\<close>

lemma validate_request_Inr:
  assumes "validate_probe_request db v = Inr q"
  obtains url origins budgets where
    "q = obj [(''contract_version'', S CONTRACT_VERSION), (''url'', PStr url),
       (''authorized_origins'', PList (map PStr origins)), (''navigation'', obj PASSIVE_NAVIGATION),
       (''budgets'', budgets)]"
    "normalize_url db (get v ''url'') = Inr url" "validate_origins db (get v ''authorized_origins'') = Inr origins"
    "validate_budgets (get v ''budgets'') = Inr budgets"
  using assms that
  by (auto simp: validate_probe_request_def bindE_eq_Inr validate_navigation_def)

lemma validate_origins_canonical:
  assumes "validate_origins db v = Inr origins"
  shows "list_all canonical_origin origins"
proof -
  from assms obtain raw xs where m: "mapE (normalize_origin db) raw = Inr xs" and o: "origins = sort xs"
    by (auto simp: validate_origins_def bindE_eq_Inr)
  have "list_all2 (\<lambda>x y. normalize_origin db x = Inr y) raw xs" using m by (simp add: mapE_Inr_iff)
  then have "list_all canonical_origin xs"
    using normalize_origin_ok by (induction rule: list_all2_induct) auto
  then show ?thesis by (simp add: o list_all_iff)
qed

lemma allowed_origins_request:
  assumes "validate_probe_request db v = Inr q"
  shows "list_all canonical_origin (allowed_origins q)"
proof -
  from assms obtain url origins budgets where
    q: "q = obj [(''contract_version'', S CONTRACT_VERSION), (''url'', PStr url),
       (''authorized_origins'', PList (map PStr origins)), (''navigation'', obj PASSIVE_NAVIGATION),
       (''budgets'', budgets)]" and o: "validate_origins db (get v ''authorized_origins'') = Inr origins"
    by (rule validate_request_Inr)
  have "allowed_origins q = origins" by (simp add: q allowed_origins_def get_obj comp_def)
  with validate_origins_canonical [OF o] show ?thesis by simp
qed

lemma connect_authority_ok:
  assumes "canonical_origin x" "urlsplit db x = Inr r" "sr_scheme r = str ''https''"
  shows "\<exists>a. connect_authority_for_origin db (PStr x) = Inr a"
proof -
  from assms(1) obtain p where p: "parts_ok p" "x = origin_text p" by (auto simp: canonical_origin_def)
  note ok = parts_okD [OF p(1)]
  have r: "r = \<lparr>sr_scheme = u_scheme p, sr_netloc = authority (u_host p) (u_port p), sr_path = [], sr_query = [],
      sr_fragment = []\<rparr>"
    using urlsplit_origin [OF p(1), of db] assms(2) p(2) by simp
  have "sr_hostname db r = Some (u_host p)" "sr_port r = Inr (u_port p)"
    using sr_hostname_authority [OF ok(2,3), of r] sr_port_authority [OF ok(2,3), of r] by (simp_all add: r)
  then show ?thesis
    using normalize_origin_id [OF assms(1), of db] assms(2,3) by (simp add: connect_authority_for_origin_def)
qed

lemma allowed_authorities_total:
  assumes "list_all canonical_origin os"
  shows "\<exists>as. allowed_authorities db os = Inr as"
proof -
  have "\<exists>xss. mapE (\<lambda>s. bindE (urlsplit db s) (\<lambda>r.
              if sr_scheme r = str ''https'' then
                bindE (connect_authority_for_origin db (PStr s)) (\<lambda>a. Inr [a])
              else Inr [])) os = Inr xss"
    using assms
  proof (induction os)
    case (Cons x xs)
    then obtain p where p: "parts_ok p" "x = origin_text p" by (auto simp: canonical_origin_def)
    then obtain r where "urlsplit db x = Inr r" using urlsplit_origin [OF p(1)] by blast
    with connect_authority_ok [of x db r] Cons show ?case by (cases "sr_scheme r = str ''https''") auto
  qed simp
  then show ?thesis by (auto simp: allowed_authorities_def)
qed

subsection \<open>The reducer contract\<close>

text \<open>
  What the receipt and the gate rely on: a reduction always exists, its three flags agree, the decision
  is ALLOW exactly for complete evidence without findings, and incompleteness is always visible as one of
  the findings that mark it.
\<close>

locale fail_closed_reducer =
  fixes reduce :: "pyval \<Rightarrow> pyval \<Rightarrow> pyval res" and incomplete_findings :: "string list"
  assumes total: "\<exists>r. reduce ev req = Inr r"
    and flags: "reduce ev req = Inr r \<Longrightarrow>
      \<exists>inc. get r ''complete'' = PBool (\<not> inc) \<and> get r ''telemetry_incomplete'' = PBool inc \<and>
        get r ''fail_closed'' = PBool inc \<and>
        get r ''decision'' = S (if inc \<or> finding_ids r \<noteq> [] then ''DENY'' else ''ALLOW'') \<and>
        (inc \<longleftrightarrow> (\<exists>f\<in>set incomplete_findings. S f \<in> set (finding_ids r)))"
begin

lemma allow_iff:
  assumes "reduce ev req = Inr r"
  shows "get r ''decision'' = S ''ALLOW'' \<longleftrightarrow> get r ''complete'' = PBool True \<and> finding_ids r = []"
  using flags [OF assms] by auto

lemma deny_otherwise:
  assumes "reduce ev req = Inr r" "get r ''decision'' \<noteq> S ''ALLOW''"
  shows "get r ''decision'' = S ''DENY''"
  using flags [OF assms(1)] assms(2) by (auto split: if_splits)

lemma incomplete_shown:
  assumes "reduce ev req = Inr r"
  shows "get r ''telemetry_incomplete'' = PBool True \<longleftrightarrow> (\<exists>f\<in>set incomplete_findings. S f \<in> set (finding_ids r))"
  using flags [OF assms] by auto

end

lemma reduction_contract:
  assumes "known ids" "reduction version inc ids n st = Inr r" "inc \<longleftrightarrow> (\<exists>f\<in>set marks. f \<in> set ids)"
  shows "\<exists>inc. get r ''complete'' = PBool (\<not> inc) \<and> get r ''telemetry_incomplete'' = PBool inc \<and>
        get r ''fail_closed'' = PBool inc \<and>
        get r ''decision'' = S (if inc \<or> finding_ids r \<noteq> [] then ''DENY'' else ''ALLOW'') \<and>
        (inc \<longleftrightarrow> (\<exists>f\<in>set marks. S f \<in> set (finding_ids r)))"
proof -
  obtain r' where r': "reduction version inc ids n st = Inr r'" "finding_ids r' = map S (sort (remdups ids))"
    "get r' ''complete'' = PBool (\<not> inc)" "get r' ''telemetry_incomplete'' = PBool inc"
    "get r' ''fail_closed'' = PBool inc"
    "get r' ''decision'' = S (if inc \<or> ids \<noteq> [] then ''DENY'' else ''ALLOW'')"
    using reduction_shape [OF assms(1)] by blast
  have r: "r' = r" using r'(1) assms(2) by simp
  have e: "finding_ids r \<noteq> [] \<longleftrightarrow> ids \<noteq> []"
  proof -
    have "length (finding_ids r) = length (remdups ids)" using r'(2) r by simp
    then show ?thesis by auto
  qed
  have m: "(\<exists>f\<in>set marks. S f \<in> set (finding_ids r)) \<longleftrightarrow> (\<exists>f\<in>set marks. f \<in> set ids)"
    using r'(2) r by (auto simp: image_iff)
  show ?thesis using r'(3-6) unfolding r m e assms(3) by blast
qed

text \<open>The fixed bundles of the two reducers, after validation.\<close>

lemma known_kinds: "known (map snd required_kinds_v1)" "known (map snd required_kinds_v2)"
  by (simp_all add: required_kinds_v1_def required_kinds_v2_def known_def FINDING_SEVERITIES_def)

lemma known_closed: "known [''web_evidence_schema_invalid'']"
  by (simp add: known_def FINDING_SEVERITIES_def)

lemma known_findings:
  assumes "list_all valid_event es" "\<And>e. known (orig e)" "known (map snd kinds)"
  shows "known (concat (map (\<lambda>e. orig e @ event_findings e) es) @ completeness_findings kinds budgets es streams)"
  using assms known_event known_late [OF assms(3)] by (auto simp: list_all_iff intro!: known_concat)

lemma reduction_ex: "known ids \<Longrightarrow> \<exists>r. reduction version inc ids n st = Inr r"
  by (metis reduction_shape)

interpretation v1: fail_closed_reducer "reduce_v1 db" TELEMETRY_INCOMPLETE_FINDINGS for db
proof
  fix ev req
  have known: "known (concat (map (\<lambda>e. origin_findings_v1 os e @ event_findings e) es) @
      completeness_findings required_kinds_v1 b es st)"
    if "validate_evidence_v1 db ev = Inr (es, st)" for es st os b
    using validate_evidence_valid [of "validate_event_v1 db", OF validate_event_v1_valid] that
    by (intro known_findings known_origin known_kinds) (simp add: validate_evidence_v1_def)
  show "\<exists>r. reduce_v1 db ev req = Inr r"
    using known by (auto simp: reduce_v1_def closed_reduction_def Let_def bindE_eq_Inr split: sum.splits
        intro!: reduction_ex known_closed)
  fix r assume r: "reduce_v1 db ev req = Inr r"
  consider (bad) "closed_reduction EVIDENCE_VERSION ''web_evidence_schema_invalid'' = Inr r"
    | (good) q es st where "validate_evidence_v1 db ev = Inr (es, st)"
      "reduction EVIDENCE_VERSION
         (list_ex event_incomplete es \<or> completeness_findings required_kinds_v1 (get q ''budgets'') es st \<noteq> [])
         (concat (map (\<lambda>e. origin_findings_v1 (allowed_origins q) e @ event_findings e) es) @
          completeness_findings required_kinds_v1 (get q ''budgets'') es st)
         (length es) (stream_summary es st) = Inr r"
    using r by (auto simp: reduce_v1_def Let_def bindE_eq_Inr split: sum.splits)
  then show "\<exists>inc. get r ''complete'' = PBool (\<not> inc) \<and> get r ''telemetry_incomplete'' = PBool inc \<and>
        get r ''fail_closed'' = PBool inc \<and>
        get r ''decision'' = S (if inc \<or> finding_ids r \<noteq> [] then ''DENY'' else ''ALLOW'') \<and>
        (inc \<longleftrightarrow> (\<exists>f\<in>set TELEMETRY_INCOMPLETE_FINDINGS. S f \<in> set (finding_ids r)))"
  proof cases
    case bad
    then show ?thesis unfolding closed_reduction_def
      by (rule reduction_contract [OF known_closed]) (simp add: incomplete_ids v2_member)
  next
    case (good q es st)
    have "list_all valid_event es"
      using validate_evidence_valid [of "validate_event_v1 db", OF validate_event_v1_valid] good(1)
      by (simp add: validate_evidence_v1_def)
    moreover have "set (completeness_findings required_kinds_v1 (get q ''budgets'') es st) \<subseteq> set TELEMETRY_INCOMPLETE_FINDINGS"
      by (rule late_incomplete) (auto simp: incomplete_ids required_kinds_v1_def v2_member)
    ultimately show ?thesis
      by (intro reduction_contract [OF known [OF good(1)] good(2)] incomplete_exists origin_findings_id(1)) auto
  qed
qed

interpretation v2: fail_closed_reducer "reduce_v2 db" TELEMETRY_INCOMPLETE_FINDINGS_v2 for db
proof
  fix ev req
  have known: "known (concat (map (\<lambda>e. origin_findings_v2 os as e @ event_findings e) es) @
      completeness_findings required_kinds_v2 b es st)"
    if "validate_evidence_v2 db ev = Inr (es, st)" for es st os as b
    using validate_evidence_valid [of "validate_event_v2 db", OF validate_event_v2_valid] that
    by (intro known_findings known_origin known_kinds) (simp add: validate_evidence_v2_def)
  show "\<exists>r. reduce_v2 db ev req = Inr r"
  proof (cases "bindE (validate_probe_request db req) (\<lambda>q. bindE (validate_evidence_v2 db ev) (\<lambda>e. Inr (q, e)))")
    case (Inl e)
    then show ?thesis by (simp add: reduce_v2_def closed_reduction_def reduction_ex known_closed)
  next
    case (Inr x)
    then obtain q es st where q: "validate_probe_request db req = Inr q" "validate_evidence_v2 db ev = Inr (es, st)"
      "x = (q, es, st)" by (auto simp: bindE_eq_Inr)
    obtain as where "allowed_authorities db (allowed_origins q) = Inr as"
      using allowed_authorities_total [OF allowed_origins_request [OF q(1)]] by blast
    with Inr q(3) reduction_ex [OF known [OF q(2)]] show ?thesis by (simp add: reduce_v2_def Let_def)
  qed
  fix r assume r: "reduce_v2 db ev req = Inr r"
  consider (bad) "closed_reduction EVIDENCE_VERSION_v2 ''web_evidence_schema_invalid'' = Inr r"
    | (good) q es st as where "validate_evidence_v2 db ev = Inr (es, st)"
      "reduction EVIDENCE_VERSION_v2
         (list_ex event_incomplete es \<or> completeness_findings required_kinds_v2 (get q ''budgets'') es st \<noteq> [])
         (concat (map (\<lambda>e. origin_findings_v2 (allowed_origins q) as e @ event_findings e) es) @
          completeness_findings required_kinds_v2 (get q ''budgets'') es st)
         (length es) (stream_summary es st) = Inr r"
    using r by (auto simp: reduce_v2_def Let_def bindE_eq_Inr split: sum.splits)
  then show "\<exists>inc. get r ''complete'' = PBool (\<not> inc) \<and> get r ''telemetry_incomplete'' = PBool inc \<and>
        get r ''fail_closed'' = PBool inc \<and>
        get r ''decision'' = S (if inc \<or> finding_ids r \<noteq> [] then ''DENY'' else ''ALLOW'') \<and>
        (inc \<longleftrightarrow> (\<exists>f\<in>set TELEMETRY_INCOMPLETE_FINDINGS_v2. S f \<in> set (finding_ids r)))"
  proof cases
    case bad
    then show ?thesis unfolding closed_reduction_def
      by (rule reduction_contract [OF known_closed]) (simp add: v2_member)
  next
    case (good q es st as)
    have "list_all valid_event es"
      using validate_evidence_valid [of "validate_event_v2 db", OF validate_event_v2_valid] good(1)
      by (simp add: validate_evidence_v2_def)
    moreover have "set (completeness_findings required_kinds_v2 (get q ''budgets'') es st) \<subseteq> set TELEMETRY_INCOMPLETE_FINDINGS_v2"
      by (rule late_incomplete) (auto simp: required_kinds_v2_def v2_member)
    ultimately show ?thesis
      by (intro reduction_contract [OF known [OF good(1)] good(2)] incomplete_exists origin_findings_id(2)) auto
  qed
qed

end
