(* ===== verification/Policy_Gate.thy ===== *)
theory Policy_Gate
  imports Outward_Broker Browser_Reducer
begin

section \<open>The policy gate\<close>

text \<open>
  \<open>gate/policy_gate.py\<close>: the scoring matrix over a validated outward report, the human override and the rules no
  override may cross. The dictionary the gate returns has fixed keys; it is the record \<open>gate\<close>.
\<close>

definition UNOVERRIDABLE_RULES :: "string list" where
  "UNOVERRIDABLE_RULES =
    [''telemetry_loss'', ''broker_failure'', ''firecracker_runtime_failure'', ''isolation_admission_failure'', ''purge_failure'',
     ''web_browser_execution_failed'', ''web_browser_lifecycle_incomplete'', ''web_browser_sandbox_inactive'',
     ''web_browser_sandbox_unknown'', ''web_browser_telemetry_loss'', ''web_cdp_telemetry_loss'', ''web_egress_telemetry_loss'',
     ''web_event_budget_exceeded'', ''web_evidence_count_mismatch'', ''web_evidence_schema_invalid'', ''web_evidence_sequence_gap'',
     ''web_host_guest_network_mismatch'', ''web_host_guest_network_unknown'', ''web_navigation_missing'',
     ''web_redirect_budget_exceeded'', ''web_vm_execution_failed'', ''web_vm_lifecycle_incomplete'', ''web_vm_telemetry_loss'']"

text \<open>The override argument: absent, a dictionary, or the bytes of a file (absent when the file does not exist).\<close>

datatype override_source = NoOverride | OverrideDict pydict | OverrideFile "bytes option"

definition load_override :: "override_source \<Rightarrow> pydict res" where
  "load_override source =
     (case source of
        NoOverride \<Rightarrow> Inr []
      | OverrideDict d \<Rightarrow> Inr d
      | OverrideFile None \<Rightarrow> Inr []
      | OverrideFile (Some b) \<Rightarrow>
          (case utf8_decode False b of
             None \<Rightarrow> Inl UnicodeError
           | Some text \<Rightarrow> bindE (json_loads_str text) (\<lambda>v.
               as_dict (ValueError ''override.json must contain an object'') v)))"

fun job_entry :: "pystr \<Rightarrow> pyval list \<Rightarrow> pyval" where
  "job_entry job_id [] = S ''none''"
| "job_entry job_id (i # is) =
     (if is_dict i \<and> get i ''job_id'' = PStr job_id then get_default i ''decision'' (S ''none'') else job_entry job_id is)"

definition decision_for_job :: "pydict \<Rightarrow> pystr \<Rightarrow> string res" where
  "decision_for_job overrides job_id =
     (let candidate = (case map_of overrides (KStr job_id) of None \<Rightarrow> PNone | Some v \<Rightarrow> v);
          decision =
            (if is_str candidate then candidate
             else if is_dict candidate then get_default candidate ''decision'' (S ''none'')
             else (case get_default (PDict overrides) ''overrides'' (PList []) of
                 PList entries \<Rightarrow> job_entry job_id entries
               | _ \<Rightarrow> S ''none''))
      in bindE (in_set decision [''ALLOW'', ''DENY'']) (\<lambda>known.
           Inr (if \<not> known then ''none'' else if decision = S ''ALLOW'' then ''ALLOW'' else ''DENY'')))"

text \<open>The dictionary from rule to count (a repeated rule keeps its last count), and a lookup with default 0.\<close>

definition evidence_table :: "pyval list \<Rightarrow> pydict" where
  "evidence_table items = foldl (\<lambda>d i. dupd d (KStr (text_of (get i ''rule_id''))) (get i ''count'')) [] items"

definition rule_count :: "pydict \<Rightarrow> string \<Rightarrow> int" where
  "rule_count ev r =
     (case dget ev r of Some (PInt i) \<Rightarrow> i | Some (PBool b) \<Rightarrow> (if b then 1 else 0) | _ \<Rightarrow> 0)"

record gate =
  g_policy_gate_decision :: string
  g_policy_gate_reason :: string
  g_human_gate_override :: string
  g_final_decision :: string
  g_final_authority :: string
  g_override_blocked :: bool

definition scoring_matrix :: "pyval \<Rightarrow> pydict \<Rightarrow> string \<times> string" where
  "scoring_matrix report ev =
     (if list_ex (\<lambda>r. 0 < rule_count ev r) KNOWN_BAD_RULES then (''DENY'', ''known_bad_behavior_detected'')
      else if truthy (get report ''canaries_tripped'') \<and> rule_count ev ''cred_harvest_pattern'' \<noteq> 0 then
        (''DENY'', ''canary_credential_accessed'')
      else if rule_count ev ''network_exfil_attempt'' \<noteq> 0 \<or> rule_count ev ''dns_tunnel_probe'' \<noteq> 0 then
        (''DENY'', ''network_egress_attempted'')
      else if 3 \<le> rule_count ev ''sandbox_probing'' then (''DENY'', ''repeated_sandbox_probing'')
      else if rule_count ev ''exec_spawn_chain'' \<noteq> 0 \<or> rule_count ev ''fs_suspicious_write'' \<noteq> 0 then
        (''DENY'', ''anomalous_behavior_pattern'')
      else if \<not> truthy (get report ''evidence'') \<and> \<not> truthy (get report ''canaries_tripped'') \<and>
          (get report ''capabilities_requested'' = PList [] \<or>
           get report ''capabilities_requested'' = PList [S ''browser.navigate'']) then
        (''ALLOW'', if truthy (get report ''capabilities_requested'') then ''bounded_browser_navigation_clean'' else ''no_anomaly_detected'')
      else (''DENY'', ''uncertain_classification''))"

definition apply_scoring_matrix :: "pyval \<Rightarrow> override_source \<Rightarrow> pystr \<Rightarrow> gate res" where
  "apply_scoring_matrix report override job_id =
     bindE (validate_outward_report report) (\<lambda>_.
     bindE (as_list TypeError (get report ''evidence'')) (\<lambda>items.
     let ev = evidence_table items; (policy_decision, reason) = scoring_matrix report ev in
     bindE (load_override override) (\<lambda>overrides.
     bindE (decision_for_job overrides job_id) (\<lambda>human.
     if 0 < rule_count ev ''payload_observation_incomplete'' then
       Inr \<lparr>g_policy_gate_decision = ''EVALUATION_INCOMPLETE'', g_policy_gate_reason = ''payload_observation_incomplete'',
            g_human_gate_override = human, g_final_decision = ''EVALUATION_INCOMPLETE'',
            g_final_authority = ''fail_closed_incomplete_observation'', g_override_blocked = (human = ''ALLOW'')\<rparr>
     else
       (let fail_closed = list_ex (\<lambda>r. 0 < rule_count ev r) UNOVERRIDABLE_RULES;
            (final, authority) =
              (if fail_closed then (''DENY'', ''fail_closed_infrastructure_gate'')
               else if human = ''ALLOW'' \<or> human = ''DENY'' then (human, ''human_gate_override'')
               else (policy_decision, ''policy_gate_autonomous''))
        in Inr \<lparr>g_policy_gate_decision = policy_decision, g_policy_gate_reason = reason, g_human_gate_override = human,
                g_final_decision = final, g_final_authority = authority,
                g_override_blocked = (fail_closed \<and> human = ''ALLOW'')\<rparr>)))))"

subsection \<open>Lemmas\<close>

lemma scoring_allow:
  "fst (scoring_matrix report ev) = ''ALLOW'' \<longleftrightarrow>
     \<not> list_ex (\<lambda>r. 0 < rule_count ev r) KNOWN_BAD_RULES \<and> \<not> (truthy (get report ''canaries_tripped'') \<and> rule_count ev ''cred_harvest_pattern'' \<noteq> 0) \<and>
     rule_count ev ''network_exfil_attempt'' = 0 \<and> rule_count ev ''dns_tunnel_probe'' = 0 \<and> rule_count ev ''sandbox_probing'' < 3 \<and>
     rule_count ev ''exec_spawn_chain'' = 0 \<and> rule_count ev ''fs_suspicious_write'' = 0 \<and>
     \<not> truthy (get report ''evidence'') \<and> \<not> truthy (get report ''canaries_tripped'') \<and>
     (get report ''capabilities_requested'' = PList [] \<or> get report ''capabilities_requested'' = PList [S ''browser.navigate''])"
  by (auto simp: scoring_matrix_def)

lemma empty_table: "rule_count (evidence_table []) r = 0"
  by (simp add: evidence_table_def rule_count_def dget_def)

lemma scoring_allow_clean:
  assumes "get report ''evidence'' = PList items"
  shows "fst (scoring_matrix report (evidence_table items)) = ''ALLOW'' \<longleftrightarrow>
     items = [] \<and> \<not> truthy (get report ''canaries_tripped'') \<and>
     (get report ''capabilities_requested'' = PList [] \<or> get report ''capabilities_requested'' = PList [S ''browser.navigate''])"
  unfolding scoring_allow using assms empty_table by (cases "items = []") (auto simp: list_ex_iff)

lemma decision_values: "decision_for_job d j = Inr h \<Longrightarrow> h = ''ALLOW'' \<or> h = ''DENY'' \<or> h = ''none''"
  by (auto simp: decision_for_job_def Let_def bindE_eq_Inr split: if_splits)

lemma gate_allowed:
  assumes "apply_scoring_matrix report override job_id = Inr g" "get report ''evidence'' = PList items"
  shows "g_final_decision g = ''ALLOW'' \<longleftrightarrow>
    \<not> 0 < rule_count (evidence_table items) ''payload_observation_incomplete'' \<and>
    (\<forall>r\<in>set UNOVERRIDABLE_RULES. \<not> 0 < rule_count (evidence_table items) r) \<and>
    (g_human_gate_override g = ''ALLOW'' \<or>
     g_human_gate_override g = ''none'' \<and> items = [] \<and> \<not> truthy (get report ''canaries_tripped'') \<and>
       (get report ''capabilities_requested'' = PList [] \<or> get report ''capabilities_requested'' = PList [S ''browser.navigate'']))"
proof -
  let ?ev = "evidence_table items" and ?closed = "list_ex (\<lambda>r. 0 < rule_count (evidence_table items) r) UNOVERRIDABLE_RULES"
  from assms obtain overrides human where d: "decision_for_job overrides job_id = Inr human" and
    g: "g_human_gate_override g = human"
      "g_final_decision g = (if 0 < rule_count ?ev ''payload_observation_incomplete'' then ''EVALUATION_INCOMPLETE''
         else if ?closed then ''DENY'' else if human = ''ALLOW'' \<or> human = ''DENY'' then human
         else fst (scoring_matrix report ?ev))"
    by (auto simp: apply_scoring_matrix_def bindE_eq_Inr Let_def split: prod.splits if_splits)
  show ?thesis
    using decision_values [OF d] scoring_allow_clean [OF assms(2)]
    unfolding g by (auto simp: list_ex_iff)
qed


lemma foldl_dupd_keys:
  "distinct (map f xs) \<Longrightarrow> set (map f xs) \<inter> fst ` set d = {} \<Longrightarrow>
   foldl (\<lambda>d x. dupd d (f x) (g x)) d xs = d @ map (\<lambda>x. (f x, g x)) xs"
proof (induction xs arbitrary: d)
  case (Cons x xs)
  then have "dupd d (f x) (g x) = d @ [(f x, g x)]" by (intro dupd_new) auto
  with Cons show ?case by auto
qed simp

lemma engine_table:
  assumes "engine_inv m eng" "evidence eng = Inr items"
  shows "rule_count (evidence_table items) r = int (fired eng (str r))"
proof -
  let ?rs = "sorted_list_of_set {r. 0 < fired eng r}"
  have items: "items = map (evidence_item eng) ?rs" using evidence_total [OF assms(1)] assms(2) by simp
  have fields: "text_of (get (evidence_item eng r) ''rule_id'') = r" "get (evidence_item eng r) ''count'' = PInt (int (fired eng r))" for r
    by (simp_all add: evidence_item_def py_eval)
  have "distinct (map KStr ?rs)" by (simp add: distinct_map inj_on_def)
  then have "evidence_table items = map (\<lambda>r. (KStr r, PInt (int (fired eng r)))) ?rs"
    using foldl_dupd_keys [of KStr ?rs "[]" "\<lambda>r. PInt (int (fired eng r))"]
    by (simp add: evidence_table_def items foldl_map fields)
  moreover have "map_of (map (\<lambda>r. (KStr r, PInt (int (fired eng r)))) rs) (KStr q) =
      (if q \<in> set rs then Some (PInt (int (fired eng q))) else None)" for rs q
    by (induction rs) auto
  ultimately show ?thesis by (simp add: rule_count_def dget_def fired_rules_finite)
qed

text \<open>C31: infrastructure failures cannot be overridden, from telemetry to verdict. If any rule of the unoverridable set, or an
  incomplete payload observation, fired in a reachable engine, the gate's verdict on the engine's own report is not
  ALLOW, whatever the human override says; and if a known-bad rule fired, the verdict is not ALLOW without one.\<close>

theorem known_bad_never_allowed:
  assumes "engine_reachable m start (cb_detector b)" "build_report b u = Inr report"
    and "apply_scoring_matrix report override job_id = Inr g" "0 < fired (cb_detector b) (str r)"
    and "r \<in> set UNOVERRIDABLE_RULES \<or> r = ''payload_observation_incomplete'' \<or>
         (r \<in> set KNOWN_BAD_RULES \<and> g_human_gate_override g \<noteq> ''ALLOW'')"
  shows "g_final_decision g \<noteq> ''ALLOW''"
proof
  assume allow: "g_final_decision g = ''ALLOW''"
  obtain items where i: "evidence (cb_detector b) = Inr items" "get report ''risk_level'' = S (risk_level b items)"
    "get report ''evidence'' = PList items" "get report ''capabilities_requested'' = PList (map PStr (cb_requested b))"
    "get report ''canaries_tripped'' = PList (map PStr (sort (map fst (en_canaries (cb_detector b)))))"
    "validate_outward_report report = Inr ()" by (rule build_report_fields [OF assms(2)])
  note inv = engine_reachable_inv [OF assms(1)]
  have pos: "0 < rule_count (evidence_table items) r" using assms(4) engine_table [OF inv i(1)] by simp
  have "items \<noteq> []" using evidence_rules(2) [OF inv i(1)] assms(4) by auto
  with allow assms(5) pos gate_allowed [OF assms(3) i(3)] show False by auto
qed

lemma gate_without_override:
  assumes "validate_outward_report report = Inr ()" "get report ''evidence'' = PList items"
  shows "\<exists>g. apply_scoring_matrix report NoOverride job_id = Inr g \<and> g_human_gate_override g = ''none''"
  using assms
  by (simp add: apply_scoring_matrix_def load_override_def decision_for_job_def get_default_def dget_def in_set_def py_eval Let_def
      split: prod.split)

theorem known_bad_never_allowed_witness:
  "\<exists>report g. build_report (new_capability_broker tripped_engine) (Fin 0) = Inr report \<and>
     apply_scoring_matrix report NoOverride (str ''job'') = Inr g \<and> g_final_decision g \<noteq> ''ALLOW''"
proof -
  obtain report where r: "build_report (new_capability_broker tripped_engine) (Fin 0) = Inr report" using tripped_report by blast
  obtain items where i: "get report ''evidence'' = PList items" "validate_outward_report report = Inr ()"
    by (rule build_report_fields [OF r])
  obtain g where g: "apply_scoring_matrix report NoOverride (str ''job'') = Inr g" "g_human_gate_override g = ''none''"
    using gate_without_override [OF i(2,1)] by blast
  have e: "engine_reachable 10 0 (cb_detector (new_capability_broker tripped_engine))"
    "0 < fired (cb_detector (new_capability_broker tripped_engine)) (str ''malformed_report'')"
    by (simp_all add: new_capability_broker_def tripped_reachable tripped_fired)
  have "g_final_decision g \<noteq> ''ALLOW''"
    by (rule known_bad_never_allowed [OF e(1) r g(1) e(2)]) (simp add: g(2) KNOWN_BAD_RULES_def RULES_def)
  with r g show ?thesis by blast
qed

definition clean_report :: pyval where
  "clean_report = obj [(''risk_level'', S ''benign''), (''evidence'', PList []), (''capabilities_requested'', PList []),
     (''destinations'', PList []), (''canaries_tripped'', PList []), (''uncertainty'', PFloat (Fin 0))]"


definition navigation_failed_report :: pyval where
  "navigation_failed_report = obj
     [(''risk_level'', S ''suspicious''),
      (''evidence'', PList [obj [(''tap_category'', S ''network_flows''), (''rule_id'', S ''web_navigation_failed''), (''count'', PInt 1)]]),
      (''capabilities_requested'', PList [S ''browser.navigate'']), (''destinations'', PList []), (''canaries_tripped'', PList []),
      (''uncertainty'', PFloat (Fin 0))]"

text \<open>an incomplete browser observation can be overridden. \<open>web_navigation_failed\<close> is one of the browser findings that
  mark incomplete telemetry, but not one of the gate's unoverridable rules: with a human ALLOW for the job, a report
  whose only evidence is that finding is allowed.\<close>

theorem navigation_failure_overridable:
  "''web_navigation_failed'' \<in> set TELEMETRY_INCOMPLETE_FINDINGS \<and>
   map_sum id g_final_decision (apply_scoring_matrix navigation_failed_report (OverrideDict [(KStr (str ''job''), S ''ALLOW'')]) (str ''job'')) =
     Inr ''ALLOW''"
  by (simp add: apply_scoring_matrix_def navigation_failed_report_def validate_outward_report_def py_eval REPORT_KEYS_def insert_commute
      require_member_def in_set_def RISK_LEVELS_def validate_evidence_item_def OUT_EVIDENCE_KEYS_def TAP_CATEGORIES_def uint_def
      bounded_string_list_def validate_uncertainty_def in_unit_def load_override_def decision_for_job_def Let_def evidence_table_def
      rule_count_def dget_def UNOVERRIDABLE_RULES_def TELEMETRY_INCOMPLETE_FINDINGS_def split: prod.split)

end
