(* ===== verification/Browser_Decision.thy ===== *)
theory Browser_Decision
  imports Browser_Reducer
begin

section \<open>What the browser reducers decide\<close>

text \<open>
  The declarative reading of an ALLOW decision (\<open>clean_event\<close>, \<open>complete_bundle\<close>), its equivalence with the
  v1 reducer, and the fail-closed contract of both reducers, from the interpretations of
  \<open>fail_closed_reducer\<close>.
\<close>

subsection \<open>What ALLOW means\<close>

definition clean_event :: "bevent \<Rightarrow> bool" where
  "clean_event e =
     (e_kind e \<notin> {''download_attempt'', ''file_upload_attempt'', ''popup_attempt'', ''active_interaction'',
        ''prompt_marker'', ''mixed_content'', ''telemetry_loss''} \<and>
      (e_kind e = ''network_request'' \<longrightarrow> e_disposition e = ''allowed'') \<and>
      (e_kind e = ''navigation'' \<longrightarrow> e_disposition e = ''committed'') \<and>
      (e_kind e = ''browser_sandbox'' \<longrightarrow> e_disposition e = ''active'') \<and>
      (e_kind e = ''network_consistency'' \<longrightarrow> e_disposition e = ''matched'') \<and>
      (e_kind e = ''lifecycle'' \<longrightarrow> e_disposition e \<noteq> ''failed''))"

definition complete_bundle :: "string list \<Rightarrow> pyval \<Rightarrow> bevent list \<Rightarrow> bstream list \<Rightarrow> bool" where
  "complete_bundle kinds budgets es streams =
     ((\<forall>(s, st) \<in> set (zip REQUIRED_STREAMS streams). s_complete st \<and>
         s_count st = int (length (of_source s es)) \<and>
         e_sequence ` set (of_source s es) = int ` {0..<length (of_source s es)}) \<and>
      (\<forall>m. get budgets ''max_events'' = PInt m \<longrightarrow> int (length es) \<le> m) \<and>
      (\<forall>m. get budgets ''max_redirects'' = PInt m \<longrightarrow> int (count_kind ''redirect'' es) \<le> m) \<and>
      (\<forall>k \<in> set kinds. \<exists>e \<in> set es. e_kind e = k) \<and>
      (\<forall>s \<in> {''browser'', ''vm''}. \<forall>d \<in> {''started'', ''stopped''}.
         \<exists>e \<in> set es. e_source e = s \<and> e_kind e = ''lifecycle'' \<and> e_disposition e = d))"

lemma clean_event_iff: "valid_event e \<Longrightarrow> event_findings e = [] \<longleftrightarrow> clean_event e"
proof -
  assume "valid_event e"
  from valid_event_cases [OF this] obtain ds where
    d: "(e_kind e, ds) \<in> set KIND_DISPOSITIONS" "e_disposition e \<in> set ds" by blast
  then show ?thesis unfolding KIND_DISPOSITIONS_def
    by (simp only: set_simps insert_iff empty_iff prod.inject simp_thms)
      (elim disjE conjE; simp add: clean_event_def event_findings_def; (elim disjE)?; simp)
qed

lemma contiguous_iff: "contiguous es \<longleftrightarrow> e_sequence ` set es = int ` {0..<length es}"
proof -
  let ?xs = "map e_sequence es" and ?r = "map int [0..<length es]"
  have r: "sorted ?r" "distinct ?r" "set ?r = int ` {0..<length es}"
    by (auto simp: sorted_map distinct_map inj_on_def intro: sorted_wrt_mono_rel [of _ "(<)"] sorted_upt)
  show ?thesis
  proof
    assume "contiguous es"
    then have "set (sort ?xs) = set ?r" by (simp only: contiguous_def)
    then show "e_sequence ` set es = int ` {0..<length es}" by simp
  next
    assume s: "e_sequence ` set es = int ` {0..<length es}"
    then have "card (set ?xs) = length ?xs" by (simp add: card_image)
    then have "distinct ?xs" by (rule card_distinct)
    then have "sort ?xs = ?r"
      using s r by (intro sorted_distinct_set_unique) auto
    then show "contiguous es" by (simp only: contiguous_def)
  qed
qed

lemma stream_findings_Nil:
  "stream_findings es (s, st) = [] \<longleftrightarrow> s_complete st \<and> s_count st = int (length (of_source s es)) \<and>
     e_sequence ` set (of_source s es) = int ` {0..<length (of_source s es)}"
  by (auto simp: stream_findings_def Let_def contiguous_iff)

lemma lifecycle_closed_iff:
  "lifecycle_closed s es \<longleftrightarrow> (\<forall>d \<in> {''started'', ''stopped''}.
     \<exists>e \<in> set es. e_source e = s \<and> e_kind e = ''lifecycle'' \<and> e_disposition e = d)"
  by (auto simp: lifecycle_closed_def Let_def of_source_def image_iff)

lemma completeness_Nil:
  "completeness_findings kinds budgets es streams = [] \<longleftrightarrow> complete_bundle (map fst kinds) budgets es streams"
proof -
  have "concat (map (stream_findings es) (zip REQUIRED_STREAMS streams)) = [] \<longleftrightarrow>
      (\<forall>(s, st) \<in> set (zip REQUIRED_STREAMS streams). s_complete st \<and>
         s_count st = int (length (of_source s es)) \<and>
         e_sequence ` set (of_source s es) = int ` {0..<length (of_source s es)})"
    by (auto simp: stream_findings_Nil [symmetric])
  moreover have "over_budget budgets k n = (\<exists>m. get budgets k = PInt m \<and> m < int n)" for k n
    by (auto simp: over_budget_def plain_int_iff split: option.splits)
  moreover have "missing_findings kinds es = [] \<longleftrightarrow> (\<forall>k \<in> set (map fst kinds). \<exists>e \<in> set es. e_kind e = k)"
  proof -
    have "missing_findings kinds es = [] \<longleftrightarrow> (\<forall>(k, f) \<in> set kinds. count_kind k es \<noteq> 0)"
      by (auto simp: missing_findings_def split: prod.splits if_splits)
    moreover have "count_kind k es \<noteq> 0 \<longleftrightarrow> (\<exists>e \<in> set es. e_kind e = k)" for k
      by (auto simp: count_kind_def filter_empty_conv)
    ultimately show ?thesis by (simp add: case_prod_beta)
  qed
  moreover have "lifecycle_findings es = [] \<longleftrightarrow> lifecycle_closed ''browser'' es \<and> lifecycle_closed ''vm'' es"
    by (simp add: lifecycle_findings_def)
  ultimately show ?thesis
    unfolding completeness_findings_def complete_bundle_def budget_findings_def append_is_Nil_conv
    by (auto simp: lifecycle_closed_iff not_less)
qed

lemma findings_Nil:
  assumes "list_all valid_event es"
  shows "concat (map (\<lambda>e. orig e @ event_findings e) es) = [] \<longleftrightarrow> (\<forall>e \<in> set es. orig e = [] \<and> clean_event e)"
  using assms clean_event_iff by (auto simp: list_all_iff)

lemma clean_not_incomplete: "valid_event e \<Longrightarrow> clean_event e \<Longrightarrow> \<not> event_incomplete e"
  using event_incomplete_iff(1) clean_event_iff by fastforce

lemma reduction_allow:
  assumes "known ids"
  shows "(\<exists>r. reduction version inc ids n st = Inr r \<and> get r ''decision'' = S ''ALLOW'') \<longleftrightarrow> \<not> inc \<and> ids = []"
proof -
  obtain r where r: "reduction version inc ids n st = Inr r"
    "get r ''decision'' = S (if inc \<or> ids \<noteq> [] then ''DENY'' else ''ALLOW'')"
    using reduction_shape [OF assms] by metis
  show ?thesis by (auto simp: r)
qed

subsection \<open>Properties\<close>

text \<open>C26: \<open>reduce_browser_evidence\<close> (v1) returns ALLOW exactly when request and evidence validate and the
  run was clean and complete: every destination authorised, nothing blocked or attempted, sandbox active,
  host and guest network matched, navigation committed, every stream complete with matching counts and
  gap-free sequence numbers, budgets kept, browser and VM started and stopped.\<close>

theorem reduce_v1_allow_iff:
  "(\<exists>r. reduce_v1 db evidence request = Inr r \<and> get r ''decision'' = S ''ALLOW'') \<longleftrightarrow>
   (\<exists>q es streams. validate_probe_request db request = Inr q \<and>
      validate_evidence_v1 db evidence = Inr (es, streams) \<and>
      (\<forall>e \<in> set es. clean_event e \<and>
         (e_kind e \<in> {''navigation'', ''redirect'', ''network_request''} \<longrightarrow>
            (\<exists>x \<in> set (allowed_origins q). e_origin e = Some x))) \<and>
      complete_bundle [''browser_sandbox'', ''network_consistency'', ''navigation''] (get q ''budgets'') es streams)"
proof (cases "bindE (validate_probe_request db request) (\<lambda>q. bindE (validate_evidence_v1 db evidence) (\<lambda>e. Inr (q, e)))")
  case (Inl e)
  then have "\<not> (\<exists>q es st. validate_probe_request db request = Inr q \<and> validate_evidence_v1 db evidence = Inr (es, st))"
    by (auto simp: bindE_eq_Inl)
  moreover have "\<not> (\<exists>r. reduce_v1 db evidence request = Inr r \<and> get r ''decision'' = S ''ALLOW'')"
    using Inl reduction_allow [OF known_closed] by (simp add: reduce_v1_def closed_reduction_def)
  ultimately show ?thesis by blast
next
  case (Inr x)
  then obtain q es st where q: "validate_probe_request db request = Inr q" "validate_evidence_v1 db evidence = Inr (es, st)"
    "x = (q, es, st)" by (auto simp: bindE_eq_Inr)
  have v: "list_all valid_event es"
    using validate_evidence_valid [of "validate_event_v1 db", OF validate_event_v1_valid] q(2)
    by (simp add: validate_evidence_v1_def)
  have "reduce_v1 db evidence request = reduction EVIDENCE_VERSION
      (list_ex event_incomplete es \<or> completeness_findings required_kinds_v1 (get q ''budgets'') es st \<noteq> [])
      (concat (map (\<lambda>e. origin_findings_v1 (allowed_origins q) e @ event_findings e) es) @
       completeness_findings required_kinds_v1 (get q ''budgets'') es st) (length es) (stream_summary es st)"
    using Inr q(3) by (simp add: reduce_v1_def Let_def)
  moreover have "known (concat (map (\<lambda>e. origin_findings_v1 (allowed_origins q) e @ event_findings e) es) @
      completeness_findings required_kinds_v1 (get q ''budgets'') es st)"
    by (rule known_findings [OF v known_origin(1) known_kinds(1)])
  ultimately have "(\<exists>r. reduce_v1 db evidence request = Inr r \<and> get r ''decision'' = S ''ALLOW'') \<longleftrightarrow>
      \<not> list_ex event_incomplete es \<and> completeness_findings required_kinds_v1 (get q ''budgets'') es st = [] \<and>
      concat (map (\<lambda>e. origin_findings_v1 (allowed_origins q) e @ event_findings e) es) = []"
    using reduction_allow by auto
  also have "\<dots> \<longleftrightarrow> complete_bundle (map fst required_kinds_v1) (get q ''budgets'') es st \<and>
      (\<forall>e \<in> set es. origin_findings_v1 (allowed_origins q) e = [] \<and> clean_event e)"
    unfolding completeness_Nil findings_Nil [OF v]
    using v clean_not_incomplete by (auto simp: list_ex_iff list_all_iff)
  also have "\<dots> \<longleftrightarrow> complete_bundle [''browser_sandbox'', ''network_consistency'', ''navigation''] (get q ''budgets'') es st \<and>
      (\<forall>e \<in> set es. clean_event e \<and> (e_kind e \<in> {''navigation'', ''redirect'', ''network_request''} \<longrightarrow>
            (\<exists>x \<in> set (allowed_origins q). e_origin e = Some x)))"
    by (auto simp: required_kinds_v1_def origin_findings_v1_def ORIGIN_REQUIRED_KINDS_def)
  finally show ?thesis using q(1,2) by auto
qed

definition sample_request :: pyval where
  "sample_request = obj
     [(''contract_version'', S ''cindermote.browser-probe/v1''), (''url'', S ''http://a.com/''),
      (''authorized_origins'', PList [S ''http://a.com'']), (''navigation'', obj PASSIVE_NAVIGATION),
      (''budgets'', obj DEFAULT_BUDGETS)]"

definition sample_event :: "int \<Rightarrow> string \<Rightarrow> string \<Rightarrow> pyval \<Rightarrow> string \<Rightarrow> pyval" where
  "sample_event n source kind origin disp = obj
     [(''sequence'', PInt n), (''source'', S source), (''kind'', S kind), (''origin'', origin), (''disposition'', S disp)]"

definition sample_stream :: "int \<Rightarrow> pyval" where
  "sample_stream n = obj [(''complete'', PBool True), (''event_count'', PInt n)]"

definition sample_evidence :: pyval where
  "sample_evidence = obj
     [(''evidence_version'', S ''cindermote.browser-evidence/v1''),
      (''events'', PList
        [sample_event 0 ''browser'' ''lifecycle'' PNone ''started'', sample_event 0 ''vm'' ''lifecycle'' PNone ''started'',
         sample_event 1 ''browser'' ''browser_sandbox'' PNone ''active'',
         sample_event 0 ''cdp'' ''navigation'' (S ''http://a.com'') ''committed'',
         sample_event 1 ''vm'' ''network_consistency'' PNone ''matched'',
         sample_event 2 ''browser'' ''lifecycle'' PNone ''stopped'', sample_event 2 ''vm'' ''lifecycle'' PNone ''stopped'']),
      (''streams'', obj [(''browser'', sample_stream 3), (''cdp'', sample_stream 1), (''egress'', sample_stream 0),
         (''vm'', sample_stream 3)])]"

definition ev :: "int \<Rightarrow> string \<Rightarrow> string \<Rightarrow> pystr option \<Rightarrow> string \<Rightarrow> bevent" where
  "ev n s k x d = \<lparr>e_sequence = n, e_source = s, e_kind = k, e_origin = x, e_authority = None, e_disposition = d\<rparr>"

definition sample_events :: "bevent list" where
  "sample_events =
     [ev 0 ''browser'' ''lifecycle'' None ''started'', ev 0 ''vm'' ''lifecycle'' None ''started'',
      ev 1 ''browser'' ''browser_sandbox'' None ''active'',
      ev 0 ''cdp'' ''navigation'' (Some (str ''http://a.com'')) ''committed'',
      ev 1 ''vm'' ''network_consistency'' None ''matched'',
      ev 2 ''browser'' ''lifecycle'' None ''stopped'', ev 2 ''vm'' ''lifecycle'' None ''stopped'']"

definition sample_streams :: "bstream list" where
  "sample_streams = map (\<lambda>n. \<lparr>s_complete = True, s_count = n\<rparr>) [3, 1, 0, 3]"

lemma one_of_eval:
  "a \<in> set ss \<Longrightarrow> one_of err ss (S a) = Inr a" "a \<in> set ss \<Longrightarrow> one_of_set err ss (S a) = Inr a"
  using one_of_Inr [of err ss "S a" a] one_of_set_Inr [of err ss "S a" a] by simp_all

lemma sample_request_ok:
  "validate_probe_request ascii_db sample_request = Inr (obj
     [(''contract_version'', S CONTRACT_VERSION), (''url'', S ''http://a.com/''),
      (''authorized_origins'', PList [S ''http://a.com'']), (''navigation'', obj PASSIVE_NAVIGATION),
      (''budgets'', obj DEFAULT_BUDGETS)])"
proof -
  have u: "normalize_url ascii_db (S ''http://a.com/'') = Inr (str ''http://a.com/'')" by (simp add: url_eval)
  have o: "origin_for_url ascii_db (S ''http://a.com/'') = Inr (str ''http://a.com'')"
    by (simp add: origin_for_url_def url_origin_def url_eval)
  have n: "normalize_origin ascii_db (S ''http://a.com'') = Inr (str ''http://a.com'')"
    by (rule normalize_origin_id [OF sample_origin])
  have nav: "validate_navigation (obj PASSIVE_NAVIGATION) = Inr (obj PASSIVE_NAVIGATION)"
    by (simp add: validate_navigation_def passive_field_def PASSIVE_NAVIGATION_def NAVIGATION_KEYS_def py_eval)
  have bud: "validate_budgets (obj DEFAULT_BUDGETS) = Inr (obj DEFAULT_BUDGETS)"
    by (simp add: validate_budgets_def budget_field_def DEFAULT_BUDGETS_def BUDGET_KEYS_def BUDGET_RANGES_def
        MAX_EVIDENCE_EVENTS_def py_eval)
  show ?thesis
    by (simp add: validate_probe_request_def sample_request_def py_eval REQUEST_KEYS_def CONTRACT_VERSION_def u o n
        nav bud validate_origins_def MAX_AUTHORIZED_ORIGINS_def)
qed

lemma sample_evidence_ok: "validate_evidence_v1 ascii_db sample_evidence = Inr (sample_events, sample_streams)"
proof -
  have n: "normalize_origin ascii_db (S ''http://a.com'') = Inr (str ''http://a.com'')"
    by (rule normalize_origin_id [OF sample_origin])
  have e: "validate_event_v1 ascii_db (sample_event i s k x d) = Inr (ev i s k y d)"
    if "0 \<le> i" "i < 10" "s \<in> set REQUIRED_STREAMS" "k \<in> set (map fst KIND_DISPOSITIONS)" "s \<in> set (table KIND_SOURCES k)"
      "d \<in> set (table KIND_DISPOSITIONS k)" "x = PNone \<and> y = None \<and> k \<notin> set ORIGIN_REQUIRED_KINDS \<or>
        x = S ''http://a.com'' \<and> y = Some (str ''http://a.com'')" for i s k x y d
    using that n
    by (auto simp: validate_event_v1_def sample_event_def ev_def py_eval EVENT_KEYS_def event_sequence_def
        MAX_EVIDENCE_EVENTS_def optional_text_def one_of_eval simp del: set_map)
  have s: "stream_status (obj [(''browser'', sample_stream 3), (''cdp'', sample_stream 1), (''egress'', sample_stream 0),
         (''vm'', sample_stream 3)]) k = Inr \<lparr>s_complete = True, s_count = c\<rparr>"
    if "(k, c) \<in> {(''browser'', 3), (''cdp'', 1), (''egress'', 0), (''vm'', 3)}" for k c
    using that by (auto simp: stream_status_def py_eval sample_stream_def STREAM_STATUS_KEYS_def MAX_EVIDENCE_EVENTS_def)
  show ?thesis
    by (simp add: validate_evidence_v1_def validate_evidence_def sample_evidence_def py_eval EVIDENCE_KEYS_def
        EVIDENCE_VERSION_def MAX_EVIDENCE_EVENTS_def e [where x = PNone and y = None]
        e [where x = "S ''http://a.com''" and y = "Some (str ''http://a.com'')"]
        REQUIRED_STREAMS_def KIND_DISPOSITIONS_def KIND_SOURCES_def table_def ORIGIN_REQUIRED_KINDS_def s sample_events_def
        sample_streams_def)
qed

theorem reduce_v1_allow_iff_witness:
  "\<exists>r. reduce_v1 ascii_db sample_evidence sample_request = Inr r \<and> get r ''decision'' = S ''ALLOW''"
proof -
  have o: "allowed_origins (obj
     [(''contract_version'', S CONTRACT_VERSION), (''url'', S ''http://a.com/''),
      (''authorized_origins'', PList [S ''http://a.com'']), (''navigation'', obj PASSIVE_NAVIGATION),
      (''budgets'', obj DEFAULT_BUDGETS)]) = [str ''http://a.com'']"
    by (simp add: allowed_origins_def py_eval)
  have "\<forall>e \<in> set sample_events. clean_event e \<and>
      (e_kind e \<in> {''navigation'', ''redirect'', ''network_request''} \<longrightarrow> (\<exists>x \<in> set [str ''http://a.com'']. e_origin e = Some x))"
    by (simp add: sample_events_def ev_def clean_event_def)
  moreover have "complete_bundle [''browser_sandbox'', ''network_consistency'', ''navigation''] (obj DEFAULT_BUDGETS)
      sample_events sample_streams"
    by (simp add: complete_bundle_def sample_events_def sample_streams_def ev_def REQUIRED_STREAMS_def of_source_def
        DEFAULT_BUDGETS_def count_kind_def py_eval atLeast0LessThan lessThan_Suc) auto
  ultimately show ?thesis
    unfolding reduce_v1_allow_iff using sample_request_ok sample_evidence_ok o
    by (intro exI [of _ sample_events] exI [of _ sample_streams] exI conjI) (auto simp: py_eval)
qed


end
