(* ===== verification/Receipt_Sections.thy ===== *)
theory Receipt_Sections
  imports Policy_Gate Host_Io
begin

section \<open>Detonation receipts: the parts both profiles share\<close>

text \<open>
  The first part of \<open>observer/receipt.py\<close>: the field tables, the helper predicates, the isolation controls a
  policy requires, and the validation of finding lists and stream summaries.

  A chain \<open>if a or b or ...: raise ValueError(m)\<close> is \<open>refuse m [a, b, ...]\<close>, evaluated from the left; a condition
  may itself raise (a membership test of an unhashable value).
\<close>

subsection \<open>Guard chains\<close>

fun orE :: "bool res list \<Rightarrow> bool res" where
  "orE [] = Inr False"
| "orE (c # cs) = bindE c (\<lambda>b. if b then Inr True else orE cs)"

definition refuse :: "string \<Rightarrow> bool res list \<Rightarrow> unit res" where
  "refuse m cs = bindE (orE cs) (\<lambda>b. if b then Inl (ValueError m) else Inr ())"

definition nin :: "pyval \<Rightarrow> string list \<Rightarrow> bool res" where
  "nin v ss = bindE (in_set v ss) (\<lambda>b. Inr (\<not> b))"

text \<open>\<open>for x in xs: ...\<close> with a body that only raises.\<close>

definition each :: "('a \<Rightarrow> unit res) \<Rightarrow> 'a list \<Rightarrow> unit res" where
  "each f xs = bindE (mapE f xs) (\<lambda>_. Inr ())"

lemma orE_False: "orE cs = Inr False \<longleftrightarrow> list_all (\<lambda>c. c = Inr False) cs"
  by (induction cs) (auto simp: bindE_eq_Inr)

lemma refuse_Inr [simp]: "refuse m cs = Inr u \<longleftrightarrow> list_all (\<lambda>c. c = Inr False) cs"
  unfolding orE_False [symmetric] by (cases "orE cs") (auto simp: refuse_def)

lemma nin_False [simp]: "nin v ss = Inr False \<longleftrightarrow> in_strs v ss"
  by (auto simp: nin_def in_set_def in_strs_def split: pyval.splits)

lemma each_Inr [simp]: "each f xs = Inr u \<longleftrightarrow> (\<forall>x\<in>set xs. f x = Inr ())"
proof -
  have "(\<exists>ys. mapE f xs = Inr ys) \<longleftrightarrow> (\<forall>x\<in>set xs. f x = Inr ())"
    by (induction xs) (auto simp: bindE_eq_Inr)
  then show ?thesis by (auto simp: each_def bindE_eq_Inr)
qed

subsection \<open>Field tables\<close>

definition ARTIFACT_TYPES :: "string list" where
  "ARTIFACT_TYPES = [''mcp-server'', ''tool-definition'', ''skill-md'', ''python-script'', ''shell-script'', ''browser-probe'']"

definition BROWSER_RECEIPT_KEYS :: "string list" where
  "BROWSER_RECEIPT_KEYS = [''schema_version'', ''input'', ''runtime'', ''evidence'', ''artifacts'', ''findings'', ''reduction'']"

definition BROWSER_INPUT_KEYS :: "string list" where
  "BROWSER_INPUT_KEYS = [''contract_version'', ''url_sha256'', ''normalized_origin'', ''authorized_origins'', ''request_sha256'',
     ''policy_hash'', ''navigation_mode'']"

definition BROWSER_EVIDENCE_KEYS :: "string list" where
  "BROWSER_EVIDENCE_KEYS = [''schema_version'', ''sha256'', ''stream_status'', ''events_observed'']"

definition BROWSER_REDUCTION_KEYS :: "string list" where
  "BROWSER_REDUCTION_KEYS = [''evidence_version'', ''complete'', ''telemetry_incomplete'', ''fail_closed'', ''decision'',
     ''events_observed'', ''streams'', ''findings'']"

definition BROWSER_PURGE_COMPONENTS :: "string list" where
  "BROWSER_PURGE_COMPONENTS = [''processes_reaped'', ''cgroup_removed'', ''network_namespace_removed'', ''ram_jail_removed'',
     ''egress_worker_reaped'']"

definition BROWSER_PURGE_KEYS :: "string list" where
  "BROWSER_PURGE_KEYS = ''verified_externally'' # BROWSER_PURGE_COMPONENTS"

definition BROWSER_ARTIFACT_KEYS :: "string list" where
  "BROWSER_ARTIFACT_KEYS = [''raw_retained'', ''attestation_complete'', ''dom_sha256'', ''visible_text_sha256'', ''screenshot_sha256'',
     ''console_event_count'']"

definition BROWSER_RUNTIME_BASE_KEYS :: "string list" where
  "BROWSER_RUNTIME_BASE_KEYS = [''admitted'', ''firecracker_version'', ''firecracker_sha256'', ''jailer_sha256'', ''kernel_sha256'',
     ''rootfs_sha256'', ''rootfs_receipt_sha256'', ''browser_version'', ''browser_sha256'', ''host_runtime_tmpfs'',
     ''host_swap_disabled'', ''rootfs_read_only'', ''guest_writes_tmpfs_only'', ''network_mode'', ''mmds_enabled'', ''vmm_identity'']"

definition BROWSER_RUNTIME_OPTIONAL_KEYS :: "string list" where
  "BROWSER_RUNTIME_OPTIONAL_KEYS = [''job_image_sha256'', ''jailer_supervision'', ''egress_worker'', ''vmm_exit_code'', ''cgroup_limits'',
     ''guest_failure_stage'', ''guest_failure_code'']"

definition BROWSER_CONNECT_LABELS :: "string list" where
  "BROWSER_CONNECT_LABELS = [''proxy_connect_authority_allowed'', ''proxy_connect_authority_blocked'']"

definition BROWSER_HTTP_ORIGIN_LABELS :: "string list" where
  "BROWSER_HTTP_ORIGIN_LABELS = [''proxy_http_origin_allowed'', ''proxy_http_origin_blocked'']"

definition BROWSER_CDP_ORIGIN_LABELS :: "string list" where
  "BROWSER_CDP_ORIGIN_LABELS = [''browser_cdp_web_origin_allowed'', ''browser_cdp_web_origin_blocked'']"

definition BROWSER_DESTINATION_LABELS :: "string list" where
  "BROWSER_DESTINATION_LABELS = BROWSER_HTTP_ORIGIN_LABELS @ BROWSER_CONNECT_LABELS @ BROWSER_CDP_ORIGIN_LABELS"

definition BROWSER_BUDGET_KEYS :: "string list" where
  "BROWSER_BUDGET_KEYS = [''wall_clock_sec'', ''cpu_vcpu'', ''ram_mib'', ''max_network_bytes'', ''max_events'', ''max_redirects'', ''max_tabs'',
     ''interaction'', ''fs_writes'']"

definition LEGACY_ISOLATION_KEYS :: "string list" where
  "LEGACY_ISOLATION_KEYS = [''mode'', ''namespace_used'', ''seccomp_loaded'', ''cgroups_used'', ''mlock_used'']"

definition LEGACY_PURGE_KEYS :: "string list" where
  "LEGACY_PURGE_KEYS = [''method'', ''verified_externally'', ''process_group_empty'', ''cgroup_empty'', ''cgroup_removed'',
     ''job_mount_removed'', ''job_directory_removed'', ''processes_remaining'', ''remaining_host_resources'']"

definition LEGACY_GATE_KEYS :: "string list" where
  "LEGACY_GATE_KEYS = [''policy_gate_decision'', ''policy_gate_reason'', ''human_gate_override'', ''final_decision'', ''final_authority'',
     ''override_blocked_by_fail_closed'']"

definition LEGACY_OBSERVATION_KEYS :: "string list" where
  "LEGACY_OBSERVATION_KEYS = [''status'', ''exec_observed'', ''failure_class'', ''diagnostic'']"

definition LEGACY_OBSERVATION_FAILURE_CLASSES :: "string list" where
  "LEGACY_OBSERVATION_FAILURE_CLASSES = [''interpreter_startup'', ''library_load'']"

subsection \<open>Helpers\<close>

definition is_sha256 :: "pyval \<Rightarrow> bool" where
  "is_sha256 v = (case v of PStr s \<Rightarrow> is_digest s | _ \<Rightarrow> False)"

definition bounded_uint :: "pyval \<Rightarrow> bool" where
  "bounded_uint v = (case v of PInt i \<Rightarrow> 0 \<le> i \<and> i \<le> int MAX_EVIDENCE_EVENTS | _ \<Rightarrow> False)"

definition int_between :: "int \<Rightarrow> int \<Rightarrow> pyval \<Rightarrow> bool" where
  "int_between lo hi v = (case v of PInt i \<Rightarrow> lo \<le> i \<and> i \<le> hi | _ \<Rightarrow> False)"

definition text_within :: "nat \<Rightarrow> pyval \<Rightarrow> bool" where
  "text_within m v = (case v of PStr s \<Rightarrow> 1 \<le> length s \<and> length s \<le> m | _ \<Rightarrow> False)"

text \<open>The content of a value whose type has been checked.\<close>

definition int_val :: "pyval \<Rightarrow> int" where
  "int_val v = (case v of PInt i \<Rightarrow> i | _ \<Rightarrow> 0)"

definition list_val :: "pyval \<Rightarrow> pyval list" where
  "list_val v = (case v of PList xs \<Rightarrow> xs | _ \<Rightarrow> [])"

text \<open>
  \<open>xs == sorted(set(xs))\<close>. An unhashable element or two different elements without an order raise; a list of numbers
  is refused by the string checks that follow, with the same message, so it counts as unsorted here.
\<close>

fun strictly_sorted :: "pystr list \<Rightarrow> bool" where
  "strictly_sorted (x # y # zs) = (x < y \<and> strictly_sorted (y # zs))"
| "strictly_sorted _ = True"

definition comparable :: "pyval list \<Rightarrow> bool" where
  "comparable xs \<longleftrightarrow> list_all is_str xs \<or> list_all (\<lambda>x. num_val x \<noteq> None) xs \<or> list_all (\<lambda>x. list_all (py_eq x) xs) xs"

definition is_sorted_set :: "pyval list \<Rightarrow> bool res" where
  "is_sorted_set xs =
     (if \<not> list_all hashable xs \<or> \<not> comparable xs then Inl TypeError
      else Inr (list_all is_str xs \<and> strictly_sorted (map text_of xs)))"

definition canonical_hash :: "(pyfloat \<Rightarrow> pystr) \<Rightarrow> pyval \<Rightarrow> pystr res" where
  "canonical_hash fr v = bindE (json_dumps_ascii fr v) (\<lambda>t. Inr (sha256_hexdigest (map byte_of t)))"

text \<open>The active policy: a dictionary, or the text of a policy file (the default one included).\<close>

datatype policy_source = PolicyDict pyval | PolicyFile "pystr res"

definition load_active_policy :: "policy_source \<Rightarrow> pyval res" where
  "load_active_policy source =
     bindE (case source of PolicyDict v \<Rightarrow> Inr v | PolicyFile text \<Rightarrow> bindE text json_loads_str) (\<lambda>policy.
     if \<not> is_dict policy then Inl (ValueError ''active policy must be a JSON object'') else Inr policy)"

definition POLICY_ISOLATION_FLAGS :: "string list" where
  "POLICY_ISOLATION_FLAGS = [''require_network_namespace'', ''require_mount_namespace'', ''require_seccomp'',
     ''full_root_requires_cgroups'', ''full_root_requires_mlock'']"

definition required_isolation_controls :: "pyval \<Rightarrow> pyval \<Rightarrow> (string \<times> bool) list res" where
  "required_isolation_controls mode policy =
     bindE (refuse ''invalid legacy isolation mode'' [nin mode [''full-root'', ''degraded-user'']]) (\<lambda>_.
     let isolation = get policy ''isolation''; on = (\<lambda>n. get isolation n = PBool True) in
     bindE (refuse ''active policy lacks isolation requirements'' [Inr (\<not> is_dict isolation)]) (\<lambda>_.
     bindE (each (\<lambda>n. refuse (''active policy isolation.'' @ n @ '' must be bool'') [Inr (\<not> is_bool (get isolation n))])
              POLICY_ISOLATION_FLAGS) (\<lambda>_.
     Inr [(''namespace_used'', on ''require_network_namespace'' \<or> on ''require_mount_namespace''),
          (''seccomp_loaded'', on ''require_seccomp''),
          (''cgroups_used'', mode = S ''full-root'' \<and> on ''full_root_requires_cgroups''),
          (''mlock_used'', mode = S ''full-root'' \<and> on ''full_root_requires_mlock'')])))"

subsection \<open>Findings\<close>

type_synonym finding = "pystr \<times> int \<times> pystr"

text \<open>The order of Python tuples.\<close>

fun finding_le :: "finding \<Rightarrow> finding \<Rightarrow> bool" where
  "finding_le (a, m, s) (b, n, t) = (a < b \<or> a = b \<and> (m < n \<or> m = n \<and> s \<le> t))"

definition finding_of :: "bool \<Rightarrow> pyval \<Rightarrow> finding res" where
  "finding_of receipt_form f =
     (let key = (if receipt_form then ''finding_id'' else ''rule_id'') in
      bindE (refuse ''browser finding is malformed'' [Inr (\<not> has_shape f [key, ''count'', ''severity''])]) (\<lambda>_.
      bindE (refuse ''browser finding value is invalid''
               [Inr (\<not> text_within 128 (get f key)), Inr (\<not> (case get f ''count'' of PInt i \<Rightarrow> 1 \<le> i | _ \<Rightarrow> False)),
                nin (get f ''severity'') [''HIGH'', ''CRITICAL'']]) (\<lambda>_.
      Inr (text_of (get f key), int_val (get f ''count''), text_of (get f ''severity'')))))"

definition validate_finding_list :: "pyval \<Rightarrow> bool \<Rightarrow> finding list res" where
  "validate_finding_list v receipt_form =
     bindE (as_list (ValueError ''browser finding list is invalid'') v) (\<lambda>xs.
     if 512 < length xs then Inl (ValueError ''browser finding list is invalid'')
     else bindE (mapE (finding_of receipt_form) xs) (\<lambda>fs.
       if \<not> sorted_wrt finding_le fs \<or> \<not> distinct (map fst fs) then Inl (ValueError ''browser findings must be sorted and unique'')
       else Inr fs))"

text \<open>The findings of a legacy receipt: known rules in strictly ascending order, each with its own severity.\<close>

fun legacy_findings :: "pystr \<Rightarrow> pyval list \<Rightarrow> finding list res" where
  "legacy_findings previous [] = Inr []"
| "legacy_findings previous (f # fs) =
     bindE (refuse ''legacy detector finding is malformed'' [Inr (\<not> has_shape f [''rule_id'', ''count'', ''severity''])]) (\<lambda>_.
     let rule = text_of (get f ''rule_id'') in
     bindE (refuse ''legacy detector finding is non-canonical''
              [Inr (\<not> is_str (get f ''rule_id'')), Inr (\<not> mem rule (map fst RULES)), Inr (rule \<le> previous),
               Inr (\<not> (case get f ''count'' of PInt i \<Rightarrow> 1 \<le> i | _ \<Rightarrow> False)),
               Inr (case rule_entry rule of Inr (tap, severity, hint) \<Rightarrow> get f ''severity'' \<noteq> S severity | Inl e \<Rightarrow> True)]) (\<lambda>_.
     bindE (legacy_findings rule fs) (\<lambda>rest. Inr ((rule, int_val (get f ''count''), text_of (get f ''severity'')) # rest))))"

definition legacy_finding_map :: "pyval \<Rightarrow> finding list res" where
  "legacy_finding_map v =
     bindE (as_list (ValueError ''legacy detector findings must be a bounded list'') v) (\<lambda>xs.
     if 512 < length xs then Inl (ValueError ''legacy detector findings must be a bounded list'') else legacy_findings [] xs)"

text \<open>A finding dictionary, from identifier to count and severity; an update replaces the entry.\<close>

definition lookup :: "finding list \<Rightarrow> string \<Rightarrow> (int \<times> pystr) option" where
  "lookup fs name = map_of fs (str name)"

definition put :: "string \<Rightarrow> int \<times> string \<Rightarrow> finding list \<Rightarrow> finding list" where
  "put name v fs = filter (\<lambda>f. fst f \<noteq> str name) fs @ [(str name, fst v, str (snd v))]"

subsection \<open>Streams\<close>

definition validate_stream_status :: "pyval \<Rightarrow> (string \<times> pyval) list res" where
  "validate_stream_status v =
     bindE (refuse ''browser stream status set is invalid'' [Inr (\<not> has_shape v REQUIRED_STREAMS)]) (\<lambda>_.
     bindE (each (\<lambda>s. let status = get v s in
              refuse ''browser stream status is malformed''
                [Inr (\<not> has_shape status [''complete'', ''event_count'', ''observed_event_count'']),
                 Inr (\<not> is_bool (get status ''complete'')), Inr (\<not> bounded_uint (get status ''event_count'')),
                 Inr (\<not> bounded_uint (get status ''observed_event_count''))]) REQUIRED_STREAMS) (\<lambda>_.
     Inr (map (\<lambda>s. (s, get v s)) REQUIRED_STREAMS)))"

end
