(* ===== verification/Receipt_Browser.thy ===== *)
theory Receipt_Browser
  imports Receipt_Sections
begin

section \<open>Detonation receipts: the browser profile\<close>

text \<open>
  \<open>_validate_browser_probe_section\<close> of \<open>observer/receipt.py\<close>, one definition per section of the receipt and
  \<open>validate_browser_probe_section\<close> for the whole, in the order of the code.
\<close>

subsection \<open>Identity, snapshot, budgets\<close>

text \<open>\<open>^mf-web-[0-9a-f]{8}$\<close>.\<close>

definition browser_job_id :: "pystr \<Rightarrow> bool" where
  "browser_job_id s = (take 7 s = str ''mf-web-'' \<and> length s = 15 \<and> list_all is_hex_char (drop 7 s))"

definition check_identity :: "pyval \<Rightarrow> unit res" where
  "check_identity identity = refuse ''browser receipt identity is malformed''
     [Inr (\<not> has_shape identity [''job_id'', ''artifact_sha256'', ''artifact_type'', ''submitted_by'', ''received_at'']),
      Inr (get identity ''artifact_type'' \<noteq> S ''browser-probe''),
      Inr (\<not> (case get identity ''job_id'' of PStr s \<Rightarrow> browser_job_id s | _ \<Rightarrow> False)),
      Inr (\<not> text_within 256 (get identity ''submitted_by'')), Inr (\<not> text_within 128 (get identity ''received_at''))]"

definition check_snapshot :: "pyval \<Rightarrow> unit res" where
  "check_snapshot snapshot = refuse ''browser snapshot policy is malformed''
     [Inr (\<not> has_shape snapshot [''snapshot_sha256'', ''snapshot_verified_by'', ''policy_version'', ''policy_hash'', ''memory_snapshots'']),
      Inr (\<not> is_sha256 (get snapshot ''snapshot_sha256'')), Inr (\<not> is_sha256 (get snapshot ''policy_hash'')),
      Inr (get snapshot ''memory_snapshots'' \<noteq> S ''disabled-v1''),
      Inr (\<not> text_within 512 (get snapshot ''snapshot_verified_by'')), Inr (\<not> text_within 128 (get snapshot ''policy_version''))]"

definition RECEIPT_BUDGET_RANGES :: "(string \<times> int \<times> int) list" where
  "RECEIPT_BUDGET_RANGES = [(''wall_clock_sec'', 1, 60), (''cpu_vcpu'', 1, 2), (''ram_mib'', 256, 4096),
     (''max_network_bytes'', 1, 64 * 1024 * 1024), (''max_events'', 1, int MAX_EVIDENCE_EVENTS), (''max_redirects'', 0, 20)]"

definition check_budgets :: "pyval \<Rightarrow> unit res" where
  "check_budgets budgets =
     bindE (refuse ''browser granted budgets are malformed'' [Inr (\<not> has_shape budgets BROWSER_BUDGET_KEYS)]) (\<lambda>_.
     bindE (each (\<lambda>(n, lo, hi). refuse ''browser granted budget is invalid'' [Inr (\<not> int_between lo hi (get budgets n))])
              RECEIPT_BUDGET_RANGES) (\<lambda>_.
     refuse ''browser granted capability budget is invalid''
       [Inr (\<not> py_eq (get budgets ''max_tabs'') (PInt 1)), Inr (get budgets ''interaction'' \<noteq> S ''passive navigation only''),
        Inr (get budgets ''fs_writes'' \<noteq> S ''guest tmpfs only'')]))"

subsection \<open>The probe input\<close>

definition check_input :: "unicode_db \<Rightarrow> pyval \<Rightarrow> unit res" where
  "check_input db i =
     bindE (refuse ''browser probe input binding is malformed'' [Inr (\<not> has_shape i BROWSER_INPUT_KEYS)]) (\<lambda>_.
     bindE (refuse ''browser probe input binding is invalid''
              [Inr (get i ''contract_version'' \<noteq> S CONTRACT_VERSION), Inr (get i ''navigation_mode'' \<noteq> S ''passive''),
               Inr (\<not> is_sha256 (get i ''url_sha256'')), Inr (\<not> is_sha256 (get i ''request_sha256'')),
               Inr (\<not> is_sha256 (get i ''policy_hash''))]) (\<lambda>_.
     let origins = list_val (get i ''authorized_origins'') in
     bindE (refuse ''browser probe authorized origins are invalid''
              [Inr (\<not> is_list (get i ''authorized_origins'')),
               Inr (\<not> (1 \<le> length origins \<and> length origins \<le> MAX_AUTHORIZED_ORIGINS)), Inr (\<not> list_all is_str origins)]) (\<lambda>_.
     bindE (reraise (ValueError ''browser probe origin binding is invalid'')
              (bindE (mapE (normalize_origin db) origins) (\<lambda>cs.
               bindE (normalize_origin db (get i ''normalized_origin'')) (\<lambda>c. Inr (cs, c))))) (\<lambda>(cs, c).
     bindE (refuse ''browser probe authorized origins are not canonical''
              [Inr (map text_of origins \<noteq> sort cs), Inr (\<not> distinct origins)]) (\<lambda>_.
     refuse ''browser probe initial origin is not authorized''
       [Inr (get i ''normalized_origin'' \<noteq> PStr c), Inr (c \<notin> set (map text_of origins))])))))"

subsection \<open>The runtime\<close>

definition FAILURE_STAGES :: "string list" where
  "FAILURE_STAGES = [''request_validation'', ''chromium_start'', ''devtools_ready'', ''cdp_setup'', ''navigation'', ''page_load'',
     ''attestation'', ''screenshot'', ''teardown'']"

definition FAILURE_CODES :: "string list" where
  "FAILURE_CODES = [''deadline'', ''cdp_navigation_command'', ''navigation_error_text'', ''navigation_no_loader'', ''agent_error'',
     ''io_error'', ''unexpected_error'']"

text \<open>\<open>navigation_err_[a-z0-9_]{1,64}\<close>.\<close>

definition navigation_error_code :: "pystr \<Rightarrow> bool" where
  "navigation_error_code s =
     (take 15 s = str ''navigation_err_'' \<and> 16 \<le> length s \<and> length s \<le> 79 \<and>
      list_all (\<lambda>c. (97 \<le> c \<and> c \<le> 122) \<or> (48 \<le> c \<and> c \<le> 57) \<or> c = 95) (drop 15 s))"

definition has_key :: "pyval \<Rightarrow> string \<Rightarrow> bool" where
  "has_key v k = (dget (dict_of v) k \<noteq> None)"

definition check_failure_fields :: "pyval \<Rightarrow> unit res" where
  "check_failure_fields runtime =
     (let admitted = truthy (get runtime ''admitted'') in
      bindE (if has_key runtime ''guest_failure_stage'' then
               refuse ''browser guest failure stage is invalid'' [Inr admitted, nin (get runtime ''guest_failure_stage'') FAILURE_STAGES]
             else Inr ()) (\<lambda>_.
      if has_key runtime ''guest_failure_code'' then
        refuse ''browser guest failure code is invalid''
          [Inr admitted,
           Inr (\<not> (case get runtime ''guest_failure_code'' of PStr s \<Rightarrow> mem s FAILURE_CODES \<or> navigation_error_code s | _ \<Rightarrow> False))]
      else Inr ()))"

definition RUNTIME_DIGESTS :: "string list" where
  "RUNTIME_DIGESTS = [''firecracker_sha256'', ''jailer_sha256'', ''kernel_sha256'', ''rootfs_sha256'', ''rootfs_receipt_sha256'', ''browser_sha256'']"

definition RUNTIME_CONTROLS :: "string list" where
  "RUNTIME_CONTROLS = [''host_runtime_tmpfs'', ''host_swap_disabled'', ''rootfs_read_only'', ''guest_writes_tmpfs_only'']"

text \<open>A user or group number that is not root or a nobody account.\<close>

definition account :: "pyval \<Rightarrow> bool" where
  "account v = (case v of PInt i \<Rightarrow> 0 < i \<and> i < 2 ^ 31 \<and> i \<noteq> 65533 \<and> i \<noteq> 65534 | _ \<Rightarrow> False)"

definition check_vmm_identity :: "pyval \<Rightarrow> unit res" where
  "check_vmm_identity v = refuse ''browser VMM identity receipt is invalid''
     [Inr (\<not> has_shape v [''user'', ''group'', ''uid'', ''gid'']), Inr (get v ''user'' \<noteq> S ''cindermote-vmm''),
      Inr (get v ''group'' \<noteq> S ''cindermote-vmm''), Inr (\<not> account (get v ''uid'')), Inr (\<not> account (get v ''gid''))]"

definition check_runtime_options :: "pyval \<Rightarrow> unit res" where
  "check_runtime_options runtime =
     bindE (if has_key runtime ''vmm_exit_code'' then
              refuse ''browser VMM exit status is invalid''
                [Inr (get runtime ''vmm_exit_code'' \<noteq> PNone \<and> \<not> int_between (-255) 255 (get runtime ''vmm_exit_code''))]
            else Inr ()) (\<lambda>_.
     if has_key runtime ''cgroup_limits'' then
       (let lims = get runtime ''cgroup_limits'' in
        refuse ''browser cgroup readback is invalid''
          [Inr (\<not> is_dict lims),
           Inr (\<not> list_all (\<lambda>(k, v). k \<in> KStr ` str ` set [''cpu.max'', ''memory.max'', ''memory.swap.max'', ''pids.max'']) (dict_of lims)),
           Inr (\<not> list_all (\<lambda>(k, v). text_within 128 v) (dict_of lims))])
     else Inr ())"

definition check_runtime :: "pyval \<Rightarrow> unit res" where
  "check_runtime runtime =
     bindE (refuse ''browser runtime identity is incomplete''
              [Inr (\<not> is_dict runtime), Inr (\<not> list_all (has_key runtime) BROWSER_RUNTIME_BASE_KEYS),
               Inr (\<not> list_all (\<lambda>(k, v). k \<in> KStr ` str ` set (BROWSER_RUNTIME_BASE_KEYS @ BROWSER_RUNTIME_OPTIONAL_KEYS)) (dict_of runtime))]) (\<lambda>_.
     bindE (refuse ''browser runtime admission must be bool'' [Inr (\<not> is_bool (get runtime ''admitted''))]) (\<lambda>_.
     bindE (check_failure_fields runtime) (\<lambda>_.
     bindE (each (\<lambda>n. refuse (''browser runtime '' @ n @ '' is invalid'') [Inr (\<not> is_sha256 (get runtime n))]) RUNTIME_DIGESTS) (\<lambda>_.
     bindE (each (\<lambda>n. refuse (''browser runtime '' @ n @ '' must be bool'') [Inr (\<not> is_bool (get runtime n))])
              (RUNTIME_CONTROLS @ [''mmds_enabled''])) (\<lambda>_.
     bindE (refuse ''browser runtime identity is invalid''
              [Inr (\<not> text_within 128 (get runtime ''firecracker_version'')), Inr (\<not> text_within 512 (get runtime ''browser_version'')),
               Inr (get runtime ''network_mode'' \<noteq> S ''explicit-proxy-only''), Inr (get runtime ''mmds_enabled'' \<noteq> PBool False)]) (\<lambda>_.
     bindE (check_vmm_identity (get runtime ''vmm_identity'')) (\<lambda>_.
     check_runtime_options runtime)))))))"

subsection \<open>What an admitted run must show\<close>

definition expected_cgroup_limits :: "pyval \<Rightarrow> pyval" where
  "expected_cgroup_limits budgets = obj
     [(''cpu.max'', PStr (dump_int (100000 * int_val (get budgets ''cpu_vcpu'')) @ str '' 100000'')),
      (''memory.max'', PStr (dump_int ((int_val (get budgets ''ram_mib'') + 512) * 1024 * 1024))),
      (''memory.swap.max'', S ''0''), (''pids.max'', S ''256'')]"

definition WORKER_KEYS :: "string list" where
  "WORKER_KEYS = [''privilege_separated'', ''protocol_version'', ''user'', ''group'', ''uid'', ''gid'', ''no_new_privs'', ''dumpable'',
     ''capabilities_zero'']"

text \<open>\<open>v not in {0, False}\<close>.\<close>

definition not_zero :: "pyval \<Rightarrow> bool res" where
  "not_zero v = (if hashable v then Inr (\<not> py_eq v (PInt 0)) else Inl TypeError)"

definition check_worker :: "pyval \<Rightarrow> pyval \<Rightarrow> unit res" where
  "check_worker w vmm = refuse ''admitted browser runtime lacks worker confinement receipt''
     [Inr (\<not> has_shape w WORKER_KEYS), Inr (get w ''privilege_separated'' \<noteq> PBool True),
      Inr (get w ''protocol_version'' \<noteq> S ''cindermote.browser-egress-worker/v2''), Inr (get w ''user'' \<noteq> S ''cindermote-proxy''),
      Inr (get w ''group'' \<noteq> S ''cindermote-proxy''), Inr (\<not> account (get w ''uid'')), Inr (\<not> account (get w ''gid'')),
      Inr ({get w ''uid'', get w ''gid''} \<inter> {get vmm ''uid'', get vmm ''gid''} \<noteq> {}),
      Inr (get w ''no_new_privs'' \<noteq> PBool True), not_zero (get w ''dumpable''), Inr (get w ''capabilities_zero'' \<noteq> PBool True)]"

definition SUPERVISION :: pyval where
  "SUPERVISION = obj [(''external_supervisor'', PBool True), (''parent_death_signal'', S ''SIGTERM''),
     (''vmm_process_group_kill'', S ''SIGKILL''), (''startup_reconciliation'', S ''exact-owned-prefix'')]"

definition check_admitted :: "pyval \<Rightarrow> pyval \<Rightarrow> unit res" where
  "check_admitted runtime budgets =
     bindE (refuse ''admitted browser runtime lacks job image identity'' [Inr (\<not> is_sha256 (get runtime ''job_image_sha256''))]) (\<lambda>_.
     bindE (refuse ''admitted browser runtime lacks exact cgroup readback''
              [Inr (\<not> py_eq (get runtime ''cgroup_limits'') (expected_cgroup_limits budgets))]) (\<lambda>_.
     bindE (refuse ''admitted browser runtime lacks mandatory isolation''
              [Inr (\<not> list_all (\<lambda>n. truthy (get runtime n)) RUNTIME_CONTROLS)]) (\<lambda>_.
     bindE (check_worker (get runtime ''egress_worker'') (get runtime ''vmm_identity'')) (\<lambda>_.
     refuse ''admitted browser runtime lacks parent-death supervision''
       [Inr (\<not> is_dict (get runtime ''jailer_supervision'')), Inr (\<not> py_eq (get runtime ''jailer_supervision'') SUPERVISION)]))))"

subsection \<open>Evidence and its reduction\<close>

definition stream_total :: "(string \<times> pyval) list \<Rightarrow> int" where
  "stream_total streams = sum_list (map (\<lambda>(s, status). int_val (get status ''observed_event_count'')) streams)"

definition check_evidence :: "pyval \<Rightarrow> (string \<times> pyval) list res" where
  "check_evidence e =
     bindE (refuse ''browser evidence commitment is malformed'' [Inr (\<not> has_shape e BROWSER_EVIDENCE_KEYS)]) (\<lambda>_.
     bindE (refuse ''browser evidence commitment is invalid''
              [Inr (get e ''schema_version'' \<noteq> S EVIDENCE_VERSION_v2), Inr (\<not> is_sha256 (get e ''sha256'')),
               Inr (\<not> bounded_uint (get e ''events_observed''))]) (\<lambda>_.
     bindE (validate_stream_status (get e ''stream_status'')) (\<lambda>streams.
     bindE (refuse ''browser evidence stream counts do not match total''
              [Inr (stream_total streams \<noteq> int_val (get e ''events_observed''))]) (\<lambda>_.
     Inr streams))))"

definition check_reduction_flags :: "pyval \<Rightarrow> pyval \<Rightarrow> unit res" where
  "check_reduction_flags r e = refuse ''browser evidence reduction is inconsistent''
     [Inr (get r ''evidence_version'' \<noteq> S EVIDENCE_VERSION_v2), nin (get r ''decision'') [''ALLOW'', ''DENY''],
      Inr (\<not> bounded_uint (get r ''events_observed'')),
      Inr (\<not> list_all (\<lambda>n. is_bool (get r n)) [''complete'', ''telemetry_incomplete'', ''fail_closed'']),
      Inr (get r ''events_observed'' \<noteq> get e ''events_observed''), Inr (get r ''fail_closed'' \<noteq> get r ''telemetry_incomplete''),
      Inr (get r ''complete'' = get r ''telemetry_incomplete''),
      Inr (get r ''telemetry_incomplete'' = PBool True \<and> get r ''decision'' \<noteq> S ''DENY'')]"

definition check_reduction_stream :: "pyval \<Rightarrow> string \<times> pyval \<Rightarrow> unit res" where
  "check_reduction_stream streams p = (case p of (source, seen) \<Rightarrow>
     let status = get streams source in
     refuse ''browser reduction stream is inconsistent''
       [Inr (\<not> has_shape status [''declared_event_count'', ''observed_event_count'', ''complete'']),
        Inr (\<not> bounded_uint (get status ''declared_event_count'')), Inr (\<not> bounded_uint (get status ''observed_event_count'')),
        Inr (\<not> is_bool (get status ''complete'')), Inr (get status ''declared_event_count'' \<noteq> get seen ''event_count''),
        Inr (get status ''observed_event_count'' \<noteq> get seen ''observed_event_count''),
        Inr (get status ''complete'' \<noteq> get seen ''complete'')])"

definition mismatches :: "pyval \<Rightarrow> nat" where
  "mismatches streams = length (filter (\<lambda>s. get (get streams s) ''declared_event_count'' \<noteq> get (get streams s) ''observed_event_count'')
     REQUIRED_STREAMS)"

definition reduction_incomplete :: "pyval \<Rightarrow> finding list \<Rightarrow> bool" where
  "reduction_incomplete streams fs \<longleftrightarrow>
     list_ex (\<lambda>s. get (get streams s) ''complete'' = PBool False) REQUIRED_STREAMS \<or>
     list_ex (\<lambda>(i, n, s). mem i TELEMETRY_INCOMPLETE_FINDINGS_v2) fs"

definition canonical_browser_rule :: "finding \<Rightarrow> bool" where
  "canonical_browser_rule f = (case f of (i, n, severity) \<Rightarrow>
     (case rule_entry i of Inr (tap, s, hint) \<Rightarrow> str s = severity \<and> starts_with (str ''web_'') i | Inl e \<Rightarrow> False))"

definition check_reduction :: "pyval \<Rightarrow> pyval \<Rightarrow> (string \<times> pyval) list \<Rightarrow> finding list res" where
  "check_reduction r e seen =
     bindE (refuse ''browser evidence reduction is malformed'' [Inr (\<not> has_shape r BROWSER_REDUCTION_KEYS)]) (\<lambda>_.
     bindE (check_reduction_flags r e) (\<lambda>_.
     let streams = get r ''streams'' in
     bindE (refuse ''browser reduction stream set is invalid'' [Inr (\<not> has_shape streams REQUIRED_STREAMS)]) (\<lambda>_.
     bindE (each (check_reduction_stream streams) seen) (\<lambda>_.
     bindE (refuse ''browser reduction observed counts do not match total''
              [Inr (stream_total (map (\<lambda>s. (s, get streams s)) REQUIRED_STREAMS) \<noteq> int_val (get e ''events_observed''))]) (\<lambda>_.
     bindE (validate_finding_list (get r ''findings'') True) (\<lambda>fs.
     bindE (refuse ''browser evidence count mismatch finding is inconsistent''
              [Inr ((case lookup fs ''web_evidence_count_mismatch'' of None \<Rightarrow> 0 | Some (n, s) \<Rightarrow> n) \<noteq> int (mismatches streams))]) (\<lambda>_.
     bindE (refuse ''browser reduction completeness is not evidence-derived''
              [Inr (get r ''telemetry_incomplete'' \<noteq> PBool (reduction_incomplete streams fs)),
               Inr (get r ''complete'' = PBool (reduction_incomplete streams fs)),
               Inr (get r ''fail_closed'' \<noteq> PBool (reduction_incomplete streams fs))]) (\<lambda>_.
     bindE (each (\<lambda>f. refuse ''browser reduction finding is not a canonical browser rule'' [Inr (\<not> canonical_browser_rule f)]) fs) (\<lambda>_.
     bindE (refuse ''browser reduction decision does not match its findings''
              [Inr (get r ''decision'' \<noteq> S (if fs \<noteq> [] then ''DENY'' else ''ALLOW''))]) (\<lambda>_.
     Inr fs))))))))))"

subsection \<open>Artifacts, findings, purge\<close>

definition check_artifacts :: "pyval \<Rightarrow> pyval \<Rightarrow> unit res" where
  "check_artifacts a runtime =
     bindE (refuse ''browser artifacts must be metadata-only'' [Inr (\<not> is_dict a), Inr (get a ''raw_retained'' \<noteq> PBool False)]) (\<lambda>_.
     if keys_are a BROWSER_ARTIFACT_KEYS then
       bindE (refuse ''browser artifact attestation status is invalid'' [Inr (\<not> is_bool (get a ''attestation_complete''))]) (\<lambda>_.
       bindE (each (\<lambda>n. refuse ''browser artifact digest is invalid'' [Inr (\<not> is_sha256 (get a n))])
                [''dom_sha256'', ''visible_text_sha256'', ''screenshot_sha256'']) (\<lambda>_.
       refuse ''browser console event count is invalid'' [Inr (\<not> bounded_uint (get a ''console_event_count''))]))
     else refuse ''failed browser artifacts have an unexpected shape''
            [Inr (\<not> keys_are a [''raw_retained'']), Inr (truthy (get runtime ''admitted''))])"

definition check_purge :: "pyval \<Rightarrow> unit res" where
  "check_purge purge =
     bindE (refuse ''browser purge attestation is malformed'' [Inr (\<not> has_shape purge BROWSER_PURGE_KEYS)]) (\<lambda>_.
     bindE (refuse ''browser purge attestations must be bool'' [Inr (\<not> list_all (\<lambda>n. is_bool (get purge n)) BROWSER_PURGE_KEYS)]) (\<lambda>_.
     refuse ''browser aggregate purge attestation is inconsistent''
       [Inr (get purge ''verified_externally'' \<noteq> PBool (list_all (\<lambda>n. get purge n = PBool True) BROWSER_PURGE_COMPONENTS))]))"

definition expected_findings :: "finding list \<Rightarrow> pyval \<Rightarrow> pyval \<Rightarrow> finding list" where
  "expected_findings fs runtime purge =
     (let fs1 = (if truthy (get runtime ''admitted'') then fs else put ''firecracker_runtime_failure'' (1, ''CRITICAL'') fs)
      in if truthy (get purge ''verified_externally'') then fs1 else put ''purge_failure'' (1, ''CRITICAL'') fs1)"

definition check_findings :: "pyval \<Rightarrow> pyval \<Rightarrow> finding list res" where
  "check_findings browser_findings detector_findings =
     bindE (validate_finding_list browser_findings True) (\<lambda>fs.
     bindE (validate_finding_list detector_findings False) (\<lambda>ds.
     bindE (refuse ''browser findings are not bound to detector findings'' [Inr (fs \<noteq> ds)]) (\<lambda>_. Inr fs)))"

definition check_attestation :: "pyval \<Rightarrow> pyval \<Rightarrow> finding list \<Rightarrow> unit res" where
  "check_attestation a r fs = refuse ''incomplete page attestation lacks fail-closed evidence''
     [Inr (keys_are a BROWSER_ARTIFACT_KEYS \<and> get a ''attestation_complete'' = PBool False \<and>
           (lookup fs ''web_cdp_telemetry_loss'' = None \<or> get r ''telemetry_incomplete'' \<noteq> PBool True \<or> get r ''decision'' \<noteq> S ''DENY''))]"

subsection \<open>Isolation, capabilities, telemetry\<close>

definition ISOLATION_ADMISSION :: "string list" where
  "ISOLATION_ADMISSION = [''namespace_used'', ''seccomp_loaded'', ''cgroups_used'', ''jailer_used'', ''kvm_used'']"

definition check_isolation :: "pyval \<Rightarrow> pyval \<Rightarrow> unit res" where
  "check_isolation isolation runtime =
     bindE (refuse ''browser isolation receipt is malformed''
              [Inr (\<not> has_shape isolation ([''mode'', ''mlock_used''] @ ISOLATION_ADMISSION @ RUNTIME_CONTROLS))]) (\<lambda>_.
     bindE (refuse ''browser isolation mode is invalid''
              [Inr (get isolation ''mode'' \<noteq> S ''firecracker''), Inr (get isolation ''mlock_used'' \<noteq> PBool False)]) (\<lambda>_.
     bindE (each (\<lambda>n. refuse ''browser isolation controls must be bool'' [Inr (\<not> is_bool (get isolation n))])
              (''mlock_used'' # ISOLATION_ADMISSION @ RUNTIME_CONTROLS)) (\<lambda>_.
     bindE (each (\<lambda>n. refuse ''browser admission and isolation receipt disagree'' [Inr (get isolation n \<noteq> get runtime ''admitted'')])
              ISOLATION_ADMISSION) (\<lambda>_.
     each (\<lambda>n. refuse ''browser runtime and isolation receipt disagree'' [Inr (get isolation n \<noteq> get runtime n)]) RUNTIME_CONTROLS))))"

definition check_capabilities :: "pyval \<Rightarrow> pyval \<Rightarrow> pyval \<Rightarrow> unit res" where
  "check_capabilities c i identity =
     (let binding = get c ''binding'' in
      refuse ''browser capability grant is not request-bound''
       [Inr (\<not> has_shape c [''requested'', ''granted'', ''denied'', ''binding'']),
        Inr (get c ''requested'' \<noteq> PList [S ''browser.navigate'']), Inr (get c ''granted'' \<noteq> PList [S ''browser.navigate'']),
        Inr (get c ''denied'' \<noteq> PList [S ''browser.click'', S ''browser.type'', S ''browser.upload'', S ''browser.download'']),
        Inr (\<not> has_shape binding [''request_sha256'', ''job_id'']),
        Inr (get binding ''request_sha256'' \<noteq> get i ''request_sha256''), Inr (get binding ''job_id'' \<noteq> get identity ''job_id'')])"

definition check_event_budget :: "pyval \<Rightarrow> pyval \<Rightarrow> pyval \<Rightarrow> unit res" where
  "check_event_budget budgets runtime a = refuse ''browser receipt exceeds its admitted event budget''
     [Inr (\<not> bounded_uint (get budgets ''max_events'')), Inr (int_val (get budgets ''max_events'') < 1),
      Inr (truthy (get runtime ''admitted'') \<and> int_val (get budgets ''max_events'') < int_val (get a ''console_event_count''))]"

definition check_telemetry :: "pyval \<Rightarrow> pyval \<Rightarrow> (string \<times> pyval) list \<Rightarrow> unit res" where
  "check_telemetry v e streams = refuse ''browser telemetry summary is not evidence-bound''
     [Inr (\<not> has_shape v [''events_observed'', ''streams'', ''metadata_only'']), Inr (get v ''metadata_only'' \<noteq> PBool True),
      Inr (\<not> py_eq (get v ''events_observed'') (get e ''events_observed'')), Inr (\<not> py_eq (get v ''streams'') (obj streams))]"

subsection \<open>The gate and the outward report\<close>

definition GATE_REASONS :: "string list" where
  "GATE_REASONS = [''known_bad_behavior_detected'', ''canary_credential_accessed'', ''network_egress_attempted'',
     ''repeated_sandbox_probing'', ''anomalous_behavior_pattern'', ''bounded_browser_navigation_clean'', ''uncertain_classification'']"

definition check_gate :: "pyval \<Rightarrow> pyval \<Rightarrow> unit res" where
  "check_gate gate r = refuse ''browser reduction and policy decision disagree''
     [Inr (\<not> has_shape gate LEGACY_GATE_KEYS), Inr (get gate ''policy_gate_decision'' \<noteq> get r ''decision''),
      nin (get gate ''policy_gate_reason'') GATE_REASONS, nin (get gate ''human_gate_override'') [''none'', ''ALLOW'', ''DENY''],
      nin (get gate ''final_decision'') [''ALLOW'', ''DENY''],
      nin (get gate ''final_authority'') [''fail_closed_infrastructure_gate'', ''human_gate_override'', ''policy_gate_autonomous''],
      Inr (\<not> is_bool (get gate ''override_blocked_by_fail_closed''))]"

definition key_val :: "pykey \<Rightarrow> pyval" where
  "key_val k = (case k of KStr s \<Rightarrow> PStr s | KOther n \<Rightarrow> POther n)"

definition check_destination :: "unicode_db \<Rightarrow> pykey \<times> pyval \<Rightarrow> unit res" where
  "check_destination db p = (case p of (k, v) \<Rightarrow>
     let labels = list_val v; has = (\<lambda>ls. list_ex (\<lambda>l. in_strs l ls) labels) in
     bindE (refuse ''browser destination disposition is malformed''
              [Inr (\<not> is_list v), Inr (\<not> (1 \<le> length labels \<and> length labels \<le> length BROWSER_DESTINATION_LABELS)),
               bindE (is_sorted_set labels) (\<lambda>b. Inr (\<not> b)), Inr (\<not> list_all (\<lambda>l. in_strs l BROWSER_DESTINATION_LABELS) labels)]) (\<lambda>_.
     bindE (refuse ''browser destination interchanges witness types''
              [Inr (has BROWSER_CONNECT_LABELS \<and> has (BROWSER_HTTP_ORIGIN_LABELS @ BROWSER_CDP_ORIGIN_LABELS))]) (\<lambda>_.
     bindE (if has BROWSER_CONNECT_LABELS then
              reraise (ValueError ''browser CONNECT destination is not a canonical authority'') (normalize_connect_authority db (key_val k))
            else
              bindE (reraise (ValueError ''browser web destination is not a canonical origin'') (normalize_origin db (key_val k))) (\<lambda>c.
              bindE (refuse ''proxy HTTP-origin witness cannot claim an HTTPS origin''
                       [Inr (has BROWSER_HTTP_ORIGIN_LABELS \<and> \<not> starts_with (str ''http://'') c)]) (\<lambda>_. Inr c))) (\<lambda>c.
     refuse ''browser destination witness is not canonical'' [Inr (key_val k \<noteq> PStr c)]))))"

definition check_destinations :: "unicode_db \<Rightarrow> pyval \<Rightarrow> unit res" where
  "check_destinations db v =
     bindE (refuse ''browser destination summary is malformed'' [Inr (\<not> is_dict v), Inr (256 < length (dict_of v))]) (\<lambda>_.
     each (check_destination db) (dict_of v))"

text \<open>The evidence item a finding stands for.\<close>

definition evidence_entry :: "finding \<Rightarrow> pyval" where
  "evidence_entry f = (case f of (i, n, s) \<Rightarrow> obj
     [(''tap_category'', S (case rule_entry i of Inr (tap, x) \<Rightarrow> tap | Inl e \<Rightarrow> [])), (''rule_id'', PStr i), (''count'', PInt n)])"

definition expected_risk :: "finding list \<Rightarrow> string" where
  "expected_risk fs =
     (if list_ex (\<lambda>(i, n, s). s = str ''CRITICAL'') fs then ''hostile'' else if fs \<noteq> [] then ''suspicious'' else ''benign'')"

definition check_outward :: "pyval \<Rightarrow> finding list \<Rightarrow> finding list \<Rightarrow> pyval \<Rightarrow> pyval \<Rightarrow> unit res" where
  "check_outward report expected fs destinations uncertainty = refuse ''browser outward report is not finding-bound''
     [Inr (\<not> py_eq (get report ''evidence'') (PList (map evidence_entry (sort_key fst expected)))),
      Inr (get report ''risk_level'' \<noteq> S (expected_risk fs)),
      Inr (get report ''capabilities_requested'' \<noteq> PList [S ''browser.navigate'']),
      Inr (get report ''destinations'' \<noteq> PList (map PStr (sort (map (key_str \<circ> fst) (dict_of destinations))))),
      Inr (get report ''canaries_tripped'' \<noteq> PList []), Inr (\<not> py_eq (get report ''uncertainty'') uncertainty)]"

subsection \<open>The closing checks\<close>

definition budget_exhausted :: "finding list \<Rightarrow> bool" where
  "budget_exhausted fs \<longleftrightarrow> lookup fs ''web_event_budget_exceeded'' \<noteq> None \<or> lookup fs ''web_redirect_budget_exceeded'' \<noteq> None"

definition fail_closed_rules :: "finding list \<Rightarrow> bool" where
  "fail_closed_rules fs = list_ex (\<lambda>(i, n, s). mem i UNOVERRIDABLE_RULES) fs"

definition expected_final :: "finding list \<Rightarrow> pyval \<Rightarrow> pyval \<Rightarrow> pyval \<times> string" where
  "expected_final fs human decision =
     (if fail_closed_rules fs then (S ''DENY'', ''fail_closed_infrastructure_gate'')
      else if in_strs human [''ALLOW'', ''DENY''] then (human, ''human_gate_override'')
      else (decision, ''policy_gate_autonomous''))"

definition check_final :: "pyval \<Rightarrow> finding list \<Rightarrow> pyval \<Rightarrow> pyval \<Rightarrow> pyval \<Rightarrow> unit res" where
  "check_final gate fs r runtime purge =
     (let human = get gate ''human_gate_override''; final = expected_final fs human (get r ''decision'') in
      bindE (refuse ''browser final gate authority is inconsistent''
               [Inr (get gate ''final_decision'' \<noteq> fst final), Inr (get gate ''final_authority'' \<noteq> S (snd final)),
                Inr (get gate ''override_blocked_by_fail_closed'' \<noteq> PBool (fail_closed_rules fs \<and> human = S ''ALLOW''))]) (\<lambda>_.
      bindE (refuse ''unadmitted or unpurged browser run must be denied''
               [Inr ((\<not> truthy (get runtime ''admitted'') \<or> \<not> truthy (get purge ''verified_externally'')) \<and> get gate ''final_decision'' \<noteq> S ''DENY'')]) (\<lambda>_.
      refuse ''browser ALLOW lacks complete runtime evidence''
        [Inr (get gate ''final_decision'' = S ''ALLOW'' \<and>
              (\<not> truthy (get runtime ''admitted'') \<or> \<not> truthy (get purge ''verified_externally'') \<or> truthy (get r ''telemetry_incomplete'')))])))"

text \<open>The sections that describe the run: the results are the streams, the findings of the reduction, and all findings.\<close>

definition check_run_sections :: "unicode_db \<Rightarrow> pyval \<Rightarrow> ((string \<times> pyval) list \<times> finding list \<times> finding list) res" where
  "check_run_sections db receipt =
     (let budgets = get receipt ''budgets_granted''; browser = get receipt ''browser_probe''; runtime = get browser ''runtime'';
          e = get browser ''evidence'' in
      bindE (check_identity (get receipt ''identity'')) (\<lambda>_.
      bindE (check_snapshot (get receipt ''snapshot_policy'')) (\<lambda>_.
      bindE (check_budgets budgets) (\<lambda>_.
      bindE (refuse ''browser-probe artifacts require a complete browser probe section'' [Inr (\<not> has_shape browser BROWSER_RECEIPT_KEYS)]) (\<lambda>_.
      bindE (refuse ''invalid browser probe receipt version'' [Inr (get browser ''schema_version'' \<noteq> S ''cindermote.browser-probe-receipt/v2'')]) (\<lambda>_.
      bindE (check_input db (get browser ''input'')) (\<lambda>_.
      bindE (check_runtime runtime) (\<lambda>_.
      bindE (if truthy (get runtime ''admitted'') then check_admitted runtime budgets else Inr ()) (\<lambda>_.
      bindE (check_evidence e) (\<lambda>streams.
      bindE (check_reduction (get browser ''reduction'') e streams) (\<lambda>rfs.
      bindE (check_artifacts (get browser ''artifacts'') runtime) (\<lambda>_.
      bindE (check_findings (get browser ''findings'') (get receipt ''detector_findings'')) (\<lambda>fs.
      bindE (check_purge (get receipt ''purge'')) (\<lambda>_.
      Inr (streams, rfs, fs)))))))))))))))"

text \<open>The sections that bind them to each other.\<close>

definition check_bindings :: "unicode_db \<Rightarrow> pyval \<Rightarrow> (string \<times> pyval) list \<Rightarrow> finding list \<Rightarrow> finding list \<Rightarrow> unit res" where
  "check_bindings db receipt streams rfs fs =
     (let identity = get receipt ''identity''; snapshot = get receipt ''snapshot_policy''; browser = get receipt ''browser_probe'';
          i = get browser ''input''; runtime = get browser ''runtime''; e = get browser ''evidence''; r = get browser ''reduction'';
          a = get browser ''artifacts''; purge = get receipt ''purge''; gate = get receipt ''gate'';
          destinations = get receipt ''destinations_attempted''; expected = expected_findings rfs runtime purge in
      bindE (refuse ''browser findings are not exactly bound to reduction/runtime/purge'' [Inr (set fs \<noteq> set expected)]) (\<lambda>_.
      bindE (check_attestation a r expected) (\<lambda>_.
      bindE (check_isolation (get receipt ''isolation'') runtime) (\<lambda>_.
      bindE (refuse ''browser rootfs is not bound to snapshot policy'' [Inr (get snapshot ''snapshot_sha256'' \<noteq> get runtime ''rootfs_sha256'')]) (\<lambda>_.
      bindE (refuse ''browser policy hashes disagree'' [Inr (get snapshot ''policy_hash'' \<noteq> get i ''policy_hash'')]) (\<lambda>_.
      bindE (check_capabilities (get receipt ''capabilities'') i identity) (\<lambda>_.
      bindE (check_event_budget (get receipt ''budgets_granted'') runtime a) (\<lambda>_.
      bindE (check_telemetry (get receipt ''telemetry_summary'') e streams) (\<lambda>_.
      bindE (refuse ''browser profile cannot emit legacy canary content'' [Inr (get receipt ''canaries_touched'' \<noteq> PDict [])]) (\<lambda>_.
      bindE (check_gate gate r) (\<lambda>_.
      bindE (check_destinations db destinations) (\<lambda>_.
      bindE (check_outward (get receipt ''outward_report'') expected fs destinations (get receipt ''residual_uncertainty'')) (\<lambda>_.
      bindE (refuse ''browser budget exhaustion flag is inconsistent'' [Inr (get receipt ''budget_exhausted'' \<noteq> PBool (budget_exhausted fs))]) (\<lambda>_.
      bindE (refuse ''browser telemetry completeness is inconsistent''
               [Inr (get receipt ''telemetry_incomplete'' \<noteq>
                     PBool (truthy (get r ''telemetry_incomplete'') \<or> \<not> truthy (get purge ''verified_externally'')))]) (\<lambda>_.
      check_final gate expected r runtime purge)))))))))))))))"

definition validate_browser_probe_section :: "unicode_db \<Rightarrow> pyval \<Rightarrow> unit res" where
  "validate_browser_probe_section db receipt =
     bindE (check_run_sections db receipt) (\<lambda>(streams, rfs, fs). check_bindings db receipt streams rfs fs)"

end
