(* ===== verification/Receipt_Legacy.thy ===== *)
theory Receipt_Legacy
  imports Receipt_Browser Runner
begin

section \<open>Detonation receipts: the legacy profile, validation, signature\<close>

text \<open>
  The rest of \<open>observer/receipt.py\<close>: \<open>_validate_legacy_receipt\<close> by section, \<open>validate_receipt\<close>, the observer key, the
  signature, \<open>create_receipt\<close> and \<open>write_receipt\<close>. The text of floats is the argument \<open>fr\<close>; system calls enter as
  their outcomes.
\<close>

subsection \<open>Isolation\<close>

definition legacy_controls :: "pyval \<Rightarrow> pyval \<Rightarrow> (string \<times> bool) list res" where
  "legacy_controls isolation policy =
     bindE (refuse ''legacy isolation receipt is malformed'' [Inr (\<not> has_shape isolation LEGACY_ISOLATION_KEYS)]) (\<lambda>_.
     bindE (required_isolation_controls (get isolation ''mode'') policy) (\<lambda>controls.
     bindE (each (\<lambda>(n, required). refuse (''isolation.'' @ n @ '' must be bool'') [Inr (\<not> is_bool (get isolation n))]) controls) (\<lambda>_.
     Inr controls)))"

definition missing_controls :: "pyval \<Rightarrow> (string \<times> bool) list \<Rightarrow> string list" where
  "missing_controls isolation controls =
     map fst (filter (\<lambda>(n, required). required \<and> get isolation n \<noteq> PBool True) controls)"

subsection \<open>Purge\<close>

definition LEGACY_PURGE_CHECKS :: "string list" where
  "LEGACY_PURGE_CHECKS = [''process_group_empty'', ''cgroup_empty'', ''cgroup_removed'', ''job_mount_removed'', ''job_directory_removed'']"

definition legacy_purge_ok :: "pyval \<Rightarrow> bool" where
  "legacy_purge_ok purge \<longleftrightarrow>
     list_all (\<lambda>n. get purge n = PBool True) LEGACY_PURGE_CHECKS \<and> get purge ''processes_remaining'' = PInt 0 \<and>
     get purge ''remaining_host_resources'' = PList []"

definition legacy_purge :: "pyval \<Rightarrow> unit res" where
  "legacy_purge purge =
     (let resources = list_val (get purge ''remaining_host_resources'') in
      bindE (refuse ''legacy purge result is malformed'' [Inr (\<not> has_shape purge LEGACY_PURGE_KEYS)]) (\<lambda>_.
      bindE (refuse ''legacy purge method is invalid'' [Inr (\<not> (case get purge ''method'' of PStr s \<Rightarrow> s \<noteq> [] | _ \<Rightarrow> False))]) (\<lambda>_.
      bindE (refuse ''legacy purge postconditions must be bool''
               [Inr (\<not> list_all (\<lambda>n. is_bool (get purge n)) (''verified_externally'' # LEGACY_PURGE_CHECKS))]) (\<lambda>_.
      bindE (refuse ''legacy remaining-host-resource result is malformed''
               [Inr (\<not> (case get purge ''processes_remaining'' of PInt i \<Rightarrow> 0 \<le> i | _ \<Rightarrow> False)),
                Inr (\<not> is_list (get purge ''remaining_host_resources'')), bindE (is_sorted_set resources) (\<lambda>b. Inr (\<not> b)),
                Inr (512 < length resources), Inr (\<not> list_all (text_within 1024) resources)]) (\<lambda>_.
      refuse ''legacy aggregate purge result is inconsistent''
        [Inr (get purge ''verified_externally'' \<noteq> PBool (legacy_purge_ok purge))])))))"

subsection \<open>Findings, report, gate\<close>

definition critical_once :: "(int \<times> pystr) option" where
  "critical_once = Some (1, str ''CRITICAL'')"

definition legacy_infrastructure :: "finding list \<Rightarrow> pyval \<Rightarrow> string list \<Rightarrow> unit res" where
  "legacy_infrastructure fs purge missing =
     (let purge_finding = lookup fs ''purge_failure''; isolation_finding = lookup fs ''isolation_admission_failure'' in
      bindE (if truthy (get purge ''verified_externally'')
             then refuse ''verified legacy purge contradicts purge_failure'' [Inr (purge_finding \<noteq> None)]
             else refuse ''failed legacy purge lacks canonical purge_failure'' [Inr (purge_finding \<noteq> critical_once)]) (\<lambda>_.
      bindE (refuse ''legacy isolation admission failure is non-canonical''
               [Inr (isolation_finding \<noteq> None \<and> isolation_finding \<noteq> critical_once)]) (\<lambda>_.
      refuse ''missing required isolation lacks admission failure'' [Inr (missing \<noteq> [] \<and> isolation_finding \<noteq> critical_once)])))"

definition legacy_risk :: "finding list \<Rightarrow> string" where
  "legacy_risk fs =
     (if list_ex (\<lambda>(i, n, s). case rule_entry i of Inr (tap, sev, hint) \<Rightarrow> hint = ''known_bad'' | Inl e \<Rightarrow> False) fs then ''hostile''
      else if fs \<noteq> [] then ''suspicious'' else ''benign'')"

definition legacy_outward :: "pyval \<Rightarrow> finding list \<Rightarrow> pyval \<Rightarrow> pyval \<Rightarrow> unit res" where
  "legacy_outward report fs capabilities uncertainty = refuse ''legacy outward report is not evidence-bound''
     [Inr (\<not> py_eq (get report ''evidence'') (PList (map evidence_entry fs))), Inr (get report ''risk_level'' \<noteq> S (legacy_risk fs)),
      Inr (\<not> py_eq (get report ''capabilities_requested'') (get capabilities ''requested'')),
      Inr (\<not> py_eq (get report ''uncertainty'') uncertainty)]"

text \<open>The dictionary \<open>apply_scoring_matrix\<close> returns.\<close>

definition gate_doc :: "gate \<Rightarrow> pyval" where
  "gate_doc g = obj
     [(''policy_gate_decision'', S (g_policy_gate_decision g)), (''policy_gate_reason'', S (g_policy_gate_reason g)),
      (''human_gate_override'', S (g_human_gate_override g)), (''final_decision'', S (g_final_decision g)),
      (''final_authority'', S (g_final_authority g)), (''override_blocked_by_fail_closed'', PBool (g_override_blocked g))]"

definition gate_override :: "pyval \<Rightarrow> pystr \<Rightarrow> override_source" where
  "gate_override human job_id = OverrideDict (if human = S ''none'' then [] else [(KStr job_id, human)])"

definition legacy_gate :: "pyval \<Rightarrow> pyval \<Rightarrow> pyval \<Rightarrow> unit res" where
  "legacy_gate gate job report =
     (let human = get gate ''human_gate_override'' in
      bindE (refuse ''legacy gate result is malformed'' [Inr (\<not> has_shape gate LEGACY_GATE_KEYS)]) (\<lambda>_.
      bindE (refuse ''legacy human override is invalid'' [nin human [''none'', ''ALLOW'', ''DENY'']]) (\<lambda>_.
      bindE (refuse ''legacy job identity is invalid'' [Inr (\<not> (case job of PStr s \<Rightarrow> s \<noteq> [] | _ \<Rightarrow> False))]) (\<lambda>_.
      bindE (apply_scoring_matrix report (gate_override human (text_of job)) (text_of job)) (\<lambda>expected.
      refuse ''legacy gate result contradicts signed evidence'' [Inr (\<not> py_eq gate (gate_doc expected))])))))"

subsection \<open>The observation\<close>

definition legacy_incomplete :: "pyval \<Rightarrow> finding list \<Rightarrow> pyval \<Rightarrow> unit res" where
  "legacy_incomplete observation fs receipt =
     bindE (refuse ''incomplete observation lacks canonical finding'' [Inr (lookup fs ''payload_observation_incomplete'' \<noteq> critical_once)]) (\<lambda>_.
     bindE (refuse ''incomplete observation lacks a failure class'' [Inr (get observation ''failure_class'' = PNone)]) (\<lambda>_.
     bindE (refuse ''incomplete observation must not produce a verdict''
              [Inr (get (get receipt ''gate'') ''final_decision'' \<noteq> S ''EVALUATION_INCOMPLETE'')]) (\<lambda>_.
     bindE (refuse ''incomplete observation must mark telemetry incomplete'' [Inr (get receipt ''telemetry_incomplete'' \<noteq> PBool True)]) (\<lambda>_.
     refuse ''incomplete observation must retain full uncertainty''
       [Inr (\<not> py_eq (get receipt ''residual_uncertainty'') (PFloat (Fin 1)))]))))"

definition legacy_complete :: "pyval \<Rightarrow> finding list \<Rightarrow> pyval \<Rightarrow> unit res" where
  "legacy_complete observation fs receipt =
     bindE (refuse ''completed observation contradicts incomplete finding'' [Inr (lookup fs ''payload_observation_incomplete'' \<noteq> None)]) (\<lambda>_.
     bindE (refuse ''completed observation carries failure diagnostics''
              [Inr (get observation ''failure_class'' \<noteq> PNone), Inr (truthy (get observation ''diagnostic''))]) (\<lambda>_.
     refuse ''completed observation requires a terminal verdict'' [nin (get (get receipt ''gate'') ''final_decision'') [''ALLOW'', ''DENY'']]))"

definition legacy_observation :: "pyval \<Rightarrow> finding list \<Rightarrow> unit res" where
  "legacy_observation receipt fs =
     (let observation = get receipt ''observation'' in
      if observation = PNone then
        refuse ''incomplete observation finding lacks an observation section'' [Inr (lookup fs ''payload_observation_incomplete'' \<noteq> None)]
      else
        bindE (refuse ''legacy observation section is malformed'' [Inr (\<not> has_shape observation LEGACY_OBSERVATION_KEYS)]) (\<lambda>_.
        bindE (refuse ''legacy observation status is invalid'' [nin (get observation ''status'') [''COMPLETE'', ''EVALUATION_INCOMPLETE'']]) (\<lambda>_.
        bindE (refuse ''legacy observation exec witness must be bool'' [Inr (\<not> is_bool (get observation ''exec_observed''))]) (\<lambda>_.
        bindE (refuse ''legacy observation failure class is invalid''
                 [if get observation ''failure_class'' = PNone then Inr False
                  else nin (get observation ''failure_class'') LEGACY_OBSERVATION_FAILURE_CLASSES]) (\<lambda>_.
        bindE (refuse ''legacy observation diagnostic must be a bounded string''
                 [Inr (\<not> (case get observation ''diagnostic'' of PStr s \<Rightarrow> length s \<le> 512 | _ \<Rightarrow> False))]) (\<lambda>_.
        if get observation ''status'' = S ''EVALUATION_INCOMPLETE'' then legacy_incomplete observation fs receipt
        else legacy_complete observation fs receipt))))))"

subsection \<open>The legacy receipt\<close>

definition legacy_failed :: "finding list \<Rightarrow> string list \<Rightarrow> pyval \<Rightarrow> bool" where
  "legacy_failed fs missing purge \<longleftrightarrow>
     lookup fs ''isolation_admission_failure'' \<noteq> None \<or> missing \<noteq> [] \<or> \<not> truthy (get purge ''verified_externally'')"

definition legacy_closing :: "pyval \<Rightarrow> finding list \<Rightarrow> string list \<Rightarrow> unit res" where
  "legacy_closing receipt fs missing =
     (let purge = get receipt ''purge'' in
      bindE (refuse ''legacy infrastructure failure must mark telemetry incomplete''
               [Inr (legacy_failed fs missing purge \<and> get receipt ''telemetry_incomplete'' \<noteq> PBool True)]) (\<lambda>_.
      bindE (refuse ''legacy infrastructure failure must retain full uncertainty''
               [Inr (legacy_failed fs missing purge \<and> \<not> py_eq (get receipt ''residual_uncertainty'') (PFloat (Fin 1)))]) (\<lambda>_.
      refuse ''legacy ALLOW lacks required isolation or verified purge''
        [Inr (get (get receipt ''gate'') ''final_decision'' = S ''ALLOW'' \<and> (missing \<noteq> [] \<or> \<not> truthy (get purge ''verified_externally'')))])))"

definition validate_legacy_receipt :: "(pyfloat \<Rightarrow> pystr) \<Rightarrow> policy_source \<Rightarrow> pyval \<Rightarrow> unit res" where
  "validate_legacy_receipt fr active_policy receipt =
     (let snapshot = get receipt ''snapshot_policy''; isolation = get receipt ''isolation''; purge = get receipt ''purge'';
          report = get receipt ''outward_report'' in
      bindE (load_active_policy active_policy) (\<lambda>policy.
      bindE (refuse ''legacy receipt is not bound to the active policy''
               [Inr (\<not> is_dict snapshot), Inr (\<not> is_sha256 (get snapshot ''policy_hash'')),
                bindE (canonical_hash fr policy) (\<lambda>h. Inr (get snapshot ''policy_hash'' \<noteq> PStr h))]) (\<lambda>_.
      bindE (legacy_controls isolation policy) (\<lambda>controls.
      let missing = missing_controls isolation controls in
      bindE (legacy_purge purge) (\<lambda>_.
      bindE (legacy_finding_map (get receipt ''detector_findings'')) (\<lambda>fs.
      bindE (legacy_infrastructure fs purge missing) (\<lambda>_.
      bindE (legacy_outward report fs (get receipt ''capabilities'') (get receipt ''residual_uncertainty'')) (\<lambda>_.
      bindE (legacy_gate (get receipt ''gate'') (get (get receipt ''identity'') ''job_id'') report) (\<lambda>_.
      bindE (legacy_observation receipt fs) (\<lambda>_.
      legacy_closing receipt fs missing))))))))))"

subsection \<open>Every receipt\<close>

definition RECEIPT_REQUIRED :: "string list" where
  "RECEIPT_REQUIRED = [''identity'', ''snapshot_policy'', ''isolation'', ''budgets_granted'', ''capabilities'', ''telemetry_summary'',
     ''canaries_touched'', ''destinations_attempted'', ''detector_findings'', ''gate'', ''outward_report'', ''purge'',
     ''telemetry_incomplete'', ''budget_exhausted'', ''residual_uncertainty'', ''receipt_signature'']"

definition RECEIPT_OPTIONAL :: "string list" where
  "RECEIPT_OPTIONAL = [''mcp_protocol'', ''browser_probe'', ''observation'']"

text \<open>\<open>v not in {True, False}\<close>.\<close>

definition not_truth :: "pyval \<Rightarrow> bool res" where
  "not_truth v = (if hashable v then Inr (\<not> py_eq v (PBool True) \<and> \<not> py_eq v (PBool False)) else Inl TypeError)"

definition check_sections :: "pyval \<Rightarrow> unit res" where
  "check_sections receipt =
     bindE (refuse ''receipt is missing required sections''
              [Inr (\<not> is_dict receipt), Inr (\<not> list_all (has_key receipt) RECEIPT_REQUIRED)]) (\<lambda>_.
     bindE (refuse ''receipt contains unknown sections''
              [Inr (\<not> list_all (\<lambda>(k, v). k \<in> KStr ` str ` set (RECEIPT_REQUIRED @ RECEIPT_OPTIONAL)) (dict_of receipt))]) (\<lambda>_.
     let identity = get receipt ''identity''; isolation = get receipt ''isolation'' in
     bindE (refuse ''invalid artifact type'' [bindE (get_attr identity ''artifact_type'') (\<lambda>v. nin v ARTIFACT_TYPES)]) (\<lambda>_.
     bindE (refuse ''invalid artifact hash'' [Inr (\<not> is_sha256 (get identity ''artifact_sha256''))]) (\<lambda>_.
     bindE (refuse ''invalid isolation mode''
              [Inr (\<not> is_dict isolation), nin (get isolation ''mode'') [''full-root'', ''degraded-user'', ''firecracker'']]) (\<lambda>_.
     bindE (each (\<lambda>n. refuse (''isolation.'' @ n @ '' must be bool'') [Inr (\<not> is_bool (get isolation n))])
              [''namespace_used'', ''seccomp_loaded'', ''cgroups_used'', ''mlock_used'']) (\<lambda>_.
     bindE (refuse ''invalid final gate decision''
              [bindE (get_attr (get receipt ''gate'') ''final_decision'') (\<lambda>v. nin v [''ALLOW'', ''DENY'', ''EVALUATION_INCOMPLETE''])]) (\<lambda>_.
     bindE (refuse ''purge verification must be bool''
              [bindE (get_attr (get receipt ''purge'') ''verified_externally'') not_truth]) (\<lambda>_.
     bindE (each (\<lambda>n. refuse (n @ '' must be bool'') [Inr (\<not> is_bool (get receipt n))]) [''telemetry_incomplete'', ''budget_exhausted'']) (\<lambda>_.
     bindE (validate_outward_report (get receipt ''outward_report'')) (\<lambda>_.
     refuse ''invalid receipt signature'' [Inr (\<not> is_sha256 (get receipt ''receipt_signature''))]))))))))))"

definition is_browser_receipt :: "pyval \<Rightarrow> bool" where
  "is_browser_receipt receipt = (get (get receipt ''identity'') ''artifact_type'' = S ''browser-probe'')"

definition validate_receipt :: "(pyfloat \<Rightarrow> pystr) \<Rightarrow> unicode_db \<Rightarrow> policy_source \<Rightarrow> pyval \<Rightarrow> unit res" where
  "validate_receipt fr db active_policy receipt =
     bindE (check_sections receipt) (\<lambda>_.
     bindE (refuse ''browser probe section must exist iff artifact type is browser-probe''
              [Inr (is_browser_receipt receipt \<noteq> has_key receipt ''browser_probe'')]) (\<lambda>_.
     if is_browser_receipt receipt then validate_browser_probe_section db receipt
     else validate_legacy_receipt fr active_policy receipt))"

end
