(* ===== verification/Receipt_Store.thy ===== *)
theory Receipt_Store
  imports Receipt_Legacy
begin

section \<open>Detonation receipts: key, signature, creation, storage\<close>

text \<open>
  The observer key, the HMAC signature, \<open>create_receipt\<close> and \<open>write_receipt\<close> of \<open>observer/receipt.py\<close>. A call that
  touches the file system returns, beside its result, the file it left behind.
\<close>

subsection \<open>The observer key\<close>

text \<open>The outcomes of the system calls of \<open>load_or_create_key\<close>; \<open>ke_random\<close> is what \<open>os.urandom(32)\<close> returns.\<close>

record key_env =
  ke_open :: "file_view res"
  ke_mkdir :: "unit res"
  ke_create :: "unit res"
  ke_fchmod :: "unit res"
  ke_random :: bytes
  ke_write :: "nat \<Rightarrow> int res"
  ke_fsync :: "unit res"

definition create_key :: "key_env \<Rightarrow> bytes option \<times> bytes res" where
  "create_key env =
     (case bindE (ke_mkdir env) (\<lambda>_. ke_create env) of
        Inl e \<Rightarrow> (None, Inl e)
      | Inr u \<Rightarrow> (case ke_fchmod env of
            Inl e \<Rightarrow> (Some [], Inl e)
          | Inr u \<Rightarrow> (case write_view (ke_write env) 0 [] (ke_random env) of
                (file, Inl e) \<Rightarrow> (Some file, Inl e)
              | (file, Inr u) \<Rightarrow> (Some file, bindE (ke_fsync env) (\<lambda>_. Inr (ke_random env))))))"

definition read_key :: "file_view \<Rightarrow> bytes res" where
  "read_key f =
     (if \<not> fv_regular f \<or> fv_mode f AND 63 \<noteq> 0 then
        Inl (ValueError ''observer key must be a regular file readable only by its owner (chmod 600)'')
      else if length (take 33 (fv_bytes f)) \<noteq> 32 then Inl (ValueError ''observer key must contain exactly 32 bytes'')
      else Inr (take 33 (fv_bytes f)))"

definition load_or_create_key :: "key_env \<Rightarrow> bytes option \<times> bytes res" where
  "load_or_create_key env =
     (case ke_open env of
        Inl e \<Rightarrow> if e = FileNotFoundError then create_key env else (None, Inl e)
      | Inr f \<Rightarrow> (None, read_key f))"

subsection \<open>The signature\<close>

definition canonical_json :: "(pyfloat \<Rightarrow> pystr) \<Rightarrow> pyval \<Rightarrow> bytes res" where
  "canonical_json fr v =
     bindE (json_dumps fr v) (\<lambda>t. case utf8_encode t of None \<Rightarrow> Inl UnicodeError | Some b \<Rightarrow> Inr b)"

definition sign_receipt :: "(pyfloat \<Rightarrow> pystr) \<Rightarrow> pyval \<Rightarrow> bytes \<Rightarrow> pystr res" where
  "sign_receipt fr doc key = bindE (canonical_json fr doc) (\<lambda>b. Inr (hmac_hexdigest key b))"

text \<open>\<open>except (TypeError, ValueError, RecursionError)\<close>; \<open>UnicodeEncodeError\<close> is a \<open>ValueError\<close>.\<close>

definition signing_errors :: "exn \<Rightarrow> bool" where
  "signing_errors e = (e = TypeError \<or> e = RecursionError \<or> e = UnicodeError \<or> is_ValueError e)"

definition unsigned_part :: "pyval \<Rightarrow> pyval" where
  "unsigned_part receipt = PDict (filter (\<lambda>(k, v). k \<noteq> KStr (str ''receipt_signature'')) (dict_of receipt))"

definition verify_signature :: "(pyfloat \<Rightarrow> pystr) \<Rightarrow> pyval \<Rightarrow> bytes \<Rightarrow> bool res" where
  "verify_signature fr receipt key =
     (case get_default receipt ''receipt_signature'' (PStr []) of
        PStr signature \<Rightarrow>
          if \<not> is_ascii signature then Inr False
          else (case sign_receipt fr (unsigned_part receipt) key of
              Inl e \<Rightarrow> if signing_errors e then Inr False else Inl e
            | Inr expected \<Rightarrow> Inr (signature = expected))
      | _ \<Rightarrow> Inr False)"

subsection \<open>Creation\<close>

record receipt_parts =
  rp_identity :: pyval
  rp_snapshot_policy :: pyval
  rp_isolation :: pyval
  rp_budgets_granted :: pyval
  rp_capabilities :: pyval
  rp_telemetry_summary :: pyval
  rp_canaries_touched :: pyval
  rp_destinations_attempted :: pyval
  rp_detector_findings :: pyval
  rp_gate :: pyval
  rp_outward_report :: pyval
  rp_purge :: pyval
  rp_telemetry_incomplete :: bool
  rp_budget_exhausted :: bool
  rp_residual_uncertainty :: pyval
  rp_mcp_protocol :: "pyval option"
  rp_browser_probe :: "pyval option"
  rp_observation :: "pyval option"

definition optional_section :: "string \<Rightarrow> pyval option \<Rightarrow> (string \<times> pyval) list" where
  "optional_section name v = (case v of None \<Rightarrow> [] | Some x \<Rightarrow> [(name, x)])"

definition unsigned_sections :: "receipt_parts \<Rightarrow> pyfloat \<Rightarrow> (string \<times> pyval) list" where
  "unsigned_sections p uncertainty =
     [(''identity'', rp_identity p), (''snapshot_policy'', rp_snapshot_policy p), (''isolation'', rp_isolation p),
      (''budgets_granted'', rp_budgets_granted p), (''capabilities'', rp_capabilities p), (''telemetry_summary'', rp_telemetry_summary p),
      (''canaries_touched'', rp_canaries_touched p), (''destinations_attempted'', rp_destinations_attempted p),
      (''detector_findings'', rp_detector_findings p), (''gate'', rp_gate p), (''outward_report'', rp_outward_report p),
      (''purge'', rp_purge p), (''telemetry_incomplete'', PBool (rp_telemetry_incomplete p)),
      (''budget_exhausted'', PBool (rp_budget_exhausted p)), (''residual_uncertainty'', PFloat (clamp_unit uncertainty))]
     @ optional_section ''mcp_protocol'' (rp_mcp_protocol p) @ optional_section ''browser_probe'' (rp_browser_probe p)
     @ optional_section ''observation'' (rp_observation p)"

definition create_receipt ::
  "(pyfloat \<Rightarrow> pystr) \<Rightarrow> unicode_db \<Rightarrow> policy_source \<Rightarrow> key_env \<Rightarrow> receipt_parts \<Rightarrow> bytes option \<times> pyval res" where
  "create_receipt fr db active_policy env p =
     (case float_of (rp_residual_uncertainty p) of
        Inl e \<Rightarrow> (None, Inl e)
      | Inr u \<Rightarrow> (let sections = unsigned_sections p u in
          (case load_or_create_key env of
             (file, Inl e) \<Rightarrow> (file, Inl e)
           | (file, Inr key) \<Rightarrow>
               (file,
                bindE (sign_receipt fr (obj sections) key) (\<lambda>signature.
                let receipt = obj (sections @ [(''receipt_signature'', PStr signature)]) in
                bindE (validate_receipt fr db active_policy receipt) (\<lambda>_. Inr receipt))))))"

subsection \<open>Storage\<close>

record store_env =
  se_mkdir :: "unit res"
  se_symlink :: bool
  se_open :: "unit res"
  se_write :: "nat \<Rightarrow> int res"
  se_fsync :: "unit res"
  se_replace :: "unit res"
  se_dirsync :: "unit res"

text \<open>The first result is the content under the receipt's name, if the call replaced it.\<close>

definition store_text :: "store_env \<Rightarrow> pystr \<Rightarrow> bytes option \<times> unit res" where
  "store_text env text =
     (case bindE (se_open env) (\<lambda>_. case utf8_encode text of None \<Rightarrow> Inl UnicodeError | Some b \<Rightarrow> Inr b) of
        Inl e \<Rightarrow> (None, Inl e)
      | Inr payload \<Rightarrow> (case write_view (se_write env) 0 [] payload of
            (file, Inl e) \<Rightarrow> (None, Inl e)
          | (file, Inr u) \<Rightarrow> (case bindE (se_fsync env) (\<lambda>_. se_replace env) of
                Inl e \<Rightarrow> (None, Inl e)
              | Inr u \<Rightarrow> (Some file, se_dirsync env))))"

definition write_receipt ::
  "(pyfloat \<Rightarrow> pystr) \<Rightarrow> unicode_db \<Rightarrow> policy_source \<Rightarrow> store_env \<Rightarrow> pyval \<Rightarrow> bytes option \<times> unit res" where
  "write_receipt fr db active_policy env receipt =
     (case bindE (validate_receipt fr db active_policy receipt) (\<lambda>_. se_mkdir env) of
        Inl e \<Rightarrow> (None, Inl e)
      | Inr u \<Rightarrow>
          if se_symlink env then (None, Inl (ValueError ''receipt directory is unsafe''))
          else (case json_dumps_indent fr receipt of
              Inl e \<Rightarrow> (None, Inl e)
            | Inr text \<Rightarrow> store_text env (text @ [10])))"

end
