(* ===== verification/Receipt_Facts.thy ===== *)
theory Receipt_Facts
  imports Receipt_Store
begin

section \<open>What an accepted receipt says\<close>

text \<open>
  Inversions of the section checks and the three properties of receipts: what a browser receipt with the verdict ALLOW
  establishes, what a legacy one does, and that the signature of a created receipt verifies and binds it.
\<close>

subsection \<open>Inversions\<close>

lemma truthy_bool: "is_bool v \<Longrightarrow> truthy v \<longleftrightarrow> v = PBool True"
  by (cases v) auto

lemma not_truthy_bool: "is_bool v \<Longrightarrow> \<not> truthy v \<longleftrightarrow> v = PBool False"
  by (cases v) auto

lemma check_runtime_bool: "check_runtime runtime = Inr () \<Longrightarrow> is_bool (get runtime ''admitted'')"
  by (simp add: check_runtime_def bindE_eq_Inr)

lemma check_purge_facts:
  assumes "check_purge purge = Inr ()"
  shows "is_bool (get purge ''verified_externally'')"
    "get purge ''verified_externally'' = PBool True \<longleftrightarrow> list_all (\<lambda>n. get purge n = PBool True) BROWSER_PURGE_COMPONENTS"
  using assms by (auto simp: check_purge_def bindE_eq_Inr)

lemma check_reduction_facts:
  assumes "check_reduction r e seen = Inr fs"
  shows "get r ''decision'' = S (if fs \<noteq> [] then ''DENY'' else ''ALLOW'')"
    "is_bool (get r ''telemetry_incomplete'')"
    "get r ''telemetry_incomplete'' = PBool (reduction_incomplete (get r ''streams'') fs)"
    "get r ''complete'' = PBool (\<not> reduction_incomplete (get r ''streams'') fs)"
    "list_all canonical_browser_rule fs" "distinct (map fst fs)"
proof -
  from assms have flags: "check_reduction_flags r e = Inr ()" and dec: "get r ''decision'' = S (if fs \<noteq> [] then ''DENY'' else ''ALLOW'')"
    and inc: "get r ''telemetry_incomplete'' = PBool (reduction_incomplete (get r ''streams'') fs)"
    and compl: "get r ''complete'' \<noteq> PBool (reduction_incomplete (get r ''streams'') fs)"
    and rules: "list_all canonical_browser_rule fs" and fl: "validate_finding_list (get r ''findings'') True = Inr fs"
    by (auto simp: check_reduction_def bindE_eq_Inr Let_def list_all_iff)
  from flags have "is_bool (get r ''complete'')" by (simp add: check_reduction_flags_def)
  with compl show "get r ''complete'' = PBool (\<not> reduction_incomplete (get r ''streams'') fs)"
    by (cases "get r ''complete''") auto
  from fl show "distinct (map fst fs)" by (auto simp: validate_finding_list_def bindE_eq_Inr split: if_splits)
  show "get r ''decision'' = S (if fs \<noteq> [] then ''DENY'' else ''ALLOW'')" "list_all canonical_browser_rule fs"
    "get r ''telemetry_incomplete'' = PBool (reduction_incomplete (get r ''streams'') fs)"
    "is_bool (get r ''telemetry_incomplete'')"
    using dec rules inc by simp_all
qed

lemma set_put: "f \<in> set (put n v fs) \<longleftrightarrow> f \<in> set fs \<and> fst f \<noteq> str n \<or> f = (str n, fst v, str (snd v))"
  by (auto simp: put_def)

lemma expected_closed:
  assumes "is_bool (get runtime ''admitted'')" "is_bool (get purge ''verified_externally'')"
    and "\<not> fail_closed_rules (expected_findings fs runtime purge)"
  shows "get runtime ''admitted'' = PBool True \<and> get purge ''verified_externally'' = PBool True \<and> expected_findings fs runtime purge = fs"
proof -
  have "truthy (get purge ''verified_externally'')"
  proof (rule ccontr)
    assume "\<not> truthy (get purge ''verified_externally'')"
    then have "(str ''purge_failure'', 1, str ''CRITICAL'') \<in> set (expected_findings fs runtime purge)"
      by (simp add: expected_findings_def Let_def set_put)
    with assms(3) show False by (auto simp: fail_closed_rules_def list_ex_iff UNOVERRIDABLE_RULES_def)
  qed
  moreover have "truthy (get runtime ''admitted'')"
  proof (rule ccontr)
    assume "\<not> truthy (get runtime ''admitted'')"
    then have "(str ''firecracker_runtime_failure'', 1, str ''CRITICAL'') \<in> set (expected_findings fs runtime purge)"
      by (auto simp: expected_findings_def Let_def set_put)
    with assms(3) show False by (auto simp: fail_closed_rules_def list_ex_iff UNOVERRIDABLE_RULES_def)
  qed
  ultimately show ?thesis using assms(1,2) by (simp add: truthy_bool expected_findings_def Let_def)
qed

lemma finding_of_rule: "finding_of False f = Inr (i, n, s) \<Longrightarrow> get f ''rule_id'' = PStr i \<and> get f ''count'' = PInt n \<and> get f ''severity'' = PStr s"
  by (auto simp: finding_of_def bindE_eq_Inr Let_def text_within_def int_val_def in_strs_def split: pyval.splits)

text \<open>The detector findings of a receipt, by rule.\<close>

definition found :: "pyval \<Rightarrow> string \<Rightarrow> bool" where
  "found receipt rule = list_ex (\<lambda>f. get f ''rule_id'' = S rule) (list_val (get receipt ''detector_findings''))"

lemma list_all2_ex: "list_all2 R xs ys \<Longrightarrow> (\<And>x y. R x y \<Longrightarrow> P x = Q y) \<Longrightarrow> list_ex P xs = list_ex Q ys"
  by (induction rule: list_all2_induct) auto

lemma found_iff:
  assumes "validate_finding_list (get receipt ''detector_findings'') False = Inr fs"
  shows "found receipt rule \<longleftrightarrow> str rule \<in> fst ` set fs"
    "get receipt ''detector_findings'' = PList [] \<longleftrightarrow> fs = []"
proof -
  from assms obtain xs where xs: "get receipt ''detector_findings'' = PList xs" "list_all2 (\<lambda>f y. finding_of False f = Inr y) xs fs"
    by (auto simp: validate_finding_list_def bindE_eq_Inr mapE_Inr_iff split: if_splits)
  have "list_ex (\<lambda>f. get f ''rule_id'' = S rule) xs = list_ex (\<lambda>y. fst y = str rule) fs"
    by (rule list_all2_ex [OF xs(2)]) (use finding_of_rule in fastforce)
  then show "found receipt rule \<longleftrightarrow> str rule \<in> fst ` set fs"
    by (force simp: found_def list_val_def xs(1) list_ex_iff)
  show "get receipt ''detector_findings'' = PList [] \<longleftrightarrow> fs = []" using xs by auto
qed

subsection \<open>Browser receipts\<close>

lemma run_sections_facts:
  assumes "check_run_sections db receipt = Inr (streams, rfs, fs)"
  defines "browser \<equiv> get receipt ''browser_probe''"
  shows "is_bool (get (get browser ''runtime'') ''admitted'')"
    "get (get browser ''runtime'') ''admitted'' = PBool True \<Longrightarrow> check_admitted (get browser ''runtime'') (get receipt ''budgets_granted'') = Inr ()"
    "check_reduction (get browser ''reduction'') (get browser ''evidence'') streams = Inr rfs"
    "validate_finding_list (get receipt ''detector_findings'') False = Inr fs" "check_purge (get receipt ''purge'') = Inr ()"
proof -
  from assms(1) have r: "check_runtime (get browser ''runtime'') = Inr ()" and p: "check_purge (get receipt ''purge'') = Inr ()"
    and a: "(if truthy (get (get browser ''runtime'') ''admitted'') then check_admitted (get browser ''runtime'') (get receipt ''budgets_granted'') else Inr ()) = Inr ()"
    and rd: "check_reduction (get browser ''reduction'') (get browser ''evidence'') streams = Inr rfs"
    and f: "check_findings (get browser ''findings'') (get receipt ''detector_findings'') = Inr fs"
    unfolding browser_def check_run_sections_def Let_def bindE_eq_Inr by auto
  show "is_bool (get (get browser ''runtime'') ''admitted'')" by (rule check_runtime_bool [OF r])
  show "check_reduction (get browser ''reduction'') (get browser ''evidence'') streams = Inr rfs" by (rule rd)
  show "check_purge (get receipt ''purge'') = Inr ()" by (rule p)
  show "validate_finding_list (get receipt ''detector_findings'') False = Inr fs" using f by (auto simp: check_findings_def bindE_eq_Inr)
  show "check_admitted (get browser ''runtime'') (get receipt ''budgets_granted'') = Inr ()"
    if "get (get browser ''runtime'') ''admitted'' = PBool True" using a that by simp
qed

lemma bindings_facts:
  assumes "check_bindings db receipt streams rfs fs = Inr ()"
  defines "browser \<equiv> get receipt ''browser_probe''"
  defines "expected \<equiv> expected_findings rfs (get browser ''runtime'') (get receipt ''purge'')"
  shows "set fs = set expected"
    "check_isolation (get receipt ''isolation'') (get browser ''runtime'') = Inr ()"
    "get (get receipt ''snapshot_policy'') ''snapshot_sha256'' = get (get browser ''runtime'') ''rootfs_sha256''"
    "in_strs (get (get receipt ''gate'') ''human_gate_override'') [''none'', ''ALLOW'', ''DENY'']"
    "get receipt ''telemetry_incomplete'' =
       PBool (truthy (get (get browser ''reduction'') ''telemetry_incomplete'') \<or> \<not> truthy (get (get receipt ''purge'') ''verified_externally''))"
    "check_final (get receipt ''gate'') expected (get browser ''reduction'') (get browser ''runtime'') (get receipt ''purge'') = Inr ()"
proof -
  from assms(1) have "check_gate (get receipt ''gate'') (get browser ''reduction'') = Inr ()"
    unfolding browser_def check_bindings_def Let_def bindE_eq_Inr by auto
  then show "in_strs (get (get receipt ''gate'') ''human_gate_override'') [''none'', ''ALLOW'', ''DENY'']"
    by (simp add: check_gate_def)
qed (use assms(1) in \<open>unfold expected_def browser_def check_bindings_def Let_def bindE_eq_Inr, auto\<close>)

lemma check_final_facts:
  assumes "check_final gate fs r runtime purge = Inr ()"
  shows "get gate ''final_decision'' = fst (expected_final fs (get gate ''human_gate_override'') (get r ''decision''))"
    "get gate ''final_decision'' = S ''ALLOW'' \<Longrightarrow>
       truthy (get runtime ''admitted'') \<and> truthy (get purge ''verified_externally'') \<and> \<not> truthy (get r ''telemetry_incomplete'')"
  using assms by (auto simp: check_final_def Let_def bindE_eq_Inr)

lemma admitted_controls: "check_admitted runtime budgets = Inr () \<Longrightarrow> check_isolation isolation runtime = Inr () \<Longrightarrow>
    get runtime ''admitted'' = PBool True \<Longrightarrow>
    (\<forall>n\<in>set (ISOLATION_ADMISSION @ RUNTIME_CONTROLS). get isolation n = PBool True)"
  by (auto simp: check_admitted_def check_isolation_def bindE_eq_Inr list_all_iff) (metis UnI2 truthy_bool)

lemma browser_receipt_sections:
  assumes "validate_receipt fr db policy receipt = Inr ()" "is_browser_receipt receipt"
  obtains streams rfs fs where "check_run_sections db receipt = Inr (streams, rfs, fs)" "check_bindings db receipt streams rfs fs = Inr ()"
  using assms by (auto simp: validate_receipt_def bindE_eq_Inr validate_browser_probe_section_def)

lemma browser_final_decision:
  assumes "validate_receipt fr db policy receipt = Inr ()" "is_browser_receipt receipt"
  shows "get (get receipt ''gate'') ''final_decision'' = S ''ALLOW'' \<longleftrightarrow>
      \<not> list_ex (found receipt) UNOVERRIDABLE_RULES \<and>
      (get (get receipt ''gate'') ''human_gate_override'' = S ''ALLOW'' \<or>
       get (get receipt ''gate'') ''human_gate_override'' = S ''none'' \<and> get receipt ''detector_findings'' = PList [])"
proof -
  let ?b = "get receipt ''browser_probe''" and ?g = "get receipt ''gate''" and ?p = "get receipt ''purge''"
  obtain streams rfs fs where s: "check_run_sections db receipt = Inr (streams, rfs, fs)"
    and b: "check_bindings db receipt streams rfs fs = Inr ()" by (rule browser_receipt_sections [OF assms])
  note s = run_sections_facts [OF s] and b = bindings_facts [OF b]
  note red = check_reduction_facts [OF s(3)] and purge = check_purge_facts [OF s(5)] and final = check_final_facts [OF b(6)]
  let ?ex = "expected_findings rfs (get ?b ''runtime'') ?p"
  have closed: "list_ex (found receipt) UNOVERRIDABLE_RULES \<longleftrightarrow> fail_closed_rules ?ex"
    using b(1) by (force simp: list_ex_iff found_iff [OF s(4)] fail_closed_rules_def mem_iff)
  show ?thesis
  proof (cases "fail_closed_rules ?ex")
    case False
    from expected_closed [OF s(1) purge(1) False] have "?ex = rfs" by simp
    with b(1) have "rfs = [] \<longleftrightarrow> fs = []" by auto
    with False b(4) show ?thesis unfolding final(1) closed found_iff(2) [OF s(4)]
      by (auto simp: expected_final_def in_strs_iff red(1))
  qed (use closed final(1) in \<open>simp add: expected_final_def\<close>)
qed

lemma browser_allow_evidence:
  assumes "validate_receipt fr db policy receipt = Inr ()" "is_browser_receipt receipt"
    and "get (get receipt ''gate'') ''final_decision'' = S ''ALLOW''"
  shows "get (get (get receipt ''browser_probe'') ''runtime'') ''admitted'' = PBool True \<and>
      list_all (\<lambda>n. get (get receipt ''isolation'') n = PBool True) (ISOLATION_ADMISSION @ RUNTIME_CONTROLS) \<and>
      list_all (\<lambda>n. get (get receipt ''purge'') n = PBool True) BROWSER_PURGE_KEYS \<and>
      get (get (get receipt ''browser_probe'') ''reduction'') ''complete'' = PBool True \<and>
      get receipt ''telemetry_incomplete'' = PBool False \<and> \<not> found receipt ''web_navigation_failed''"
proof -
  let ?b = "get receipt ''browser_probe''" and ?p = "get receipt ''purge''"
  obtain streams rfs fs where s: "check_run_sections db receipt = Inr (streams, rfs, fs)"
    and b: "check_bindings db receipt streams rfs fs = Inr ()" by (rule browser_receipt_sections [OF assms(1,2)])
  note s = run_sections_facts [OF s] and b = bindings_facts [OF b]
  note red = check_reduction_facts [OF s(3)] and purge = check_purge_facts [OF s(5)]
  from check_final_facts(2) [OF b(6) assms(3)] s(1) purge(1) red(2)
  have adm: "get (get ?b ''runtime'') ''admitted'' = PBool True" and ver: "get ?p ''verified_externally'' = PBool True"
    and inc: "\<not> truthy (get (get ?b ''reduction'') ''telemetry_incomplete'')"
    by (simp_all add: truthy_bool)
  have rfs: "set fs = set rfs" using b(1) adm ver by (simp add: expected_findings_def)
  have "\<not> found receipt ''web_navigation_failed''"
    using inc red(3) rfs by (force simp: found_iff [OF s(4)] reduction_incomplete_def list_ex_iff mem_iff
        TELEMETRY_INCOMPLETE_FINDINGS_v2_def TELEMETRY_INCOMPLETE_FINDINGS_def)
  with adm ver inc purge(2) admitted_controls [OF s(2) [OF adm] b(2) adm] b(5) red(3,4) show ?thesis
    by (simp add: list_all_iff BROWSER_PURGE_KEYS_def)
qed

text \<open>C12: what an accepted browser receipt means. Its final decision is ALLOW exactly when none of its findings is of the
  unoverridable kind and either the human override says ALLOW, or there is no override and no finding at all. And
  with the decision ALLOW, the run was admitted with every isolation control on, every resource was purged, the
  evidence is complete, and no navigation failed: the receipt does not let an override cross what the gate alone
  would let it cross.\<close>

theorem browser_receipt_allow_iff:
  assumes "validate_receipt fr db policy receipt = Inr ()" "is_browser_receipt receipt"
  shows "(get (get receipt ''gate'') ''final_decision'' = S ''ALLOW'' \<longleftrightarrow>
      \<not> list_ex (found receipt) UNOVERRIDABLE_RULES \<and>
      (get (get receipt ''gate'') ''human_gate_override'' = S ''ALLOW'' \<or>
       get (get receipt ''gate'') ''human_gate_override'' = S ''none'' \<and> get receipt ''detector_findings'' = PList [])) \<and>
    (get (get receipt ''gate'') ''final_decision'' = S ''ALLOW'' \<longrightarrow>
      get (get (get receipt ''browser_probe'') ''runtime'') ''admitted'' = PBool True \<and>
      list_all (\<lambda>n. get (get receipt ''isolation'') n = PBool True) (ISOLATION_ADMISSION @ RUNTIME_CONTROLS) \<and>
      list_all (\<lambda>n. get (get receipt ''purge'') n = PBool True) BROWSER_PURGE_KEYS \<and>
      get (get (get receipt ''browser_probe'') ''reduction'') ''complete'' = PBool True \<and>
      get receipt ''telemetry_incomplete'' = PBool False \<and> \<not> found receipt ''web_navigation_failed'')"
  using browser_final_decision [OF assms] browser_allow_evidence [OF assms] by blast

subsection \<open>Legacy receipts\<close>

text \<open>Equal dictionaries have equal entries.\<close>

lemma py_eq_sub_lookup: "py_eq_sub d e \<Longrightarrow> (k, v) \<in> set d \<Longrightarrow> \<exists>w. map_of e k = Some w \<and> py_eq v w"
  by (induction d) (auto split: option.splits)

lemma py_eq_get:
  assumes "py_eq v (PDict e)" "has_shape v ks" "k \<in> set ks"
  shows "py_eq (get v k) (get (PDict e) k)"
proof -
  from assms(1) obtain d where v: "v = PDict d" "py_eq_sub d e" by (cases v) (auto split: option.splits)
  from assms(2,3) have "KStr (str k) \<in> fst ` set d" by (auto simp: v has_shape_def keys_are_def)
  then obtain w where w: "map_of d (KStr (str k)) = Some w" by (metis domD dom_map_of_conv_image_fst)
  from py_eq_sub_lookup [OF v(2) map_of_SomeD [OF w]] show ?thesis by (auto simp: get_def dget_def v w)
qed

lemma legacy_findings_Cons:
  assumes "legacy_findings previous (f # xs) = Inr fs"
  obtains rule n s rest where "fs = (rule, n, s) # rest" "get f ''rule_id'' = PStr rule" "previous < rule" "1 \<le> n"
    "mem rule (map fst RULES)" "legacy_findings rule xs = Inr rest"
proof -
  let ?rule = "text_of (get f ''rule_id'')"
  from assms obtain rest where r: "legacy_findings ?rule xs = Inr rest"
    "fs = (?rule, int_val (get f ''count''), text_of (get f ''severity'')) # rest"
    and c: "is_str (get f ''rule_id'')" "mem ?rule (map fst RULES)" "\<not> ?rule \<le> previous" "case get f ''count'' of PInt i \<Rightarrow> 1 \<le> i | _ \<Rightarrow> False"
    by (auto simp: bindE_eq_Inr Let_def)
  have "1 \<le> int_val (get f ''count'')" using c(4) by (cases "get f ''count''") (simp_all add: int_val_def)
  moreover have "get f ''rule_id'' = PStr ?rule" using c(1) by (auto simp: is_str_iff)
  ultimately show thesis using that [OF r(2)] r(1) c(2,3) by simp
qed

lemma legacy_findings_facts:
  assumes "legacy_findings previous xs = Inr fs"
  shows "strictly_sorted (previous # map fst fs) \<and> list_all (\<lambda>(i, n, s). 1 \<le> n \<and> mem i (map fst RULES)) fs \<and>
    (list_ex (\<lambda>f. get f ''rule_id'' = PStr r) xs \<longleftrightarrow> r \<in> fst ` set fs)"
  using assms
proof (induction xs arbitrary: previous fs)
  case (Cons f xs)
  obtain rule n s rest where f: "fs = (rule, n, s) # rest" "get f ''rule_id'' = PStr rule" "previous < rule" "1 \<le> n"
    "mem rule (map fst RULES)" "legacy_findings rule xs = Inr rest" by (rule legacy_findings_Cons [OF Cons.prems])
  from Cons.IH [OF f(6)] f(1-5) show ?case by auto
qed auto

lemma strictly_sorted_distinct: "strictly_sorted xs \<Longrightarrow> sorted xs \<and> distinct xs"
proof (induction xs rule: strictly_sorted.induct)
  case (1 x y zs)
  then show ?case by (auto simp: less_le_not_le dest: order.trans)
qed auto

lemma py_eq_list_iff: "py_eq_list xs ys \<longleftrightarrow> list_all2 py_eq xs ys"
proof (induction xs arbitrary: ys)
  case (Cons x xs)
  then show ?case by (cases ys) auto
qed auto

text \<open>A count as the gate reads it.\<close>

definition count_is :: "pyval \<Rightarrow> int \<Rightarrow> bool" where
  "count_is v n = (case v of PInt k \<Rightarrow> k = n | PBool b \<Rightarrow> n = (if b then 1 else 0) | _ \<Rightarrow> False)"

lemma evidence_item_entry:
  assumes "validate_evidence_item i = Inr ()" "py_eq i (evidence_entry f)"
  shows "KStr (text_of (get i ''rule_id'')) = KStr (fst f) \<and> count_is (get i ''count'') (fst (snd f))"
proof -
  obtain r n s where f: "f = (r, n, s)" by (cases f)
  from assms(1) have shape: "has_shape i OUT_EVIDENCE_KEYS" and u: "uint (get i ''count'')"
    by (auto simp: validate_evidence_item_def bindE_eq_Inr split: if_splits)
  have e: "py_eq (get i k) (get (evidence_entry (r, n, s)) k)" if "k \<in> set OUT_EVIDENCE_KEYS" for k
    using py_eq_get [OF _ shape that] assms(2) by (simp add: f evidence_entry_def obj_def)
  from e [of "''rule_id''"] have "get i ''rule_id'' = PStr r" by (simp add: OUT_EVIDENCE_KEYS_def evidence_entry_def py_eval)
  moreover from e [of "''count''"] have "py_eq (get i ''count'') (PInt n)" by (simp add: OUT_EVIDENCE_KEYS_def evidence_entry_def py_eval)
  ultimately show ?thesis using u by (cases "get i ''count''") (auto simp: uint_def count_is_def f split: if_splits)
qed

lemma table_count:
  assumes "list_all2 (\<lambda>i f. validate_evidence_item i = Inr () \<and> py_eq i (evidence_entry f)) items fs" "distinct (map fst fs)"
    and "(str r, n, s) \<in> set fs"
  shows "rule_count (evidence_table items) r = n"
proof -
  let ?k = "\<lambda>i. KStr (text_of (get i ''rule_id''))" and ?v = "\<lambda>i. get i ''count''"
  have rel: "list_all2 (\<lambda>i f. ?k i = KStr (fst f) \<and> count_is (?v i) (fst (snd f))) items fs"
    using assms(1) by (rule list_all2_mono) (use evidence_item_entry in blast)
  then have keys: "map ?k items = map KStr (map fst fs)" by (induction rule: list_all2_induct) auto
  with assms(2) have d: "distinct (map ?k items)" by (simp add: distinct_map inj_on_def)
  then have t: "evidence_table items = map (\<lambda>i. (?k i, ?v i)) items"
    using foldl_dupd_keys [of ?k items "[]" ?v] by (simp add: evidence_table_def)
  from assms(3) obtain j where j: "j < length fs" "fs ! j = (str r, n, s)" by (auto simp: in_set_conv_nth)
  from list_all2_nthD2 [OF rel j(1)] j(2) have i: "?k (items ! j) = KStr (str r)" "count_is (?v (items ! j)) n" by simp_all
  have "items ! j \<in> set items" using j(1) list_all2_lengthD [OF rel] by simp
  then have "map_of (evidence_table items) (KStr (str r)) = Some (?v (items ! j))"
    using i(1) d unfolding t by (intro map_of_is_SomeI) (force simp: comp_def)+
  with i(2) show ?thesis by (cases "?v (items ! j)") (simp_all add: rule_count_def dget_def count_is_def)
qed

lemma legacy_receipt_checks:
  assumes "validate_receipt fr db policy receipt = Inr ()" "\<not> is_browser_receipt receipt"
  obtains p h controls fs where "load_active_policy policy = Inr p" "canonical_hash fr p = Inr h"
    "get (get receipt ''snapshot_policy'') ''policy_hash'' = PStr h"
    "legacy_controls (get receipt ''isolation'') p = Inr controls" "legacy_purge (get receipt ''purge'') = Inr ()"
    "legacy_finding_map (get receipt ''detector_findings'') = Inr fs"
    "legacy_outward (get receipt ''outward_report'') fs (get receipt ''capabilities'') (get receipt ''residual_uncertainty'') = Inr ()"
    "legacy_gate (get receipt ''gate'') (get (get receipt ''identity'') ''job_id'') (get receipt ''outward_report'') = Inr ()"
    "legacy_closing receipt fs (missing_controls (get receipt ''isolation'') controls) = Inr ()"
    "validate_outward_report (get receipt ''outward_report'') = Inr ()"
proof -
  from assms(1) have "check_sections receipt = Inr ()" by (simp add: validate_receipt_def bindE_eq_Inr)
  then have "validate_outward_report (get receipt ''outward_report'') = Inr ()"
    unfolding check_sections_def Let_def bindE_eq_Inr by auto
  moreover from assms have "validate_legacy_receipt fr policy receipt = Inr ()" by (simp add: validate_receipt_def bindE_eq_Inr)
  ultimately show thesis
    unfolding validate_legacy_receipt_def Let_def bindE_eq_Inr refuse_Inr by (auto simp: bindE_eq_Inr intro: that)
qed

lemma outward_evidence_valid:
  "validate_outward_report report = Inr () \<Longrightarrow> \<exists>items. get report ''evidence'' = PList items \<and> list_all (\<lambda>i. validate_evidence_item i = Inr ()) items"
  by (auto simp: validate_outward_report_def bindE_eq_Inr mapE_Inr_iff list_all2_conv_all_nth list_all_length split: if_splits)

lemma legacy_found:
  assumes "legacy_finding_map (get receipt ''detector_findings'') = Inr fs"
  shows "found receipt r \<longleftrightarrow> str r \<in> fst ` set fs" "distinct (map fst fs)" "list_all (\<lambda>(i, n, s). 1 \<le> n) fs"
proof -
  from assms obtain xs where xs: "get receipt ''detector_findings'' = PList xs" "legacy_findings [] xs = Inr fs"
    by (auto simp: legacy_finding_map_def bindE_eq_Inr split: if_splits)
  note facts = legacy_findings_facts [OF xs(2), of "str r"]
  then show "found receipt r \<longleftrightarrow> str r \<in> fst ` set fs" by (simp add: found_def list_val_def xs(1))
  show "distinct (map fst fs)" using facts strictly_sorted_distinct [of "[] # map fst fs"] by simp
  show "list_all (\<lambda>(i, n, s). 1 \<le> n) fs" using facts by (auto simp: list_all_iff)
qed

lemma legacy_gate_facts:
  assumes "legacy_gate gate job report = Inr ()"
  obtains j g where "job = PStr j" "apply_scoring_matrix report (gate_override (get gate ''human_gate_override'') j) j = Inr g"
    "get gate ''final_decision'' = S (g_final_decision g)"
proof -
  from assms obtain g where j: "case job of PStr s \<Rightarrow> s \<noteq> [] | _ \<Rightarrow> False" and shape: "has_shape gate LEGACY_GATE_KEYS"
    and g: "apply_scoring_matrix report (gate_override (get gate ''human_gate_override'') (text_of job)) (text_of job) = Inr g"
    "py_eq gate (gate_doc g)"
    unfolding legacy_gate_def Let_def bindE_eq_Inr by auto
  have "py_eq (get gate ''final_decision'') (get (gate_doc g) ''final_decision'')"
    using py_eq_get [OF _ shape, of _ "''final_decision''"] g(2) by (simp add: gate_doc_def obj_def LEGACY_GATE_KEYS_def)
  then have "get gate ''final_decision'' = S (g_final_decision g)" by (simp add: gate_doc_def py_eval)
  with j g(1) that show thesis by (cases job) auto
qed

lemma missing_none:
  "missing_controls isolation controls = [] \<longleftrightarrow> list_all (\<lambda>(n, required). get isolation n = PBool True \<or> \<not> required) controls"
  by (auto simp: missing_controls_def filter_empty_conv list_all_iff)

lemma legacy_purge_verified:
  "legacy_purge purge = Inr () \<Longrightarrow> truthy (get purge ''verified_externally'') \<longleftrightarrow> legacy_purge_ok purge"
  by (auto simp: legacy_purge_def bindE_eq_Inr Let_def)

lemma legacy_unoverridable:
  assumes "legacy_finding_map (get receipt ''detector_findings'') = Inr fs"
    and "legacy_outward (get receipt ''outward_report'') fs c u = Inr ()" "validate_outward_report (get receipt ''outward_report'') = Inr ()"
    and "apply_scoring_matrix (get receipt ''outward_report'') override job = Inr g" "g_final_decision g = ''ALLOW''"
  shows "\<not> list_ex (found receipt) (''payload_observation_incomplete'' # UNOVERRIDABLE_RULES)"
proof
  assume "list_ex (found receipt) (''payload_observation_incomplete'' # UNOVERRIDABLE_RULES)"
  then obtain r where r: "found receipt r" "r = ''payload_observation_incomplete'' \<or> r \<in> set UNOVERRIDABLE_RULES"
    by (auto simp: list_ex_iff)
  note fs = legacy_found [OF assms(1)]
  from r(1) fs(1) obtain n s where n: "(str r, n, s) \<in> set fs" by auto
  obtain items where items: "get (get receipt ''outward_report'') ''evidence'' = PList items"
    "list_all (\<lambda>i. validate_evidence_item i = Inr ()) items" using outward_evidence_valid [OF assms(3)] by blast
  from assms(2) items(1) have "list_all2 py_eq items (map evidence_entry fs)"
    by (simp add: legacy_outward_def py_eq_list_iff)
  with items(2) have "list_all2 (\<lambda>i f. validate_evidence_item i = Inr () \<and> py_eq i (evidence_entry f)) items fs"
    by (auto simp: list_all2_conv_all_nth list_all_length)
  from table_count [OF this fs(2) n] fs(3) n have "0 < rule_count (evidence_table items) r" by (fastforce simp: list_all_iff)
  with gate_allowed [OF assms(4) items(1)] assms(5) r(2) show False by auto
qed

text \<open>C13: what an accepted legacy receipt means. It is bound to the digest of the active policy, its final decision is
  the one the policy gate computes from its own outward report and override, and with the decision ALLOW every
  isolation control that policy requires in that mode was on, every resource was purged, and no finding is
  unoverridable or marks the observation incomplete.\<close>

theorem legacy_receipt_sound:
  assumes "validate_receipt fr db policy receipt = Inr ()" "\<not> is_browser_receipt receipt"
  shows "\<exists>p h job g controls. load_active_policy policy = Inr p \<and> canonical_hash fr p = Inr h \<and>
    get (get receipt ''snapshot_policy'') ''policy_hash'' = PStr h \<and> get (get receipt ''identity'') ''job_id'' = PStr job \<and>
    apply_scoring_matrix (get receipt ''outward_report'') (gate_override (get (get receipt ''gate'') ''human_gate_override'') job) job = Inr g \<and>
    get (get receipt ''gate'') ''final_decision'' = S (g_final_decision g) \<and>
    required_isolation_controls (get (get receipt ''isolation'') ''mode'') p = Inr controls \<and>
    (g_final_decision g = ''ALLOW'' \<longrightarrow>
      list_all (\<lambda>(n, required). get (get receipt ''isolation'') n = PBool True \<or> \<not> required) controls \<and>
      legacy_purge_ok (get receipt ''purge'') \<and>
      \<not> list_ex (found receipt) (''payload_observation_incomplete'' # UNOVERRIDABLE_RULES))"
proof -
  obtain p h controls fs where p: "load_active_policy policy = Inr p" "canonical_hash fr p = Inr h"
    "get (get receipt ''snapshot_policy'') ''policy_hash'' = PStr h"
    and c: "legacy_controls (get receipt ''isolation'') p = Inr controls" "legacy_purge (get receipt ''purge'') = Inr ()"
    and f: "legacy_finding_map (get receipt ''detector_findings'') = Inr fs"
    "legacy_outward (get receipt ''outward_report'') fs (get receipt ''capabilities'') (get receipt ''residual_uncertainty'') = Inr ()"
    and gate: "legacy_gate (get receipt ''gate'') (get (get receipt ''identity'') ''job_id'') (get receipt ''outward_report'') = Inr ()"
    and closing: "legacy_closing receipt fs (missing_controls (get receipt ''isolation'') controls) = Inr ()"
    and v: "validate_outward_report (get receipt ''outward_report'') = Inr ()" by (rule legacy_receipt_checks [OF assms])
  obtain j g where g: "get (get receipt ''identity'') ''job_id'' = PStr j"
    "apply_scoring_matrix (get receipt ''outward_report'') (gate_override (get (get receipt ''gate'') ''human_gate_override'') j) j = Inr g"
    "get (get receipt ''gate'') ''final_decision'' = S (g_final_decision g)" by (rule legacy_gate_facts [OF gate])
  have "required_isolation_controls (get (get receipt ''isolation'') ''mode'') p = Inr controls"
    using c(1) by (auto simp: legacy_controls_def bindE_eq_Inr)
  moreover have "list_all (\<lambda>(n, required). get (get receipt ''isolation'') n = PBool True \<or> \<not> required) controls \<and>
      legacy_purge_ok (get receipt ''purge'')" if "g_final_decision g = ''ALLOW''"
    using closing that g(3) by (auto simp: legacy_closing_def Let_def bindE_eq_Inr missing_none legacy_purge_verified [OF c(2)])
  ultimately show ?thesis using p g legacy_unoverridable [OF f v g(2)] by blast
qed

subsection \<open>Signatures\<close>

lemma unsigned_part_sections:
  "unsigned_part (obj (unsigned_sections p u @ [(''receipt_signature'', v)])) = obj (unsigned_sections p u)"
  by (auto simp: unsigned_part_def obj_def unsigned_sections_def optional_section_def split: option.split)

lemma signature_of_sections:
  "get_default (obj (unsigned_sections p u @ [(''receipt_signature'', v)])) ''receipt_signature'' d = v"
  by (auto simp: get_default_def py_eval unsigned_sections_def optional_section_def split: option.split)

lemma sign_receipt_ascii: "sign_receipt fr v key = Inr s \<Longrightarrow> is_ascii s"
  by (auto simp: sign_receipt_def bindE_eq_Inr)

text \<open>C14: a created receipt validates and verifies. When \<open>create_receipt\<close> returns, its receipt passes validation and its
  signature verifies under the key that was loaded or created. Conversely, any document that verifies under that
  key with the same signature was signed over the same bytes, or the two byte strings collide under the HMAC.\<close>

theorem receipt_signature_binds:
  assumes "create_receipt fr db policy env p = (file, Inr receipt)"
  shows "\<exists>key. snd (load_or_create_key env) = Inr key \<and> validate_receipt fr db policy receipt = Inr () \<and>
    verify_signature fr receipt key = Inr True \<and>
    (\<forall>other. get_default other ''receipt_signature'' (PStr []) = get_default receipt ''receipt_signature'' (PStr []) \<longrightarrow>
       verify_signature fr other key = Inr True \<longrightarrow>
       (\<exists>b c. canonical_json fr (unsigned_part receipt) = Inr b \<and> canonical_json fr (unsigned_part other) = Inr c \<and>
          (b = c \<or> hmac_collision key b c)))"
proof -
  from assms obtain u key s where k: "snd (load_or_create_key env) = Inr key"
    and s: "sign_receipt fr (obj (unsigned_sections p u)) key = Inr s"
    and r: "receipt = obj (unsigned_sections p u @ [(''receipt_signature'', PStr s)])" "validate_receipt fr db policy receipt = Inr ()"
    by (auto simp: create_receipt_def Let_def bindE_eq_Inr split: sum.splits prod.splits)
  have v: "verify_signature fr receipt key = Inr True"
    by (simp add: verify_signature_def r(1) signature_of_sections unsigned_part_sections s sign_receipt_ascii [OF s])
  have "\<exists>b c. canonical_json fr (unsigned_part receipt) = Inr b \<and> canonical_json fr (unsigned_part other) = Inr c \<and>
      (b = c \<or> hmac_collision key b c)"
    if o: "get_default other ''receipt_signature'' (PStr []) = get_default receipt ''receipt_signature'' (PStr [])"
      "verify_signature fr other key = Inr True" for other
  proof -
    from o have "sign_receipt fr (unsigned_part other) key = Inr s"
      by (auto simp: verify_signature_def r(1) signature_of_sections split: if_splits sum.splits)
    then show ?thesis using s
      by (auto simp: sign_receipt_def bindE_eq_Inr r(1) unsigned_part_sections dest: hmac_hexdigest_binds)
  qed
  with k r(2) v show ?thesis by blast
qed

end
