(* ===== verification/Receipt_Samples.thy ===== *)
theory Receipt_Samples
  imports Receipt_Facts
begin

section \<open>Concrete receipts\<close>

text \<open>A clean legacy run and a clean browser run, whose receipts are created and accepted, at which the properties of
  \<open>Receipt_Facts\<close> are instantiated.\<close>

lemma refuse_ok [simp]: "list_all (\<lambda>c. c = Inr False) cs \<Longrightarrow> refuse m cs = Inr ()"
  by simp

subsection \<open>When a document can be signed\<close>

fun scalars :: "pyval \<Rightarrow> bool"
  and scalars_list :: "pyval list \<Rightarrow> bool"
  and scalars_dict :: "pydict \<Rightarrow> bool" where
  "scalars (PStr s) = list_all scalar s"
| "scalars (PList xs) = scalars_list xs"
| "scalars (PDict d) = scalars_dict d"
| "scalars _ = True"
| "scalars_list [] = True"
| "scalars_list (x # xs) = (scalars x \<and> scalars_list xs)"
| "scalars_dict [] = True"
| "scalars_dict ((k, v) # d) = (list_all scalar (key_str k) \<and> scalars v \<and> scalars_dict d)"

lemma scalars_all:
  "scalars_list xs = list_all scalars xs" "scalars_dict d = list_all (\<lambda>(k, v). list_all scalar (key_str k) \<and> scalars v) d"
proof -
  show "scalars_list xs = list_all scalars xs" by (induction xs) auto
  show "scalars_dict d = list_all (\<lambda>(k, v). list_all scalar (key_str k) \<and> scalars v) d" by (induction d) auto
qed

lemma scalars_canon: "scalars v \<Longrightarrow> scalars (canon v)"
proof (induction v)
  case (PList xs)
  have "canon_list xs = map canon xs" by (induction xs) auto
  with PList show ?case by (auto simp: scalars_all list_all_iff)
next
  case (PDict d)
  have "canon_dict d = map (apsnd canon) d" by (induction d) auto
  with PDict show ?case by (fastforce simp: scalars_all list_all_iff)
qed auto

lemma dump_scalars:
  "(\<And>f. list_all scalar (fr f)) \<Longrightarrow> scalars v \<Longrightarrow> list_all scalar (dump fr v)"
  "(\<And>f. list_all scalar (fr f)) \<Longrightarrow> scalars_list xs \<Longrightarrow> list_all scalar (dump_elems fr xs)"
  "(\<And>f. list_all scalar (fr f)) \<Longrightarrow> scalars_dict d \<Longrightarrow> list_all scalar (dump_members fr d)"
proof (induction fr v and fr xs and fr d rule: dump_dump_elems_dump_members.induct)
  have printable: "list_all text_char s \<Longrightarrow> list_all scalar s" for s by (simp add: list_all_iff text_char_def)
  { case (3 fr i) show ?case by (simp add: printable [OF dump_int_text]) }
  { case (5 fr s) then show ?case by (simp add: printable [OF dump_str_text]) }
  { case (12 fr k v d) then show ?case by (simp add: printable [OF dump_str_text] scalar_def [of 58] scalar_def [of 44]) }
qed (simp_all add: str_def scalar_def)

lemma canonical_json_total:
  assumes "\<And>f. list_all scalar (fr f)" "scalars v" "dumpable v" "finite_floats v"
  shows "\<exists>b. canonical_json fr v = Inr b"
proof -
  have "list_all scalar (dump fr (canon v))" by (rule dump_scalars(1) [OF assms(1) scalars_canon [OF assms(2)]])
  then obtain b where "utf8_encode (dump fr (canon v)) = Some b" using utf8_encode_Some_iff by blast
  with assms(3,4) show ?thesis by (simp add: canonical_json_def json_dumps_def)
qed

subsection \<open>A legacy run\<close>

definition plain_float :: "pyfloat \<Rightarrow> pystr" where "plain_float f = str ''0.0''"

definition sample_policy :: pyval where
  "sample_policy = obj [(''isolation'', obj (map (\<lambda>n. (n, PBool True)) POLICY_ISOLATION_FLAGS))]"

definition policy_digest :: pystr where
  "policy_digest = sha256_hexdigest (map byte_of (concat (map ascii_char (dump plain_float (canon sample_policy)))))"

lemma dumpable_obj: "dumpable (obj kvs) = list_all (\<lambda>(k, v). dumpable v) kvs"
  by (induction kvs) (auto simp: obj_def)

lemma sample_policy_hash: "canonical_hash plain_float sample_policy = Inr policy_digest"
  by (simp add: canonical_hash_def json_dumps_ascii_def policy_digest_def sample_policy_def dumpable_obj POLICY_ISOLATION_FLAGS_def)

definition some_digest :: pystr where "some_digest = replicate 64 48"

lemma some_digest [simp]: "is_digest some_digest" "is_digest policy_digest"
  by (simp add: some_digest_def is_digest_def is_hex_char_def list_all_iff) (simp add: policy_digest_def)

lemma has_key_obj: "has_key (obj kvs) k \<longleftrightarrow> k \<in> fst ` set kvs"
  by (auto simp: has_key_def py_eval map_of_eq_None_iff)

lemma known_keys_obj:
  "list_all (\<lambda>(k, v). k \<in> KStr ` str ` set ks) (dict_of (obj kvs)) \<longleftrightarrow> fst ` set kvs \<subseteq> set ks"
  by (auto simp: dict_of_obj list_all_iff)

definition legacy_parts :: receipt_parts where
  "legacy_parts =
     \<lparr>rp_identity = obj [(''job_id'', S ''job-1''), (''artifact_type'', S ''python-script''), (''artifact_sha256'', PStr some_digest)],
      rp_snapshot_policy = obj [(''policy_hash'', PStr policy_digest)],
      rp_isolation = obj [(''mode'', S ''degraded-user''), (''namespace_used'', PBool True), (''seccomp_loaded'', PBool True),
        (''cgroups_used'', PBool False), (''mlock_used'', PBool False)],
      rp_budgets_granted = PDict [], rp_capabilities = obj [(''requested'', PList [])], rp_telemetry_summary = PDict [],
      rp_canaries_touched = PDict [], rp_destinations_attempted = PDict [], rp_detector_findings = PList [],
      rp_gate = obj [(''policy_gate_decision'', S ''ALLOW''), (''policy_gate_reason'', S ''no_anomaly_detected''),
        (''human_gate_override'', S ''none''), (''final_decision'', S ''ALLOW''), (''final_authority'', S ''policy_gate_autonomous''),
        (''override_blocked_by_fail_closed'', PBool False)],
      rp_outward_report = clean_report,
      rp_purge = obj ([(''method'', S ''unlink''), (''verified_externally'', PBool True)] @ map (\<lambda>n. (n, PBool True)) LEGACY_PURGE_CHECKS @
        [(''processes_remaining'', PInt 0), (''remaining_host_resources'', PList [])]),
      rp_telemetry_incomplete = False, rp_budget_exhausted = False, rp_residual_uncertainty = PInt 0,
      rp_mcp_protocol = None, rp_browser_probe = None, rp_observation = None\<rparr>"

definition legacy_receipt :: "pystr \<Rightarrow> pyval" where
  "legacy_receipt s = obj (unsigned_sections legacy_parts (Fin 0) @ [(''receipt_signature'', PStr s)])"

lemma clean_report_valid: "validate_outward_report clean_report = Inr ()" "get clean_report ''evidence'' = PList []"
  by (simp_all add: clean_report_def validate_outward_report_def py_eval REPORT_KEYS_def insert_commute require_member_def in_set_def
      RISK_LEVELS_def bounded_string_list_def validate_uncertainty_def in_unit_def)

lemma clean_report_get:
  "get clean_report ''capabilities_requested'' = PList []" "get clean_report ''canaries_tripped'' = PList []"
  by (simp_all add: clean_report_def py_eval)

lemmas legacy_fields = legacy_receipt_def unsigned_sections_def optional_section_def legacy_parts_def py_eval

lemma legacy_get:
  "get (legacy_receipt s) ''identity'' = rp_identity legacy_parts" "get (legacy_receipt s) ''isolation'' = rp_isolation legacy_parts"
  "get (legacy_receipt s) ''snapshot_policy'' = rp_snapshot_policy legacy_parts" "get (legacy_receipt s) ''purge'' = rp_purge legacy_parts"
  "get (legacy_receipt s) ''outward_report'' = clean_report" "get (legacy_receipt s) ''gate'' = rp_gate legacy_parts"
  "get (legacy_receipt s) ''detector_findings'' = PList []" "get (legacy_receipt s) ''capabilities'' = rp_capabilities legacy_parts"
  "get (legacy_receipt s) ''observation'' = PNone" "get (legacy_receipt s) ''residual_uncertainty'' = PFloat (Fin 0)"
  "get (legacy_receipt s) ''telemetry_incomplete'' = PBool False" "get (legacy_receipt s) ''budget_exhausted'' = PBool False"
  "get (legacy_receipt s) ''receipt_signature'' = PStr s"
  by (simp_all add: legacy_fields clamp_unit_def)

lemma legacy_keys:
  "list_all (has_key (legacy_receipt s)) RECEIPT_REQUIRED" "\<not> has_key (legacy_receipt s) ''browser_probe''"
  "list_all (\<lambda>(k, v). k \<in> KStr ` str ` set (RECEIPT_REQUIRED @ RECEIPT_OPTIONAL)) (dict_of (legacy_receipt s))"
  unfolding legacy_receipt_def known_keys_obj
  by (simp_all add: legacy_fields has_key_obj RECEIPT_REQUIRED_def RECEIPT_OPTIONAL_def)

lemma is_dict_legacy: "is_dict (legacy_receipt s)"
  by (simp add: legacy_receipt_def)

lemma legacy_sections: "is_digest s \<Longrightarrow> check_sections (legacy_receipt s) = Inr ()"
  unfolding check_sections_def Let_def bindE_eq_Inr refuse_Inr each_Inr legacy_get clean_report_valid
  using legacy_keys [of s] is_dict_legacy [of s]
  by (simp add: legacy_parts_def py_eval is_sha256_def get_attr_def in_set_def ARTIFACT_TYPES_def not_truth_def nin_def legacy_get)

lemma legacy_gate_decides:
  "apply_scoring_matrix clean_report (gate_override (S ''none'') (str ''job-1'')) (str ''job-1'') =
     Inr \<lparr>g_policy_gate_decision = ''ALLOW'', g_policy_gate_reason = ''no_anomaly_detected'', g_human_gate_override = ''none'',
          g_final_decision = ''ALLOW'', g_final_authority = ''policy_gate_autonomous'', g_override_blocked = False\<rparr>"
  by (simp add: apply_scoring_matrix_def clean_report_valid Let_def gate_override_def load_override_def decision_for_job_def get_default_def
      dget_def in_set_def py_eval empty_table list_ex_iff scoring_matrix_def clean_report_get)

lemma legacy_accepted:
  assumes "is_digest s"
  shows "validate_receipt plain_float ascii_db (PolicyDict sample_policy) (legacy_receipt s) = Inr ()" "\<not> is_browser_receipt (legacy_receipt s)"
proof -
  show nb: "\<not> is_browser_receipt (legacy_receipt s)"
    by (simp add: is_browser_receipt_def legacy_get legacy_parts_def py_eval)
  have "load_active_policy (PolicyDict sample_policy) = Inr sample_policy"
    by (simp add: load_active_policy_def sample_policy_def)
  moreover have "legacy_controls (rp_isolation legacy_parts) sample_policy =
      Inr [(''namespace_used'', True), (''seccomp_loaded'', True), (''cgroups_used'', False), (''mlock_used'', False)]"
    by (simp add: legacy_controls_def legacy_parts_def py_eval LEGACY_ISOLATION_KEYS_def required_isolation_controls_def refuse_def each_def
        nin_def in_set_def sample_policy_def POLICY_ISOLATION_FLAGS_def)
  moreover have "missing_controls (rp_isolation legacy_parts)
      [(''namespace_used'', True), (''seccomp_loaded'', True), (''cgroups_used'', False), (''mlock_used'', False)] = []"
    by (simp add: missing_controls_def legacy_parts_def py_eval)
  moreover have "legacy_purge (rp_purge legacy_parts) = Inr ()"
    by (simp add: legacy_purge_def legacy_parts_def py_eval LEGACY_PURGE_KEYS_def LEGACY_PURGE_CHECKS_def bindE_eq_Inr Let_def list_val_def
        is_sorted_set_def comparable_def legacy_purge_ok_def insert_commute)
  moreover have "legacy_gate (rp_gate legacy_parts) (get (rp_identity legacy_parts) ''job_id'') clean_report = Inr ()"
    using legacy_gate_decides
    by (simp add: legacy_gate_def legacy_parts_def py_eval LEGACY_GATE_KEYS_def insert_commute gate_doc_def Let_def)
      (simp add: obj_def refuse_def nin_def in_set_def in_strs_S)
  moreover have "legacy_outward clean_report [] (rp_capabilities legacy_parts) (PFloat (Fin 0)) = Inr ()"
    by (simp add: legacy_outward_def clean_report_def legacy_parts_def py_eval legacy_risk_def)
  moreover have "legacy_closing (legacy_receipt s) [] [] = Inr ()" "legacy_infrastructure [] (rp_purge legacy_parts) [] = Inr ()"
    by (simp_all add: legacy_closing_def legacy_infrastructure_def legacy_failed_def lookup_def legacy_get legacy_parts_def py_eval)
  ultimately have "validate_legacy_receipt plain_float (PolicyDict sample_policy) (legacy_receipt s) = Inr ()"
    by (simp add: validate_legacy_receipt_def legacy_get Let_def legacy_finding_map_def legacy_observation_def lookup_def refuse_def
        sample_policy_hash is_sha256_def) (simp add: legacy_parts_def py_eval is_sha256_def)
  with nb show "validate_receipt plain_float ascii_db (PolicyDict sample_policy) (legacy_receipt s) = Inr ()"
    using legacy_keys(2) [of s] by (simp add: validate_receipt_def legacy_sections [OF assms] refuse_def)
qed

subsection \<open>Witnesses for the legacy profile\<close>

definition sample_key :: key_env where
  "sample_key = \<lparr>ke_open = Inr \<lparr>fv_regular = True, fv_mode = 384, fv_bytes = replicate 32 7\<rparr>, ke_mkdir = Inr (), ke_create = Inr (),
     ke_fchmod = Inr (), ke_random = [], ke_write = (\<lambda>i. Inr 0), ke_fsync = Inr ()\<rparr>"

lemma sample_key_loads: "load_or_create_key sample_key = (None, Inr (replicate 32 7))"
  by (simp add: load_or_create_key_def sample_key_def read_key_def)

lemma obj_scalars:
  "scalars (obj kvs) = list_all (\<lambda>(k, v). list_all scalar (str k) \<and> scalars v) kvs"
  "finite_floats (obj kvs) = list_all (\<lambda>(k, v). finite_floats v) kvs"
proof -
  show "scalars (obj kvs) = list_all (\<lambda>(k, v). list_all scalar (str k) \<and> scalars v) kvs"
    by (induction kvs) (auto simp: obj_def)
  show "finite_floats (obj kvs) = list_all (\<lambda>(k, v). finite_floats v) kvs"
    by (induction kvs) (auto simp: obj_def)
qed

lemma digest_scalars: "is_digest s \<Longrightarrow> list_all scalar s"
  using digest_encodable [of s] by (auto simp: utf8_encode_Some_iff)

lemma legacy_signed: "\<exists>s. sign_receipt plain_float (obj (unsigned_sections legacy_parts (Fin 0))) key = Inr s"
proof -
  have "\<exists>b. canonical_json plain_float (obj (unsigned_sections legacy_parts (Fin 0))) = Inr b"
  proof (rule canonical_json_total)
    show "list_all scalar (plain_float f)" for f by (simp add: plain_float_def str_def scalar_def)
    show "scalars (obj (unsigned_sections legacy_parts (Fin 0)))"
      using digest_scalars [of some_digest] digest_scalars [of policy_digest]
      by (simp add: unsigned_sections_def optional_section_def legacy_parts_def obj_scalars LEGACY_PURGE_CHECKS_def clean_report_def)
        (simp add: str_def scalar_def)
  qed (simp_all add: unsigned_sections_def optional_section_def legacy_parts_def obj_scalars dumpable_obj LEGACY_PURGE_CHECKS_def
      clean_report_def clamp_unit_def)
  then show ?thesis by (auto simp: sign_receipt_def)
qed

lemma sign_receipt_digest: "sign_receipt fr v key = Inr s \<Longrightarrow> is_digest s"
  by (auto simp: sign_receipt_def bindE_eq_Inr)

lemma legacy_created:
  obtains s where "create_receipt plain_float ascii_db (PolicyDict sample_policy) sample_key legacy_parts = (None, Inr (legacy_receipt s))" "is_digest s"
proof -
  obtain s where s: "sign_receipt plain_float (obj (unsigned_sections legacy_parts (Fin 0))) (replicate 32 7) = Inr s"
    using legacy_signed by blast
  note d = sign_receipt_digest [OF s]
  have "float_of (rp_residual_uncertainty legacy_parts) = Inr (Fin 0)" by (simp add: legacy_parts_def round_double_def)
  with s legacy_accepted(1) [OF d] that [OF _ d] show thesis
    by (simp add: create_receipt_def sample_key_loads Let_def legacy_receipt_def)
qed

theorem legacy_receipt_sound_witness:
  "\<exists>receipt. validate_receipt plain_float ascii_db (PolicyDict sample_policy) receipt = Inr () \<and>
     get (get receipt ''gate'') ''final_decision'' = S ''ALLOW'' \<and> legacy_purge_ok (get receipt ''purge'')"
proof -
  note l = legacy_accepted [OF some_digest(1)]
  have "get (get (legacy_receipt some_digest) ''gate'') ''final_decision'' = S ''ALLOW''" by (simp add: legacy_get legacy_parts_def py_eval)
  with legacy_receipt_sound [OF l] l(1) show ?thesis by fastforce
qed

theorem receipt_signature_binds_witness:
  "\<exists>receipt. create_receipt plain_float ascii_db (PolicyDict sample_policy) sample_key legacy_parts = (None, Inr receipt) \<and>
     verify_signature plain_float receipt (replicate 32 7) = Inr True"
proof -
  obtain s where c: "create_receipt plain_float ascii_db (PolicyDict sample_policy) sample_key legacy_parts = (None, Inr (legacy_receipt s))"
    by (rule legacy_created)
  from receipt_signature_binds [OF c] have "verify_signature plain_float (legacy_receipt s) (replicate 32 7) = Inr True"
    by (auto simp: sample_key_loads)
  with c show ?thesis by blast
qed

subsection \<open>A browser run\<close>

definition on :: "string list \<Rightarrow> (string \<times> pyval) list" where
  "on ns = map (\<lambda>n. (n, PBool True)) ns"

definition digests :: "string list \<Rightarrow> (string \<times> pyval) list" where
  "digests ns = map (\<lambda>n. (n, PStr some_digest)) ns"

definition b_identity :: pyval where
  "b_identity = obj [(''job_id'', S ''mf-web-00000000''), (''artifact_sha256'', PStr some_digest), (''artifact_type'', S ''browser-probe''),
     (''submitted_by'', S ''operator''), (''received_at'', S ''2026-01-01T00:00:00Z'')]"

definition b_snapshot :: pyval where
  "b_snapshot = obj [(''snapshot_sha256'', PStr some_digest), (''snapshot_verified_by'', S ''host''), (''policy_version'', S ''v1''),
     (''policy_hash'', PStr some_digest), (''memory_snapshots'', S ''disabled-v1'')]"

definition b_budgets :: pyval where
  "b_budgets = obj [(''wall_clock_sec'', PInt 20), (''cpu_vcpu'', PInt 1), (''ram_mib'', PInt 1024), (''max_network_bytes'', PInt 1024),
     (''max_events'', PInt 100), (''max_redirects'', PInt 8), (''max_tabs'', PInt 1), (''interaction'', S ''passive navigation only''),
     (''fs_writes'', S ''guest tmpfs only'')]"

definition b_input :: pyval where
  "b_input = obj ([(''contract_version'', S CONTRACT_VERSION), (''normalized_origin'', S ''http://a.com''),
     (''authorized_origins'', PList [S ''http://a.com'']), (''navigation_mode'', S ''passive'')] @ digests [''url_sha256'', ''request_sha256'', ''policy_hash''])"

definition b_runtime :: pyval where
  "b_runtime = obj ([(''admitted'', PBool True), (''firecracker_version'', S ''1.7''), (''browser_version'', S ''124''),
     (''network_mode'', S ''explicit-proxy-only''), (''mmds_enabled'', PBool False),
     (''vmm_identity'', obj [(''user'', S ''cindermote-vmm''), (''group'', S ''cindermote-vmm''), (''uid'', PInt 990), (''gid'', PInt 990)]),
     (''cgroup_limits'', expected_cgroup_limits b_budgets),
     (''egress_worker'', obj ([(''protocol_version'', S ''cindermote.browser-egress-worker/v2''), (''user'', S ''cindermote-proxy''),
        (''group'', S ''cindermote-proxy''), (''uid'', PInt 991), (''gid'', PInt 991), (''dumpable'', PInt 0)] @
        on [''privilege_separated'', ''no_new_privs'', ''capabilities_zero''])),
     (''jailer_supervision'', SUPERVISION)] @ digests (''job_image_sha256'' # RUNTIME_DIGESTS) @ on RUNTIME_CONTROLS)"

definition b_streams :: "pyval \<Rightarrow> pyval" where "b_streams status = obj (map (\<lambda>s. (s, status)) REQUIRED_STREAMS)"

definition b_status :: pyval where
  "b_status = obj [(''complete'', PBool True), (''event_count'', PInt 2), (''observed_event_count'', PInt 2)]"

definition b_evidence :: pyval where
  "b_evidence = obj [(''schema_version'', S EVIDENCE_VERSION_v2), (''sha256'', PStr some_digest), (''stream_status'', b_streams b_status),
     (''events_observed'', PInt 8)]"

definition b_reduction :: pyval where
  "b_reduction = obj [(''evidence_version'', S EVIDENCE_VERSION_v2), (''complete'', PBool True), (''telemetry_incomplete'', PBool False),
     (''fail_closed'', PBool False), (''decision'', S ''ALLOW''), (''events_observed'', PInt 8),
     (''streams'', b_streams (obj [(''declared_event_count'', PInt 2), (''observed_event_count'', PInt 2), (''complete'', PBool True)])),
     (''findings'', PList [])]"

definition b_artifacts :: pyval where
  "b_artifacts = obj ([(''raw_retained'', PBool False), (''attestation_complete'', PBool True), (''console_event_count'', PInt 3)] @
     digests [''dom_sha256'', ''visible_text_sha256'', ''screenshot_sha256''])"

definition b_probe :: pyval where
  "b_probe = obj [(''schema_version'', S ''cindermote.browser-probe-receipt/v2''), (''input'', b_input), (''runtime'', b_runtime),
     (''evidence'', b_evidence), (''artifacts'', b_artifacts), (''findings'', PList []), (''reduction'', b_reduction)]"

definition b_isolation :: pyval where
  "b_isolation = obj ([(''mode'', S ''firecracker''), (''mlock_used'', PBool False)] @ on (ISOLATION_ADMISSION @ RUNTIME_CONTROLS))"

definition b_capabilities :: pyval where
  "b_capabilities = obj [(''requested'', PList [S ''browser.navigate'']), (''granted'', PList [S ''browser.navigate'']),
     (''denied'', PList [S ''browser.click'', S ''browser.type'', S ''browser.upload'', S ''browser.download'']),
     (''binding'', obj [(''request_sha256'', PStr some_digest), (''job_id'', S ''mf-web-00000000'')])]"

definition b_gate :: pyval where
  "b_gate = obj [(''policy_gate_decision'', S ''ALLOW''), (''policy_gate_reason'', S ''bounded_browser_navigation_clean''),
     (''human_gate_override'', S ''none''), (''final_decision'', S ''ALLOW''), (''final_authority'', S ''policy_gate_autonomous''),
     (''override_blocked_by_fail_closed'', PBool False)]"

definition b_outward :: pyval where
  "b_outward = obj [(''risk_level'', S ''benign''), (''evidence'', PList []), (''capabilities_requested'', PList [S ''browser.navigate'']),
     (''destinations'', PList [S ''http://a.com'']), (''canaries_tripped'', PList []), (''uncertainty'', PFloat (Fin 0))]"

definition b_destinations :: pyval where
  "b_destinations = obj [(''http://a.com'', PList [S ''browser_cdp_web_origin_allowed'', S ''proxy_http_origin_allowed''])]"

definition browser_sections :: "(string \<times> pyval) list" where
  "browser_sections = [(''identity'', b_identity), (''snapshot_policy'', b_snapshot), (''isolation'', b_isolation), (''budgets_granted'', b_budgets),
     (''capabilities'', b_capabilities),
     (''telemetry_summary'', obj [(''events_observed'', PInt 8), (''streams'', b_streams b_status), (''metadata_only'', PBool True)]),
     (''canaries_touched'', PDict []), (''destinations_attempted'', b_destinations), (''detector_findings'', PList []), (''gate'', b_gate),
     (''outward_report'', b_outward), (''purge'', obj (on BROWSER_PURGE_KEYS)), (''telemetry_incomplete'', PBool False),
     (''budget_exhausted'', PBool False), (''residual_uncertainty'', PFloat (Fin 0)), (''browser_probe'', b_probe),
     (''receipt_signature'', PStr some_digest)]"

definition browser_receipt :: pyval where "browser_receipt = obj browser_sections"

lemma browser_get:
  "get browser_receipt ''identity'' = b_identity" "get browser_receipt ''snapshot_policy'' = b_snapshot"
  "get browser_receipt ''isolation'' = b_isolation" "get browser_receipt ''budgets_granted'' = b_budgets"
  "get browser_receipt ''capabilities'' = b_capabilities" "get browser_receipt ''canaries_touched'' = PDict []"
  "get browser_receipt ''telemetry_summary'' = obj [(''events_observed'', PInt 8), (''streams'', b_streams b_status), (''metadata_only'', PBool True)]"
  "get browser_receipt ''destinations_attempted'' = b_destinations" "get browser_receipt ''detector_findings'' = PList []"
  "get browser_receipt ''gate'' = b_gate" "get browser_receipt ''outward_report'' = b_outward"
  "get browser_receipt ''purge'' = obj (on BROWSER_PURGE_KEYS)" "get browser_receipt ''telemetry_incomplete'' = PBool False"
  "get browser_receipt ''budget_exhausted'' = PBool False" "get browser_receipt ''residual_uncertainty'' = PFloat (Fin 0)"
  "get browser_receipt ''browser_probe'' = b_probe" "get browser_receipt ''receipt_signature'' = PStr some_digest"
  by (simp_all add: browser_receipt_def browser_sections_def py_eval)

lemma probe_get:
  "get b_probe ''schema_version'' = S ''cindermote.browser-probe-receipt/v2''" "get b_probe ''input'' = b_input" "get b_probe ''runtime'' = b_runtime"
  "get b_probe ''evidence'' = b_evidence" "get b_probe ''artifacts'' = b_artifacts" "get b_probe ''findings'' = PList []"
  "get b_probe ''reduction'' = b_reduction" "has_shape b_probe BROWSER_RECEIPT_KEYS"
  by (simp_all add: b_probe_def py_eval BROWSER_RECEIPT_KEYS_def insert_commute)

lemma browser_keys:
  "list_all (has_key browser_receipt) RECEIPT_REQUIRED" "has_key browser_receipt ''browser_probe''" "is_dict browser_receipt"
  "list_all (\<lambda>(k, v). k \<in> KStr ` str ` set (RECEIPT_REQUIRED @ RECEIPT_OPTIONAL)) (dict_of browser_receipt)"
  unfolding browser_receipt_def known_keys_obj
  by (simp_all add: browser_sections_def has_key_obj RECEIPT_REQUIRED_def RECEIPT_OPTIONAL_def)

lemma browser_outward: "validate_outward_report b_outward = Inr ()"
  by (simp add: b_outward_def validate_outward_report_def py_eval REPORT_KEYS_def insert_commute require_member_def in_set_def
      RISK_LEVELS_def bounded_string_list_def validate_uncertainty_def in_unit_def)

lemma browser_check_sections: "check_sections browser_receipt = Inr ()"
  unfolding check_sections_def Let_def bindE_eq_Inr refuse_Inr each_Inr browser_get browser_outward
  using browser_keys
  by (simp add: b_identity_def b_isolation_def b_gate_def py_eval is_sha256_def get_attr_def in_set_def ARTIFACT_TYPES_def not_truth_def nin_def
      browser_get on_def ISOLATION_ADMISSION_def RUNTIME_CONTROLS_def BROWSER_PURGE_KEYS_def)

lemma browser_checks_1:
  "check_identity b_identity = Inr ()" "check_snapshot b_snapshot = Inr ()" "check_budgets b_budgets = Inr ()"
  by (simp_all add: check_identity_def b_identity_def py_eval browser_job_id_def str_def is_hex_char_def text_within_def insert_commute
      check_snapshot_def b_snapshot_def is_sha256_def check_budgets_def b_budgets_def BROWSER_BUDGET_KEYS_def RECEIPT_BUDGET_RANGES_def
      int_between_def bindE_eq_Inr MAX_EVIDENCE_EVENTS_def)

lemma sample_normalize: "normalize_origin ascii_db (S ''http://a.com'') = Inr (str ''http://a.com'')"
  by (simp add: normalize_origin_def origin_for_url_def url_origin_def url_eval)

lemma browser_check_input: "check_input ascii_db b_input = Inr ()"
  by (simp add: check_input_def b_input_def digests_def py_eval BROWSER_INPUT_KEYS_def insert_commute is_sha256_def list_val_def
      MAX_AUTHORIZED_ORIGINS_def sample_normalize reraise_def)

lemmas runtime_fields = b_runtime_def digests_def on_def RUNTIME_DIGESTS_def RUNTIME_CONTROLS_def py_eval

lemma runtime_get:
  "get b_runtime ''admitted'' = PBool True"
  "get b_runtime ''vmm_identity'' = obj [(''user'', S ''cindermote-vmm''), (''group'', S ''cindermote-vmm''), (''uid'', PInt 990), (''gid'', PInt 990)]"
  "get b_runtime ''cgroup_limits'' = expected_cgroup_limits b_budgets" "get b_runtime ''jailer_supervision'' = SUPERVISION"
  by (simp_all add: runtime_fields)

lemma runtime_keys: "list_all (has_key b_runtime) BROWSER_RUNTIME_BASE_KEYS"
  "\<not> has_key b_runtime ''guest_failure_stage''" "\<not> has_key b_runtime ''guest_failure_code''" "\<not> has_key b_runtime ''vmm_exit_code''"
  "list_all (\<lambda>(k, v). k \<in> KStr ` str ` set (BROWSER_RUNTIME_BASE_KEYS @ BROWSER_RUNTIME_OPTIONAL_KEYS)) (dict_of b_runtime)"
  unfolding b_runtime_def known_keys_obj
  by (simp_all add: runtime_fields has_key_obj BROWSER_RUNTIME_BASE_KEYS_def BROWSER_RUNTIME_OPTIONAL_KEYS_def)

lemma limits_ok:
  "list_all (\<lambda>(k, v). k \<in> KStr ` str ` set [''cpu.max'', ''memory.max'', ''memory.swap.max'', ''pids.max'']) (dict_of (expected_cgroup_limits b_budgets))"
  "list_all (\<lambda>(k, v). text_within 128 v) (dict_of (expected_cgroup_limits b_budgets))" "is_dict (expected_cgroup_limits b_budgets)"
  "py_eq (expected_cgroup_limits b_budgets) (expected_cgroup_limits b_budgets)"
  by (simp_all add: expected_cgroup_limits_def dict_of_obj text_within_def b_budgets_def py_eval int_val_def dump_int_def dec.simps)
    (simp_all add: obj_def)

lemma browser_check_runtime: "check_runtime b_runtime = Inr ()"
proof -
  have "check_failure_fields b_runtime = Inr ()" by (simp add: check_failure_fields_def runtime_keys)
  moreover have "check_runtime_options b_runtime = Inr ()"
    using limits_ok by (simp add: check_runtime_options_def runtime_keys runtime_get Let_def)
  moreover have "check_vmm_identity (get b_runtime ''vmm_identity'') = Inr ()"
    by (simp add: runtime_get check_vmm_identity_def py_eval account_def)
  moreover have "list_all (\<lambda>n. is_sha256 (get b_runtime n)) RUNTIME_DIGESTS" "list_all (\<lambda>n. is_bool (get b_runtime n)) (RUNTIME_CONTROLS @ [''mmds_enabled''])"
    "text_within 128 (get b_runtime ''firecracker_version'')" "text_within 512 (get b_runtime ''browser_version'')"
    "get b_runtime ''network_mode'' = S ''explicit-proxy-only''" "get b_runtime ''mmds_enabled'' = PBool False" "is_dict b_runtime"
    by (simp_all add: runtime_fields is_sha256_def text_within_def)
  ultimately show ?thesis using runtime_keys
    by (simp add: check_runtime_def bindE_eq_Inr runtime_get list_all_iff)
qed

lemma browser_check_admitted: "check_admitted b_runtime b_budgets = Inr ()"
proof -
  have "check_worker (get b_runtime ''egress_worker'') (get b_runtime ''vmm_identity'') = Inr ()"
    by (simp add: runtime_fields check_worker_def WORKER_KEYS_def insert_commute account_def not_zero_def)
  moreover have "py_eq SUPERVISION SUPERVISION" "is_dict SUPERVISION" by (simp_all add: SUPERVISION_def obj_def)
  moreover have "is_sha256 (get b_runtime ''job_image_sha256'')" "list_all (\<lambda>n. truthy (get b_runtime n)) RUNTIME_CONTROLS"
    by (simp_all add: runtime_fields is_sha256_def)
  ultimately show ?thesis using limits_ok(4) by (simp add: check_admitted_def runtime_get)
qed

lemma streams_get: "s \<in> set REQUIRED_STREAMS \<Longrightarrow> get (b_streams status) s = status" "has_shape (b_streams status) REQUIRED_STREAMS"
  by (auto simp: b_streams_def REQUIRED_STREAMS_def py_eval)

definition b_seen :: "(string \<times> pyval) list" where "b_seen = map (\<lambda>s. (s, b_status)) REQUIRED_STREAMS"

lemma browser_check_evidence: "check_evidence b_evidence = Inr b_seen"
proof -
  have "validate_stream_status (b_streams b_status) = Inr b_seen"
    by (simp add: validate_stream_status_def streams_get b_seen_def Let_def each_def REQUIRED_STREAMS_def)
      (simp add: b_status_def py_eval insert_commute bounded_uint_def MAX_EVIDENCE_EVENTS_def b_streams_def REQUIRED_STREAMS_def)
  moreover have "stream_total b_seen = 8" by (simp add: stream_total_def b_seen_def REQUIRED_STREAMS_def b_status_def py_eval int_val_def)
  ultimately show ?thesis
    by (simp add: check_evidence_def b_evidence_def py_eval BROWSER_EVIDENCE_KEYS_def insert_commute is_sha256_def bounded_uint_def
        MAX_EVIDENCE_EVENTS_def int_val_def)
qed

lemma browser_check_reduction: "check_reduction b_reduction b_evidence b_seen = Inr []"
proof -
  let ?st = "obj [(''declared_event_count'', PInt 2), (''observed_event_count'', PInt 2), (''complete'', PBool True)]"
  have s: "get b_reduction ''streams'' = b_streams ?st" by (simp add: b_reduction_def py_eval)
  have "list_all (\<lambda>p. check_reduction_stream (b_streams ?st) p = Inr ()) b_seen"
    by (simp add: b_seen_def REQUIRED_STREAMS_def check_reduction_stream_def Let_def b_streams_def b_status_def py_eval insert_commute
        bounded_uint_def MAX_EVIDENCE_EVENTS_def)
  then have "each (check_reduction_stream (b_streams ?st)) b_seen = Inr ()" by (simp add: list_all_iff)
  moreover have "stream_total (map (\<lambda>s. (s, get (b_streams ?st) s)) REQUIRED_STREAMS) = 8" "mismatches (b_streams ?st) = 0"
    "\<not> reduction_incomplete (b_streams ?st) []"
    by (simp_all add: stream_total_def mismatches_def reduction_incomplete_def REQUIRED_STREAMS_def b_streams_def py_eval int_val_def)
  moreover have "check_reduction_flags b_reduction b_evidence = Inr ()"
    by (simp add: check_reduction_flags_def b_reduction_def b_evidence_def py_eval bounded_uint_def MAX_EVIDENCE_EVENTS_def)
  moreover have "has_shape b_reduction BROWSER_REDUCTION_KEYS" "get b_reduction ''findings'' = PList []" "get b_reduction ''decision'' = S ''ALLOW''"
    "get b_reduction ''telemetry_incomplete'' = PBool False" "get b_reduction ''complete'' = PBool True" "get b_reduction ''fail_closed'' = PBool False"
    "get b_evidence ''events_observed'' = PInt 8"
    by (simp_all add: b_reduction_def b_evidence_def py_eval BROWSER_REDUCTION_KEYS_def insert_commute)
  ultimately show ?thesis using streams_get(2) [of ?st]
    by (simp add: check_reduction_def s Let_def validate_finding_list_def lookup_def each_def int_val_def)
qed

lemma browser_checks_2:
  "check_artifacts b_artifacts b_runtime = Inr ()" "check_purge (obj (on BROWSER_PURGE_KEYS)) = Inr ()"
  "check_capabilities b_capabilities b_input b_identity = Inr ()"
  "check_event_budget b_budgets b_runtime b_artifacts = Inr ()" "check_gate b_gate b_reduction = Inr ()"
proof -
  show "check_artifacts b_artifacts b_runtime = Inr ()"
    by (simp add: check_artifacts_def b_artifacts_def digests_def py_eval BROWSER_ARTIFACT_KEYS_def insert_commute is_sha256_def
        bounded_uint_def MAX_EVIDENCE_EVENTS_def each_def)
  show "check_purge (obj (on BROWSER_PURGE_KEYS)) = Inr ()"
    by (simp add: check_purge_def on_def BROWSER_PURGE_KEYS_def BROWSER_PURGE_COMPONENTS_def py_eval)
  show "check_capabilities b_capabilities b_input b_identity = Inr ()"
    by (simp add: check_capabilities_def b_capabilities_def b_input_def b_identity_def digests_def py_eval insert_commute)
  show "check_event_budget b_budgets b_runtime b_artifacts = Inr ()"
    by (simp add: check_event_budget_def b_budgets_def b_artifacts_def py_eval bounded_uint_def MAX_EVIDENCE_EVENTS_def int_val_def)
  show "check_gate b_gate b_reduction = Inr ()"
    by (simp add: check_gate_def b_gate_def b_reduction_def py_eval LEGACY_GATE_KEYS_def insert_commute GATE_REASONS_def)
qed

lemma isolation_get: "n \<in> set (ISOLATION_ADMISSION @ RUNTIME_CONTROLS) \<Longrightarrow> get b_isolation n = PBool True"
  "n \<in> set RUNTIME_CONTROLS \<Longrightarrow> get b_runtime n = PBool True"
  by (auto simp: b_isolation_def on_def ISOLATION_ADMISSION_def RUNTIME_CONTROLS_def py_eval b_runtime_def digests_def RUNTIME_DIGESTS_def)

lemma browser_check_isolation: "check_isolation b_isolation b_runtime = Inr ()"
proof -
  have "has_shape b_isolation ([''mode'', ''mlock_used''] @ ISOLATION_ADMISSION @ RUNTIME_CONTROLS)"
    "get b_isolation ''mode'' = S ''firecracker''" "get b_isolation ''mlock_used'' = PBool False"
    by (simp_all add: b_isolation_def on_def py_eval comp_def)
  then show ?thesis by (simp add: check_isolation_def bindE_eq_Inr isolation_get runtime_get)
qed

lemma browser_checks_3:
  "check_telemetry (obj [(''events_observed'', PInt 8), (''streams'', b_streams b_status), (''metadata_only'', PBool True)]) b_evidence b_seen = Inr ()"
  "check_destinations ascii_db b_destinations = Inr ()" "check_outward b_outward [] [] b_destinations (PFloat (Fin 0)) = Inr ()"
  "check_final b_gate [] b_reduction b_runtime (obj (on BROWSER_PURGE_KEYS)) = Inr ()" "check_attestation b_artifacts b_reduction [] = Inr ()"
proof -
  have "py_eq (b_streams b_status) (obj b_seen)"
    by (simp add: b_streams_def b_seen_def REQUIRED_STREAMS_def b_status_def obj_def)
  then show "check_telemetry (obj [(''events_observed'', PInt 8), (''streams'', b_streams b_status), (''metadata_only'', PBool True)]) b_evidence b_seen = Inr ()"
    by (simp add: check_telemetry_def py_eval insert_commute b_evidence_def)
  show "check_destinations ascii_db b_destinations = Inr ()"
    by (simp add: check_destinations_def b_destinations_def dict_of_obj check_destination_def Let_def list_val_def is_sorted_set_def comparable_def
        BROWSER_DESTINATION_LABELS_def BROWSER_HTTP_ORIGIN_LABELS_def BROWSER_CONNECT_LABELS_def BROWSER_CDP_ORIGIN_LABELS_def in_strs_S
        sample_normalize reraise_def key_val_def each_def) (simp add: str_def)
  show "check_outward b_outward [] [] b_destinations (PFloat (Fin 0)) = Inr ()"
    by (simp add: check_outward_def b_outward_def py_eval expected_risk_def b_destinations_def dict_of_obj)
  show "check_final b_gate [] b_reduction b_runtime (obj (on BROWSER_PURGE_KEYS)) = Inr ()"
    by (simp add: check_final_def Let_def b_gate_def b_reduction_def runtime_get on_def BROWSER_PURGE_KEYS_def py_eval expected_final_def
        fail_closed_rules_def)
  show "check_attestation b_artifacts b_reduction [] = Inr ()"
    by (simp add: check_attestation_def b_artifacts_def py_eval)
qed

lemma browser_accepted: "validate_receipt plain_float ascii_db (PolicyDict sample_policy) browser_receipt = Inr ()" "is_browser_receipt browser_receipt"
proof -
  show b: "is_browser_receipt browser_receipt" by (simp add: is_browser_receipt_def browser_get b_identity_def py_eval)
  have "check_findings (PList []) (PList []) = Inr []" by (simp add: check_findings_def validate_finding_list_def)
  then have s: "check_run_sections ascii_db browser_receipt = Inr (b_seen, [], [])"
    by (simp add: check_run_sections_def browser_get probe_get Let_def browser_checks_1 browser_check_input browser_check_runtime
        browser_check_admitted browser_check_evidence browser_check_reduction browser_checks_2 runtime_get)
  have "expected_findings [] b_runtime (obj (on BROWSER_PURGE_KEYS)) = []"
    by (simp add: expected_findings_def runtime_get on_def BROWSER_PURGE_KEYS_def py_eval)
  moreover have "get b_snapshot ''snapshot_sha256'' = get b_runtime ''rootfs_sha256''" "get b_snapshot ''policy_hash'' = get b_input ''policy_hash''"
    "get b_reduction ''telemetry_incomplete'' = PBool False" "get (obj (on BROWSER_PURGE_KEYS)) ''verified_externally'' = PBool True"
    by (simp_all add: b_snapshot_def runtime_fields b_input_def b_reduction_def BROWSER_PURGE_KEYS_def)
  ultimately have "check_bindings ascii_db browser_receipt b_seen [] [] = Inr ()"
    by (simp add: check_bindings_def browser_get probe_get Let_def browser_checks_2 browser_check_isolation browser_checks_3 budget_exhausted_def lookup_def)
  with s b browser_check_sections browser_keys(2)
  show "validate_receipt plain_float ascii_db (PolicyDict sample_policy) browser_receipt = Inr ()"
    by (simp add: validate_receipt_def validate_browser_probe_section_def)
qed

theorem browser_receipt_allow_iff_witness:
  "validate_receipt plain_float ascii_db (PolicyDict sample_policy) browser_receipt = Inr () \<and>
   get (get browser_receipt ''gate'') ''final_decision'' = S ''ALLOW'' \<and> \<not> list_ex (found browser_receipt) UNOVERRIDABLE_RULES"
proof -
  have "get (get browser_receipt ''gate'') ''final_decision'' = S ''ALLOW''" by (simp add: browser_get b_gate_def py_eval)
  with browser_receipt_allow_iff [OF browser_accepted] browser_accepted(1) show ?thesis by blast
qed

end
