(* ===== verification/Egress_Policy.thy ===== *)
theory Egress_Policy
  imports Url_Canonical Py_Act
begin

section \<open>Egress proxy: limits, public addresses and the pinned policy\<close>

text \<open>
  The first half of \<open>broker/browser_egress_proxy.py\<close>, what \<open>BrowserEgressProxy.__init__\<close> does before any
  socket is opened: the checked limits, the table of special-purpose networks, the bind and client
  addresses, the resolution of every authorised host name and the policies that pin it.

  The resolver is a parameter. What one look-up can do (\<open>resolution\<close>) is: find no free slot or no thread,
  time out, raise, or give a list of answers; the monotonic clock is a function of the number of readings.
  Sums of clock readings and timeouts are exact rationals where Python rounds to a double.
\<close>

subsection \<open>Limits\<close>

definition MAX_DNS_ANSWERS :: nat where "MAX_DNS_ANSWERS = 16"
definition MAX_REQUEST_LINE_BYTES :: nat where "MAX_REQUEST_LINE_BYTES = 8192"
definition IO_CHUNK_BYTES :: nat where "IO_CHUNK_BYTES = 64 * 1024"

abbreviation egress_config :: "string \<Rightarrow> 'a res" where
  "egress_config m \<equiv> Inl (BrowserEgressConfigurationError m)"

abbreviation egress_startup :: "string \<Rightarrow> 'a res" where
  "egress_startup m \<equiv> Inl (BrowserEgressStartupError m)"

record proxy_limits =
  max_connections :: nat
  max_concurrent_connections :: nat
  max_header_bytes :: nat
  max_header_count :: nat
  max_events :: nat
  resolve_timeout_sec :: rat
  connect_timeout_sec :: rat
  idle_timeout_sec :: rat

definition integer_limit :: "pyval \<Rightarrow> int \<Rightarrow> int \<Rightarrow> nat res" where
  "integer_limit v minimum maximum = (case plain_int v of
       Some i \<Rightarrow> if minimum \<le> i \<and> i \<le> maximum then Inr (nat i)
                else egress_config ''limit must be an integer in range''
     | None \<Rightarrow> egress_config ''limit must be an integer in range'')"

text \<open>\<open>float(i)\<close> of an integer beyond the largest double raises \<open>OverflowError\<close>.\<close>

definition seconds_limit :: "pyval \<Rightarrow> rat res" where
  "seconds_limit v =
     (let check = (\<lambda>r. if (case round_double (1 / 100) of Fin lo \<Rightarrow> lo \<le> r | _ \<Rightarrow> False) \<and> r \<le> 60 then Inr r
                       else egress_config ''timeout must be numeric in 0.01..60.0'')
      in case v of
           PInt i \<Rightarrow> if 2 ^ 1024 - 2 ^ 970 \<le> \<bar>i\<bar> then Inl (OtherException ''OverflowError'') else check (of_int i)
         | PFloat (Fin r) \<Rightarrow> check r
         | _ \<Rightarrow> egress_config ''timeout must be numeric in 0.01..60.0'')"

definition ProxyLimits ::
  "pyval \<Rightarrow> pyval \<Rightarrow> pyval \<Rightarrow> pyval \<Rightarrow> pyval \<Rightarrow> pyval \<Rightarrow> pyval \<Rightarrow> pyval \<Rightarrow> proxy_limits res" where
  "ProxyLimits connections concurrent header_bytes header_count events resolve connect idle =
     bindE (integer_limit connections 1 4096) (\<lambda>mc.
     bindE (integer_limit concurrent 1 128) (\<lambda>mcc.
     bindE (integer_limit header_bytes 1024 (256 * 1024)) (\<lambda>mhb.
     bindE (integer_limit header_count 1 512) (\<lambda>mhc.
     bindE (integer_limit events 1 100000) (\<lambda>me.
     if mc < mcc then egress_config ''max_concurrent_connections cannot exceed max_connections''
     else
       bindE (seconds_limit resolve) (\<lambda>rt.
       bindE (seconds_limit connect) (\<lambda>ct.
       bindE (seconds_limit idle) (\<lambda>it.
       Inr \<lparr>max_connections = mc, max_concurrent_connections = mcc, max_header_bytes = mhb,
            max_header_count = mhc, max_events = me, resolve_timeout_sec = rt, connect_timeout_sec = ct,
            idle_timeout_sec = it\<rparr>))))))))"

definition default_limits :: proxy_limits where
  "default_limits = \<lparr>max_connections = 64, max_concurrent_connections = 8, max_header_bytes = 32 * 1024,
     max_header_count = 100, max_events = 1024, resolve_timeout_sec = 5, connect_timeout_sec = 5,
     idle_timeout_sec = 5\<rparr>"

subsection \<open>Public addresses\<close>

definition IPV6_GLOBAL_UNICAST :: "nat \<times> nat" where
  "IPV6_GLOBAL_UNICAST = (oct [0x2000], 3)"

definition NON_PUBLIC_V4 :: "(nat \<times> nat) list" where
  "NON_PUBLIC_V4 =
    [(quad 0 0 0 0, 8), (quad 10 0 0 0, 8), (quad 100 64 0 0, 10), (quad 127 0 0 0, 8), (quad 169 254 0 0, 16),
     (quad 172 16 0 0, 12), (quad 192 0 0 0, 24), (quad 192 0 2 0, 24), (quad 192 88 99 0, 24),
     (quad 192 168 0 0, 16), (quad 198 18 0 0, 15), (quad 198 51 100 0, 24), (quad 203 0 113 0, 24),
     (quad 224 0 0 0, 4), (quad 240 0 0 0, 4)]"

definition NON_PUBLIC_V6 :: "(nat \<times> nat) list" where
  "NON_PUBLIC_V6 =
    [(oct [0x2001], 23), (oct [0x2001, 0xdb8], 32), (oct [0x2002], 16), (oct [0x3fff], 20), (oct [0x5f00], 16)]"

definition validate_public_address :: "pyval \<Rightarrow> pystr res" where
  "validate_public_address v =
     bindE (validate_resolved_address v) (\<lambda>canonical.
       case ip_address canonical of
         None \<Rightarrow> Inl (ValueError ''does not appear to be an IPv4 or IPv6 address'')
       | Some (IPv4 n) \<Rightarrow>
           if list_ex (in_net 32 n) NON_PUBLIC_V4
           then Inl (bad ''resolved address is in a special-purpose range'') else Inr canonical
       | Some (IPv6 n) \<Rightarrow>
           if \<not> in_net 128 n IPV6_GLOBAL_UNICAST then Inl (bad ''resolved address is not global unicast'')
           else if list_ex (in_net 128 n) NON_PUBLIC_V6
           then Inl (bad ''resolved address is in a special-purpose range'') else Inr canonical)"

subsection \<open>The addresses of the proxy and of its client\<close>

definition plain_ip :: "string \<Rightarrow> pyval \<Rightarrow> ip res" where
  "plain_ip m v =
     bindE (as_str (BrowserEgressConfigurationError m) v) (\<lambda>s.
       if s = [] \<or> s \<noteq> strip s \<or> 37 \<in> set s then egress_config m
       else (case ip_address s of None \<Rightarrow> egress_config m | Some a \<Rightarrow> Inr a))"

fun ip_unspecified :: "ip \<Rightarrow> bool" where
  "ip_unspecified (IPv4 n) = (n = 0)" | "ip_unspecified (IPv6 n) = (n = 0)"

fun ip_multicast :: "ip \<Rightarrow> bool" where
  "ip_multicast (IPv4 n) = in_net 32 n (quad 224 0 0 0, 4)"
| "ip_multicast (IPv6 n) = in_net 128 n (oct [0xff00], 8)"

fun ip_link_local :: "ip \<Rightarrow> bool" where
  "ip_link_local (IPv4 n) = in_net 32 n (quad 169 254 0 0, 16)"
| "ip_link_local (IPv6 n) = in_net 128 n (oct [0xfe80], 10)"

fun ip_global :: "ip \<Rightarrow> bool" where
  "ip_global (IPv4 n) = v4_global n" | "ip_global (IPv6 n) = (\<not> v6_private n)"

fun ip_compressed :: "ip \<Rightarrow> pystr" where
  "ip_compressed (IPv4 n) = ipv4_text n" | "ip_compressed (IPv6 n) = ipv6_text n"

definition canonical_bind_address :: "pyval \<Rightarrow> pystr res" where
  "canonical_bind_address v =
     bindE (plain_ip ''bind_host must be a plain IP literal'' v) (\<lambda>a.
       if ip_unspecified a \<or> ip_multicast a then egress_config ''wildcard and multicast bind hosts are forbidden''
       else if ip_global a then egress_config ''browser egress proxy cannot bind a globally routable address''
       else Inr (ip_compressed a))"

definition canonical_client_address :: "pyval \<Rightarrow> pystr res" where
  "canonical_client_address v =
     bindE (plain_ip ''allowed_client_ip must be a plain IP literal'' v) (\<lambda>a.
       if ip_unspecified a \<or> ip_multicast a \<or> ip_link_local a \<or> ip_global a
       then egress_config ''allowed_client_ip must identify the private microVM endpoint''
       else Inr (ip_compressed a))"

subsection \<open>Resolution\<close>

datatype resolution = No_slot | No_thread | Timed_out | Raised | Answers "pyval list"

record resolver_env =
  re_clock :: "nat \<Rightarrow> rat"
  re_lookup :: "pystr \<Rightarrow> resolution"

text \<open>Answers are checked in order; the first unsafe one fails the whole look-up.\<close>

fun check_answers :: "pyval list \<Rightarrow> pystr list \<Rightarrow> pystr list res" where
  "check_answers [] checked = Inr checked"
| "check_answers (answer # rest) checked = (case validate_public_address answer of
       Inl e \<Rightarrow> egress_startup ''authorized DNS resolution returned an unsafe answer''
     | Inr validated \<Rightarrow>
         check_answers rest (if validated \<in> set checked then checked else checked @ [validated]))"

text \<open>The key \<open>(version, int)\<close>, as one number.\<close>

definition address_key :: "pystr \<Rightarrow> nat" where
  "address_key s = (case ip_address s of Some (IPv4 n) \<Rightarrow> n | Some (IPv6 n) \<Rightarrow> 2 ^ 128 + n | None \<Rightarrow> 0)"

definition pin_answers :: "pyval list \<Rightarrow> pystr list res" where
  "pin_answers answers =
     (if \<not> (1 \<le> length answers \<and> length answers \<le> MAX_DNS_ANSWERS)
      then egress_startup ''authorized DNS resolution returned an invalid answer count''
      else bindE (check_answers answers []) (\<lambda>checked.
        if checked = [] then egress_startup ''authorized DNS resolution was empty''
        else Inr (sort_key address_key checked)))"

definition resolve_host :: "resolver_env \<Rightarrow> rat \<Rightarrow> nat \<Rightarrow> pystr \<Rightarrow> pystr list res" where
  "resolve_host env deadline tick hostname = (case re_lookup env hostname of
       No_slot \<Rightarrow> egress_startup ''authorized DNS resolver capacity is exhausted''
     | No_thread \<Rightarrow> egress_startup ''authorized DNS resolver could not start''
     | outcome \<Rightarrow>
         if deadline - re_clock env tick \<le> 0 then egress_startup ''authorized DNS resolution timed out''
         else (case outcome of
             Answers answers \<Rightarrow> pin_answers answers
           | Raised \<Rightarrow> egress_startup ''authorized DNS resolution failed''
           | _ \<Rightarrow> egress_startup ''authorized DNS resolution timed out''))"

fun resolve_hosts :: "resolver_env \<Rightarrow> rat \<Rightarrow> nat \<Rightarrow> pystr list \<Rightarrow> (pystr \<times> pystr list) list res" where
  "resolve_hosts env deadline tick [] = Inr []"
| "resolve_hosts env deadline tick (hostname # rest) =
     bindE (resolve_host env deadline tick hostname) (\<lambda>addresses.
     bindE (resolve_hosts env deadline (Suc tick) rest) (\<lambda>pinned. Inr ((hostname, addresses) # pinned)))"

definition origin_hostname :: "unicode_db \<Rightarrow> pystr \<Rightarrow> pystr res" where
  "origin_hostname db origin =
     bindE (urlsplit db origin) (\<lambda>r. Inr (case sr_hostname db r of None \<Rightarrow> [] | Some h \<Rightarrow> h))"

definition pre_resolve ::
  "unicode_db \<Rightarrow> resolver_env \<Rightarrow> proxy_limits \<Rightarrow> pystr list \<Rightarrow> (pystr \<times> pystr list) list res" where
  "pre_resolve db env limits origins =
     bindE (mapE (origin_hostname db) origins) (\<lambda>hostnames.
       resolve_hosts env (re_clock env 0 + resolve_timeout_sec limits) 1 (sort (remdups hostnames)))"

subsection \<open>Policies and construction\<close>

record policy =
  po_origin :: pystr
  po_scheme :: pystr
  po_hostname :: pystr
  po_port :: nat
  po_addresses :: "pystr list"

definition origin_policy :: "unicode_db \<Rightarrow> pystr \<Rightarrow> pystr list \<Rightarrow> policy res" where
  "origin_policy db origin addresses =
     bindE (urlsplit db origin) (\<lambda>r. case sr_hostname db r of
         None \<Rightarrow> egress_config ''authorized origin has no hostname''
       | Some h \<Rightarrow> bindE (sr_port r) (\<lambda>port.
           Inr \<lparr>po_origin = origin, po_scheme = sr_scheme r, po_hostname = h,
                po_port = (case port of Some p \<Rightarrow> if p = 0 then if sr_scheme r = str ''https'' then 443 else 80 else p
                           | None \<Rightarrow> if sr_scheme r = str ''https'' then 443 else 80),
                po_addresses = addresses\<rparr>))"

definition pinned_policy :: "unicode_db \<Rightarrow> (pystr \<times> pystr list) list \<Rightarrow> pystr \<Rightarrow> (pystr \<times> policy) res" where
  "pinned_policy db pinned origin =
     bindE (origin_hostname db origin) (\<lambda>hostname.
       case map_of pinned hostname of
         None \<Rightarrow> Inl KeyError
       | Some addresses \<Rightarrow> bindE (origin_policy db origin addresses) (\<lambda>p. Inr (origin, p)))"

text \<open>What construction fixes for the life of the proxy.\<close>

record egress_proxy =
  px_bind_host :: pystr
  px_bind_port :: int
  px_client_ip :: pystr
  px_limits :: proxy_limits
  px_byte_limit :: int
  px_event_limit :: int
  px_wall_clock :: int
  px_policies :: "(pystr \<times> policy) list"

definition request_budget :: "pyval \<Rightarrow> string \<Rightarrow> int res" where
  "request_budget canonical name =
     bindE (item canonical ''budgets'') (\<lambda>b. bindE (item b name) (as_int TypeError))"

definition request_origins :: "pyval \<Rightarrow> pystr list res" where
  "request_origins canonical =
     bindE (item canonical ''authorized_origins'') (\<lambda>v.
     bindE (as_list TypeError v) (mapE (as_str TypeError)))"

text \<open>\<open>validate_probe_request\<close> raises contract, type and value errors only, all of which are caught here.\<close>

definition check_probe_request :: "unicode_db \<Rightarrow> pyval \<Rightarrow> pyval res" where
  "check_probe_request db request = (case validate_probe_request db request of
       Inl e \<Rightarrow> egress_config ''browser probe request is not valid''
     | Inr canonical \<Rightarrow>
         if \<not> py_eq canonical request
         then egress_config ''browser probe request must be canonical before proxy construction''
         else Inr canonical)"

definition check_bind_port :: "pyval \<Rightarrow> int res" where
  "check_bind_port v = (case plain_int v of
       Some i \<Rightarrow> if 1 \<le> i \<and> i \<le> 65535 then Inr i else egress_config ''bind_port must be in 1..65535''
     | None \<Rightarrow> egress_config ''bind_port must be in 1..65535'')"

definition BrowserEgressProxy ::
  "unicode_db \<Rightarrow> resolver_env \<Rightarrow> pyval \<Rightarrow> pyval \<Rightarrow> pyval \<Rightarrow> pyval \<Rightarrow> proxy_limits \<Rightarrow> egress_proxy res" where
  "BrowserEgressProxy db env request bind_host allowed_client_ip bind_port limits =
     bindE (check_probe_request db request) (\<lambda>canonical.
     bindE (canonical_bind_address bind_host) (\<lambda>host.
     bindE (canonical_client_address allowed_client_ip) (\<lambda>client.
     bindE (check_bind_port bind_port) (\<lambda>port.
     bindE (request_budget canonical ''max_network_bytes'') (\<lambda>byte_limit.
     bindE (request_budget canonical ''max_events'') (\<lambda>events.
     bindE (request_budget canonical ''wall_clock_sec'') (\<lambda>wall.
     bindE (request_origins canonical) (\<lambda>origins.
     bindE (pre_resolve db env limits origins) (\<lambda>pinned.
     bindE (mapE (pinned_policy db pinned) origins) (\<lambda>policies.
     Inr \<lparr>px_bind_host = host, px_bind_port = port, px_client_ip = client, px_limits = limits,
          px_byte_limit = byte_limit, px_event_limit = min (int (max_events limits)) events,
          px_wall_clock = wall, px_policies = policies\<rparr>))))))))))"

end
