(* ===== verification/Http_Bytes.thy ===== *)
theory Http_Bytes
  imports Ip_Address
begin

section \<open>Bytes on the wire\<close>

text \<open>
  What the two HTTP readers of the system share: \<open>bytes.find\<close> and \<open>bytes.split\<close> on a separator, ASCII
  and Latin-1 text, the characters of a header name, and what \<open>recv\<close> returns when the peer delivers
  its bytes in segments.
\<close>

definition crlf :: bytes where "crlf = [13, 10]"

text \<open>\<open>cut_at d s\<close>: the bytes before the first occurrence of \<open>d\<close> in \<open>s\<close> and those after it.\<close>

fun cut_at :: "bytes \<Rightarrow> bytes \<Rightarrow> (bytes \<times> bytes) option" where
  "cut_at d [] = (if d = [] then Some ([], []) else None)"
| "cut_at d (c # s) =
     (if take (length d) (c # s) = d then Some ([], drop (length d) (c # s))
      else map_option (\<lambda>(a, b). (c # a, b)) (cut_at d s))"

lemma cut_at_Some: "cut_at d s = Some (a, b) \<Longrightarrow> s = a @ d @ b"
proof (induction d s arbitrary: a b rule: cut_at.induct)
  case (2 d c s)
  show ?case
  proof (cases "take (length d) (c # s) = d")
    case True
    with 2 show ?thesis using append_take_drop_id [of "length d" "c # s"] by auto
  next
    case False
    with 2 show ?thesis by auto
  qed
qed (auto split: if_splits)

lemma cut_at_None: "cut_at d (a @ d @ b) \<noteq> None"
proof (induction a)
  case Nil
  have "take (length d) (d @ b) = d" by simp
  then show ?case by (cases "d @ b") (auto simp del: take_append)
qed auto

lemma cut_at_minimal: "cut_at d s = Some (a, b) \<Longrightarrow> s = a' @ d @ b' \<Longrightarrow> length a \<le> length a'"
proof (induction d s arbitrary: a b a' b' rule: cut_at.induct)
  case (1 d)
  then show ?case by (simp split: if_splits)
next
  case (2 d c s)
  show ?case
  proof (cases "take (length d) (c # s) = d")
    case True
    with "2.prems"(1) have "a = []" by simp
    then show ?thesis by simp
  next
    case False
    with "2.prems"(1) obtain x where x: "a = c # x" "cut_at d s = Some (x, b)" by auto
    show ?thesis
    proof (cases a')
      case Nil
      with "2.prems"(2) have "take (length d) (c # s) = d" by simp
      with False show ?thesis by simp
    next
      case (Cons c' y)
      with "2.prems"(2) have "s = y @ d @ b'" by simp
      from "2.IH" [OF False x(2) this] show ?thesis by (simp add: x(1) Cons)
    qed
  qed
qed

text \<open>\<open>s.split(d)\<close> for a non-empty separator.\<close>

function splits :: "bytes \<Rightarrow> bytes \<Rightarrow> bytes list" where
  "splits d s = (case cut_at d s of
       None \<Rightarrow> [s]
     | Some (a, b) \<Rightarrow> if d = [] then [s] else a # splits d b)"
  by pat_completeness auto
termination
  by (relation "measure (\<lambda>(d, s). length s)") (auto dest: cut_at_Some)

declare splits.simps [simp del]

subsection \<open>Text\<close>

definition ascii_text :: "bytes \<Rightarrow> pystr option" where
  "ascii_text b = (if list_all (\<lambda>x. x < 128) b then Some (map unat b) else None)"

definition ascii_bytes :: "pystr \<Rightarrow> bytes res" where
  "ascii_bytes s = (if is_ascii s then Inr (map byte_of s) else Inl UnicodeError)"

text \<open>\<open>b.strip(b" \t")\<close>.\<close>

definition strip_blank :: "bytes \<Rightarrow> bytes" where
  "strip_blank b = rev (dropWhile (\<lambda>x. x = 32 \<or> x = 9) (rev (dropWhile (\<lambda>x. x = 32 \<or> x = 9) b)))"

text \<open>The characters of an HTTP token.\<close>

definition token_byte :: "byte \<Rightarrow> bool" where
  "token_byte b = (let c = unat b in is_alpha c \<or> is_digit c \<or>
     c \<in> {33, 35, 36, 37, 38, 39, 42, 43, 45, 46, 94, 95, 96, 124, 126})"

text \<open>A control character other than tab, or DEL.\<close>

definition control_byte :: "byte \<Rightarrow> bool" where
  "control_byte b = ((b < 32 \<and> b \<noteq> 9) \<or> b = 127)"

lemma ascii_bytes_Inr: "ascii_bytes s = Inr b \<Longrightarrow> b = map byte_of s \<and> is_ascii s"
  by (simp add: ascii_bytes_def split: if_splits)

lemma strip_blank_set: "set (strip_blank b) \<subseteq> set b"
  by (auto simp: strip_blank_def dest!: set_dropWhileD)

subsection \<open>Receiving\<close>

text \<open>
  A peer that has yet to deliver the segments \<open>segs\<close>: a \<open>recv(n)\<close> returns the next segment, or its first \<open>n\<close>
  bytes when it is longer; an empty segment is end of file, an exception in the list is raised. When
  nothing is left the call waits until its timeout.
\<close>

fun recv_from :: "nat \<Rightarrow> bytes res list \<Rightarrow> bytes res list \<times> bytes res" where
  "recv_from n [] = ([], Inl TimeoutError)"
| "recv_from n (Inl e # rest) = (rest, Inl e)"
| "recv_from n (Inr seg # rest) =
     (if length seg \<le> n then (rest, Inr seg) else (Inr (drop n seg) # rest, Inr (take n seg)))"

lemma recv_from_length: "recv_from n segs = (segs', Inr chunk) \<Longrightarrow> length chunk \<le> n"
  by (induction n segs rule: recv_from.induct) (auto split: if_splits)

end
