(* ===== verification/Egress_Proxy.thy ===== *)
theory Egress_Proxy
  imports Egress_Policy Http_Bytes "HOL-Library.AList"
begin

section \<open>Egress proxy: budget, events and one client connection\<close>

text \<open>
  The second half of \<open>broker/browser_egress_proxy.py\<close>. \<open>proxy_shared\<close> is the state the handlers share
  under \<open>_state_lock\<close> and the lock of \<open>_ByteBudget\<close>; every operation on it is one atomic step.
  \<open>handler\<close> adds what belongs to one accepted connection: its sockets, the byte counts, the event
  sequence it holds, what was written so far.

  The environment \<open>egress_env\<close> fixes what the world answers: clock readings, whether another thread has
  called \<open>shutdown\<close> by the time of a reading, the peer address of the client, what the connector does on each
  call, which sends fail, and which sockets the selector reports ready. Bytes given to \<open>sendall\<close> count as
  written also when the call raises. When the selector script is exhausted nothing more becomes ready, so
  the loop waits until the idle limit and reports \<open>deadline\<close>.
\<close>

subsection \<open>State\<close>

record proxy_event =
  pe_sequence :: nat
  pe_web_origin :: "pystr option"
  pe_connect_authority :: "pystr option"
  pe_disposition :: string
  pe_reason_code :: string
  pe_client_to_origin :: int
  pe_origin_to_client :: int

record proxy_shared =
  sh_events :: "(nat \<times> proxy_event) list"
  sh_inflight :: "nat list"
  sh_event_overflow :: bool
  sh_next_sequence :: nat
  sh_connection_attempts :: nat
  sh_listener_rejections :: nat
  sh_started_at :: "rat option"
  sh_deadline :: "rat option"
  sh_closed :: bool
  sh_active_clients :: "nat list"
  sh_active_upstreams :: "nat list"
  sh_used :: int
  sh_reserved :: int
  sh_free_slots :: nat

record handler = proxy_shared +
  hd_tick :: nat
  hd_client_in :: "bytes res list"
  hd_client_out :: "bytes list"
  hd_upstream_in :: "bytes res list"
  hd_upstream_out :: "bytes list"
  hd_connects :: "(pystr \<times> nat) list"
  hd_open_upstreams :: nat
  hd_to_origin :: int
  hd_to_client :: int
  hd_sequence :: "nat option"
  hd_registered :: bool
  hd_acquired :: bool

record upstream =
  up_peer :: "pyval list option res"
  up_incoming :: "bytes res list"

record egress_env =
  he_clock :: "nat \<Rightarrow> rat"
  he_revoked :: "nat \<Rightarrow> bool"
  he_client_id :: nat
  he_upstream_id :: nat
  he_peer :: "pyval list option res"
  he_connector :: "nat \<Rightarrow> pystr \<Rightarrow> nat \<Rightarrow> upstream res"
  he_client_error :: "nat \<Rightarrow> exn option"
  he_upstream_error :: "nat \<Rightarrow> exn option"
  he_ready :: "bool list list"

abbreviation reject :: "int \<Rightarrow> string \<Rightarrow> exn" where
  "reject status reason \<equiv> ProxyRejection status reason None None False False"

subsection \<open>The byte budget\<close>

definition budget_remaining :: "int \<Rightarrow> ('z proxy_shared_scheme, int) act" where
  "budget_remaining maximum = getA (\<lambda>s. maximum - sh_used s - sh_reserved s)"

definition consume :: "int \<Rightarrow> int \<Rightarrow> ('z proxy_shared_scheme, unit) act" where
  "consume maximum n = (\<lambda>s.
     if n < 0 then (s, Inl (AssertionError ''negative byte consumption''))
     else if maximum < sh_used s + sh_reserved s + n then (s, Inl (reject 503 ''byte_limit''))
     else (s\<lparr>sh_used := sh_used s + n\<rparr>, Inr ()))"

definition reserve :: "int \<Rightarrow> int \<Rightarrow> ('z proxy_shared_scheme, int) act" where
  "reserve maximum wanted = (\<lambda>s.
     if wanted \<le> 0 then (s, Inl (AssertionError ''byte reservation must be positive''))
     else
       let available = maximum - sh_used s - sh_reserved s in
       if available \<le> 0 then (s, Inl (reject 503 ''byte_limit''))
       else (s\<lparr>sh_reserved := sh_reserved s + min wanted available\<rparr>, Inr (min wanted available)))"

definition commit_reservation :: "int \<Rightarrow> int \<Rightarrow> ('z proxy_shared_scheme, unit) act" where
  "commit_reservation reservation actual = (\<lambda>s.
     if \<not> (0 \<le> actual \<and> actual \<le> reservation) then (s, Inl (AssertionError ''invalid byte reservation commit''))
     else if sh_reserved s < reservation then (s, Inl (AssertionError ''byte reservation is not active''))
     else (s\<lparr>sh_reserved := sh_reserved s - reservation, sh_used := sh_used s + actual\<rparr>, Inr ()))"

definition cancel_reservation :: "int \<Rightarrow> ('z proxy_shared_scheme, unit) act" where
  "cancel_reservation reservation = (\<lambda>s.
     if sh_reserved s < reservation then (s, Inl (AssertionError ''byte reservation is not active''))
     else (s\<lparr>sh_reserved := sh_reserved s - reservation\<rparr>, Inr ()))"

subsection \<open>Events and telemetry\<close>

definition REASON_CODES :: "string list" where
  "REASON_CODES = [''completed'', ''client_closed'', ''malformed_request'', ''header_limit'', ''method_blocked'',
     ''unauthorized_origin'', ''unauthorized_client'', ''request_body_blocked'', ''connection_limit'',
     ''concurrency_limit'', ''event_limit'', ''byte_limit'', ''deadline'', ''upstream_failure'', ''peer_mismatch'',
     ''proxy_closed'']"

definition reserve_event :: "int \<Rightarrow> ('z proxy_shared_scheme, nat option) act" where
  "reserve_event limit = (\<lambda>s.
     if limit \<le> int (sh_next_sequence s) then (s\<lparr>sh_event_overflow := True\<rparr>, Inr None)
     else (s\<lparr>sh_next_sequence := Suc (sh_next_sequence s),
             sh_inflight := sh_next_sequence s # sh_inflight s\<rparr>, Inr (Some (sh_next_sequence s))))"

definition finish_event :: "nat \<Rightarrow> pystr option \<Rightarrow> pystr option \<Rightarrow> string \<Rightarrow> string \<Rightarrow> int \<Rightarrow> int \<Rightarrow>
    ('z proxy_shared_scheme, unit) act" where
  "finish_event sequence web_origin connect_authority disposition reason_code to_origin to_client = (\<lambda>s.
     if disposition \<notin> {''allowed'', ''blocked''} then (s, Inl (AssertionError ''invalid event disposition''))
     else if reason_code \<notin> set REASON_CODES then (s, Inl (AssertionError ''invalid event reason''))
     else if sequence \<notin> set (sh_inflight s) then (s, Inl (AssertionError ''event reservation is not active''))
     else
       (s\<lparr>sh_inflight := removeAll sequence (sh_inflight s),
          sh_events := AList.update sequence
            \<lparr>pe_sequence = sequence, pe_web_origin = web_origin, pe_connect_authority = connect_authority,
             pe_disposition = disposition, pe_reason_code = reason_code, pe_client_to_origin = to_origin,
             pe_origin_to_client = to_client\<rparr> (sh_events s)\<rparr>, Inr ()))"

definition events_snapshot :: "'z proxy_shared_scheme \<Rightarrow> proxy_event list" where
  "events_snapshot s = map snd (sort_key fst (sh_events s))"

definition opt_str :: "pystr option \<Rightarrow> pyval" where
  "opt_str x = (case x of None \<Rightarrow> PNone | Some t \<Rightarrow> PStr t)"

definition browser_event :: "proxy_event \<Rightarrow> pyval" where
  "browser_event e =
     (let incomplete_allowed = (pe_disposition e = ''allowed'' \<and> pe_reason_code e \<noteq> ''completed'') in
      if (pe_web_origin e = None) = (pe_connect_authority e = None) \<or> incomplete_allowed then
        obj [(''sequence'', PInt (int (pe_sequence e))), (''source'', S ''egress''), (''kind'', S ''telemetry_loss''),
             (''web_origin'', PNone), (''connect_authority'', PNone), (''disposition'', S ''observed'')]
      else
        obj [(''sequence'', PInt (int (pe_sequence e))), (''source'', S ''egress''), (''kind'', S ''network_request''),
             (''web_origin'', opt_str (pe_web_origin e)), (''connect_authority'', opt_str (pe_connect_authority e)),
             (''disposition'', S (pe_disposition e))])"

definition browser_events_snapshot :: "'z proxy_shared_scheme \<Rightarrow> pyval list" where
  "browser_events_snapshot s = map browser_event (events_snapshot s)"

definition telemetry_complete :: "'z proxy_shared_scheme \<Rightarrow> bool" where
  "telemetry_complete s = (sh_started_at s \<noteq> None \<and> sh_closed s \<and> \<not> sh_event_overflow s \<and> sh_inflight s = [] \<and>
     length (sh_active_clients s) = 0 \<and> sh_active_upstreams s = [] \<and> sh_listener_rejections s = 0)"

definition telemetry_snapshot :: "egress_proxy \<Rightarrow> 'z proxy_shared_scheme \<Rightarrow> pyval" where
  "telemetry_snapshot px s = obj
     [(''complete'', PBool (telemetry_complete s)), (''started'', PBool (sh_started_at s \<noteq> None)),
      (''closed'', PBool (sh_closed s)), (''event_overflow'', PBool (sh_event_overflow s)),
      (''inflight_events'', PInt (int (length (sh_inflight s)))),
      (''active_connections'', PInt (int (length (sh_active_clients s)))),
      (''listener_rejections'', PInt (int (sh_listener_rejections s))),
      (''connection_attempts'', PInt (int (sh_connection_attempts s))),
      (''event_count'', PInt (int (length (events_snapshot s)))), (''network_bytes'', PInt (sh_used s)),
      (''network_byte_limit'', PInt (px_byte_limit px))]"

subsection \<open>Time and the two sockets\<close>

definition now :: "egress_env \<Rightarrow> (handler, rat) act" where
  "now env = (\<lambda>s. (s\<lparr>hd_tick := Suc (hd_tick s)\<rparr>, Inr (he_clock env (hd_tick s))))"

definition closed_now :: "egress_env \<Rightarrow> handler \<Rightarrow> bool" where
  "closed_now env s = (sh_closed s \<or> he_revoked env (hd_tick s))"

definition begin_runtime :: "egress_env \<Rightarrow> egress_proxy \<Rightarrow> (handler, unit) act" where
  "begin_runtime env px = bindA (getA (closed_now env)) (\<lambda>closed.
     if closed then raiseA (BrowserEgressClosed ''browser egress proxy is closed'')
     else bindA (getA sh_started_at) (\<lambda>started. case started of
         Some t \<Rightarrow> returnA ()
       | None \<Rightarrow> bindA (now env) (\<lambda>t.
           modA (\<lambda>s. s\<lparr>sh_started_at := Some t, sh_deadline := Some (t + of_int (px_wall_clock px))\<rparr>))))"

definition remaining_time :: "egress_env \<Rightarrow> (handler, rat) act" where
  "remaining_time env = bindA (getA (closed_now env)) (\<lambda>closed.
     if closed then raiseA (reject 503 ''proxy_closed'')
     else bindA (getA sh_deadline) (\<lambda>d. case d of
         None \<Rightarrow> raiseA (AssertionError ''proxy runtime has not begun'')
       | Some deadline \<Rightarrow> bindA (now env) (\<lambda>t.
           if deadline - t \<le> 0 then raiseA (reject 504 ''deadline'') else returnA (deadline - t))))"

text \<open>\<open>_set_timeout\<close>: the timeout itself only decides when the environment lets a call time out.\<close>

definition set_timeout :: "egress_env \<Rightarrow> (handler, unit) act" where
  "set_timeout env = bindA (remaining_time env) (\<lambda>_. returnA ())"

definition client_recv :: "nat \<Rightarrow> (handler, bytes) act" where
  "client_recv n = (\<lambda>s. case recv_from n (hd_client_in s) of (segs, r) \<Rightarrow> (s\<lparr>hd_client_in := segs\<rparr>, r))"

definition upstream_recv :: "nat \<Rightarrow> (handler, bytes) act" where
  "upstream_recv n = (\<lambda>s. case recv_from n (hd_upstream_in s) of (segs, r) \<Rightarrow> (s\<lparr>hd_upstream_in := segs\<rparr>, r))"

definition client_send :: "egress_env \<Rightarrow> bytes \<Rightarrow> (handler, unit) act" where
  "client_send env b = (\<lambda>s. (s\<lparr>hd_client_out := hd_client_out s @ [b]\<rparr>,
     case he_client_error env (length (hd_client_out s)) of Some e \<Rightarrow> Inl e | None \<Rightarrow> Inr ()))"

definition upstream_send :: "egress_env \<Rightarrow> bytes \<Rightarrow> (handler, unit) act" where
  "upstream_send env b = (\<lambda>s. (s\<lparr>hd_upstream_out := hd_upstream_out s @ [b]\<rparr>,
     case he_upstream_error env (length (hd_upstream_out s)) of Some e \<Rightarrow> Inl e | None \<Rightarrow> Inr ()))"

definition status_reason :: "int \<Rightarrow> string" where
  "status_reason status = (if status = 400 then ''Bad Request'' else if status = 403 then ''Forbidden''
     else if status = 405 then ''Method Not Allowed'' else if status = 431 then ''Request Header Fields Too Large''
     else if status = 502 then ''Bad Gateway'' else if status = 503 then ''Service Unavailable''
     else if status = 504 then ''Gateway Timeout'' else ''Forbidden'')"

definition error_response :: "int \<Rightarrow> bytes" where
  "error_response status =
     bytes_of ''HTTP/1.1 '' @ map byte_of (dump_int status) @ bytes_of '' '' @ bytes_of (status_reason status) @ crlf @
     bytes_of ''Content-Length: 0'' @ crlf @ bytes_of ''Cache-Control: no-store'' @ crlf @
     bytes_of ''Connection: close'' @ crlf @ crlf"

text \<open>\<open>_safe_error\<close> swallows the failure of its send.\<close>

definition safe_error :: "egress_env \<Rightarrow> int \<Rightarrow> handler \<Rightarrow> handler" where
  "safe_error env status s = fst (client_send env (error_response status) s)"

subsection \<open>Admission\<close>

definition peer_text :: "pystr \<Rightarrow> pystr option" where
  "peer_text s = (case ip_address s of
       None \<Rightarrow> None
     | Some (IPv4 n) \<Rightarrow> Some (ipv4_text n)
     | Some (IPv6 n) \<Rightarrow> (case ipv4_mapped n of
           Some m \<Rightarrow> Some (ipv4_text m)
         | None \<Rightarrow> Some (ipv6_text n @ (if 37 \<in> set s then 37 # after 37 s else []))))"

definition peer_matches_allowed_client :: "egress_proxy \<Rightarrow> pyval list option \<Rightarrow> bool" where
  "peer_matches_allowed_client px peer = (case peer of
       Some (PStr s # _) \<Rightarrow> peer_text s = Some (px_client_ip px)
     | _ \<Rightarrow> False)"

text \<open>The checks of the listener before a handler thread exists; \<open>t\<close> is the clock reading.\<close>

definition transport_rejection_status ::
  "egress_proxy \<Rightarrow> pyval list option \<Rightarrow> rat \<Rightarrow> ('z proxy_shared_scheme, int option) act" where
  "transport_rejection_status px peer t = (\<lambda>s.
     if \<not> peer_matches_allowed_client px peer then (s, Inr (Some 403))
     else if sh_closed s then (s, Inr (Some 503))
     else if (case sh_deadline s of Some d \<Rightarrow> d \<le> t | None \<Rightarrow> False) then (s, Inr (Some 504))
     else if max_connections (px_limits px) \<le> sh_connection_attempts s \<or> px_event_limit px \<le> int (sh_next_sequence s)
     then (if px_event_limit px \<le> int (sh_next_sequence s) then s\<lparr>sh_event_overflow := True\<rparr> else s, Inr (Some 503))
     else (s, Inr None))"

definition reject_before_thread :: "egress_proxy \<Rightarrow> 'z proxy_shared_scheme \<Rightarrow> 'z proxy_shared_scheme" where
  "reject_before_thread px s =
     s\<lparr>sh_listener_rejections := min (Suc (sh_listener_rejections s))
         (max_connections (px_limits px) + nat (px_event_limit px) + 1)\<rparr>"

subsection \<open>Reading and parsing the request\<close>

function read_request_head :: "egress_env \<Rightarrow> egress_proxy \<Rightarrow> bytes \<Rightarrow> (handler, bytes \<times> bytes) act" where
  "read_request_head env px data s = (case cut_at (crlf @ crlf) data of
       Some (head, remainder) \<Rightarrow> (s, Inr (head, remainder))
     | None \<Rightarrow>
         if max_header_bytes (px_limits px) \<le> length data then (s, Inl (reject 431 ''header_limit''))
         else (case set_timeout env s of
             (s1, Inl e) \<Rightarrow> (s1, Inl e)
           | (s1, Inr _) \<Rightarrow>
               (case client_recv (min IO_CHUNK_BYTES (max_header_bytes (px_limits px) - length data + 1)) s1 of
                  (s2, Inl e) \<Rightarrow> (s2, Inl e)
                | (s2, Inr chunk) \<Rightarrow>
                    if chunk = [] then (s2, Inl (reject 400 ''client_closed''))
                    else if max_header_bytes (px_limits px) < length (data @ chunk)
                    then (s2, Inl (reject 431 ''header_limit''))
                    else read_request_head env px (data @ chunk) s2)))"
  by pat_completeness auto
termination
  by (relation "measure (\<lambda>(env, px, data, s). Suc (max_header_bytes (px_limits px)) - length data)")
    (auto simp flip: length_greater_0_conv)

declare read_request_head.simps [simp del]

definition REJECTED_REQUEST_HEADERS :: "string list" where
  "REJECTED_REQUEST_HEADERS = [''authorization'', ''content-length'', ''expect'', ''proxy-authorization'', ''te'',
     ''trailer'', ''transfer-encoding'', ''upgrade'']"

definition FORWARDED_REQUEST_HEADERS :: "string list" where
  "FORWARDED_REQUEST_HEADERS = [''accept'', ''accept-encoding'', ''accept-language'', ''cache-control'', ''cookie'',
     ''dnt'', ''if-modified-since'', ''if-none-match'', ''pragma'', ''range'', ''referer'', ''sec-ch-ua'',
     ''sec-ch-ua-mobile'', ''sec-ch-ua-platform'', ''sec-fetch-dest'', ''sec-fetch-mode'', ''sec-fetch-site'',
     ''sec-fetch-user'', ''upgrade-insecure-requests'', ''user-agent'']"

abbreviation malformed :: exn where "malformed \<equiv> reject 400 ''malformed_request''"

text \<open>One header line, given the headers read before it.\<close>

definition parse_header :: "(pystr \<times> bytes) list \<Rightarrow> bytes \<Rightarrow> (pystr \<times> bytes) list res" where
  "parse_header headers line =
     (if line = [] \<or> hd line = 32 \<or> hd line = 9 then Inl malformed
      else (case cut_at [58] line of
          None \<Rightarrow> Inl malformed
        | Some (raw_name, raw_value) \<Rightarrow>
            if raw_name = [] \<or> 64 < length raw_name \<or> \<not> list_all token_byte raw_name then Inl malformed
            else
              let name = map (\<lambda>b. ascii_lower (unat b)) raw_name; value = strip_blank raw_value in
              if name \<in> set (map fst headers) then Inl malformed
              else if list_ex (\<lambda>b. b < 32 \<and> b \<noteq> 9) value \<or> 127 \<in> set value then Inl malformed
              else Inr (headers @ [(name, value)])))"

fun parse_headers :: "bytes list \<Rightarrow> (pystr \<times> bytes) list \<Rightarrow> (pystr \<times> bytes) list res" where
  "parse_headers [] headers = Inr headers"
| "parse_headers (line # rest) headers = bindE (parse_header headers line) (parse_headers rest)"

definition ascii_or :: "exn \<Rightarrow> bytes \<Rightarrow> pystr res" where
  "ascii_or e b = (case ascii_text b of None \<Rightarrow> Inl e | Some t \<Rightarrow> Inr t)"

definition parse_request :: "egress_proxy \<Rightarrow> bytes \<Rightarrow> (pystr \<times> pystr \<times> (pystr \<times> bytes) list) res" where
  "parse_request px head =
     (let lines = splits crlf head; parts = splits [32] (hd lines) in
      if MAX_REQUEST_LINE_BYTES < length (hd lines) then Inl malformed
      else if max_header_count (px_limits px) < length lines - 1 then Inl (reject 431 ''header_limit'')
      else if length parts \<noteq> 3 \<or> [] \<in> set parts then Inl malformed
      else
        bindE (ascii_or malformed (parts ! 0)) (\<lambda>method_text.
        bindE (ascii_or malformed (parts ! 1)) (\<lambda>target.
        bindE (ascii_or malformed (parts ! 2)) (\<lambda>version.
        if version \<noteq> str ''HTTP/1.1'' then Inl malformed
        else bindE (parse_headers (tl lines) []) (\<lambda>headers.
          if str ''host'' \<notin> set (map fst headers) then Inl malformed
          else if list_ex (\<lambda>h. str h \<in> set (map fst headers)) REJECTED_REQUEST_HEADERS
          then Inl (reject 403 ''request_body_blocked'')
          else Inr (method_text, target, headers))))))"

subsection \<open>Choosing the policy\<close>

fun is_contract_error :: "exn \<Rightarrow> bool" where
  "is_contract_error (BrowserContractError m) = True" | "is_contract_error e = False"

text \<open>\<open>except (BrowserContractError, UnicodeError, ValueError)\<close>.\<close>

fun text_error :: "exn \<Rightarrow> bool" where
  "text_error (BrowserContractError m) = True"
| "text_error (ValueError m) = True"
| "text_error UnicodeError = True"
| "text_error e = False"

definition reraise_text :: "exn \<Rightarrow> 'a res \<Rightarrow> 'a res" where
  "reraise_text e m = (case m of Inl x \<Rightarrow> Inl (if text_error x then e else x) | Inr y \<Rightarrow> Inr y)"

definition origin_from_absolute_target :: "unicode_db \<Rightarrow> pystr \<Rightarrow> pystr option res" where
  "origin_from_absolute_target db target = (case normalize_url db (PStr target) of
       Inl e \<Rightarrow> if is_contract_error e then Inr None else Inl e
     | Inr normalized \<Rightarrow>
         bindE (urlsplit db normalized) (\<lambda>r.
         bindE (normalize_origin db (PStr (url_origin r))) (\<lambda>origin. Inr (Some origin))))"

definition http_origin_of :: "unicode_db \<Rightarrow> pystr \<Rightarrow> pystr option res" where
  "http_origin_of db target =
     bindE (origin_from_absolute_target db target) (\<lambda>origin. case origin of
         None \<Rightarrow> Inr None
       | Some x \<Rightarrow> bindE (urlsplit db x) (\<lambda>r. Inr (if sr_scheme r = str ''http'' then Some x else None)))"

definition authorized_http_policy ::
  "unicode_db \<Rightarrow> egress_proxy \<Rightarrow> pystr \<Rightarrow> bytes \<Rightarrow> (policy \<times> pystr) res" where
  "authorized_http_policy db px target host_header =
     bindE (reraise_text malformed
       (bindE (normalize_url db (PStr target)) (\<lambda>normalized.
        bindE (urlsplit db normalized) (\<lambda>r.
        bindE (normalize_origin db (PStr (url_origin r))) (\<lambda>origin. Inr (normalized, sr_scheme r, origin))))))
       (\<lambda>(normalized, scheme, origin).
     if scheme \<noteq> str ''http'' then Inl (reject 403 ''unauthorized_origin'')
     else (case map_of (px_policies px) origin of
         None \<Rightarrow> Inl (ProxyRejection 403 ''unauthorized_origin'' (Some origin) None False False)
       | Some policy \<Rightarrow>
           if po_scheme policy \<noteq> str ''http''
           then Inl (ProxyRejection 403 ''unauthorized_origin'' (Some origin) None False False)
           else
             bindE (reraise_text (ProxyRejection 400 ''malformed_request'' (Some origin) None False False)
               (bindE (ascii_or UnicodeError host_header) (\<lambda>host. normalize_origin db (PStr (str ''http://'' @ host)))))
               (\<lambda>host_origin.
             if host_origin \<noteq> origin
             then Inl (ProxyRejection 403 ''unauthorized_origin'' (Some origin) None False False)
             else Inr (policy, normalized))))"

definition connect_authority ::
  "unicode_db \<Rightarrow> egress_proxy \<Rightarrow> pystr \<Rightarrow> bytes \<Rightarrow> (policy \<times> pystr) res" where
  "connect_authority db px target host_header =
     (if count_list target 58 \<noteq> 1 then Inl malformed
      else
        let raw_host = before 58 target; raw_port = after 58 target in
        if raw_host = [] \<or> raw_port = [] \<or> \<not> list_all is_digit raw_port then Inl malformed
        else if 4300 < length raw_port then Inl (ValueError ''Exceeds the limit for integer string conversion'')
        else
          let port = digits_val raw_port in
          if \<not> (1 \<le> port \<and> port \<le> 65535) then Inl malformed
          else
            bindE (case normalize_origin db (PStr (str ''https://'' @ raw_host @ [58] @ dec port)) of
                     Inl e \<Rightarrow> Inl (if is_contract_error e then malformed else e) | Inr x \<Rightarrow> Inr x) (\<lambda>origin.
            bindE (urlsplit db origin) (\<lambda>r. case sr_hostname db r of
                None \<Rightarrow> Inl malformed
              | Some hostname \<Rightarrow>
                  let auth = hostname @ [58] @ dec port;
                      refused = ProxyRejection 403 ''unauthorized_origin'' None (Some auth) False False in
                  (case map_of (px_policies px) origin of
                     None \<Rightarrow> Inl refused
                   | Some policy \<Rightarrow>
                       if po_scheme policy \<noteq> str ''https'' \<or> po_port policy \<noteq> port then Inl refused
                       else
                         bindE (reraise_text (ProxyRejection 400 ''malformed_request'' None (Some auth) False False)
                           (bindE (ascii_or UnicodeError host_header) (\<lambda>host.
                              normalize_origin db (PStr (str ''https://'' @ host))))) (\<lambda>host_origin.
                         if host_origin \<noteq> origin then Inl refused else Inr (policy, auth))))))"

subsection \<open>Transfers\<close>

definition count_bytes :: "bool \<Rightarrow> int \<Rightarrow> handler \<Rightarrow> handler" where
  "count_bytes client_to_origin n s =
     (if client_to_origin then s\<lparr>hd_to_origin := hd_to_origin s + n\<rparr>
      else s\<lparr>hd_to_client := hd_to_client s + n\<rparr>)"

definition consume_transfer :: "egress_env \<Rightarrow> egress_proxy \<Rightarrow> int \<Rightarrow> bool \<Rightarrow> (handler, unit) act" where
  "consume_transfer env px n client_to_origin =
     bindA (remaining_time env) (\<lambda>_.
     bindA (consume (px_byte_limit px) n) (\<lambda>_.
     modA (count_bytes client_to_origin n)))"

text \<open>\<open>from_client\<close> says which socket is read, and so which way the bytes travel.\<close>

definition recv_transfer :: "egress_env \<Rightarrow> egress_proxy \<Rightarrow> bool \<Rightarrow> (handler, bytes) act" where
  "recv_transfer env px from_client =
     bindA (remaining_time env) (\<lambda>_.
     bindA (reserve (px_byte_limit px) (int IO_CHUNK_BYTES)) (\<lambda>reservation.
     bindA (tryA
         (bindA (set_timeout env) (\<lambda>_.
            if from_client then client_recv (nat reservation) else upstream_recv (nat reservation)))
         (\<lambda>e. bindA (cancel_reservation reservation) (\<lambda>_. raiseA e))) (\<lambda>chunk.
     bindA (commit_reservation reservation (int (length chunk))) (\<lambda>_.
     bindA (modA (count_bytes from_client (int (length chunk)))) (\<lambda>_.
     bindA (remaining_time env) (\<lambda>_. returnA chunk))))))"

subsection \<open>Connecting\<close>

text \<open>The rejection a policy's destination is attached to: an origin, or the authority of a tunnel.\<close>

definition rejected_at :: "policy \<Rightarrow> pystr option \<Rightarrow> int \<Rightarrow> string \<Rightarrow> bool \<Rightarrow> exn" where
  "rejected_at policy auth status reason egress = (case auth of
       None \<Rightarrow> ProxyRejection status reason (Some (po_origin policy)) None False egress
     | Some a \<Rightarrow> ProxyRejection status reason None (Some a) False egress)"

text \<open>The peer of a new connection must be the address that was dialled, on the policy's port.\<close>

definition check_peer :: "policy \<Rightarrow> pystr \<Rightarrow> upstream \<Rightarrow> unit res" where
  "check_peer policy address up =
     bindE (up_peer up) (\<lambda>peer. case peer of
         Some (host # port # _) \<Rightarrow>
           (case plain_int port of
              None \<Rightarrow> Inl (ValueError ''peer address is missing'')
            | Some p \<Rightarrow>
                bindE (validate_public_address host) (\<lambda>found.
                bindE (validate_public_address (PStr address)) (\<lambda>expected.
                if found \<noteq> expected \<or> found \<notin> set (po_addresses policy) \<or> p \<noteq> int (po_port policy)
                then Inl (bad ''connected peer is not pinned'') else Inr ())))
       | _ \<Rightarrow> Inl (ValueError ''peer address is missing''))"

text \<open>\<open>except (BrowserContractError, TypeError, ValueError, OSError)\<close>.\<close>

fun peer_error :: "exn \<Rightarrow> bool" where
  "peer_error TypeError = True"
| "peer_error (OSError n) = True"
| "peer_error TimeoutError = True"
| "peer_error e = text_error e"

fun socket_error :: "exn \<Rightarrow> bool" where
  "socket_error (OSError n) = True" | "socket_error TimeoutError = True" | "socket_error e = False"

definition close_upstream :: "handler \<Rightarrow> handler" where
  "close_upstream s = s\<lparr>hd_open_upstreams := hd_open_upstreams s - 1\<rparr>"

text \<open>After the connector returned: the peer and deadline checks, then the connection becomes active.\<close>

definition adopt_upstream ::
  "egress_env \<Rightarrow> policy \<Rightarrow> pystr option \<Rightarrow> pystr \<Rightarrow> upstream \<Rightarrow> (handler, unit) act" where
  "adopt_upstream env policy auth address up =
     bindA (modA (\<lambda>s. s\<lparr>hd_open_upstreams := Suc (hd_open_upstreams s)\<rparr>)) (\<lambda>_.
     bindA (tryA
         (bindA (liftA (check_peer policy address up)) (\<lambda>_. bindA (remaining_time env) (\<lambda>_. returnA ())))
         (\<lambda>e. if peer_error e
              then bindA (modA close_upstream) (\<lambda>_. raiseA (rejected_at policy auth 502 ''peer_mismatch'' True))
              else raiseA e)) (\<lambda>_.
     bindA (getA (closed_now env)) (\<lambda>closed.
     if closed
     then bindA (modA close_upstream) (\<lambda>_. raiseA (rejected_at policy auth 503 ''proxy_closed'' True))
     else modA (\<lambda>s. s\<lparr>sh_active_upstreams := he_upstream_id env # sh_active_upstreams s,
                      hd_upstream_in := up_incoming up\<rparr>))))"

fun connect_addresses ::
  "egress_env \<Rightarrow> policy \<Rightarrow> pystr option \<Rightarrow> pystr list \<Rightarrow> (handler, unit) act" where
  "connect_addresses env policy auth [] =
     raiseA (rejected_at policy auth 502 ''upstream_failure'' False)"
| "connect_addresses env policy auth (address # rest) =
     bindA (remaining_time env) (\<lambda>_.
     bindA (getA (\<lambda>s. length (hd_connects s))) (\<lambda>call.
     bindA (modA (\<lambda>s. s\<lparr>hd_connects := hd_connects s @ [(address, po_port policy)]\<rparr>)) (\<lambda>_.
     case he_connector env call address (po_port policy) of
       Inl e \<Rightarrow> if socket_error e then connect_addresses env policy auth rest else raiseA e
     | Inr up \<Rightarrow> adopt_upstream env policy auth address up)))"

definition connect :: "egress_env \<Rightarrow> egress_proxy \<Rightarrow> policy \<Rightarrow> pystr option \<Rightarrow> (handler, unit) act" where
  "connect env px policy auth =
     bindA (budget_remaining (px_byte_limit px)) (\<lambda>remaining.
     if remaining \<le> 0 then raiseA (rejected_at policy auth 503 ''byte_limit'' False)
     else connect_addresses env policy auth (po_addresses policy))"

definition release_upstream :: "egress_env \<Rightarrow> handler \<Rightarrow> handler" where
  "release_upstream env s =
     close_upstream (s\<lparr>sh_active_upstreams := removeAll (he_upstream_id env) (sh_active_upstreams s)\<rparr>)"

subsection \<open>Plain HTTP\<close>

definition forwarded_headers :: "(pystr \<times> bytes) list \<Rightarrow> bytes" where
  "forwarded_headers headers =
     concat (map (\<lambda>name. map byte_of name @ [58, 32] @ the (map_of headers name) @ crlf)
       (sort (filter (\<lambda>name. name \<in> set (map fst headers)) (map str FORWARDED_REQUEST_HEADERS))))"

definition outbound_request :: "unicode_db \<Rightarrow> policy \<Rightarrow> pystr \<Rightarrow> pystr \<Rightarrow> (pystr \<times> bytes) list \<Rightarrow> bytes res" where
  "outbound_request db policy method_text normalized headers =
     bindE (urlsplit db normalized) (\<lambda>r.
       let path = (if sr_path r = [] then [47] else sr_path r);
           request_target = path @ (if sr_query r = [] then [] else 63 # sr_query r);
           host = (if po_port policy = 80 then po_hostname policy
                   else po_hostname policy @ [58] @ dec (po_port policy)) in
       bindE (ascii_bytes (method_text @ [32] @ request_target @ str '' HTTP/1.1'' @ [13, 10] @ str ''Host: '' @ host @ [13, 10]))
         (\<lambda>start. Inr (start @ forwarded_headers headers @ bytes_of ''Connection: close'' @ crlf @ crlf)))"

text \<open>
  The relay of the response: one call of \<open>recv_transfer\<close> per piece, until the origin closes. Each piece is
  taken from the budget, so the loop ends; \<open>px_byte_limit + 1\<close> turns are enough.
\<close>

fun relay_response :: "egress_env \<Rightarrow> egress_proxy \<Rightarrow> policy \<Rightarrow> nat \<Rightarrow> (handler, unit) act" where
  "relay_response env px policy 0 = raiseA RecursionError"
| "relay_response env px policy (Suc n) =
     bindA (tryA (recv_transfer env px False)
         (\<lambda>e. if e = TimeoutError
              then bindA (getA hd_to_client) (\<lambda>sent.
                raiseA (ProxyRejection 504 ''deadline'' (Some (po_origin policy)) None (0 < sent) False))
              else raiseA e)) (\<lambda>chunk.
     if chunk = [] then returnA ()
     else
       bindA (set_timeout env) (\<lambda>_.
       bindA (client_send env chunk) (\<lambda>_. relay_response env px policy n)))"

text \<open>The three \<open>except\<close> clauses of \<open>_handle_plain_http\<close>.\<close>

definition plain_failure :: "policy \<Rightarrow> exn \<Rightarrow> (handler, 'a) act" where
  "plain_failure policy e = bindA (getA hd_to_client) (\<lambda>sent. case e of
       ProxyRejection status reason wo ca started egress \<Rightarrow>
         raiseA (ProxyRejection status reason
           (if wo = None \<and> ca = None then Some (po_origin policy) else wo) ca (0 < sent) True)
     | _ \<Rightarrow> raiseA (ProxyRejection 502 ''upstream_failure'' (Some (po_origin policy)) None (0 < sent) True))"

definition handle_plain_http :: "unicode_db \<Rightarrow> egress_env \<Rightarrow> egress_proxy \<Rightarrow> pystr \<Rightarrow> pystr \<Rightarrow>
    (pystr \<times> bytes) list \<Rightarrow> (handler, pystr) act" where
  "handle_plain_http db env px method_text target headers =
     bindA (liftA (bindE (authorized_http_policy db px target (the (map_of headers (str ''host'')))) (\<lambda>(policy, normalized).
        bindE (outbound_request db policy method_text normalized headers) (\<lambda>outbound. Inr (policy, outbound)))))
       (\<lambda>(policy, outbound).
     bindA (connect env px policy None) (\<lambda>_.
     bindA (finallyA
         (tryA
           (bindA (consume_transfer env px (int (length outbound)) True) (\<lambda>_.
            bindA (set_timeout env) (\<lambda>_.
            bindA (upstream_send env outbound) (\<lambda>_.
            relay_response env px policy (nat (px_byte_limit px) + 1)))))
           (plain_failure policy))
         (release_upstream env)) (\<lambda>_.
     returnA (po_origin policy))))"

subsection \<open>Tunnels\<close>

abbreviation tunnel_deadline :: "pystr \<Rightarrow> exn" where
  "tunnel_deadline auth \<equiv> ProxyRejection 504 ''deadline'' None (Some auth) True False"

text \<open>One round of ready sockets, the client's first when \<open>True\<close>; the state is the time of the last
  activity and which sides are still read.\<close>

fun relay_events :: "egress_env \<Rightarrow> egress_proxy \<Rightarrow> pystr \<Rightarrow> bool list \<Rightarrow> rat \<times> bool \<times> bool \<Rightarrow>
    (handler, rat \<times> bool \<times> bool) act" where
  "relay_events env px auth [] st = returnA st"
| "relay_events env px auth (from_client # rest) (last_activity, client_open, upstream_open) =
     bindA (tryA (recv_transfer env px from_client)
         (\<lambda>e. raiseA (if e = TimeoutError then tunnel_deadline auth else e))) (\<lambda>chunk.
     if chunk = [] then
       relay_events env px auth rest
         (last_activity, client_open \<and> \<not> from_client, upstream_open \<and> from_client)
     else
       bindA (set_timeout env) (\<lambda>_.
       bindA (if from_client then upstream_send env chunk else client_send env chunk) (\<lambda>_.
       bindA (now env) (\<lambda>t. relay_events env px auth rest (t, client_open, upstream_open)))))"

fun relay_tunnel :: "egress_env \<Rightarrow> egress_proxy \<Rightarrow> pystr \<Rightarrow> bool list list \<Rightarrow> rat \<times> bool \<times> bool \<Rightarrow>
    (handler, unit) act" where
  "relay_tunnel env px auth [] (last_activity, client_open, upstream_open) =
     (if \<not> client_open \<and> \<not> upstream_open then returnA ()
      else bindA (remaining_time env) (\<lambda>_. raiseA (tunnel_deadline auth)))"
| "relay_tunnel env px auth (ready # rest) (last_activity, client_open, upstream_open) =
     (if \<not> client_open \<and> \<not> upstream_open then returnA ()
      else
        bindA (remaining_time env) (\<lambda>_.
        bindA (now env) (\<lambda>t.
        if last_activity + idle_timeout_sec (px_limits px) - t \<le> 0 then raiseA (tunnel_deadline auth)
        else
          let events = filter (\<lambda>side. if side then client_open else upstream_open) (remdups ready) in
          if events = [] then
            bindA (remaining_time env) (\<lambda>_.
            bindA (now env) (\<lambda>t'.
            if last_activity + idle_timeout_sec (px_limits px) \<le> t' then raiseA (tunnel_deadline auth)
            else relay_tunnel env px auth rest (last_activity, client_open, upstream_open)))
          else
            bindA (relay_events env px auth events (last_activity, client_open, upstream_open))
              (relay_tunnel env px auth rest))))"

text \<open>The three \<open>except\<close> clauses of \<open>_handle_connect\<close>; \<open>started\<close> is its \<open>response_started\<close>.\<close>

definition connect_failure :: "pystr \<Rightarrow> bool \<Rightarrow> exn \<Rightarrow> (handler, 'a) act" where
  "connect_failure auth started e = (case e of
       ProxyRejection status reason wo ca before_it egress \<Rightarrow>
         raiseA (ProxyRejection status reason None (Some auth) (started \<or> before_it) True)
     | _ \<Rightarrow> raiseA (ProxyRejection 502 ''upstream_failure'' None (Some auth) started True))"

definition ESTABLISHED :: bytes where
  "ESTABLISHED = bytes_of ''HTTP/1.1 200 Connection Established'' @ crlf @
     bytes_of ''Proxy-Agent: Cindermote-Browser-Egress/1'' @ crlf @ crlf"

definition run_tunnel :: "egress_env \<Rightarrow> egress_proxy \<Rightarrow> pystr \<Rightarrow> bytes \<Rightarrow> (handler, unit) act" where
  "run_tunnel env px auth remainder =
     bindA (if remainder = [] then returnA ()
            else bindA (consume_transfer env px (int (length remainder)) True) (\<lambda>_.
                 bindA (set_timeout env) (\<lambda>_. upstream_send env remainder))) (\<lambda>_.
     bindA (now env) (\<lambda>t. relay_tunnel env px auth (he_ready env) (t, True, True)))"

definition handle_connect :: "unicode_db \<Rightarrow> egress_env \<Rightarrow> egress_proxy \<Rightarrow> pystr \<Rightarrow> (pystr \<times> bytes) list \<Rightarrow> bytes \<Rightarrow>
    (handler, pystr) act" where
  "handle_connect db env px target headers remainder =
     bindA (liftA (connect_authority db px target (the (map_of headers (str ''host''))))) (\<lambda>(policy, auth).
     bindA (connect env px policy (Some auth)) (\<lambda>_.
     bindA (finallyA
         (bindA (tryA (bindA (set_timeout env) (\<lambda>_. client_send env ESTABLISHED)) (connect_failure auth False)) (\<lambda>_.
          tryA (run_tunnel env px auth remainder) (connect_failure auth True)))
         (release_upstream env)) (\<lambda>_.
     returnA auth)))"

subsection \<open>One client\<close>

definition handle_request ::
  "unicode_db \<Rightarrow> egress_env \<Rightarrow> egress_proxy \<Rightarrow> (handler, pystr option \<times> pystr option) act" where
  "handle_request db env px =
     bindA (read_request_head env px []) (\<lambda>(head, remainder).
     bindA (liftA (parse_request px head)) (\<lambda>(method_text, target, headers).
     if method_text = str ''CONNECT'' then
       bindA (handle_connect db env px target headers remainder) (\<lambda>auth. returnA (None, Some auth))
     else if method_text \<noteq> str ''GET'' \<and> method_text \<noteq> str ''HEAD'' then
       bindA (liftA (http_origin_of db target)) (\<lambda>origin.
       raiseA (ProxyRejection 405 ''method_blocked'' origin None False False))
     else if remainder \<noteq> [] then
       bindA (liftA (http_origin_of db target)) (\<lambda>origin.
       raiseA (ProxyRejection 403 ''request_body_blocked'' origin None False False))
     else
       bindA (handle_plain_http db env px method_text target headers) (\<lambda>origin. returnA (Some origin, None))))"

text \<open>Before the request is read: the client's address, its registration, its number and its slot.\<close>

definition check_client :: "egress_env \<Rightarrow> egress_proxy \<Rightarrow> unit res" where
  "check_client env px = (case he_peer env of
       Inl e \<Rightarrow> Inl (reject 403 ''unauthorized_client'')
     | Inr peer \<Rightarrow> if peer_matches_allowed_client px peer then Inr () else Inl (reject 403 ''unauthorized_client''))"

definition register_client :: "egress_env \<Rightarrow> (handler, unit) act" where
  "register_client env = (\<lambda>s.
     if closed_now env s then (s, Inl (reject 503 ''proxy_closed''))
     else (s\<lparr>sh_active_clients := he_client_id env # sh_active_clients s, hd_registered := True\<rparr>, Inr ()))"

definition count_attempt :: "egress_proxy \<Rightarrow> nat \<Rightarrow> (handler, unit) act" where
  "count_attempt px n = (\<lambda>s.
     let attempt = Suc (sh_connection_attempts s) in
     (s\<lparr>hd_sequence := Some n, sh_connection_attempts := attempt\<rparr>,
      if max_connections (px_limits px) < attempt then Inl (reject 503 ''connection_limit'') else Inr ()))"

definition acquire_slot :: "(handler, unit) act" where
  "acquire_slot = (\<lambda>s. case sh_free_slots s of
       0 \<Rightarrow> (s, Inl (reject 503 ''concurrency_limit''))
     | Suc n \<Rightarrow> (s\<lparr>sh_free_slots := n, hd_acquired := True\<rparr>, Inr ()))"

text \<open>The body of the \<open>try\<close> of \<open>handle_client\<close>; \<open>None\<close> is its early return without a sequence number.\<close>

definition client_body ::
  "unicode_db \<Rightarrow> egress_env \<Rightarrow> egress_proxy \<Rightarrow> (handler, (pystr option \<times> pystr option) option) act" where
  "client_body db env px =
     bindA (liftA (check_client env px)) (\<lambda>_.
     bindA (tryA (begin_runtime env px)
         (\<lambda>e. raiseA (case e of BrowserEgressClosed m \<Rightarrow> reject 503 ''proxy_closed'' | _ \<Rightarrow> e))) (\<lambda>_.
     bindA (register_client env) (\<lambda>_.
     bindA (reserve_event (px_event_limit px)) (\<lambda>sequence. case sequence of
         None \<Rightarrow> bindA (modA (safe_error env 503)) (\<lambda>_. returnA None)
       | Some n \<Rightarrow>
           bindA (count_attempt px n) (\<lambda>_.
           bindA acquire_slot (\<lambda>_.
           bindA (remaining_time env) (\<lambda>_.
           bindA (handle_request db env px) (\<lambda>destination. returnA (Some destination)))))))))"

text \<open>The \<open>finally\<close> block: give back the client's place and its slot, and record the event.\<close>

definition close_client :: "egress_env \<Rightarrow> pystr option \<Rightarrow> pystr option \<Rightarrow> string \<Rightarrow> string \<Rightarrow> handler \<Rightarrow> handler" where
  "close_client env web_origin auth disposition reason s =
     (let s1 = (if hd_registered s
                then s\<lparr>sh_active_clients := removeAll (he_client_id env) (sh_active_clients s)\<rparr> else s);
          s2 = (if hd_acquired s then s1\<lparr>sh_free_slots := Suc (sh_free_slots s1)\<rparr> else s1)
      in case hd_sequence s of
           None \<Rightarrow> s2
         | Some n \<Rightarrow>
             fst (finish_event n web_origin auth disposition reason (hd_to_origin s) (hd_to_client s) s2))"

definition handle_client :: "unicode_db \<Rightarrow> egress_env \<Rightarrow> egress_proxy \<Rightarrow> handler \<Rightarrow> handler" where
  "handle_client db env px s = (case client_body db env px s of
       (s1, Inr None) \<Rightarrow> close_client env None None ''blocked'' ''malformed_request'' s1
     | (s1, Inr (Some (web_origin, auth))) \<Rightarrow>
         close_client env web_origin auth ''allowed'' ''completed'' s1
     | (s1, Inl (ProxyRejection status reason web_origin auth started egress)) \<Rightarrow>
         close_client env web_origin auth (if egress then ''allowed'' else ''blocked'') reason
           (if started then s1 else safe_error env status s1)
     | (s1, Inl e) \<Rightarrow> close_client env None None ''blocked'' ''upstream_failure'' (safe_error env 502 s1))"

text \<open>The state of a freshly accepted connection on a proxy with shared state \<open>sh\<close>.\<close>

definition accepted :: "proxy_shared \<Rightarrow> bytes res list \<Rightarrow> handler" where
  "accepted sh incoming = proxy_shared.extend sh
     \<lparr>hd_tick = 0, hd_client_in = incoming, hd_client_out = [], hd_upstream_in = [], hd_upstream_out = [],
      hd_connects = [], hd_open_upstreams = 0, hd_to_origin = 0, hd_to_client = 0, hd_sequence = None,
      hd_registered = False, hd_acquired = False\<rparr>"

definition fresh_proxy :: "egress_proxy \<Rightarrow> proxy_shared" where
  "fresh_proxy px =
     \<lparr>sh_events = [], sh_inflight = [], sh_event_overflow = False, sh_next_sequence = 0, sh_connection_attempts = 0,
      sh_listener_rejections = 0, sh_started_at = None, sh_deadline = None, sh_closed = False,
      sh_active_clients = [], sh_active_upstreams = [], sh_used = 0, sh_reserved = 0,
      sh_free_slots = max_concurrent_connections (px_limits px)\<rparr>"

end
