(* ===== verification/Egress_Steps.thy ===== *)
theory Egress_Steps
  imports Egress_Proxy
begin

section \<open>Egress proxy: the shared state under concurrency\<close>

text \<open>
  The handlers of the proxy run in parallel, but touch the shared state only in blocks under a lock. \<open>egress_step\<close>
  has one rule per block; the second component of its states is the multiset of byte reservations the running
  handlers hold. \<open>egress_inv\<close> is what every interleaving keeps.

  The locale \<open>handler_frame\<close> lists the primitive actions of a handler that a predicate must survive, and shows
  that then everything up to the first send to the origin keeps it; \<open>handler_body\<close> adds the sends and
  \<open>handler_invariant\<close> the record of the event, which covers a whole run of \<open>handle_client\<close>. They are interpreted on the step relation, which makes \<open>handle_client\<close> a
  sequence of shared steps, and in \<open>Egress_Facts\<close> on the addresses dialled and on the bytes sent.
\<close>

subsection \<open>Steps\<close>

inductive egress_step :: "egress_proxy \<Rightarrow> proxy_shared \<times> int multiset \<Rightarrow> proxy_shared \<times> int multiset \<Rightarrow> bool"
  for px where
  Consume: "consume (px_byte_limit px) n s = (s', Inr ()) \<Longrightarrow> egress_step px (s, R) (s', R)"
| Reserve: "reserve (px_byte_limit px) n s = (s', Inr r) \<Longrightarrow> egress_step px (s, R) (s', add_mset r R)"
| Commit: "commit_reservation r n s = (s', Inr ()) \<Longrightarrow> egress_step px (s, add_mset r R) (s', R)"
| Cancel: "cancel_reservation r s = (s', Inr ()) \<Longrightarrow> egress_step px (s, add_mset r R) (s', R)"
| Begin_runtime: "\<not> sh_closed s \<Longrightarrow> sh_started_at s = None \<Longrightarrow>
    egress_step px (s, R) (s\<lparr>sh_started_at := Some t, sh_deadline := Some (t + of_int (px_wall_clock px))\<rparr>, R)"
| Screen: "transport_rejection_status px peer t s = (s', Inr x) \<Longrightarrow> egress_step px (s, R) (s', R)"
| Refuse: "egress_step px (s, R) (reject_before_thread px s, R)"
| Register: "\<not> sh_closed s \<Longrightarrow> egress_step px (s, R) (s\<lparr>sh_active_clients := c # sh_active_clients s\<rparr>, R)"
| Unregister: "egress_step px (s, R) (s\<lparr>sh_active_clients := removeAll c (sh_active_clients s)\<rparr>, R)"
| Reserve_event: "reserve_event (px_event_limit px) s = (s', Inr x) \<Longrightarrow> egress_step px (s, R) (s', R)"
| Attempt: "egress_step px (s, R) (s\<lparr>sh_connection_attempts := Suc (sh_connection_attempts s)\<rparr>, R)"
| Acquire: "sh_free_slots s = Suc n \<Longrightarrow> egress_step px (s, R) (s\<lparr>sh_free_slots := n\<rparr>, R)"
| Release: "egress_step px (s, R) (s\<lparr>sh_free_slots := Suc (sh_free_slots s)\<rparr>, R)"
| Open_upstream: "\<not> sh_closed s \<Longrightarrow> egress_step px (s, R) (s\<lparr>sh_active_upstreams := u # sh_active_upstreams s\<rparr>, R)"
| Close_upstream: "egress_step px (s, R) (s\<lparr>sh_active_upstreams := removeAll u (sh_active_upstreams s)\<rparr>, R)"
| Finish_event: "finish_event n wo ca d rc to_origin to_client s = (s', Inr ()) \<Longrightarrow> egress_step px (s, R) (s', R)"
| Shutdown: "egress_step px (s, R) (s\<lparr>sh_closed := True\<rparr>, R)"

abbreviation egress_steps ::
  "egress_proxy \<Rightarrow> proxy_shared \<times> int multiset \<Rightarrow> proxy_shared \<times> int multiset \<Rightarrow> bool" where
  "egress_steps px \<equiv> (egress_step px)\<^sup>*\<^sup>*"

subsection \<open>The invariant\<close>

definition bytes_inv :: "egress_proxy \<Rightarrow> 'z proxy_shared_scheme \<Rightarrow> int multiset \<Rightarrow> bool" where
  "bytes_inv px s R \<longleftrightarrow> 0 \<le> sh_used s \<and> sh_reserved s = sum_mset R \<and> (\<forall>r\<in>#R. 0 < r) \<and>
     sh_used s + sh_reserved s \<le> px_byte_limit px"

definition events_inv :: "egress_proxy \<Rightarrow> 'z proxy_shared_scheme \<Rightarrow> bool" where
  "events_inv px s \<longleftrightarrow> distinct (map fst (sh_events s)) \<and>
     fst ` set (sh_events s) \<union> set (sh_inflight s) = {..<sh_next_sequence s} \<and>
     fst ` set (sh_events s) \<inter> set (sh_inflight s) = {} \<and>
     (sh_next_sequence s = 0 \<or> int (sh_next_sequence s) \<le> px_event_limit px) \<and>
     (\<forall>(n, e)\<in>set (sh_events s). pe_sequence e = n \<and> pe_disposition e \<in> {''allowed'', ''blocked''} \<and>
        pe_reason_code e \<in> set REASON_CODES)"

definition egress_inv :: "egress_proxy \<Rightarrow> proxy_shared \<times> int multiset \<Rightarrow> bool" where
  "egress_inv px = (\<lambda>(s, R). bytes_inv px s R \<and> events_inv px s)"

lemmas budget_defs = consume_def reserve_def commit_reservation_def cancel_reservation_def

lemma bytes_keeps:
  "consume (px_byte_limit px) n s = (s', Inr u) \<Longrightarrow> bytes_inv px s R \<Longrightarrow> bytes_inv px s' R"
  "reserve (px_byte_limit px) n s = (s', Inr r) \<Longrightarrow> bytes_inv px s R \<Longrightarrow> bytes_inv px s' (add_mset r R)"
  "commit_reservation r n s = (s', Inr u) \<Longrightarrow> bytes_inv px s (add_mset r R) \<Longrightarrow> bytes_inv px s' R"
  "cancel_reservation r s = (s', Inr u) \<Longrightarrow> bytes_inv px s (add_mset r R) \<Longrightarrow> bytes_inv px s' R"
  by (auto simp: budget_defs bytes_inv_def Let_def split: if_splits)

lemma same_events:
  "sh_events s' = sh_events s \<Longrightarrow> sh_inflight s' = sh_inflight s \<Longrightarrow> sh_next_sequence s' = sh_next_sequence s \<Longrightarrow>
   events_inv px s' = events_inv px s"
  by (simp add: events_inv_def)

lemma events_reserve:
  assumes "reserve_event (px_event_limit px) s = (s', Inr x)" "events_inv px s"
  shows "events_inv px s'"
proof (cases "px_event_limit px \<le> int (sh_next_sequence s)")
  case True
  with assms(1) have "s' = s\<lparr>sh_event_overflow := True\<rparr>" by (simp add: reserve_event_def)
  with assms(2) same_events [of s' s] show ?thesis by simp
next
  case False
  let ?K = "fst ` set (sh_events s)"
  have inv: "?K \<union> set (sh_inflight s) = {..<sh_next_sequence s}" "?K \<inter> set (sh_inflight s) = {}"
    using assms(2) by (auto simp only: events_inv_def)
  then have "sh_next_sequence s \<notin> ?K" by blast
  with inv have "?K \<union> insert (sh_next_sequence s) (set (sh_inflight s)) = {..<Suc (sh_next_sequence s)}"
    "?K \<inter> insert (sh_next_sequence s) (set (sh_inflight s)) = {}"
    by (simp_all add: lessThan_Suc)
  moreover have "s' = s\<lparr>sh_next_sequence := Suc (sh_next_sequence s), sh_inflight := sh_next_sequence s # sh_inflight s\<rparr>"
    using assms(1) False by (simp add: reserve_event_def)
  ultimately show ?thesis using assms(2) False by (simp add: events_inv_def)
qed

lemma update_new: "n \<notin> fst ` set al \<Longrightarrow> AList.update n e al = al @ [(n, e)]"
  by (induction al) auto

lemma events_finish:
  assumes "finish_event n wo ca d rc a b s = (s', Inr u)" "events_inv px s"
  shows "events_inv px s'"
proof -
  let ?K = "fst ` set (sh_events s)"
  let ?e = "\<lparr>pe_sequence = n, pe_web_origin = wo, pe_connect_authority = ca, pe_disposition = d, pe_reason_code = rc,
    pe_client_to_origin = a, pe_origin_to_client = b\<rparr>"
  have inv: "?K \<union> set (sh_inflight s) = {..<sh_next_sequence s}" "?K \<inter> set (sh_inflight s) = {}"
    using assms(2) by (auto simp only: events_inv_def)
  have n: "n \<in> set (sh_inflight s)" using assms(1) by (auto simp: finish_event_def split: if_splits)
  with inv have "n \<notin> ?K" by blast
  moreover from n inv have "insert n ?K \<union> (set (sh_inflight s) - {n}) = {..<sh_next_sequence s}"
    "insert n ?K \<inter> (set (sh_inflight s) - {n}) = {}" by blast+
  moreover have "s' = s\<lparr>sh_inflight := removeAll n (sh_inflight s), sh_events := AList.update n ?e (sh_events s)\<rparr>"
    "d \<in> {''allowed'', ''blocked''}" "rc \<in> set REASON_CODES"
    using assms(1) by (simp_all add: finish_event_def split: if_splits)
  ultimately show ?thesis using assms(2) unfolding events_inv_def by (simp add: update_new)
qed

lemma same_bytes: "sh_used s' = sh_used s \<Longrightarrow> sh_reserved s' = sh_reserved s \<Longrightarrow> bytes_inv px s' R = bytes_inv px s R"
  by (simp add: bytes_inv_def)

lemma egress_step_inv: "egress_step px x y \<Longrightarrow> egress_inv px x \<Longrightarrow> egress_inv px y"
proof (induction rule: egress_step.induct)
  case (Screen peer t s s' x R)
  have "sh_events s' = sh_events s \<and> sh_inflight s' = sh_inflight s \<and> sh_next_sequence s' = sh_next_sequence s \<and>
      sh_used s' = sh_used s \<and> sh_reserved s' = sh_reserved s"
    using Screen(1) by (auto simp: transport_rejection_status_def split: if_splits)
  with Screen(2) same_events [of s' s] same_bytes [of s' s] show ?case by (simp add: egress_inv_def)
next
  case (Reserve_event s s' x R)
  then have "sh_used s' = sh_used s \<and> sh_reserved s' = sh_reserved s"
    by (auto simp: reserve_event_def split: if_splits)
  with Reserve_event events_reserve [of px s s' x] same_bytes [of s' s] show ?case by (simp add: egress_inv_def)
next
  case (Finish_event n wo ca d rc a b s s' R)
  then have "sh_used s' = sh_used s \<and> sh_reserved s' = sh_reserved s"
    by (auto simp: finish_event_def split: if_splits)
  with Finish_event events_finish [of n wo ca d rc a b s s'] same_bytes [of s' s]
  show ?case by (simp add: egress_inv_def)
next
  case (Consume n s s' R)
  then have "sh_events s' = sh_events s \<and> sh_inflight s' = sh_inflight s \<and> sh_next_sequence s' = sh_next_sequence s"
    by (auto simp: budget_defs split: if_splits)
  with Consume(2) bytes_keeps(1) [OF Consume(1)] same_events [of s' s] show ?case by (simp add: egress_inv_def)
next
  case (Reserve n s s' r R)
  then have "sh_events s' = sh_events s \<and> sh_inflight s' = sh_inflight s \<and> sh_next_sequence s' = sh_next_sequence s"
    by (auto simp: budget_defs Let_def split: if_splits)
  with Reserve(2) bytes_keeps(2) [OF Reserve(1)] same_events [of s' s] show ?case by (simp add: egress_inv_def)
next
  case (Commit r n s s' R)
  then have "sh_events s' = sh_events s \<and> sh_inflight s' = sh_inflight s \<and> sh_next_sequence s' = sh_next_sequence s"
    by (auto simp: budget_defs split: if_splits)
  with Commit(2) bytes_keeps(3) [OF Commit(1)] same_events [of s' s] show ?case by (simp add: egress_inv_def)
next
  case (Cancel r s s' R)
  then have "sh_events s' = sh_events s \<and> sh_inflight s' = sh_inflight s \<and> sh_next_sequence s' = sh_next_sequence s"
    by (auto simp: budget_defs split: if_splits)
  with Cancel(2) bytes_keeps(4) [OF Cancel(1)] same_events [of s' s] show ?case by (simp add: egress_inv_def)
qed (auto simp: egress_inv_def bytes_inv_def events_inv_def reject_before_thread_def)

lemma fresh_proxy_inv: "0 \<le> px_byte_limit px \<Longrightarrow> egress_inv px (fresh_proxy px, {#})"
  by (simp add: egress_inv_def bytes_inv_def events_inv_def fresh_proxy_def)

lemma egress_steps_inv: "egress_steps px x y \<Longrightarrow> egress_inv px x \<Longrightarrow> egress_inv px y"
  by (induction rule: rtranclp_induct) (auto intro: egress_step_inv)

lemma events_snapshot_sequences:
  assumes "events_inv px s" "sh_inflight s = []"
  shows "map pe_sequence (events_snapshot s) = [0..<sh_next_sequence s]"
proof -
  let ?ks = "map fst (sort_key fst (sh_events s))"
  have "\<forall>x\<in>set (sort_key fst (sh_events s)). pe_sequence (snd x) = fst x"
    using assms(1) by (auto simp: events_inv_def)
  then have "map pe_sequence (events_snapshot s) = ?ks" by (simp add: events_snapshot_def)
  moreover have "sorted ?ks" by simp
  moreover have "distinct ?ks"
  proof -
    have "mset ?ks = mset (map fst (sh_events s))" by simp
    with assms(1) show ?thesis unfolding events_inv_def by (metis mset_eq_imp_distinct_iff)
  qed
  moreover have "set ?ks = {0..<sh_next_sequence s}"
    using assms by (auto simp: events_inv_def lessThan_atLeast0)
  ultimately show ?thesis by (metis sorted_distinct_set_unique sorted_upt distinct_upt set_upt)
qed

subsection \<open>Invariants of a handler\<close>

abbreviation shared :: "handler \<Rightarrow> proxy_shared" where
  "shared s \<equiv> proxy_shared.truncate s"

text \<open>A computation keeps \<open>J\<close> whether it returns or raises.\<close>

definition keeps :: "('s \<Rightarrow> bool) \<Rightarrow> ('s, 'a) act \<Rightarrow> bool" where
  "keeps J m \<longleftrightarrow> hoare J m (\<lambda>_. J) (\<lambda>_. J)"

lemma keeps_bind: "keeps J m \<Longrightarrow> (\<And>x. keeps J (f x)) \<Longrightarrow> keeps J (bindA m f)"
  unfolding keeps_def by (rule hoare_bind)

lemma keeps_try: "keeps J m \<Longrightarrow> (\<And>e. keeps J (h e)) \<Longrightarrow> keeps J (tryA m h)"
  unfolding keeps_def by (rule hoare_try)

lemma keeps_finally: "keeps J m \<Longrightarrow> (\<And>s. J s \<Longrightarrow> J (f s)) \<Longrightarrow> keeps J (finallyA m f)"
  unfolding keeps_def by (rule hoare_finally) (erule hoare_cons, auto)

lemma keeps_lift: "keeps J (liftA r)"
  by (simp add: keeps_def split: sum.split)

lemma keeps_get: "keeps J (getA f)"
  by (simp add: keeps_def)

lemma keeps_mod: "(\<And>s. J s \<Longrightarrow> J (f s)) \<Longrightarrow> keeps J (modA f)"
  by (simp add: keeps_def)

lemma keepsI: "(\<And>s. J s \<Longrightarrow> J (fst (m s))) \<Longrightarrow> keeps J m"
  by (simp add: keeps_def hoare_def case_prod_beta split: sum.split)

lemma keepsD: "keeps J m \<Longrightarrow> J s \<Longrightarrow> m s = (s', r) \<Longrightarrow> J s'"
  by (cases r) (auto simp: keeps_def dest: hoare_Inr hoare_Inl)

lemma keeps_fst: "keeps J m \<Longrightarrow> J s \<Longrightarrow> J (fst (m s))"
  by (cases "m s") (auto dest: keepsD)

lemma keeps_lift_bind: "(\<And>x. r = Inr x \<Longrightarrow> keeps J (f x)) \<Longrightarrow> keeps J (bindA (liftA r) f)"
  by (cases r) (simp_all add: keeps_def hoare_def bindA_def liftA_def)

lemmas keeps_intros = keeps_bind keeps_try keeps_finally keeps_lift keeps_get keeps_mod

text \<open>Both choices of a policy take it from the pinned table.\<close>

lemma map_of_policy: "map_of ps k = Some p \<Longrightarrow> p \<in> snd ` set ps"
  by (metis image_eqI map_of_SomeD snd_conv)

lemma http_policy_Inr:
  assumes "authorized_http_policy db px target h = Inr (p, u)"
  shows "\<exists>origin r. map_of (px_policies px) origin = Some p \<and> normalize_url db (PStr target) = Inr u \<and>
    urlsplit db u = Inr r \<and> normalize_origin db (PStr (url_origin r)) = Inr origin \<and> sr_scheme r = str ''http'' \<and>
    po_scheme p = str ''http''"
proof -
  from assms obtain v scheme origin where a: "reraise_text malformed
       (bindE (normalize_url db (PStr target)) (\<lambda>normalized.
        bindE (urlsplit db normalized) (\<lambda>r.
        bindE (normalize_origin db (PStr (url_origin r))) (\<lambda>origin. Inr (normalized, sr_scheme r, origin))))) =
      Inr (v, scheme, origin)" "scheme = str ''http''" "map_of (px_policies px) origin = Some p"
    "po_scheme p = str ''http''" "v = u"
    by (auto simp: authorized_http_policy_def bindE_eq_Inr split: option.split_asm if_split_asm)
  then show ?thesis by (auto simp: reraise_text_def bindE_eq_Inr split: sum.split_asm)
qed

lemma connect_policy_Inr:
  assumes "connect_authority db px target h = Inr (p, auth)"
  shows "\<exists>origin r hostname. map_of (px_policies px) origin = Some p \<and> urlsplit db origin = Inr r \<and>
    sr_hostname db r = Some hostname \<and> auth = hostname @ [58] @ dec (po_port p) \<and> po_scheme p = str ''https''"
proof -
  from assms obtain origin r where "urlsplit db origin = Inr r"
    "(case sr_hostname db r of None \<Rightarrow> Inl malformed
      | Some hostname \<Rightarrow>
          let auth = hostname @ [58] @ dec (digits_val (after 58 target));
              refused = ProxyRejection 403 ''unauthorized_origin'' None (Some auth) False False in
          (case map_of (px_policies px) origin of
             None \<Rightarrow> Inl refused
           | Some policy \<Rightarrow>
               if po_scheme policy \<noteq> str ''https'' \<or> po_port policy \<noteq> digits_val (after 58 target) then Inl refused
               else
                 bindE (reraise_text (ProxyRejection 400 ''malformed_request'' None (Some auth) False False)
                   (bindE (ascii_or UnicodeError h) (\<lambda>host. normalize_origin db (PStr (str ''https://'' @ host)))))
                   (\<lambda>host_origin. if host_origin \<noteq> origin then Inl refused else Inr (policy, auth)))) = Inr (p, auth)"
    by (auto simp: connect_authority_def Let_def bindE_eq_Inr split: if_split_asm)
  then show ?thesis by (auto simp: Let_def bindE_eq_Inr split: option.split_asm if_split_asm)
qed

lemma http_policy_known: "authorized_http_policy db px target h = Inr (p, u) \<Longrightarrow> p \<in> snd ` set (px_policies px)"
  using http_policy_Inr map_of_policy by metis

lemma connect_policy_known: "connect_authority db px target h = Inr (p, u) \<Longrightarrow> p \<in> snd ` set (px_policies px)"
  using connect_policy_Inr map_of_policy by metis

locale handler_frame =
  fixes env :: egress_env and px :: egress_proxy and J :: "handler \<Rightarrow> bool"
  assumes frame: "shared s' = shared s \<Longrightarrow> hd_connects s' = hd_connects s \<Longrightarrow>
      hd_upstream_out s' = hd_upstream_out s \<Longrightarrow> J s \<Longrightarrow> J s'"
    and dials: "p \<in> snd ` set (px_policies px) \<Longrightarrow> a \<in> set (po_addresses p) \<Longrightarrow> J s \<Longrightarrow>
      J (s\<lparr>hd_connects := hd_connects s @ [(a, po_port p)]\<rparr>)"
    and begins: "keeps J (begin_runtime env px)"
    and receives: "keeps J (recv_transfer env px side)"
    and spends: "keeps J (consume_transfer env px amount side)"
    and opens: "J s \<Longrightarrow> \<not> sh_closed s \<Longrightarrow> J (s\<lparr>sh_active_upstreams := u # sh_active_upstreams s\<rparr>)"
    and closes: "J s \<Longrightarrow> J (s\<lparr>sh_active_upstreams := removeAll u (sh_active_upstreams s)\<rparr>)"
    and registers: "J s \<Longrightarrow> \<not> sh_closed s \<Longrightarrow> J (s\<lparr>sh_active_clients := c # sh_active_clients s\<rparr>)"
    and unregisters: "J s \<Longrightarrow> J (s\<lparr>sh_active_clients := removeAll c (sh_active_clients s)\<rparr>)"
    and numbers: "keeps J (reserve_event (px_event_limit px))"
    and attempts: "J s \<Longrightarrow> J (s\<lparr>sh_connection_attempts := Suc (sh_connection_attempts s)\<rparr>)"
    and acquires: "J s \<Longrightarrow> sh_free_slots s = Suc n \<Longrightarrow> J (s\<lparr>sh_free_slots := n\<rparr>)"
    and releases: "J s \<Longrightarrow> J (s\<lparr>sh_free_slots := Suc (sh_free_slots s)\<rparr>)"
begin

lemma frame_tick: "J s \<Longrightarrow> J (s\<lparr>hd_tick := t\<rparr>)"
  by (erule frame [rotated 3]) (simp_all add: proxy_shared.defs)

lemma frame_client: "J s \<Longrightarrow> J (s\<lparr>hd_client_in := x\<rparr>)" "J s \<Longrightarrow> J (s\<lparr>hd_client_out := y\<rparr>)"
  by (erule frame [rotated 3]; simp add: proxy_shared.defs)+

lemma frame_upstream: "J s \<Longrightarrow> J (s\<lparr>hd_upstream_in := x\<rparr>)" "J s \<Longrightarrow> J (s\<lparr>hd_open_upstreams := n\<rparr>)"
  by (erule frame [rotated 3]; simp add: proxy_shared.defs)+

lemma frame_flags: "J s \<Longrightarrow> J (s\<lparr>hd_sequence := q\<rparr>)" "J s \<Longrightarrow> J (s\<lparr>hd_registered := b\<rparr>)" "J s \<Longrightarrow> J (s\<lparr>hd_acquired := b\<rparr>)"
  by (erule frame [rotated 3]; simp add: proxy_shared.defs)+

lemma now_keeps: "keeps J (now env)"
  by (rule keepsI) (simp add: now_def frame_tick)

lemma remaining_keeps: "keeps J (remaining_time env)"
  unfolding remaining_time_def
  by (intro keeps_bind keeps_get) (auto split: option.split intro!: keeps_intros now_keeps)

lemma timeout_keeps: "keeps J (set_timeout env)"
  unfolding set_timeout_def by (intro keeps_bind remaining_keeps keeps_lift)

lemma client_keeps: "keeps J (client_recv n)" "keeps J (client_send env b)"
  by (rule keepsI, simp add: client_recv_def client_send_def frame_client split: prod.split)+

lemma safe_error_keeps: "J s \<Longrightarrow> J (safe_error env status s)"
  by (simp add: safe_error_def client_send_def frame_client)

lemma close_upstream_keeps: "J s \<Longrightarrow> J (close_upstream s)"
  by (simp add: close_upstream_def frame_upstream)

lemma release_upstream_keeps: "J s \<Longrightarrow> J (release_upstream env s)"
  by (simp add: release_upstream_def close_upstream_keeps closes)

lemma read_head_keeps: "keeps J (read_request_head env px data)"
proof (rule keepsI)
  fix s
  have "e = env \<longrightarrow> p = px \<longrightarrow> J s \<longrightarrow> J (fst (read_request_head e p data s))" for e p
  proof (induction e p data s rule: read_request_head.induct)
    case (1 e p data s)
    show ?case
    proof (intro impI)
      assume ep: "e = env" "p = px" and J: "J s"
      obtain s1 r1 where r1: "set_timeout env s = (s1, r1)" by (cases "set_timeout env s")
      let ?n = "min IO_CHUNK_BYTES (max_header_bytes (px_limits px) - length data + 1)"
      obtain s2 r2 where r2: "client_recv ?n s1 = (s2, r2)" by (cases "client_recv ?n s1")
      have J1: "J s1" by (rule keepsD [OF timeout_keeps J r1])
      have J2: "J s2" by (rule keepsD [OF client_keeps(1) J1 r2])
      show "J (fst (read_request_head e p data s))"
        unfolding ep read_request_head.simps [of env px data s]
        using 1 [OF _ _ r1 [symmetric, folded ep] _ r2 [symmetric, folded ep]] J J1 J2 r1 r2 ep
        by (auto split: option.split sum.split)
    qed
  qed
  then show "J s \<Longrightarrow> J (fst (read_request_head env px data s))" by simp
qed

lemma adopt_keeps: "keeps J (adopt_upstream env p auth a up)"
proof -
  have reg: "keeps J (bindA (getA (closed_now env)) (\<lambda>closed.
     if closed then bindA (modA close_upstream) (\<lambda>_. raiseA (rejected_at p auth 503 ''proxy_closed'' True))
     else modA (\<lambda>s. s\<lparr>sh_active_upstreams := he_upstream_id env # sh_active_upstreams s, hd_upstream_in := up_incoming up\<rparr>)))"
    by (rule keepsI)
      (auto simp: bindA_def getA_def modA_def liftA_def closed_now_def close_upstream_keeps frame_upstream opens)
  show ?thesis unfolding adopt_upstream_def
    by (intro keeps_bind keeps_try reg) (auto intro!: keeps_intros remaining_keeps close_upstream_keeps frame_upstream)
qed

lemma connect_addresses_keeps:
  "p \<in> snd ` set (px_policies px) \<Longrightarrow> set as \<subseteq> set (po_addresses p) \<Longrightarrow> keeps J (connect_addresses env p auth as)"
  by (induction as)
    (auto intro!: keeps_intros remaining_keeps adopt_keeps dials split: sum.split simp del: image_iff)

lemma connect_keeps: "p \<in> snd ` set (px_policies px) \<Longrightarrow> keeps J (connect env px p auth)"
  unfolding connect_def budget_remaining_def
  by (intro keeps_bind keeps_get) (simp add: keeps_lift connect_addresses_keeps)

lemma relay_response_keeps: "keeps J (relay_response env px p n)"
  by (induction n) (auto intro!: keeps_intros receives timeout_keeps client_keeps)

lemma plain_failure_keeps: "keeps J (plain_failure p e)"
  unfolding plain_failure_def by (cases e) (auto intro!: keeps_intros)

lemma connect_failure_keeps: "keeps J (connect_failure auth started e)"
  unfolding connect_failure_def by (cases e) (auto intro!: keeps_lift)

lemma register_keeps: "keeps J (register_client env)"
  by (rule keepsI) (simp add: register_client_def closed_now_def registers frame_flags)

lemma attempt_keeps: "keeps J (count_attempt px n)"
  by (rule keepsI) (use attempts [OF frame_flags(1)] in \<open>simp add: count_attempt_def Let_def\<close>)

lemma acquire_keeps: "keeps J acquire_slot"
  by (rule keepsI) (simp add: acquire_slot_def acquires frame_flags split: nat.split)

end

text \<open>With sends to the origin the body of \<open>handle_client\<close> is covered.\<close>

locale handler_body = handler_frame +
  assumes sends: "keeps J (upstream_send env b)"
begin

lemma relay_events_keeps: "keeps J (relay_events env px auth ready st)"
  by (induction ready arbitrary: st)
    (auto intro!: keeps_intros receives timeout_keeps client_keeps sends now_keeps split: prod.split)

lemma relay_tunnel_keeps: "keeps J (relay_tunnel env px auth ready st)"
proof (induction ready arbitrary: st)
  case Nil
  then show ?case by (cases st) (auto intro!: keeps_intros remaining_keeps)
next
  case (Cons r ready)
  then show ?case
    by (cases st) (auto simp: Let_def intro!: keeps_intros remaining_keeps now_keeps relay_events_keeps)
qed

lemma plain_http_keeps: "keeps J (handle_plain_http db env px m target headers)"
proof -
  have "keeps J (bindA (connect env px p None) (\<lambda>_.
     bindA (finallyA (tryA (bindA (consume_transfer env px (int (length out)) True) (\<lambda>_.
            bindA (set_timeout env) (\<lambda>_. bindA (upstream_send env out) (\<lambda>_.
            relay_response env px p (nat (px_byte_limit px) + 1))))) (plain_failure p)) (release_upstream env)) (\<lambda>_.
     returnA (po_origin p))))" if "p \<in> snd ` set (px_policies px)" for p out
    by (intro keeps_intros connect_keeps [OF that] spends timeout_keeps sends relay_response_keeps
        release_upstream_keeps plain_failure_keeps)
  then show ?thesis unfolding handle_plain_http_def
    by (intro keeps_lift_bind) (auto simp: bindE_eq_Inr simp del: image_iff dest!: http_policy_known)
qed

lemma tunnel_keeps: "keeps J (run_tunnel env px auth remainder)"
  unfolding run_tunnel_def
  by (auto intro!: keeps_intros spends timeout_keeps sends now_keeps relay_tunnel_keeps)

lemma handle_connect_keeps: "keeps J (handle_connect db env px target headers remainder)"
proof -
  have "keeps J (bindA (connect env px p (Some auth)) (\<lambda>_.
     bindA (finallyA
         (bindA (tryA (bindA (set_timeout env) (\<lambda>_. client_send env ESTABLISHED)) (connect_failure auth False)) (\<lambda>_.
          tryA (run_tunnel env px auth remainder) (connect_failure auth True)))
         (release_upstream env)) (\<lambda>_. returnA auth)))" if "p \<in> snd ` set (px_policies px)" for p auth
    by (intro keeps_intros connect_keeps [OF that] timeout_keeps client_keeps tunnel_keeps release_upstream_keeps
        connect_failure_keeps)
  then show ?thesis unfolding handle_connect_def
    by (intro keeps_lift_bind) (auto simp del: image_iff dest!: connect_policy_known)
qed

lemma handle_request_keeps: "keeps J (handle_request db env px)"
  unfolding handle_request_def
  by (auto intro!: keeps_intros read_head_keeps plain_http_keeps handle_connect_keeps split: prod.split)

lemma client_body_keeps: "keeps J (client_body db env px)"
  unfolding client_body_def
  by (intro keeps_bind keeps_lift keeps_try begins register_keeps numbers)
    (auto split: option.split intro!: keeps_intros safe_error_keeps attempt_keeps acquire_keeps remaining_keeps
      handle_request_keeps)

end

text \<open>With the record of the event at the end, all of it.\<close>

locale handler_invariant = handler_body +
  assumes finishes: "keeps J (finish_event q wo ca d rc x y)"
begin

lemma close_client_keeps: "J s \<Longrightarrow> J (close_client env wo ca d rc s)"
proof -
  assume J: "J s"
  let ?s1 = "if hd_registered s then s\<lparr>sh_active_clients := removeAll (he_client_id env) (sh_active_clients s)\<rparr> else s"
  let ?s2 = "if hd_acquired s then ?s1\<lparr>sh_free_slots := Suc (sh_free_slots ?s1)\<rparr> else ?s1"
  from J have "J ?s1" by (simp add: unregisters)
  then have J2: "J ?s2" using releases by presburger
  have "J (fst (finish_event n wo ca d rc x y ?s2))" for n x y
    by (rule keeps_fst [OF finishes J2])
  with J2 show ?thesis unfolding close_client_def Let_def by (cases "hd_sequence s") (simp_all only: option.case)
qed

lemma handle_client_keeps: "J s \<Longrightarrow> J (handle_client db env px s)"
proof -
  assume "J s"
  moreover obtain s1 r where r: "client_body db env px s = (s1, r)" by (cases "client_body db env px s")
  ultimately have "J s1" by (rule keepsD [OF client_body_keeps])
  then show ?thesis unfolding handle_client_def r
    by (auto split: sum.split option.split prod.split exn.split intro!: close_client_keeps safe_error_keeps)
qed

end

subsection \<open>A handler is a sequence of shared steps\<close>

text \<open>The shared state has got from \<open>sh\<close>, with the reservations \<open>R\<close> held, to that of \<open>s\<close> with \<open>R'\<close> held.\<close>

definition steps_at :: "egress_proxy \<Rightarrow> proxy_shared \<Rightarrow> int multiset \<Rightarrow> int multiset \<Rightarrow> handler \<Rightarrow> bool" where
  "steps_at px sh R R' s \<longleftrightarrow> egress_inv px (sh, R) \<and> egress_steps px (sh, R) (shared s, R')"

lemma steps_more: "steps_at px sh R R1 s \<Longrightarrow> egress_step px (shared s, R1) (shared s', R2) \<Longrightarrow> steps_at px sh R R2 s'"
  unfolding steps_at_def by (blast intro: rtranclp.rtrancl_into_rtrancl)

lemma steps_same: "steps_at px sh R R' s \<Longrightarrow> shared s' = shared s \<Longrightarrow> steps_at px sh R R' s'"
  by (simp add: steps_at_def)

lemma steps_bytes: "steps_at px sh R R' s \<Longrightarrow> bytes_inv px s R'"
  using egress_steps_inv [of px "(sh, R)" "(shared s, R')"]
  by (auto simp: steps_at_def egress_inv_def bytes_inv_def proxy_shared.defs)

text \<open>The shared operations act on the shared part of a handler's state.\<close>

lemma shared_ops:
  "consume m n s = (s', u) \<Longrightarrow> consume m n (shared s) = (shared s', u)"
  "reserve m n s = (s', r) \<Longrightarrow> reserve m n (shared s) = (shared s', r)"
  "commit_reservation i n s = (s', u) \<Longrightarrow> commit_reservation i n (shared s) = (shared s', u)"
  "cancel_reservation i s = (s', u) \<Longrightarrow> cancel_reservation i (shared s) = (shared s', u)"
  "reserve_event l s = (s', q) \<Longrightarrow> reserve_event l (shared s) = (shared s', q)"
  "finish_event k wo ca d rc a b s = (s', u) \<Longrightarrow> finish_event k wo ca d rc a b (shared s) = (shared s', u)"
  by (auto simp: budget_defs reserve_event_def finish_event_def proxy_shared.defs Let_def split: if_splits)

lemma op_same:
  "consume m n s = (s', Inl e) \<Longrightarrow> s' = s" "reserve m n s = (s', Inl e) \<Longrightarrow> s' = s"
  "finish_event k wo ca d rc a b s = (s', Inl e) \<Longrightarrow> s' = s" "reserve_event l s \<noteq> (s', Inl e)"
  by (auto simp: budget_defs finish_event_def reserve_event_def Let_def split: if_splits)

lemma quiet_steps: "(\<And>s. shared (fst (m s)) = shared s) \<Longrightarrow> keeps (steps_at px sh R R') m"
  by (rule keepsI) (erule steps_same, simp)

lemma time_steps: "keeps (steps_at px sh R R') (now env)" "keeps (steps_at px sh R R') (remaining_time env)"
  "keeps (steps_at px sh R R') (set_timeout env)"
proof -
  show now: "keeps (steps_at px sh R R') (now env)"
    by (rule quiet_steps) (simp add: now_def proxy_shared.defs)
  show "keeps (steps_at px sh R R') (remaining_time env)" unfolding remaining_time_def
    by (intro keeps_bind keeps_get) (auto split: option.split intro!: keeps_intros now)
  then show "keeps (steps_at px sh R R') (set_timeout env)"
    unfolding set_timeout_def by (intro keeps_bind keeps_lift)
qed

lemma recv_steps: "keeps (steps_at px sh R R') (client_recv n)" "keeps (steps_at px sh R R') (upstream_recv n)"
  by (rule quiet_steps, simp add: client_recv_def upstream_recv_def proxy_shared.defs split: prod.split)+

lemma send_steps: "keeps (steps_at px sh R R') (upstream_send env b)"
  by (rule quiet_steps) (simp add: upstream_send_def proxy_shared.defs)

lemma spend_steps: "keeps (steps_at px sh R R) (consume_transfer env px n side)"
proof -
  have "keeps (steps_at px sh R R) (consume (px_byte_limit px) n)"
  proof (rule keepsI)
    fix s
    assume J: "steps_at px sh R R s"
    obtain s' r where r: "consume (px_byte_limit px) n s = (s', r)" by (cases "consume (px_byte_limit px) n s")
    then show "steps_at px sh R R (fst (consume (px_byte_limit px) n s))"
      using J op_same(1) [of "px_byte_limit px" n s s'] steps_more [OF J Consume [OF shared_ops(1)]]
      by (cases r) auto
  qed
  moreover have "keeps (steps_at px sh R R) (modA (count_bytes side n))"
    by (rule keeps_mod, erule steps_same) (simp add: count_bytes_def proxy_shared.defs)
  ultimately show ?thesis unfolding consume_transfer_def by (intro keeps_bind time_steps)
qed

text \<open>A read holds its reservation only inside \<open>_recv_transfer\<close>.\<close>

lemma reserve_hoare:
  "hoare (steps_at px sh R R) (reserve (px_byte_limit px) n)
     (\<lambda>r s. steps_at px sh R (add_mset r R) s) (\<lambda>e s. steps_at px sh R R s)"
  unfolding hoare_def
proof (intro allI impI)
  fix s
  assume J: "steps_at px sh R R s"
  obtain s' r where r: "reserve (px_byte_limit px) n s = (s', r)" by (cases "reserve (px_byte_limit px) n s")
  then show "case reserve (px_byte_limit px) n s of (s', Inr r) \<Rightarrow> steps_at px sh R (add_mset r R) s'
      | (s', Inl e) \<Rightarrow> steps_at px sh R R s'"
    using J op_same(2) [of "px_byte_limit px" n s s'] steps_more [OF J Reserve [OF shared_ops(2)]]
    by (cases r) auto
qed

lemma sum_mset_pos: "\<forall>r\<in>#M. 0 < r \<Longrightarrow> 0 \<le> sum_mset (M :: int multiset)"
  by (induction M) auto

lemma reserved_enough: "steps_at px sh R (add_mset r R') s \<Longrightarrow> 0 < r \<and> r \<le> sh_reserved s"
  using steps_bytes [of px sh R "add_mset r R'" s] sum_mset_pos [of R'] by (auto simp: bytes_inv_def)

lemma cancel_hoare:
  "hoare (steps_at px sh R (add_mset r R)) (cancel_reservation r) (\<lambda>_. steps_at px sh R R) (\<lambda>_ _. False)"
  unfolding hoare_def
proof (intro allI impI)
  fix s
  assume J: "steps_at px sh R (add_mset r R) s"
  obtain s' z where z: "cancel_reservation r s = (s', z)" by (cases "cancel_reservation r s")
  with reserved_enough [OF J] have "z = Inr ()" by (auto simp: cancel_reservation_def)
  with z steps_more [OF J Cancel [OF shared_ops(4)]]
  show "case cancel_reservation r s of (s', Inr x) \<Rightarrow> steps_at px sh R R s' | (s', Inl e) \<Rightarrow> False" by simp
qed

lemma commit_hoare:
  "hoare (\<lambda>s. steps_at px sh R (add_mset r R) s \<and> 0 \<le> n \<and> n \<le> r) (commit_reservation r n)
     (\<lambda>_. steps_at px sh R R) (\<lambda>_ _. False)"
  unfolding hoare_def
proof (intro allI impI)
  fix s
  assume J: "steps_at px sh R (add_mset r R) s \<and> 0 \<le> n \<and> n \<le> r"
  obtain s' z where z: "commit_reservation r n s = (s', z)" by (cases "commit_reservation r n s")
  with reserved_enough [of px sh R r R s] J have "z = Inr ()" by (auto simp: commit_reservation_def)
  with z steps_more [OF conjunct1 [OF J] Commit [OF shared_ops(3)]]
  show "case commit_reservation r n s of (s', Inr x) \<Rightarrow> steps_at px sh R R s' | (s', Inl e) \<Rightarrow> False" by simp
qed

lemma recv_length: "client_recv n s = (s', Inr c) \<Longrightarrow> length c \<le> n" "upstream_recv n s = (s', Inr c) \<Longrightarrow> length c \<le> n"
  by (auto simp: client_recv_def upstream_recv_def split: prod.splits dest: recv_from_length)

lemma read_hoare:
  "hoare (steps_at px sh R (add_mset r R)) (if side then client_recv (nat r) else upstream_recv (nat r))
     (\<lambda>chunk s. steps_at px sh R (add_mset r R) s \<and> int (length chunk) \<le> r) (\<lambda>_. steps_at px sh R (add_mset r R))"
    (is "hoare ?J ?m _ _")
proof (rule hoareI)
  fix s
  assume J: "?J s"
  obtain s' z where z: "?m s = (s', z)" by (cases "?m s")
  have "keeps ?J ?m" by (simp add: recv_steps)
  then have J': "?J s'" using keeps_fst [of ?J ?m s] J z by simp
  have "int (length c) \<le> r" if "z = Inr c" for c
    using recv_length [of "nat r" s s' c] z that reserved_enough [OF J] by (cases side) auto
  with z J' show "case ?m s of (s', Inr chunk) \<Rightarrow> ?J s' \<and> int (length chunk) \<le> r | (s', Inl e) \<Rightarrow> ?J s'"
    by (simp split: sum.split)
qed

lemma receive_steps: "keeps (steps_at px sh R R) (recv_transfer env px side)"
proof -
  let ?I = "steps_at px sh R R"
  let ?J = "\<lambda>r. steps_at px sh R (add_mset r R)"
  let ?Q = "\<lambda>r chunk s. ?J r s \<and> int (length chunk) \<le> r"
  have time: "hoare ?I (remaining_time env) (\<lambda>_. ?I) (\<lambda>_. ?I)" using time_steps(2) by (simp add: keeps_def)
  have count: "hoare ?I (modA (count_bytes side n)) (\<lambda>_. ?I) (\<lambda>_. ?I)" for n
    by (simp, intro allI impI, erule steps_same) (auto simp: count_bytes_def proxy_shared.defs)
  have read: "hoare (?J r) (bindA (set_timeout env) (\<lambda>_. if side then client_recv (nat r) else upstream_recv (nat r)))
      (?Q r) (\<lambda>_. ?J r)" for r
    by (rule hoare_bind [OF time_steps(3) [unfolded keeps_def] read_hoare])
  have undo: "hoare (?J r) (bindA (cancel_reservation r) (\<lambda>_. raiseA e)) (?Q r) (\<lambda>_. ?I)" for r e
    by (rule hoare_bind [where R = "\<lambda>_. ?I"], rule hoare_cons [OF cancel_hoare]) auto
  have commit: "hoare (?Q r chunk) (bindA (commit_reservation r (int (length chunk))) (\<lambda>_.
      bindA (modA (count_bytes side (int (length chunk)))) (\<lambda>_. bindA (remaining_time env) (\<lambda>_. returnA chunk))))
      (\<lambda>_. ?I) (\<lambda>_. ?I)" for r chunk
  proof (rule hoare_bind)
    show "hoare (?Q r chunk) (commit_reservation r (int (length chunk))) (\<lambda>_. ?I) (\<lambda>_. ?I)"
      by (rule hoare_cons [OF commit_hoare]) auto
    show "hoare ?I (bindA (modA (count_bytes side (int (length chunk)))) (\<lambda>_. bindA (remaining_time env) (\<lambda>_. returnA chunk)))
        (\<lambda>_. ?I) (\<lambda>_. ?I)"
      by (rule hoare_bind [OF count], rule hoare_bind [OF time], simp)
  qed
  show ?thesis unfolding recv_transfer_def keeps_def
    by (rule hoare_bind [OF time], rule hoare_bind [OF reserve_hoare], rule hoare_bind [OF hoare_try [OF read undo] commit])
qed

lemma begin_steps: "keeps (steps_at px sh R R) (begin_runtime env px)"
proof (rule keepsI)
  fix s
  assume J: "steps_at px sh R R s"
  let ?t = "he_clock env (hd_tick s)"
  have "steps_at px sh R R (s\<lparr>hd_tick := Suc (hd_tick s), sh_started_at := Some ?t,
      sh_deadline := Some (?t + of_int (px_wall_clock px))\<rparr>)" if "\<not> sh_closed s" "sh_started_at s = None"
    by (rule steps_more [OF J]) (use that Begin_runtime [of "shared s" px R ?t] in \<open>simp add: proxy_shared.defs\<close>)
  with J show "steps_at px sh R R (fst (begin_runtime env px s))"
    by (auto simp: begin_runtime_def bindA_def getA_def liftA_def modA_def now_def closed_now_def split: option.split)
qed

lemma number_steps: "keeps (steps_at px sh R R) (reserve_event (px_event_limit px))"
proof (rule keepsI)
  fix s
  assume J: "steps_at px sh R R s"
  obtain s' z where z: "reserve_event (px_event_limit px) s = (s', z)" by (cases "reserve_event (px_event_limit px) s")
  then show "steps_at px sh R R (fst (reserve_event (px_event_limit px) s))"
    using op_same(4) [of "px_event_limit px" s s'] steps_more [OF J Reserve_event [OF shared_ops(5)]] by (cases z) auto
qed

lemma finish_steps: "keeps (steps_at px sh R R) (finish_event q wo ca d rc x y)"
proof (rule keepsI)
  fix s
  assume J: "steps_at px sh R R s"
  obtain s' z where z: "finish_event q wo ca d rc x y s = (s', z)" by (cases "finish_event q wo ca d rc x y s")
  then show "steps_at px sh R R (fst (finish_event q wo ca d rc x y s))"
    using J op_same(3) [of q wo ca d rc x y s s'] steps_more [OF J Finish_event [OF shared_ops(6)]] by (cases z) auto
qed

interpretation steps: handler_invariant env px "steps_at px sh R R" for env px sh R
proof
  fix s s' :: handler
  assume J: "steps_at px sh R R s"
  show "shared s' = shared s \<Longrightarrow> steps_at px sh R R s'" by (rule steps_same [OF J])
  show "steps_at px sh R R (s\<lparr>hd_connects := hd_connects s @ [(a, po_port p)]\<rparr>)" for a p
    by (rule steps_same [OF J]) (simp add: proxy_shared.defs)
  show "steps_at px sh R R (s\<lparr>sh_active_upstreams := u # sh_active_upstreams s\<rparr>)" if "\<not> sh_closed s" for u
    by (rule steps_more [OF J]) (use that Open_upstream [of "shared s" px R u] in \<open>simp add: proxy_shared.defs\<close>)
  show "steps_at px sh R R (s\<lparr>sh_active_upstreams := removeAll u (sh_active_upstreams s)\<rparr>)" for u
    by (rule steps_more [OF J]) (use Close_upstream [of px "shared s" R u] in \<open>simp add: proxy_shared.defs\<close>)
  show "steps_at px sh R R (s\<lparr>sh_active_clients := c # sh_active_clients s\<rparr>)" if "\<not> sh_closed s" for c
    by (rule steps_more [OF J]) (use that Register [of "shared s" px R c] in \<open>simp add: proxy_shared.defs\<close>)
  show "steps_at px sh R R (s\<lparr>sh_active_clients := removeAll c (sh_active_clients s)\<rparr>)" for c
    by (rule steps_more [OF J]) (use Unregister [of px "shared s" R c] in \<open>simp add: proxy_shared.defs\<close>)
  show "steps_at px sh R R (s\<lparr>sh_connection_attempts := Suc (sh_connection_attempts s)\<rparr>)"
    by (rule steps_more [OF J]) (use Attempt [of px "shared s" R] in \<open>simp add: proxy_shared.defs\<close>)
  show "steps_at px sh R R (s\<lparr>sh_free_slots := n\<rparr>)" if "sh_free_slots s = Suc n" for n
    by (rule steps_more [OF J]) (use that Acquire [of "shared s" n px R] in \<open>simp add: proxy_shared.defs\<close>)
  show "steps_at px sh R R (s\<lparr>sh_free_slots := Suc (sh_free_slots s)\<rparr>)"
    by (rule steps_more [OF J]) (use Release [of px "shared s" R] in \<open>simp add: proxy_shared.defs\<close>)
qed (rule finish_steps send_steps begin_steps receive_steps spend_steps number_steps)+

end
