(* ===== verification/Egress_Facts.thy ===== *)
theory Egress_Facts
  imports Egress_Steps
begin

section \<open>Egress proxy: what leaves the host\<close>

text \<open>
  What construction and the handlers guarantee together: every address the proxy dials was pinned at start
  for an authorised origin and is public unicast; an event that says \<open>blocked\<close> means that no byte was given
  to an origin; a forwarded request is one well-formed head with allow-listed headers; and the byte and event
  accounting holds in every interleaving.
\<close>

subsection \<open>Public unicast\<close>

text \<open>The special-purpose blocks by first and last address, independent of the prefix arithmetic.\<close>

definition special_v4 :: "(nat \<times> nat) list" where
  "special_v4 =
    [(quad 0 0 0 0, quad 0 255 255 255), (quad 10 0 0 0, quad 10 255 255 255),
     (quad 100 64 0 0, quad 100 127 255 255), (quad 127 0 0 0, quad 127 255 255 255),
     (quad 169 254 0 0, quad 169 254 255 255), (quad 172 16 0 0, quad 172 31 255 255),
     (quad 192 0 0 0, quad 192 0 0 255), (quad 192 0 2 0, quad 192 0 2 255),
     (quad 192 88 99 0, quad 192 88 99 255), (quad 192 168 0 0, quad 192 168 255 255),
     (quad 198 18 0 0, quad 198 19 255 255), (quad 198 51 100 0, quad 198 51 100 255),
     (quad 203 0 113 0, quad 203 0 113 255), (quad 224 0 0 0, quad 255 255 255 255)]"

definition special_v6 :: "(nat \<times> nat) list" where
  "special_v6 =
    [(oct [0x2001], oct [0x2001, 0x1ff, 0xffff, 0xffff, 0xffff, 0xffff, 0xffff, 0xffff]),
     (oct [0x2001, 0xdb8], oct [0x2001, 0xdb8, 0xffff, 0xffff, 0xffff, 0xffff, 0xffff, 0xffff]),
     (oct [0x2002], oct [0x2002, 0xffff, 0xffff, 0xffff, 0xffff, 0xffff, 0xffff, 0xffff]),
     (oct [0x3fff], oct [0x3fff, 0xfff, 0xffff, 0xffff, 0xffff, 0xffff, 0xffff, 0xffff])]"

definition public_unicast :: "pystr \<Rightarrow> bool" where
  "public_unicast a = (case ip_address a of
       Some (IPv4 n) \<Rightarrow> \<not> list_ex (\<lambda>(lo, hi). between lo hi n) special_v4
     | Some (IPv6 n) \<Rightarrow> n div 2 ^ 125 = 1 \<and> \<not> list_ex (\<lambda>(lo, hi). between lo hi n) special_v6
     | None \<Rightarrow> False)"

lemma special_v4_nets: "list_ex (\<lambda>(lo, hi). between lo hi n) special_v4 \<Longrightarrow> list_ex (in_net 32 n) NON_PUBLIC_V4"
proof -
  have top: "between (quad 224 0 0 0) (quad 255 255 255 255) n \<Longrightarrow> n div 2 ^ 28 = 14 \<or> n div 2 ^ 28 = 15"
    by (simp add: between_def quad_def) linarith
  assume "list_ex (\<lambda>(lo, hi). between lo hi n) special_v4"
  then show ?thesis
    using between_net [of 0 "2 ^ 24" n] between_net [of 10 "2 ^ 24" n] between_net [of 401 "2 ^ 22" n]
      between_net [of 127 "2 ^ 24" n] between_net [of 43518 "2 ^ 16" n] between_net [of 2753 "2 ^ 20" n]
      between_net [of "192 * 65536" "2 ^ 8" n] between_net [of "192 * 65536 + 2" "2 ^ 8" n]
      between_net [of "192 * 65536 + 88 * 256 + 99" "2 ^ 8" n] between_net [of 49320 "2 ^ 16" n]
      between_net [of "99 * 256 + 9" "2 ^ 17" n] between_net [of "198 * 65536 + 51 * 256 + 100" "2 ^ 8" n]
      between_net [of "203 * 65536 + 113" "2 ^ 8" n] top
    by (auto simp: special_v4_def NON_PUBLIC_V4_def in_net_def quad_def)
qed

lemma special_v6_nets: "list_ex (\<lambda>(lo, hi). between lo hi n) special_v6 \<Longrightarrow> list_ex (in_net 128 n) NON_PUBLIC_V6"
  using between_net [of "0x2001 * 128" "2 ^ 105" n] between_net [of "0x20010db8" "2 ^ 96" n]
    between_net [of "0x2002" "2 ^ 112" n] between_net [of "0x3fff0" "2 ^ 108" n]
  by (auto simp: special_v6_def NON_PUBLIC_V6_def in_net_def oct_def)

lemma validate_public:
  assumes "validate_public_address v = Inr a"
  shows "public_unicast a"
proof -
  from assms consider (v4) n where "ip_address a = Some (IPv4 n)" "\<not> list_ex (in_net 32 n) NON_PUBLIC_V4"
    | (v6) n where "ip_address a = Some (IPv6 n)" "in_net 128 n IPV6_GLOBAL_UNICAST" "\<not> list_ex (in_net 128 n) NON_PUBLIC_V6"
  proof -
    from assms obtain c where "(case ip_address c of
         None \<Rightarrow> Inl (ValueError ''does not appear to be an IPv4 or IPv6 address'')
       | Some (IPv4 n) \<Rightarrow> if list_ex (in_net 32 n) NON_PUBLIC_V4
           then Inl (bad ''resolved address is in a special-purpose range'') else Inr c
       | Some (IPv6 n) \<Rightarrow> if \<not> in_net 128 n IPV6_GLOBAL_UNICAST then Inl (bad ''resolved address is not global unicast'')
           else if list_ex (in_net 128 n) NON_PUBLIC_V6
           then Inl (bad ''resolved address is in a special-purpose range'') else Inr c) = Inr a"
      by (auto simp: validate_public_address_def bindE_eq_Inr)
    with v4 v6 show thesis by (cases "ip_address c") (auto split: ip.split_asm if_split_asm)
  qed
  then show ?thesis
  proof cases
    case v4
    with special_v4_nets show ?thesis by (auto simp: public_unicast_def)
  next
    case v6
    from v6(2) have "n div 2 ^ 125 = 1" by (simp add: IPV6_GLOBAL_UNICAST_def in_net_def oct_def)
    with v6 special_v6_nets show ?thesis by (auto simp: public_unicast_def)
  qed
qed

subsection \<open>Construction\<close>

lemma check_answers_Inr:
  "check_answers answers checked = Inr as \<Longrightarrow>
   set as = set checked \<union> {a. \<exists>v\<in>set answers. validate_public_address v = Inr a}"
  by (induction answers checked rule: check_answers.induct) (auto split: sum.splits if_splits)

lemma pin_answers_Inr:
  assumes "pin_answers answers = Inr as"
  shows "as \<noteq> []" "set as = {a. \<exists>v\<in>set answers. validate_public_address v = Inr a}" "list_all public_unicast as"
proof -
  from assms obtain checked where c: "check_answers answers [] = Inr checked" "checked \<noteq> []"
    "as = sort_key address_key checked"
    by (auto simp: pin_answers_def bindE_eq_Inr split: if_splits)
  then show "as \<noteq> []" by (metis set_empty set_sort)
  show "set as = {a. \<exists>v\<in>set answers. validate_public_address v = Inr a}" using check_answers_Inr [OF c(1)] c(3) by simp
  then show "list_all public_unicast as" using validate_public by (auto simp: list_all_iff)
qed

lemma resolve_hosts_Inr:
  "resolve_hosts env deadline tick hosts = Inr pinned \<Longrightarrow> map_of pinned h = Some as \<Longrightarrow>
   \<exists>answers. re_lookup env h = Answers answers \<and> pin_answers answers = Inr as"
proof (induction hosts arbitrary: tick pinned)
  case (Cons host hosts)
  then obtain a rest where r: "resolve_host env deadline tick host = Inr a"
    "resolve_hosts env deadline (Suc tick) hosts = Inr rest" "pinned = (host, a) # rest"
    by (auto simp: bindE_eq_Inr)
  show ?case
  proof (cases "h = host")
    case True
    with r Cons.prems(2) have "resolve_host env deadline tick h = Inr as" by simp
    then show ?thesis by (auto simp: resolve_host_def split: resolution.splits if_splits)
  next
    case False
    with r Cons show ?thesis by auto
  qed
qed simp

text \<open>A pinned policy: its origin was authorised, its addresses are the checked answers for its host.\<close>

definition pinned_by :: "resolver_env \<Rightarrow> pystr list \<Rightarrow> policy \<Rightarrow> bool" where
  "pinned_by renv origins p \<longleftrightarrow> po_origin p \<in> set origins \<and>
     (\<exists>answers. re_lookup renv (po_hostname p) = Answers answers \<and> pin_answers answers = Inr (po_addresses p))"

lemma pinned_policy_Inr:
  assumes "pinned_policy db pinned origin = Inr (k, p)" "resolve_hosts renv d t hosts = Inr pinned" "origin \<in> set origins"
  shows "k = origin \<and> po_origin p = origin \<and> pinned_by renv origins p"
proof -
  from assms(1) obtain h as where h: "origin_hostname db origin = Inr h" "k = origin"
    "map_of pinned h = Some as" "origin_policy db origin as = Inr p"
    by (auto simp: pinned_policy_def bindE_eq_Inr split: option.split_asm)
  from h(4) obtain r g where r: "urlsplit db origin = Inr r" "sr_hostname db r = Some g" "po_hostname p = g"
    "po_origin p = origin" "po_addresses p = as"
    by (auto simp: origin_policy_def bindE_eq_Inr split: option.split_asm)
  from h(1) r(1,2) have "g = h" by (simp add: origin_hostname_def)
  with resolve_hosts_Inr [OF assms(2) h(3)] h(2) r(3-5) assms(3) show ?thesis by (simp add: pinned_by_def)
qed

lemma proxy_Inr:
  assumes "BrowserEgressProxy db renv request host client port limits = Inr px"
  obtains canonical origins where "validate_probe_request db request = Inr canonical" "py_eq canonical request"
    "request_origins canonical = Inr origins" "request_budget canonical ''max_network_bytes'' = Inr (px_byte_limit px)"
    "px_limits px = limits" "\<And>k p. (k, p) \<in> set (px_policies px) \<Longrightarrow> k = po_origin p \<and> pinned_by renv origins p"
proof -
  from assms obtain canonical host' client' port' byte_limit events wall origins pinned policies where raw:
    "check_probe_request db request = Inr canonical"
    "request_budget canonical ''max_network_bytes'' = Inr byte_limit" "request_origins canonical = Inr origins"
    "pre_resolve db renv limits origins = Inr pinned" "mapE (pinned_policy db pinned) origins = Inr policies"
    "Inr \<lparr>px_bind_host = host', px_bind_port = port', px_client_ip = client', px_limits = limits,
       px_byte_limit = byte_limit, px_event_limit = min (int (max_events limits)) events,
       px_wall_clock = wall, px_policies = policies\<rparr> = (Inr px :: egress_proxy res)"
    unfolding BrowserEgressProxy_def bindE_eq_Inr by blast
  then have c: "validate_probe_request db request = Inr canonical" "py_eq canonical request"
    "request_origins canonical = Inr origins" "request_budget canonical ''max_network_bytes'' = Inr (px_byte_limit px)"
    "px_limits px = limits" "pre_resolve db renv limits origins = Inr pinned"
    "mapE (pinned_policy db pinned) origins = Inr (px_policies px)"
    by (auto simp: check_probe_request_def split: sum.split_asm if_split_asm)
  from c(6) obtain d t hosts where r: "resolve_hosts renv d t hosts = Inr pinned"
    by (auto simp: pre_resolve_def bindE_eq_Inr)
  have "k = po_origin p \<and> pinned_by renv origins p" if kp: "(k, p) \<in> set (px_policies px)" for k p
  proof -
    from c(7) have l2: "list_all2 (\<lambda>x y. pinned_policy db pinned x = Inr y) origins (px_policies px)"
      by (simp add: mapE_Inr_iff)
    with kp obtain origin where "origin \<in> set origins" "pinned_policy db pinned origin = Inr (k, p)"
      by (auto simp: list_all2_conv_all_nth in_set_conv_nth) (metis nth_mem)
    with pinned_policy_Inr [OF _ r] show ?thesis by metis
  qed
  with that c(1-5) show ?thesis by blast
qed

subsection \<open>The trace of a handler\<close>

text \<open>Predicates on what was dialled, given to an origin and recorded; most actions touch none of it.\<close>

definition on_trace :: "((pystr \<times> nat) list \<Rightarrow> bytes list \<Rightarrow> (nat \<times> proxy_event) list \<Rightarrow> bool) \<Rightarrow> handler \<Rightarrow> bool" where
  "on_trace P s \<longleftrightarrow> P (hd_connects s) (hd_upstream_out s) (sh_events s)"

lemma quiet_trace:
  "(\<And>s. hd_connects (fst (m s)) = hd_connects s \<and> hd_upstream_out (fst (m s)) = hd_upstream_out s \<and>
     sh_events (fst (m s)) = sh_events s) \<Longrightarrow> keeps (on_trace P) m"
  by (rule keepsI) (simp add: on_trace_def)

lemma op_trace: "keeps (on_trace P) (now env)" "keeps (on_trace P) (client_recv n)" "keeps (on_trace P) (upstream_recv n)"
  "keeps (on_trace P) (consume m k)" "keeps (on_trace P) (reserve m k)" "keeps (on_trace P) (commit_reservation r k)"
  "keeps (on_trace P) (cancel_reservation r)" "keeps (on_trace P) (modA (count_bytes side k))"
  "keeps (on_trace P) (reserve_event l)"
  by (rule quiet_trace, simp add: now_def client_recv_def upstream_recv_def budget_defs modA_def count_bytes_def
      reserve_event_def finish_event_def Let_def split: prod.split)+

lemma time_trace: "keeps (on_trace P) (remaining_time env)" "keeps (on_trace P) (set_timeout env)"
proof -
  show "keeps (on_trace P) (remaining_time env)" unfolding remaining_time_def
    by (intro keeps_bind keeps_get) (auto split: option.split intro!: keeps_intros op_trace)
  then show "keeps (on_trace P) (set_timeout env)" unfolding set_timeout_def by (intro keeps_bind keeps_lift)
qed

lemma spend_trace: "keeps (on_trace P) (consume_transfer env px n side)"
  unfolding consume_transfer_def by (intro keeps_bind time_trace op_trace)

lemma receive_trace: "keeps (on_trace P) (recv_transfer env px side)"
proof -
  have "keeps (on_trace P) (if side then client_recv k else upstream_recv k)" for k by (simp add: op_trace)
  then show ?thesis unfolding recv_transfer_def by (intro keeps_bind keeps_try time_trace op_trace keeps_lift)
qed

lemma begin_trace: "keeps (on_trace P) (begin_runtime env px)"
  by (rule quiet_trace)
    (simp add: begin_runtime_def bindA_def getA_def modA_def liftA_def now_def split: option.split)

definition pinned_targets :: "egress_proxy \<Rightarrow> (pystr \<times> nat) set" where
  "pinned_targets px = {(a, po_port p) | a p. p \<in> snd ` set (px_policies px) \<and> a \<in> set (po_addresses p)}"

lemmas trace_laws = spend_trace receive_trace begin_trace op_trace

text \<open>Equal shared parts have equal events.\<close>

lemma same_trace:
  assumes "shared s' = shared s" "hd_connects s' = hd_connects s" "hd_upstream_out s' = hd_upstream_out s" "on_trace P s"
  shows "on_trace P s'"
proof -
  have "sh_events s' = sh_events s" using arg_cong [OF assms(1), of sh_events] by (simp add: proxy_shared.defs)
  with assms show ?thesis by (simp add: on_trace_def)
qed

interpretation dialled: handler_invariant env px "on_trace (\<lambda>connects sent events. set connects \<subseteq> pinned_targets px)" for env px
proof
  let ?J = "on_trace (\<lambda>connects sent events. set connects \<subseteq> pinned_targets px)"
  show "keeps ?J (upstream_send env b)" for b by (rule keepsI) (simp add: upstream_send_def on_trace_def)
  show "keeps ?J (finish_event q wo ca d rc x y)" for q wo ca d rc x y
    by (rule keepsI) (simp add: finish_event_def on_trace_def)
qed (rule trace_laws | erule same_trace, assumption+ | force simp: on_trace_def pinned_targets_def)+

interpretation silent: handler_frame env px "on_trace (\<lambda>connects sent events. sent = [])" for env px
  by unfold_locales (rule trace_laws | erule same_trace, assumption+ | simp add: on_trace_def)+

interpretation unrecorded: handler_body env px "on_trace (\<lambda>connects sent events. events = evs)" for env px evs
proof
  show "keeps (on_trace (\<lambda>connects sent events. events = evs)) (upstream_send env b)" for b
    by (rule keepsI) (simp add: upstream_send_def on_trace_def)
qed (rule trace_laws | erule same_trace, assumption+ | simp add: on_trace_def)+

subsection \<open>Nothing is sent before the event says so\<close>

fun performed :: "exn \<Rightarrow> bool" where
  "performed (ProxyRejection status reason wo ca started egress) = egress" | "performed e = False"

lemma failure_performed:
  "hoare (\<lambda>_. True) (plain_failure p e) Q (\<lambda>e s. performed e)"
  "hoare (\<lambda>_. True) (connect_failure auth started e) Q (\<lambda>e s. performed e)"
  by (cases e; simp add: plain_failure_def connect_failure_def hoare_def bindA_def getA_def liftA_def)+

abbreviation unsent :: "handler \<Rightarrow> bool" where
  "unsent \<equiv> on_trace (\<lambda>connects sent events. sent = [])"

text \<open>Whatever is raised, either nothing was sent or the exception says that egress was performed.\<close>

definition honest :: "(handler, 'a) act \<Rightarrow> bool" where
  "honest m \<longleftrightarrow> hoare unsent m (\<lambda>_ _. True) (\<lambda>e s. unsent s \<or> performed e)"

lemma honest_after: "keeps unsent m \<Longrightarrow> (\<And>x. honest (f x)) \<Longrightarrow> honest (bindA m f)"
  unfolding honest_def keeps_def by (rule hoare_bind [where R = "\<lambda>_. unsent"]) (erule hoare_cons, auto)

lemma honest_lift: "(\<And>x. r = Inr x \<Longrightarrow> honest (f x)) \<Longrightarrow> honest (bindA (liftA r) f)"
  by (cases r) (simp_all add: honest_def hoare_def bindA_def liftA_def)

lemma honest_then: "honest m \<Longrightarrow> honest (bindA m (\<lambda>x. returnA (g x)))"
  unfolding honest_def by (erule hoare_bind) simp

lemma honest_keeps: "keeps unsent m \<Longrightarrow> honest m"
  unfolding honest_def keeps_def by (erule hoare_cons) auto

lemma honest_finally:
  assumes "hoare (\<lambda>_. True) m (\<lambda>_ _. True) (\<lambda>e _. performed e)"
  shows "honest (finallyA m f)"
  unfolding honest_def by (rule hoare_finally, rule hoare_cons [OF assms]) auto

lemma hoare_true: "hoare P m (\<lambda>_ _. True) (\<lambda>_ _. True)"
  by (simp add: hoare_def case_prod_beta split: sum.split)

lemma plain_http_honest: "honest (handle_plain_http db env px m target headers)"
proof -
  have "honest (bindA (connect env px p None) (\<lambda>_.
     bindA (finallyA (tryA (bindA (consume_transfer env px (int (length out)) True) (\<lambda>_.
            bindA (set_timeout env) (\<lambda>_. bindA (upstream_send env out) (\<lambda>_.
            relay_response env px p (nat (px_byte_limit px) + 1))))) (plain_failure p)) (release_upstream env)) (\<lambda>_.
     returnA (po_origin p))))" if "p \<in> snd ` set (px_policies px)" for p out
    by (rule honest_after [OF silent.connect_keeps [OF that]], rule honest_then, rule honest_finally,
        rule hoare_try [OF hoare_true failure_performed(1)])
  then show ?thesis unfolding handle_plain_http_def
    by (intro honest_lift) (auto simp: bindE_eq_Inr simp del: image_iff dest!: http_policy_known)
qed

lemma handle_connect_honest: "honest (handle_connect db env px target headers remainder)"
proof -
  have "honest (bindA (connect env px p (Some auth)) (\<lambda>_.
     bindA (finallyA
         (bindA (tryA (bindA (set_timeout env) (\<lambda>_. client_send env ESTABLISHED)) (connect_failure auth False)) (\<lambda>_.
          tryA (run_tunnel env px auth remainder) (connect_failure auth True)))
         (release_upstream env)) (\<lambda>_. returnA auth)))" if "p \<in> snd ` set (px_policies px)" for p auth
    by (rule honest_after [OF silent.connect_keeps [OF that]], rule honest_then, rule honest_finally,
        rule hoare_bind [OF hoare_try [OF hoare_true failure_performed(2)] hoare_try [OF hoare_true failure_performed(2)]])
  then show ?thesis unfolding handle_connect_def
    by (intro honest_lift) (auto simp del: image_iff dest!: connect_policy_known)
qed

lemma handle_request_honest: "honest (handle_request db env px)"
  unfolding handle_request_def
  by (auto intro!: honest_after [OF silent.read_head_keeps] honest_after [OF keeps_lift] honest_keeps [OF keeps_lift]
      honest_then plain_http_honest handle_connect_honest split: prod.split)

lemma client_body_honest:
  "hoare unsent (client_body db env px) (\<lambda>x s. x = None \<longrightarrow> unsent s) (\<lambda>e s. unsent s \<or> performed e)"
    (is "hoare _ _ ?Q ?E")
proof -
  have first: "hoare unsent m (\<lambda>_. unsent) ?E" if "keeps unsent m" for m :: "(handler, 'a) act"
    using that unfolding keeps_def by (rule hoare_cons) auto
  have report: "keeps unsent (modA (safe_error env 503))" by (rule keeps_mod) (rule silent.safe_error_keeps)
  have none: "hoare unsent (bindA (modA (safe_error env 503)) (\<lambda>_. returnA None)) ?Q ?E"
    by (rule hoare_bind [OF first [OF report]]) simp_all
  have some: "hoare unsent (bindA (count_attempt px n) (\<lambda>_. bindA acquire_slot (\<lambda>_. bindA (remaining_time env) (\<lambda>_.
      bindA (handle_request db env px) (\<lambda>destination. returnA (Some destination)))))) ?Q ?E" for n
  proof (intro hoare_bind [OF first [OF silent.attempt_keeps]] hoare_bind [OF first [OF silent.acquire_keeps]]
      hoare_bind [OF first [OF silent.remaining_keeps]])
    show "hoare unsent (bindA (handle_request db env px) (\<lambda>destination. returnA (Some destination))) ?Q ?E"
      by (rule hoare_bind [OF handle_request_honest [unfolded honest_def]]) simp
  qed
  have "hoare unsent (case q of None \<Rightarrow> bindA (modA (safe_error env 503)) (\<lambda>_. returnA None)
      | Some n \<Rightarrow> bindA (count_attempt px n) (\<lambda>_. bindA acquire_slot (\<lambda>_. bindA (remaining_time env) (\<lambda>_.
          bindA (handle_request db env px) (\<lambda>destination. returnA (Some destination)))))) ?Q ?E" for q
    using none some by (simp split: option.split)
  then show ?thesis unfolding client_body_def
    by (intro hoare_bind [OF first [OF keeps_lift]] hoare_bind [OF first [OF keeps_try [OF begin_trace keeps_lift]]]
        hoare_bind [OF first [OF silent.register_keeps]] hoare_bind [OF first [OF op_trace(9)]])
qed

lemma close_client_event:
  assumes "map_of (sh_events s) n = None" "map_of (sh_events (close_client env wo ca d rc s)) n = Some e"
  shows "pe_disposition e = d"
proof (cases "hd_sequence s")
  case None
  with assms show ?thesis by (auto simp: close_client_def Let_def split: if_splits)
next
  case (Some q)
  let ?s = "let s1 = (if hd_registered s then s\<lparr>sh_active_clients := removeAll (he_client_id env) (sh_active_clients s)\<rparr> else s)
    in if hd_acquired s then s1\<lparr>sh_free_slots := Suc (sh_free_slots s1)\<rparr> else s1"
  have events: "sh_events ?s = sh_events s" by (simp add: Let_def)
  have "close_client env wo ca d rc s = fst (finish_event q wo ca d rc (hd_to_origin s) (hd_to_client s) ?s)"
    by (simp only: close_client_def Let_def Some option.case)
  with assms events show ?thesis
    by (auto simp: finish_event_def update_conv' split: if_splits)
qed

lemma close_client_sent: "hd_upstream_out (close_client env wo ca d rc s) = hd_upstream_out s"
  "hd_upstream_out (safe_error env status s) = hd_upstream_out s" "sh_events (safe_error env status s) = sh_events s"
  by (auto simp: close_client_def Let_def finish_event_def safe_error_def client_send_def split: option.split)

subsection \<open>Properties\<close>

lemma shared_accepted [simp]: "shared (accepted sh incoming) = sh"
  by (simp add: accepted_def proxy_shared.defs)

lemma accepted_trace: "hd_connects (accepted sh incoming) = []" "hd_upstream_out (accepted sh incoming) = []"
  "sh_events (accepted sh incoming) = sh_events sh"
  by (simp_all add: accepted_def proxy_shared.defs)

text \<open>C15: the proxy dials only what it pinned at start. Whatever the client sends, whatever the clock,
  the connector and the origins do, each address and port that \<open>handle_client\<close> dials belongs to the policy
  of an origin the probe request authorised; the address is the canonical text of an answer the resolver
  gave for that origin's host before the proxy started listening, and is public unicast.\<close>

theorem egress_targets_pinned:
  assumes "BrowserEgressProxy db renv request host client port limits = Inr px"
    "(a, q) \<in> set (hd_connects (handle_client db env px (accepted sh incoming)))"
  shows "\<exists>canonical origins p answers v. validate_probe_request db request = Inr canonical \<and>
    request_origins canonical = Inr origins \<and> po_origin p \<in> set origins \<and> (po_origin p, p) \<in> set (px_policies px) \<and>
    q = po_port p \<and> re_lookup renv (po_hostname p) = Answers answers \<and> v \<in> set answers \<and>
    validate_public_address v = Inr a \<and> public_unicast a"
proof -
  obtain canonical origins where c: "validate_probe_request db request = Inr canonical" "request_origins canonical = Inr origins"
    "\<And>k p. (k, p) \<in> set (px_policies px) \<Longrightarrow> k = po_origin p \<and> pinned_by renv origins p"
    using proxy_Inr [OF assms(1)] by blast
  have "on_trace (\<lambda>connects sent events. set connects \<subseteq> pinned_targets px) (handle_client db env px (accepted sh incoming))"
    by (rule dialled.handle_client_keeps) (simp add: on_trace_def accepted_trace)
  with assms(2) obtain k p where p: "(k, p) \<in> set (px_policies px)" "a \<in> set (po_addresses p)" "q = po_port p"
    by (auto simp: on_trace_def pinned_targets_def)
  with c(3) [OF p(1)] obtain answers where ans: "re_lookup renv (po_hostname p) = Answers answers"
    "pin_answers answers = Inr (po_addresses p)" "po_origin p \<in> set origins" "k = po_origin p"
    by (auto simp: pinned_by_def)
  from pin_answers_Inr(2) [OF ans(2)] p(2) obtain v where "v \<in> set answers" "validate_public_address v = Inr a" by auto
  with validate_public c ans p show ?thesis by blast
qed

text \<open>C16: an event that says \<open>blocked\<close> is honest. If handling a client records the disposition \<open>blocked\<close>,
  then no byte was given to any origin's socket during that connection.\<close>

theorem egress_blocked_is_silent:
  assumes "map_of (sh_events sh) n = None"
    "map_of (sh_events (handle_client db env px (accepted sh incoming))) n = Some e" "pe_disposition e = ''blocked''"
  shows "hd_upstream_out (handle_client db env px (accepted sh incoming)) = []"
proof -
  let ?s = "accepted sh incoming"
  obtain s1 r where r: "client_body db env px ?s = (s1, r)" by (cases "client_body db env px ?s")
  have "on_trace (\<lambda>connects sent events. events = sh_events sh) s1"
    by (rule keepsD [OF unrecorded.client_body_keeps _ r]) (simp add: on_trace_def accepted_trace)
  then have new: "map_of (sh_events s1) n = None" using assms(1) by (simp add: on_trace_def)
  have start: "unsent ?s" by (simp add: on_trace_def accepted_trace)
  have none: "unsent s1" if "r = Inr None" using hoare_Inr [OF client_body_honest start] r that by blast
  have raised: "unsent s1" if "r = Inl x" "\<not> performed x" for x
    using hoare_Inl [OF client_body_honest start] r that by blast
  have ends: "hd_upstream_out s1 = []"
    if "handle_client db env px ?s = close_client env wo ca d rc s2" "sh_events s2 = sh_events s1"
      "d = ''blocked'' \<Longrightarrow> unsent s1" for wo ca d rc s2
    using close_client_event [of s2 n env wo ca d rc e] new that assms(2,3) by (auto simp: on_trace_def)
  have out: "hd_upstream_out (handle_client db env px ?s) = hd_upstream_out s1"
    unfolding handle_client_def r
    by (auto simp: close_client_sent split: sum.split option.split prod.split exn.split)
  show ?thesis unfolding out
  proof (cases r)
    case (Inr x)
    then show "hd_upstream_out s1 = []"
    proof (cases x)
      case None
      with Inr none show ?thesis by (simp add: on_trace_def)
    next
      case (Some y)
      then obtain wo ca where "x = Some (wo, ca)" by (cases y) auto
      with Inr r show ?thesis by (intro ends [of wo ca "''allowed''" "''completed''" s1]) (auto simp: handle_client_def)
    qed
  next
    case (Inl x)
    then show "hd_upstream_out s1 = []"
    proof (cases "performed x")
      case True
      then obtain a b c d f where "x = ProxyRejection a b c d f True" by (cases x) auto
      with Inl r show ?thesis
        by (intro ends [of c d "''allowed''" b "if f then s1 else safe_error env a s1"])
          (auto simp: handle_client_def close_client_sent)
    next
      case False
      with Inl raised show ?thesis by (simp add: on_trace_def)
    qed
  qed
qed

text \<open>C17: the accounting of the proxy holds in every interleaving of its handlers, its listener and a
  shutdown. At every point the bytes counted and the bytes reserved for running reads together stay within
  the contract's budget, and the reservations add up to what the running handlers hold; and when the
  telemetry says it is complete, the events are numbered without a gap, one for each admitted connection.\<close>

theorem egress_accounting:
  assumes "0 \<le> px_byte_limit px" "egress_steps px (fresh_proxy px, {#}) (s, R)"
  shows "0 \<le> sh_used s \<and> sh_used s + sh_reserved s \<le> px_byte_limit px \<and> sh_reserved s = sum_mset R \<and>
    (telemetry_complete s \<longrightarrow> map pe_sequence (events_snapshot s) = [0..<sh_next_sequence s])"
proof -
  have inv: "bytes_inv px s R" "events_inv px s"
    using egress_steps_inv [OF assms(2) fresh_proxy_inv [OF assms(1)]] by (simp_all add: egress_inv_def)
  then show ?thesis using events_snapshot_sequences [OF inv(2)]
    by (auto simp: bytes_inv_def telemetry_complete_def)
qed

text \<open>C18: handling one client refines the shared step relation: from any state that satisfies the
  invariant, the effect of \<open>handle_client\<close> on the shared state is a sequence of the atomic steps, in
  which every byte reservation the handler made is given back, and the invariant holds after it.\<close>

theorem handle_client_refines_steps:
  assumes "egress_inv px (sh, R)"
  shows "egress_steps px (sh, R) (shared (handle_client db env px (accepted sh incoming)), R) \<and>
    egress_inv px (shared (handle_client db env px (accepted sh incoming)), R)"
proof -
  have "steps_at px sh R R (handle_client db env px (accepted sh incoming))"
    by (rule steps.handle_client_keeps) (simp add: steps_at_def assms)
  then have "egress_steps px (sh, R) (shared (handle_client db env px (accepted sh incoming)), R)"
    by (simp add: steps_at_def)
  with egress_steps_inv [OF this assms] show ?thesis by simp
qed

end
