(* ===== verification/Egress_Samples.thy ===== *)
theory Egress_Samples
  imports Egress_Facts Browser_Decision
begin

section \<open>Egress proxy: a concrete run\<close>

text \<open>
  A proxy for one authorised origin and one request through it, evaluated. The deadline of the job passes
  between the moment the connector returns and the check that follows it. The run is an instance of the
  properties of \<open>Egress_Facts\<close>, and it shows what the code does with such a connection.
\<close>

definition sample_renv :: resolver_env where
  "sample_renv = \<lparr>re_clock = (\<lambda>n. 0), re_lookup = (\<lambda>h. Answers [S ''8.8.4.4''])\<rparr>"

definition sample_policy :: policy where
  "sample_policy = \<lparr>po_origin = str ''http://a.com'', po_scheme = str ''http'', po_hostname = str ''a.com'', po_port = 80,
     po_addresses = [str ''8.8.4.4'']\<rparr>"

definition sample_proxy :: egress_proxy where
  "sample_proxy = \<lparr>px_bind_host = str ''10.0.0.1'', px_bind_port = 3128, px_client_ip = str ''10.0.0.2'',
     px_limits = default_limits, px_byte_limit = 16 * 1024 * 1024, px_event_limit = 1024, px_wall_clock = 20,
     px_policies = [(str ''http://a.com'', sample_policy)]\<rparr>"

lemmas ip_eval = ip_address_def ipv4_of_def parse_octet_def strip_def py_space_def str_def is_digit_def digits_val_def
  in_net_def quad_def ipv4_text_def dec.simps

lemma sample_ips: "ip_address (str ''8.8.4.4'') = Some (IPv4 (quad 8 8 4 4))"
  "ip_address (str ''10.0.0.1'') = Some (IPv4 (quad 10 0 0 1))" "ip_address (str ''10.0.0.2'') = Some (IPv4 (quad 10 0 0 2))"
  by (simp_all add: ip_eval)

lemma sample_public: "validate_public_address (S ''8.8.4.4'') = Inr (str ''8.8.4.4'')"
  by (simp add: validate_public_address_def sample_address sample_ips NON_PUBLIC_V4_def in_net_def quad_def)

lemma sample_split: "urlsplit ascii_db (str ''http://a.com'') = Inr \<lparr>sr_scheme = str ''http'', sr_netloc = str ''a.com'',
    sr_path = [], sr_query = [], sr_fragment = []\<rparr>"
  by (simp add: url_eval)

lemma sample_host: "sr_hostname ascii_db \<lparr>sr_scheme = str ''http'', sr_netloc = str ''a.com'', sr_path = p, sr_query = q,
    sr_fragment = f\<rparr> = Some (str ''a.com'')"
  by (simp add: url_eval)

lemma sample_port: "sr_port \<lparr>sr_scheme = s, sr_netloc = str ''a.com'', sr_path = p, sr_query = q, sr_fragment = f\<rparr> = Inr None"
  by (simp add: url_eval)

lemma sample_pinned: "pre_resolve ascii_db sample_renv default_limits [str ''http://a.com''] = Inr [(str ''a.com'', [str ''8.8.4.4''])]"
  by (simp add: pre_resolve_def origin_hostname_def sample_split sample_host sample_renv_def resolve_host_def pin_answers_def
      MAX_DNS_ANSWERS_def sample_public default_limits_def)

lemma sample_policies: "pinned_policy ascii_db [(str ''a.com'', [str ''8.8.4.4''])] (str ''http://a.com'') =
    Inr (str ''http://a.com'', sample_policy)"
  by (simp add: pinned_policy_def origin_hostname_def origin_policy_def sample_split sample_host sample_policy_def sample_port)

lemma sample_canonical: "check_probe_request ascii_db sample_request = Inr sample_request"
proof -
  have "py_eq sample_request sample_request"
    by (simp add: sample_request_def obj_def PASSIVE_NAVIGATION_def DEFAULT_BUDGETS_def)
  then show ?thesis using sample_request_ok
    by (simp add: check_probe_request_def sample_request_def CONTRACT_VERSION_def)
qed

lemma sample_plain: "str ''10.0.0.1'' \<noteq> []" "str ''10.0.0.2'' \<noteq> []" "strip (str ''10.0.0.1'') = str ''10.0.0.1''"
  "strip (str ''10.0.0.2'') = str ''10.0.0.2''" "37 \<notin> set (str ''10.0.0.1'')" "37 \<notin> set (str ''10.0.0.2'')"
  "ipv4_text (quad 10 0 0 1) = str ''10.0.0.1''" "ipv4_text (quad 10 0 0 2) = str ''10.0.0.2''"
  by (simp_all add: ip_eval)

lemma sample_proxy_built:
  "BrowserEgressProxy ascii_db sample_renv sample_request (S ''10.0.0.1'') (S ''10.0.0.2'') (PInt 3128) default_limits =
   Inr sample_proxy"
proof -
  have ip: "plain_ip m (S ''10.0.0.1'') = Inr (IPv4 (quad 10 0 0 1))" "plain_ip m (S ''10.0.0.2'') = Inr (IPv4 (quad 10 0 0 2))" for m
    by (simp_all add: plain_ip_def sample_ips sample_plain)
  have kind: "\<not> v4_global (quad 10 0 0 1)" "\<not> v4_global (quad 10 0 0 2)"
    by (simp_all add: v4_global_def v4_private_def v4_private_networks_def in_net_def quad_def)
  have "canonical_bind_address (S ''10.0.0.1'') = Inr (str ''10.0.0.1'')"
    using kind sample_plain by (simp add: canonical_bind_address_def ip in_net_def quad_def)
  moreover have "canonical_client_address (S ''10.0.0.2'') = Inr (str ''10.0.0.2'')"
    using kind sample_plain by (simp add: canonical_client_address_def ip in_net_def quad_def)
  moreover have "request_budget sample_request ''max_network_bytes'' = Inr (16 * 1024 * 1024)"
    "request_budget sample_request ''max_events'' = Inr 10000" "request_budget sample_request ''wall_clock_sec'' = Inr 20"
    "request_origins sample_request = Inr [str ''http://a.com'']"
    by (simp_all add: request_budget_def request_origins_def sample_request_def DEFAULT_BUDGETS_def py_eval)
  ultimately show ?thesis
    by (simp add: BrowserEgressProxy_def sample_canonical check_bind_port_def sample_pinned sample_policies sample_proxy_def)
      (simp add: default_limits_def)
qed

text \<open>The clock passes the deadline with its fifth reading, the one after the connector has returned.\<close>

definition sample_head :: bytes where
  "sample_head = bytes_of ''GET http://a.com/ HTTP/1.1'' @ crlf @ bytes_of ''Host: a.com'' @ crlf @ crlf"

definition late_env :: egress_env where
  "late_env = \<lparr>he_clock = (\<lambda>n. if n < 4 then 0 else 100), he_revoked = (\<lambda>n. False), he_client_id = 1,
     he_upstream_id = 2, he_peer = Inr (Some [S ''10.0.0.2'', PInt 5]),
     he_connector = (\<lambda>n a p. Inr \<lparr>up_peer = Inr (Some [S ''8.8.4.4'', PInt 80]), up_incoming = []\<rparr>),
     he_client_error = (\<lambda>n. None), he_upstream_error = (\<lambda>n. None), he_ready = []\<rparr>"

definition late_run :: handler where
  "late_run = handle_client ascii_db late_env sample_proxy (accepted (fresh_proxy sample_proxy) [Inr sample_head])"

lemmas byte_eval = bytes_of_def crlf_def byte_of_def str_def of_char_def

lemma sample_cut: "cut_at (crlf @ crlf) sample_head = Some (bytes_of ''GET http://a.com/ HTTP/1.1'' @ crlf @ bytes_of ''Host: a.com'', [])"
  by (simp add: sample_head_def byte_eval)

lemma sample_lines: "splits crlf (bytes_of ''GET http://a.com/ HTTP/1.1'' @ crlf @ bytes_of ''Host: a.com'') =
    [bytes_of ''GET http://a.com/ HTTP/1.1'', bytes_of ''Host: a.com'']"
  by (simp add: byte_eval splits.simps)

lemma sample_parts: "splits [32] (bytes_of ''GET http://a.com/ HTTP/1.1'') = [bytes_of ''GET'', bytes_of ''http://a.com/'', bytes_of ''HTTP/1.1'']"
  by (simp add: byte_eval splits.simps)

lemma sample_texts: "ascii_text (bytes_of ''GET'') = Some (str ''GET'')" "ascii_text (bytes_of ''http://a.com/'') = Some (str ''http://a.com/'')"
  "ascii_text (bytes_of ''HTTP/1.1'') = Some (str ''HTTP/1.1'')" "ascii_text (bytes_of ''a.com'') = Some (str ''a.com'')"
  by (simp_all add: byte_eval ascii_text_def)

lemma sample_header: "parse_header [] (bytes_of ''Host: a.com'') = Inr [(str ''host'', bytes_of ''a.com'')]"
  by (simp add: parse_header_def byte_eval Let_def token_byte_def strip_blank_def ascii_lower_def is_alpha_def)

lemma sample_parsed: "parse_request sample_proxy (bytes_of ''GET http://a.com/ HTTP/1.1'' @ crlf @ bytes_of ''Host: a.com'') =
    Inr (str ''GET'', str ''http://a.com/'', [(str ''host'', bytes_of ''a.com'')])"
  apply (simp add: parse_request_def sample_lines sample_parts sample_texts ascii_or_def sample_header Let_def)
  apply (simp add: sample_proxy_def default_limits_def MAX_REQUEST_LINE_BYTES_def bytes_of_def REJECTED_REQUEST_HEADERS_def str_def)
  done

lemma sample_authorized:
  "authorized_http_policy ascii_db sample_proxy (str ''http://a.com/'') (bytes_of ''a.com'') = Inr (sample_policy, str ''http://a.com/'')"
proof -
  have u: "normalize_url ascii_db (S ''http://a.com/'') = Inr (str ''http://a.com/'')" by (simp add: url_eval)
  obtain r where r: "urlsplit ascii_db (str ''http://a.com/'') = Inr r" "sr_scheme r = str ''http''" "url_origin r = str ''http://a.com''"
    by (simp add: url_eval url_origin_def)
  have n: "normalize_origin ascii_db (S ''http://a.com'') = Inr (str ''http://a.com'')"
    by (rule normalize_origin_id [OF sample_origin])
  have s: "str ''http://'' @ str ''a.com'' = str ''http://a.com''" by (simp add: str_def)
  show ?thesis
    by (simp add: authorized_http_policy_def u r n s sample_texts reraise_text_def ascii_or_def sample_proxy_def)
      (simp add: sample_policy_def)
qed

lemma sample_outbound: "\<exists>out. outbound_request ascii_db sample_policy (str ''GET'') (str ''http://a.com/'')
    [(str ''host'', bytes_of ''a.com'')] = Inr out"
  by (simp add: outbound_request_def url_eval sample_policy_def ascii_bytes_def is_ascii_def)

lemma late_time:
  "\<not> sh_closed s \<Longrightarrow> sh_deadline s = Some 20 \<Longrightarrow> remaining_time late_env s =
     (s\<lparr>hd_tick := Suc (hd_tick s)\<rparr>, if hd_tick s < 4 then Inr 20 else Inl (reject 504 ''deadline''))"
  by (simp add: remaining_time_def bindA_def getA_def closed_now_def late_env_def liftA_def now_def)

lemma late_head:
  assumes "\<not> sh_closed s" "sh_deadline s = Some 20" "hd_client_in s = [Inr sample_head]" "hd_tick s < 4"
  shows "read_request_head late_env sample_proxy [] s = (s\<lparr>hd_tick := Suc (hd_tick s), hd_client_in := []\<rparr>,
    Inr (bytes_of ''GET http://a.com/ HTTP/1.1'' @ crlf @ bytes_of ''Host: a.com'', []))"
proof -
  have n: "length sample_head = 43" by (simp add: sample_head_def bytes_of_def crlf_def)
  have b: "sample_head \<noteq> []" using n by auto
  have c: "crlf \<noteq> []" by (simp add: crlf_def)
  have l: "max_header_bytes (px_limits sample_proxy) = 32768" by (simp add: sample_proxy_def default_limits_def)
  have again: "read_request_head late_env sample_proxy sample_head s' =
    (s', Inr (bytes_of ''GET http://a.com/ HTTP/1.1'' @ crlf @ bytes_of ''Host: a.com'', []))" for s'
    by (simp add: read_request_head.simps [of _ _ sample_head] sample_cut)
  show ?thesis
    by (simp add: read_request_head.simps [of _ _ "[]"] c l set_timeout_def bindA_def liftA_def late_time assms client_recv_def
        IO_CHUNK_BYTES_def n again b)
qed

lemma late_connect:
  assumes "\<not> sh_closed s" "sh_deadline s = Some 20" "hd_tick s = 3" "hd_connects s = []" "hd_open_upstreams s = 0"
  shows "connect_addresses late_env sample_policy None [str ''8.8.4.4''] s =
    (s\<lparr>hd_tick := 5, hd_connects := [(str ''8.8.4.4'', 80)], hd_open_upstreams := 1\<rparr>, Inl (reject 504 ''deadline''))"
proof -
  have "check_peer sample_policy (str ''8.8.4.4'') \<lparr>up_peer = Inr (Some [S ''8.8.4.4'', PInt 80]), up_incoming = []\<rparr> = Inr ()"
    by (simp add: check_peer_def sample_public sample_policy_def)
  moreover have "he_connector late_env n a p = Inr \<lparr>up_peer = Inr (Some [S ''8.8.4.4'', PInt 80]), up_incoming = []\<rparr>" for n a p
    by (simp add: late_env_def)
  moreover have "po_port sample_policy = 80" by (simp add: sample_policy_def)
  ultimately show ?thesis using assms
    by (simp add: bindA_def liftA_def getA_def modA_def tryA_def late_time adopt_upstream_def)
qed

lemma late_request:
  assumes "\<not> sh_closed s" "sh_deadline s = Some 20" "hd_client_in s = [Inr sample_head]" "hd_tick s = 2" "hd_connects s = []"
    "hd_open_upstreams s = 0" "sh_used s = 0" "sh_reserved s = 0"
  shows "handle_request ascii_db late_env sample_proxy s =
    (s\<lparr>hd_tick := 5, hd_client_in := [], hd_connects := [(str ''8.8.4.4'', 80)], hd_open_upstreams := 1\<rparr>, Inl (reject 504 ''deadline''))"
proof -
  obtain out where out: "outbound_request ascii_db sample_policy (str ''GET'') (str ''http://a.com/'')
      [(str ''host'', bytes_of ''a.com'')] = Inr out" using sample_outbound by blast
  have head: "read_request_head late_env sample_proxy [] s = (s\<lparr>hd_tick := 3, hd_client_in := []\<rparr>,
    Inr (bytes_of ''GET http://a.com/ HTTP/1.1'' @ crlf @ bytes_of ''Host: a.com'', []))"
    using assms by (simp add: late_head)
  have "str ''GET'' \<noteq> str ''CONNECT''" by (simp add: str_def)
  moreover have "px_byte_limit sample_proxy = 16777216" "po_addresses sample_policy = [str ''8.8.4.4'']"
    by (simp_all add: sample_proxy_def sample_policy_def)
  ultimately show ?thesis using assms
    by (simp add: handle_request_def handle_plain_http_def head bindA_def liftA_def getA_def sample_parsed sample_authorized out
        connect_def budget_remaining_def late_connect del: connect_addresses.simps)
qed

text \<open>What the run leaves.\<close>

lemma late_run_result:
  "hd_connects late_run = [(str ''8.8.4.4'', 80)] \<and> hd_upstream_out late_run = [] \<and> hd_open_upstreams late_run = 1 \<and>
   sh_active_upstreams late_run = [] \<and>
   sh_events late_run = [(0, \<lparr>pe_sequence = 0, pe_web_origin = None, pe_connect_authority = None, pe_disposition = ''blocked'',
     pe_reason_code = ''deadline'', pe_client_to_origin = 0, pe_origin_to_client = 0\<rparr>)]"
proof -
  have peer: "check_client late_env sample_proxy = Inr ()"
    by (simp add: check_client_def late_env_def peer_matches_allowed_client_def peer_text_def sample_ips sample_proxy_def sample_plain)
  have px: "px_wall_clock sample_proxy = 20" "px_event_limit sample_proxy = 1024" "max_connections (px_limits sample_proxy) = 64"
    "max_concurrent_connections (px_limits sample_proxy) = 8" by (simp_all add: sample_proxy_def default_limits_def)
  have env: "he_clock late_env 0 = 0" "he_revoked late_env n = False" for n by (simp_all add: late_env_def)
  show ?thesis
    by (simp add: late_run_def handle_client_def client_body_def bindA_def liftA_def getA_def modA_def tryA_def peer begin_runtime_def
        accepted_def fresh_proxy_def proxy_shared.defs closed_now_def now_def px env register_client_def reserve_event_def
        count_attempt_def acquire_slot_def late_time late_request close_client_def safe_error_def client_send_def
        finish_event_def REASON_CODES_def Let_def)
qed

lemma late_run_event: "map_of (sh_events late_run) 0 = Some \<lparr>pe_sequence = 0, pe_web_origin = None, pe_connect_authority = None,
    pe_disposition = ''blocked'', pe_reason_code = ''deadline'', pe_client_to_origin = 0, pe_origin_to_client = 0\<rparr>"
  using late_run_result by simp

theorem egress_targets_pinned_witness:
  "BrowserEgressProxy ascii_db sample_renv sample_request (S ''10.0.0.1'') (S ''10.0.0.2'') (PInt 3128) default_limits = Inr sample_proxy \<and>
   (str ''8.8.4.4'', 80) \<in> set (hd_connects late_run) \<and> public_unicast (str ''8.8.4.4'')"
proof -
  have dialled: "(str ''8.8.4.4'', 80) \<in> set (hd_connects late_run)" using late_run_result by simp
  with egress_targets_pinned [OF sample_proxy_built, of "str ''8.8.4.4''" 80 late_env "fresh_proxy sample_proxy" "[Inr sample_head]"]
  show ?thesis using sample_proxy_built by (auto simp: late_run_def)
qed

theorem egress_blocked_is_silent_witness:
  "(\<exists>e. map_of (sh_events late_run) 0 = Some e \<and> pe_disposition e = ''blocked'') \<and> hd_upstream_out late_run = []"
proof -
  have "hd_upstream_out late_run = []" unfolding late_run_def
    by (rule egress_blocked_is_silent [where n = 0, OF _ late_run_event [unfolded late_run_def]]) (simp_all add: fresh_proxy_def)
  with late_run_event show ?thesis by simp
qed

theorem egress_accounting_witness:
  "egress_steps sample_proxy (fresh_proxy sample_proxy, {#}) ((fresh_proxy sample_proxy)\<lparr>sh_reserved := 65536\<rparr>, {#65536#}) \<and>
   (65536::int) \<le> px_byte_limit sample_proxy"
proof -
  have limit: "px_byte_limit sample_proxy = 16777216" by (simp add: sample_proxy_def)
  have "egress_step sample_proxy (fresh_proxy sample_proxy, {#}) ((fresh_proxy sample_proxy)\<lparr>sh_reserved := 65536\<rparr>, {#65536#})"
    by (rule egress_step.Reserve [of _ 65536]) (simp add: reserve_def limit fresh_proxy_def)
  then have steps: "egress_steps sample_proxy (fresh_proxy sample_proxy, {#}) ((fresh_proxy sample_proxy)\<lparr>sh_reserved := 65536\<rparr>, {#65536#})"
    by (rule r_into_rtranclp)
  from egress_accounting [OF _ this] steps show ?thesis by (simp add: limit fresh_proxy_def)
qed

theorem handle_client_refines_steps_witness:
  "egress_inv sample_proxy (fresh_proxy sample_proxy, {#}) \<and>
   egress_steps sample_proxy (fresh_proxy sample_proxy, {#}) (shared late_run, {#}) \<and> sh_events (shared late_run) \<noteq> []"
proof -
  have inv: "egress_inv sample_proxy (fresh_proxy sample_proxy, {#})"
    by (rule fresh_proxy_inv) (simp add: sample_proxy_def)
  from handle_client_refines_steps [OF this, of ascii_db late_env "[Inr sample_head]"] late_run_result inv
  show ?thesis by (simp add: late_run_def proxy_shared.defs)
qed


end
