(* ===== verification/Json_Strict.thy ===== *)
theory Json_Strict
  imports Host_Io
begin

section \<open>Strict JSON objects\<close>

text \<open>
  \<open>json.loads(text, object_pairs_hook=pairs, parse_constant=constant)\<close> with the two hooks the Firecracker client
  and the egress worker install: a repeated key raises \<open>dup\<close> when its object ends, \<open>NaN\<close> and the infinities
  raise \<open>bad_const\<close> where they occur. \<open>strict_refines\<close> relates the parser to the plain one, so a strict result is the
  plain result and the fuel is enough; \<open>strict_loads_ascii\<close> is the round trip with the ASCII encoder.
\<close>

subsection \<open>The parser\<close>

definition s_atom :: "exn \<Rightarrow> pystr \<Rightarrow> (pyval \<times> pystr) res" where
  "s_atom bad_const s =
     (if strip_prefix (str ''NaN'') s \<noteq> None \<or> strip_prefix (str ''Infinity'') s \<noteq> None \<or>
         strip_prefix (str ''-Infinity'') s \<noteq> None
      then Inl bad_const else p_atom s)"

definition strict_dict :: "exn \<Rightarrow> pydict \<Rightarrow> pyval res" where
  "strict_dict dup kvs = (if distinct (map fst kvs) then Inr (PDict kvs) else Inl dup)"

fun s_value :: "exn \<Rightarrow> exn \<Rightarrow> nat \<Rightarrow> pystr \<Rightarrow> (pyval \<times> pystr) res"
  and s_elems :: "exn \<Rightarrow> exn \<Rightarrow> nat \<Rightarrow> pystr \<Rightarrow> (pyval list \<times> pystr) res"
  and s_members :: "exn \<Rightarrow> exn \<Rightarrow> nat \<Rightarrow> pystr \<Rightarrow> (pydict \<times> pystr) res" where
  "s_value dup bad_const 0 s = Inl RecursionError"
| "s_value dup bad_const (Suc n) s =
     (case s of
        [] \<Rightarrow> Inl JSONDecodeError
      | c # r \<Rightarrow>
          if c = 34 then
            (case scan_str r of None \<Rightarrow> Inl JSONDecodeError | Some (t, r') \<Rightarrow> Inr (PStr t, r'))
          else if c = 91 then
            (case skip_ws r of
               [] \<Rightarrow> Inl JSONDecodeError
             | d # r' \<Rightarrow>
                 if d = 93 then Inr (PList [], r')
                 else bindE (s_elems dup bad_const n (d # r')) (\<lambda>(xs, r''). Inr (PList xs, r'')))
          else if c = 123 then
            (case skip_ws r of
               [] \<Rightarrow> Inl JSONDecodeError
             | d # r' \<Rightarrow>
                 if d = 125 then Inr (PDict [], r')
                 else bindE (s_members dup bad_const n (d # r')) (\<lambda>(kvs, r'').
                        bindE (strict_dict dup kvs) (\<lambda>v. Inr (v, r''))))
          else s_atom bad_const s)"
| "s_elems dup bad_const 0 s = Inl RecursionError"
| "s_elems dup bad_const (Suc n) s =
     bindE (s_value dup bad_const n s) (\<lambda>(v, r).
       case skip_ws r of
         [] \<Rightarrow> Inl JSONDecodeError
       | c # r' \<Rightarrow>
           if c = 93 then Inr ([v], r')
           else if c = 44 then bindE (s_elems dup bad_const n (skip_ws r')) (\<lambda>(vs, r''). Inr (v # vs, r''))
           else Inl JSONDecodeError)"
| "s_members dup bad_const 0 s = Inl RecursionError"
| "s_members dup bad_const (Suc n) s =
     (case s of
        [] \<Rightarrow> Inl JSONDecodeError
      | q # s1 \<Rightarrow>
          if q \<noteq> 34 then Inl JSONDecodeError
          else (case scan_str s1 of
              None \<Rightarrow> Inl JSONDecodeError
            | Some (k, s2) \<Rightarrow>
                (case skip_ws s2 of
                   [] \<Rightarrow> Inl JSONDecodeError
                 | c # s3 \<Rightarrow>
                     if c \<noteq> 58 then Inl JSONDecodeError
                     else bindE (s_value dup bad_const n (skip_ws s3)) (\<lambda>(v, r).
                       case skip_ws r of
                         [] \<Rightarrow> Inl JSONDecodeError
                       | e # r' \<Rightarrow>
                           if e = 125 then Inr ([(KStr k, v)], r')
                           else if e = 44 then
                             bindE (s_members dup bad_const n (skip_ws r')) (\<lambda>(kvs, r''). Inr ((KStr k, v) # kvs, r''))
                           else Inl JSONDecodeError))))"

definition strict_loads :: "exn \<Rightarrow> exn \<Rightarrow> pystr \<Rightarrow> pyval res" where
  "strict_loads dup bad_const s =
     (let s' = skip_ws s in
      bindE (s_value dup bad_const (2 * length s' + 1) s') (\<lambda>(v, r).
        if skip_ws r = [] then Inr v else Inl JSONDecodeError))"

subsection \<open>It refines the plain parser\<close>

lemma s_atom_refines: "s_atom bad_const s = p_atom s \<or> s_atom bad_const s = Inl bad_const"
  by (simp add: s_atom_def)

lemma strict_dict_refines:
  "strict_dict dup kvs = Inr (PDict (foldl (\<lambda>d (k, v). dupd d k v) [] kvs)) \<or> strict_dict dup kvs = Inl dup"
  using foldl_dupd_distinct [of "[]" kvs] by (simp add: strict_dict_def)

text \<open>Equal, or one of the two errors.\<close>

definition refines :: "exn \<Rightarrow> exn \<Rightarrow> 'a res \<Rightarrow> 'a res \<Rightarrow> bool" where
  "refines dup bad_const m m' \<longleftrightarrow> m = m' \<or> m = Inl dup \<or> m = Inl bad_const"

lemma refines_refl [simp]: "refines dup bad_const m m" "refines dup bad_const (Inl dup) m'" "refines dup bad_const (Inl bad_const) m'"
  by (simp_all add: refines_def)

lemma refines_bind:
  "refines dup bad_const m m' \<Longrightarrow> (\<And>x. m' = Inr x \<Longrightarrow> refines dup bad_const (f x) (g x)) \<Longrightarrow>
   refines dup bad_const (bindE m f) (bindE m' g)"
  by (cases m') (auto simp: refines_def)

lemma strict_refines:
  "refines dup bad_const (s_value dup bad_const n s) (p_value n s)"
  "refines dup bad_const (s_elems dup bad_const n s) (p_elems n s)"
  "refines dup bad_const (s_members dup bad_const n s) (p_members n s)"
proof (induction n s and n s and n s rule: p_value_p_elems_p_members.induct)
  case (2 n s)
  have atom: "refines dup bad_const (s_atom bad_const s) (p_atom s)" for s using s_atom_refines [of bad_const s] by (auto simp: refines_def)
  have dict: "refines dup bad_const (bindE (strict_dict dup kvs) (\<lambda>v. Inr (v, r)))
      (Inr (PDict (foldl (\<lambda>d (k, v). dupd d k v) [] kvs), r))" for kvs r
    using strict_dict_refines [of dup kvs] by (auto simp: refines_def)
  show ?case
    using 2 by (auto intro!: refines_bind atom dict split: list.split option.split)
next
  case (4 n s)
  then show ?case by (auto intro!: refines_bind split: list.split)
next
  case (6 n s)
  then show ?case by (auto intro!: refines_bind split: list.split option.split)
qed simp_all

lemma strict_loads_refines: "refines dup bad_const (strict_loads dup bad_const s) (json_loads_str s)"
  unfolding strict_loads_def json_loads_str_def Let_def
  by (rule refines_bind [OF strict_refines(1)]) auto

subsection \<open>Values come back\<close>

definition asc :: "pystr \<Rightarrow> pystr" where
  "asc s = concat (map ascii_char s)"

lemma asc_simps [simp]: "asc [] = []" "asc (s @ t) = asc s @ asc t" "asc (c # s) = ascii_char c @ asc s"
  by (simp_all add: asc_def)

lemma ascii_char_id: "c \<le> 126 \<Longrightarrow> ascii_char c = [c]"
  by (simp add: ascii_char_def)

lemma asc_id: "list_all (\<lambda>c. c \<le> 126) s \<Longrightarrow> asc s = s"
  by (induction s) (auto simp: ascii_char_id)

lemma hex4_escape: "u < 0x10000 \<Longrightarrow>
    hex4 (hex_digit (u div 4096)) (hex_digit (u div 256 mod 16)) (hex_digit (u div 16 mod 16)) (hex_digit (u mod 16)) = Some u"
proof -
  assume "u < 0x10000"
  then have "u div 4096 < 16" by simp
  moreover have "u div 4096 * 4096 + u div 256 mod 16 * 256 + u div 16 mod 16 * 16 + u mod 16 = u"
    using div_mult_mod_eq [of u 16] div_mult_mod_eq [of "u div 16" 16] div_mult_mod_eq [of "u div 256" 16]
      div_mult2_eq [of u 16 16, simplified] div_mult2_eq [of u 256 16, simplified] by linarith
  ultimately show ?thesis by (simp add: hex4_def hex_val_digit)
qed

lemma scan_str_unit:
  assumes "u < 0x10000"
  shows "scan_str (unicode_escape u @ r) = (case (if 0xD800 \<le> u \<and> u < 0xDC00 then low_escape r else None) of
      Some l \<Rightarrow> map_option (\<lambda>(t, r'). ((0x10000 + (u - 0xD800) * 1024 + (l - 0xDC00)) # t, r')) (scan_str (drop 6 r))
    | None \<Rightarrow> map_option (\<lambda>(t, r'). (u # t, r')) (scan_str r))"
  using assms by (simp add: unicode_escape_def scan_str.simps(2) hex4_escape)

lemma scan_str_escape:
  assumes "u < 0x10000" "\<not> (0xD800 \<le> u \<and> u < 0xDC00)"
  shows "scan_str (unicode_escape u @ s) = map_option (\<lambda>(t, r). (u # t, r)) (scan_str s)"
proof -
  have "(if 0xD800 \<le> u \<and> u < 0xDC00 then low_escape s else None) = None" using assms(2) by argo
  with assms(1) show ?thesis by (simp only: scan_str_unit) simp
qed

lemma scan_str_pair:
  assumes "h < 1024" "l < 1024"
  shows "scan_str (unicode_escape (0xD800 + h) @ unicode_escape (0xDC00 + l) @ s) =
    map_option (\<lambda>(t, r). ((0x10000 + h * 1024 + l) # t, r)) (scan_str s)"
proof -
  have "low_escape (unicode_escape (0xDC00 + l) @ s) = Some (0xDC00 + l)"
    using assms(2) by (simp add: unicode_escape_def low_escape_def hex4_escape)
  moreover have "drop 6 (unicode_escape (0xDC00 + l) @ s) = s" by (simp add: unicode_escape_def)
  ultimately show ?thesis using assms scan_str_unit [of "0xD800 + h" "unicode_escape (0xDC00 + l) @ s"] by simp
qed

lemma scan_str_ascii_char:
  assumes "scalar c" "126 < c"
  shows "scan_str (ascii_char c @ s) = map_option (\<lambda>(t, r). (c # t, r)) (scan_str s)"
proof (cases "c < 0x10000")
  case True
  with assms have "\<not> (0xD800 \<le> c \<and> c < 0xDC00)" by (auto simp: scalar_def)
  with True assms show ?thesis by (simp add: ascii_char_def scan_str_escape)
next
  case False
  let ?d = "c - 0x10000"
  from False assms have "?d div 1024 < 1024" "0x10000 + ?d div 1024 * 1024 + ?d mod 1024 = c"
    using False by (auto simp: scalar_def)
  with False scan_str_pair [of "?d div 1024" "?d mod 1024" s] show ?thesis
    by (simp add: ascii_char_def)
qed

lemma hex_digit_ascii: "n < 16 \<Longrightarrow> hex_digit n \<le> 126"
  by (simp add: hex_digit_def)

lemma scan_str_asc: "list_all scalar s \<Longrightarrow> scan_str (asc (concat (map esc_char s)) @ 34 # r) = Some (s, r)"
proof (induction s)
  case Nil
  then show ?case by (simp add: scan_str.simps(2))
next
  case (Cons c s)
  have "scan_str (asc (esc_char c) @ t) = map_option (\<lambda>(t, r). (c # t, r)) (scan_str t)" for t
  proof (cases "c \<le> 126")
    case True
    then have "asc (esc_char c) = esc_char c" by (intro asc_id) (auto simp: esc_char_def hex_digit_ascii)
    then show ?thesis by (simp add: scan_str_esc)
  next
    case False
    then have "esc_char c = [c]" by (simp add: esc_char_def)
    with False Cons scan_str_ascii_char [of c t] show ?thesis by simp
  qed
  with Cons show ?case by simp
qed

text \<open>Every string in the value can be encoded.\<close>

fun scalars :: "pyval \<Rightarrow> bool"
  and scalars_list :: "pyval list \<Rightarrow> bool"
  and scalars_dict :: "pydict \<Rightarrow> bool" where
  "scalars (PStr s) = list_all scalar s"
| "scalars (PList xs) = scalars_list xs"
| "scalars (PDict d) = scalars_dict d"
| "scalars _ = True"
| "scalars_list [] = True"
| "scalars_list (x # xs) = (scalars x \<and> scalars_list xs)"
| "scalars_dict [] = True"
| "scalars_dict ((k, v) # d) = (list_all scalar (key_str k) \<and> scalars v \<and> scalars_dict d)"

lemma asc_dump_str [simp]: "asc (dump_str s) = [34] @ asc (concat (map esc_char s)) @ [34]"
  by (simp add: dump_str_def ascii_char_id)

lemma asc_dump_int [simp]: "asc (dump_int i) = dump_int i"
proof (rule asc_id)
  have "list_all (\<lambda>c. c \<le> 126) (dec n)" for n
    using dec_digits [of n] by (auto simp: list_all_iff is_digit_def)
  then show "list_all (\<lambda>c. c \<le> 126) (dump_int i)" by (simp add: dump_int_def)
qed

lemma asc_starts: "starts_value s \<Longrightarrow> hd s \<le> 126 \<Longrightarrow> starts_value (asc s)"
  by (cases s) (auto simp: starts_value_def ascii_char_id)

lemma dump_hd: "jsonable v \<Longrightarrow> hd (dump fr v) \<le> 126"
proof (cases v)
  case (PInt i)
  then show ?thesis using dec_hd_digit [of "nat i" "[]"] by (auto simp: dump_int_def is_digit_def)
qed (auto simp: dump_str_def str_def)

lemma asc_dump_starts: "jsonable v \<Longrightarrow> starts_value (asc (dump fr v))"
  by (intro asc_starts dump_starts dump_hd)

lemma asc_elems_starts: "xs \<noteq> [] \<Longrightarrow> jsonable_list xs \<Longrightarrow> starts_value (asc (dump_elems fr xs))"
  using asc_dump_starts by (cases xs) (auto simp: starts_value_def)

lemma asc_members_starts: "d \<noteq> [] \<Longrightarrow> starts_value (asc (dump_members fr d))"
  by (cases d) (auto simp: starts_value_def)

lemma s_atom_int:
  assumes "length (dec (nat \<bar>i\<bar>)) \<le> 4300" "stops r"
  shows "s_atom bad_const (dump_int i @ r) = Inr (PInt i, r)"
proof -
  obtain c t where ct: "dump_int i @ r = c # t" "c = 45 \<or> is_digit c" "c = 45 \<longrightarrow> is_digit (hd t) \<and> t \<noteq> []"
    by (rule dump_int_head)
  have "strip_prefix (str ''NaN'') (c # t) = None" "strip_prefix (str ''Infinity'') (c # t) = None"
    "strip_prefix (str ''-Infinity'') (c # t) = None"
    using ct(2,3) by (cases t; auto simp: str_def is_digit_def)+
  then show ?thesis using p_atom_dump [OF assms] by (simp add: s_atom_def ct(1))
qed

lemma s_list_asc:
  assumes "jsonable_list xs" "xs \<noteq> [] \<Longrightarrow> s_elems dup bad_const n (asc (dump_elems fr xs) @ 93 # r) = Inr (xs, r)"
  shows "s_value dup bad_const (Suc n) (asc (dump fr (PList xs)) @ r) = Inr (PList xs, r)"
proof (cases "xs = []")
  case False
  with assms(1) have "starts_value (asc (dump_elems fr xs))" by (rule asc_elems_starts [rotated])
  then obtain c t where ct: "asc (dump_elems fr xs) = c # t" "c \<noteq> 32" "c \<noteq> 9" "c \<noteq> 10" "c \<noteq> 13" "c \<noteq> 93"
    by (rule starts_value_cons)
  with assms(2) False show ?thesis by (simp add: ascii_char_id)
qed (simp add: ascii_char_id)

lemma s_dict_asc:
  assumes "distinct (map fst d)" "d \<noteq> [] \<Longrightarrow> s_members dup bad_const n (asc (dump_members fr d) @ 125 # r) = Inr (d, r)"
  shows "s_value dup bad_const (Suc n) (asc (dump fr (PDict d)) @ r) = Inr (PDict d, r)"
proof (cases "d = []")
  case False
  then have "starts_value (asc (dump_members fr d))" by (rule asc_members_starts)
  then obtain c t where ct: "asc (dump_members fr d) = c # t" "c \<noteq> 32" "c \<noteq> 9" "c \<noteq> 10" "c \<noteq> 13" "c \<noteq> 125"
    by (rule starts_value_cons)
  with assms False show ?thesis by (simp add: ascii_char_id strict_dict_def)
qed (simp add: ascii_char_id)

lemma s_value_asc:
  "jsonable v \<Longrightarrow> scalars v \<Longrightarrow> stops r \<Longrightarrow> 2 * length (asc (dump fr v) @ r) < n \<Longrightarrow>
     s_value dup bad_const n (asc (dump fr v) @ r) = Inr (v, r)"
  "xs \<noteq> [] \<Longrightarrow> jsonable_list xs \<Longrightarrow> scalars_list xs \<Longrightarrow> 2 * length (asc (dump_elems fr xs) @ 93 # r) + 1 < n \<Longrightarrow>
     s_elems dup bad_const n (asc (dump_elems fr xs) @ 93 # r) = Inr (xs, r)"
  "d \<noteq> [] \<Longrightarrow> jsonable_dict d \<Longrightarrow> scalars_dict d \<Longrightarrow> 2 * length (asc (dump_members fr d) @ 125 # r) + 1 < n \<Longrightarrow>
     s_members dup bad_const n (asc (dump_members fr d) @ 125 # r) = Inr (d, r)"
proof (induction fr v and fr xs and fr d arbitrary: n r and n r and n r
    rule: dump_dump_elems_dump_members.induct)
  case (3 fr i)
  then obtain m where n: "n = Suc m" by (cases n) auto
  obtain c t where ct: "dump_int i @ r = c # t" "c = 45 \<or> is_digit c" by (rule dump_int_head)
  then show ?case using 3 s_atom_int [of i r] by (auto simp: n is_digit_def)
next
  case (6 fr xs)
  then obtain m where n: "n = Suc m" by (cases n) auto
  show ?case unfolding n by (rule s_list_asc) (use 6 n in \<open>auto simp: ascii_char_id\<close>)
next
  case (7 fr d)
  then obtain m where n: "n = Suc m" by (cases n) auto
  show ?case unfolding n by (rule s_dict_asc) (use 7 n in \<open>auto simp: ascii_char_id\<close>)
next
  case (10 fr x xs)
  then obtain m where n: "n = Suc m" by (cases n) auto
  let ?r = "(if xs = [] then [] else 44 # asc (dump_elems fr xs)) @ 93 # r"
  have "stops ?r" by (simp add: stops_def is_digit_def)
  with 10 n have v: "s_value dup bad_const m (asc (dump fr x) @ ?r) = Inr (x, ?r)" by (auto simp: ascii_char_id)
  show ?case
  proof (cases "xs = []")
    case True
    with v show ?thesis by (simp add: n)
  next
    case False
    with 10 have "starts_value (asc (dump_elems fr xs))" by (auto intro: asc_elems_starts)
    moreover from False 10 n have "s_elems dup bad_const m (asc (dump_elems fr xs) @ 93 # r) = Inr (xs, r)"
      by (auto simp: ascii_char_id)
    ultimately show ?thesis using False v by (simp add: n ascii_char_id)
  qed
next
  case (12 fr k v d)
  then obtain m where n: "n = Suc m" by (cases n) auto
  let ?r = "(if d = [] then [] else 44 # asc (dump_members fr d)) @ 125 # r"
  from 12 obtain s where s: "k = KStr s" by (cases k) auto
  have "stops ?r" by (simp add: stops_def is_digit_def)
  with 12 n have v: "s_value dup bad_const m (asc (dump fr v) @ ?r) = Inr (v, ?r)" by (auto simp: ascii_char_id)
  from 12 have sv: "starts_value (asc (dump fr v))" by (auto intro: asc_dump_starts)
  have k: "list_all scalar s" using 12 s by simp
  show ?case
  proof (cases "d = []")
    case True
    with v sv k show ?thesis by (simp add: n s scan_str_asc ascii_char_id)
  next
    case False
    then have "starts_value (asc (dump_members fr d))" by (rule asc_members_starts)
    moreover from False 12 n have "s_members dup bad_const m (asc (dump_members fr d) @ 125 # r) = Inr (d, r)"
      by (auto simp: ascii_char_id)
    ultimately show ?thesis using False v sv k by (simp add: n s scan_str_asc ascii_char_id)
  qed
next
  case (1 fr)
  then show ?case by (cases n) (auto simp: str_def s_atom_def p_atom_def ascii_char_id)
next
  case (2 fr b)
  then show ?case by (cases n) (auto simp: str_def s_atom_def p_atom_def ascii_char_id)
next
  case (5 fr s)
  then show ?case by (cases n) (auto simp: scan_str_asc)
qed auto

text \<open>The strict decoder inverts the ASCII encoder.\<close>

lemma strict_loads_ascii:
  assumes "jsonable (canon v)" "scalars (canon v)"
  shows "strict_loads dup bad_const (asc (dump fr (canon v))) = Inr (canon v)"
proof -
  let ?t = "asc (dump fr (canon v))"
  have "skip_ws ?t = ?t" using skip_ws_starts [OF asc_dump_starts [OF assms(1)], of _ "[]"] by simp
  moreover have "s_value dup bad_const (2 * length ?t + 1) ?t = Inr (canon v, [])"
    using s_value_asc(1) [OF assms, of "[]" fr "2 * length ?t + 1"] by (simp add: stops_def)
  ultimately show ?thesis by (simp add: strict_loads_def Let_def del: s_value.simps)
qed

subsection \<open>Exceptions\<close>

text \<open>\<open>except E: raise e\<close> around a call; \<open>caught\<close> are the exceptions the clause names.\<close>

definition catch_as :: "(exn \<Rightarrow> bool) \<Rightarrow> exn \<Rightarrow> 'a res \<Rightarrow> 'a res" where
  "catch_as caught e m = (case m of Inl x \<Rightarrow> Inl (if caught x then e else x) | Inr v \<Rightarrow> Inr v)"

lemma catch_as_simps [simp]: "catch_as c e (Inr v) = Inr v" "catch_as c e (Inl x) = Inl (if c x then e else x)"
  "catch_as c e m = Inr v \<longleftrightarrow> m = Inr v"
  by (auto simp: catch_as_def split: sum.splits)

text \<open>A missing value raises.\<close>

definition some_or :: "exn \<Rightarrow> 'a option \<Rightarrow> 'a res" where
  "some_or e x = (case x of None \<Rightarrow> Inl e | Some y \<Rightarrow> Inr y)"

lemma some_or_simps [simp]: "some_or e None = Inl e" "some_or e (Some y) = Inr y" "some_or e x = Inr y \<longleftrightarrow> x = Some y"
  by (auto simp: some_or_def split: option.splits)

end
