(* ===== verification/Worker_Ipc.thy ===== *)
theory Worker_Ipc
  imports Json_Strict Sha256
begin

section \<open>Egress worker: the framed control channel\<close>

text \<open>
  The frames of \<open>broker/browser_egress_worker.py\<close>: a four-byte length, then a JSON object, over a pipe. A pipe to
  read from is the list of what the following turns of the loop meet: the deadline (\<open>Expired\<close>), a \<open>select\<close> that
  reports nothing (\<open>Quiet\<close>), an interrupted or failing \<open>read\<close>, or bytes; a segment longer than what is asked
  for stays for the next call, an empty one is end of file. When the list ends nothing more arrives. A pipe to write
  to is described the same way by what each turn of the write loop meets.
\<close>

abbreviation worker_error :: "string \<Rightarrow> exn" where
  "worker_error m \<equiv> BrowserEgressWorkerError m"

abbreviation worker_protocol :: "string \<Rightarrow> exn" where
  "worker_protocol m \<equiv> BrowserEgressWorkerProtocolError m"

abbreviation worker_timeout :: "string \<Rightarrow> exn" where
  "worker_timeout m \<equiv> BrowserEgressWorkerTimeout m"

definition MAX_CONFIG_FRAME_BYTES :: nat where "MAX_CONFIG_FRAME_BYTES = 128 * 1024"
definition MAX_STATUS_FRAME_BYTES :: nat where "MAX_STATUS_FRAME_BYTES = 1024 * 1024"

subsection \<open>JSON objects\<close>

definition json_object :: "bytes \<Rightarrow> pyval res" where
  "json_object raw = (case utf8_decode False raw of
       None \<Rightarrow> Inl (worker_protocol ''invalid IPC JSON'')
     | Some text \<Rightarrow>
         bindE (catch_as (\<lambda>e. e = JSONDecodeError) (worker_protocol ''invalid IPC JSON'')
           (strict_loads (worker_protocol ''duplicate IPC JSON key'') (worker_protocol ''non-finite IPC JSON number'') text))
           (\<lambda>v. if is_dict v then Inr v else Inl (worker_protocol ''IPC frame must be an object'')))"

text \<open>\<open>json.dumps(value, sort_keys=True, ..., ensure_ascii=True, allow_nan=False)\<close>.\<close>

definition ascii_json :: "(pyfloat \<Rightarrow> pystr) \<Rightarrow> pyval \<Rightarrow> pystr res" where
  "ascii_json fr v =
     (if \<not> dumpable v then Inl TypeError
      else if \<not> finite_floats v then Inl (ValueError ''Out of range float values'')
      else Inr (asc (dump fr (canon v))))"

definition encode_frame :: "(pyfloat \<Rightarrow> pystr) \<Rightarrow> pyval \<Rightarrow> nat \<Rightarrow> bytes res" where
  "encode_frame fr v maximum = (case ascii_json fr v of
       Inl e \<Rightarrow> Inl (worker_protocol ''IPC value is not strict JSON'')
     | Inr text \<Rightarrow>
         let payload = map byte_of text in
         if payload = [] \<or> maximum < length payload then Inl (worker_protocol ''IPC frame exceeds its byte limit'')
         else Inr (be_bytes 4 (length payload) @ payload))"

subsection \<open>Reading\<close>

datatype pipe_in = Expired | Quiet | Interrupted | Broken | Data bytes

fun read_exact :: "nat \<Rightarrow> pipe_in list \<Rightarrow> bytes \<Rightarrow> pipe_in list \<times> bytes res" where
  "read_exact count [] result =
     (if count \<le> length result then ([], Inr result) else ([], Inl (worker_timeout ''worker IPC read timed out'')))"
| "read_exact count (turn # rest) result =
     (if count \<le> length result then (turn # rest, Inr result)
      else (case turn of
          Expired \<Rightarrow> (rest, Inl (worker_timeout ''worker IPC deadline expired''))
        | Quiet \<Rightarrow> (rest, Inl (worker_timeout ''worker IPC read timed out''))
        | Interrupted \<Rightarrow> read_exact count rest result
        | Broken \<Rightarrow> (rest, Inl (worker_protocol ''worker IPC read failed''))
        | Data chunk \<Rightarrow>
            if chunk = [] then (turn # rest, Inl (worker_protocol ''worker IPC closed early''))
            else if length chunk \<le> count - length result then read_exact count rest (result @ chunk)
            else (Data (drop (count - length result) chunk) # rest,
                  Inr (result @ take (count - length result) chunk))))"

definition be_val :: "bytes \<Rightarrow> nat" where
  "be_val b = foldl (\<lambda>n x. 256 * n + unat x) 0 b"

definition read_frame :: "nat \<Rightarrow> pipe_in list \<Rightarrow> pipe_in list \<times> pyval res" where
  "read_frame maximum pipe = (case read_exact 4 pipe [] of
       (pipe1, Inl e) \<Rightarrow> (pipe1, Inl e)
     | (pipe1, Inr header) \<Rightarrow>
         let len = be_val header in
         if \<not> (1 \<le> len \<and> len \<le> maximum) then (pipe1, Inl (worker_protocol ''worker IPC length is invalid''))
         else (case read_exact len pipe1 [] of
             (pipe2, Inl e) \<Rightarrow> (pipe2, Inl e)
           | (pipe2, Inr body) \<Rightarrow> (pipe2, json_object body)))"

subsection \<open>Writing\<close>

datatype pipe_out = Out_expired | Out_quiet | Out_interrupted | Out_broken | Wrote int

text \<open>The second result is what reached the pipe, also when the loop raises.\<close>

fun write_all :: "pipe_out list \<Rightarrow> bytes \<Rightarrow> bytes \<Rightarrow> pipe_out list \<times> bytes \<times> unit res" where
  "write_all [] payload sent =
     (if payload = [] then ([], sent, Inr ()) else ([], sent, Inl (worker_timeout ''worker IPC write timed out'')))"
| "write_all (turn # rest) payload sent =
     (if payload = [] then (turn # rest, sent, Inr ())
      else (case turn of
          Out_expired \<Rightarrow> (rest, sent, Inl (worker_timeout ''worker IPC deadline expired''))
        | Out_quiet \<Rightarrow> (rest, sent, Inl (worker_timeout ''worker IPC write timed out''))
        | Out_interrupted \<Rightarrow> write_all rest payload sent
        | Out_broken \<Rightarrow> (rest, sent, Inl (worker_protocol ''worker IPC write failed''))
        | Wrote count \<Rightarrow>
            if count \<le> 0 then (rest, sent, Inl (worker_protocol ''worker IPC write made no progress''))
            else
              let n = min (nat count) (length (take 4096 payload)) in
              write_all rest (drop n payload) (sent @ take n payload)))"

definition write_frame ::
  "(pyfloat \<Rightarrow> pystr) \<Rightarrow> pipe_out list \<Rightarrow> pyval \<Rightarrow> nat \<Rightarrow> pipe_out list \<times> bytes \<times> unit res" where
  "write_frame fr pipe v maximum = (case encode_frame fr v maximum of
       Inl e \<Rightarrow> (pipe, [], Inl e)
     | Inr wire \<Rightarrow> write_all pipe wire [])"

subsection \<open>What the loops do\<close>

lemma write_all_Inr: "write_all pipe payload sent = (pipe', out, Inr ()) \<Longrightarrow> out = sent @ payload"
proof (induction pipe payload sent rule: write_all.induct)
  case (2 turn rest payload sent)
  show ?case
  proof (cases "payload = []")
    case True
    with "2.prems" show ?thesis by simp
  next
    case False
    show ?thesis
    proof (cases turn)
      case Out_interrupted
      with False 2 show ?thesis by simp
    next
      case (Wrote count)
      with False 2 show ?thesis
        by (cases "count \<le> 0") (simp_all add: Let_def del: take_append)
    qed (use False "2.prems" in simp_all)
  qed
qed (simp split: if_splits)

text \<open>A pipe that delivers \<open>b\<close> and then what \<open>rest\<close> holds, in any segments and with any interruptions.\<close>

fun delivers :: "pipe_in list \<Rightarrow> bytes \<Rightarrow> bool" where
  "delivers [] b = (b = [])"
| "delivers (Data chunk # rest) b =
     (chunk \<noteq> [] \<and> take (length chunk) b = chunk \<and> delivers rest (drop (length chunk) b))"
| "delivers (Interrupted # rest) b = delivers rest b"
| "delivers _ b = False"

lemma delivers_Data: "delivers (Data chunk # rest) b \<longleftrightarrow> chunk \<noteq> [] \<and> (\<exists>c. b = chunk @ c \<and> delivers rest c)"
  by (metis append_eq_conv_conj delivers.simps(2) append_take_drop_id)

lemma read_exact_delivers:
  assumes "delivers pipe (b @ rest)" "length result + length b = count"
  shows "\<exists>pipe'. read_exact count pipe result = (pipe', Inr (result @ b)) \<and> delivers pipe' rest"
  using assms
proof (induction count pipe result arbitrary: b rule: read_exact.induct)
  case (1 count result)
  then show ?case by simp
next
  case (2 count turn pipe result)
  show ?case
  proof (cases "b = []")
    case True
    with 2(3,4) show ?thesis by auto
  next
    case False
    then have short: "\<not> count \<le> length result" using 2(4) by (cases b) auto
    show ?thesis
    proof (cases turn)
      case Interrupted
      with 2(1) [OF short] 2(3,4) short show ?thesis by simp
    next
      case (Data chunk)
      from 2(3) obtain c where c: "chunk \<noteq> []" "b @ rest = chunk @ c" "delivers pipe c"
        unfolding Data delivers_Data by blast
      have need: "count - length result = length b" using 2(4) by linarith
      show ?thesis
      proof (cases "length chunk \<le> length b")
        case True
        then obtain b2 where b2: "b = chunk @ b2" "c = b2 @ rest"
          using c(2) by (auto simp: append_eq_append_conv2)
        from 2(2) [OF short Data c(1), of b2] True need b2 c(3) 2(4) show ?thesis
          by (simp add: Data c(1) short)
      next
        case False
        then obtain d where d: "chunk = b @ d" "rest = d @ c" "d \<noteq> []"
          using c(2) by (auto simp: append_eq_append_conv2)
        with False c need short show ?thesis by (simp add: Data delivers_Data)
      qed
    qed (use 2(3) in simp_all)
  qed
qed

lemma be_val_snoc [simp]: "be_val (b @ [x]) = 256 * be_val b + unat x" "be_val [] = 0"
  by (simp_all add: be_val_def)

lemma be_val_bytes: "n < 256 ^ k \<Longrightarrow> be_val (be_bytes k n) = n"
proof (induction k arbitrary: n)
  case (Suc k)
  then have "n div 256 < 256 ^ k" by (simp add: less_mult_imp_div_less)
  with Suc.IH show ?case by (simp add: unat_byte_of)
qed simp

lemma length_be_bytes [simp]: "length (be_bytes k n) = k"
  by (induction k arbitrary: n) simp_all

lemma read_frame_delivers:
  assumes "delivers pipe (be_bytes 4 (length body) @ body @ rest)" "1 \<le> length body" "length body \<le> maximum"
    "maximum < 2 ^ 32"
  shows "\<exists>pipe'. read_frame maximum pipe = (pipe', json_object body) \<and> delivers pipe' rest"
proof -
  let ?h = "be_bytes 4 (length body)"
  obtain p1 where p1: "read_exact 4 pipe [] = (p1, Inr ?h)" "delivers p1 (body @ rest)"
    using read_exact_delivers [OF assms(1), of "[]" 4] by auto
  obtain p2 where p2: "read_exact (length body) p1 [] = (p2, Inr body)" "delivers p2 rest"
    using read_exact_delivers [OF p1(2), of "[]" "length body"] by auto
  have "be_val ?h = length body" using assms(3,4) by (intro be_val_bytes) simp
  with p1 p2 assms(2,3) show ?thesis by (simp add: read_frame_def Let_def)
qed

subsection \<open>Frames come back\<close>

lemma unicode_escape_ascii: "u < 0x10000 \<Longrightarrow> list_all (\<lambda>c. c < 128) (unicode_escape u)"
  using less_mult_imp_div_less [of u 16 4096] hex_digit_ascii [of "u div 4096"] hex_digit_ascii [of "u div 256 mod 16"]
    hex_digit_ascii [of "u div 16 mod 16"] hex_digit_ascii [of "u mod 16"] by (simp add: unicode_escape_def)

lemma asc_ascii: "list_all scalar s \<Longrightarrow> list_all (\<lambda>c. c < 128) (asc s)"
proof (induction s)
  case (Cons c s)
  have "list_all (\<lambda>c. c < 128) (ascii_char c)"
    using Cons.prems by (auto simp: ascii_char_def scalar_def unicode_escape_ascii)
  with Cons show ?case by simp
qed simp

lemma scalar_ascii: "c < 128 \<Longrightarrow> scalar c"
  by (simp add: scalar_def)

lemma esc_scalar: "list_all scalar s \<Longrightarrow> list_all scalar (concat (map esc_char s))"
proof (induction s)
  case (Cons c s)
  have "scalar (hex_digit (c mod 16))" "c < 32 \<Longrightarrow> scalar (hex_digit (c div 16))"
    by (auto intro!: scalar_ascii simp: hex_digit_def)
  then have "list_all scalar (esc_char c)"
    using Cons.prems by (simp add: esc_char_def scalar_ascii)
  with Cons show ?case by simp
qed simp

lemma dump_int_scalar: "list_all scalar (dump_int i)"
proof -
  have "list_all scalar (dec n)" for n
    using dec_digits [of n] by (auto simp: list_all_iff is_digit_def scalar_def)
  then show ?thesis by (simp add: dump_int_def scalar_def)
qed

lemma dump_scalar:
  "jsonable v \<Longrightarrow> scalars v \<Longrightarrow> list_all scalar (dump fr v)"
  "jsonable_list xs \<Longrightarrow> scalars_list xs \<Longrightarrow> list_all scalar (dump_elems fr xs)"
  "jsonable_dict d \<Longrightarrow> scalars_dict d \<Longrightarrow> list_all scalar (dump_members fr d)"
  by (induction fr v and fr xs and fr d rule: dump_dump_elems_dump_members.induct)
    (auto simp: dump_str_def esc_scalar dump_int_scalar scalar_ascii str_def)

lemma decode_ascii: "list_all (\<lambda>c. c < 128) s \<Longrightarrow> utf8_decode False (map byte_of s) = Some s"
  by (induction s) (simp_all add: utf8_decode.simps(2))

lemma json_object_ascii:
  assumes "jsonable (canon v)" "scalars (canon v)" "is_dict v"
  shows "json_object (map byte_of (asc (dump fr (canon v)))) = Inr (canon v)"
proof -
  have "is_dict (canon v)" using assms(3) by (cases v) simp_all
  then show ?thesis
    using decode_ascii [OF asc_ascii [OF dump_scalar(1) [OF assms(1,2)]], of fr] strict_loads_ascii [OF assms(1,2), of _ _ fr]
    by (simp add: json_object_def)
qed

lemma frame_read_back:
  assumes "write_frame fr out v maximum = (out', wire, Inr ())" "maximum < 2 ^ 32" "is_dict v"
    "jsonable (canon v)" "scalars (canon v)" "delivers pipe (wire @ rest)"
  shows "\<exists>pipe'. read_frame maximum pipe = (pipe', Inr (canon v)) \<and> delivers pipe' rest"
proof -
  let ?b = "map byte_of (asc (dump fr (canon v)))"
  from assms(1) obtain f where f: "encode_frame fr v maximum = Inr f" "write_all out f [] = (out', wire, Inr ())"
    by (auto simp: write_frame_def split: sum.splits)
  have wire: "wire = f" using write_all_Inr [OF f(2)] by simp
  from f(1) have b: "f = be_bytes 4 (length ?b) @ ?b" "1 \<le> length ?b" "length ?b \<le> maximum"
    by (auto simp: encode_frame_def ascii_json_def Let_def Suc_le_eq split: if_splits)
  have "delivers pipe (be_bytes 4 (length ?b) @ ?b @ rest)" using assms(6) by (simp add: wire b(1))
  from read_frame_delivers [OF this b(2,3) assms(2)] json_object_ascii [OF assms(4,5,3), of fr] show ?thesis by simp
qed

text \<open>C25: a frame that was written whole comes back. If \<open>_write_frame\<close> returns for an object of encodable strings and
  without floats, and the reader's pipe delivers those bytes, followed by anything, in whatever segments and with
  whatever interruptions, then \<open>_read_frame\<close> returns the object with its keys sorted and leaves exactly what follows.\<close>

theorem frame_roundtrip:
  assumes "write_frame fr out v maximum = (out', wire, Inr ())" "maximum < 2 ^ 32" "is_dict v"
    "jsonable (canon v)" "scalars (canon v)" "delivers pipe (wire @ rest)"
  shows "\<exists>pipe'. read_frame maximum pipe = (pipe', Inr (canon v)) \<and> delivers pipe' rest"
  using assms by (rule frame_read_back)

end
