(* ===== verification/Worker_Checks.thy ===== *)
theory Worker_Checks
  imports Worker_Ipc Egress_Policy Browser_Reducer
begin

section \<open>Egress worker: what the root parent accepts\<close>

text \<open>
  The validators of \<open>broker/browser_egress_worker.py\<close>. The parent never imports the proxy or the browser
  contract, so it has its own test of an origin and of a CONNECT authority; \<open>event_origin_agrees\<close> compares it
  with the contract's.
\<close>

definition PROTOCOL_VERSION :: string where "PROTOCOL_VERSION = ''cindermote.browser-egress-worker/v2''"
definition MAX_FINAL_EVENTS :: nat where "MAX_FINAL_EVENTS = 4096"
definition MAX_EVENT_ORIGIN_BYTES :: nat where "MAX_EVENT_ORIGIN_BYTES = 512"
definition MAX_COUNTER_VALUE :: int where "MAX_COUNTER_VALUE = 1000000"
definition MAX_NETWORK_BYTES :: int where "MAX_NETWORK_BYTES = 64 * 1024 * 1024"

text \<open>Name, resource number and limit, in the order of the table.\<close>

definition RLIMITS :: "(string \<times> nat \<times> int) list" where
  "RLIMITS = [(''core'', 4, 0), (''file_size'', 1, 0), (''open_files'', 7, 64), (''processes'', 6, 32),
     (''address_space'', 9, 256 * 1024 * 1024)]"

definition READY_KEYS :: "string list" where
  "READY_KEYS = [''type'', ''protocol_version'', ''nonce'', ''endpoint'', ''security'']"

definition SECURITY_KEYS :: "string list" where
  "SECURITY_KEYS = [''uid'', ''gid'', ''uids'', ''gids'', ''supplementary_groups'', ''no_new_privs'', ''dumpable'',
     ''parent_death_signal'', ''parent_pid_bound'', ''capabilities_zero'', ''environment_entries'', ''rlimits'']"

definition FINAL_KEYS :: "string list" where
  "FINAL_KEYS = [''type'', ''protocol_version'', ''nonce'', ''events'', ''telemetry'']"

definition WORKER_EVENT_KEYS :: "string list" where
  "WORKER_EVENT_KEYS = [''sequence'', ''source'', ''kind'', ''web_origin'', ''connect_authority'', ''disposition'']"

definition TELEMETRY_KEYS :: "string list" where
  "TELEMETRY_KEYS = [''complete'', ''started'', ''closed'', ''event_overflow'', ''inflight_events'', ''active_connections'',
     ''listener_rejections'', ''connection_attempts'', ''event_count'', ''network_bytes'', ''network_byte_limit'']"

definition WORKER_UNSAFE_SUFFIXES :: "string list" where
  "WORKER_UNSAFE_SUFFIXES =
    [''localhost'', ''local'', ''localdomain'', ''internal'', ''intranet'', ''corp'', ''home'',
     ''lan'', ''home.arpa'', ''onion'', ''invalid'', ''test'', ''example'']"

subsection \<open>Arguments\<close>

definition bounded_timeout :: "pyval \<Rightarrow> rat \<Rightarrow> rat res" where
  "bounded_timeout v maximum =
     (let check = (\<lambda>r. if (case round_double (1 / 10) of Fin lo \<Rightarrow> lo \<le> r | _ \<Rightarrow> False) \<and> r \<le> maximum then Inr r
                       else Inl (worker_error ''timeout is outside its fixed safety range''))
      in case v of
           PInt i \<Rightarrow> if 2 ^ 1024 - 2 ^ 970 \<le> \<bar>i\<bar> then Inl (OtherException ''OverflowError'') else check (of_int i)
         | PFloat (Fin r) \<Rightarrow> check r
         | _ \<Rightarrow> Inl (worker_error ''timeout is outside its fixed safety range''))"

definition canonical_local_ip :: "pyval \<Rightarrow> bool \<Rightarrow> pystr res" where
  "canonical_local_ip v allow_link_local =
     bindE (as_str (worker_error ''endpoint must be a plain IP literal'') v) (\<lambda>s.
       if s = [] \<or> s \<noteq> strip s \<or> 37 \<in> set s then Inl (worker_error ''endpoint must be a plain IP literal'')
       else (case ip_address s of
           None \<Rightarrow> Inl (worker_error ''endpoint must be a plain IP literal'')
         | Some a \<Rightarrow>
             if ip_unspecified a \<or> ip_multicast a \<or> (ip_link_local a \<and> \<not> allow_link_local) \<or> ip_global a
             then Inl (worker_error ''endpoint must be a private endpoint'')
             else Inr (ip_compressed a)))"

definition safe_id :: "pyval \<Rightarrow> int res" where
  "safe_id v = (case plain_int v of
       Some i \<Rightarrow> if 0 < i \<and> i < 2 ^ 31 then Inr i else Inl (worker_error ''proxy worker IDs are outside the safe range'')
     | None \<Rightarrow> Inl (worker_error ''proxy worker IDs are outside the safe range''))"

definition wall_clock_from_config :: "pyval \<Rightarrow> int res" where
  "wall_clock_from_config config =
     (let request = get config ''request'' in
      if \<not> is_dict request then Inl (worker_protocol ''worker request is missing'')
      else let budgets = get request ''budgets'' in
        if \<not> is_dict budgets then Inl (worker_protocol ''worker request budgets are missing'')
        else (case plain_int (get budgets ''wall_clock_sec'') of
            Some i \<Rightarrow> if 1 \<le> i \<and> i \<le> 60 then Inr i else Inl (worker_protocol ''worker wall-clock budget is invalid'')
          | None \<Rightarrow> Inl (worker_protocol ''worker wall-clock budget is invalid'')))"

subsection \<open>The readiness receipt\<close>

definition expected_security_receipt :: "int \<Rightarrow> int \<Rightarrow> pyval" where
  "expected_security_receipt uid gid = obj
     [(''uid'', PInt uid), (''gid'', PInt gid), (''uids'', PList [PInt uid, PInt uid, PInt uid]),
      (''gids'', PList [PInt gid, PInt gid, PInt gid]), (''supplementary_groups'', PInt 0), (''no_new_privs'', PBool True),
      (''dumpable'', PBool False), (''parent_death_signal'', PInt 9), (''parent_pid_bound'', PBool True),
      (''capabilities_zero'', PBool True), (''environment_entries'', PInt 0),
      (''rlimits'', obj [(''address_space'', PList [PInt (256 * 1024 * 1024), PInt (256 * 1024 * 1024)]),
         (''core'', PList [PInt 0, PInt 0]), (''file_size'', PList [PInt 0, PInt 0]),
         (''open_files'', PList [PInt 64, PInt 64]), (''processes'', PList [PInt 32, PInt 32])])]"

definition validate_security_receipt :: "pyval \<Rightarrow> int \<Rightarrow> int \<Rightarrow> pyval res" where
  "validate_security_receipt v uid gid =
     (if \<not> has_shape v SECURITY_KEYS then Inl (worker_protocol ''worker security receipt shape changed'')
      else if \<not> py_eq v (expected_security_receipt uid gid)
      then Inl (worker_protocol ''worker privilege drop is incomplete'')
      else Inr (expected_security_receipt uid gid))"

definition ready_frame :: "pystr \<Rightarrow> pystr \<Rightarrow> int \<Rightarrow> pyval \<Rightarrow> pyval" where
  "ready_frame nonce host port security = obj
     [(''type'', S ''ready''), (''protocol_version'', S PROTOCOL_VERSION), (''nonce'', PStr nonce),
      (''endpoint'', PList [PStr host, PInt port]), (''security'', security)]"

definition validate_ready :: "pyval \<Rightarrow> pystr \<Rightarrow> pystr \<Rightarrow> int \<Rightarrow> int \<Rightarrow> int \<Rightarrow> pyval res" where
  "validate_ready v nonce host port uid gid =
     (if \<not> has_shape v READY_KEYS then Inl (worker_protocol ''worker readiness shape changed'')
      else if \<not> py_eq (get v ''type'') (S ''ready'') \<or> \<not> py_eq (get v ''protocol_version'') (S PROTOCOL_VERSION) \<or>
              \<not> py_eq (get v ''nonce'') (PStr nonce) \<or> \<not> py_eq (get v ''endpoint'') (PList [PStr host, PInt port])
      then Inl (worker_protocol ''worker readiness is not session-bound'')
      else bindE (validate_security_receipt (get v ''security'') uid gid) (\<lambda>security.
        Inr (ready_frame nonce host port security)))"

subsection \<open>Destinations\<close>

definition event_unsafe_host :: "pystr \<Rightarrow> bool" where
  "event_unsafe_host h = list_ex (\<lambda>s. h = str s \<or> ends_with (46 # str s) h) WORKER_UNSAFE_SUFFIXES"

definition event_host_ok :: "pystr \<Rightarrow> bool" where
  "event_host_ok h =
     (let labels = split_on 46 h in
      length h \<le> 253 \<and> 2 \<le> length labels \<and> (h = [] \<or> last h \<noteq> 46) \<and> list_all host_label labels \<and>
      \<not> (last labels \<noteq> [] \<and> list_all is_digit (last labels)))"

text \<open>The checks on the parsed origin; the last one compares it with its canonical spelling.\<close>

definition event_hostname :: "unicode_db \<Rightarrow> split_result \<Rightarrow> pystr res" where
  "event_hostname db r =
     (let uncanonical = worker_protocol ''worker event origin is not canonical'' in
      if \<not> (sr_scheme r = str ''http'' \<or> sr_scheme r = str ''https'') \<or> sr_netloc r = [] then Inl uncanonical
      else (case sr_hostname db r of
          None \<Rightarrow> Inl uncanonical
        | Some hostname \<Rightarrow>
            if 64 \<in> set (sr_netloc r) \<or> sr_path r \<noteq> [] \<or> sr_query r \<noteq> [] \<or> sr_fragment r \<noteq> [] \<or>
               hostname \<noteq> lower db hostname
            then Inl uncanonical
            else if ip_address hostname \<noteq> None
            then Inl (worker_protocol ''worker event origin cannot be an IP literal'')
            else if \<not> is_ascii hostname
            then Inl (worker_protocol ''worker event origin hostname is not canonical IDNA'')
            else if \<not> event_host_ok hostname then Inl (worker_protocol ''worker event hostname is invalid'')
            else if event_unsafe_host hostname then Inl (worker_protocol ''worker event hostname is special-use'')
            else Inr hostname))"

definition event_spelling :: "split_result \<Rightarrow> nat option \<Rightarrow> pystr \<Rightarrow> pystr" where
  "event_spelling r port hostname =
     (let default_port = (if sr_scheme r = str ''http'' then 80 else 443) in
      sr_scheme r @ str ''://'' @ (case port of None \<Rightarrow> hostname
        | Some p \<Rightarrow> if p = default_port then hostname else hostname @ [58] @ dec p))"

definition canonical_event_origin :: "unicode_db \<Rightarrow> pyval \<Rightarrow> pystr res" where
  "canonical_event_origin db v =
     (let invalid = worker_protocol ''worker event origin is invalid'' in
      bindE (as_str invalid v) (\<lambda>s.
      if s = [] then Inl invalid
      else (case utf8_encode s of
          None \<Rightarrow> Inl UnicodeError
        | Some b \<Rightarrow>
            if MAX_EVENT_ORIGIN_BYTES < length b \<or> list_ex (\<lambda>c. c \<le> 0x20 \<or> c = 0x7F) s then Inl invalid
            else
              bindE (reraise invalid (urlsplit db s)) (\<lambda>r.
              bindE (reraise invalid (sr_port r)) (\<lambda>port.
              bindE (event_hostname db r) (\<lambda>hostname.
              if port = Some 0 then Inl (worker_protocol ''worker event origin port is invalid'')
              else if event_spelling r port hostname \<noteq> s
              then Inl (worker_protocol ''worker event origin is not canonical'')
              else Inr (event_spelling r port hostname)))))))"

definition canonical_event_authority :: "unicode_db \<Rightarrow> pyval \<Rightarrow> pystr res" where
  "canonical_event_authority db v =
     (let invalid = worker_protocol ''worker CONNECT authority is invalid'' in
      bindE (as_str invalid v) (\<lambda>s.
      if count_list s 58 \<noteq> 1 \<or> list_ex (\<lambda>c. c \<in> {47, 63, 35, 64, 92}) s then Inl invalid
      else
        let raw_host = before 58 s; raw_port = after 58 s in
        if raw_host = [] \<or> \<not> py_isdigit db raw_port then Inl invalid
        else
          bindE (some_or (ValueError ''invalid literal for int'') (py_int db raw_port)) (\<lambda>port.
          if \<not> (1 \<le> port \<and> port \<le> 65535) then Inl (worker_protocol ''worker CONNECT authority port is invalid'')
          else
            bindE (canonical_event_origin db (PStr (if port = 443 then str ''https://'' @ raw_host
              else str ''https://'' @ raw_host @ [58] @ dec port))) (\<lambda>origin.
            bindE (urlsplit db origin) (\<lambda>r.
            bindE (some_or (worker_protocol ''worker CONNECT authority hostname is invalid'') (sr_hostname db r)) (\<lambda>hostname.
            if hostname @ [58] @ dec port \<noteq> s
            then Inl (worker_protocol ''worker CONNECT authority is not canonical'') else Inr s))))))"

subsection \<open>Events and telemetry\<close>

definition egress_event :: "int \<Rightarrow> pyval \<Rightarrow> pystr option \<Rightarrow> pystr option \<Rightarrow> pyval \<Rightarrow> pyval" where
  "egress_event n kind web_origin connect_authority disposition = obj
     [(''sequence'', PInt n), (''source'', S ''egress''), (''kind'', kind),
      (''web_origin'', case web_origin of None \<Rightarrow> PNone | Some t \<Rightarrow> PStr t),
      (''connect_authority'', case connect_authority of None \<Rightarrow> PNone | Some t \<Rightarrow> PStr t),
      (''disposition'', disposition)]"

text \<open>\<open>None if v is None else f(v)\<close>.\<close>

definition unless_none :: "(pyval \<Rightarrow> pystr res) \<Rightarrow> pyval \<Rightarrow> pystr option res" where
  "unless_none f v = (if v = PNone then Inr None else bindE (f v) (\<lambda>x. Inr (Some x)))"

definition validate_event :: "unicode_db \<Rightarrow> pyval \<Rightarrow> int \<Rightarrow> pyval res" where
  "validate_event db v expected_sequence =
     (if \<not> has_shape v WORKER_EVENT_KEYS then Inl (worker_protocol ''worker event shape changed'')
      else if \<not> py_eq (get v ''sequence'') (PInt expected_sequence) \<or> \<not> py_eq (get v ''source'') (S ''egress'')
      then Inl (worker_protocol ''worker event sequence/source is invalid'')
      else if py_eq (get v ''kind'') (S ''telemetry_loss'') then
        (if get v ''web_origin'' \<noteq> PNone \<or> get v ''connect_authority'' \<noteq> PNone \<or> \<not> py_eq (get v ''disposition'') (S ''observed'')
         then Inl (worker_protocol ''telemetry-loss event is malformed'')
         else Inr (egress_event expected_sequence (get v ''kind'') None None (get v ''disposition'')))
      else if py_eq (get v ''kind'') (S ''network_request'') then
        bindE (in_set (get v ''disposition'') [''allowed'', ''blocked'']) (\<lambda>known.
        if \<not> known then Inl (worker_protocol ''network event disposition is invalid'')
        else if (get v ''web_origin'' = PNone) = (get v ''connect_authority'' = PNone)
        then Inl (worker_protocol ''network event must carry exactly one witness type'')
        else
          bindE (unless_none (canonical_event_origin db) (get v ''web_origin'')) (\<lambda>origin.
          if origin \<noteq> None \<and> \<not> starts_with (str ''http://'') (the origin)
          then Inl (worker_protocol ''proxy web-origin evidence must be plain HTTP'')
          else
            bindE (unless_none (canonical_event_authority db) (get v ''connect_authority'')) (\<lambda>auth.
            Inr (egress_event expected_sequence (get v ''kind'') origin auth (get v ''disposition'')))))
      else Inl (worker_protocol ''worker event kind is invalid''))"

definition bounded_uint :: "pyval \<Rightarrow> int \<Rightarrow> int res" where
  "bounded_uint v maximum = (case plain_int v of
       Some i \<Rightarrow> if 0 \<le> i \<and> i \<le> maximum then Inr i else Inl (worker_protocol ''worker telemetry counter is invalid'')
     | None \<Rightarrow> Inl (worker_protocol ''worker telemetry counter is invalid''))"

record telemetry =
  t_complete :: bool
  t_started :: bool
  t_closed :: bool
  t_event_overflow :: bool
  t_inflight_events :: int
  t_active_connections :: int
  t_listener_rejections :: int
  t_connection_attempts :: int
  t_event_count :: int
  t_network_bytes :: int
  t_network_byte_limit :: int

definition telemetry_dict :: "telemetry \<Rightarrow> pyval" where
  "telemetry_dict t = obj
     [(''complete'', PBool (t_complete t)), (''started'', PBool (t_started t)), (''closed'', PBool (t_closed t)),
      (''event_overflow'', PBool (t_event_overflow t)), (''inflight_events'', PInt (t_inflight_events t)),
      (''active_connections'', PInt (t_active_connections t)), (''listener_rejections'', PInt (t_listener_rejections t)),
      (''connection_attempts'', PInt (t_connection_attempts t)), (''event_count'', PInt (t_event_count t)),
      (''network_bytes'', PInt (t_network_bytes t)), (''network_byte_limit'', PInt (t_network_byte_limit t))]"

definition telemetry_clean :: "telemetry \<Rightarrow> bool" where
  "telemetry_clean t = (t_started t \<and> t_closed t \<and> \<not> t_event_overflow t \<and> t_inflight_events t = 0 \<and>
     t_active_connections t = 0 \<and> t_listener_rejections t = 0)"

definition validate_telemetry :: "pyval \<Rightarrow> nat \<Rightarrow> telemetry res" where
  "validate_telemetry v event_count =
     (if \<not> has_shape v TELEMETRY_KEYS then Inl (worker_protocol ''worker telemetry shape changed'')
      else
        let flag = (\<lambda>name. as_bool (worker_protocol ''worker telemetry flag is invalid'') (get v name)) in
        bindE (flag ''complete'') (\<lambda>complete. bindE (flag ''started'') (\<lambda>started.
        bindE (flag ''closed'') (\<lambda>closed. bindE (flag ''event_overflow'') (\<lambda>overflow.
        bindE (bounded_uint (get v ''inflight_events'') MAX_COUNTER_VALUE) (\<lambda>inflight.
        bindE (bounded_uint (get v ''active_connections'') MAX_COUNTER_VALUE) (\<lambda>active.
        bindE (bounded_uint (get v ''listener_rejections'') MAX_COUNTER_VALUE) (\<lambda>rejections.
        bindE (bounded_uint (get v ''connection_attempts'') MAX_COUNTER_VALUE) (\<lambda>attempts.
        bindE (bounded_uint (get v ''event_count'') (int MAX_FINAL_EVENTS)) (\<lambda>events.
        bindE (bounded_uint (get v ''network_bytes'') MAX_NETWORK_BYTES) (\<lambda>network_bytes.
        bindE (bounded_uint (get v ''network_byte_limit'') MAX_NETWORK_BYTES) (\<lambda>limit.
        let t = \<lparr>t_complete = complete, t_started = started, t_closed = closed, t_event_overflow = overflow,
                 t_inflight_events = inflight, t_active_connections = active, t_listener_rejections = rejections,
                 t_connection_attempts = attempts, t_event_count = events, t_network_bytes = network_bytes,
                 t_network_byte_limit = limit\<rparr> in
        if events \<noteq> int event_count then Inl (worker_protocol ''worker event count disagrees with telemetry'')
        else if limit < network_bytes then Inl (worker_protocol ''worker byte accounting exceeds its limit'')
        else if complete \<noteq> telemetry_clean t then Inl (worker_protocol ''worker completeness claim is inconsistent'')
        else Inr t))))))))))))"

fun validate_events :: "unicode_db \<Rightarrow> int \<Rightarrow> pyval list \<Rightarrow> pyval list res" where
  "validate_events db i [] = Inr []"
| "validate_events db i (v # vs) =
     bindE (validate_event db v i) (\<lambda>e. bindE (validate_events db (i + 1) vs) (\<lambda>es. Inr (e # es)))"

definition final_frame :: "pystr \<Rightarrow> pyval list \<Rightarrow> pyval \<Rightarrow> pyval" where
  "final_frame nonce events telemetry = obj
     [(''type'', S ''final''), (''protocol_version'', S PROTOCOL_VERSION), (''nonce'', PStr nonce),
      (''events'', PList events), (''telemetry'', telemetry)]"

definition validate_final :: "unicode_db \<Rightarrow> pyval \<Rightarrow> pystr \<Rightarrow> (pyval list \<times> telemetry) res" where
  "validate_final db v nonce =
     (if \<not> has_shape v FINAL_KEYS then Inl (worker_protocol ''worker final frame shape changed'')
      else if \<not> py_eq (get v ''type'') (S ''final'') \<or> \<not> py_eq (get v ''protocol_version'') (S PROTOCOL_VERSION) \<or>
              \<not> py_eq (get v ''nonce'') (PStr nonce)
      then Inl (worker_protocol ''worker final frame is not session-bound'')
      else
        bindE (as_list (worker_protocol ''worker final events are excessive'') (get v ''events'')) (\<lambda>raw_events.
        if MAX_FINAL_EVENTS < length raw_events then Inl (worker_protocol ''worker final events are excessive'')
        else
          bindE (validate_events db 0 raw_events) (\<lambda>events.
          bindE (validate_telemetry (get v ''telemetry'') (length events)) (\<lambda>t. Inr (events, t)))))"

definition failure_events :: "pyval list" where
  "failure_events = [egress_event 0 (S ''telemetry_loss'') None None (S ''observed'')]"

definition failure_telemetry :: telemetry where
  "failure_telemetry = \<lparr>t_complete = False, t_started = False, t_closed = True, t_event_overflow = True,
     t_inflight_events = 0, t_active_connections = 0, t_listener_rejections = 0, t_connection_attempts = 0,
     t_event_count = 1, t_network_bytes = 0, t_network_byte_limit = 0\<rparr>"

end
