(* ===== verification/Worker_Agreement.thy ===== *)
theory Worker_Agreement
  imports Worker_Checks
begin

section \<open>Egress worker: two validators agree\<close>

text \<open>
  The parent's test of a destination against the contract's: apart from host names whose labels are all numeric
  spellings, which only the contract refuses, they accept the same origins and authorities. So an event that
  passes the parent passes the evidence validator of \<open>mote/browser_evidence.py\<close>.
\<close>

definition numeric_host :: "pystr \<Rightarrow> bool" where
  "numeric_host h = list_all numeric_host_label (split_on 46 h)"

lemma suffixes_agree: "event_unsafe_host h = unsafe_suffix h"
  by (simp add: event_unsafe_host_def unsafe_suffix_def WORKER_UNSAFE_SUFFIXES_def UNSAFE_HOST_SUFFIXES_def)

lemma host_ok_iff: "host_ok h \<longleftrightarrow> event_host_ok h \<and> \<not> event_unsafe_host h \<and> \<not> numeric_host h"
proof -
  have "last (split_on 46 h) \<noteq> []" if "list_all host_label (split_on 46 h)"
    using that last_in_set [of "split_on 46 h"] by (auto simp: list_all_iff host_label_def)
  moreover have "last h \<noteq> 46" if "host_ok h" using host_ends [OF that] by simp
  ultimately show ?thesis
    by (auto simp: host_ok_def event_host_ok_def Let_def suffixes_agree numeric_host_def)
qed

text \<open>What the parent's test establishes of an accepted origin.\<close>

lemma event_hostname_Inr:
  "event_hostname db r = Inr h \<longleftrightarrow> (sr_scheme r = str ''http'' \<or> sr_scheme r = str ''https'') \<and> sr_netloc r \<noteq> [] \<and>
     sr_hostname db r = Some h \<and> 64 \<notin> set (sr_netloc r) \<and> sr_path r = [] \<and> sr_query r = [] \<and> sr_fragment r = [] \<and>
     h = lower db h \<and> ip_address h = None \<and> is_ascii h \<and> event_host_ok h \<and> \<not> event_unsafe_host h"
  by (auto simp: event_hostname_def Let_def split: option.split if_split_asm)

lemma reraise_Inr [simp]: "reraise e m = Inr x \<longleftrightarrow> m = Inr x"
  by (simp add: reraise_def split: sum.split)

lemma event_origin_Inr:
  "canonical_event_origin db v = Inr t \<longleftrightarrow> v = PStr t \<and> t \<noteq> [] \<and>
     (\<exists>b. utf8_encode t = Some b \<and> length b \<le> 512) \<and> \<not> list_ex (\<lambda>c. c \<le> 0x20 \<or> c = 0x7F) t \<and>
     (\<exists>r port h. urlsplit db t = Inr r \<and> sr_port r = Inr port \<and> event_hostname db r = Inr h \<and> port \<noteq> Some 0 \<and>
        t = event_spelling r port h)"
proof (cases v)
  case (PStr s)
  then show ?thesis
    by (cases "utf8_encode s")
      (auto simp: canonical_event_origin_def Let_def bindE_eq_Inr as_str_def MAX_EVENT_ORIGIN_BYTES_def)
qed (simp_all add: canonical_event_origin_def as_str_def Let_def)

definition numeric_spelling :: "unicode_db \<Rightarrow> pystr \<Rightarrow> bool" where
  "numeric_spelling db s = (case urlsplit db s of
       Inl e \<Rightarrow> False
     | Inr r \<Rightarrow> (case sr_hostname db r of None \<Rightarrow> False | Some h \<Rightarrow> numeric_host h))"

text \<open>The parts of an accepted origin; the path of \<open>url_parts\<close> plays no role.\<close>

definition origin_parts :: "pystr \<Rightarrow> pystr \<Rightarrow> nat option \<Rightarrow> url_parts" where
  "origin_parts scheme h port = \<lparr>u_scheme = scheme, u_host = h, u_port = port, u_path = [47], u_query = []\<rparr>"

lemma origin_parts_ok:
  "parts_ok (origin_parts s h p) \<longleftrightarrow> (s = str ''http'' \<or> s = str ''https'') \<and> host_ok h \<and> port_ok s p"
  by (auto simp: parts_ok_def origin_parts_def escaped_def path_safe_def query_safe_def str_def safe_in_def)

lemma event_spelling_text:
  assumes "sr_port r = Inr port" "port \<noteq> Some 0" "sr_scheme r = str ''http'' \<or> sr_scheme r = str ''https''"
  obtains p where "port_ok (sr_scheme r) p" "event_spelling r port h = origin_text (origin_parts (sr_scheme r) h p)"
proof
  let ?d = "if sr_scheme r = str ''http'' then 80 else (443 :: nat)"
  define p where "p = (if port = Some ?d then None else port)"
  have "q \<le> 65535" if "port = Some q" for q
    using assms(1) that by (auto simp: sr_port_def split: option.splits if_splits)
  then show "port_ok (sr_scheme r) p"
    using assms(2) by (auto simp: p_def port_ok_def Suc_le_eq split: option.splits)
  show "event_spelling r port h = origin_text (origin_parts (sr_scheme r) h p)"
    by (auto simp: event_spelling_def origin_text_def origin_parts_def authority_def p_def Let_def split: option.split)
qed

lemma origin_text_length:
  "s = str ''http'' \<or> s = str ''https'' \<Longrightarrow> host_ok h \<Longrightarrow> port_ok s p \<Longrightarrow> length (origin_text (origin_parts s h p)) < 270"
proof -
  assume a: "s = str ''http'' \<or> s = str ''https''" "host_ok h" "port_ok s p"
  have "length (dec q) \<le> 5" if "q \<le> 65535" for q using that length_dec [of q 4] by simp
  with a(3) have "length (authority h p) \<le> length h + 6"
    by (auto simp: authority_def port_ok_def split: option.splits)
  moreover have "length h \<le> 253" using a(2) by (simp add: host_ok_def Let_def)
  ultimately show ?thesis using a(1) by (auto simp: origin_text_def origin_parts_def str_def)
qed

lemma origin_parts_canonical:
  assumes "s = str ''http'' \<or> s = str ''https''" "host_ok h" "port_ok s p"
  shows "canonical_origin (origin_text (origin_parts s h p))"
  unfolding canonical_origin_def
  using assms origin_parts_ok [of s h p] origin_text_length [OF assms]
  by (intro exI [of _ "origin_parts s h p"]) (simp add: origin_parts_def MAX_URL_LENGTH_def)

lemma canonical_origin_parts:
  assumes "canonical_origin x"
  obtains s h p where "s = str ''http'' \<or> s = str ''https''" "host_ok h" "port_ok s p" "x = origin_text (origin_parts s h p)"
  using assms by (auto simp: canonical_origin_def parts_ok_def origin_text_def origin_parts_def)

lemma event_origin_sound:
  assumes "canonical_event_origin db v = Inr t" "\<not> numeric_spelling db t"
  shows "v = PStr t \<and> canonical_origin t"
proof -
  from assms(1) obtain r port h where r: "v = PStr t" "urlsplit db t = Inr r" "sr_port r = Inr port" "event_hostname db r = Inr h"
    "port \<noteq> Some 0" "t = event_spelling r port h" by (auto simp: event_origin_Inr)
  then have host: "sr_scheme r = str ''http'' \<or> sr_scheme r = str ''https''" "sr_hostname db r = Some h" "event_host_ok h"
    "\<not> event_unsafe_host h" by (auto simp: event_hostname_Inr)
  with assms(2) r(2) have "host_ok h" by (simp add: host_ok_iff numeric_spelling_def)
  moreover obtain p where "port_ok (sr_scheme r) p" "t = origin_text (origin_parts (sr_scheme r) h p)"
    using event_spelling_text [OF r(3,5) host(1)] r(6) by metis
  ultimately show ?thesis using origin_parts_canonical host(1) r(1) by blast
qed

lemma event_origin_complete:
  assumes "canonical_origin t"
  shows "canonical_event_origin db (PStr t) = Inr t \<and> \<not> numeric_spelling db t"
proof -
  obtain s h p where p: "s = str ''http'' \<or> s = str ''https''" "host_ok h" "port_ok s p" "t = origin_text (origin_parts s h p)"
    using assms by (rule canonical_origin_parts)
  let ?r = "\<lparr>sr_scheme = s, sr_netloc = authority h p, sr_path = [], sr_query = [], sr_fragment = []\<rparr>"
  have split: "urlsplit db t = Inr ?r"
    using urlsplit_origin [of "origin_parts s h p" db] p(1-3) by (simp add: p(4) origin_parts_ok) (simp add: origin_parts_def)
  have host: "sr_hostname db ?r = Some h" by (rule sr_hostname_authority [OF p(2,3)]) simp
  have port: "sr_port ?r = Inr p" by (rule sr_port_authority [OF p(2,3)]) simp
  have hc: "\<forall>c\<in>set h. host_char c" using host_chars [OF p(2)] by (simp add: list_all_iff)
  have ascii: "is_ascii h" "map ascii_lower h = h" using hc host_char_facts
    by (auto intro!: url_char_ascii map_idI simp: list_all_iff)
  have net: "64 \<notin> set (authority h p)" "authority h p \<noteq> []"
    using authority_chars [OF p(2,3)] host_nonempty [OF p(2)]
    by (auto simp: list_all_iff netloc_char_def authority_def split: option.splits)
  have name: "event_hostname db ?r = Inr h"
    using p(1,2) host net ascii host_not_ip [OF p(2)] by (simp add: event_hostname_Inr lower_def host_ok_iff)
  have "list_all url_char (authority h p)" by (rule list_all_mp [OF authority_chars [OF p(2,3)]]) (simp add: netloc_char_def)
  moreover have "list_all url_char (s @ str ''://'')" using p(1) by (auto simp: str_def url_char_def)
  ultimately have chars: "list_all url_char t" by (simp add: p(4) origin_text_def origin_parts_def)
  have "list_all (\<lambda>c. c < 128) t" using url_char_ascii [OF chars] by (simp add: is_ascii_def)
  moreover have "\<not> list_ex (\<lambda>c. c \<le> 0x20 \<or> c = 0x7F) t"
    using chars url_char_facts unfolding list_all_iff list_ex_iff by blast
  ultimately have enc: "utf8_encode t = Some (map byte_of t)" "\<not> list_ex (\<lambda>c. c \<le> 0x20 \<or> c = 0x7F) t"
    by (simp_all add: utf8_encode_ascii)
  have spell: "event_spelling ?r p h = t"
    using p(3) by (auto simp: p(4) event_spelling_def origin_text_def origin_parts_def authority_def port_ok_def Let_def
        split: option.splits if_splits)
  have "t \<noteq> []" by (simp add: p(4) origin_text_def)
  moreover have "p \<noteq> Some 0" using p(3) by (auto simp: port_ok_def)
  ultimately have "canonical_event_origin db (PStr t) = Inr t"
    using enc split port name spell origin_text_length [OF p(1-3)] p(4) by (auto simp: event_origin_Inr)
  moreover have "\<not> numeric_spelling db t" using p(2) by (simp add: numeric_spelling_def split host host_ok_iff)
  ultimately show ?thesis ..
qed

subsection \<open>Authorities and events\<close>

lemma dec_int: "p \<le> 65535 \<Longrightarrow> py_isdigit db (dec p) \<and> py_int db (dec p) = Some p"
proof -
  assume p: "p \<le> 65535"
  have digit: "\<forall>c\<in>set (dec p). is_digit c" using dec_digits [of p] by (simp add: list_all_iff)
  have "foldl (\<lambda>acc c. case (acc, decimal_value db c) of (Some n, Some d) \<Rightarrow> Some (10 * n + d) | _ \<Rightarrow> None) (Some k) s =
      Some (foldl (\<lambda>n c. 10 * n + (c - 48)) k s)" if "\<forall>c\<in>set s. is_digit c" for k s
    using that by (induction s arbitrary: k) (auto simp: decimal_value_def is_digit_def)
  from this [OF digit, of 0] have "foldl (\<lambda>acc c. case (acc, decimal_value db c) of (Some n, Some d) \<Rightarrow> Some (10 * n + d) | _ \<Rightarrow> None)
      (Some 0) (dec p) = Some p" using digits_val_dec [of p] by (simp add: digits_val_def)
  moreover have "length (dec p) \<le> 5" using p length_dec [of p 4] by simp
  moreover have "py_isdigit db (dec p)" using digit by (auto simp: py_isdigit_def list_all_iff is_digit_def)
  ultimately show ?thesis by (simp add: py_int_def)
qed

lemma https_port_chars:
  assumes "host_ok h" "p \<le> 65535" "1 \<le> p"
  shows "list_all netloc_char (h @ [58] @ dec p)" "hostinfo (h @ [58] @ dec p) = (h, Some (dec p))"
proof -
  let ?s = "if p = 80 then str ''https'' else str ''http''"
  have "port_ok ?s (Some p)" using assms by (simp add: port_ok_def str_def)
  from authority_chars [OF assms(1) this] hostinfo_authority [OF assms(1) this]
  show "list_all netloc_char (h @ [58] @ dec p)" "hostinfo (h @ [58] @ dec p) = (h, Some (dec p))"
    by (simp_all add: authority_def)
qed

text \<open>An explicit default port is dropped.\<close>

lemma normalize_default_port:
  assumes "host_ok h"
  shows "normalize_origin db (PStr (str ''https://'' @ h @ [58] @ dec 443)) = Inr (str ''https://'' @ h)"
proof -
  let ?a = "h @ [58] @ dec 443" let ?u = "str ''https://'' @ ?a"
  let ?r = "\<lparr>sr_scheme = str ''https'', sr_netloc = ?a, sr_path = [], sr_query = [], sr_fragment = []\<rparr>"
  let ?p = "origin_parts (str ''https'') h None"
  have a: "list_all netloc_char ?a" "hostinfo ?a = (h, Some (dec 443))" by (rule https_port_chars [OF assms]; simp)+
  have split: "urlsplit db ?u = Inr ?r"
    using urlsplit_text [of "str ''https''" ?a "[]" "[]" db] a(1) by (simp add: str_def)
  have au: "list_all url_char ?a" by (rule list_all_mp [of netloc_char]) (use a in \<open>simp_all add: netloc_char_def\<close>)
  moreover have "list_all url_char (str ''https://'')" by (simp add: str_def url_char_def)
  ultimately have c: "list_all url_char ?u" by simp
  have facts: "\<not> (\<exists>x\<in>set ?u. x \<le> 32 \<or> x = 127)" "92 \<notin> set ?u" "35 \<notin> set ?u"
    using c url_char_facts unfolding list_all_iff by blast+
  have q: "63 \<notin> set ?u" using list_all_notin [OF a(1), of 63] by (auto simp: netloc_char_def str_def)
  have dec443: "dec 443 = [52, 52, 51]" by (simp add: dec.simps)
  have len: "length ?u \<le> MAX_URL_LENGTH" using assms by (simp add: MAX_URL_LENGTH_def host_ok_def Let_def str_def dec443)
  have screen: "screen_url (PStr ?u) = Inr ?u"
    using facts len strip_id [OF c] by (simp add: screen_url_def list_ex_iff)
  have h: "\<forall>c\<in>set h. host_char c" using host_chars [OF assms] by (simp add: list_all_iff)
  then have "is_ascii h" "map ascii_lower h = h" "37 \<notin> set h" using host_char_facts
    by (auto intro!: url_char_ascii map_idI simp: list_all_iff)
  then have host: "sr_hostname db ?r = Some h" using host_nonempty [OF assms] a(2) by (simp add: sr_hostname_def lower_def)
  have port: "sr_port ?r = Inr (Some 443)" using a(2) dec_small [of 443] by (simp add: sr_port_def)
  have "64 \<notin> set ?a" using list_all_notin [OF a(1), of 64] by (simp add: netloc_char_def)
  then have auth: "url_authority db ?r = Inr h"
    using host port normalize_hostname_id [OF assms, of db] by (simp add: url_authority_def reraise_def Let_def dec443 str_def)
  have ok: "parts_ok ?p" using assms by (simp add: origin_parts_ok port_ok_def)
  have ren: "urlunsplit (str ''https'') h [47] [] = render ?p" by (simp add: render_def origin_parts_def authority_def)
  have "length (render ?p) \<le> MAX_URL_LENGTH"
    using assms by (simp add: render_def origin_parts_def authority_def urlunsplit_def MAX_URL_LENGTH_def host_ok_def Let_def str_def)
  moreover have "quote path_safe [47] = Inr [47]" "quote query_safe [] = Inr []"
    by (rule quote_id; simp add: safe_in_def path_safe_def str_def)+
  moreover have "canonicalize_escapes [47] = Inr [47]" "canonicalize_escapes [] = Inr []" by (simp_all add: canonicalize_escapes_def)
  ultimately have "normalize_url db (PStr ?u) = Inr (render ?p)"
    using screen split auth ren by (simp add: normalize_url_def reraise_def nfc_def is_ascii_def)
  then show ?thesis using facts(3) q urlsplit_render [OF ok, of db]
    by (simp add: normalize_origin_def url_origin_def origin_parts_def authority_def str_def)
qed

definition https_origin :: "pystr \<Rightarrow> nat \<Rightarrow> pystr" where
  "https_origin h p = origin_text (origin_parts (str ''https'') h (if p = 443 then None else Some p))"

lemma https_port_ok: "1 \<le> p \<Longrightarrow> p \<le> 65535 \<Longrightarrow> port_ok (str ''https'') (if p = 443 then None else Some p)"
  by (simp add: port_ok_def str_def)

lemma https_origin_canonical: "host_ok h \<Longrightarrow> 1 \<le> p \<Longrightarrow> p \<le> 65535 \<Longrightarrow> canonical_origin (https_origin h p)"
  unfolding https_origin_def by (rule origin_parts_canonical) (simp_all add: https_port_ok)

lemma https_origin_text: "https_origin h p = (if p = 443 then str ''https://'' @ h else str ''https://'' @ h @ [58] @ dec p)"
  by (simp add: https_origin_def origin_text_def origin_parts_def authority_def str_def)

lemma https_origin_split:
  assumes "host_ok h" "1 \<le> p" "p \<le> 65535"
  obtains r where "urlsplit db (https_origin h p) = Inr r" "sr_hostname db r = Some h" "sr_scheme r = str ''https''"
proof
  let ?q = "if p = 443 then None else Some p"
  let ?r = "\<lparr>sr_scheme = str ''https'', sr_netloc = authority h ?q, sr_path = [], sr_query = [], sr_fragment = []\<rparr>"
  have ok: "parts_ok (origin_parts (str ''https'') h ?q)" using assms by (simp only: origin_parts_ok https_port_ok) simp
  show "urlsplit db (https_origin h p) = Inr ?r"
    using urlsplit_origin [OF ok, of db] by (simp add: https_origin_def) (simp add: origin_parts_def)
  show "sr_hostname db ?r = Some h" by (rule sr_hostname_authority [OF assms(1) https_port_ok [OF assms(2,3)]]) simp
qed simp

lemma authority_facts:
  assumes "host_ok h" "1 \<le> p" "p \<le> 65535"
  shows "before 58 (h @ [58] @ dec p) = h" "after 58 (h @ [58] @ dec p) = dec p" "count_list (h @ [58] @ dec p) 58 = 1"
    "list_all netloc_char (h @ [58] @ dec p)" "h \<noteq> []"
proof -
  have h: "58 \<notin> set h" using host_chars [OF assms(1)] host_char_facts by (auto simp: list_all_iff)
  have d: "58 \<notin> set (dec p)" using dec_digits [of p] by (auto simp: list_all_iff is_digit_def)
  from h d show "before 58 (h @ [58] @ dec p) = h" "after 58 (h @ [58] @ dec p) = dec p" "count_list (h @ [58] @ dec p) 58 = 1"
    by (simp_all add: count_list_0_iff)
  show "list_all netloc_char (h @ [58] @ dec p)" by (rule https_port_chars [OF assms(1,3,2)])
  show "h \<noteq> []" by (rule host_nonempty [OF assms(1)])
qed

lemma authority_plain:
  assumes "list_all netloc_char s"
  shows "strip s = s" "\<not> list_ex (\<lambda>c. c \<in> {47, 63, 35, 64, 92}) s"
proof -
  have "list_all url_char s" using assms by (rule list_all_mp) (simp add: netloc_char_def)
  then show "strip s = s" by (rule strip_id)
  have "\<not> netloc_char c" if "c \<in> {47, 63, 35, 64, 92}" for c using that by (auto simp: netloc_char_def url_char_def)
  with assms show "\<not> list_ex (\<lambda>c. c \<in> {47, 63, 35, 64, 92}) s" unfolding list_all_iff list_ex_iff by blast
qed

lemma connect_authority_accepted:
  assumes "host_ok h" "1 \<le> p" "p \<le> 65535"
  shows "normalize_connect_authority db (PStr (h @ [58] @ dec p)) = Inr (h @ [58] @ dec p)"
    "canonical_event_authority db (PStr (h @ [58] @ dec p)) = Inr (h @ [58] @ dec p)"
proof -
  let ?s = "h @ [58] @ dec p"
  note f = authority_facts [OF assms] and plain = authority_plain [OF authority_facts(4) [OF assms]] and d = dec_int [OF assms(3), of db]
  note canon = https_origin_canonical [OF assms]
  obtain r where r: "urlsplit db (https_origin h p) = Inr r" "sr_hostname db r = Some h" by (rule https_origin_split [OF assms])
  have "normalize_origin db (PStr (str ''https://'' @ h @ [58] @ dec p)) = Inr (https_origin h p)"
    using normalize_default_port [OF assms(1), of db] normalize_origin_id [OF canon, of db] by (cases "p = 443") (simp_all add: https_origin_text)
  then show "normalize_connect_authority db (PStr ?s) = Inr ?s"
    unfolding normalize_connect_authority_def Let_def using f plain d r assms by (simp del: append.simps add: as_str_def)
  have "canonical_event_origin db (PStr (https_origin h p)) = Inr (https_origin h p)" using event_origin_complete [OF canon] by simp
  then show "canonical_event_authority db (PStr ?s) = Inr ?s"
    unfolding canonical_event_authority_def Let_def using f plain d r assms https_origin_text [of h p]
    by (simp del: append.simps add: as_str_def split: if_splits)
qed

lemma event_host_no_colon: "event_host_ok h \<Longrightarrow> 58 \<notin> set h"
  using split_on_concat [of 58 h 46]
  by (fastforce simp: event_host_ok_def Let_def list_all_iff host_label_def host_alnum_def is_digit_def)

lemma event_authority_sound:
  assumes "canonical_event_authority db v = Inr t" "\<not> numeric_host (before 58 t)"
  shows "\<exists>h p. v = PStr t \<and> host_ok h \<and> 1 \<le> p \<and> p \<le> 65535 \<and> t = h @ [58] @ dec p"
proof -
  from assms(1) obtain s where s: "v = PStr s" by (cases v) (simp_all add: canonical_event_authority_def Let_def as_str_def)
  with assms(1) obtain p x origin r h where p: "1 \<le> p" "p \<le> 65535" and o: "canonical_event_origin db (PStr x) = Inr origin"
    "urlsplit db origin = Inr r" "sr_hostname db r = Some h" "h @ [58] @ dec p = s" "t = s"
    by (simp add: canonical_event_authority_def Let_def as_str_def bindE_eq_Inr if_Inl_eq_Inr) blast
  from o(1,2,3) have h: "event_host_ok h" "\<not> event_unsafe_host h" by (auto simp: event_origin_Inr event_hostname_Inr)
  have "before 58 t = h" using event_host_no_colon [OF h(1)] o(4,5) by auto
  with assms(2) h have "host_ok h" by (simp add: host_ok_iff)
  with o(4,5) p s show ?thesis by blast
qed

text \<open>The destination of an event, when its host is not a numeric spelling.\<close>

definition plain_destination :: "unicode_db \<Rightarrow> pyval \<Rightarrow> bool" where
  "plain_destination db e =
     ((case get e ''web_origin'' of PStr s \<Rightarrow> \<not> numeric_spelling db s | _ \<Rightarrow> True) \<and>
      (case get e ''connect_authority'' of PStr s \<Rightarrow> \<not> numeric_host (before 58 s) | _ \<Rightarrow> True))"

lemma egress_event_get:
  "get (egress_event n k wo ca d) ''sequence'' = PInt n" "get (egress_event n k wo ca d) ''source'' = S ''egress''"
  "get (egress_event n k wo ca d) ''kind'' = k" "get (egress_event n k wo ca d) ''disposition'' = d"
  "get (egress_event n k wo ca d) ''web_origin'' = (case wo of None \<Rightarrow> PNone | Some t \<Rightarrow> PStr t)"
  "get (egress_event n k wo ca d) ''connect_authority'' = (case ca of None \<Rightarrow> PNone | Some t \<Rightarrow> PStr t)"
  "has_shape (egress_event n k wo ca d) EVENT_KEYS_v2"
  by (simp_all add: egress_event_def py_eval EVENT_KEYS_v2_def)

text \<open>C24: the privileged parent and the browser contract agree on what an origin is. The parent's own check, written
  apart from the contract, accepts the same texts as \<open>normalize_origin\<close> leaves unchanged, except for host names all of
  whose labels are numeric or hexadecimal spellings, which only the contract refuses.\<close>

theorem event_origin_agrees:
  "canonical_event_origin db (PStr s) = Inr t \<and> \<not> numeric_spelling db s \<longleftrightarrow> t = s \<and> normalize_origin db (PStr s) = Inr s"
proof
  assume a: "canonical_event_origin db (PStr s) = Inr t \<and> \<not> numeric_spelling db s"
  then have "t = s" by (auto simp: event_origin_Inr)
  with a event_origin_sound [of db "PStr s" s] normalize_origin_id show "t = s \<and> normalize_origin db (PStr s) = Inr s" by blast
next
  assume "t = s \<and> normalize_origin db (PStr s) = Inr s"
  then show "canonical_event_origin db (PStr s) = Inr t \<and> \<not> numeric_spelling db s"
    using event_origin_complete normalize_origin_ok by blast
qed

lemma event_authority_value: "canonical_event_authority db v = Inr t \<Longrightarrow> v = PStr t"
  by (cases v) (simp_all add: canonical_event_authority_def Let_def as_str_def bindE_eq_Inr, blast)

lemma one_of_known:
  "a \<in> set ss \<Longrightarrow> one_of err ss (S a) = Inr a" "a \<in> set ss \<Longrightarrow> one_of_set err ss (S a) = Inr a"
  using one_of_Inr [of err ss "S a" a] one_of_set_Inr [of err ss "S a" a] by simp_all

text \<open>What an event the parent has rebuilt looks like.\<close>

lemma validate_event_Inr:
  assumes "validate_event db v n = Inr e"
  obtains (loss) "e = egress_event n (S ''telemetry_loss'') None None (S ''observed'')"
  | (origin) t d where "e = egress_event n (S ''network_request'') (Some t) None (S d)" "d = ''allowed'' \<or> d = ''blocked''"
      "canonical_event_origin db (PStr t) = Inr t" "starts_with (str ''http://'') t"
  | (authority) t d where "e = egress_event n (S ''network_request'') None (Some t) (S d)" "d = ''allowed'' \<or> d = ''blocked''"
      "canonical_event_authority db (PStr t) = Inr t"
proof (cases "py_eq (get v ''kind'') (S ''telemetry_loss'')")
  case True
  with assms have "e = egress_event n (S ''telemetry_loss'') None None (S ''observed'')"
    by (auto simp: validate_event_def)
  then show thesis by (rule loss)
next
  case False
  with assms have kind: "get v ''kind'' = S ''network_request''" by (auto simp: validate_event_def split: if_split_asm)
  with False assms have "\<exists>known. in_set (get v ''disposition'') [''allowed'', ''blocked''] = Inr known \<and> known \<and>
    (get v ''web_origin'' = PNone) = (get v ''connect_authority'' \<noteq> PNone) \<and>
    (\<exists>wo. unless_none (canonical_event_origin db) (get v ''web_origin'') = Inr wo \<and>
      (wo = None \<or> starts_with (str ''http://'') (the wo)) \<and>
      (\<exists>ca. unless_none (canonical_event_authority db) (get v ''connect_authority'') = Inr ca \<and>
        egress_event n (S ''network_request'') wo ca (get v ''disposition'') = e))"
    by (simp add: validate_event_def bindE_eq_Inr)
  then obtain known wo ca where k: "in_set (get v ''disposition'') [''allowed'', ''blocked''] = Inr known" "known"
    "(get v ''web_origin'' = PNone) = (get v ''connect_authority'' \<noteq> PNone)"
    "unless_none (canonical_event_origin db) (get v ''web_origin'') = Inr wo"
    "wo = None \<or> starts_with (str ''http://'') (the wo)"
    "unless_none (canonical_event_authority db) (get v ''connect_authority'') = Inr ca"
    "egress_event n (S ''network_request'') wo ca (get v ''disposition'') = e"
    by blast
  from k(1,2) obtain d where d: "get v ''disposition'' = S d" "d = ''allowed'' \<or> d = ''blocked''"
    by (cases "get v ''disposition''") (auto simp: in_set_def in_strs_def split: if_split_asm)
  show thesis
  proof (cases "get v ''web_origin'' = PNone")
    case True
    with k(3,4,6) obtain t where t: "wo = None" "ca = Some t" "canonical_event_authority db (get v ''connect_authority'') = Inr t"
      by (auto simp: unless_none_def bindE_eq_Inr)
    then have "get v ''connect_authority'' = PStr t" by (intro event_authority_value)
    with t authority [of t d] k(7) d show thesis by simp
  next
    case False
    with k(3,4,6) obtain t where t: "ca = None" "wo = Some t" "canonical_event_origin db (get v ''web_origin'') = Inr t"
      by (auto simp: unless_none_def bindE_eq_Inr)
    then have "get v ''web_origin'' = PStr t" by (simp add: event_origin_Inr)
    with t origin [of t d] k(5,7) d show thesis by simp
  qed
qed

lemma starts_http: "starts_with p s \<Longrightarrow> \<exists>t. s = p @ t"
  by (induction p s rule: starts_with.induct) auto

lemma event_v2_accepted:
  assumes "validate_event db v n = Inr e" "plain_destination db e" "0 \<le> n" "n < int MAX_EVIDENCE_EVENTS"
  shows "\<exists>be. validate_event_v2 db e = Inr be \<and> e_sequence be = n \<and> e_source be = ''egress''"
  using assms(1)
proof (cases rule: validate_event_Inr)
  case loss
  then show ?thesis using assms(3,4)
    by (simp add: validate_event_v2_def event_sequence_def as_int_def egress_event_get one_of_known optional_text_def
        REQUIRED_STREAMS_def KIND_DISPOSITIONS_v2_def KIND_SOURCES_v2_def table_def witness_rules_def WEB_ORIGIN_REQUIRED_KINDS_def)
next
  case (origin t d)
  then have c: "canonical_origin t" using event_origin_sound [of db "PStr t" t] assms(2)
    by (auto simp: plain_destination_def egress_event_get)
  then obtain s h p where p: "s = str ''http'' \<or> s = str ''https''" "host_ok h" "port_ok s p" "t = origin_text (origin_parts s h p)"
    by (rule canonical_origin_parts)
  have "s = str ''http''" using starts_http [OF origin(4)] p(1,4) by (auto simp: origin_text_def origin_parts_def str_def)
  then have u: "\<exists>r. urlsplit db t = Inr r \<and> sr_scheme r = str ''http''"
    using urlsplit_origin [of "origin_parts s h p" db] p(2,3,4) by (simp add: origin_parts_ok) (simp add: origin_parts_def)
  then show ?thesis using origin assms(3,4) normalize_origin_id [OF c, of db]
    by (auto simp: validate_event_v2_def event_sequence_def as_int_def as_str_def egress_event_get one_of_known optional_text_def
        REQUIRED_STREAMS_def KIND_DISPOSITIONS_v2_def KIND_SOURCES_v2_def table_def witness_rules_def WEB_ORIGIN_REQUIRED_KINDS_def)
next
  case (authority t d)
  then obtain h p where p: "host_ok h" "1 \<le> p" "p \<le> 65535" "t = h @ [58] @ dec p"
    using event_authority_sound [of db "PStr t" t] assms(2) by (auto simp: plain_destination_def egress_event_get)
  have "normalize_connect_authority db (PStr t) = Inr t" using connect_authority_accepted(1) [OF p(1-3), of db] p(4) by simp
  then show ?thesis using authority assms(3,4)
    by (auto simp: validate_event_v2_def event_sequence_def as_int_def as_str_def egress_event_get one_of_known optional_text_def
        REQUIRED_STREAMS_def KIND_DISPOSITIONS_v2_def KIND_SOURCES_v2_def table_def witness_rules_def WEB_ORIGIN_REQUIRED_KINDS_def)
qed

lemma validate_events_nth:
  "validate_events db i vs = Inr es \<Longrightarrow> length es = length vs \<and> (\<forall>k<length vs. validate_event db (vs ! k) (i + int k) = Inr (es ! k))"
proof (induction db i vs arbitrary: es rule: validate_events.induct)
  case (2 db i v vs)
  then obtain e es' where e: "validate_event db v i = Inr e" "validate_events db (i + 1) vs = Inr es'" "es = e # es'"
    by (auto simp: bindE_eq_Inr)
  from 2(1) [OF e(1,2)] have ih: "length es' = length vs" "\<And>k. k < length vs \<Longrightarrow> validate_event db (vs ! k) (i + 1 + int k) = Inr (es' ! k)"
    by auto
  have "validate_event db ((v # vs) ! k) (i + int k) = Inr ((e # es') ! k)" if "k < length (v # vs)" for k
    using that ih(2) [of "k - 1"] e(1) by (cases k) (auto simp: algebra_simps)
  with ih(1) e(3) show ?case by simp
qed simp

lemma bounded_uint_Inr [simp]: "bounded_uint v m = Inr i \<longleftrightarrow> v = PInt i \<and> 0 \<le> i \<and> i \<le> m"
  by (cases v) (auto simp: bounded_uint_def)

lemma validate_telemetry_Inr:
  "validate_telemetry v n = Inr t \<Longrightarrow> t_event_count t = int n \<and> t_network_bytes t \<le> t_network_byte_limit t \<and>
     t_complete t = telemetry_clean t \<and> 0 \<le> t_network_bytes t \<and> t_network_byte_limit t \<le> MAX_NETWORK_BYTES"
  by (auto simp: validate_telemetry_def Let_def bindE_eq_Inr)

text \<open>C23: what the parent accepts from its child is evidence. After \<open>_validate_final\<close> the telemetry counts its events, is
  within its byte limit and says complete exactly when started, closed and without loss; and each event, numbered by its
  place, is accepted by the evidence validator of the host, unless its host is a numeric spelling.\<close>

theorem worker_final_is_evidence:
  assumes "validate_final db v nonce = Inr (events, t)"
  shows "t_event_count t = int (length events) \<and> length events \<le> MAX_FINAL_EVENTS \<and> t_complete t = telemetry_clean t \<and>
    t_network_bytes t \<le> t_network_byte_limit t \<and> t_network_byte_limit t \<le> MAX_NETWORK_BYTES \<and>
    (\<forall>i<length events. plain_destination db (events ! i) \<longrightarrow>
       (\<exists>be. validate_event_v2 db (events ! i) = Inr be \<and> e_sequence be = int i \<and> e_source be = ''egress''))"
proof -
  from assms obtain raw where raw: "length raw \<le> MAX_FINAL_EVENTS" "validate_events db 0 raw = Inr events"
    "validate_telemetry (get v ''telemetry'') (length events) = Inr t"
    by (auto simp: validate_final_def bindE_eq_Inr not_less)
  have n: "length events = length raw" "\<And>k. k < length raw \<Longrightarrow> validate_event db (raw ! k) (int k) = Inr (events ! k)"
    using validate_events_nth [OF raw(2)] by auto
  have "\<exists>be. validate_event_v2 db (events ! i) = Inr be \<and> e_sequence be = int i \<and> e_source be = ''egress''"
    if "i < length events" "plain_destination db (events ! i)" for i
  proof (rule event_v2_accepted)
    show "validate_event db (raw ! i) (int i) = Inr (events ! i)" using that(1) n by simp
    show "int i < int MAX_EVIDENCE_EVENTS" using that(1) n(1) raw(1) by (simp add: MAX_FINAL_EVENTS_def MAX_EVIDENCE_EVENTS_def)
  qed (use that in simp_all)
  with validate_telemetry_Inr [OF raw(3)] n(1) raw(1) show ?thesis by auto
qed

end
