(* ===== verification/Worker_Child.thy ===== *)
theory Worker_Child
  imports Worker_Agreement
begin

section \<open>Egress worker: the unprivileged child\<close>

text \<open>
  \<open>_apply_worker_sandbox\<close>, \<open>_child_proxy_loop\<close> and \<open>_child_entry\<close>. What the kernel answers is a parameter
  (\<open>sec_ops\<close>): each call may raise, each query returns a value. The state of the child keeps, beside its two pipes,
  the list of the actions it has taken in order, so that what happens before what can be stated. The proxy the
  factory builds is given by the outcomes of its methods (\<open>child_proxy\<close>).
\<close>

subsection \<open>Actions\<close>

datatype sys_call =
    Clear_environment
  | Set_no_new_privs
  | Set_limit nat int
  | Set_groups "int list"
  | Set_gid int
  | Set_uid int
  | Set_dumpable_false
  | Set_parent_death_signal int
  | Umask nat
  | Chdir_root

datatype child_action = Sys sys_call | Execute_sources | Build_proxy | Start_proxy | Stop_proxy

record sec_ops =
  so_call :: "sys_call \<Rightarrow> unit res"
  so_parent :: "nat \<Rightarrow> int"
  so_uid :: "int res"
  so_gid :: "int res"
  so_uids :: "int list res"
  so_gids :: "int list res"
  so_groups :: "nat res"
  so_no_new_privs :: "bool res"
  so_dumpable :: "bool res"
  so_death_signal :: "int res"
  so_capabilities_zero :: "bool res"
  so_environment :: "nat res"
  so_limit :: "nat \<Rightarrow> int list res"

record child_proxy =
  cp_start :: "(pystr \<times> int) res"
  cp_stop :: "unit res"
  cp_events :: "pyval list res"
  cp_telemetry :: "pyval res"

record child =
  ch_control :: "pipe_in list"
  ch_status :: "pipe_out list"
  ch_wire :: "bytes list"
  ch_log :: "child_action list"
  ch_nonce :: pystr
  ch_proxy :: "child_proxy option"
  ch_ready :: bool
  ch_failed :: bool

definition note_action :: "child_action \<Rightarrow> (child, unit) act" where
  "note_action a = modA (\<lambda>s. s\<lparr>ch_log := ch_log s @ [a]\<rparr>)"

subsection \<open>The sandbox\<close>

definition sys :: "sec_ops \<Rightarrow> sys_call \<Rightarrow> (child, unit) act" where
  "sys ops c = bindA (liftA (so_call ops c)) (\<lambda>_. note_action (Sys c))"

fun sys_all :: "sec_ops \<Rightarrow> sys_call list \<Rightarrow> (child, unit) act" where
  "sys_all ops [] = returnA ()"
| "sys_all ops (c # cs) = bindA (sys ops c) (\<lambda>_. sys_all ops cs)"

definition drop_privileges :: "int \<Rightarrow> int \<Rightarrow> sys_call list" where
  "drop_privileges uid gid =
     [Clear_environment, Set_no_new_privs] @ map (\<lambda>(name, resource, limit). Set_limit resource limit) RLIMITS @
     [Set_groups [], Set_gid gid, Set_uid uid, Set_dumpable_false, Set_parent_death_signal 9]"

definition ints :: "int list \<Rightarrow> pyval" where "ints xs = PList (map PInt xs)"

definition observed_limit :: "sec_ops \<Rightarrow> string \<times> nat \<Rightarrow> (string \<times> pyval) res" where
  "observed_limit ops x = bindE (so_limit ops (snd x)) (\<lambda>l. Inr (fst x, ints l))"

definition observed_receipt :: "sec_ops \<Rightarrow> bool \<Rightarrow> pyval res" where
  "observed_receipt ops parent_bound =
     bindE (so_uid ops) (\<lambda>uid. bindE (so_gid ops) (\<lambda>gid. bindE (so_uids ops) (\<lambda>uids. bindE (so_gids ops) (\<lambda>gids.
     bindE (so_groups ops) (\<lambda>groups. bindE (so_no_new_privs ops) (\<lambda>nnp. bindE (so_dumpable ops) (\<lambda>dumpable.
     bindE (so_death_signal ops) (\<lambda>signal. bindE (so_capabilities_zero ops) (\<lambda>caps. bindE (so_environment ops) (\<lambda>entries.
     bindE (mapE (observed_limit ops) [(''address_space'', 9), (''core'', 4), (''file_size'', 1), (''open_files'', 7), (''processes'', 6)])
       (\<lambda>limits.
     Inr (obj [(''uid'', PInt uid), (''gid'', PInt gid), (''uids'', ints uids), (''gids'', ints gids),
       (''supplementary_groups'', PInt (int groups)), (''no_new_privs'', PBool nnp), (''dumpable'', PBool dumpable),
       (''parent_death_signal'', PInt signal), (''parent_pid_bound'', PBool parent_bound), (''capabilities_zero'', PBool caps),
       (''environment_entries'', PInt (int entries)), (''rlimits'', obj limits)]))))))))))))"

definition apply_worker_sandbox :: "sec_ops \<Rightarrow> int \<Rightarrow> int \<Rightarrow> int \<Rightarrow> (child, pyval) act" where
  "apply_worker_sandbox ops uid gid expected_parent =
     (if uid = 0 \<or> gid = 0 then raiseA (worker_error ''proxy worker cannot retain root identity'')
      else if so_parent ops 0 \<noteq> expected_parent \<or> expected_parent \<le> 1
      then raiseA (worker_error ''proxy worker parent identity changed'')
      else
        bindA (sys_all ops (drop_privileges uid gid)) (\<lambda>_.
        if so_parent ops 1 \<noteq> expected_parent then raiseA (worker_error ''proxy worker parent exited during sandboxing'')
        else
          bindA (sys_all ops [Umask 63, Chdir_root]) (\<lambda>_.
          liftA (bindE (observed_receipt ops True) (\<lambda>receipt. validate_security_receipt receipt uid gid)))))"

subsection \<open>The framed protocol\<close>

record child_config =
  cc_nonce :: pystr
  cc_request :: pyval
  cc_bind_host :: pystr
  cc_bind_port :: int
  cc_client :: pystr
  cc_wall_clock :: int

definition CONFIG_KEYS :: "string list" where
  "CONFIG_KEYS = [''type'', ''protocol_version'', ''nonce'', ''request'', ''bind_host'', ''bind_port'', ''allowed_client_ip'']"

definition validate_child_config :: "pyval \<Rightarrow> child_config res" where
  "validate_child_config v =
     (if \<not> has_shape v CONFIG_KEYS then Inl (worker_protocol ''worker start frame shape changed'')
      else if \<not> py_eq (get v ''type'') (S ''start'') \<or> \<not> py_eq (get v ''protocol_version'') (S PROTOCOL_VERSION)
      then Inl (worker_protocol ''worker start frame is invalid'')
      else
        bindE (as_str (worker_protocol ''worker start frame is invalid'') (get v ''nonce'')) (\<lambda>nonce.
        if length nonce \<noteq> 64 \<or> \<not> list_all is_hex_char nonce then Inl (worker_protocol ''worker start frame is invalid'')
        else
          bindE (canonical_local_ip (get v ''bind_host'') True) (\<lambda>host.
          bindE (canonical_local_ip (get v ''allowed_client_ip'') False) (\<lambda>client.
          bindE (some_or (worker_protocol ''worker bind port is invalid'') (plain_int (get v ''bind_port''))) (\<lambda>port.
          if \<not> (1024 \<le> port \<and> port \<le> 65535) then Inl (worker_protocol ''worker bind port is invalid'')
          else if \<not> is_dict (get v ''request'') then Inl (worker_protocol ''worker request must be an object'')
          else bindE (wall_clock_from_config v) (\<lambda>wall.
            Inr \<lparr>cc_nonce = nonce, cc_request = get v ''request'', cc_bind_host = host, cc_bind_port = port,
                 cc_client = client, cc_wall_clock = wall\<rparr>))))))"

definition child_read :: "(child, pyval) act" where
  "child_read = (\<lambda>s. case read_frame MAX_CONFIG_FRAME_BYTES (ch_control s) of
     (pipe, r) \<Rightarrow> (s\<lparr>ch_control := pipe\<rparr>, r))"

definition child_write :: "(pyfloat \<Rightarrow> pystr) \<Rightarrow> pyval \<Rightarrow> (child, unit) act" where
  "child_write fr v = (\<lambda>s. case write_frame fr (ch_status s) v MAX_STATUS_FRAME_BYTES of
     (pipe, wire, r) \<Rightarrow> (s\<lparr>ch_status := pipe, ch_wire := ch_wire s @ [wire]\<rparr>, r))"

definition stop_frame :: "pystr \<Rightarrow> pyval" where
  "stop_frame nonce = obj [(''type'', S ''stop''), (''protocol_version'', S PROTOCOL_VERSION), (''nonce'', PStr nonce)]"

definition error_frame :: "string \<Rightarrow> pyval" where
  "error_frame code = obj [(''type'', S ''error''), (''protocol_version'', S PROTOCOL_VERSION), (''code'', S code)]"

type_synonym proxy_factory = "pyval \<Rightarrow> pystr \<Rightarrow> int \<Rightarrow> pystr \<Rightarrow> child_proxy res"

text \<open>The \<open>try\<close> block of \<open>_child_proxy_loop\<close>.\<close>

definition child_session :: "(pyfloat \<Rightarrow> pystr) \<Rightarrow> proxy_factory \<Rightarrow> pyval \<Rightarrow> (child, unit) act" where
  "child_session fr factory security =
     bindA child_read (\<lambda>frame.
     bindA (liftA (validate_child_config frame)) (\<lambda>config.
     bindA (modA (\<lambda>s. s\<lparr>ch_nonce := cc_nonce config\<rparr>)) (\<lambda>_.
     bindA (note_action Build_proxy) (\<lambda>_.
     bindA (liftA (factory (cc_request config) (cc_bind_host config) (cc_bind_port config) (cc_client config))) (\<lambda>proxy.
     bindA (modA (\<lambda>s. s\<lparr>ch_proxy := Some proxy\<rparr>)) (\<lambda>_.
     bindA (note_action Start_proxy) (\<lambda>_.
     bindA (liftA (cp_start proxy)) (\<lambda>endpoint.
     if endpoint \<noteq> (cc_bind_host config, cc_bind_port config)
     then raiseA (worker_protocol ''proxy bound an unexpected endpoint'')
     else
       bindA (child_write fr (ready_frame (cc_nonce config) (fst endpoint) (snd endpoint) security)) (\<lambda>_.
       bindA (modA (\<lambda>s. s\<lparr>ch_ready := True\<rparr>)) (\<lambda>_.
       bindA child_read (\<lambda>command.
       if \<not> py_eq command (stop_frame (cc_nonce config)) then modA (\<lambda>s. s\<lparr>ch_failed := True\<rparr>) else returnA ())))))))))))"

definition stop_proxy :: "child \<Rightarrow> child" where
  "stop_proxy s = (case ch_proxy s of
       None \<Rightarrow> s
     | Some proxy \<Rightarrow>
         let s1 = s\<lparr>ch_log := ch_log s @ [Stop_proxy]\<rparr> in
         (case cp_stop proxy of Inl e \<Rightarrow> s1\<lparr>ch_failed := True\<rparr> | Inr _ \<Rightarrow> s1))"

definition final_snapshot :: "unicode_db \<Rightarrow> pystr \<Rightarrow> child_proxy \<Rightarrow> (pyval list \<times> telemetry) res" where
  "final_snapshot db nonce proxy =
     bindE (cp_events proxy) (\<lambda>events. bindE (cp_telemetry proxy) (\<lambda>t. validate_final db (final_frame nonce events t) nonce))"

text \<open>The local variables the loop starts with.\<close>

definition fresh_session :: "child \<Rightarrow> child" where
  "fresh_session s = s\<lparr>ch_proxy := None, ch_nonce := replicate 64 48, ch_ready := False, ch_failed := False\<rparr>"

definition child_proxy_loop :: "unicode_db \<Rightarrow> (pyfloat \<Rightarrow> pystr) \<Rightarrow> proxy_factory \<Rightarrow> pyval \<Rightarrow> child \<Rightarrow> child \<times> int" where
  "child_proxy_loop db fr factory security s =
     (let s1 = stop_proxy (case child_session fr factory security (fresh_session s) of
             (s', Inl e) \<Rightarrow> s'\<lparr>ch_failed := True\<rparr> | (s', Inr _) \<Rightarrow> s') in
      if \<not> ch_ready s1 then (fst (child_write fr (error_frame ''startup_failed'') s1), 1)
      else
        let snapshot = (if ch_failed s1 then None else (case ch_proxy s1 of
               None \<Rightarrow> None
             | Some proxy \<Rightarrow> (case final_snapshot db (ch_nonce s1) proxy of Inl e \<Rightarrow> None | Inr x \<Rightarrow> Some x)));
            (events, t) = (case snapshot of None \<Rightarrow> (failure_events, failure_telemetry) | Some x \<Rightarrow> x)
        in (case child_write fr (final_frame (ch_nonce s1) events (telemetry_dict t)) s1 of
              (s2, Inl e) \<Rightarrow> (s2, 1)
            | (s2, Inr _) \<Rightarrow> (s2, if snapshot = None then 1 else 0)))"

text \<open>
  \<open>_child_entry\<close>: the identity check and the bytes of the sources come first, while still privileged;
  \<open>execute\<close> is what executing the bytes yields.
\<close>

definition child_setup :: "sec_ops \<Rightarrow> unit res \<Rightarrow> bytes list res \<Rightarrow> (bytes list \<Rightarrow> proxy_factory res) \<Rightarrow> int \<Rightarrow> int \<Rightarrow> int \<Rightarrow>
    (child, pyval \<times> proxy_factory) act" where
  "child_setup ops identity sources execute parent uid gid =
     bindA (liftA identity) (\<lambda>_. bindA (liftA sources) (\<lambda>texts.
     bindA (apply_worker_sandbox ops uid gid parent) (\<lambda>security.
     bindA (note_action Execute_sources) (\<lambda>_.
     bindA (liftA (execute texts)) (\<lambda>factory. returnA (security, factory))))))"

definition child_entry :: "unicode_db \<Rightarrow> (pyfloat \<Rightarrow> pystr) \<Rightarrow> sec_ops \<Rightarrow> unit res \<Rightarrow> bytes list res \<Rightarrow>
    (bytes list \<Rightarrow> proxy_factory res) \<Rightarrow> int \<Rightarrow> int \<Rightarrow> int \<Rightarrow> child \<Rightarrow> child \<times> int" where
  "child_entry db fr ops identity sources execute parent uid gid s =
     (case child_setup ops identity sources execute parent uid gid s of
        (s1, Inl e) \<Rightarrow> (fst (child_write fr (error_frame ''sandbox_failed'') s1), 1)
      | (s1, Inr (security, factory)) \<Rightarrow> child_proxy_loop db fr factory security s1)"

subsection \<open>Nothing runs before the drop is attested\<close>

lemma bindA_eq_Inr: "bindA m f s = (s', Inr y) \<longleftrightarrow> (\<exists>s1 x. m s = (s1, Inr x) \<and> f x s1 = (s', Inr y))"
  by (auto simp: bindA_def split: prod.splits sum.splits)

lemma bindA_eq_Inl: "bindA m f s = (s', Inl e) \<longleftrightarrow> m s = (s', Inl e) \<or> (\<exists>s1 x. m s = (s1, Inr x) \<and> f x s1 = (s', Inl e))"
  by (auto simp: bindA_def split: prod.splits sum.splits)

lemma liftA_eq: "liftA r s = (s', r') \<longleftrightarrow> s' = s \<and> r' = r"
  by (auto simp: liftA_def)

lemma sys_all_Inr: "sys_all ops cs s = (s', Inr u) \<Longrightarrow> s' = s\<lparr>ch_log := ch_log s @ map Sys cs\<rparr>"
proof (induction cs arbitrary: s)
  case (Cons c cs)
  from Cons.prems have "sys_all ops cs (s\<lparr>ch_log := ch_log s @ [Sys c]\<rparr>) = (s', Inr u)"
    by (auto simp: bindA_def sys_def liftA_def note_action_def modA_def split: sum.splits)
  from Cons.IH [OF this] show ?case by simp
qed (simp add: liftA_def)

lemma sys_all_Inl: "sys_all ops cs s = (s', Inl e) \<Longrightarrow> \<exists>done. s' = s\<lparr>ch_log := ch_log s @ map Sys done\<rparr>"
proof (induction cs arbitrary: s)
  case (Cons c cs)
  show ?case
  proof (cases "so_call ops c")
    case (Inl x)
    with Cons.prems have "s' = s" by (simp add: bindA_def sys_def liftA_def)
    then show ?thesis by (intro exI [of _ "[]"]) simp
  next
    case (Inr u)
    with Cons.prems have "sys_all ops cs (s\<lparr>ch_log := ch_log s @ [Sys c]\<rparr>) = (s', Inl e)"
      by (simp add: bindA_def sys_def liftA_def note_action_def modA_def)
    from Cons.IH [OF this] obtain cs' where "s' = s\<lparr>ch_log := ch_log s @ map Sys (c # cs')\<rparr>" by auto
    then show ?thesis by blast
  qed
qed (simp add: liftA_def)

lemma sys_all_log: "sys_all ops cs s = (s', r) \<Longrightarrow> \<exists>cs'. ch_log s' = ch_log s @ map Sys cs'"
proof (cases r)
  case (Inl e)
  assume "sys_all ops cs s = (s', r)"
  with Inl obtain cs' where "s' = s\<lparr>ch_log := ch_log s @ map Sys cs'\<rparr>" using sys_all_Inl [of ops cs s s' e] by blast
  then show ?thesis by auto
next
  case (Inr u)
  assume "sys_all ops cs s = (s', r)"
  with Inr have "s' = s\<lparr>ch_log := ch_log s @ map Sys cs\<rparr>" using sys_all_Inr by blast
  then show ?thesis by auto
qed

text \<open>The calls in order; resources 4, 1, 7, 6 and 9 are the core size, the file size, the open files, the processes and the
  address space. Groups go before the group and the user, the death signal comes after them.\<close>

definition sandbox_calls :: "int \<Rightarrow> int \<Rightarrow> sys_call list" where
  "sandbox_calls uid gid =
     [Clear_environment, Set_no_new_privs, Set_limit 4 0, Set_limit 1 0, Set_limit 7 64, Set_limit 6 32, Set_limit 9 (256 * 1024 * 1024),
      Set_groups [], Set_gid gid, Set_uid uid, Set_dumpable_false, Set_parent_death_signal 9, Umask 63, Chdir_root]"

lemma sandbox_calls_eq: "sandbox_calls uid gid = drop_privileges uid gid @ [Umask 63, Chdir_root]"
  by (simp add: sandbox_calls_def drop_privileges_def RLIMITS_def)

text \<open>What the system reported when the receipt was accepted.\<close>

definition attested :: "sec_ops \<Rightarrow> int \<Rightarrow> int \<Rightarrow> int \<Rightarrow> bool" where
  "attested ops uid gid parent \<longleftrightarrow> uid \<noteq> 0 \<and> gid \<noteq> 0 \<and> 1 < parent \<and> so_parent ops 0 = parent \<and> so_parent ops 1 = parent \<and>
     so_uids ops = Inr [uid, uid, uid] \<and> so_gids ops = Inr [gid, gid, gid] \<and> so_groups ops = Inr 0 \<and>
     so_no_new_privs ops = Inr True \<and> so_dumpable ops = Inr False \<and> so_death_signal ops = Inr 9 \<and>
     so_capabilities_zero ops = Inr True \<and> so_environment ops = Inr 0 \<and>
     (\<forall>(name, resource, limit)\<in>set RLIMITS. so_limit ops resource = Inr [limit, limit])"

lemma py_eq_ints [simp]: "py_eq (PList (map PInt xs)) (PList (map PInt ys)) \<longleftrightarrow> xs = ys"
proof -
  have "py_eq_list (map PInt xs) (map PInt ys) \<longleftrightarrow> xs = ys" for xs ys
  proof (induction xs arbitrary: ys)
    case (Cons x xs)
    then show ?case by (cases ys) auto
  qed auto
  then show ?thesis by simp
qed

lemma ints_eq: "py_eq (ints xs) (PList [PInt a, PInt b, PInt c]) \<longleftrightarrow> xs = [a, b, c]"
  "py_eq (ints xs) (PList [PInt a, PInt b]) \<longleftrightarrow> xs = [a, b]"
  using py_eq_ints [of xs "[a, b, c]"] py_eq_ints [of xs "[a, b]"] by (simp_all only: ints_def list.map)

lemma receipt_attested:
  assumes "bindE (observed_receipt ops True) (\<lambda>receipt. validate_security_receipt receipt uid gid) = Inr r"
    "uid \<noteq> 0" "gid \<noteq> 0" "1 < parent" "so_parent ops 0 = parent" "so_parent ops 1 = parent"
  shows "attested ops uid gid parent \<and> r = expected_security_receipt uid gid"
proof -
  from assms(1) obtain v where v: "observed_receipt ops True = Inr v" "py_eq v (expected_security_receipt uid gid)"
    "r = expected_security_receipt uid gid"
    by (auto simp: bindE_eq_Inr validate_security_receipt_def)
  from v(1) obtain u g us gs n nnp d sg caps en l1 l2 l3 l4 l5 where o: "so_uid ops = Inr u" "so_gid ops = Inr g" "so_uids ops = Inr us"
    "so_gids ops = Inr gs" "so_groups ops = Inr n" "so_no_new_privs ops = Inr nnp" "so_dumpable ops = Inr d" "so_death_signal ops = Inr sg"
    "so_capabilities_zero ops = Inr caps" "so_environment ops = Inr en" "so_limit ops 9 = Inr l1" "so_limit ops 4 = Inr l2"
    "so_limit ops 1 = Inr l3" "so_limit ops 7 = Inr l4" "so_limit ops 6 = Inr l5"
    "v = obj [(''uid'', PInt u), (''gid'', PInt g), (''uids'', ints us), (''gids'', ints gs),
       (''supplementary_groups'', PInt (int n)), (''no_new_privs'', PBool nnp), (''dumpable'', PBool d),
       (''parent_death_signal'', PInt sg), (''parent_pid_bound'', PBool True), (''capabilities_zero'', PBool caps),
       (''environment_entries'', PInt (int en)), (''rlimits'', obj [(''address_space'', ints l1), (''core'', ints l2),
         (''file_size'', ints l3), (''open_files'', ints l4), (''processes'', ints l5)])]"
    by (auto simp: observed_receipt_def observed_limit_def bindE_eq_Inr)
  have "us = [uid, uid, uid] \<and> gs = [gid, gid, gid] \<and> n = 0 \<and> nnp \<and> \<not> d \<and> sg = 9 \<and> caps \<and> en = 0 \<and>
      l1 = [256 * 1024 * 1024, 256 * 1024 * 1024] \<and> l2 = [0, 0] \<and> l3 = [0, 0] \<and> l4 = [64, 64] \<and> l5 = [32, 32]"
    using v(2) unfolding o expected_security_receipt_def obj_def by (auto simp: ints_eq split: if_splits)
  with o v(3) assms(2-6) show ?thesis by (simp add: attested_def RLIMITS_def)
qed

lemma sandbox_Inr:
  assumes "apply_worker_sandbox ops uid gid parent s = (s', Inr r)"
  shows "attested ops uid gid parent \<and> r = expected_security_receipt uid gid \<and>
    s' = s\<lparr>ch_log := ch_log s @ map Sys (sandbox_calls uid gid)\<rparr>"
proof -
  from assms have guard: "uid \<noteq> 0" "gid \<noteq> 0" "1 < parent" "so_parent ops 0 = parent"
    by (auto simp: apply_worker_sandbox_def liftA_def split: if_splits)
  with assms have "bindA (sys_all ops (drop_privileges uid gid)) (\<lambda>_.
        if so_parent ops 1 \<noteq> parent then raiseA (worker_error ''proxy worker parent exited during sandboxing'')
        else bindA (sys_all ops [Umask 63, Chdir_root]) (\<lambda>_.
          liftA (bindE (observed_receipt ops True) (\<lambda>receipt. validate_security_receipt receipt uid gid)))) s = (s', Inr r)"
    by (simp add: apply_worker_sandbox_def del: sys_all.simps)
  then obtain s1 u s2 w where s1: "sys_all ops (drop_privileges uid gid) s = (s1, Inr u)" "so_parent ops 1 = parent"
    and s2: "sys_all ops [Umask 63, Chdir_root] s1 = (s2, Inr w)"
      "bindE (observed_receipt ops True) (\<lambda>receipt. validate_security_receipt receipt uid gid) = Inr r" "s' = s2"
    by (auto simp: bindA_eq_Inr liftA_eq simp del: sys_all.simps split: if_split_asm)
  from receipt_attested [OF s2(2) guard s1(2)] sys_all_Inr [OF s1(1)] sys_all_Inr [OF s2(1)] s2(3) show ?thesis
    by (simp add: sandbox_calls_eq)
qed

lemma sandbox_Inl:
  assumes "apply_worker_sandbox ops uid gid parent s = (s', Inl e)"
  shows "\<exists>cs. ch_log s' = ch_log s @ map Sys cs"
proof (cases "uid = 0 \<or> gid = 0 \<or> so_parent ops 0 \<noteq> parent \<or> parent \<le> 1")
  case True
  with assms have "s' = s" by (auto simp: apply_worker_sandbox_def liftA_def split: if_splits)
  then show ?thesis by (intro exI [of _ "[]"]) simp
next
  case False
  then have "bindA (sys_all ops (drop_privileges uid gid)) (\<lambda>_.
        if so_parent ops 1 \<noteq> parent then raiseA (worker_error ''proxy worker parent exited during sandboxing'')
        else bindA (sys_all ops [Umask 63, Chdir_root]) (\<lambda>_.
          liftA (bindE (observed_receipt ops True) (\<lambda>receipt. validate_security_receipt receipt uid gid)))) s = (s', Inl e)"
    using assms by (simp add: apply_worker_sandbox_def del: sys_all.simps)
  then consider r where "sys_all ops (drop_privileges uid gid) s = (s', r)"
    | s1 r1 r2 where "sys_all ops (drop_privileges uid gid) s = (s1, r1)" "sys_all ops [Umask 63, Chdir_root] s1 = (s', r2)"
    by (auto simp: bindA_eq_Inl liftA_eq simp del: sys_all.simps split: if_split_asm)
  then show ?thesis
  proof cases
    case 1
    then show ?thesis by (rule sys_all_log)
  next
    case 2
    from sys_all_log [OF 2(1)] sys_all_log [OF 2(2)] show ?thesis by (metis append_assoc map_append)
  qed
qed

text \<open>The loop only adds to the log.\<close>

definition extends_log :: "child_action list \<Rightarrow> child \<Rightarrow> bool" where
  "extends_log l s \<longleftrightarrow> (\<exists>rest. ch_log s = l @ rest)"

lemma extends_intros:
  "extends_log l s \<Longrightarrow> extends_log l (s\<lparr>ch_log := ch_log s @ [a]\<rparr>)" "extends_log l s \<Longrightarrow> extends_log l (s\<lparr>ch_failed := b\<rparr>)"
  "extends_log l s \<Longrightarrow> extends_log l (s\<lparr>ch_nonce := n\<rparr>)" "extends_log l s \<Longrightarrow> extends_log l (s\<lparr>ch_proxy := p\<rparr>)"
  "extends_log l s \<Longrightarrow> extends_log l (s\<lparr>ch_ready := b\<rparr>)"
  by (auto simp: extends_log_def)

lemma child_io_log:
  "hoare (extends_log l) child_read (\<lambda>_. extends_log l) (\<lambda>_. extends_log l)"
  "hoare (extends_log l) (child_write fr v) (\<lambda>_. extends_log l) (\<lambda>_. extends_log l)"
  "hoare (extends_log l) (note_action a) (\<lambda>_. extends_log l) (\<lambda>_. extends_log l)"
  by (auto simp: hoare_def child_read_def child_write_def note_action_def modA_def extends_log_def
      split: prod.split sum.split)

lemma child_session_log: "hoare (extends_log l) (child_session fr factory security) (\<lambda>_. extends_log l) (\<lambda>_. extends_log l)"
proof -
  have lift: "hoare (extends_log l) (liftA r) (\<lambda>_. extends_log l) (\<lambda>_. extends_log l)" for r :: "'a res"
    by (simp split: sum.split)
  show ?thesis unfolding child_session_def
    by (intro hoare_bind [OF child_io_log(1)] hoare_bind [OF child_io_log(2)] hoare_bind [OF child_io_log(3)] hoare_bind [OF lift]
        hoare_bind [where R = "\<lambda>_. extends_log l"] hoare_if) (auto simp: extends_intros)
qed

lemma child_loop_log:
  assumes "extends_log l s"
  shows "extends_log l (fst (child_proxy_loop db fr factory security s))"
proof -
  let ?s0 = "case child_session fr factory security (fresh_session s) of (s', Inl e) \<Rightarrow> s'\<lparr>ch_failed := True\<rparr> | (s', Inr _) \<Rightarrow> s'"
  have "extends_log l (fresh_session s)" using assms by (simp add: fresh_session_def extends_log_def)
  then have "extends_log l ?s0"
    using child_session_log [of l fr factory security]
    by (auto simp: hoare_def extends_intros split: prod.split sum.split)
  then have "extends_log l (stop_proxy ?s0)"
    by (auto simp: stop_proxy_def Let_def extends_intros split: option.split sum.split)
  moreover have "extends_log l (fst (child_write fr v s1))" if "extends_log l s1" for v s1
    using that by (auto simp: child_write_def extends_log_def split: prod.split)
  ultimately show ?thesis
    by (auto simp: child_proxy_loop_def Let_def split: prod.split sum.split) (metis fst_conv)+
qed

text \<open>The set-up either stops among the system calls or gets past the attested drop.\<close>

lemma child_setup_cases:
  assumes "child_setup ops identity sources execute parent uid gid s = (s1, r)" "ch_log s = []"
  obtains (dropped) "attested ops uid gid parent" "ch_log s1 = map Sys (sandbox_calls uid gid) @ [Execute_sources]"
  | (stopped) e cs where "r = Inl e" "ch_log s1 = map Sys cs"
proof -
  from assms(1) consider e where "r = Inl e" "s1 = s" | e where "r = Inl e" "apply_worker_sandbox ops uid gid parent s = (s1, Inl e)"
    | s0 sec where "apply_worker_sandbox ops uid gid parent s = (s0, Inr sec)" "s1 = s0\<lparr>ch_log := ch_log s0 @ [Execute_sources]\<rparr>"
    by (cases r) (auto simp: child_setup_def bindA_eq_Inl bindA_eq_Inr liftA_eq note_action_def modA_def)
  then show thesis
  proof cases
    case 1
    with assms(2) show thesis by (intro stopped [of _ "[]"]) simp_all
  next
    case (2 e)
    with sandbox_Inl [OF 2(2)] assms(2) show thesis by (auto intro: stopped)
  next
    case 3
    with sandbox_Inr [OF 3(1)] assms(2) show thesis by (intro dropped) simp_all
  qed
qed

lemma child_write_log: "ch_log (fst (child_write fr v s)) = ch_log s"
  by (simp add: child_write_def split: prod.split)

lemma child_entry_extends:
  assumes "child_setup ops identity sources execute parent uid gid s = (s1, r)" "extends_log l s1"
  shows "extends_log l (fst (child_entry db fr ops identity sources execute parent uid gid s))"
proof (cases r)
  case (Inl e)
  with assms show ?thesis by (simp add: child_entry_def extends_log_def child_write_log)
next
  case (Inr x)
  with assms child_loop_log show ?thesis by (cases x) (simp add: child_entry_def)
qed

text \<open>C22: no proxy code runs in the child before its privileges are gone. If the child of a fresh process has done
  anything but a system call, that is, executed the proxy sources, built or started the proxy, then the first
  actions were exactly the drop of the environment, the limits, groups, group and user, in this order, and every
  query of the system answered what the receipt demands: the unprivileged identity in all three places, no
  groups, no capabilities, no new privileges, the limits, and the parent that spawned it.\<close>

theorem child_sandboxed_before_code:
  assumes "child_entry db fr ops identity sources execute parent uid gid s = (s', code)" "ch_log s = []"
    "a \<in> set (ch_log s')" "\<And>c. a \<noteq> Sys c"
  shows "attested ops uid gid parent \<and> (\<exists>rest. ch_log s' = map Sys (sandbox_calls uid gid) @ Execute_sources # rest)"
proof -
  obtain s1 r where r: "child_setup ops identity sources execute parent uid gid s = (s1, r)"
    by (cases "child_setup ops identity sources execute parent uid gid s")
  from r assms(2) show ?thesis
  proof (cases rule: child_setup_cases)
    case dropped
    then have "extends_log (map Sys (sandbox_calls uid gid) @ [Execute_sources]) s1" by (simp add: extends_log_def)
    from child_entry_extends [OF r this, of db fr] assms(1) dropped(1) show ?thesis by (auto simp: extends_log_def)
  next
    case (stopped e cs)
    then have "ch_log s' = map Sys cs" using assms(1) r by (auto simp: child_entry_def child_write_log)
    with assms(3,4) show ?thesis by auto
  qed
qed

end
