(* ===== verification/Worker_Parent.thy ===== *)
theory Worker_Parent
  imports Worker_Child
begin

section \<open>Egress worker: the root parent\<close>

text \<open>
  \<open>BrowserEgressWorker\<close>: the handle the Firecracker runtime uses. Its state is \<open>worker_state\<close>, its configuration
  \<open>worker\<close>. What the operating system does in one call of \<open>start\<close> or \<open>stop\<close> is an argument: the identity check, the
  new process, what the pipes carry, how the process ends and what the scans of its group find. The lifecycle is the
  step relation \<open>worker_step\<close>; \<open>worker_inv\<close> is what every sequence of calls keeps.
\<close>

subsection \<open>The process group\<close>

datatype stat_read = Gone | Unreadable | Stat pystr

text \<open>\<open>str.split()\<close> on white space.\<close>

function words_of :: "pystr \<Rightarrow> pystr list" where
  "words_of s = (case dropWhile py_space s of
       [] \<Rightarrow> []
     | c # t \<Rightarrow> takeWhile (\<lambda>x. \<not> py_space x) (c # t) # words_of (dropWhile (\<lambda>x. \<not> py_space x) t))"
  by pat_completeness auto
termination
proof (relation "measure length")
  fix s c t
  assume "dropWhile py_space s = c # t"
  then have "length (c # t) \<le> length s" by (metis length_dropWhile_le)
  then show "(dropWhile (\<lambda>x. \<not> py_space x) t, s) \<in> measure length"
    using length_dropWhile_le [of "\<lambda>x. \<not> py_space x" t] by simp
qed simp

declare words_of.simps [simp del]

text \<open>The fields after the last closing parenthesis; all of the text when there is none.\<close>

definition stat_fields :: "pystr \<Rightarrow> pystr list" where
  "stat_fields s = words_of (rev (before 41 (rev s)))"

text \<open>One entry of the listing: \<open>None\<close> when it does not count, else its number and whether it could be judged.\<close>

definition group_member :: "int \<Rightarrow> pystr \<times> stat_read \<Rightarrow> (nat list \<times> bool) res" where
  "group_member pgid entry =
     (if fst entry = [] \<or> \<not> list_all is_digit (fst entry) then Inr ([], True)
      else (case snd entry of
          Gone \<Rightarrow> Inr ([], True)
        | Unreadable \<Rightarrow> Inr ([], False)
        | Stat t \<Rightarrow>
            let fields = stat_fields t in
            if length fields < 3 then Inr ([], False)
            else
              let digits = dropWhile (\<lambda>c. c = 45) (fields ! 2) in
              if digits = [] \<or> \<not> list_all is_digit digits then Inr ([], False)
              else if 1 < length (fields ! 2) - length digits then Inl (ValueError ''invalid literal for int'')
              else
                let group = (if fields ! 2 = digits then int (digits_val digits) else - int (digits_val digits)) in
                Inr (if group = pgid \<and> fields ! 0 \<notin> {str ''Z'', str ''X''} then [digits_val (fst entry)] else [], True)))"

definition live_process_group_members :: "int \<Rightarrow> (pystr \<times> stat_read) list option \<Rightarrow> (nat list \<times> bool) res" where
  "live_process_group_members pgid listing = (case listing of
       None \<Rightarrow> Inr ([], False)
     | Some entries \<Rightarrow> bindE (mapE (group_member pgid) entries) (\<lambda>found.
         Inr (sort (concat (map fst found)), list_all snd found)))"

datatype group_probe = No_such_process | Not_permitted | Present "(pystr \<times> stat_read) list option"

record process =
  pr_pid :: int
  pr_marked :: bool
  pr_running :: bool
  pr_exit :: "int res"
  pr_descendants :: group_probe
  pr_sigkill :: "unit res"
  pr_reaped :: bool
  pr_probes :: "(group_probe \<times> bool) list"

definition process_group_exists :: "process \<Rightarrow> group_probe \<Rightarrow> bool res" where
  "process_group_exists p probe =
     (if \<not> pr_marked p then Inr False
      else (case probe of
          No_such_process \<Rightarrow> Inr False
        | Not_permitted \<Rightarrow> Inr True
        | Present listing \<Rightarrow> bindE (live_process_group_members (pr_pid p) listing) (\<lambda>(members, complete).
            Inr (members \<noteq> [] \<or> \<not> complete))))"

text \<open>Each turn has the result of the probe and whether the deadline has passed after it.\<close>

fun wait_group_empty :: "process \<Rightarrow> (group_probe \<times> bool) list \<Rightarrow> bool res" where
  "wait_group_empty p [] = Inr False"
| "wait_group_empty p ((probe, expired) # rest) =
     bindE (process_group_exists p probe) (\<lambda>there.
       if \<not> there then Inr True else if expired then Inr False else wait_group_empty p rest)"

definition wait_process_group_empty :: "process \<Rightarrow> bool res" where
  "wait_process_group_empty p = (if \<not> pr_marked p then Inr False else wait_group_empty p (pr_probes p))"

text \<open>The signals have no result of their own; only the final kill of the group may raise.\<close>

definition terminate_process :: "process \<Rightarrow> bool res" where
  "terminate_process p =
     bindE (if pr_marked p then pr_sigkill p else Inr ()) (\<lambda>_.
     bindE (wait_process_group_empty p) (\<lambda>group_empty. Inr (pr_reaped p \<and> group_empty)))"

subsection \<open>Construction\<close>

record worker =
  wk_bind_host :: pystr
  wk_bind_port :: int
  wk_client :: pystr
  wk_uid :: int
  wk_gid :: int
  wk_request :: pyval

definition BrowserEgressWorker :: "(pyfloat \<Rightarrow> pystr) \<Rightarrow> pyval \<Rightarrow> pyval \<Rightarrow> pyval \<Rightarrow> pyval \<Rightarrow> pyval \<Rightarrow> pyval \<Rightarrow> pyval \<Rightarrow> pyval \<Rightarrow>
    worker res" where
  "BrowserEgressWorker fr request bind_host allowed_client_ip uid gid bind_port ready_timeout stop_timeout =
     bindE (canonical_local_ip bind_host True) (\<lambda>host.
     bindE (canonical_local_ip allowed_client_ip False) (\<lambda>client.
     bindE (some_or (worker_error ''bind_port must be in 1024..65535'') (plain_int bind_port)) (\<lambda>port.
     if \<not> (1024 \<le> port \<and> port \<le> 65535) then Inl (worker_error ''bind_port must be in 1024..65535'')
     else
       bindE (safe_id uid) (\<lambda>u. bindE (safe_id gid) (\<lambda>g.
       bindE (bounded_timeout ready_timeout 15) (\<lambda>_. bindE (bounded_timeout stop_timeout 15) (\<lambda>_.
       bindE (catch_as (\<lambda>e. True) (worker_error ''browser request is not strict JSON'')
         (bindE (ascii_json fr request) (\<lambda>t. json_object (map byte_of t)))) (\<lambda>normalized.
       bindE (wall_clock_from_config (obj [(''request'', normalized)])) (\<lambda>_.
       Inr \<lparr>wk_bind_host = host, wk_bind_port = port, wk_client = client, wk_uid = u, wk_gid = g,
            wk_request = normalized\<rparr>)))))))))"

subsection \<open>Start and stop\<close>

datatype lifecycle = New | Starting | Running | Stopping | Stopped | Failed

record worker_state =
  ws_state :: lifecycle
  ws_process :: "process option"
  ws_nonce :: pystr
  ws_ready :: "pyval option"
  ws_status :: "pipe_in list"
  ws_purge_verified :: bool
  ws_pending_purge :: bool
  ws_events :: "pyval list"
  ws_telemetry :: telemetry

definition new_worker :: worker_state where
  "new_worker = \<lparr>ws_state = New, ws_process = None, ws_nonce = [], ws_ready = None, ws_status = [],
     ws_purge_verified = False, ws_pending_purge = False, ws_events = failure_events, ws_telemetry = failure_telemetry\<rparr>"

record spawn_env =
  se_identity :: "unit res"
  se_pipes :: "unit res"
  se_process :: "process res"
  se_nonce :: pystr
  se_control :: "pipe_out list"
  se_status :: "pipe_in list"
  se_exited :: bool

definition start_frame :: "worker \<Rightarrow> pystr \<Rightarrow> pyval" where
  "start_frame w nonce = obj
     [(''type'', S ''start''), (''protocol_version'', S PROTOCOL_VERSION), (''nonce'', PStr nonce),
      (''request'', wk_request w), (''bind_host'', PStr (wk_bind_host w)), (''bind_port'', PInt (wk_bind_port w)),
      (''allowed_client_ip'', PStr (wk_client w))]"

text \<open>The exchange of start and readiness frames; the pipe that is left carries the final frame later.\<close>

definition readiness :: "(pyfloat \<Rightarrow> pystr) \<Rightarrow> worker \<Rightarrow> spawn_env \<Rightarrow> pipe_in list \<times> pyval res" where
  "readiness fr w env = (case write_frame fr (se_control env) (start_frame w (se_nonce env)) MAX_CONFIG_FRAME_BYTES of
       (_, _, Inl e) \<Rightarrow> (se_status env, Inl e)
     | (_, _, Inr _) \<Rightarrow> (case read_frame MAX_STATUS_FRAME_BYTES (se_status env) of
           (pipe, frame) \<Rightarrow>
             (pipe, bindE frame (\<lambda>v.
                bindE (validate_ready v (se_nonce env) (wk_bind_host w) (wk_bind_port w) (wk_uid w) (wk_gid w)) (\<lambda>receipt.
                if se_exited env then Inl (worker_error ''proxy worker exited during readiness'') else Inr receipt)))))"

definition start_worker :: "(pyfloat \<Rightarrow> pystr) \<Rightarrow> worker \<Rightarrow> spawn_env \<Rightarrow> (worker_state, pystr \<times> int) act" where
  "start_worker fr w env = (\<lambda>st. case se_identity env of
       Inl e \<Rightarrow> (st, Inl e)
     | Inr _ \<Rightarrow>
         if ws_state st \<noteq> New then (st, Inl (worker_error ''proxy worker can only start once''))
         else
           let st1 = st\<lparr>ws_state := Starting\<rparr> in
           (case se_pipes env of
              Inl e \<Rightarrow> (st1, Inl e)
            | Inr _ \<Rightarrow> (case se_process env of
                  Inl e \<Rightarrow> (st1\<lparr>ws_pending_purge := False, ws_state := Failed\<rparr>, Inl e)
                | Inr p \<Rightarrow> (case readiness fr w env of
                      (pipe, Inl e) \<Rightarrow> (case terminate_process p of
                          Inl e' \<Rightarrow> (st1, Inl e')
                        | Inr purged \<Rightarrow> (st1\<lparr>ws_pending_purge := purged, ws_state := Failed\<rparr>, Inl e))
                    | (pipe, Inr receipt) \<Rightarrow>
                        (st1\<lparr>ws_process := Some p, ws_nonce := se_nonce env, ws_ready := Some receipt, ws_status := pipe,
                             ws_state := Running\<rparr>, Inr (wk_bind_host w, wk_bind_port w))))))"

record stop_env =
  te_control :: "pipe_out list"
  te_status :: "pipe_in list"

definition stop_exchange :: "unicode_db \<Rightarrow> (pyfloat \<Rightarrow> pystr) \<Rightarrow> stop_env \<Rightarrow> worker_state \<Rightarrow> process \<Rightarrow> (pyval list \<times> telemetry) res" where
  "stop_exchange db fr env st p =
     (case write_frame fr (te_control env) (stop_frame (ws_nonce st)) MAX_CONFIG_FRAME_BYTES of
        (_, _, Inl e) \<Rightarrow> Inl e
      | (_, _, Inr _) \<Rightarrow>
          bindE (snd (read_frame MAX_STATUS_FRAME_BYTES (ws_status st @ te_status env))) (\<lambda>v.
          bindE (validate_final db v (ws_nonce st)) (\<lambda>final.
          bindE (pr_exit p) (\<lambda>code.
          if code \<noteq> 0 then Inl (worker_error ''proxy worker exited uncleanly'')
          else bindE (process_group_exists p (pr_descendants p)) (\<lambda>there.
            if there then Inl (worker_error ''proxy worker left a descendant process'') else Inr final)))))"

definition settle :: "bool \<Rightarrow> (pyval list \<times> telemetry) option \<Rightarrow> worker_state \<Rightarrow> worker_state" where
  "settle purged final st = (case final of
       Some (events, t) \<Rightarrow> st\<lparr>ws_events := events, ws_telemetry := t, ws_purge_verified := purged, ws_pending_purge := purged,
                             ws_state := Stopped\<rparr>
     | None \<Rightarrow> st\<lparr>ws_events := failure_events, ws_telemetry := failure_telemetry, ws_purge_verified := purged,
                  ws_pending_purge := purged, ws_state := Failed\<rparr>)"

definition stop_worker :: "unicode_db \<Rightarrow> (pyfloat \<Rightarrow> pystr) \<Rightarrow> stop_env \<Rightarrow> (worker_state, unit) act" where
  "stop_worker db fr env = (\<lambda>st. case ws_state st of
       Stopped \<Rightarrow> (st, Inr ())
     | Failed \<Rightarrow> (st\<lparr>ws_purge_verified := ws_pending_purge st\<rparr>, Inr ())
     | New \<Rightarrow> (st\<lparr>ws_state := Stopped\<rparr>, Inr ())
     | _ \<Rightarrow>
         let st1 = st\<lparr>ws_state := Stopping\<rparr> in
         (case ws_process st of
            None \<Rightarrow> (settle False None st1, Inr ())
          | Some p \<Rightarrow>
              let result = stop_exchange db fr env st p in
              (case terminate_process p of
                 Inl e \<Rightarrow> (st1, Inl e)
               | Inr purged \<Rightarrow>
                   (settle purged (case result of Inl e \<Rightarrow> None | Inr final \<Rightarrow> if pr_running p then None else Some final) st1,
                    Inr ()))))"

subsection \<open>The lifecycle\<close>

inductive worker_step :: "unicode_db \<Rightarrow> (pyfloat \<Rightarrow> pystr) \<Rightarrow> worker \<Rightarrow> worker_state \<Rightarrow> worker_state \<Rightarrow> bool" for db fr w where
  Start: "worker_step db fr w st (fst (start_worker fr w env st))"
| Stop: "worker_step db fr w st (fst (stop_worker db fr env st))"

abbreviation worker_reachable :: "unicode_db \<Rightarrow> (pyfloat \<Rightarrow> pystr) \<Rightarrow> worker \<Rightarrow> worker_state \<Rightarrow> bool" where
  "worker_reachable db fr w \<equiv> (worker_step db fr w)\<^sup>*\<^sup>* new_worker"

text \<open>The readiness receipt of the session, and a final frame of the same session.\<close>

definition session_ready :: "worker \<Rightarrow> worker_state \<Rightarrow> bool" where
  "session_ready w st \<longleftrightarrow> ws_ready st = Some (ready_frame (ws_nonce st) (wk_bind_host w) (wk_bind_port w)
     (expected_security_receipt (wk_uid w) (wk_gid w)))"

definition session_final :: "unicode_db \<Rightarrow> worker_state \<Rightarrow> bool" where
  "session_final db st \<longleftrightarrow> (\<exists>v. validate_final db v (ws_nonce st) = Inr (ws_events st, ws_telemetry st))"

definition fail_closed :: "worker_state \<Rightarrow> bool" where
  "fail_closed st \<longleftrightarrow> ws_events st = failure_events \<and> ws_telemetry st = failure_telemetry"

definition worker_inv :: "unicode_db \<Rightarrow> worker \<Rightarrow> worker_state \<Rightarrow> bool" where
  "worker_inv db w st \<longleftrightarrow>
     (ws_process st \<noteq> None \<longrightarrow> session_ready w st) \<and>
     (ws_state st = Running \<longrightarrow> ws_process st \<noteq> None) \<and>
     (ws_state st = New \<longrightarrow> ws_process st = None) \<and>
     (fail_closed st \<or> ws_state st = Stopped \<and> ws_process st \<noteq> None \<and> session_final db st)"

lemma validate_ready_Inr:
  "validate_ready v nonce host port uid gid = Inr r \<Longrightarrow> r = ready_frame nonce host port (expected_security_receipt uid gid)"
  by (auto simp: validate_ready_def validate_security_receipt_def bindE_eq_Inr)

lemma readiness_Inr:
  "readiness fr w env = (pipe, Inr r) \<Longrightarrow>
   r = ready_frame (se_nonce env) (wk_bind_host w) (wk_bind_port w) (expected_security_receipt (wk_uid w) (wk_gid w))"
  by (auto simp: readiness_def bindE_eq_Inr dest: validate_ready_Inr split: prod.split_asm sum.split_asm)

lemma stop_exchange_Inr:
  "stop_exchange db fr env st p = Inr final \<Longrightarrow>
   \<exists>v. snd (read_frame MAX_STATUS_FRAME_BYTES (ws_status st @ te_status env)) = Inr v \<and>
     validate_final db v (ws_nonce st) = Inr final \<and> pr_exit p = Inr 0 \<and> process_group_exists p (pr_descendants p) = Inr False"
  by (auto simp: stop_exchange_def bindE_eq_Inr split: prod.split_asm sum.split_asm)

lemma start_inv:
  assumes "worker_inv db w st"
  shows "worker_inv db w (fst (start_worker fr w env st))"
proof (cases "se_identity env")
  case (Inr u)
  show ?thesis
  proof (cases "ws_state st = New")
    case True
    with assms have none: "ws_process st = None" "fail_closed st" by (auto simp: worker_inv_def)
    obtain pipe r where r: "readiness fr w env = (pipe, r)" by (cases "readiness fr w env")
    with readiness_Inr [of fr w env pipe] none True Inr show ?thesis
      by (auto simp: start_worker_def worker_inv_def fail_closed_def session_ready_def Let_def split: sum.split)
  qed (use assms Inr in \<open>simp add: start_worker_def\<close>)
qed (use assms in \<open>simp add: start_worker_def\<close>)

lemma settle_inv:
  assumes "worker_inv db w st" "\<And>events t. final = Some (events, t) \<Longrightarrow>
      ws_process st \<noteq> None \<and> (\<exists>v. validate_final db v (ws_nonce st) = Inr (events, t))"
  shows "worker_inv db w (settle purged final (st\<lparr>ws_state := Stopping\<rparr>))"
proof (cases final)
  case None
  with assms(1) show ?thesis by (simp add: settle_def worker_inv_def session_ready_def fail_closed_def)
next
  case (Some x)
  obtain events t where "x = (events, t)" by (cases x)
  with assms(2) [of events t] Some assms(1) show ?thesis
    by (auto simp: settle_def worker_inv_def session_ready_def session_final_def)
qed

lemma stop_active:
  assumes "ws_state st \<in> {Starting, Running, Stopping}"
  shows "stop_worker db fr env st = (case ws_process st of
      None \<Rightarrow> (settle False None (st\<lparr>ws_state := Stopping\<rparr>), Inr ())
    | Some p \<Rightarrow> (case terminate_process p of
        Inl e \<Rightarrow> (st\<lparr>ws_state := Stopping\<rparr>, Inl e)
      | Inr purged \<Rightarrow> (settle purged (case stop_exchange db fr env st p of
            Inl e \<Rightarrow> None | Inr final \<Rightarrow> if pr_running p then None else Some final) (st\<lparr>ws_state := Stopping\<rparr>), Inr ())))"
  using assms by (auto simp: stop_worker_def Let_def split: option.split)

lemma stop_inv:
  assumes "worker_inv db w st"
  shows "worker_inv db w (fst (stop_worker db fr env st))"
proof (cases "ws_state st \<in> {Starting, Running, Stopping}")
  case True
  then have closed: "fail_closed st" using assms by (auto simp: worker_inv_def)
  show ?thesis
  proof (cases "ws_process st")
    case None
    then show ?thesis using settle_inv [OF assms, of None False] by (simp add: stop_active [OF True])
  next
    case (Some p)
    have "worker_inv db w (st\<lparr>ws_state := Stopping\<rparr>)"
      using assms closed by (auto simp: worker_inv_def session_ready_def fail_closed_def)
    moreover have "worker_inv db w (settle purged (case stop_exchange db fr env st p of
        Inl e \<Rightarrow> None | Inr final \<Rightarrow> if pr_running p then None else Some final) (st\<lparr>ws_state := Stopping\<rparr>))" for purged
    proof (rule settle_inv [OF assms])
      fix events t
      assume "(case stop_exchange db fr env st p of Inl e \<Rightarrow> None | Inr final \<Rightarrow> if pr_running p then None else Some final) = Some (events, t)"
      then have "stop_exchange db fr env st p = Inr (events, t)" by (simp split: sum.split_asm if_split_asm)
      from stop_exchange_Inr [OF this] Some
      show "ws_process st \<noteq> None \<and> (\<exists>v. validate_final db v (ws_nonce st) = Inr (events, t))" by auto
    qed
    ultimately show ?thesis using Some by (simp add: stop_active [OF True] split: sum.split)
  qed
next
  case False
  then show ?thesis using assms
    by (cases "ws_state st") (auto simp: stop_worker_def worker_inv_def session_ready_def session_final_def fail_closed_def)
qed

lemma worker_reachable_inv: "worker_reachable db fr w st \<Longrightarrow> worker_inv db w st"
proof (induction rule: rtranclp_induct)
  case base
  show ?case by (simp add: worker_inv_def new_worker_def fail_closed_def)
next
  case (step st st')
  from step(2,3) show ?case by (cases rule: worker_step.cases) (simp_all add: start_inv stop_inv)
qed


end
