(* ===== verification/Worker_Delivery.thy ===== *)
theory Worker_Delivery
  imports Worker_Parent Monitor
begin

section \<open>Egress worker: an honest session is delivered\<close>

text \<open>
  \<open>Worker_Parent\<close> shows that the parent never reports more than it may. Here the converse: what an honest child sends
  as its final frame is read, accepted and kept by the parent, unchanged. The frame crosses the pipe as JSON text with
  sorted keys, so the validator of the parent sees \<open>canon\<close> of what the child's validator returned; the lemmas show that
  the validator is idempotent across that.
\<close>

subsection \<open>Sorting keys changes no field\<close>

lemma has_shape_canon [simp]: "has_shape (canon v) ks = has_shape v ks"
  by (cases v) (simp_all add: has_shape_def keys_are_def canon_dict_map image_image)

lemma insort_map: "(\<And>x. f (g x) = f x) \<Longrightarrow> insort_key f (g x) (map g xs) = map g (insort_key f x xs)"
  by (induction xs) auto

lemma sort_map: "(\<And>x. f (g x) = f x) \<Longrightarrow> sort_key f (map g xs) = map g (sort_key f xs)"
  by (induction xs) (simp_all add: insort_map)

lemma canon_canon [simp]:
  "canon (canon v) = canon v" "canon_list (canon_list xs) = canon_list xs" "canon_dict (canon_dict d) = canon_dict d"
proof (induction v and xs and d rule: canon_canon_list_canon_dict.induct)
  case (2 d)
  have "canon_dict (sort_key (\<lambda>kv. key_str (fst kv)) (canon_dict d)) = sort_key (\<lambda>kv. key_str (fst kv)) (canon_dict (canon_dict d))"
    unfolding canon_dict_map [of "sort_key _ _"] canon_dict_map [of "canon_dict d"] by (rule sort_map [symmetric]) simp
  with 2 show ?case by (simp add: sort_key_id_if_sorted)
qed simp_all

lemma wf_canon [simp]:
  "wf_val v \<Longrightarrow> wf_val (canon v)" "wf_list xs \<Longrightarrow> wf_list (canon_list xs)" "wf_items d \<Longrightarrow> wf_items (canon_dict d)"
proof (induction v and xs and d rule: canon_canon_list_canon_dict.induct)
  case (2 d)
  then show ?case by (simp add: wf_items_all list_all_iff)
qed simp_all

text \<open>A value read back from sorted text is equal, as Python compares, to the value that was written.\<close>

lemma canon_py_eq: "validate v = Inr () \<Longrightarrow> wf_val v \<Longrightarrow> py_eq (canon v) v"
  by (intro canon_eq_py_eq validate_canon) simp_all

lemma validate_scalars:
  "validate v = Inr () \<Longrightarrow> scalars v"
  "validate_list xs = Inr () \<Longrightarrow> scalars_list xs"
  "validate_items d = Inr () \<Longrightarrow> scalars_dict d"
proof (induction v and xs and d rule: validate_validate_list_validate_items.induct)
  case (12 k v d)
  then show ?case by (cases k) (auto simp: bindE_eq_Inr encodable_iff)
qed (auto simp: bindE_eq_Inr encodable_iff split: if_splits)

lemma scalar_of_ascii: "list_all (\<lambda>c. c < 128) s \<Longrightarrow> list_all scalar s"
  by (erule list_all_mp) (rule scalar_ascii)

subsection \<open>Events\<close>

lemma egress_event_wf: "wf_val (egress_event n (S k) wo ca (S d))"
  by (simp add: egress_event_def wf_obj split: option.split)

lemma canon_event_get:
  "get (canon (egress_event n (S k) wo ca (S d))) f = get (egress_event n (S k) wo ca (S d)) f"
  by (subst get_canon [OF egress_event_wf]) (simp add: egress_event_def get_obj split: option.split)

lemma egress_event_shape: "has_shape (egress_event n k wo ca d) WORKER_EVENT_KEYS"
  by (simp add: egress_event_def has_shape_obj WORKER_EVENT_KEYS_def)

lemma disposition_known: "d = ''allowed'' \<or> d = ''blocked'' \<Longrightarrow> in_set (S d) [''allowed'', ''blocked''] = Inr True"
  by (auto simp: in_set_def in_strs_def)

lemma validate_event_canon:
  assumes "validate_event db v n = Inr e"
  shows "validate_event db (canon e) n = Inr e"
  using assms
proof (cases rule: validate_event_Inr)
  case loss
  then show ?thesis by (simp add: validate_event_def canon_event_get egress_event_shape egress_event_get)
next
  case (origin t d)
  then show ?thesis
    by (simp add: validate_event_def canon_event_get egress_event_shape egress_event_get disposition_known unless_none_def)
next
  case (authority t d)
  then show ?thesis
    by (simp add: validate_event_def canon_event_get egress_event_shape egress_event_get disposition_known unless_none_def)
qed

lemma validate_events_canon: "validate_events db i vs = Inr es \<Longrightarrow> validate_events db i (map canon es) = Inr es"
  by (induction db i vs arbitrary: es rule: validate_events.induct) (auto simp: bindE_eq_Inr dest: validate_event_canon)

lemma event_host_scalar: "event_host_ok h \<Longrightarrow> list_all scalar h"
proof -
  assume "event_host_ok h"
  then have "c < 128" if "c \<in> set h" for c using split_on_concat [of c h 46] that
    by (fastforce simp: event_host_ok_def Let_def list_all_iff host_label_def host_alnum_def is_digit_def)
  then show ?thesis by (auto simp: list_all_iff scalar_ascii)
qed

lemma event_authority_scalar:
  assumes "canonical_event_authority db (PStr t) = Inr t"
  shows "list_all scalar t"
proof -
  from assms obtain p x origin r h where o: "canonical_event_origin db (PStr x) = Inr origin"
    "urlsplit db origin = Inr r" "sr_hostname db r = Some h" "h @ [58] @ dec p = t"
    by (simp add: canonical_event_authority_def Let_def as_str_def bindE_eq_Inr if_Inl_eq_Inr) blast
  from o(1,2,3) have "event_host_ok h" by (auto simp: event_origin_Inr event_hostname_Inr)
  then have "list_all scalar h" by (rule event_host_scalar)
  moreover have "list_all scalar (dec p)"
    using dec_digits [of p] by (auto simp: list_all_iff is_digit_def scalar_def)
  ultimately show ?thesis using o(4) by (auto simp: scalar_def)
qed

lemma validate_event_valid:
  assumes "validate_event db v n = Inr e" "0 \<le> n" "n \<le> MAX_SAFE_INTEGER"
  shows "validate e = Inr ()" "wf_val e"
proof -
  have enc: "utf8_encode t \<noteq> None" if "canonical_event_origin db (PStr t) = Inr t \<or> canonical_event_authority db (PStr t) = Inr t" for t
    using that
  proof
    assume "canonical_event_origin db (PStr t) = Inr t"
    then show ?thesis by (auto simp: event_origin_Inr)
  qed (simp add: event_authority_scalar encodable_iff)
  show "validate e = Inr ()" using assms(1)
    by (cases rule: validate_event_Inr)
      (use assms(2,3) enc in \<open>auto simp: egress_event_def validate_obj\<close>)
  show "wf_val e" using assms(1) by (cases rule: validate_event_Inr) (simp_all add: egress_event_wf)
qed


subsection \<open>Telemetry and the final frame\<close>

lemma telemetry_dict_get:
  "get (canon (telemetry_dict t)) k = get (telemetry_dict t) k"
proof -
  have "wf_val (telemetry_dict t)" by (simp add: telemetry_dict_def wf_obj)
  then show ?thesis by (subst get_canon) (simp_all add: telemetry_dict_def get_obj)
qed

lemma telemetry_dict_fields:
  "get (telemetry_dict t) ''complete'' = PBool (t_complete t)" "get (telemetry_dict t) ''started'' = PBool (t_started t)"
  "get (telemetry_dict t) ''closed'' = PBool (t_closed t)" "get (telemetry_dict t) ''event_overflow'' = PBool (t_event_overflow t)"
  "get (telemetry_dict t) ''inflight_events'' = PInt (t_inflight_events t)"
  "get (telemetry_dict t) ''active_connections'' = PInt (t_active_connections t)"
  "get (telemetry_dict t) ''listener_rejections'' = PInt (t_listener_rejections t)"
  "get (telemetry_dict t) ''connection_attempts'' = PInt (t_connection_attempts t)"
  "get (telemetry_dict t) ''event_count'' = PInt (t_event_count t)"
  "get (telemetry_dict t) ''network_bytes'' = PInt (t_network_bytes t)"
  "get (telemetry_dict t) ''network_byte_limit'' = PInt (t_network_byte_limit t)"
  "has_shape (telemetry_dict t) TELEMETRY_KEYS"
  by (simp_all add: telemetry_dict_def get_obj has_shape_obj TELEMETRY_KEYS_def)

text \<open>The telemetry that validation returns, on its own.\<close>

definition telemetry_ok :: "nat \<Rightarrow> telemetry \<Rightarrow> bool" where
  "telemetry_ok n t \<longleftrightarrow>
     list_all (\<lambda>i. 0 \<le> i \<and> i \<le> MAX_COUNTER_VALUE) [t_inflight_events t, t_active_connections t, t_listener_rejections t,
       t_connection_attempts t] \<and>
     t_event_count t = int n \<and> n \<le> MAX_FINAL_EVENTS \<and> 0 \<le> t_network_bytes t \<and> t_network_bytes t \<le> t_network_byte_limit t \<and>
     t_network_byte_limit t \<le> MAX_NETWORK_BYTES \<and> t_complete t = telemetry_clean t"

lemma validate_telemetry_ok: "validate_telemetry v n = Inr t \<Longrightarrow> telemetry_ok n t"
  by (auto simp: validate_telemetry_def telemetry_ok_def Let_def bindE_eq_Inr)

lemma validate_telemetry_canon:
  assumes "telemetry_ok n t"
  shows "validate_telemetry (canon (telemetry_dict t)) n = Inr t"
proof -
  have uint: "bounded_uint (PInt i) m = Inr i" if "0 \<le> i" "i \<le> m" for i m using that by simp
  show ?thesis using assms
    by (cases t) (auto simp: validate_telemetry_def telemetry_dict_get telemetry_dict_fields as_bool_def uint telemetry_ok_def Let_def
        telemetry_clean_def MAX_FINAL_EVENTS_def)
qed

lemma telemetry_dict_valid: "telemetry_ok n t \<Longrightarrow> validate (telemetry_dict t) = Inr ()" "wf_val (telemetry_dict t)"
  by (simp_all add: telemetry_ok_def telemetry_dict_def validate_obj wf_obj MAX_SAFE_INTEGER_def MAX_COUNTER_VALUE_def
      MAX_FINAL_EVENTS_def MAX_NETWORK_BYTES_def)

lemma validate_final_Inr:
  assumes "validate_final db v nonce = Inr (events, t)"
  obtains raw where "validate_events db 0 raw = Inr events" "length events \<le> MAX_FINAL_EVENTS" "telemetry_ok (length events) t"
proof -
  from assms obtain raw where raw: "length raw \<le> MAX_FINAL_EVENTS" "validate_events db 0 raw = Inr events"
    "validate_telemetry (get v ''telemetry'') (length events) = Inr t"
    by (auto simp: validate_final_def bindE_eq_Inr not_less)
  with that validate_events_nth [OF raw(2)] validate_telemetry_ok [OF raw(3)] show thesis by metis
qed

lemma events_valid:
  assumes "validate_events db 0 raw = Inr events" "length events \<le> MAX_FINAL_EVENTS"
  shows "list_all (\<lambda>e. validate e = Inr ()) events" "list_all wf_val events"
proof -
  have n: "length events = length raw" "\<And>k. k < length raw \<Longrightarrow> validate_event db (raw ! k) (int k) = Inr (events ! k)"
    using validate_events_nth [OF assms(1)] by auto
  have "int k \<le> MAX_SAFE_INTEGER" if "k < length raw" for k
    using that n(1) assms(2) by (simp add: MAX_FINAL_EVENTS_def MAX_SAFE_INTEGER_def)
  with validate_event_valid [OF n(2)] n(1)
  show "list_all (\<lambda>e. validate e = Inr ()) events" "list_all wf_val events" by (simp_all add: list_all_length)
qed

lemma final_frame_wf:
  "list_all wf_val events \<Longrightarrow> wf_val (final_frame nonce events (telemetry_dict t))"
  by (simp add: final_frame_def wf_obj telemetry_dict_valid(2) wf_list_all)

lemma final_frame_valid:
  "list_all (\<lambda>e. validate e = Inr ()) events \<Longrightarrow> telemetry_ok n t \<Longrightarrow> utf8_encode nonce \<noteq> None \<Longrightarrow>
   validate (final_frame nonce events (telemetry_dict t)) = Inr ()"
  by (auto simp: final_frame_def validate_obj telemetry_dict_valid(1) validate_list_all PROTOCOL_VERSION_def)

lemma validate_final_canon:
  assumes "validate_final db v nonce = Inr (events, t)"
  shows "validate_final db (canon (final_frame nonce events (telemetry_dict t))) nonce = Inr (events, t)"
proof -
  from assms obtain raw where raw: "validate_events db 0 raw = Inr events" "length events \<le> MAX_FINAL_EVENTS"
    "telemetry_ok (length events) t" by (rule validate_final_Inr)
  let ?f = "final_frame nonce events (telemetry_dict t)"
  have g: "get (canon ?f) k = canon (get ?f k)" for k
    by (rule get_canon) (rule final_frame_wf [OF events_valid(2) [OF raw(1,2)]])
  have f: "get ?f ''type'' = S ''final''" "get ?f ''protocol_version'' = S PROTOCOL_VERSION" "get ?f ''nonce'' = PStr nonce"
    "get ?f ''events'' = PList events" "get ?f ''telemetry'' = telemetry_dict t" "has_shape ?f FINAL_KEYS"
    by (simp_all add: final_frame_def get_obj has_shape_obj FINAL_KEYS_def)
  show ?thesis using validate_events_canon [OF raw(1)] validate_telemetry_canon [OF raw(3)] raw(2)
    by (simp add: validate_final_def g f as_list_def canon_list_map)
qed


subsection \<open>From the child's exit to the parent's record\<close>

text \<open>A child that exits with status 0 has written a whole final frame, of a snapshot that validated.\<close>

lemma child_exit_zero:
  assumes "child_proxy_loop db fr factory security s = (s', 0)"
  obtains proxy events t out out' where "ch_proxy s' = Some proxy" "final_snapshot db (ch_nonce s') proxy = Inr (events, t)"
    "write_frame fr out (final_frame (ch_nonce s') events (telemetry_dict t)) MAX_STATUS_FRAME_BYTES = (out', last (ch_wire s'), Inr ())"
proof -
  define s1 where "s1 = stop_proxy (case child_session fr factory security (fresh_session s) of
             (s', Inl e) \<Rightarrow> s'\<lparr>ch_failed := True\<rparr> | (s', Inr _) \<Rightarrow> s')"
  define snapshot where "snapshot = (if ch_failed s1 then None else (case ch_proxy s1 of
               None \<Rightarrow> None
             | Some proxy \<Rightarrow> (case final_snapshot db (ch_nonce s1) proxy of Inl e \<Rightarrow> None | Inr x \<Rightarrow> Some x)))"
  obtain events t where e: "(case snapshot of None \<Rightarrow> (failure_events, failure_telemetry) | Some x \<Rightarrow> x) = (events, t)" by fastforce
  obtain s2 r where w: "child_write fr (final_frame (ch_nonce s1) events (telemetry_dict t)) s1 = (s2, r)" by fastforce
  have "(if \<not> ch_ready s1 then (fst (child_write fr (error_frame ''startup_failed'') s1), 1)
      else case r of Inl e \<Rightarrow> (s2, 1) | Inr _ \<Rightarrow> (s2, if snapshot = None then 1 else 0)) = (s', 0::int)"
    using assms unfolding child_proxy_loop_def s1_def [symmetric] Let_def snapshot_def [symmetric] e
    by (simp add: w cong: if_cong)
  then have r: "r = Inr ()" "s2 = s'" "snapshot = Some (events, t)"
    using e by (auto split: if_splits sum.splits)
  from r(3) obtain proxy where p: "ch_proxy s1 = Some proxy" "final_snapshot db (ch_nonce s1) proxy = Inr (events, t)"
    by (auto simp: snapshot_def split: if_splits option.splits sum.splits)
  obtain out' wire x where x: "write_frame fr (ch_status s1) (final_frame (ch_nonce s1) events (telemetry_dict t)) MAX_STATUS_FRAME_BYTES = (out', wire, x)"
    by (rule prod_cases3)
  with w r(1,2) have "x = Inr ()" "s' = s1\<lparr>ch_status := out', ch_wire := ch_wire s1 @ [wire]\<rparr>"
    by (auto simp: child_write_def)
  with that [of proxy events t "ch_status s1" out'] p x show thesis by simp
qed

text \<open>C21: an honest session is delivered whole. If the child's loop ends with exit status 0 and the status pipe carries
  its final frame to the parent, in any segments, then \<open>stop\<close>, when it could write the stop frame, sees the child
  exit with 0 and leave no descendant, ends in the stopped state with exactly the events and the telemetry the child
  had taken from its proxy and validated: the fail-closed record never replaces good evidence.\<close>

theorem honest_session_delivered:
  assumes "child_proxy_loop db fr factory security s = (s', 0)" "ch_nonce s' = ws_nonce st" "list_all is_hex_char (ws_nonce st)"
    "ws_state st = Running" "ws_process st = Some p" "delivers (ws_status st @ te_status env) (last (ch_wire s') @ rest)"
    "snd (snd (write_frame fr (te_control env) (stop_frame (ws_nonce st)) MAX_CONFIG_FRAME_BYTES)) = Inr ()"
    "pr_exit p = Inr 0" "process_group_exists p (pr_descendants p) = Inr False" "\<not> pr_running p" "terminate_process p = Inr purged"
  shows "\<exists>proxy events t. ch_proxy s' = Some proxy \<and> final_snapshot db (ws_nonce st) proxy = Inr (events, t) \<and>
    stop_worker db fr env st = (st\<lparr>ws_state := Stopped, ws_events := events, ws_telemetry := t, ws_purge_verified := purged,
      ws_pending_purge := purged\<rparr>, Inr ())"
proof -
  from assms(1) obtain proxy events t out out' where c: "ch_proxy s' = Some proxy"
    "final_snapshot db (ch_nonce s') proxy = Inr (events, t)"
    "write_frame fr out (final_frame (ch_nonce s') events (telemetry_dict t)) MAX_STATUS_FRAME_BYTES = (out', last (ch_wire s'), Inr ())"
    by (rule child_exit_zero)
  let ?f = "final_frame (ws_nonce st) events (telemetry_dict t)"
  from c(2) obtain v where v: "validate_final db v (ws_nonce st) = Inr (events, t)"
    by (auto simp: final_snapshot_def bindE_eq_Inr assms(2))
  then obtain raw where raw: "validate_events db 0 raw = Inr events" "length events \<le> MAX_FINAL_EVENTS"
    "telemetry_ok (length events) t" by (rule validate_final_Inr)
  have ok: "validate ?f = Inr ()" "wf_val ?f"
    using final_frame_valid [OF events_valid(1) [OF raw(1,2)] raw(3)] final_frame_wf [OF events_valid(2) [OF raw(1,2)]]
      hex_encodable [OF assms(3)] by auto
  have "\<exists>pipe'. read_frame MAX_STATUS_FRAME_BYTES (ws_status st @ te_status env) = (pipe', Inr (canon ?f)) \<and> delivers pipe' rest"
  proof (rule frame_read_back)
    show "write_frame fr out ?f MAX_STATUS_FRAME_BYTES = (out', last (ch_wire s'), Inr ())" using c(3) assms(2) by simp
    show "jsonable (canon ?f)" using ok by (rule validate_jsonable)
    show "scalars (canon ?f)" using validate_scalars(1) [OF validate_canon [OF ok(1)]] .
  qed (simp_all add: assms(6) MAX_STATUS_FRAME_BYTES_def final_frame_def obj_def)
  then have "stop_exchange db fr env st p = Inr (events, t)"
    using assms(7-9) validate_final_canon [OF v] by (auto simp: stop_exchange_def split: prod.split sum.split)
  then show ?thesis using c(1,2) assms(2,4,5,10,11)
    by (simp add: stop_active settle_def)
qed

end
