(* ===== verification/Worker_Samples.thy ===== *)
theory Worker_Samples
  imports Worker_Delivery Egress_Samples
begin

section \<open>Egress worker: a concrete session\<close>

text \<open>
  One session of the worker from the start frame to the exit of the child, evaluated: the parent starts a child for a
  request, the child drops its privileges, serves one request to \<open>http://a.com\<close> and is stopped. The session is an
  instance of every property of the worker theories, so none of their hypotheses is empty.
\<close>

definition sample_nonce :: pystr where "sample_nonce = replicate 64 97"

definition sample_config :: worker where
  "sample_config = \<lparr>wk_bind_host = str ''10.0.0.1'', wk_bind_port = 3128, wk_client = str ''10.0.0.2'', wk_uid = 990, wk_gid = 991,
     wk_request = obj [(''budgets'', obj [(''wall_clock_sec'', PInt 20)])]\<rparr>"

definition sample_egress_event :: pyval where
  "sample_egress_event = egress_event 0 (S ''network_request'') (Some (str ''http://a.com'')) None (S ''allowed'')"

definition sample_telemetry :: telemetry where
  "sample_telemetry = \<lparr>t_complete = True, t_started = True, t_closed = True, t_event_overflow = False, t_inflight_events = 0,
     t_active_connections = 0, t_listener_rejections = 0, t_connection_attempts = 1, t_event_count = 1, t_network_bytes = 300,
     t_network_byte_limit = 4096\<rparr>"

subsection \<open>Room for a frame\<close>

text \<open>An upper bound on the length of the text of a value without floats, which does not depend on the order of keys.\<close>

fun json_room :: "pyval \<Rightarrow> nat" and json_room_list :: "pyval list \<Rightarrow> nat" and json_room_dict :: "pydict \<Rightarrow> nat" where
  "json_room (PStr s) = 12 * length s + 2"
| "json_room (PInt i) = length (dump_int i)"
| "json_room (PList xs) = 2 + json_room_list xs"
| "json_room (PDict d) = 2 + json_room_dict d"
| "json_room _ = 5"
| "json_room_list [] = 0"
| "json_room_list (x # xs) = 1 + json_room x + json_room_list xs"
| "json_room_dict [] = 0"
| "json_room_dict ((k, v) # d) = 12 * length (key_str k) + 4 + json_room v + json_room_dict d"

lemma json_room_sums:
  "json_room_dict d = sum_list (map (\<lambda>(k, v). 12 * length (key_str k) + 4 + json_room v) d)"
  by (induction d) auto

lemma json_room_sort: "json_room_dict (sort_key f d) = json_room_dict d"
proof -
  let ?g = "\<lambda>(k, v). 12 * length (key_str k) + 4 + json_room v"
  have "sum_mset (mset (map ?g (sort_key f d))) = sum_mset (mset (map ?g d))" by (simp only: mset_map mset_sort)
  then show ?thesis by (simp only: json_room_sums sum_mset_sum_list)
qed

lemma json_room_canon [simp]:
  "json_room (canon v) = json_room v" "json_room_list (canon_list xs) = json_room_list xs"
  "json_room_dict (canon_dict d) = json_room_dict d"
  by (induction v and xs and d rule: canon_canon_list_canon_dict.induct) (simp_all add: json_room_sort)

lemma asc_char_room: "length (asc (esc_char c)) \<le> 12"
proof -
  have "hex_digit (c mod 16) \<le> 126" "c < 32 \<Longrightarrow> hex_digit (c div 16) \<le> 126" by (auto simp: hex_digit_def)
  then show ?thesis by (auto simp: esc_char_def ascii_char_id) (simp add: ascii_char_def unicode_escape_def Let_def)
qed

lemma asc_str_room: "length (asc (dump_str s)) \<le> 12 * length s + 2"
proof -
  have "length (asc (concat (map esc_char s))) \<le> 12 * length s"
  proof (induction s)
    case (Cons c s)
    with asc_char_room [of c] show ?case by simp
  qed simp
  then show ?thesis by (simp add: ascii_char_id)
qed

lemma asc_int: "length (asc (dump_int i)) = length (dump_int i)"
proof -
  have "asc (dec n) = dec n" for n
    using dec_digits [of n] by (intro asc_id) (auto simp: list_all_iff is_digit_def)
  then show ?thesis by (simp add: dump_int_def ascii_char_id)
qed

lemma dump_room:
  "jsonable v \<Longrightarrow> length (asc (dump fr v)) \<le> json_room v"
  "jsonable_list xs \<Longrightarrow> length (asc (dump_elems fr xs)) \<le> json_room_list xs"
  "jsonable_dict d \<Longrightarrow> length (asc (dump_members fr d)) \<le> json_room_dict d"
proof (induction fr v and fr xs and fr d rule: dump_dump_elems_dump_members.induct)
  case (12 fr k v d)
  then show ?case using asc_str_room [of "key_str k"] by (auto simp: ascii_char_id simp del: asc_dump_str)
next
  case (5 fr s)
  then show ?case using asc_str_room [of s] by (simp del: asc_dump_str)
qed (auto simp: asc_int ascii_char_id str_def simp del: asc_dump_str)

definition no_float :: "pyfloat \<Rightarrow> pystr" where "no_float f = []"

definition frame_bytes :: "pyval \<Rightarrow> bytes" where
  "frame_bytes v = (let b = map byte_of (asc (dump no_float (canon v))) in be_bytes 4 (length b) @ b)"

text \<open>A write end that takes whatever is offered, one turn per byte.\<close>

definition patient :: "pyval \<Rightarrow> pipe_out list" where
  "patient v = replicate (length (frame_bytes v)) (Wrote 1)"

lemma write_all_patient: "write_all (replicate (length f) (Wrote 1) @ out) f sent = (out, sent @ f, Inr ())"
proof (induction f arbitrary: sent)
  case Nil
  then show ?case by (cases out) simp_all
qed (simp add: Let_def)

lemma frame_written:
  assumes "validate v = Inr ()" "wf_val v" "is_dict v" "json_room v \<le> m"
  shows "write_frame no_float (patient v @ out) v m = (out, frame_bytes v, Inr ())"
proof -
  have j: "jsonable (canon v)" using assms(1,2) by (rule validate_jsonable)
  have "dump no_float (canon v) \<noteq> []" "asc (dump no_float (canon v)) \<noteq> []" using assms(3) by (cases v; simp add: ascii_char_id)+
  moreover have "length (asc (dump no_float (canon v))) \<le> m" using dump_room(1) [OF j, of no_float] assms(4) by simp
  moreover have "dumpable v" "finite_floats v" using validate_dumpable [OF assms(1)] by auto
  ultimately have "encode_frame no_float v m = Inr (frame_bytes v)"
    by (simp add: encode_frame_def ascii_json_def frame_bytes_def Let_def)
  then show ?thesis using write_all_patient [of "frame_bytes v" out "[]"] by (simp add: write_frame_def patient_def)
qed

lemma frame_arrives:
  assumes "validate v = Inr ()" "wf_val v" "is_dict v" "json_room v \<le> m" "m < 2 ^ 32" "delivers pipe (frame_bytes v @ rest)"
  shows "\<exists>pipe'. read_frame m pipe = (pipe', Inr (canon v)) \<and> delivers pipe' rest"
  using frame_read_back [OF frame_written [OF assms(1-4), of "[]"] assms(5,3) validate_jsonable [OF assms(1,2)]
      validate_scalars(1) [OF validate_canon [OF assms(1)]] assms(6)] .

subsection \<open>The session of the child\<close>

definition sample_factory :: proxy_factory where
  "sample_factory request host port client = Inr \<lparr>cp_start = Inr (host, port), cp_stop = Inr (),
     cp_events = Inr [sample_egress_event], cp_telemetry = Inr (telemetry_dict sample_telemetry)\<rparr>"

definition sample_start :: pyval where "sample_start = start_frame sample_config sample_nonce"
definition sample_ready :: pyval where
  "sample_ready = ready_frame sample_nonce (str ''10.0.0.1'') 3128 (expected_security_receipt 990 991)"
definition sample_final :: pyval where
  "sample_final = final_frame sample_nonce [sample_egress_event] (telemetry_dict sample_telemetry)"

definition sample_child :: child where
  "sample_child = \<lparr>ch_control = [Interrupted, Data (frame_bytes sample_start), Data (frame_bytes (stop_frame sample_nonce))],
     ch_status = patient sample_ready @ patient sample_final, ch_wire = [], ch_log = [], ch_nonce = replicate 64 48, ch_proxy = None,
     ch_ready = False, ch_failed = False\<rparr>"

lemma sample_nonce_hex: "list_all is_hex_char sample_nonce" "length sample_nonce = 64"
  by (simp_all add: sample_nonce_def is_hex_char_def list_all_iff)

lemma sample_nonce_valid: "validate (PStr sample_nonce) = Inr ()"
  using hex_encodable [OF sample_nonce_hex(1)] by auto

lemma sample_event_valid: "validate_event ascii_db sample_egress_event 0 = Inr sample_egress_event"
proof -
  have "canonical_event_origin ascii_db (S ''http://a.com'') = Inr (str ''http://a.com'')"
  proof -
    have "event_hostname ascii_db \<lparr>sr_scheme = str ''http'', sr_netloc = str ''a.com'', sr_path = [], sr_query = [], sr_fragment = []\<rparr> =
        Inr (str ''a.com'')"
      by (simp add: event_hostname_def sample_host) (simp add: url_eval ip_eval event_host_ok_def event_unsafe_host_def WORKER_UNSAFE_SUFFIXES_def)
    then show ?thesis
      by (simp add: event_origin_Inr sample_split sample_port event_spelling_def) (simp add: str_def utf8_char_def)
  qed
  then show ?thesis
    by (simp add: sample_egress_event_def validate_event_def egress_event_shape egress_event_get disposition_known unless_none_def)
      (simp add: str_def)
qed

lemma sample_final_ok: "validate_final ascii_db sample_final sample_nonce = Inr ([sample_egress_event], sample_telemetry)"
proof -
  have "validate_telemetry (telemetry_dict sample_telemetry) 1 = Inr sample_telemetry"
    by (simp add: validate_telemetry_def telemetry_dict_fields as_bool_def bounded_uint_def MAX_COUNTER_VALUE_def MAX_NETWORK_BYTES_def
        MAX_FINAL_EVENTS_def Let_def)
      (simp add: sample_telemetry_def telemetry_clean_def)
  then show ?thesis using sample_event_valid
    by (simp add: sample_final_def validate_final_def final_frame_def get_obj has_shape_obj FINAL_KEYS_def as_list_def MAX_FINAL_EVENTS_def)
qed

lemmas frame_defs = sample_start_def start_frame_def sample_ready_def ready_frame_def expected_security_receipt_def sample_final_def
  final_frame_def stop_frame_def sample_config_def PROTOCOL_VERSION_def

lemma sample_final_valid: "validate sample_final = Inr ()" "wf_val sample_final"
proof -
  obtain raw where raw: "validate_events ascii_db 0 raw = Inr [sample_egress_event]" "length [sample_egress_event] \<le> MAX_FINAL_EVENTS"
    "telemetry_ok (length [sample_egress_event]) sample_telemetry" using sample_final_ok by (rule validate_final_Inr)
  show "validate sample_final = Inr ()" unfolding sample_final_def
    using events_valid(1) [OF raw(1,2)] raw(3) hex_encodable [OF sample_nonce_hex(1)] by (rule final_frame_valid)
  show "wf_val sample_final" unfolding sample_final_def by (rule final_frame_wf [OF events_valid(2) [OF raw(1,2)]])
qed

lemma sample_frames_valid:
  "validate sample_start = Inr ()" "validate sample_ready = Inr ()" "validate (stop_frame sample_nonce) = Inr ()"
  "wf_val sample_start" "wf_val sample_ready" "wf_val (stop_frame sample_nonce)"
  using sample_nonce_valid
  by (simp_all add: frame_defs validate_obj wf_obj MAX_SAFE_INTEGER_def del: validate.simps(3))
    (simp_all add: MAX_SAFE_INTEGER_def)

lemma sample_frames_room:
  "json_room sample_start \<le> MAX_CONFIG_FRAME_BYTES" "json_room (stop_frame sample_nonce) \<le> MAX_CONFIG_FRAME_BYTES"
  "json_room sample_ready \<le> MAX_STATUS_FRAME_BYTES" "json_room sample_final \<le> MAX_STATUS_FRAME_BYTES"
  using sample_nonce_hex(2)
  by (simp_all add: frame_defs obj_def MAX_CONFIG_FRAME_BYTES_def MAX_STATUS_FRAME_BYTES_def dump_int_def dec.simps
      sample_egress_event_def egress_event_def telemetry_dict_def sample_telemetry_def)

lemma sample_frames_dict: "is_dict sample_start" "is_dict sample_ready" "is_dict sample_final" "is_dict (stop_frame sample_nonce)"
  by (simp_all add: frame_defs obj_def)

lemma frame_bytes_nonempty: "frame_bytes v \<noteq> []"
  using length_be_bytes [of 4 0] by (auto simp: frame_bytes_def Let_def simp del: length_be_bytes)

lemma sample_control:
  "\<exists>pipe. read_frame MAX_CONFIG_FRAME_BYTES (ch_control sample_child) = (pipe, Inr (canon sample_start)) \<and>
     delivers pipe (frame_bytes (stop_frame sample_nonce))"
  "delivers pipe (frame_bytes (stop_frame sample_nonce)) \<Longrightarrow>
     \<exists>pipe'. read_frame MAX_CONFIG_FRAME_BYTES pipe = (pipe', Inr (canon (stop_frame sample_nonce)))"
proof -
  have small: "MAX_CONFIG_FRAME_BYTES < 2 ^ 32" by (simp add: MAX_CONFIG_FRAME_BYTES_def)
  show "\<exists>pipe. read_frame MAX_CONFIG_FRAME_BYTES (ch_control sample_child) = (pipe, Inr (canon sample_start)) \<and>
     delivers pipe (frame_bytes (stop_frame sample_nonce))"
    by (rule frame_arrives [OF sample_frames_valid(1,4) sample_frames_dict(1) sample_frames_room(1) small])
      (simp add: sample_child_def frame_bytes_nonempty)
  assume "delivers pipe (frame_bytes (stop_frame sample_nonce))"
  then show "\<exists>pipe'. read_frame MAX_CONFIG_FRAME_BYTES pipe = (pipe', Inr (canon (stop_frame sample_nonce)))"
    using frame_arrives [OF sample_frames_valid(3,6) sample_frames_dict(4) sample_frames_room(2) small, of pipe "[]"] by auto
qed

lemma sample_child_config:
  "validate_child_config (canon sample_start) = Inr \<lparr>cc_nonce = sample_nonce, cc_request = canon (wk_request sample_config),
     cc_bind_host = str ''10.0.0.1'', cc_bind_port = 3128, cc_client = str ''10.0.0.2'', cc_wall_clock = 20\<rparr>"
proof -
  have g: "get (canon sample_start) k = canon (get sample_start k)" for k by (rule get_canon [OF sample_frames_valid(4)])
  have kind: "\<not> v4_global (quad 10 0 0 1)" "\<not> v4_global (quad 10 0 0 2)"
    by (simp_all add: v4_global_def v4_private_def v4_private_networks_def in_net_def quad_def)
  have ips: "canonical_local_ip (S ''10.0.0.1'') True = Inr (str ''10.0.0.1'')"
    "canonical_local_ip (S ''10.0.0.2'') False = Inr (str ''10.0.0.2'')"
    using kind sample_plain by (simp_all add: canonical_local_ip_def sample_ips in_net_def quad_def)
  have f: "get sample_start ''type'' = S ''start''" "get sample_start ''protocol_version'' = S PROTOCOL_VERSION"
    "get sample_start ''nonce'' = PStr sample_nonce" "get sample_start ''request'' = wk_request sample_config"
    "get sample_start ''bind_host'' = S ''10.0.0.1''" "get sample_start ''bind_port'' = PInt 3128"
    "get sample_start ''allowed_client_ip'' = S ''10.0.0.2''" "has_shape sample_start CONFIG_KEYS"
    by (simp_all add: sample_start_def start_frame_def get_obj has_shape_obj CONFIG_KEYS_def) (simp_all add: sample_config_def)
  have "wf_val (wk_request sample_config)" by (simp add: sample_config_def wf_obj)
  from get_canon [OF this, of "''budgets''"] have b: "get (canon (wk_request sample_config)) ''budgets'' = canon (obj [(''wall_clock_sec'', PInt 20)])"
    by (simp add: sample_config_def get_obj)
  have "wf_val (obj [(''wall_clock_sec'', PInt 20)])" by (simp add: wf_obj)
  from get_canon [OF this, of "''wall_clock_sec''"] have "get (canon (obj [(''wall_clock_sec'', PInt 20)])) ''wall_clock_sec'' = PInt 20"
    by (simp add: get_obj)
  moreover have "is_dict (canon (wk_request sample_config))" "is_dict (canon (obj [(''wall_clock_sec'', PInt 20)]))"
    by (simp_all add: sample_config_def obj_def)
  ultimately show ?thesis using sample_nonce_hex
    by (simp add: validate_child_config_def wall_clock_from_config_def g f ips b as_str_def)
qed

lemma sample_session:
  "\<exists>pipe. child_session no_float sample_factory (expected_security_receipt 990 991) (sample_child\<lparr>ch_log := l\<rparr>) =
     (sample_child\<lparr>ch_log := l @ [Build_proxy, Start_proxy], ch_control := pipe, ch_status := patient sample_final,
        ch_wire := [frame_bytes sample_ready], ch_nonce := sample_nonce, ch_ready := True,
        ch_proxy := Some \<lparr>cp_start = Inr (str ''10.0.0.1'', 3128), cp_stop = Inr (),
           cp_events = Inr [sample_egress_event], cp_telemetry = Inr (telemetry_dict sample_telemetry)\<rparr>\<rparr>, Inr ())"
proof -
  obtain p1 p2 where p: "read_frame MAX_CONFIG_FRAME_BYTES (ch_control sample_child) = (p1, Inr (canon sample_start))"
    "read_frame MAX_CONFIG_FRAME_BYTES p1 = (p2, Inr (canon (stop_frame sample_nonce)))"
    using sample_control by metis
  have w: "write_frame no_float (patient sample_ready @ out) sample_ready MAX_STATUS_FRAME_BYTES = (out, frame_bytes sample_ready, Inr ())" for out
    by (rule frame_written) (simp_all add: sample_frames_valid sample_frames_dict sample_frames_room)
  have stop: "py_eq (canon (stop_frame sample_nonce)) (stop_frame sample_nonce)"
    using sample_frames_valid(3,6) by (rule canon_py_eq)
  show ?thesis
    by (rule exI [of _ p2], simp add: child_session_def bindA_def child_read_def p sample_child_config liftA_def modA_def note_action_def
        sample_factory_def child_write_def w stop flip: sample_ready_def)
      (simp add: sample_child_def w p stop modA_def liftA_def)
qed

lemma sample_loop:
  "\<exists>s'. child_proxy_loop ascii_db no_float sample_factory (expected_security_receipt 990 991) (sample_child\<lparr>ch_log := l\<rparr>) = (s', 0) \<and>
     ch_nonce s' = sample_nonce \<and> last (ch_wire s') = frame_bytes sample_final \<and>
     ch_log s' = l @ [Build_proxy, Start_proxy, Stop_proxy]"
proof -
  obtain pipe where s: "child_session no_float sample_factory (expected_security_receipt 990 991) (sample_child\<lparr>ch_log := l\<rparr>) =
     (sample_child\<lparr>ch_log := l @ [Build_proxy, Start_proxy], ch_control := pipe, ch_status := patient sample_final,
        ch_wire := [frame_bytes sample_ready], ch_nonce := sample_nonce, ch_ready := True,
        ch_proxy := Some \<lparr>cp_start = Inr (str ''10.0.0.1'', 3128), cp_stop = Inr (),
           cp_events = Inr [sample_egress_event], cp_telemetry = Inr (telemetry_dict sample_telemetry)\<rparr>\<rparr>, Inr ())"
    using sample_session by blast
  have fresh: "fresh_session (sample_child\<lparr>ch_log := l\<rparr>) = sample_child\<lparr>ch_log := l\<rparr>"
    by (simp add: fresh_session_def sample_child_def)
  have w: "write_frame no_float (patient sample_final) sample_final MAX_STATUS_FRAME_BYTES = ([], frame_bytes sample_final, Inr ())"
    using frame_written [OF sample_final_valid sample_frames_dict(3) sample_frames_room(4), of "[]"] by simp
  have f: "final_snapshot ascii_db sample_nonce \<lparr>cp_start = a, cp_stop = b,
       cp_events = Inr [sample_egress_event], cp_telemetry = Inr (telemetry_dict sample_telemetry)\<rparr> = Inr ([sample_egress_event], sample_telemetry)" for a b
    using sample_final_ok by (simp add: final_snapshot_def sample_final_def)
  show ?thesis
    by (simp add: child_proxy_loop_def fresh s stop_proxy_def f child_write_def Let_def w flip: sample_final_def)
      (simp add: sample_child_def)
qed

subsection \<open>The instances\<close>

theorem frame_roundtrip_witness:
  "(\<exists>pipe'. read_frame MAX_STATUS_FRAME_BYTES [Interrupted, Data (frame_bytes sample_final), Data [1, 2]] = (pipe', Inr (canon sample_final)) \<and>
     delivers pipe' [1, 2]) \<and>
   write_frame no_float (patient sample_final) sample_final MAX_STATUS_FRAME_BYTES = ([], frame_bytes sample_final, Inr ())"
proof -
  have w: "write_frame no_float (patient sample_final) sample_final MAX_STATUS_FRAME_BYTES = ([], frame_bytes sample_final, Inr ())"
    using frame_written [OF sample_final_valid sample_frames_dict(3) sample_frames_room(4), of "[]"] by simp
  have "delivers [Interrupted, Data (frame_bytes sample_final), Data [1, 2]] (frame_bytes sample_final @ [1, 2])"
    by (simp add: frame_bytes_nonempty)
  with frame_roundtrip [OF w _ sample_frames_dict(3) validate_jsonable [OF sample_final_valid]
      validate_scalars(1) [OF validate_canon [OF sample_final_valid(1)]]] w
  show ?thesis by (simp add: MAX_STATUS_FRAME_BYTES_def)
qed

theorem worker_final_is_evidence_witness:
  "validate_final ascii_db sample_final sample_nonce = Inr ([sample_egress_event], sample_telemetry) \<and>
   (\<exists>be. validate_event_v2 ascii_db sample_egress_event = Inr be \<and> e_sequence be = 0 \<and> e_source be = ''egress'')"
proof -
  have "plain_destination ascii_db sample_egress_event"
    by (simp add: plain_destination_def sample_egress_event_def egress_event_get numeric_spelling_def sample_split sample_host)
      (simp add: numeric_host_def numeric_host_label_def url_eval)
  with worker_final_is_evidence [OF sample_final_ok] sample_final_ok show ?thesis by simp
qed

definition sample_ops :: sec_ops where
  "sample_ops = \<lparr>so_call = (\<lambda>c. Inr ()), so_parent = (\<lambda>n. 400), so_uid = Inr 990, so_gid = Inr 991, so_uids = Inr [990, 990, 990],
     so_gids = Inr [991, 991, 991], so_groups = Inr 0, so_no_new_privs = Inr True, so_dumpable = Inr False, so_death_signal = Inr 9,
     so_capabilities_zero = Inr True, so_environment = Inr 0,
     so_limit = (\<lambda>r. Inr (if r = 9 then [256 * 1024 * 1024, 256 * 1024 * 1024] else if r = 7 then [64, 64]
       else if r = 6 then [32, 32] else [0, 0]))\<rparr>"

lemma sample_sandbox:
  "apply_worker_sandbox sample_ops 990 991 400 sample_child =
   (sample_child\<lparr>ch_log := map Sys (sandbox_calls 990 991)\<rparr>, Inr (expected_security_receipt 990 991))"
proof -
  have all: "sys_all sample_ops cs s = (s\<lparr>ch_log := ch_log s @ map Sys cs\<rparr>, Inr ())" for cs s
    by (induction cs arbitrary: s) (simp_all add: liftA_def bindA_def sys_def note_action_def modA_def sample_ops_def)
  have "observed_receipt sample_ops True = Inr (expected_security_receipt 990 991)"
    by (simp add: observed_receipt_def observed_limit_def sample_ops_def expected_security_receipt_def ints_def)
  moreover have "validate_security_receipt (expected_security_receipt 990 991) 990 991 = Inr (expected_security_receipt 990 991)"
    by (simp add: validate_security_receipt_def expected_security_receipt_def has_shape_obj SECURITY_KEYS_def) (simp add: obj_def)
  ultimately show ?thesis
    by (simp add: apply_worker_sandbox_def bindA_def all liftA_def sandbox_calls_eq sample_child_def del: sys_all.simps)
      (simp add: sample_ops_def)
qed

theorem child_sandboxed_before_code_witness:
  "\<exists>s'. child_entry ascii_db no_float sample_ops (Inr ()) (Inr []) (\<lambda>_. Inr sample_factory) 400 990 991 sample_child = (s', 0) \<and>
     Start_proxy \<in> set (ch_log s') \<and> attested sample_ops 990 991 400 \<and>
     (\<exists>rest. ch_log s' = map Sys (sandbox_calls 990 991) @ Execute_sources # rest)"
proof -
  obtain s' where s': "child_proxy_loop ascii_db no_float sample_factory (expected_security_receipt 990 991)
      (sample_child\<lparr>ch_log := map Sys (sandbox_calls 990 991) @ [Execute_sources]\<rparr>) = (s', 0)"
    "ch_log s' = (map Sys (sandbox_calls 990 991) @ [Execute_sources]) @ [Build_proxy, Start_proxy, Stop_proxy]"
    using sample_loop by blast
  have e: "child_entry ascii_db no_float sample_ops (Inr ()) (Inr []) (\<lambda>_. Inr sample_factory) 400 990 991 sample_child = (s', 0)"
    by (simp add: child_entry_def child_setup_def bindA_def liftA_def sample_sandbox note_action_def modA_def s'(1))
  have "ch_log sample_child = []" "Start_proxy \<in> set (ch_log s')" by (simp_all add: sample_child_def s'(2))
  with child_sandboxed_before_code [OF e, of Start_proxy] e show ?thesis by auto
qed

definition sample_process :: process where
  "sample_process = \<lparr>pr_pid = 500, pr_marked = True, pr_running = False, pr_exit = Inr 0, pr_descendants = No_such_process,
     pr_sigkill = Inr (), pr_reaped = True, pr_probes = [(No_such_process, False)]\<rparr>"

definition sample_spawn :: spawn_env where
  "sample_spawn = \<lparr>se_identity = Inr (), se_pipes = Inr (), se_process = Inr sample_process, se_nonce = sample_nonce,
     se_control = patient sample_start, se_status = [Data (frame_bytes sample_ready)], se_exited = False\<rparr>"

definition sample_stop :: stop_env where
  "sample_stop = \<lparr>te_control = patient (stop_frame sample_nonce), te_status = [Data (frame_bytes sample_final)]\<rparr>"

definition sample_running :: worker_state where
  "sample_running = new_worker\<lparr>ws_process := Some sample_process, ws_nonce := sample_nonce, ws_ready := Some sample_ready,
     ws_status := fst (read_frame MAX_STATUS_FRAME_BYTES [Data (frame_bytes sample_ready)]), ws_state := Running\<rparr>"

lemma delivers_nothing: "delivers p [] \<Longrightarrow> delivers (p @ q) b = delivers q b"
proof (induction p)
  case (Cons turn p)
  then show ?case by (cases turn) auto
qed simp

lemma sample_status:
  "read_frame MAX_STATUS_FRAME_BYTES [Data (frame_bytes sample_ready)] = (ws_status sample_running, Inr (canon sample_ready))"
  "delivers (ws_status sample_running @ q) b = delivers q b"
proof -
  have small: "MAX_STATUS_FRAME_BYTES < 2 ^ 32" by (simp add: MAX_STATUS_FRAME_BYTES_def)
  have "delivers [Data (frame_bytes sample_ready)] (frame_bytes sample_ready @ [])" by (simp add: frame_bytes_nonempty)
  from frame_arrives [OF sample_frames_valid(2,5) sample_frames_dict(2) sample_frames_room(3) small this]
  obtain pipe where p: "read_frame MAX_STATUS_FRAME_BYTES [Data (frame_bytes sample_ready)] = (pipe, Inr (canon sample_ready))"
    "delivers pipe []" by blast
  then have "ws_status sample_running = pipe" by (simp add: sample_running_def)
  with p show "read_frame MAX_STATUS_FRAME_BYTES [Data (frame_bytes sample_ready)] = (ws_status sample_running, Inr (canon sample_ready))"
    "delivers (ws_status sample_running @ q) b = delivers q b" by (simp_all add: delivers_nothing)
qed

lemma sample_terminated: "terminate_process sample_process = Inr True"
  by (simp add: terminate_process_def wait_process_group_empty_def process_group_exists_def sample_process_def)

lemma sample_stop_written:
  "write_frame no_float (patient (stop_frame sample_nonce)) (stop_frame sample_nonce) MAX_CONFIG_FRAME_BYTES =
     ([], frame_bytes (stop_frame sample_nonce), Inr ())"
  using frame_written [OF sample_frames_valid(3,6) sample_frames_dict(4) sample_frames_room(2), of "[]"] by simp

theorem honest_session_delivered_witness:
  "\<exists>events t. stop_worker ascii_db no_float sample_stop sample_running = (sample_running\<lparr>ws_state := Stopped, ws_events := events,
     ws_telemetry := t, ws_purge_verified := True, ws_pending_purge := True\<rparr>, Inr ())"
proof -
  obtain s' where s': "child_proxy_loop ascii_db no_float sample_factory (expected_security_receipt 990 991) (sample_child\<lparr>ch_log := []\<rparr>) = (s', 0)"
    "ch_nonce s' = sample_nonce" "last (ch_wire s') = frame_bytes sample_final" using sample_loop by blast
  have r: "ws_nonce sample_running = sample_nonce" "ws_state sample_running = Running" "ws_process sample_running = Some sample_process" by (simp_all add: sample_running_def new_worker_def)
  have "pr_exit sample_process = Inr 0" "process_group_exists sample_process (pr_descendants sample_process) = Inr False"
    "\<not> pr_running sample_process" by (simp_all add: sample_process_def process_group_exists_def)
  with honest_session_delivered [OF s'(1), of sample_running sample_process sample_stop "[]" True] s' r sample_nonce_hex(1)
    sample_terminated sample_stop_written frame_bytes_nonempty [of sample_final]
  show ?thesis by (auto simp: sample_stop_def sample_status)
qed

lemma sample_started: "fst (start_worker no_float sample_config sample_spawn new_worker) = sample_running"
proof -
  have w: "write_frame no_float (patient sample_start) (start_frame sample_config sample_nonce) MAX_CONFIG_FRAME_BYTES =
      ([], frame_bytes sample_start, Inr ())"
    using frame_written [OF sample_frames_valid(1,4) sample_frames_dict(1) sample_frames_room(1), of "[]"] by (simp add: sample_start_def)
  have f: "get sample_ready ''type'' = S ''ready''" "get sample_ready ''protocol_version'' = S PROTOCOL_VERSION"
    "get sample_ready ''nonce'' = PStr sample_nonce" "get sample_ready ''endpoint'' = PList [S ''10.0.0.1'', PInt 3128]"
    "get sample_ready ''security'' = expected_security_receipt 990 991" "has_shape sample_ready READY_KEYS"
    by (simp_all add: sample_ready_def ready_frame_def get_obj has_shape_obj READY_KEYS_def)
  have g: "get (canon sample_ready) k = canon (get sample_ready k)" for k by (rule get_canon [OF sample_frames_valid(5)])
  have "validate (expected_security_receipt 990 991) = Inr ()" "wf_val (expected_security_receipt 990 991)"
    by (simp_all add: expected_security_receipt_def validate_obj wf_obj MAX_SAFE_INTEGER_def)
  then have "py_eq (canon (expected_security_receipt 990 991)) (expected_security_receipt 990 991)" by (rule canon_py_eq)
  then have "validate_security_receipt (canon (expected_security_receipt 990 991)) 990 991 = Inr (expected_security_receipt 990 991)"
    by (simp add: validate_security_receipt_def) (simp add: expected_security_receipt_def has_shape_obj SECURITY_KEYS_def)
  then have "validate_ready (canon sample_ready) sample_nonce (str ''10.0.0.1'') 3128 990 991 = Inr sample_ready"
    by (simp add: validate_ready_def g f) (simp add: sample_ready_def)
  then show ?thesis
    by (simp add: start_worker_def readiness_def sample_spawn_def w sample_status Let_def) (simp add: new_worker_def sample_config_def sample_running_def)
qed


end
