(* ===== verification/Spec2Isabelle.thy ===== *)
theory Spec2Isabelle
  imports Probe_Runtime Guest_Facts Policy_Gate Browser_Decision Receipt_Samples Egress_Samples Worker_Samples
begin

text \<open>
  \<^bold>\<open>A verification library for cindermote.\<close>

  Cindermote runs untrusted material (an artefact, a web page, a language-model agent) in isolation, observes it from
  the host and ends with a signed receipt that says ALLOW or DENY. This library models the part of the program that
  decides and attests, in the terms of the Python source, and proves what makes those decisions trustworthy.

  \<^bold>\<open>The program.\<close> Three paths end in a receipt.

  \<^item> The \<^emph>\<open>agent probe\<close> (\<open>src/agent_probe\<close>, \<open>src/guest/agent_probe_agent.py\<close>). \<open>runner.py\<close> takes a signed job manifest,
    freezes it into a road, starts a microVM through \<open>firecracker_runtime.py\<close>, and builds the walked road, the
    difference and the receipt. While the guest runs, its proposals cross a line-based control channel to
    \<open>broker.py\<close>, which allows or trips. The guest seals its transcript with \<open>evidence.py\<close> on top of \<open>hpke.py\<close> and
    \<open>secretstream.py\<close>; the host checks the sealed bundle without the key. \<open>contract.py\<close>, \<open>canonical.py\<close>, \<open>protocol.py\<close>,
    \<open>ksl.py\<close> and \<open>receipt.py\<close> hold the documents, their canonical bytes, hashes and signatures.
  \<^item> The \<^emph>\<open>browser probe\<close>. \<open>mote/browser_contract.py\<close> canonicalises URLs and origins and validates requests,
    \<open>mote/browser_evidence.py\<close> validates and reduces the evidence. All traffic of the guest browser goes through
    \<open>broker/browser_egress_proxy.py\<close>, which runs as an unprivileged child of \<open>broker/browser_egress_worker.py\<close>.
  \<^item> The \<^emph>\<open>legacy detonation\<close>. \<open>observer/detectors.py\<close> records events, \<open>broker/broker.py\<close> decides outward requests,
    \<open>gate/policy_gate.py\<close> scores the report, \<open>observer/receipt.py\<close> builds, checks and signs the receipt of this path and
    of the browser probe.

  \<^bold>\<open>Conventions.\<close> \<open>Py_Prelude\<close> has the exceptions (\<open>exn\<close>), results (\<open>'a res = exn + 'a\<close>, \<open>Inl\<close> the raised exception) and
  their lemmas; \<open>Py_Act\<close> stateful code (\<open>('s, 'a) act\<close>, which keeps the state also when it raises) and its Hoare
  triples; \<open>Py_Values\<close> the JSON-like values \<open>pyval\<close> with Python's equality; \<open>Py_Bytes\<close> UTF-8, hexadecimal and base64 over
  8-bit words; \<open>Json_Text\<close>, \<open>Host_Io\<close> and \<open>Json_Strict\<close> the \<open>json\<close> module, with and without duplicate keys and
  \<open>ensure_ascii\<close>; \<open>Ip_Address\<close> and \<open>Http_Bytes\<close> what is used of \<open>ipaddress\<close> and of HTTP heads; \<open>Sha256\<close> SHA-256 and HMAC at
  32-bit width. Every \<open>raise\<close> and early return of a modelled function is a branch of its definition; exceptions keep
  their class and their message up to interpolated parts. Code that is not in the repository is an argument: the
  Unicode tables (\<open>unicode_db\<close>), the printing of floats, X25519 and the AEAD ciphers, the resolver and sockets, the
  clock, the answers of the kernel. Where a property needs a law of such an argument the law is a hypothesis, and a
  witness instantiates it.

  \<^bold>\<open>Agent probe.\<close>
  \<^item> \<open>Canonical\<close>, \<open>Protocol\<close>, \<open>Monitor\<close>: canonical bytes parse back to the value; the locales \<open>digest_function\<close>,
    \<open>trip_latch\<close> and \<open>hash_chain\<close> state the interfaces the later components rely on and are interpreted on them.
  \<^item> \<open>Agent_Contract\<close>, \<open>Contract_Facts\<close>, \<open>Agent_Receipt\<close>, \<open>Ksl\<close>: manifests, envelopes, roads, the difference and its verdict;
    envelopes verify, bind their payload, and the difference is ALLOW exactly for a clean run.
  \<^item> \<open>Agent_Broker\<close>: proposals are allowed exactly under the stated conditions, the log is a hash chain, a trip is final.
  \<^item> \<open>Hpke\<close>, \<open>Secretstream\<close>, \<open>Evidence\<close>, \<open>Evidence_Facts\<close>, \<open>Evidence_Session\<close>, \<open>Evidence_Checks\<close>: what is sealed opens,
    accepted bundles are gap-free chains; the loop of HKDF ends without overflow of its one-byte counter.
  \<^item> \<open>Guest_Agent\<close>, \<open>Guest_Facts\<close>: a run of the guest stays within its budgets whatever the model and the host send
    (locale \<open>guest_invariant\<close>).
  \<^item> \<open>Probe_Control\<close>, \<open>Control_Facts\<close>, \<open>Probe_Runtime\<close>, \<open>Runner\<close>: the control loop refines the broker and wipes the
    credential; a run is reported clean exactly when everything was verified; every failure of the runtime is reported.

  \<^bold>\<open>Browser probe.\<close>
  \<^item> \<open>Browser_Contract\<close>, \<open>Url_Canonical\<close>: normalisation of URLs, its fixed points and where it leaks exceptions.
  \<^item> \<open>Browser_Reducer\<close>, \<open>Browser_Decision\<close>: both reducers fail closed (locale \<open>fail_closed_reducer\<close>), and when exactly v1
    allows.
  \<^item> \<open>Egress_Policy\<close>, \<open>Egress_Proxy\<close>: construction, pinned resolution, byte budget, events, and the handling of one client
    including the tunnel. The handler sees its sockets as scripts of what each call returns. \<open>Egress_Steps\<close> has the
    atomic steps of the shared state as an inductive relation, so that every interleaving of handlers, listener and
    shutdown is covered, and the locales \<open>handler_frame\<close>, \<open>handler_body\<close> and \<open>handler_invariant\<close> that lift a law of the
    small operations to the whole handler; \<open>Egress_Facts\<close> interprets them.
  \<^item> \<open>Worker_Ipc\<close>, \<open>Worker_Checks\<close>, \<open>Worker_Agreement\<close>, \<open>Worker_Child\<close>, \<open>Worker_Parent\<close>, \<open>Worker_Delivery\<close>: the framed pipe, the
    validators of the privileged parent and their agreement with the browser contract, the privilege drop and the loop
    of the child, the lifecycle of the handle as a step relation, and the composition of both sides: nothing runs
    before the drop is attested, the parent fails closed, and an honest session is delivered unchanged.

  \<^bold>\<open>Legacy detonation and receipts.\<close>
  \<^item> \<open>Detectors\<close>, \<open>Outward_Broker\<close>, \<open>Policy_Gate\<close>: the engine's invariant, that its evidence is the multiset of what its
    events fired, and when the gate allows.
  \<^item> \<open>Receipt_Sections\<close>, \<open>Receipt_Browser\<close>, \<open>Receipt_Legacy\<close>, \<open>Receipt_Store\<close>, \<open>Receipt_Facts\<close>: construction, validation and
    signature of receipts; what an accepted ALLOW establishes on each path.

  \<open>Receipt_Samples\<close>, \<open>Egress_Samples\<close> and \<open>Worker_Samples\<close> hold concrete runs at which the properties are applied.

  \<^bold>\<open>Bounds and termination.\<close> Loops over data are structural. The parsers of JSON text take fuel of twice the length of
  the text plus one, which \<open>p_value_fuel\<close> shows to be enough for every text; SHA-256 and the
  HKDF loop recurse with a measure. Loops that wait for the outside (control channel, pipes, sockets, process scans)
  recurse over the script of what the outside does, and an exhausted script is the timeout the code raises; that the
  control loop and a guest run end is part of their properties.

  \<^bold>\<open>Not modelled.\<close> Threads beyond the atomic steps of the proxy and the locks of the broker; system calls, namespaces,
  subprocesses and file systems, which appear only as outcomes; the detonation orchestrator \<open>mote/detonate.py\<close>, most of
  \<open>mote/firecracker_runtime.py\<close> and \<open>observer/ptracer.py\<close>, whose behaviour is that of the operating system; the
  in-guest Chromium collector \<open>guest/browser_agent.py\<close>, all of whose output is untrusted input of the modelled
  validators; the HTTP client \<open>mote/firecracker_api.py\<close>; the incident gate with its canary probes; the registry checks
  of \<open>kernel_laws.py\<close>; logging, command-line and MCP front ends. Timing is not modelled beyond the order in which
  deadlines pass, and messages of exceptions only up to their fixed text.
\<close>

end
